(* ===== verification/Go_Base.thy ===== *)
theory Go_Base
  imports
    Main
    "HOL-Library.Char_ord"
    "HOL-Library.List_Lexorder"
    "HOL-Library.Product_Lexorder"
    "HOL-Library.Multiset"
begin

text \<open>
  What every component of the development shares: the Go library functions the sources call on
  strings (byte strings, so \<open>string\<close> is the type), the "find the first element with this name
  and mutate it through the pointer" idiom on slices, and the facts about stable sorting that
  make the order of an output independent of the order of its input.

  Case folding, white space and quoting follow Go on ASCII bytes; bytes from 128 on pass through
  unchanged.  On ASCII strings (and, for quoting, on printable UTF-8) this is the library's
  behaviour.  Go's 64-bit \<open>int\<close> is \<open>int\<close> where the sources only compare, count or print it.
\<close>

named_theorems first_match \<open>facts about finding, updating and removing the first match in a slice\<close>

section \<open>Strings\<close>

definition byte :: "char \<Rightarrow> nat" where
  "byte c = of_char c"

text \<open>\<open>strings.ToLower\<close> and \<open>strings.EqualFold\<close>.\<close>

definition lowerByte :: "char \<Rightarrow> char" where
  "lowerByte c = (if 65 \<le> byte c \<and> byte c \<le> 90 then char_of (byte c + 32) else c)"

definition toLower :: "string \<Rightarrow> string" where
  "toLower s = map lowerByte s"

definition equalFold :: "string \<Rightarrow> string \<Rightarrow> bool" where
  "equalFold a b \<longleftrightarrow> toLower a = toLower b"

text \<open>\<open>strings.TrimSpace\<close>.\<close>

definition isSpaceByte :: "char \<Rightarrow> bool" where
  "isSpaceByte c \<longleftrightarrow> byte c = 32 \<or> (9 \<le> byte c \<and> byte c \<le> 13)"

definition trimSpace :: "string \<Rightarrow> string" where
  "trimSpace s = rev (dropWhile isSpaceByte (rev (dropWhile isSpaceByte s)))"

text \<open>\<open>strings.Index\<close> for one byte: the text before it and the text after it.\<close>

fun cutByte :: "char \<Rightarrow> string \<Rightarrow> (string \<times> string) option" where
  "cutByte b [] = None"
| "cutByte b (c # s) =
     (if c = b then Some ([], s)
      else map_option (\<lambda>(l, r). (c # l, r)) (cutByte b s))"

text \<open>\<open>strings.Contains\<close>.\<close>

fun hasPrefix :: "string \<Rightarrow> string \<Rightarrow> bool" where
  "hasPrefix s [] = True"
| "hasPrefix [] (p # ps) = False"
| "hasPrefix (c # s) (p # ps) = (c = p \<and> hasPrefix s ps)"

fun strContains :: "string \<Rightarrow> string \<Rightarrow> bool" where
  "strContains [] sub = (sub = [])"
| "strContains (c # s) sub = (hasPrefix (c # s) sub \<or> strContains s sub)"

text \<open>\<open>strings.Join\<close>.\<close>

fun strJoin :: "string \<Rightarrow> string list \<Rightarrow> string" where
  "strJoin sep [] = []"
| "strJoin sep [x] = x"
| "strJoin sep (x # y # ys) = x @ sep @ strJoin sep (y # ys)"

text \<open>\<open>strconv.Atoi\<close>: an optional sign, at least one digit, the value within 64 bits.\<close>

definition isDigit :: "char \<Rightarrow> bool" where
  "isDigit c \<longleftrightarrow> 48 \<le> byte c \<and> byte c \<le> 57"

definition digitVal :: "char \<Rightarrow> nat" where
  "digitVal c = byte c - 48"

definition digitsVal :: "string \<Rightarrow> nat" where
  "digitsVal s = foldl (\<lambda>n c. 10 * n + digitVal c) 0 s"

definition parseDigits :: "string \<Rightarrow> nat option" where
  "parseDigits s = (if s \<noteq> [] \<and> list_all isDigit s then Some (digitsVal s) else None)"

definition atoi :: "string \<Rightarrow> int option" where
  "atoi s =
     (let (neg, ds) =
            (case s of [] \<Rightarrow> (False, [])
             | c # cs \<Rightarrow> if c = CHR ''-'' then (True, cs)
                        else if c = CHR ''+'' then (False, cs) else (False, s))
      in case parseDigits ds of
           None \<Rightarrow> None
         | Some n \<Rightarrow>
             (if neg then (if n \<le> 2 ^ 63 then Some (- int n) else None)
              else (if n < 2 ^ 63 then Some (int n) else None)))"

text \<open>The verbs \<open>%d\<close>, \<open>%q\<close> and \<open>%v\<close> (of a string slice) of \<open>fmt.Sprintf\<close>.\<close>

fun showNat :: "nat \<Rightarrow> string" where
  "showNat n = (if n < 10 then [char_of (48 + n)]
                else showNat (n div 10) @ [char_of (48 + n mod 10)])"

declare showNat.simps [simp del]

definition showInt :: "int \<Rightarrow> string" where
  "showInt i = (if i < 0 then CHR ''-'' # showNat (nat (- i)) else showNat (nat i))"

definition hexDigit :: "nat \<Rightarrow> char" where
  "hexDigit n = char_of (if n < 10 then 48 + n else 87 + n)"

definition quoteByte :: "char \<Rightarrow> string" where
  "quoteByte c =
     (let n = byte c; bs = CHR 0x5C in
      if n = 34 \<or> n = 92 then [bs, c]
      else if n = 7 then [bs, CHR ''a''] else if n = 8 then [bs, CHR ''b'']
      else if n = 12 then [bs, CHR ''f''] else if n = 10 then [bs, CHR ''n'']
      else if n = 13 then [bs, CHR ''r''] else if n = 9 then [bs, CHR ''t'']
      else if n = 11 then [bs, CHR ''v'']
      else if n < 32 \<or> n = 127 then [bs, CHR ''x'', hexDigit (n div 16), hexDigit (n mod 16)]
      else [c])"

definition goQuote :: "string \<Rightarrow> string" where
  "goQuote s = CHR 0x22 # concat (map quoteByte s) @ [CHR 0x22]"

definition showStrings :: "string list \<Rightarrow> string" where
  "showStrings xs = CHR ''['' # strJoin '' '' xs @ [CHR '']'']"

text \<open>The two characters beyond ASCII in the messages, as UTF-8.\<close>

definition emDash :: string where
  "emDash = [CHR 0xE2, CHR 0x80, CHR 0x94]"

definition rightArrow :: string where
  "rightArrow = [CHR 0xE2, CHR 0x86, CHR 0x92]"

lemmas go_string_eval =
  byte_def lowerByte_def toLower_def equalFold_def isSpaceByte_def trimSpace_def
  isDigit_def digitVal_def digitsVal_def parseDigits_def atoi_def

lemma equalFold_refl [simp]: "equalFold s s"
  by (simp add: equalFold_def)

lemma equalFold_sym: "equalFold a b = equalFold b a"
  by (auto simp: equalFold_def)

lemma cutByte_Some: "cutByte b s = Some (l, r) \<longleftrightarrow> s = l @ b # r \<and> b \<notin> set l"
proof (induction s arbitrary: l)
  case Nil
  then show ?case by simp
next
  case (Cons c s)
  then show ?case by (cases l) auto
qed

lemma cutByte_None: "cutByte b s = None \<longleftrightarrow> b \<notin> set s"
  by (induction s) auto

lemma hasPrefix_iff: "hasPrefix s p \<longleftrightarrow> (\<exists>r. s = p @ r)"
  by (induction s p rule: hasPrefix.induct) auto

text \<open>The loop of \<open>strings.Contains\<close> finds exactly the substrings.\<close>

lemma strContains_iff: "strContains s sub \<longleftrightarrow> (\<exists>a b. s = a @ sub @ b)"
proof (induction s)
  case Nil
  then show ?case by auto
next
  case (Cons c s)
  show ?case
  proof
    assume "strContains (c # s) sub"
    then consider "hasPrefix (c # s) sub" | "strContains s sub" by auto
    then show "\<exists>a b. c # s = a @ sub @ b"
    proof cases
      case 1
      then obtain r where "c # s = [] @ sub @ r" by (auto simp: hasPrefix_iff)
      then show ?thesis by blast
    next
      case 2
      with Cons.IH obtain a b where "s = a @ sub @ b" by blast
      then have "c # s = (c # a) @ sub @ b" by simp
      then show ?thesis by blast
    qed
  next
    assume "\<exists>a b. c # s = a @ sub @ b"
    then obtain a b where ab: "c # s = a @ sub @ b" by blast
    show "strContains (c # s) sub"
    proof (cases a)
      case Nil
      with ab have "hasPrefix (c # s) sub" by (simp only: hasPrefix_iff) auto
      then show ?thesis by simp
    next
      case (Cons d a')
      with ab have "\<exists>a b. s = a @ sub @ b" by auto
      with Cons.IH show ?thesis by simp
    qed
  qed
qed

lemma strContains_refl [simp]: "strContains s s"
  by (auto simp: strContains_iff intro: exI [of _ "[]"])

section \<open>Splitting and trimming\<close>

text \<open>\<open>strings.Split\<close> at one byte.\<close>

fun splitByte :: "char \<Rightarrow> string \<Rightarrow> string list" where
  "splitByte c [] = [[]]"
| "splitByte c (x # xs) =
     (if x = c then [] # splitByte c xs
      else (case splitByte c xs of [] \<Rightarrow> [[x]] | p # ps \<Rightarrow> (x # p) # ps))"

lemma splitByte_none: "c \<notin> set xs \<Longrightarrow> splitByte c xs = [xs]"
  by (induction xs) auto

lemma splitByte_two: "c \<notin> set xs \<Longrightarrow> splitByte c (xs @ c # ys) = xs # splitByte c ys"
  by (induction xs) auto

lemma trimSpace_idem: "trimSpace (trimSpace s) = trimSpace s"
proof -
  have "dropWhile p (rev (dropWhile p (rev (dropWhile p xs)))) = rev (dropWhile p (rev (dropWhile p xs)))"
    for p and xs :: string
  proof (cases "dropWhile p xs")
    case (Cons y ys)
    then have y: "\<not> p y" by (metis hd_dropWhile list.sel(1) list.simps(3))
    with Cons obtain zs where "rev (dropWhile p (rev (dropWhile p xs))) = y # zs"
      by (metis append_Cons append_Nil dropWhile_append3 rev.simps(2) rev_append rev_rev_ident rev_singleton_conv)
    with y show ?thesis by simp
  next
    case Nil
    then show ?thesis by (simp only: Nil rev.simps dropWhile.simps)
  qed
  then show ?thesis by (simp add: trimSpace_def)
qed

lemma trimSpace_ends:
  assumes "s \<noteq> []" and "\<not> isSpaceByte (hd s)" and "\<not> isSpaceByte (last s)"
  shows "trimSpace s = s"
proof -
  have front: "dropWhile isSpaceByte s = s" using assms(1,2) by (cases s) simp_all
  obtain xs x where s: "s = xs @ [x]" using assms(1) by (cases s rule: rev_cases) simp_all
  have "dropWhile isSpaceByte (rev s) = rev s" using assms(3) by (simp add: s)
  with front show ?thesis by (simp add: trimSpace_def)
qed

lemma trimSpace_nonempty: "c \<in> set s \<Longrightarrow> \<not> isSpaceByte c \<Longrightarrow> trimSpace s \<noteq> []"
proof -
  assume c: "c \<in> set s" "\<not> isSpaceByte c"
  then have "c \<in> set (dropWhile isSpaceByte s)"
    by (metis Un_iff set_append set_takeWhileD takeWhile_dropWhile_id)
  with c(2) show ?thesis by (auto simp: trimSpace_def)
qed

text \<open>\<open>strings.TrimPrefix\<close>.\<close>

definition hasSuffix :: "string \<Rightarrow> string \<Rightarrow> bool" where
  "hasSuffix s p \<longleftrightarrow> hasPrefix (rev s) (rev p)"

text \<open>An ASCII letter or digit.\<close>

definition isAlnum :: "char \<Rightarrow> bool" where
  "isAlnum c \<longleftrightarrow> isDigit c \<or> (65 \<le> byte c \<and> byte c \<le> 90) \<or> (97 \<le> byte c \<and> byte c \<le> 122)"

definition trimPrefix :: "string \<Rightarrow> string \<Rightarrow> string" where
  "trimPrefix p s = (if hasPrefix s p then drop (length p) s else s)"

lemma hasPrefix_append: "hasPrefix (p @ x) p"
  by (induction p) auto

lemma trimPrefix_append: "trimPrefix p (p @ x) = x"
  by (simp add: trimPrefix_def hasPrefix_append)

section \<open>Maps as lists of entries\<close>

text \<open>Assignment to a map entry.\<close>

fun mapPut :: "string \<Rightarrow> 'a \<Rightarrow> (string \<times> 'a) list \<Rightarrow> (string \<times> 'a) list" where
  "mapPut k v [] = [(k, v)]"
| "mapPut k v (e # es) = (if fst e = k then (k, v) # es else e # mapPut k v es)"

lemma mapPut_set: "set (mapPut k v m) \<subseteq> insert (k, v) (set m)"
  by (induction m) auto

lemma mapPut_keys: "set (map fst (mapPut k v m)) = insert k (set (map fst m))"
  by (induction m) auto

lemma mapPut_distinct: "distinct (map fst m) \<Longrightarrow> distinct (map fst (mapPut k v m))"
proof (induction m)
  case (Cons e m)
  then show ?case using mapPut_keys [of k v m] by (auto simp: image_iff Bex_def)
qed simp

lemma map_of_mapPut: "map_of (mapPut k v m) = (map_of m)(k \<mapsto> v)"
  by (induction m) (auto simp: fun_eq_iff)

section \<open>Slices: find the first match, update it, remove it\<close>

text \<open>
  \<open>for i := range xs { if p(xs[i]) { return &xs[i] } }\<close> is \<open>find p xs\<close>; a mutation through
  that pointer is \<open>updFirst p f xs\<close>, and \<open>append(xs[:i], xs[i+1:]...)\<close> at the first
  match is \<open>removeFirst p xs\<close>.
\<close>

fun updFirst :: "('a \<Rightarrow> bool) \<Rightarrow> ('a \<Rightarrow> 'a) \<Rightarrow> 'a list \<Rightarrow> 'a list" where
  "updFirst p f [] = []"
| "updFirst p f (x # xs) = (if p x then f x # xs else x # updFirst p f xs)"

fun removeFirst :: "('a \<Rightarrow> bool) \<Rightarrow> 'a list \<Rightarrow> 'a list" where
  "removeFirst p [] = []"
| "removeFirst p (x # xs) = (if p x then xs else x # removeFirst p xs)"

lemma length_updFirst [first_match, simp]: "length (updFirst p f xs) = length xs"
  by (induction xs) auto

lemma map_updFirst [first_match]: "(\<And>x. g (f x) = g x) \<Longrightarrow> map g (updFirst p f xs) = map g xs"
  by (induction xs) auto

lemma find_updFirst [first_match]:
  "(\<And>x. p (f x) = p x) \<Longrightarrow> find p (updFirst p f xs) = map_option f (find p xs)"
  by (induction xs) auto

lemma find_updFirst_other [first_match]:
  "(\<And>x. p x \<Longrightarrow> \<not> q x) \<Longrightarrow> (\<And>x. p x \<Longrightarrow> \<not> q (f x)) \<Longrightarrow> find q (updFirst p f xs) = find q xs"
  by (induction xs) auto

lemma updFirst_None [first_match]: "find p xs = None \<Longrightarrow> updFirst p f xs = xs"
  by (induction xs) (auto split: if_splits)

lemma updFirst_id [first_match]:
  "(\<And>x. find p xs = Some x \<Longrightarrow> f x = x) \<Longrightarrow> updFirst p f xs = xs"
  by (induction xs) (auto split: if_splits)

lemma updFirst_updFirst [first_match]:
  "(\<And>x. p (f x) = p x) \<Longrightarrow> updFirst p g (updFirst p f xs) = updFirst p (g \<circ> f) xs"
  by (induction xs) auto

lemma updFirst_cong:
  "(\<And>x. find p xs = Some x \<Longrightarrow> f x = g x) \<Longrightarrow> updFirst p f xs = updFirst p g xs"
  by (induction xs) (auto split: if_splits)

lemma find_SomeD: "find p xs = Some x \<Longrightarrow> x \<in> set xs \<and> p x"
  by (induction xs) (auto split: if_splits)

lemma find_None_iff_all: "find p xs = None \<longleftrightarrow> (\<forall>x \<in> set xs. \<not> p x)"
  by (induction xs) auto

lemma set_updFirst_subset: "set (updFirst p f xs) \<subseteq> set xs \<union> f ` set xs"
  by (induction xs) auto

lemma removeFirst_append_fresh [first_match]:
  "(\<And>y. y \<in> set xs \<Longrightarrow> \<not> p y) \<Longrightarrow> p x \<Longrightarrow> removeFirst p (xs @ [x]) = xs"
  by (induction xs) auto

lemma removeFirst_subset: "set (removeFirst p xs) \<subseteq> set xs"
  by (induction xs) auto

lemma length_removeFirst:
  "(\<exists>x \<in> set xs. p x) \<Longrightarrow> Suc (length (removeFirst p xs)) = length xs"
  by (induction xs) auto

lemma removeFirst_distinct:
  "distinct (map g xs) \<Longrightarrow> removeFirst (\<lambda>x. g x = k) xs = filter (\<lambda>x. g x \<noteq> k) xs"
proof (induction xs)
  case Nil
  then show ?case by simp
next
  case (Cons x xs)
  show ?case
  proof (cases "g x = k")
    case True
    with Cons.prems have "\<forall>y \<in> set xs. g y \<noteq> k" by (metis distinct.simps(2) image_eqI list.simps(9) set_map)
    with True show ?thesis by (simp add: filter_id_conv [THEN iffD2])
  next
    case False
    with Cons show ?thesis by simp
  qed
qed

text \<open>
  The interface every "find by name" helper of the topology code gives its callers: a slice inside
  a larger state, the lookup of the first element with a name, and the mutation of that element.
\<close>

locale named_slice =
  fixes items :: "'s \<Rightarrow> 'a list"
    and put :: "'a list \<Rightarrow> 's \<Rightarrow> 's"
    and nm :: "'a \<Rightarrow> string"
    and lookup :: "'s \<Rightarrow> string \<Rightarrow> 'a option"
    and modify :: "'s \<Rightarrow> string \<Rightarrow> ('a \<Rightarrow> 'a) \<Rightarrow> 's"
  assumes items_put: "items (put xs s) = xs"
    and put_items: "put (items s) s = s"
    and put_put: "put xs (put ys s) = put xs s"
    and lookup_find: "lookup s n = find (\<lambda>x. nm x = n) (items s)"
    and modify_upd: "modify s n f = put (updFirst (\<lambda>x. nm x = n) f (items s)) s"
begin

lemma lookup_name: "lookup s n = Some x \<Longrightarrow> nm x = n \<and> x \<in> set (items s)"
  by (auto simp: lookup_find dest: find_SomeD)

lemma lookup_None: "lookup s n = None \<longleftrightarrow> n \<notin> nm ` set (items s)"
  by (auto simp: lookup_find find_None_iff_all)

lemma lookup_modify:
  "(\<And>x. nm (f x) = nm x) \<Longrightarrow> lookup (modify s n f) n = map_option f (lookup s n)"
  by (simp add: lookup_find modify_upd items_put find_updFirst)

lemma lookup_modify_other:
  "(\<And>x. nm (f x) = nm x) \<Longrightarrow> m \<noteq> n \<Longrightarrow> lookup (modify s n f) m = lookup s m"
  by (simp add: lookup_find modify_upd items_put find_updFirst_other)

lemma modify_modify:
  "(\<And>x. nm (f x) = nm x) \<Longrightarrow> modify (modify s n f) n g = modify s n (g \<circ> f)"
  by (simp add: modify_upd items_put put_put updFirst_updFirst)

lemma modify_id:
  "(\<And>x. lookup s n = Some x \<Longrightarrow> f x = x) \<Longrightarrow> modify s n f = s"
  by (simp add: modify_upd lookup_find updFirst_id put_items)

lemma names_modify: "(\<And>x. nm (f x) = nm x) \<Longrightarrow> map nm (items (modify s n f)) = map nm (items s)"
  by (simp add: modify_upd items_put map_updFirst)

text \<open>Undoing a change restores the whole state.\<close>

lemma modify_inverse:
  assumes "\<And>x. nm (f x) = nm x" and "\<And>x. lookup s n = Some x \<Longrightarrow> g (f x) = x"
  shows "modify (modify s n f) n g = s"
  using assms by (simp add: modify_modify modify_id)

end

lemma map_sum_Inr: "map_sum f g x = Inr y \<longleftrightarrow> (\<exists>z. x = Inr z \<and> y = g z)"
  by (cases x) auto

lemma bex_concat_map:
  "(\<exists>y \<in> set (concat (map F xs)). P y) \<longleftrightarrow> (\<exists>x \<in> set xs. \<exists>y \<in> set (F x). P y)"
  by auto

section \<open>Stable sorting\<close>

text \<open>
  Two lists that agree, for every key, on the elements with that key and their order are the same
  list once stably sorted by the key: \<open>sort.SliceStable\<close> removes every other difference.
\<close>

lemma mset_eq_of_key_filters:
  assumes "\<And>k. filter (\<lambda>x. f x = k) xs = filter (\<lambda>x. f x = k) ys"
  shows "mset xs = mset ys"
proof (rule multiset_eqI)
  fix x
  have "count (mset zs) x = count (mset (filter (\<lambda>y. f y = f x) zs)) x" for zs
    by (induction zs) auto
  with assms show "count (mset xs) x = count (mset ys) x" by metis
qed

lemma stable_sort_unique:
  assumes "\<And>k. filter (\<lambda>x. f x = k) xs = filter (\<lambda>x. f x = k) ys"
  shows "sort_key f xs = sort_key f ys"
proof (rule properties_for_sort_key)
  show "mset (sort_key f ys) = mset xs"
    using mset_eq_of_key_filters [OF assms] by simp
  show "filter (\<lambda>x. f k = f x) (sort_key f ys) = filter (\<lambda>x. f k = f x) xs"
    if "k \<in> set (sort_key f ys)" for k
    using sort_key_stable [of f "f k" ys] assms [of "f k"] by (simp add: eq_commute)
qed simp

text \<open>Blocks of output, one per map key, emitted in the order the map is iterated in.\<close>

lemma filter_blocks:
  assumes "distinct ks" and "\<And>k x. k \<in> set ks \<Longrightarrow> x \<in> set (B k) \<Longrightarrow> g x = k"
  shows "filter (\<lambda>x. g x = r) (concat (map B ks)) = (if r \<in> set ks then B r else [])"
  using assms
proof (induction ks)
  case Nil
  then show ?case by simp
next
  case (Cons k ks)
  then have "filter (\<lambda>x. g x = r) (B k) = (if k = r then B k else [])"
    by (auto simp: filter_empty_conv filter_id_conv)
  with Cons show ?case by auto
qed

lemma filter_blocks_order:
  assumes "distinct ks" and "distinct ks'" and "set ks = set ks'"
    and "\<And>k x. k \<in> set ks \<Longrightarrow> x \<in> set (B k) \<Longrightarrow> g x = k"
  shows "filter (\<lambda>x. g x = r) (concat (map B ks)) = filter (\<lambda>x. g x = r) (concat (map B ks'))"
proof -
  from assms(3,4) have "\<And>k x. k \<in> set ks' \<Longrightarrow> x \<in> set (B k) \<Longrightarrow> g x = k" by simp
  with assms(2) have "filter (\<lambda>x. g x = r) (concat (map B ks')) = (if r \<in> set ks' then B r else [])"
    by (rule filter_blocks)
  moreover from assms(1,4)
  have "filter (\<lambda>x. g x = r) (concat (map B ks)) = (if r \<in> set ks then B r else [])"
    by (rule filter_blocks)
  ultimately show ?thesis using assms(3) by simp
qed

end
