(* ===== verification/Topo_Graph.thy ===== *)
theory Topo_Graph
  imports Go_Base
begin

text \<open>
  The topology model of the network reviewer: the structs of
  \<open>antr/engine/go/internal/graph/model.go\<close>, one record per struct, in dependency order, the
  fields in the order and with the names of the source (behind a prefix per record).  A Go slice is
  a list (\<open>nil\<close> and the empty slice are both the empty list), a \<open>*string\<close> an option, and a
  \<open>map[string][]T\<close> a partial map in which a missing key and a key with a \<open>nil\<close> slice are both
  \<open>None\<close>: every reader of those maps only indexes them.  The pointers of \<open>[]*Firewall\<close> are taken
  to be non-nil.  \<open>Load\<close> (file reading and \<open>encoding/json\<close>) is not modelled.
\<close>

record Subnet =
  sn_Name :: "string"
  sn_AddressPrefix :: "string"
  sn_NetworkSecurityGroup :: "string"
  sn_RouteTable :: "string"
  sn_ServiceEndpoints :: "string list"
  sn_Delegations :: "string list"
  sn_PrivateEndpointNetworkPolicies :: "string"

record Peering =
  pr_RemoteVnet :: "string"
  pr_RemoteSubscriptionID :: "string"
  pr_State :: "string"
  pr_AllowForwardedTraffic :: "bool"
  pr_AllowGatewayTransit :: "bool"
  pr_UseRemoteGateways :: "bool"
  pr_RemoteVnetRegion :: "string"
  pr_IsGlobalPeering :: "bool"

record VNet =
  vn_Name :: "string"
  vn_AddressSpace :: "string list"
  vn_Subnets :: "Subnet list"
  vn_Peerings :: "Peering list"

record SecRule =
  sr_Name :: "string"
  sr_Priority :: "int"
  sr_Direction :: "string"
  sr_Access :: "string"
  sr_Protocol :: "string"
  sr_SourceAddressPrefix :: "string"
  sr_DestinationPortRange :: "string"
  sr_Source :: "string"

record NSG =
  nsg_Name :: "string"
  nsg_SecurityRules :: "SecRule list"
  nsg_AssociatedSubnets :: "string list"

record Route =
  ro_Name :: "string"
  ro_AddressPrefix :: "string"
  ro_NextHopType :: "string"
  ro_NextHopIPAddress :: "string"

record RouteTable =
  rt_Name :: "string"
  rt_Routes :: "Route list"
  rt_AssociatedSubnets :: "string list"
  rt_DisableBgpRoutePropagation :: "bool"

record PublicIP =
  pip_Name :: "string"
  pip_ID :: "string"
  pip_IPAddress :: "string"
  pip_IPConfiguration :: "string option"
  pip_AllocationMethod :: "string"
  pip_SKU :: "string"

record NIC =
  nic_Name :: "string"
  nic_ID :: "string"
  nic_Subnet :: "string"
  nic_NetworkSecurityGroup :: "string option"
  nic_PublicIP :: "string option"
  nic_PrivateIP :: "string"
  nic_Tags :: "string \<rightharpoonup> string"
  nic_DNSServers :: "string list"

record PrivateEndpoint =
  pe_Name :: "string"
  pe_Subnet :: "string"
  pe_PrivateIP :: "string"
  pe_GroupId :: "string"
  pe_PrivateLinkServiceId :: "string"
  pe_ConnectionState :: "string"

record LBNatRule =
  lbn_Name :: "string"
  lbn_Protocol :: "string"
  lbn_FrontendPort :: "int"
  lbn_BackendPort :: "int"
  lbn_BackendNic :: "string"

record LBBackendPool =
  lbp_Name :: "string"
  lbp_NicRefs :: "string list"

record LoadBalancer =
  lb_Name :: "string"
  lb_Sku :: "string"
  lb_FrontendIP :: "string"
  lb_IsInternal :: "bool"
  lb_InboundNatRules :: "LBNatRule list"
  lb_BackendPools :: "LBBackendPool list"

record DnsARecord =
  dr_Name :: "string"
  dr_IP :: "string"

record PrivateDnsZone =
  pz_Name :: "string"
  pz_LinkedVnets :: "string list"
  pz_ARecords :: "DnsARecord list"

record AppGWBackendPool =
  agp_Name :: "string"
  agp_Targets :: "string list"

record ApplicationGateway =
  ag_Name :: "string"
  ag_Subnet :: "string"
  ag_PublicIP :: "string"
  ag_WafEnabled :: "bool"
  ag_WafMode :: "string"
  ag_BackendPools :: "AppGWBackendPool list"

record AKSCluster =
  aks_Name :: "string"
  aks_Subnet :: "string"
  aks_PodCidr :: "string"
  aks_ServiceCidr :: "string"
  aks_IsPrivateCluster :: "bool"
  aks_ApiServerIP :: "string"

record NatGateway =
  ng_Name :: "string"
  ng_PublicIPs :: "string list"
  ng_AssociatedSubnets :: "string list"

record PrivateLinkService =
  pls_Name :: "string"
  pls_Subnet :: "string"
  pls_NatIPConfig :: "string"
  pls_LinkedPrivateEndpoints :: "string list"

record ExpressRouteCircuit =
  er_Name :: "string"
  er_PeeringLocation :: "string"
  er_BandwidthMbps :: "int"
  er_ConnectedVnet :: "string"
  er_BGPAdvertisesDefaultRoute :: "bool"

record APIManagement =
  apim_Name :: "string"
  apim_Subnet :: "string"
  apim_PublicIP :: "string"
  apim_VNetMode :: "string"
  apim_GatewayURL :: "string"
  apim_HasWAFFrontEnd :: "bool"
  apim_SkuName :: "string"

record AzureBastion =
  bas_Name :: "string"
  bas_Subnet :: "string"
  bas_PublicIP :: "string"
  bas_SKU :: "string"

record VirtualNetworkGateway =
  vng_Name :: "string"
  vng_Subnet :: "string"
  vng_GatewayType :: "string"
  vng_SKU :: "string"
  vng_PublicIP :: "string"
  vng_EnableBGP :: "bool"
  vng_EnableForcedTunneling :: "bool"
  vng_ConnectedCircuitIds :: "string list"

record VirtualHub =
  vh_Name :: "string"
  vh_AddressPrefix :: "string"
  vh_Location :: "string"
  vh_SpokeConnections :: "string list"
  vh_HasSecuredFirewall :: "bool"
  vh_FirewallPrivateIP :: "string"
  vh_RoutingPolicyInternet :: "bool"
  vh_RoutingPolicyPrivate :: "bool"

record VirtualWAN =
  vw_Name :: "string"
  vw_SKU :: "string"
  vw_VHubs :: "VirtualHub list"

record DNSResolverEndpoint =
  dre_Name :: "string"
  dre_Subnet :: "string"
  dre_IPAddress :: "string"

record DNSPrivateResolver =
  dpr_Name :: "string"
  dpr_VNet :: "string"
  dpr_InboundEndpoints :: "DNSResolverEndpoint list"
  dpr_OutboundEndpoints :: "DNSResolverEndpoint list"

record AzureRouteServer =
  ars_Name :: "string"
  ars_Subnet :: "string"
  ars_PublicIP :: "string"
  ars_BGPPeerASNs :: "int list"
  ars_ConnectedVNets :: "string list"

record FrontDoorEndpoint =
  fde_Name :: "string"
  fde_Hostname :: "string"
  fde_WafPolicyId :: "string"
  fde_Enabled :: "bool"

record AzureFrontDoor =
  fd_Name :: "string"
  fd_SKU :: "string"
  fd_WafEnabled :: "bool"
  fd_WafMode :: "string"
  fd_Endpoints :: "FrontDoorEndpoint list"

record DDoSProtectionPlan =
  ddos_Name :: "string"
  ddos_LinkedVNets :: "string list"

record LocalNetworkGateway =
  lng_Name :: "string"
  lng_GatewayIPAddress :: "string"
  lng_AddressPrefixes :: "string list"
  lng_BGPAsn :: "int"

record ResourceGraph =
  rg_VirtualNetworks :: "VNet list"
  rg_NetworkSecurityGroups :: "NSG list"
  rg_RouteTables :: "RouteTable list"
  rg_PublicIPAddresses :: "PublicIP list"
  rg_NetworkInterfaces :: "NIC list"
  rg_PrivateEndpoints :: "PrivateEndpoint list"
  rg_LoadBalancers :: "LoadBalancer list"
  rg_PrivateDnsZones :: "PrivateDnsZone list"
  rg_ApplicationGateways :: "ApplicationGateway list"
  rg_AKSClusters :: "AKSCluster list"
  rg_NatGateways :: "NatGateway list"
  rg_PrivateLinkServices :: "PrivateLinkService list"
  rg_ExpressRouteCircuits :: "ExpressRouteCircuit list"
  rg_APIManagements :: "APIManagement list"
  rg_AzureBastions :: "AzureBastion list"
  rg_VirtualNetworkGateways :: "VirtualNetworkGateway list"
  rg_VirtualWANs :: "VirtualWAN list"
  rg_DNSPrivateResolvers :: "DNSPrivateResolver list"
  rg_AzureRouteServers :: "AzureRouteServer list"
  rg_AzureFrontDoors :: "AzureFrontDoor list"
  rg_DDoSProtectionPlans :: "DDoSProtectionPlan list"
  rg_LocalNetworkGateways :: "LocalNetworkGateway list"

record NetworkWatcher =
  nw_EffectiveSecurityRules :: "string \<rightharpoonup> SecRule list"
  nw_EffectiveRoutes :: "string \<rightharpoonup> Route list"
  nw_IncompleteNICs :: "string list"

record AdminRule =
  ar_Name :: "string"
  ar_Priority :: "int"
  ar_Direction :: "string"
  ar_Access :: "string"
  ar_Protocol :: "string"
  ar_SourceAddressPrefix :: "string"
  ar_DestinationPortRange :: "string"
  ar_AppliesTo :: "string list"

record AVNM =
  avnm_SecurityAdminRules :: "AdminRule list"

record NatRule =
  nat_Name :: "string"
  nat_Protocol :: "string"
  nat_SourceAddresses :: "string list"
  nat_DestinationAddress :: "string"
  nat_DestinationPort :: "int"
  nat_TranslatedAddress :: "string"
  nat_TranslatedPort :: "int"

record Firewall =
  fw_Name :: "string"
  fw_PrivateIP :: "string"
  fw_PublicIP :: "string"
  fw_NatRules :: "NatRule list"
  fw_PolicyRef :: "string"
  fw_SKUTier :: "string"

record CrossSubPeering =
  xp_LocalVnet :: "string"
  xp_RemoteVnet :: "string"
  xp_RemoteSubscriptionID :: "string"
  xp_State :: "string"
  xp_AllowForwardedTraffic :: "bool"
  xp_HasHubFirewall :: "bool"

record DefenderAssessment =
  da_ResourceId :: "string"
  da_AssessmentName :: "string"
  da_Status :: "string"
  da_Severity :: "string"
  da_RemediationSteps :: "string"

record PolicyFinding =
  pf_ResourceId :: "string"
  pf_PolicyDefinitionName :: "string"
  pf_ComplianceState :: "string"
  pf_PolicySetName :: "string"

record ActivityLogEntry =
  al_Timestamp :: "string"
  al_ResourceId :: "string"
  al_OperationName :: "string"
  al_ChangedBy :: "string"
  al_Status :: "string"

record FlowLogSummary =
  fl_ResourceId :: "string"
  fl_ResourceName :: "string"
  fl_ResourceType :: "string"
  fl_Enabled :: "bool"
  fl_StorageAccount :: "string"
  fl_RetentionDays :: "int"

record Enrichment =
  en_DefenderAssessments :: "DefenderAssessment list"
  en_PolicyFindings :: "PolicyFinding list"
  en_RecentChanges :: "ActivityLogEntry list"
  en_FlowLogStatuses :: "FlowLogSummary list"

record Fixture =
  fx_Subscription :: "string"
  fx_ResourceGraph :: "ResourceGraph"
  fx_NetworkWatcher :: "NetworkWatcher"
  fx_AVNM :: "AVNM"
  fx_AzureFirewall :: "Firewall option"
  fx_AzureFirewalls :: "Firewall list"
  fx_CrossSubscriptionPeerings :: "CrossSubPeering list"
  fx_Enrichment :: "Enrichment option"

text \<open>The zero values \<open>graph.ResourceGraph{}\<close> and \<open>graph.Fixture{}\<close>.\<close>

definition zeroResourceGraph :: ResourceGraph where
  "zeroResourceGraph = ResourceGraph.make [] [] [] [] [] [] [] [] [] [] [] [] [] [] [] [] [] [] [] [] [] []"

definition zeroFixture :: Fixture where
  "zeroFixture = Fixture.make [] zeroResourceGraph (NetworkWatcher.make Map.empty Map.empty [])
     (AVNM.make []) None [] [] None"

lemmas zero_fixture_defs =
  zeroFixture_def zeroResourceGraph_def Fixture.defs ResourceGraph.defs NetworkWatcher.defs AVNM.defs

end
