(* ===== verification/Topo_Delta.thy ===== *)
theory Topo_Delta
  imports Topo_Graph
begin

text \<open>
  The what-if deltas of the simulator, \<open>antr/engine/go/simulator/delta.go\<close>: the nine operation
  structs, \<open>TopologyDelta\<close> with one optional field per operation, and \<open>Validate\<close>.  Errors
  are values of \<open>sim_error\<close>, one constructor per message shape of the simulator.
\<close>

record AddSubnetOp =
  asn_VNetName :: string
  asn_Name :: string
  asn_AddressPrefix :: string
  asn_NSGName :: string
  asn_RouteTableName :: string

record RemoveSubnetOp =
  rsn_VNetName :: string
  rsn_SubnetName :: string

record AddNSGRuleOp =
  anr_NSGName :: string
  anr_Rule :: SecRule

record RemoveNSGRuleOp =
  rnr_NSGName :: string
  rnr_RuleName :: string

record AddPeeringOp =
  ape_LocalVNet :: string
  ape_RemoteVNet :: string
  ape_State :: string
  ape_AllowForwardedTraffic :: bool
  ape_AllowGatewayTransit :: bool
  ape_UseRemoteGateways :: bool

record RemovePeeringOp =
  rpe_LocalVNet :: string
  rpe_RemoteVNet :: string

record AddPublicIPOp =
  api_NICName :: string
  api_PIPName :: string
  api_IPAddress :: string

record RemovePublicIPOp =
  rpi_NICName :: string

record ModifyRouteOp =
  mro_RouteTableName :: string
  mro_RouteName :: string
  mro_NewNextHopType :: string
  mro_NewNextHopIP :: string

record TopologyDelta =
  td_AddSubnet :: "AddSubnetOp option"
  td_RemoveSubnet :: "RemoveSubnetOp option"
  td_AddNSGRule :: "AddNSGRuleOp option"
  td_RemoveNSGRule :: "RemoveNSGRuleOp option"
  td_AddPeering :: "AddPeeringOp option"
  td_RemovePeering :: "RemovePeeringOp option"
  td_AddPublicIP :: "AddPublicIPOp option"
  td_RemovePublicIP :: "RemovePublicIPOp option"
  td_ModifyRoute :: "ModifyRouteOp option"

datatype sim_error =
    NoOperation
  | TooManyOperations nat
  | FieldRequired string string \<comment> \<open>operation, field\<close>
  | UnknownNextHopType string
  | NextHopIPRequired
  | ResourceNotFound string string string \<comment> \<open>operation, kind of resource, name\<close>
  | AlreadyExists string string string \<comment> \<open>operation, name, container\<close>
  | MemberNotFound string string string \<comment> \<open>operation, name, container\<close>
  | PublicIPAttached string string \<comment> \<open>NIC, public IP it has\<close>

text \<open>The first error of a sequence of checks, as the early returns give it.\<close>

fun firstError :: "sim_error option list \<Rightarrow> sim_error option" where
  "firstError [] = None"
| "firstError (None # es) = firstError es"
| "firstError (Some e # es) = Some e"

definition required :: "string \<Rightarrow> string \<Rightarrow> string \<Rightarrow> sim_error option" where
  "required op field v = (if v = [] then Some (FieldRequired op field) else None)"

definition ifSet :: "'a option \<Rightarrow> ('a \<Rightarrow> sim_error option list) \<Rightarrow> sim_error option" where
  "ifSet f checks = (case f of None \<Rightarrow> None | Some op \<Rightarrow> firstError (checks op))"

definition isSet :: "'a option \<Rightarrow> nat" where
  "isSet f = (if f \<noteq> None then 1 else 0)"

definition opCount :: "TopologyDelta \<Rightarrow> nat" where
  "opCount d = isSet (td_AddSubnet d) + isSet (td_RemoveSubnet d) + isSet (td_AddNSGRule d)
     + isSet (td_RemoveNSGRule d) + isSet (td_AddPeering d) + isSet (td_RemovePeering d)
     + isSet (td_AddPublicIP d) + isSet (td_RemovePublicIP d) + isSet (td_ModifyRoute d)"

definition validateRoute :: "ModifyRouteOp \<Rightarrow> sim_error option list" where
  "validateRoute op =
     [required ''ModifyRoute'' ''RouteTableName'' (mro_RouteTableName op),
      required ''ModifyRoute'' ''RouteName'' (mro_RouteName op),
      (if mro_NewNextHopType op
            \<in> {''Internet'', ''VirtualAppliance'', ''None'', ''VirtualNetworkGateway'', ''VnetLocal''}
       then None
       else if mro_NewNextHopType op = [] then Some (FieldRequired ''ModifyRoute'' ''NewNextHopType'')
       else Some (UnknownNextHopType (mro_NewNextHopType op))),
      (if mro_NewNextHopType op = ''VirtualAppliance'' \<and> mro_NewNextHopIP op = []
       then Some NextHopIPRequired else None)]"

definition validate :: "TopologyDelta \<Rightarrow> sim_error option" where
  "validate d =
     (if opCount d = 0 then Some NoOperation
      else if 1 < opCount d then Some (TooManyOperations (opCount d))
      else firstError
       [ifSet (td_AddSubnet d) (\<lambda>op. [required ''AddSubnet'' ''VNetName'' (asn_VNetName op),
          required ''AddSubnet'' ''Name'' (asn_Name op),
          required ''AddSubnet'' ''AddressPrefix'' (asn_AddressPrefix op)]),
        ifSet (td_RemoveSubnet d) (\<lambda>op. [required ''RemoveSubnet'' ''VNetName'' (rsn_VNetName op),
          required ''RemoveSubnet'' ''SubnetName'' (rsn_SubnetName op)]),
        ifSet (td_AddNSGRule d) (\<lambda>op. [required ''AddNSGRule'' ''NSGName'' (anr_NSGName op),
          required ''AddNSGRule'' ''Rule.Name'' (sr_Name (anr_Rule op))]),
        ifSet (td_RemoveNSGRule d) (\<lambda>op. [required ''RemoveNSGRule'' ''NSGName'' (rnr_NSGName op),
          required ''RemoveNSGRule'' ''RuleName'' (rnr_RuleName op)]),
        ifSet (td_AddPeering d) (\<lambda>op. [required ''AddPeering'' ''LocalVNet'' (ape_LocalVNet op),
          required ''AddPeering'' ''RemoteVNet'' (ape_RemoteVNet op)]),
        ifSet (td_RemovePeering d) (\<lambda>op. [required ''RemovePeering'' ''LocalVNet'' (rpe_LocalVNet op),
          required ''RemovePeering'' ''RemoteVNet'' (rpe_RemoteVNet op)]),
        ifSet (td_AddPublicIP d) (\<lambda>op. [required ''AddPublicIP'' ''NICName'' (api_NICName op),
          required ''AddPublicIP'' ''PIPName'' (api_PIPName op)]),
        ifSet (td_RemovePublicIP d) (\<lambda>op. [required ''RemovePublicIP'' ''NICName'' (rpi_NICName op)]),
        ifSet (td_ModifyRoute d) validateRoute])"

text \<open>The empty delta, and the deltas that set one field.\<close>

definition noDelta :: TopologyDelta where
  "noDelta = TopologyDelta.make None None None None None None None None None"

abbreviation "deltaAddSubnet op \<equiv> noDelta\<lparr>td_AddSubnet := Some op\<rparr>"
abbreviation "deltaRemoveSubnet op \<equiv> noDelta\<lparr>td_RemoveSubnet := Some op\<rparr>"
abbreviation "deltaAddNSGRule op \<equiv> noDelta\<lparr>td_AddNSGRule := Some op\<rparr>"
abbreviation "deltaRemoveNSGRule op \<equiv> noDelta\<lparr>td_RemoveNSGRule := Some op\<rparr>"
abbreviation "deltaAddPeering op \<equiv> noDelta\<lparr>td_AddPeering := Some op\<rparr>"
abbreviation "deltaRemovePeering op \<equiv> noDelta\<lparr>td_RemovePeering := Some op\<rparr>"
abbreviation "deltaAddPublicIP op \<equiv> noDelta\<lparr>td_AddPublicIP := Some op\<rparr>"
abbreviation "deltaRemovePublicIP op \<equiv> noDelta\<lparr>td_RemovePublicIP := Some op\<rparr>"
abbreviation "deltaModifyRoute op \<equiv> noDelta\<lparr>td_ModifyRoute := Some op\<rparr>"

lemmas validate_defs =
  validate_def opCount_def isSet_def ifSet_def required_def validateRoute_def
  noDelta_def TopologyDelta.defs

lemma validate_None_one: "validate d = None \<Longrightarrow> opCount d = 1"
  by (auto simp: validate_def split: if_splits)

text \<open>What a valid delta looks like, operation by operation.\<close>

lemma validate_single [simp]:
  "validate (deltaAddSubnet asn) = None \<longleftrightarrow>
     asn_VNetName asn \<noteq> [] \<and> asn_Name asn \<noteq> [] \<and> asn_AddressPrefix asn \<noteq> []"
  "validate (deltaRemoveSubnet rsn) = None \<longleftrightarrow> rsn_VNetName rsn \<noteq> [] \<and> rsn_SubnetName rsn \<noteq> []"
  "validate (deltaAddNSGRule anr) = None \<longleftrightarrow> anr_NSGName anr \<noteq> [] \<and> sr_Name (anr_Rule anr) \<noteq> []"
  "validate (deltaRemoveNSGRule rnr) = None \<longleftrightarrow> rnr_NSGName rnr \<noteq> [] \<and> rnr_RuleName rnr \<noteq> []"
  "validate (deltaAddPeering ape) = None \<longleftrightarrow> ape_LocalVNet ape \<noteq> [] \<and> ape_RemoteVNet ape \<noteq> []"
  "validate (deltaRemovePeering rpe) = None \<longleftrightarrow> rpe_LocalVNet rpe \<noteq> [] \<and> rpe_RemoteVNet rpe \<noteq> []"
  "validate (deltaAddPublicIP api) = None \<longleftrightarrow> api_NICName api \<noteq> [] \<and> api_PIPName api \<noteq> []"
  "validate (deltaRemovePublicIP rpi) = None \<longleftrightarrow> rpi_NICName rpi \<noteq> []"
  by (simp_all add: validate_defs)

end
