(* ===== verification/Topo_Apply.thy ===== *)
theory Topo_Apply
  imports Topo_Delta
begin

text \<open>
  \<open>ApplyDelta\<close>, \<open>antr/engine/go/simulator/apply.go\<close>: the nine operations on a copy of the
  fixture (records are values, so the JSON deep copy is the identity), and the projection of the
  changed NSG rules and routes onto the Network Watcher tables.  The first parameter \<open>srt\<close> is
  \<open>sort.Slice\<close> by priority, which is not stable: the locale \<open>priority_sorter\<close> has its contract.
\<close>

section \<open>Lookup helpers\<close>

definition vnetsOf :: "Fixture \<Rightarrow> VNet list" where
  "vnetsOf sim = rg_VirtualNetworks (fx_ResourceGraph sim)"

definition putVNets :: "VNet list \<Rightarrow> Fixture \<Rightarrow> Fixture" where
  "putVNets vs sim = sim\<lparr>fx_ResourceGraph := (fx_ResourceGraph sim)\<lparr>rg_VirtualNetworks := vs\<rparr>\<rparr>"

definition findVNet :: "Fixture \<Rightarrow> string \<Rightarrow> VNet option" where
  "findVNet sim name = find (\<lambda>v. vn_Name v = name) (vnetsOf sim)"

definition modifyVNet :: "Fixture \<Rightarrow> string \<Rightarrow> (VNet \<Rightarrow> VNet) \<Rightarrow> Fixture" where
  "modifyVNet sim name f = putVNets (updFirst (\<lambda>v. vn_Name v = name) f (vnetsOf sim)) sim"

definition nsgsOf :: "Fixture \<Rightarrow> NSG list" where
  "nsgsOf sim = rg_NetworkSecurityGroups (fx_ResourceGraph sim)"

definition putNSGs :: "NSG list \<Rightarrow> Fixture \<Rightarrow> Fixture" where
  "putNSGs vs sim = sim\<lparr>fx_ResourceGraph := (fx_ResourceGraph sim)\<lparr>rg_NetworkSecurityGroups := vs\<rparr>\<rparr>"

definition findNSG :: "Fixture \<Rightarrow> string \<Rightarrow> NSG option" where
  "findNSG sim name = find (\<lambda>v. nsg_Name v = name) (nsgsOf sim)"

definition modifyNSG :: "Fixture \<Rightarrow> string \<Rightarrow> (NSG \<Rightarrow> NSG) \<Rightarrow> Fixture" where
  "modifyNSG sim name f = putNSGs (updFirst (\<lambda>v. nsg_Name v = name) f (nsgsOf sim)) sim"

definition routeTablesOf :: "Fixture \<Rightarrow> RouteTable list" where
  "routeTablesOf sim = rg_RouteTables (fx_ResourceGraph sim)"

definition putRouteTables :: "RouteTable list \<Rightarrow> Fixture \<Rightarrow> Fixture" where
  "putRouteTables vs sim = sim\<lparr>fx_ResourceGraph := (fx_ResourceGraph sim)\<lparr>rg_RouteTables := vs\<rparr>\<rparr>"

definition findRouteTable :: "Fixture \<Rightarrow> string \<Rightarrow> RouteTable option" where
  "findRouteTable sim name = find (\<lambda>v. rt_Name v = name) (routeTablesOf sim)"

definition modifyRouteTable :: "Fixture \<Rightarrow> string \<Rightarrow> (RouteTable \<Rightarrow> RouteTable) \<Rightarrow> Fixture" where
  "modifyRouteTable sim name f =
     putRouteTables (updFirst (\<lambda>v. rt_Name v = name) f (routeTablesOf sim)) sim"

definition nicsOf :: "Fixture \<Rightarrow> NIC list" where
  "nicsOf sim = rg_NetworkInterfaces (fx_ResourceGraph sim)"

definition putNICs :: "NIC list \<Rightarrow> Fixture \<Rightarrow> Fixture" where
  "putNICs vs sim = sim\<lparr>fx_ResourceGraph := (fx_ResourceGraph sim)\<lparr>rg_NetworkInterfaces := vs\<rparr>\<rparr>"

definition findNIC :: "Fixture \<Rightarrow> string \<Rightarrow> NIC option" where
  "findNIC sim name = find (\<lambda>v. nic_Name v = name) (nicsOf sim)"

definition modifyNIC :: "Fixture \<Rightarrow> string \<Rightarrow> (NIC \<Rightarrow> NIC) \<Rightarrow> Fixture" where
  "modifyNIC sim name f = putNICs (updFirst (\<lambda>v. nic_Name v = name) f (nicsOf sim)) sim"

interpretation vnetSlice: named_slice vnetsOf putVNets vn_Name findVNet modifyVNet
  by unfold_locales (simp_all add: vnetsOf_def putVNets_def findVNet_def modifyVNet_def)

interpretation nsgSlice: named_slice nsgsOf putNSGs nsg_Name findNSG modifyNSG
  by unfold_locales (simp_all add: nsgsOf_def putNSGs_def findNSG_def modifyNSG_def)

interpretation rtSlice: named_slice routeTablesOf putRouteTables rt_Name findRouteTable modifyRouteTable
  by unfold_locales (simp_all add: routeTablesOf_def putRouteTables_def findRouteTable_def modifyRouteTable_def)

interpretation nicSlice: named_slice nicsOf putNICs nic_Name findNIC modifyNIC
  by unfold_locales (simp_all add: nicsOf_def putNICs_def findNIC_def modifyNIC_def)

text \<open>
  \<open>nicsByNSG\<close>: the subnet-to-NSG map is filled in slice order, so a later subnet with the same
  \<open>vnet/subnet\<close> key replaces an earlier one.
\<close>

definition subnetNSG :: "Fixture \<Rightarrow> (string \<rightharpoonup> string)" where
  "subnetNSG sim = foldl (\<lambda>m vn. foldl (\<lambda>m sn. m(vn_Name vn @ ''/'' @ sn_Name sn \<mapsto> sn_NetworkSecurityGroup sn))
      m (vn_Subnets vn)) Map.empty (vnetsOf sim)"

definition governedBy :: "(string \<rightharpoonup> string) \<Rightarrow> string \<Rightarrow> NIC \<Rightarrow> bool" where
  "governedBy subnets nsgName nic \<longleftrightarrow>
     (case subnets (nic_Subnet nic) of None \<Rightarrow> [] | Some g \<Rightarrow> g) = nsgName
     \<or> nic_NetworkSecurityGroup nic = Some nsgName"

definition nicsByNSG :: "Fixture \<Rightarrow> string \<Rightarrow> string list" where
  "nicsByNSG sim nsgName = map nic_Name (filter (governedBy (subnetNSG sim) nsgName) (nicsOf sim))"

section \<open>Projection\<close>

text \<open>\<open>sort.Slice\<close> with the priority comparison: some rearrangement in ascending priority.\<close>

locale priority_sorter =
  fixes srt :: "SecRule list \<Rightarrow> SecRule list"
  assumes srt_mset: "mset (srt rs) = mset rs"
    and srt_sorted: "sorted (map sr_Priority (srt rs))"
begin

lemma srt_set: "set (srt rs) = set rs"
  using srt_mset by (metis set_mset_mset)

lemma srt_Nil [simp]: "srt [] = []"
  using srt_mset [of "[]"] by simp

lemma srt_head_precedence: "srt rs = r # rest \<Longrightarrow> r' \<in> set rs \<Longrightarrow> sr_Priority r \<le> sr_Priority r'"
  using srt_sorted [of rs] srt_set [of rs] by auto

end

text \<open>Go sorts slices of at most twelve elements by insertion, which is stable.\<close>

definition insertionSort :: "SecRule list \<Rightarrow> SecRule list" where
  "insertionSort rs = sort_key sr_Priority rs"

interpretation goSort: priority_sorter insertionSort
  by unfold_locales (simp_all add: insertionSort_def)

definition userRange :: "SecRule \<Rightarrow> bool" where
  "userRange r \<longleftrightarrow> 0 < sr_Priority r \<and> sr_Priority r < 65000"

definition projectedRules :: "(SecRule list \<Rightarrow> SecRule list) \<Rightarrow> SecRule list \<Rightarrow> SecRule list \<Rightarrow> SecRule list" where
  "projectedRules srt declared base =
     srt (filter (\<lambda>r. \<not> (sr_Name r \<in> sr_Name ` set declared \<and> userRange r)) base @ declared)"

definition projectRulesAt ::
  "(SecRule list \<Rightarrow> SecRule list) \<Rightarrow> SecRule list \<Rightarrow> (string \<rightharpoonup> SecRule list) \<Rightarrow> string \<Rightarrow> (string \<rightharpoonup> SecRule list)" where
  "projectRulesAt srt declared m nicName =
     (let base = (case m nicName of None \<Rightarrow> [] | Some rs \<Rightarrow> rs);
          new = projectedRules srt declared base
      in m(nicName := (if m nicName = None \<and> new = [] then None else Some new)))"

definition withRules :: "Fixture \<Rightarrow> (string \<rightharpoonup> SecRule list) \<Rightarrow> Fixture" where
  "withRules sim m = sim\<lparr>fx_NetworkWatcher := (fx_NetworkWatcher sim)\<lparr>nw_EffectiveSecurityRules := m\<rparr>\<rparr>"

definition projectEffectiveRules :: "(SecRule list \<Rightarrow> SecRule list) \<Rightarrow> Fixture \<Rightarrow> string \<Rightarrow> Fixture" where
  "projectEffectiveRules srt sim nsgName =
     (case findNSG sim nsgName of
        None \<Rightarrow> sim
      | Some nsg \<Rightarrow>
          withRules sim (foldl (projectRulesAt srt (nsg_SecurityRules nsg))
            (nw_EffectiveSecurityRules (fx_NetworkWatcher sim)) (nicsByNSG sim nsgName)))"

text \<open>\<open>routeMap\<close>: the last index of each address prefix in the base routes.\<close>

definition lastIndex :: "Route list \<Rightarrow> string \<Rightarrow> nat option" where
  "lastIndex base pre = map_of (rev (zip (map ro_AddressPrefix base) [0..<length base])) pre"

definition overlayRoute :: "Route list \<Rightarrow> Route list \<Rightarrow> Route \<Rightarrow> Route list" where
  "overlayRoute base result udr =
     (case lastIndex base (ro_AddressPrefix udr) of
        Some idx \<Rightarrow> result[idx := udr]
      | None \<Rightarrow> result @ [udr])"

definition overlayRoutes :: "Route list \<Rightarrow> Route list \<Rightarrow> Route list" where
  "overlayRoutes base udrs = foldl (overlayRoute base) base udrs"

definition projectRoutesAt :: "RouteTable \<Rightarrow> (string \<rightharpoonup> Route list) \<Rightarrow> NIC \<Rightarrow> (string \<rightharpoonup> Route list)" where
  "projectRoutesAt rt m nic =
     (if nic_Subnet nic \<notin> set (rt_AssociatedSubnets rt) then m
      else m(nic_Name nic \<mapsto> overlayRoutes (case m (nic_Name nic) of None \<Rightarrow> [] | Some b \<Rightarrow> b) (rt_Routes rt)))"

definition withRoutes :: "Fixture \<Rightarrow> (string \<rightharpoonup> Route list) \<Rightarrow> Fixture" where
  "withRoutes sim m = sim\<lparr>fx_NetworkWatcher := (fx_NetworkWatcher sim)\<lparr>nw_EffectiveRoutes := m\<rparr>\<rparr>"

definition projectEffectiveRoutes :: "Fixture \<Rightarrow> string \<Rightarrow> Fixture" where
  "projectEffectiveRoutes sim routeTableName =
     (case findRouteTable sim routeTableName of
        None \<Rightarrow> sim
      | Some rt \<Rightarrow>
          withRoutes sim (foldl (projectRoutesAt rt) (nw_EffectiveRoutes (fx_NetworkWatcher sim)) (nicsOf sim)))"

section \<open>The operations\<close>

definition newSubnet :: "AddSubnetOp \<Rightarrow> Subnet" where
  "newSubnet op =
     \<lparr>sn_Name = asn_Name op, sn_AddressPrefix = asn_AddressPrefix op,
      sn_NetworkSecurityGroup = asn_NSGName op, sn_RouteTable = asn_RouteTableName op,
      sn_ServiceEndpoints = [], sn_Delegations = [], sn_PrivateEndpointNetworkPolicies = []\<rparr>"

definition applyAddSubnet :: "Fixture \<Rightarrow> AddSubnetOp \<Rightarrow> sim_error + Fixture" where
  "applyAddSubnet sim op =
     (case findVNet sim (asn_VNetName op) of
        None \<Rightarrow> Inl (ResourceNotFound ''AddSubnet'' ''VNet'' (asn_VNetName op))
      | Some vnet \<Rightarrow>
          if asn_Name op \<in> sn_Name ` set (vn_Subnets vnet)
          then Inl (AlreadyExists ''AddSubnet'' (asn_Name op) (asn_VNetName op))
          else Inr (modifyVNet sim (asn_VNetName op)
                 (\<lambda>v. v\<lparr>vn_Subnets := vn_Subnets v @ [newSubnet op]\<rparr>)))"

definition applyRemoveSubnet :: "Fixture \<Rightarrow> RemoveSubnetOp \<Rightarrow> sim_error + Fixture" where
  "applyRemoveSubnet sim op =
     (case findVNet sim (rsn_VNetName op) of
        None \<Rightarrow> Inl (ResourceNotFound ''RemoveSubnet'' ''VNet'' (rsn_VNetName op))
      | Some vnet \<Rightarrow>
          if rsn_SubnetName op \<notin> sn_Name ` set (vn_Subnets vnet)
          then Inl (MemberNotFound ''RemoveSubnet'' (rsn_SubnetName op) (rsn_VNetName op))
          else Inr (modifyVNet sim (rsn_VNetName op)
                 (\<lambda>v. v\<lparr>vn_Subnets := removeFirst (\<lambda>s. sn_Name s = rsn_SubnetName op) (vn_Subnets v)\<rparr>)))"

definition normaliseRule :: "SecRule \<Rightarrow> SecRule" where
  "normaliseRule r = (if sr_Source r = [] then r\<lparr>sr_Source := sr_SourceAddressPrefix r\<rparr> else r)"

definition applyAddNSGRule ::
  "(SecRule list \<Rightarrow> SecRule list) \<Rightarrow> Fixture \<Rightarrow> AddNSGRuleOp \<Rightarrow> sim_error + Fixture" where
  "applyAddNSGRule srt sim op =
     (case findNSG sim (anr_NSGName op) of
        None \<Rightarrow> Inl (ResourceNotFound ''AddNSGRule'' ''NSG'' (anr_NSGName op))
      | Some nsg \<Rightarrow>
          if sr_Name (anr_Rule op) \<in> sr_Name ` set (nsg_SecurityRules nsg)
          then Inl (AlreadyExists ''AddNSGRule'' (sr_Name (anr_Rule op)) (anr_NSGName op))
          else Inr (projectEffectiveRules srt
                 (modifyNSG sim (anr_NSGName op)
                    (\<lambda>g. g\<lparr>nsg_SecurityRules := nsg_SecurityRules g @ [normaliseRule (anr_Rule op)]\<rparr>))
                 (anr_NSGName op)))"

definition applyRemoveNSGRule ::
  "(SecRule list \<Rightarrow> SecRule list) \<Rightarrow> Fixture \<Rightarrow> RemoveNSGRuleOp \<Rightarrow> sim_error + Fixture" where
  "applyRemoveNSGRule srt sim op =
     (case findNSG sim (rnr_NSGName op) of
        None \<Rightarrow> Inl (ResourceNotFound ''RemoveNSGRule'' ''NSG'' (rnr_NSGName op))
      | Some nsg \<Rightarrow>
          if rnr_RuleName op \<notin> sr_Name ` set (nsg_SecurityRules nsg)
          then Inl (MemberNotFound ''RemoveNSGRule'' (rnr_RuleName op) (rnr_NSGName op))
          else Inr (projectEffectiveRules srt
                 (modifyNSG sim (rnr_NSGName op)
                    (\<lambda>g. g\<lparr>nsg_SecurityRules :=
                         removeFirst (\<lambda>r. sr_Name r = rnr_RuleName op) (nsg_SecurityRules g)\<rparr>))
                 (rnr_NSGName op)))"

definition newPeering :: "AddPeeringOp \<Rightarrow> Peering" where
  "newPeering op =
     \<lparr>pr_RemoteVnet = ape_RemoteVNet op, pr_RemoteSubscriptionID = [],
      pr_State = (if ape_State op = [] then ''Connected'' else ape_State op),
      pr_AllowForwardedTraffic = ape_AllowForwardedTraffic op,
      pr_AllowGatewayTransit = ape_AllowGatewayTransit op,
      pr_UseRemoteGateways = ape_UseRemoteGateways op,
      pr_RemoteVnetRegion = [], pr_IsGlobalPeering = False\<rparr>"

definition applyAddPeering :: "Fixture \<Rightarrow> AddPeeringOp \<Rightarrow> sim_error + Fixture" where
  "applyAddPeering sim op =
     (case findVNet sim (ape_LocalVNet op) of
        None \<Rightarrow> Inl (ResourceNotFound ''AddPeering'' ''LocalVNet'' (ape_LocalVNet op))
      | Some lv \<Rightarrow>
        (case findVNet sim (ape_RemoteVNet op) of
          None \<Rightarrow> Inl (ResourceNotFound ''AddPeering'' ''RemoteVNet'' (ape_RemoteVNet op))
        | Some rv \<Rightarrow>
            if ape_RemoteVNet op \<in> pr_RemoteVnet ` set (vn_Peerings lv)
            then Inl (AlreadyExists ''AddPeering'' (ape_RemoteVNet op) (ape_LocalVNet op))
            else Inr (modifyVNet sim (ape_LocalVNet op)
                   (\<lambda>v. v\<lparr>vn_Peerings := vn_Peerings v @ [newPeering op]\<rparr>))))"

definition applyRemovePeering :: "Fixture \<Rightarrow> RemovePeeringOp \<Rightarrow> sim_error + Fixture" where
  "applyRemovePeering sim op =
     (case findVNet sim (rpe_LocalVNet op) of
        None \<Rightarrow> Inl (ResourceNotFound ''RemovePeering'' ''LocalVNet'' (rpe_LocalVNet op))
      | Some lv \<Rightarrow>
          if rpe_RemoteVNet op \<notin> pr_RemoteVnet ` set (vn_Peerings lv)
          then Inl (MemberNotFound ''RemovePeering'' (rpe_RemoteVNet op) (rpe_LocalVNet op))
          else Inr (modifyVNet sim (rpe_LocalVNet op)
                 (\<lambda>v. v\<lparr>vn_Peerings := removeFirst (\<lambda>p. pr_RemoteVnet p = rpe_RemoteVNet op) (vn_Peerings v)\<rparr>)))"

definition publicIPsOf :: "Fixture \<Rightarrow> PublicIP list" where
  "publicIPsOf sim = rg_PublicIPAddresses (fx_ResourceGraph sim)"

definition putPublicIPs :: "PublicIP list \<Rightarrow> Fixture \<Rightarrow> Fixture" where
  "putPublicIPs ps sim = sim\<lparr>fx_ResourceGraph := (fx_ResourceGraph sim)\<lparr>rg_PublicIPAddresses := ps\<rparr>\<rparr>"

definition applyAddPublicIP :: "Fixture \<Rightarrow> AddPublicIPOp \<Rightarrow> sim_error + Fixture" where
  "applyAddPublicIP sim op =
     (case findNIC sim (api_NICName op) of
        None \<Rightarrow> Inl (ResourceNotFound ''AddPublicIP'' ''NIC'' (api_NICName op))
      | Some nic \<Rightarrow>
          (case nic_PublicIP nic of
             Some (c # cs) \<Rightarrow> Inl (PublicIPAttached (api_NICName op) (c # cs))
           | _ \<Rightarrow>
             (let sim1 = modifyNIC sim (api_NICName op) (\<lambda>n. n\<lparr>nic_PublicIP := Some (api_PIPName op)\<rparr>)
              in Inr (putPublicIPs (publicIPsOf sim1 @
                   [\<lparr>pip_Name = api_PIPName op, pip_ID = [], pip_IPAddress = api_IPAddress op,
                     pip_IPConfiguration = Some (api_NICName op), pip_AllocationMethod = [],
                     pip_SKU = []\<rparr>]) sim1))))"

definition detachPIP :: "string \<Rightarrow> PublicIP \<Rightarrow> PublicIP" where
  "detachPIP nicName pip =
     (case pip_IPConfiguration pip of
        None \<Rightarrow> pip
      | Some cfg \<Rightarrow> if cfg \<noteq> [] \<and> strContains cfg nicName
                    then pip\<lparr>pip_IPConfiguration := None\<rparr> else pip)"

definition applyRemovePublicIP :: "Fixture \<Rightarrow> RemovePublicIPOp \<Rightarrow> sim_error + Fixture" where
  "applyRemovePublicIP sim op =
     (case findNIC sim (rpi_NICName op) of
        None \<Rightarrow> Inl (ResourceNotFound ''RemovePublicIP'' ''NIC'' (rpi_NICName op))
      | Some nic \<Rightarrow>
          (let sim1 = modifyNIC sim (rpi_NICName op) (\<lambda>n. n\<lparr>nic_PublicIP := None\<rparr>)
           in Inr (putPublicIPs (map (detachPIP (rpi_NICName op)) (publicIPsOf sim1)) sim1)))"

definition applyModifyRoute :: "Fixture \<Rightarrow> ModifyRouteOp \<Rightarrow> sim_error + Fixture" where
  "applyModifyRoute sim op =
     (case findRouteTable sim (mro_RouteTableName op) of
        None \<Rightarrow> Inl (ResourceNotFound ''ModifyRoute'' ''RouteTable'' (mro_RouteTableName op))
      | Some rt \<Rightarrow>
          if mro_RouteName op \<notin> ro_Name ` set (rt_Routes rt)
          then Inl (MemberNotFound ''ModifyRoute'' (mro_RouteName op) (mro_RouteTableName op))
          else Inr (projectEffectiveRoutes
                 (modifyRouteTable sim (mro_RouteTableName op)
                    (\<lambda>t. t\<lparr>rt_Routes := updFirst (\<lambda>r. ro_Name r = mro_RouteName op)
                         (\<lambda>r. r\<lparr>ro_NextHopType := mro_NewNextHopType op,
                               ro_NextHopIPAddress := mro_NewNextHopIP op\<rparr>) (rt_Routes t)\<rparr>))
                 (mro_RouteTableName op)))"

definition applyDelta ::
  "(SecRule list \<Rightarrow> SecRule list) \<Rightarrow> Fixture \<Rightarrow> TopologyDelta \<Rightarrow> sim_error + Fixture" where
  "applyDelta srt fixture delta =
     (case validate delta of
        Some e \<Rightarrow> Inl e
      | None \<Rightarrow>
        (case td_AddSubnet delta of Some op \<Rightarrow> applyAddSubnet fixture op | None \<Rightarrow>
         case td_RemoveSubnet delta of Some op \<Rightarrow> applyRemoveSubnet fixture op | None \<Rightarrow>
         case td_AddNSGRule delta of Some op \<Rightarrow> applyAddNSGRule srt fixture op | None \<Rightarrow>
         case td_RemoveNSGRule delta of Some op \<Rightarrow> applyRemoveNSGRule srt fixture op | None \<Rightarrow>
         case td_AddPeering delta of Some op \<Rightarrow> applyAddPeering fixture op | None \<Rightarrow>
         case td_RemovePeering delta of Some op \<Rightarrow> applyRemovePeering fixture op | None \<Rightarrow>
         case td_AddPublicIP delta of Some op \<Rightarrow> applyAddPublicIP fixture op | None \<Rightarrow>
         case td_RemovePublicIP delta of Some op \<Rightarrow> applyRemovePublicIP fixture op | None \<Rightarrow>
         case td_ModifyRoute delta of Some op \<Rightarrow> applyModifyRoute fixture op | None \<Rightarrow>
         Inr fixture))"

text \<open>When each VNet operation succeeds, and what it does then.\<close>

lemma applyAddSubnet_Inr:
  "applyAddSubnet sim op = Inr sim' \<longleftrightarrow>
     (\<exists>vnet. findVNet sim (asn_VNetName op) = Some vnet \<and> asn_Name op \<notin> sn_Name ` set (vn_Subnets vnet)
        \<and> sim' = modifyVNet sim (asn_VNetName op) (\<lambda>v. v\<lparr>vn_Subnets := vn_Subnets v @ [newSubnet op]\<rparr>))"
  by (auto simp: applyAddSubnet_def split: option.splits)

lemma applyRemoveSubnet_Inr:
  "applyRemoveSubnet sim op = Inr sim' \<longleftrightarrow>
     (\<exists>vnet. findVNet sim (rsn_VNetName op) = Some vnet \<and> rsn_SubnetName op \<in> sn_Name ` set (vn_Subnets vnet)
        \<and> sim' = modifyVNet sim (rsn_VNetName op)
             (\<lambda>v. v\<lparr>vn_Subnets := removeFirst (\<lambda>s. sn_Name s = rsn_SubnetName op) (vn_Subnets v)\<rparr>))"
  by (auto simp: applyRemoveSubnet_def split: option.splits)

lemma applyAddPeering_Inr:
  "applyAddPeering sim op = Inr sim' \<longleftrightarrow>
     (\<exists>lv rv. findVNet sim (ape_LocalVNet op) = Some lv \<and> findVNet sim (ape_RemoteVNet op) = Some rv
        \<and> ape_RemoteVNet op \<notin> pr_RemoteVnet ` set (vn_Peerings lv)
        \<and> sim' = modifyVNet sim (ape_LocalVNet op) (\<lambda>v. v\<lparr>vn_Peerings := vn_Peerings v @ [newPeering op]\<rparr>))"
  by (auto simp: applyAddPeering_def split: option.splits)

lemma applyRemovePeering_Inr:
  "applyRemovePeering sim op = Inr sim' \<longleftrightarrow>
     (\<exists>lv. findVNet sim (rpe_LocalVNet op) = Some lv
        \<and> rpe_RemoteVNet op \<in> pr_RemoteVnet ` set (vn_Peerings lv)
        \<and> sim' = modifyVNet sim (rpe_LocalVNet op)
             (\<lambda>v. v\<lparr>vn_Peerings := removeFirst (\<lambda>p. pr_RemoteVnet p = rpe_RemoteVNet op) (vn_Peerings v)\<rparr>))"
  by (auto simp: applyRemovePeering_def split: option.splits)

lemma newSubnet_name [simp]: "sn_Name (newSubnet op) = asn_Name op"
  by (simp add: newSubnet_def)

lemma newPeering_remote [simp]: "pr_RemoteVnet (newPeering op) = ape_RemoteVNet op"
  by (simp add: newPeering_def)

lemmas apply_vnet_Inr =
  applyAddSubnet_Inr applyRemoveSubnet_Inr applyAddPeering_Inr applyRemovePeering_Inr

end
