(* ===== verification/Net_Prefix.thy ===== *)
theory Net_Prefix
  imports Go_Base "HOL-Library.Word"
begin

unbundle bit_operations_syntax

text \<open>
  What the topology code uses of Go's \<open>net/netip\<close>: \<open>ParseAddr\<close> (dotted IPv4 and IPv6 with an
  ellipsis and an embedded IPv4 tail), \<open>ParsePrefix\<close> and \<open>Prefix.Overlaps\<close>.  Addresses are
  32- and 128-bit words.  The main fact is that \<open>Overlaps\<close> says exactly that some address is
  in both prefixes.
\<close>

section \<open>Addresses and prefixes\<close>

datatype addr = V4 "32 word" | V6 "128 word"

datatype prefix = Prefix (prefixAddr: addr) (prefixBits: nat)

definition bytesWord :: "nat list \<Rightarrow> 'a::len word" where
  "bytesWord bs = foldl (\<lambda>w b. 256 * w + of_nat b) 0 bs"

fun splitOn :: "char \<Rightarrow> string \<Rightarrow> string list" where
  "splitOn b [] = [[]]"
| "splitOn b (c # s) =
     (if c = b then [] # splitOn b s
      else case splitOn b s of [] \<Rightarrow> [[c]] | w # ws \<Rightarrow> (c # w) # ws)"

definition octet :: "string \<Rightarrow> nat option" where
  "octet s = (case parseDigits s of
     None \<Rightarrow> None
   | Some n \<Rightarrow> if (1 < length s \<and> hd s = CHR ''0'') \<or> 255 < n then None else Some n)"

definition parseIPv4Fields :: "string \<Rightarrow> nat list option" where
  "parseIPv4Fields s =
     (let os = map octet (splitOn (CHR ''.'') s)
      in if length os = 4 \<and> list_all (\<lambda>x. x \<noteq> None) os then Some (map the os) else None)"

definition isHex :: "char \<Rightarrow> bool" where
  "isHex c \<longleftrightarrow> isDigit c \<or> (97 \<le> byte c \<and> byte c \<le> 102) \<or> (65 \<le> byte c \<and> byte c \<le> 70)"

definition hexVal :: "char \<Rightarrow> nat" where
  "hexVal c = (if isDigit c then byte c - 48 else if 97 \<le> byte c then byte c - 87 else byte c - 55)"

text \<open>
  The loop of \<open>parseIPv6\<close>: \<open>acc\<close> holds the bytes written so far, \<open>ell\<close> the position of the
  ellipsis, the first argument the number of groups left.
\<close>

fun parseIPv6Loop :: "nat \<Rightarrow> nat list \<Rightarrow> nat option \<Rightarrow> string \<Rightarrow> (nat list \<times> nat option) option" where
  "parseIPv6Loop 0 acc ell s = (if s = [] then Some (acc, ell) else None)"
| "parseIPv6Loop (Suc k) acc ell s =
     (let hs = takeWhile isHex s; rest = dropWhile isHex s;
          v = foldl (\<lambda>n c. 16 * n + hexVal c) 0 hs; acc' = acc @ [v div 256, v mod 256]
      in if hs = [] \<or> 4 < length hs then None
         else (case rest of
           [] \<Rightarrow> Some (acc', ell)
         | c # rest' \<Rightarrow>
             if c = CHR ''.'' then
               (if (ell = None \<and> length acc \<noteq> 12) \<or> 16 < length acc + 4 then None
                else map_option (\<lambda>bs. (acc @ bs, ell)) (parseIPv4Fields s))
             else if c \<noteq> CHR '':'' then None
             else (case rest' of
                 [] \<Rightarrow> None
               | d # rest'' \<Rightarrow>
                   if d = CHR '':'' then
                     (if ell \<noteq> None then None
                      else if rest'' = [] then Some (acc', Some (length acc'))
                      else parseIPv6Loop k acc' (Some (length acc')) rest'')
                   else parseIPv6Loop k acc' ell rest')))"

definition parseIPv6 :: "string \<Rightarrow> 128 word option" where
  "parseIPv6 s =
     (if CHR ''%'' \<in> set s then None
      else let lead = hasPrefix s ''::''; s' = (if lead then drop 2 s else s)
      in if lead \<and> s' = [] then Some 0
         else (case parseIPv6Loop 8 [] (if lead then Some 0 else None) s' of
           None \<Rightarrow> None
         | Some (acc, ell) \<Rightarrow>
             if length acc < 16 then
               map_option (\<lambda>e. bytesWord (take e acc @ replicate (16 - length acc) 0 @ drop e acc)) ell
             else if ell \<noteq> None then None else Some (bytesWord acc)))"

definition parseAddr :: "string \<Rightarrow> addr option" where
  "parseAddr s =
     (case find (\<lambda>c. c \<in> set ''.:%'') s of
        None \<Rightarrow> None
      | Some c \<Rightarrow>
          if c = CHR ''.'' then map_option (\<lambda>bs. V4 (bytesWord bs)) (parseIPv4Fields s)
          else if c = CHR '':'' then map_option V6 (parseIPv6 s)
          else None)"

definition addrBits :: "addr \<Rightarrow> nat" where
  "addrBits a = (case a of V4 _ \<Rightarrow> 32 | V6 _ \<Rightarrow> 128)"

definition parsePrefix :: "string \<Rightarrow> prefix option" where
  "parsePrefix s =
     (case cutByte (CHR ''/'') (rev s) of
        None \<Rightarrow> None
      | Some (b, a) \<Rightarrow>
          (let bits = rev b in
           case parseAddr (rev a) of
             None \<Rightarrow> None
           | Some ip \<Rightarrow>
               if 1 < length bits \<and> (hd bits < CHR ''1'' \<or> CHR ''9'' < hd bits) then None
               else (case atoi bits of
                   None \<Rightarrow> None
                 | Some n \<Rightarrow> if n < 0 \<or> int (addrBits ip) < n then None
                            else Some (Prefix ip (nat n)))))"

definition topBits :: "nat \<Rightarrow> 'a::len word \<Rightarrow> 'a word" where
  "topBits n w = w AND NOT (mask (LENGTH('a) - n))"

fun overlaps :: "prefix \<Rightarrow> prefix \<Rightarrow> bool" where
  "overlaps (Prefix (V4 a) m) (Prefix (V4 b) n) \<longleftrightarrow> topBits (min m n) a = topBits (min m n) b"
| "overlaps (Prefix (V6 a) m) (Prefix (V6 b) n) \<longleftrightarrow> topBits (min m n) a = topBits (min m n) b"
| "overlaps _ _ \<longleftrightarrow> False"

section \<open>Overlap is a common address\<close>

fun inPrefix :: "addr \<Rightarrow> prefix \<Rightarrow> bool" where
  "inPrefix (V4 x) (Prefix (V4 a) n) \<longleftrightarrow> topBits n x = topBits n a"
| "inPrefix (V6 x) (Prefix (V6 a) n) \<longleftrightarrow> topBits n x = topBits n a"
| "inPrefix _ _ \<longleftrightarrow> False"

lemma topBits_eq_iff:
  fixes a b :: "'a::len word"
  shows "topBits n a = topBits n b \<longleftrightarrow> (\<forall>i. LENGTH('a) - n \<le> i \<longrightarrow> bit a i = bit b i)"
  by (auto simp: topBits_def bit_eq_iff bit_simps) (metis bit_imp_le_length not_le)+

lemma topBits_mono: "topBits n a = topBits n b \<Longrightarrow> m \<le> n \<Longrightarrow> topBits m a = topBits m b"
  by (auto simp: topBits_eq_iff)

lemma topBits_overlap:
  "topBits (min m n) a = topBits (min m n) b
     \<longleftrightarrow> (\<exists>x. topBits m x = topBits m a \<and> topBits n x = topBits n b)"
proof
  assume eq: "topBits (min m n) a = topBits (min m n) b"
  show "\<exists>x. topBits m x = topBits m a \<and> topBits n x = topBits n b"
  proof (cases "m \<le> n")
    case True
    with eq show ?thesis by (intro exI [of _ b]) simp
  next
    case False
    with eq show ?thesis by (intro exI [of _ a]) simp
  qed
next
  assume "\<exists>x. topBits m x = topBits m a \<and> topBits n x = topBits n b"
  then obtain x where "topBits m x = topBits m a" "topBits n x = topBits n b" by blast
  then have "topBits (min m n) x = topBits (min m n) a" "topBits (min m n) x = topBits (min m n) b"
    by (auto intro: topBits_mono)
  then show "topBits (min m n) a = topBits (min m n) b" by simp
qed

lemma ex_addr: "(\<exists>x. P x) \<longleftrightarrow> (\<exists>w. P (V4 w)) \<or> (\<exists>w. P (V6 w))"
  by (metis addr.exhaust)

lemma overlaps_iff_common_address: "overlaps p q \<longleftrightarrow> (\<exists>x. inPrefix x p \<and> inPrefix x q)"
proof -
  obtain a m b n where "p = Prefix a m" "q = Prefix b n" by (cases p; cases q)
  then show ?thesis
    by (cases a; cases b) (simp_all add: ex_addr topBits_overlap)
qed

lemma overlaps_sym: "overlaps p q = overlaps q p"
  by (auto simp: overlaps_iff_common_address)

lemma overlaps_refl: "overlaps p p"
proof -
  have "inPrefix (prefixAddr p) p" by (cases p; cases "prefixAddr p") auto
  then show ?thesis by (auto simp: overlaps_iff_common_address)
qed

end
