(* ===== verification/Topo_Analyze.thy ===== *)
theory Topo_Analyze
  imports Topo_Graph Net_Prefix
begin

text \<open>
  The deterministic analysis core, \<open>antr/engine/go/internal/analyze/analyze.go\<close>: the helper
  predicates, Gate 1 (\<open>adminVerdict\<close>), the per-NIC exposure rules, the per-resource checks and
  \<open>Analyze\<close> itself.  Go iterates over the map of NICs in an unspecified order, twice; the two
  orders are the first arguments of \<open>analyzeIn\<close>, and \<open>analyze\<close> fixes one.
\<close>

section \<open>Helpers\<close>

record Finding =
  fi_Type :: string
  fi_Severity :: string
  fi_Resource :: string
  fi_Evidence :: string
  fi_Reachable :: bool

definition finding :: "string \<Rightarrow> string \<Rightarrow> string \<Rightarrow> string \<Rightarrow> bool \<Rightarrow> Finding" where
  "finding t sev res ev r =
     \<lparr>fi_Type = t, fi_Severity = sev, fi_Resource = res, fi_Evidence = ev, fi_Reachable = r\<rparr>"

lemma finding_sel [simp]:
  "fi_Type (finding t sev res ev r) = t" "fi_Severity (finding t sev res ev r) = sev"
  "fi_Resource (finding t sev res ev r) = res" "fi_Evidence (finding t sev res ev r) = ev"
  "fi_Reachable (finding t sev res ev r) = r"
  by (simp_all add: finding_def)

definition cidrOverlap :: "string \<Rightarrow> string \<Rightarrow> bool" where
  "cidrOverlap a b = (case (parsePrefix a, parsePrefix b) of
       (Some pa, Some pb) \<Rightarrow> overlaps pa pb
     | _ \<Rightarrow> False)"

definition isInternetSource :: "string \<Rightarrow> bool" where
  "isInternetSource s \<longleftrightarrow> toLower s \<in> {''0.0.0.0/0'', ''internet'', ''*''}"

definition isBroadTagSource :: "string \<Rightarrow> bool" where
  "isBroadTagSource s \<longleftrightarrow> equalFold s ''azurecloud''"

definition subnetToVnet :: "string \<Rightarrow> string" where
  "subnetToVnet subnet = (case cutByte (CHR ''/'') subnet of None \<Rightarrow> [] | Some (l, _) \<Rightarrow> l)"

definition nicVnet :: "NIC \<Rightarrow> string" where
  "nicVnet n = (case cutByte (CHR ''/'') (nic_Subnet n) of None \<Rightarrow> [] | Some (l, _) \<Rightarrow> l)"

definition deref :: "string option \<Rightarrow> string" where
  "deref s = (case s of None \<Rightarrow> [] | Some x \<Rightarrow> x)"

definition parsePortRange :: "string \<Rightarrow> (int \<times> int) option" where
  "parsePortRange s0 =
     (let s = trimSpace s0 in
      case cutByte (CHR ''-'') s of
        Some (l, r) \<Rightarrow>
          (case (atoi (trimSpace l), atoi (trimSpace r)) of
             (Some a, Some b) \<Rightarrow> if b < a then None else Some (a, b)
           | _ \<Rightarrow> None)
      | None \<Rightarrow> map_option (\<lambda>p. (p, p)) (atoi s))"

definition adminPortCovers :: "string \<Rightarrow> string \<Rightarrow> bool" where
  "adminPortCovers adminSpec0 nsgPort0 =
     (let adminSpec = trimSpace adminSpec0; nsgPort = trimSpace nsgPort0 in
      if adminSpec = ''*'' then True
      else if adminSpec = nsgPort then True
      else (case (parsePortRange adminSpec, parsePortRange nsgPort) of
          (Some (alo, ahi), Some (nlo, nhi)) \<Rightarrow> alo \<le> nlo \<and> nhi \<le> ahi
        | _ \<Rightarrow> False))"

section \<open>Gate 1: the AVNM verdict\<close>

definition adminGoverns :: "AdminRule \<Rightarrow> string \<Rightarrow> string \<Rightarrow> bool" where
  "adminGoverns ar vnet port \<longleftrightarrow>
     ar_Direction ar = ''Inbound'' \<and> vnet \<in> set (ar_AppliesTo ar)
     \<and> adminPortCovers (ar_DestinationPortRange ar) port
     \<and> toLower (ar_SourceAddressPrefix ar) \<in> {''internet'', ''0.0.0.0/0'', ''*''}"

fun adminVerdictLoop :: "AdminRule list \<Rightarrow> string \<Rightarrow> string \<Rightarrow> string \<Rightarrow> int \<Rightarrow> string" where
  "adminVerdictLoop [] vnet port best bestPri = best"
| "adminVerdictLoop (ar # rules) vnet port best bestPri =
     (if adminGoverns ar vnet port \<and> ar_Priority ar < bestPri
      then adminVerdictLoop rules vnet port (ar_Access ar) (ar_Priority ar)
      else adminVerdictLoop rules vnet port best bestPri)"

definition adminVerdict :: "AdminRule list \<Rightarrow> string \<Rightarrow> string \<Rightarrow> string" where
  "adminVerdict rules vnet port = adminVerdictLoop rules vnet port [] (2 ^ 30)"

definition rid :: "string \<Rightarrow> string \<Rightarrow> string" where
  "rid name i = (if i \<noteq> [] then i else name)"

section \<open>The per-NIC rules\<close>

text \<open>The Network Watcher tables are read by resource id first, then by the bare name.\<close>

definition nwLookup :: "(string \<rightharpoonup> 'a list) \<Rightarrow> string \<Rightarrow> NIC \<Rightarrow> 'a list" where
  "nwLookup m name nic = (case m name of Some r \<Rightarrow> r
     | None \<Rightarrow> (case m (nic_Name nic) of Some r \<Rightarrow> r | None \<Rightarrow> []))"

definition hasPIP :: "NIC \<Rightarrow> bool" where
  "hasPIP nic \<longleftrightarrow> nic_PublicIP nic \<noteq> None \<and> nic_PublicIP nic \<noteq> Some []"

definition defaultHop :: "Route list \<Rightarrow> string" where
  "defaultHop routes = (case find (\<lambda>r. ro_AddressPrefix r = ''0.0.0.0/0'') routes of
     None \<Rightarrow> [] | Some r \<Rightarrow> ro_NextHopType r)"

definition isSensitive :: "NIC \<Rightarrow> bool" where
  "isSensitive nic \<longleftrightarrow> equalFold (deref (nic_Tags nic ''sensitive'')) ''true''"

definition openInternet :: "string \<Rightarrow> SecRule \<Rightarrow> bool" where
  "openInternet av r =
     (if av = ''AlwaysAllow'' then True else if av = ''Deny'' then False
      else sr_Access r = ''Allow'')"

definition latentReason :: "NIC \<Rightarrow> string \<Rightarrow> string \<Rightarrow> string" where
  "latentReason nic hop av =
     (let why = (if \<not> hasPIP nic then [''no public IP''] else [])
              @ (if hop = ''None'' then [''route 0.0.0.0/0->None (black-hole)'']
                 else if hop \<noteq> [] \<and> hop \<noteq> ''Internet'' then [''route 0.0.0.0/0->'' @ hop] else [])
              @ (if av = ''Deny''
                 then [''AVNM Deny closes the Internet source (east-west may remain open)''] else []);
          reason = strJoin ''; '' why
      in if reason = [] then ''not reachable'' else reason)"

text \<open>One iteration of the loop over a NIC's effective rules.\<close>

definition ruleFindings :: "AdminRule list \<Rightarrow> string \<Rightarrow> NIC \<Rightarrow> string \<Rightarrow> SecRule \<Rightarrow> Finding list" where
  "ruleFindings admin name nic hop r =
     (if sr_Direction r \<noteq> ''Inbound'' then []
      else let src = sr_SourceAddressPrefix r;
               broadNet = isInternetSource src; broadTag = isBroadTagSource src in
        if \<not> broadNet \<and> \<not> broadTag then []
        else let port = sr_DestinationPortRange r;
                 av = adminVerdict admin (nicVnet nic) port;
                 reachable = openInternet av r \<and> hasPIP nic \<and> hop = ''Internet'' in
          if reachable then
            [finding ''over-permissive NSG (reachable)''
               (if isSensitive nic then ''Critical'' else ''High'') name
               (src @ '':'' @ port @ '' inbound + route 0.0.0.0/0->Internet + public IP ''
                 @ deref (nic_PublicIP nic)
                 @ (if av = ''AlwaysAllow'' then '' (AVNM AlwaysAllow overrides NSG)'' else [])
                 @ (if broadTag then '' '' @ emDash @ '' AzureCloud tag = all Azure public IPs, cross-tenant''
                    else []))
               True]
          else
            [finding ''over-permissive NSG (latent)'' ''Informational'' name
               (src @ '':'' @ port @ '' inbound but '' @ latentReason nic hop av) False])"

definition dnatFindings :: "string \<Rightarrow> NIC \<Rightarrow> Firewall \<Rightarrow> Finding list" where
  "dnatFindings name nic fw =
     map (\<lambda>nat. finding ''over-permissive NSG (reachable)'' ''High'' name
           (''firewall DNAT '' @ fw_PublicIP fw @ '':'' @ showInt (nat_DestinationPort nat)
             @ '' -> '' @ nic_PrivateIP nic @ '':'' @ showInt (nat_TranslatedPort nat)
             @ '' (source '' @ showStrings (nat_SourceAddresses nat) @ ''); no public IP on the NIC'')
           True)
       (filter (\<lambda>nat. nat_TranslatedAddress nat = nic_PrivateIP nic) (fw_NatRules fw))"

definition firewallsOf :: "Fixture \<Rightarrow> Firewall list" where
  "firewallsOf fx = fx_AzureFirewalls fx
     @ (case fx_AzureFirewall fx of None \<Rightarrow> [] | Some f \<Rightarrow> [f])"

definition nicFindings :: "Fixture \<Rightarrow> string \<Rightarrow> NIC \<Rightarrow> Finding list" where
  "nicFindings fx name nic =
     (let rules = nwLookup (nw_EffectiveSecurityRules (fx_NetworkWatcher fx)) name nic;
          hop = defaultHop (nwLookup (nw_EffectiveRoutes (fx_NetworkWatcher fx)) name nic)
      in concat (map (ruleFindings (avnm_SecurityAdminRules (fx_AVNM fx)) name nic hop) rules)
         @ concat (map (dnatFindings name nic) (firewallsOf fx)))"

definition allowsVnet :: "SecRule \<Rightarrow> bool" where
  "allowsVnet r \<longleftrightarrow> sr_Name r = ''AllowVnetInBound'' \<or> (sr_Priority r = 65000 \<and> sr_Access r = ''Allow'')"

definition deniesVnet :: "SecRule \<Rightarrow> bool" where
  "deniesVnet r \<longleftrightarrow> sr_Direction r = ''Inbound'' \<and> sr_Access r = ''Deny'' \<and> sr_Priority r < 65000
     \<and> (equalFold (sr_SourceAddressPrefix r) ''VirtualNetwork''
        \<or> strContains (sr_Name r) ''DenyVnetInBound'')"

definition segmentationFindings :: "Fixture \<Rightarrow> string \<Rightarrow> NIC \<Rightarrow> Finding list" where
  "segmentationFindings fx name nic =
     (if \<not> isSensitive nic then []
      else let rules = nwLookup (nw_EffectiveSecurityRules (fx_NetworkWatcher fx)) name nic in
        if list_ex allowsVnet rules \<and> \<not> list_ex deniesVnet rules
        then [finding ''missing tier segmentation'' ''High'' name
               ''sensitive subnet reachable VNet-wide via default AllowVnetInBound (no DenyVnetInBound above priority 65000)'' True]
        else [])"

end
