(* ===== verification/Topo_Checks.thy ===== *)
theory Topo_Checks
  imports Topo_Analyze
begin

text \<open>
  The per-resource checks of \<open>analyze.go\<close> (private DNS zones, Application Gateway, AKS,
  cross-subscription peering, load balancer NAT, API Management, Bastion, Virtual WAN, Front
  Door) and \<open>Analyze\<close>, which runs the NIC rules and these checks and sorts the result.
\<close>

section \<open>Resource checks\<close>

definition peGroupIdToZone :: "string \<rightharpoonup> string" where
  "peGroupIdToZone = map_of [
     (''blob'', ''privatelink.blob.core.windows.net''),
     (''file'', ''privatelink.file.core.windows.net''),
     (''queue'', ''privatelink.queue.core.windows.net''),
     (''table'', ''privatelink.table.core.windows.net''),
     (''dfs'', ''privatelink.dfs.core.windows.net''),
     (''web'', ''privatelink.web.core.windows.net''),
     (''vault'', ''privatelink.vaultcore.azure.net''),
     (''sql'', ''privatelink.database.windows.net''),
     (''sqlOnDemand'', ''privatelink.sql.azuresynapse.net''),
     (''registry'', ''privatelink.azurecr.io''),
     (''sites'', ''privatelink.azurewebsites.net''),
     (''namespace'', ''privatelink.servicebus.windows.net''),
     (''managedInstance'', ''privatelink.database.windows.net''),
     (''searchService'', ''privatelink.search.windows.net''),
     (''azurecosmosdb'', ''privatelink.documents.azure.com''),
     (''redisCache'', ''privatelink.redis.cache.windows.net''),
     (''openai'', ''privatelink.openai.azure.com''),
     (''account'', ''privatelink.purview.azure.com'')]"

text \<open>The index \<open>zoneLinked\<close>: zone name to the set of linked VNets, over all zone records.\<close>

fun zoneLinked :: "PrivateDnsZone list \<Rightarrow> (string \<rightharpoonup> string set)" where
  "zoneLinked [] = Map.empty"
| "zoneLinked (z # zs) =
     (let m = zoneLinked zs in
      m(pz_Name z \<mapsto> set (pz_LinkedVnets z)
          \<union> (case m (pz_Name z) of None \<Rightarrow> {} | Some vs \<Rightarrow> vs)))"

definition privateEndpointFindings :: "PrivateDnsZone list \<Rightarrow> PrivateEndpoint \<Rightarrow> Finding list" where
  "privateEndpointFindings zones pe =
     (if pe_ConnectionState pe \<noteq> ''Approved'' \<and> pe_ConnectionState pe \<noteq> [] then []
      else (case peGroupIdToZone (pe_GroupId pe) of
        None \<Rightarrow> []
      | Some expectedZone \<Rightarrow>
          (let vnet = subnetToVnet (pe_Subnet pe) in
           if vnet = [] then []
           else (case zoneLinked zones expectedZone of
             None \<Rightarrow>
               [finding ''private DNS zone missing'' ''High'' (pe_Name pe)
                  (''Private endpoint '' @ goQuote (pe_Name pe) @ '' (service: '' @ pe_GroupId pe
                   @ '') is in VNet '' @ goQuote vnet @ '' but Private DNS zone ''
                   @ goQuote expectedZone @ '' does not exist in this subscription '' @ emDash
                   @ '' DNS resolution will use public endpoints'') False]
           | Some linkedVnets \<Rightarrow>
               if vnet \<notin> linkedVnets then
                 [finding ''private DNS zone not linked to VNet'' ''High'' (pe_Name pe)
                    (''Private endpoint '' @ goQuote (pe_Name pe) @ '' (service: '' @ pe_GroupId pe
                     @ '') is in VNet '' @ goQuote vnet @ '' but zone '' @ goQuote expectedZone
                     @ '' is not linked to that VNet '' @ emDash @ '' workloads in '' @ goQuote vnet
                     @ '' resolve this service via public DNS, bypassing the private endpoint'') False]
               else []))))"

definition checkPrivateDnsZoneMisconfiguration :: "ResourceGraph \<Rightarrow> Finding list" where
  "checkPrivateDnsZoneMisconfiguration rg =
     concat (map (privateEndpointFindings (rg_PrivateDnsZones rg)) (rg_PrivateEndpoints rg))"

definition checkAppGatewayExposure :: "ResourceGraph \<Rightarrow> Finding list" where
  "checkAppGatewayExposure rg = concat (map (\<lambda>gw.
     if ag_PublicIP gw = [] then []
     else if \<not> ag_WafEnabled gw then
       [finding ''app gateway WAF disabled'' ''Medium'' (ag_Name gw)
          (''Application Gateway '' @ goQuote (ag_Name gw) @ '' has public IP '' @ ag_PublicIP gw
           @ '' but WAF is disabled '' @ emDash @ '' no L7 protection on public ingress'') True]
     else if equalFold (ag_WafMode gw) ''Detection'' then
       [finding ''app gateway WAF in detection mode'' ''Informational'' (ag_Name gw)
          (''Application Gateway '' @ goQuote (ag_Name gw) @ '' WAF is enabled but in Detection mode ''
           @ emDash @ '' threats are logged but not blocked'') False]
     else []) (rg_ApplicationGateways rg))"

definition checkAKSExposure :: "ResourceGraph \<Rightarrow> Finding list" where
  "checkAKSExposure rg = concat (map (\<lambda>aks.
     if \<not> aks_IsPrivateCluster aks then
       [finding ''AKS non-private cluster'' ''Medium'' (aks_Name aks)
          (''AKS cluster '' @ goQuote (aks_Name aks) @ '' is not a private cluster '' @ emDash
           @ '' API server is reachable from the public internet; use a private cluster with a private endpoint for production workloads'') True]
     else []) (rg_AKSClusters rg))"

definition checkCrossSubPeeringExposure :: "Fixture \<Rightarrow> Finding list" where
  "checkCrossSubPeeringExposure fx = concat (map (\<lambda>xp.
     if equalFold (xp_State xp) ''Connected'' \<and> \<not> xp_HasHubFirewall xp then
       [finding ''cross-subscription peering without firewall'' ''Medium''
          (xp_LocalVnet xp @ ''~'' @ xp_RemoteVnet xp)
          (''VNet '' @ goQuote (xp_LocalVnet xp) @ '' and '' @ goQuote (xp_RemoteVnet xp) @ '' (sub ''
           @ xp_RemoteSubscriptionID xp
           @ '') are directly peered across subscriptions with no hub firewall in path '' @ emDash
           @ '' lateral movement between subscriptions is unrestricted'') False]
     else []) (fx_CrossSubscriptionPeerings fx))"

definition checkLoadBalancerNAT :: "ResourceGraph \<Rightarrow> Finding list" where
  "checkLoadBalancerNAT rg = concat (map (\<lambda>lb.
     if lb_IsInternal lb \<or> lb_FrontendIP lb = [] then []
     else concat (map (\<lambda>nat.
       if lbn_BackendNic nat = [] then []
       else [finding ''internet reachable via load balancer NAT'' ''High'' (lbn_BackendNic nat)
          (''load balancer '' @ goQuote (lb_Name lb) @ '' NAT rule '' @ goQuote (lbn_Name nat)
           @ '' forwards public IP '' @ lb_FrontendIP lb @ '':'' @ showInt (lbn_FrontendPort nat)
           @ '' '' @ rightArrow @ '' NIC '' @ goQuote (lbn_BackendNic nat) @ '':''
           @ showInt (lbn_BackendPort nat) @ '' '' @ emDash
           @ '' NIC is internet-reachable without a direct public IP'') True])
       (lb_InboundNatRules lb))) (rg_LoadBalancers rg))"

definition checkAPIMExposure :: "ResourceGraph \<Rightarrow> Finding list" where
  "checkAPIMExposure rg = concat (map (\<lambda>apim.
     if apim_VNetMode apim = ''None'' then
       [finding ''APIM without VNet isolation'' ''Medium'' (apim_Name apim)
          (''API Management '' @ goQuote (apim_Name apim)
           @ '' is deployed without VNet injection (mode=None) '' @ emDash
           @ '' gateway is publicly accessible and backend API calls bypass network controls'') True]
     else if apim_VNetMode apim = ''External'' then
       (if \<not> apim_HasWAFFrontEnd apim then
          [finding ''APIM External mode without WAF'' ''Medium'' (apim_Name apim)
             (''API Management '' @ goQuote (apim_Name apim)
              @ '' is VNet-injected in External mode (public endpoint '' @ apim_PublicIP apim
              @ '') with no WAF upstream '' @ emDash
              @ '' API traffic reaches the gateway without L7 inspection'') True]
        else [])
     else []) (rg_APIManagements rg))"

text \<open>The first effective rule of a NIC that opens a management port to the Internet.\<close>

definition opensManagement :: "SecRule \<Rightarrow> bool" where
  "opensManagement r \<longleftrightarrow> sr_Direction r = ''Inbound'' \<and> sr_Access r = ''Allow''
     \<and> isInternetSource (sr_SourceAddressPrefix r)
     \<and> sr_DestinationPortRange r \<in> {''22'', ''3389''}"

definition checkBastionBypass :: "ResourceGraph \<Rightarrow> (string \<rightharpoonup> SecRule list) \<Rightarrow> Finding list" where
  "checkBastionBypass rg effRules =
     (if rg_AzureBastions rg = [] then []
      else concat (map (\<lambda>nic.
        if \<not> hasPIP nic then []
        else (case find opensManagement
                (case effRules (nic_Name nic) of None \<Rightarrow> [] | Some rs \<Rightarrow> rs) of
            None \<Rightarrow> []
          | Some r \<Rightarrow>
              [finding (''Bastion bypass '' @ emDash @ '' direct management port exposed'') ''High''
                 (nic_Name nic)
                 (''Azure Bastion is deployed but NIC '' @ goQuote (nic_Name nic)
                  @ '' has public IP '' @ deref (nic_PublicIP nic) @ '' with port ''
                  @ sr_DestinationPortRange r @ '' open from internet '' @ emDash
                  @ '' Bastion is intended to be the exclusive management ingress'') True]))
        (rg_NetworkInterfaces rg)))"

definition checkFrontDoorExposure :: "ResourceGraph \<Rightarrow> Finding list" where
  "checkFrontDoorExposure rg = concat (map (\<lambda>fd.
     if \<not> fd_WafEnabled fd then
       [finding ''Front Door WAF disabled'' ''Medium'' (fd_Name fd)
          (''Azure Front Door '' @ goQuote (fd_Name fd) @ '' has no WAF policy enabled '' @ emDash
           @ '' all internet-facing endpoints lack L7 protection (OWASP Top 10, DDoS at app layer)'') True]
     else if equalFold (fd_WafMode fd) ''Detection'' then
       [finding ''Front Door WAF in detection mode'' ''Informational'' (fd_Name fd)
          (''Azure Front Door '' @ goQuote (fd_Name fd) @ '' WAF is enabled but in Detection mode ''
           @ emDash @ '' threats are logged but not blocked; switch to Prevention for active protection'') False]
     else []) (rg_AzureFrontDoors rg))"

definition checkVirtualWAN :: "ResourceGraph \<Rightarrow> Finding list" where
  "checkVirtualWAN rg = concat (map (\<lambda>wan. concat (map (\<lambda>hub.
     if \<not> vh_HasSecuredFirewall hub then
       [finding (''vWAN hub unsecured '' @ emDash @ '' no firewall'') ''Medium'' (vh_Name hub)
          (''Virtual WAN hub '' @ goQuote (vh_Name hub) @ '' has ''
           @ showInt (int (length (vh_SpokeConnections hub)))
           @ '' spoke connection(s) but no secured Azure Firewall '' @ emDash
           @ '' all spoke-to-spoke and spoke-to-internet traffic is forwarded without inspection'') False]
     else if \<not> vh_RoutingPolicyPrivate hub then
       [finding ''vWAN hub firewall bypasses private traffic'' ''Medium'' (vh_Name hub)
          (''Virtual WAN hub '' @ goQuote (vh_Name hub)
           @ '' has a secured firewall but RoutingPolicyPrivate=false '' @ emDash
           @ '' spoke-to-spoke (east-west) traffic bypasses the firewall; only internet-bound traffic is inspected'') False]
     else []) (vw_VHubs wan))) (rg_VirtualWANs rg))"

definition orphanedFindings :: "ResourceGraph \<Rightarrow> Finding list" where
  "orphanedFindings rg = concat (map (\<lambda>pip.
     if pip_IPConfiguration pip = None \<or> pip_IPConfiguration pip = Some [] then
       [finding ''orphaned public endpoint'' ''Low'' (rid (pip_Name pip) (pip_ID pip))
          (''public IP '' @ pip_IPAddress pip @ '' with null ipConfiguration'') False]
     else []) (rg_PublicIPAddresses rg))"

text \<open>The four nested loops over pairs \<open>i < j\<close> of VNets and their address spaces.\<close>

definition vnetPairFindings :: "VNet \<Rightarrow> VNet \<Rightarrow> Finding list" where
  "vnetPairFindings v w =
     concat (map (\<lambda>pa. concat (map (\<lambda>pb.
        if cidrOverlap pa pb then
          [finding ''CIDR overlap'' ''Medium'' (vn_Name v @ ''~'' @ vn_Name w)
             (''overlapping address space '' @ pa @ '' / '' @ pb) False]
        else []) (vn_AddressSpace w))) (vn_AddressSpace v))"

fun overlapFindings :: "VNet list \<Rightarrow> Finding list" where
  "overlapFindings [] = []"
| "overlapFindings (v # vs) = concat (map (vnetPairFindings v) vs) @ overlapFindings vs"

section \<open>Analyze\<close>

text \<open>The map \<open>nics\<close> from resource id to NIC; a later NIC with the same id replaces an earlier one.\<close>

definition nicsMap :: "NIC list \<Rightarrow> (string \<rightharpoonup> NIC)" where
  "nicsMap ns = foldl (\<lambda>m n. m(rid (nic_Name n) (nic_ID n) \<mapsto> n)) Map.empty ns"

text \<open>\<open>for name, nic := range nics\<close>, with the iteration order given as the list of keys.\<close>

definition rangeNics :: "(string \<rightharpoonup> NIC) \<Rightarrow> (string \<Rightarrow> NIC \<Rightarrow> Finding list) \<Rightarrow> string list \<Rightarrow> Finding list" where
  "rangeNics m f ks = concat (map (\<lambda>k. case m k of None \<Rightarrow> [] | Some n \<Rightarrow> f k n) ks)"

definition iterationOrder :: "(string \<rightharpoonup> 'a) \<Rightarrow> string list \<Rightarrow> bool" where
  "iterationOrder m ks \<longleftrightarrow> distinct ks \<and> set ks = dom m"

definition incompleteFindings :: "NetworkWatcher \<Rightarrow> Finding list" where
  "incompleteFindings nw = map (\<lambda>name. finding ''analysis incomplete'' ''Medium'' name
     (''Network Watcher enrichment failed '' @ emDash
      @ '' effective rules/routes unavailable; NIC not evaluated for internet exposure'') False)
     (nw_IncompleteNICs nw)"

definition resourceChecks :: "Fixture \<Rightarrow> Finding list" where
  "resourceChecks fx =
     (let rg = fx_ResourceGraph fx in
      checkPrivateDnsZoneMisconfiguration rg @ checkAppGatewayExposure rg @ checkAKSExposure rg
      @ checkCrossSubPeeringExposure fx @ checkLoadBalancerNAT rg @ checkAPIMExposure rg
      @ checkBastionBypass rg (nw_EffectiveSecurityRules (fx_NetworkWatcher fx))
      @ checkVirtualWAN rg @ checkFrontDoorExposure rg)"

definition collectFindings :: "string list \<Rightarrow> string list \<Rightarrow> Fixture \<Rightarrow> Finding list" where
  "collectFindings ord1 ord2 fx =
     (let rg = fx_ResourceGraph fx; nics = nicsMap (rg_NetworkInterfaces rg) in
      incompleteFindings (fx_NetworkWatcher fx)
      @ rangeNics nics (nicFindings fx) ord1
      @ orphanedFindings rg
      @ overlapFindings (rg_VirtualNetworks rg)
      @ rangeNics nics (segmentationFindings fx) ord2
      @ resourceChecks fx)"

definition sortKey :: "Finding \<Rightarrow> string \<times> string \<times> string" where
  "sortKey f = (fi_Resource f, fi_Type f, fi_Evidence f)"

definition analyzeIn :: "string list \<Rightarrow> string list \<Rightarrow> Fixture \<Rightarrow> Finding list" where
  "analyzeIn ord1 ord2 fx = sort_key sortKey (collectFindings ord1 ord2 fx)"

definition nicKeys :: "Fixture \<Rightarrow> string list" where
  "nicKeys fx = remdups (map (\<lambda>n. rid (nic_Name n) (nic_ID n))
     (rg_NetworkInterfaces (fx_ResourceGraph fx)))"

definition analyze :: "Fixture \<Rightarrow> Finding list" where
  "analyze fx = analyzeIn (nicKeys fx) (nicKeys fx) fx"

end
