(* ===== verification/Topo_Facts.thy ===== *)
theory Topo_Facts
  imports Topo_Checks
begin

text \<open>
  What the analysis guarantees: the output does not depend on Go's map iteration order; Gate 1 is
  the highest-precedence governing AVNM rule; a NIC is reported reachable exactly when a path
  through the four gates or a firewall DNAT rule exists; the port, CIDR and private DNS checks
  mean what they say.
\<close>

section \<open>Independence of the map iteration order\<close>

lemma ruleFindings_resource: "f \<in> set (ruleFindings admin name nic hop r) \<Longrightarrow> fi_Resource f = name"
  by (auto simp: ruleFindings_def Let_def split: if_splits)

lemma dnatFindings_resource: "f \<in> set (dnatFindings name nic fw) \<Longrightarrow> fi_Resource f = name"
  by (auto simp: dnatFindings_def)

lemma nicFindings_resource: "f \<in> set (nicFindings fx name nic) \<Longrightarrow> fi_Resource f = name"
  by (auto simp: nicFindings_def Let_def dest: ruleFindings_resource dnatFindings_resource)

lemma segmentationFindings_resource:
  "f \<in> set (segmentationFindings fx name nic) \<Longrightarrow> fi_Resource f = name"
  by (auto simp: segmentationFindings_def Let_def split: if_splits)

lemma rangeNics_key_filter:
  assumes "iterationOrder m ks" and "iterationOrder m ks'"
    and "\<And>k n f. f \<in> set (B k n) \<Longrightarrow> fi_Resource f = k"
  shows "filter (\<lambda>f. sortKey f = k) (rangeNics m B ks) = filter (\<lambda>f. sortKey f = k) (rangeNics m B ks')"
proof -
  let ?B = "\<lambda>k. case m k of None \<Rightarrow> [] | Some n \<Rightarrow> B k n"
  have res: "filter (\<lambda>f. fi_Resource f = fst k) (rangeNics m B ks)
      = filter (\<lambda>f. fi_Resource f = fst k) (rangeNics m B ks')"
    unfolding rangeNics_def
    using assms by (intro filter_blocks_order) (auto simp: iterationOrder_def split: option.splits)
  have "filter (\<lambda>f. sortKey f = k) xs
      = filter (\<lambda>f. sortKey f = k) (filter (\<lambda>f. fi_Resource f = fst k) xs)" for xs
    by (auto simp: sortKey_def filter_filter intro!: filter_cong)
  with res show ?thesis by metis
qed

lemma analyzeIn_order:
  assumes "iterationOrder (nicsMap (rg_NetworkInterfaces (fx_ResourceGraph fx))) o1"
    and "iterationOrder (nicsMap (rg_NetworkInterfaces (fx_ResourceGraph fx))) o1'"
    and "iterationOrder (nicsMap (rg_NetworkInterfaces (fx_ResourceGraph fx))) o2"
    and "iterationOrder (nicsMap (rg_NetworkInterfaces (fx_ResourceGraph fx))) o2'"
  shows "analyzeIn o1 o2 fx = analyzeIn o1' o2' fx"
  unfolding analyzeIn_def
proof (rule stable_sort_unique)
  fix k
  show "filter (\<lambda>f. sortKey f = k) (collectFindings o1 o2 fx)
      = filter (\<lambda>f. sortKey f = k) (collectFindings o1' o2' fx)"
    using assms
    by (simp add: collectFindings_def Let_def
          rangeNics_key_filter [OF assms(1,2) nicFindings_resource]
          rangeNics_key_filter [OF assms(3,4) segmentationFindings_resource])
qed

lemma dom_nicsMap: "dom (nicsMap ns) = (\<lambda>n. rid (nic_Name n) (nic_ID n)) ` set ns"
proof -
  have "dom (foldl (\<lambda>m n. m(rid (nic_Name n) (nic_ID n) \<mapsto> n)) m ns)
      = dom m \<union> (\<lambda>n. rid (nic_Name n) (nic_ID n)) ` set ns" for m :: "string \<rightharpoonup> NIC"
    by (induction ns arbitrary: m) auto
  then show ?thesis by (simp add: nicsMap_def)
qed

lemma iterationOrder_nicKeys:
  "iterationOrder (nicsMap (rg_NetworkInterfaces (fx_ResourceGraph fx))) (nicKeys fx)"
  by (simp add: iterationOrder_def nicKeys_def dom_nicsMap)

text \<open>
  C33: The analysis is deterministic.  Whatever orders Go's two \<open>range\<close> loops over the map of
  NICs visit it in, \<open>Analyze\<close> returns the same list of findings, in the same order.
\<close>

theorem analyze_order_independent:
  assumes "iterationOrder (nicsMap (rg_NetworkInterfaces (fx_ResourceGraph fx))) o1"
    and "iterationOrder (nicsMap (rg_NetworkInterfaces (fx_ResourceGraph fx))) o2"
  shows "analyzeIn o1 o2 fx = analyze fx"
  unfolding analyze_def
  by (rule analyzeIn_order [OF assms(1) iterationOrder_nicKeys assms(2) iterationOrder_nicKeys])

section \<open>Gate 1\<close>

lemma arg_min_list_step:
  fixes f :: "'a \<Rightarrow> 'b::linorder"
  shows "arg_min_list f (x # y # zs) = arg_min_list f ((if f y < f x then y else x) # zs)"
  by (cases zs) (auto simp: Let_def)

lemma adminVerdictLoop_best:
  "ar_Priority x < N \<Longrightarrow>
     adminVerdictLoop rules vnet port (ar_Access x) (ar_Priority x)
     = ar_Access (arg_min_list ar_Priority
         (x # filter (\<lambda>ar. adminGoverns ar vnet port \<and> ar_Priority ar < N) rules))"
proof (induction rules arbitrary: x)
  case Nil
  then show ?case by simp
next
  case (Cons ar rules)
  then show ?case
    by (cases "adminGoverns ar vnet port \<and> ar_Priority ar < ar_Priority x")
       (auto simp: arg_min_list_step simp del: arg_min_list.simps(2))
qed

text \<open>
  C32: Gate 1.  The verdict of the AVNM rules on an Internet-sourced flow is the access of the
  governing inbound rule (right VNet, port covered, Internet source) with the least priority
  number, the first one where several share it; with no governing rule below the sentinel
  priority \<open>1 << 30\<close> there is no verdict.
\<close>

theorem adminVerdict_highest_precedence:
  "adminVerdict rules vnet port =
     (case filter (\<lambda>ar. adminGoverns ar vnet port \<and> ar_Priority ar < 2 ^ 30) rules of
        [] \<Rightarrow> []
      | gs \<Rightarrow> ar_Access (arg_min_list ar_Priority gs))"
proof (induction rules)
  case Nil
  then show ?case by (simp add: adminVerdict_def)
next
  case (Cons ar rules)
  show ?case
  proof (cases "adminGoverns ar vnet port \<and> ar_Priority ar < 2 ^ 30")
    case True
    with adminVerdictLoop_best [of ar "2 ^ 30" rules vnet port] show ?thesis
      by (simp add: adminVerdict_def)
  next
    case False
    with Cons show ?thesis by (auto simp: adminVerdict_def)
  qed
qed

section \<open>Internet exposure\<close>

text \<open>
  The specification: a NIC is exposed when some inbound effective rule with an Internet-wide
  source is open after Gate 1 and the NIC has a public IP and a default route to the Internet
  (Gates 3 and 4), or when some firewall translates a published port to its private address.
\<close>

definition ruleExposes :: "Fixture \<Rightarrow> string \<Rightarrow> NIC \<Rightarrow> SecRule \<Rightarrow> bool" where
  "ruleExposes fx name nic r \<longleftrightarrow>
     sr_Direction r = ''Inbound''
     \<and> (isInternetSource (sr_SourceAddressPrefix r) \<or> isBroadTagSource (sr_SourceAddressPrefix r))
     \<and> openInternet (adminVerdict (avnm_SecurityAdminRules (fx_AVNM fx)) (nicVnet nic)
                        (sr_DestinationPortRange r)) r
     \<and> hasPIP nic
     \<and> defaultHop (nwLookup (nw_EffectiveRoutes (fx_NetworkWatcher fx)) name nic) = ''Internet''"

definition dnatExposes :: "Fixture \<Rightarrow> NIC \<Rightarrow> bool" where
  "dnatExposes fx nic \<longleftrightarrow>
     (\<exists>fw \<in> set (firewallsOf fx). \<exists>nat \<in> set (fw_NatRules fw).
        nat_TranslatedAddress nat = nic_PrivateIP nic)"

definition internetExposed :: "Fixture \<Rightarrow> string \<Rightarrow> NIC \<Rightarrow> bool" where
  "internetExposed fx name nic \<longleftrightarrow>
     (\<exists>r \<in> set (nwLookup (nw_EffectiveSecurityRules (fx_NetworkWatcher fx)) name nic).
        ruleExposes fx name nic r) \<or> dnatExposes fx nic"

abbreviation reachableType :: string where
  "reachableType \<equiv> ''over-permissive NSG (reachable)''"

lemmas resource_check_defs =
  checkPrivateDnsZoneMisconfiguration_def privateEndpointFindings_def checkAppGatewayExposure_def
  checkAKSExposure_def checkCrossSubPeeringExposure_def checkLoadBalancerNAT_def
  checkAPIMExposure_def checkBastionBypass_def checkVirtualWAN_def checkFrontDoorExposure_def

text \<open>The types a resource check can emit.\<close>

definition resourceTypes :: "string set" where
  "resourceTypes =
     {''private DNS zone missing'', ''private DNS zone not linked to VNet'',
      ''app gateway WAF disabled'', ''app gateway WAF in detection mode'', ''AKS non-private cluster'',
      ''cross-subscription peering without firewall'', ''internet reachable via load balancer NAT'',
      ''APIM without VNet isolation'', ''APIM External mode without WAF'',
      ''Bastion bypass '' @ emDash @ '' direct management port exposed'',
      ''vWAN hub unsecured '' @ emDash @ '' no firewall'',
      ''vWAN hub firewall bypasses private traffic'', ''Front Door WAF disabled'',
      ''Front Door WAF in detection mode''}"

lemma resourceChecks_types: "f \<in> set (resourceChecks fx) \<Longrightarrow> fi_Type f \<in> resourceTypes"
proof -
  have dns: "g \<in> set (checkPrivateDnsZoneMisconfiguration rg) \<Longrightarrow> fi_Type g \<in> resourceTypes"
    for g rg
    by (auto simp: checkPrivateDnsZoneMisconfiguration_def privateEndpointFindings_def Let_def
          resourceTypes_def split: if_splits option.splits)
  have agw: "g \<in> set (checkAppGatewayExposure rg) \<Longrightarrow> fi_Type g \<in> resourceTypes" for g rg
    by (auto simp: checkAppGatewayExposure_def resourceTypes_def split: if_splits)
  have aks: "g \<in> set (checkAKSExposure rg) \<Longrightarrow> fi_Type g \<in> resourceTypes" for g rg
    by (auto simp: checkAKSExposure_def resourceTypes_def split: if_splits)
  have xp: "g \<in> set (checkCrossSubPeeringExposure fx) \<Longrightarrow> fi_Type g \<in> resourceTypes" for g fx
    by (auto simp: checkCrossSubPeeringExposure_def resourceTypes_def split: if_splits)
  have lb: "g \<in> set (checkLoadBalancerNAT rg) \<Longrightarrow> fi_Type g \<in> resourceTypes" for g rg
    by (auto simp: checkLoadBalancerNAT_def resourceTypes_def split: if_splits)
  have apim: "g \<in> set (checkAPIMExposure rg) \<Longrightarrow> fi_Type g \<in> resourceTypes" for g rg
    by (auto simp: checkAPIMExposure_def resourceTypes_def split: if_splits)
  have bas: "g \<in> set (checkBastionBypass rg m) \<Longrightarrow> fi_Type g \<in> resourceTypes" for g rg m
    by (auto simp: checkBastionBypass_def resourceTypes_def split: if_splits option.splits)
  have wan: "g \<in> set (checkVirtualWAN rg) \<Longrightarrow> fi_Type g \<in> resourceTypes" for g rg
    by (auto simp: checkVirtualWAN_def resourceTypes_def split: if_splits)
  have fd: "g \<in> set (checkFrontDoorExposure rg) \<Longrightarrow> fi_Type g \<in> resourceTypes" for g rg
    by (auto simp: checkFrontDoorExposure_def resourceTypes_def split: if_splits)
  assume "f \<in> set (resourceChecks fx)"
  then show ?thesis
    by (auto simp: resourceChecks_def Let_def dest: dns agw aks xp lb apim bas wan fd)
qed

lemma reachableType_not_resource: "reachableType \<notin> resourceTypes"
  by (simp add: resourceTypes_def)

lemma overlapFindings_type: "f \<in> set (overlapFindings vs) \<Longrightarrow> fi_Type f = ''CIDR overlap''"
  by (induction vs) (auto simp: vnetPairFindings_def split: if_splits)

lemma set_rangeNics:
  "iterationOrder m ks \<Longrightarrow> f \<in> set (rangeNics m B ks) \<longleftrightarrow> (\<exists>k n. m k = Some n \<and> f \<in> set (B k n))"
proof -
  assume ord: "iterationOrder m ks"
  have "f \<in> set (rangeNics m B ks) \<longleftrightarrow> (\<exists>k \<in> set ks. f \<in> set (case m k of None \<Rightarrow> [] | Some n \<Rightarrow> B k n))"
    by (simp add: rangeNics_def)
  also have "\<dots> \<longleftrightarrow> (\<exists>k n. m k = Some n \<and> f \<in> set (B k n))"
  proof
    assume "\<exists>k \<in> set ks. f \<in> set (case m k of None \<Rightarrow> [] | Some n \<Rightarrow> B k n)"
    then obtain k where "f \<in> set (case m k of None \<Rightarrow> [] | Some n \<Rightarrow> B k n)" by blast
    then show "\<exists>k n. m k = Some n \<and> f \<in> set (B k n)" by (cases "m k") auto
  next
    assume "\<exists>k n. m k = Some n \<and> f \<in> set (B k n)"
    then obtain k n where k: "m k = Some n" "f \<in> set (B k n)" by blast
    with ord have "k \<in> set ks" by (auto simp: iterationOrder_def)
    with k show "\<exists>k \<in> set ks. f \<in> set (case m k of None \<Rightarrow> [] | Some n \<Rightarrow> B k n)" by force
  qed
  finally show ?thesis .
qed

lemma set_analyze: "set (analyze fx) = set (collectFindings (nicKeys fx) (nicKeys fx) fx)"
  by (simp add: analyze_def analyzeIn_def)

lemma ruleFindings_reachable:
  "(\<exists>f \<in> set (ruleFindings (avnm_SecurityAdminRules (fx_AVNM fx)) name nic
        (defaultHop (nwLookup (nw_EffectiveRoutes (fx_NetworkWatcher fx)) name nic)) r).
      fi_Type f = reachableType)
   \<longleftrightarrow> ruleExposes fx name nic r"
  by (simp add: ruleFindings_def ruleExposes_def Let_def)

lemma dnatFindings_reachable:
  "(\<exists>f \<in> set (dnatFindings name nic fw). fi_Type f = reachableType)
   \<longleftrightarrow> (\<exists>nat \<in> set (fw_NatRules fw). nat_TranslatedAddress nat = nic_PrivateIP nic)"
  by (auto simp: dnatFindings_def)

lemma nicFindings_reachable:
  "(\<exists>f \<in> set (nicFindings fx name nic). fi_Type f = reachableType) \<longleftrightarrow> internetExposed fx name nic"
  by (simp only: nicFindings_def Let_def internetExposed_def dnatExposes_def set_append bex_Un
        bex_concat_map ruleFindings_reachable dnatFindings_reachable)

text \<open>The types of the other parts of the output, for telling a finding's origin from its type.\<close>

lemma ruleFindings_type:
  "f \<in> set (ruleFindings admin name nic hop r)
     \<Longrightarrow> fi_Type f \<in> {reachableType, ''over-permissive NSG (latent)''}"
  by (auto simp: ruleFindings_def Let_def simp del: char.inject split: if_splits)

lemma dnatFindings_type: "f \<in> set (dnatFindings name nic fw) \<Longrightarrow> fi_Type f = reachableType"
  by (auto simp: dnatFindings_def)

lemma nicFindings_type:
  "f \<in> set (nicFindings fx name nic) \<Longrightarrow> fi_Type f \<in> {reachableType, ''over-permissive NSG (latent)''}"
  unfolding nicFindings_def Let_def set_append set_concat
  using ruleFindings_type dnatFindings_type by fastforce

lemma segmentationFindings_type:
  "f \<in> set (segmentationFindings fx name nic) \<Longrightarrow> fi_Type f = ''missing tier segmentation''"
  by (auto simp: segmentationFindings_def Let_def split: if_splits)

lemma incompleteFindings_type: "f \<in> set (incompleteFindings nw) \<Longrightarrow> fi_Type f = ''analysis incomplete''"
  by (auto simp: incompleteFindings_def)

lemma orphanedFindings_type:
  "f \<in> set (orphanedFindings rg) \<Longrightarrow> fi_Type f = ''orphaned public endpoint''"
  by (auto simp: orphanedFindings_def split: if_splits)

lemmas finding_types =
  nicFindings_type segmentationFindings_type incompleteFindings_type orphanedFindings_type
  overlapFindings_type resourceChecks_types

lemma in_analyze:
  "f \<in> set (analyze fx) \<longleftrightarrow>
     (let rg = fx_ResourceGraph fx; m = nicsMap (rg_NetworkInterfaces rg) in
        f \<in> set (incompleteFindings (fx_NetworkWatcher fx))
        \<or> (\<exists>k n. m k = Some n \<and> f \<in> set (nicFindings fx k n))
        \<or> f \<in> set (orphanedFindings rg)
        \<or> f \<in> set (overlapFindings (rg_VirtualNetworks rg))
        \<or> (\<exists>k n. m k = Some n \<and> f \<in> set (segmentationFindings fx k n))
        \<or> f \<in> set (resourceChecks fx))"
  by (simp add: set_analyze collectFindings_def Let_def set_rangeNics [OF iterationOrder_nicKeys])

lemma reachable_from_nics:
  "f \<in> set (analyze fx) \<and> fi_Type f = reachableType \<longleftrightarrow>
     (\<exists>k n. nicsMap (rg_NetworkInterfaces (fx_ResourceGraph fx)) k = Some n
        \<and> f \<in> set (nicFindings fx k n)) \<and> fi_Type f = reachableType"
  using reachableType_not_resource unfolding in_analyze Let_def by (auto dest: finding_types)

lemma overlap_from_vnets:
  "f \<in> set (analyze fx) \<and> fi_Type f = ''CIDR overlap'' \<longleftrightarrow>
     f \<in> set (overlapFindings (rg_VirtualNetworks (fx_ResourceGraph fx))) \<and> fi_Type f = ''CIDR overlap''"
proof -
  have "''CIDR overlap'' \<notin> resourceTypes" by (simp add: resourceTypes_def)
  then show ?thesis unfolding in_analyze Let_def by (auto dest: finding_types)
qed

end
