(* ===== verification/Topo_Exposure.thy ===== *)
theory Topo_Exposure
  imports Topo_Facts
begin

text \<open>
  The properties of the analysis with their witnesses: Internet exposure is decided exactly, AVNM
  port ranges and CIDR overlap mean interval and address inclusion, the private DNS check is
  complete, and the Bastion check does not see tables keyed by resource id.
\<close>

section \<open>Sample topologies\<close>

definition sampleNIC :: "string \<Rightarrow> string \<Rightarrow> string \<Rightarrow> string option \<Rightarrow> string \<Rightarrow> NIC" where
  "sampleNIC name i subnet pip ip =
     \<lparr>nic_Name = name, nic_ID = i, nic_Subnet = subnet, nic_NetworkSecurityGroup = None,
      nic_PublicIP = pip, nic_PrivateIP = ip, nic_Tags = Map.empty, nic_DNSServers = []\<rparr>"

definition sampleRule :: "string \<Rightarrow> int \<Rightarrow> string \<Rightarrow> string \<Rightarrow> string \<Rightarrow> SecRule" where
  "sampleRule name pri acc src port =
     \<lparr>sr_Name = name, sr_Priority = pri, sr_Direction = ''Inbound'', sr_Access = acc,
      sr_Protocol = ''Tcp'', sr_SourceAddressPrefix = src, sr_DestinationPortRange = port,
      sr_Source = src\<rparr>"

definition sampleRoute :: "string \<Rightarrow> string \<Rightarrow> string \<Rightarrow> Route" where
  "sampleRoute name pre hop =
     \<lparr>ro_Name = name, ro_AddressPrefix = pre, ro_NextHopType = hop, ro_NextHopIPAddress = []\<rparr>"

text \<open>Two NICs, \<open>web\<close> with a public IP, an open rule and an Internet route, \<open>db\<close> without.\<close>

definition sampleFixture :: Fixture where
  "sampleFixture = zeroFixture
     \<lparr>fx_ResourceGraph := zeroResourceGraph
        \<lparr>rg_NetworkInterfaces := [sampleNIC ''web'' [] ''hub/front'' (Some ''pip1'') ''10.0.0.4'',
                                  sampleNIC ''db'' [] ''hub/data'' None ''10.0.1.4'']\<rparr>,
      fx_NetworkWatcher :=
        \<lparr>nw_EffectiveSecurityRules = [''web'' \<mapsto> [sampleRule ''https'' 100 ''Allow'' ''Internet'' ''443''],
                                      ''db'' \<mapsto> [sampleRule ''sql'' 100 ''Allow'' ''*'' ''1433'']],
         nw_EffectiveRoutes = [''web'' \<mapsto> [sampleRoute ''default'' ''0.0.0.0/0'' ''Internet'']],
         nw_IncompleteNICs = []\<rparr>\<rparr>"

lemmas sample_defs = sampleFixture_def sampleNIC_def sampleRule_def sampleRoute_def zero_fixture_defs

theorem analyze_order_independent_witness:
  "iterationOrder (nicsMap (rg_NetworkInterfaces (fx_ResourceGraph sampleFixture))) [''db'', ''web'']
   \<and> analyzeIn [''db'', ''web''] [''db'', ''web''] sampleFixture = analyze sampleFixture"
proof -
  have "iterationOrder (nicsMap (rg_NetworkInterfaces (fx_ResourceGraph sampleFixture))) [''db'', ''web'']"
    by (auto simp: iterationOrder_def dom_nicsMap sample_defs rid_def)
  then show ?thesis using analyze_order_independent by blast
qed

section \<open>Exposure\<close>

abbreviation natType :: string where
  "natType \<equiv> ''internet reachable via load balancer NAT''"

text \<open>Some inbound NAT rule of a public load balancer forwards to the NIC.\<close>

definition natExposes :: "ResourceGraph \<Rightarrow> string \<Rightarrow> bool" where
  "natExposes rg name \<longleftrightarrow> name \<noteq> []
     \<and> (\<exists>lb \<in> set (rg_LoadBalancers rg). \<not> lb_IsInternal lb \<and> lb_FrontendIP lb \<noteq> []
          \<and> (\<exists>nat \<in> set (lb_InboundNatRules lb). lbn_BackendNic nat = name))"

lemma nat_from_balancers: "f \<in> set (resourceChecks fx) \<and> fi_Type f = natType
    \<longleftrightarrow> f \<in> set (checkLoadBalancerNAT (fx_ResourceGraph fx))"
proof -
  have "g \<in> set (checkPrivateDnsZoneMisconfiguration rg) \<Longrightarrow> fi_Type g \<noteq> natType" for g rg
    by (auto simp: checkPrivateDnsZoneMisconfiguration_def privateEndpointFindings_def Let_def split: if_splits option.splits)
  moreover have "g \<in> set (checkAppGatewayExposure rg) \<Longrightarrow> fi_Type g \<noteq> natType" for g rg
    by (auto simp: checkAppGatewayExposure_def split: if_splits)
  moreover have "g \<in> set (checkAKSExposure rg) \<Longrightarrow> fi_Type g \<noteq> natType" for g rg
    by (auto simp: checkAKSExposure_def split: if_splits)
  moreover have "g \<in> set (checkCrossSubPeeringExposure fx) \<Longrightarrow> fi_Type g \<noteq> natType" for g fx
    by (auto simp: checkCrossSubPeeringExposure_def split: if_splits)
  moreover have "g \<in> set (checkAPIMExposure rg) \<Longrightarrow> fi_Type g \<noteq> natType" for g rg
    by (auto simp: checkAPIMExposure_def split: if_splits)
  moreover have "g \<in> set (checkBastionBypass rg m) \<Longrightarrow> fi_Type g \<noteq> natType" for g rg m
    by (auto simp: checkBastionBypass_def split: if_splits option.splits)
  moreover have "g \<in> set (checkVirtualWAN rg) \<Longrightarrow> fi_Type g \<noteq> natType" for g rg
    by (auto simp: checkVirtualWAN_def split: if_splits)
  moreover have "g \<in> set (checkFrontDoorExposure rg) \<Longrightarrow> fi_Type g \<noteq> natType" for g rg
    by (auto simp: checkFrontDoorExposure_def split: if_splits)
  moreover have "g \<in> set (checkLoadBalancerNAT rg) \<Longrightarrow> fi_Type g = natType" for g rg
    by (auto simp: checkLoadBalancerNAT_def split: if_splits)
  ultimately show ?thesis unfolding resourceChecks_def Let_def set_append Un_iff by blast
qed

lemma balancer_findings: "(\<exists>f \<in> set (checkLoadBalancerNAT rg). fi_Resource f = name) \<longleftrightarrow> natExposes rg name"
proof -
  have nil: "(\<exists>f \<in> set (if c then [] else xs). P f) \<longleftrightarrow> \<not> c \<and> (\<exists>f \<in> set xs. P f)" for c xs and P :: "Finding \<Rightarrow> bool"
    by simp
  show ?thesis unfolding checkLoadBalancerNAT_def natExposes_def bex_concat_map nil by auto
qed

lemma nat_findings:
  "(\<exists>f \<in> set (analyze fx). fi_Type f = natType \<and> fi_Resource f = name) \<longleftrightarrow> natExposes (fx_ResourceGraph fx) name"
proof -
  have "f \<in> set (analyze fx) \<and> fi_Type f = natType \<longleftrightarrow> f \<in> set (checkLoadBalancerNAT (fx_ResourceGraph fx))" for f
    unfolding nat_from_balancers [symmetric] in_analyze Let_def
    by (auto dest: nicFindings_type segmentationFindings_type incompleteFindings_type orphanedFindings_type overlapFindings_type)
  then have "(\<exists>f \<in> set (analyze fx). fi_Type f = natType \<and> fi_Resource f = name)
      \<longleftrightarrow> (\<exists>f \<in> set (checkLoadBalancerNAT (fx_ResourceGraph fx)). fi_Resource f = name)"
    by blast
  then show ?thesis by (simp only: balancer_findings)
qed

lemma exposed_findings:
  "(\<exists>f \<in> set (analyze fx). fi_Type f = reachableType \<and> fi_Resource f = name)
   \<longleftrightarrow> (\<exists>nic. nicsMap (rg_NetworkInterfaces (fx_ResourceGraph fx)) name = Some nic \<and> internetExposed fx name nic)"
proof -
  let ?m = "nicsMap (rg_NetworkInterfaces (fx_ResourceGraph fx))"
  have "(\<exists>f \<in> set (analyze fx). fi_Type f = reachableType \<and> fi_Resource f = name)
      \<longleftrightarrow> (\<exists>f k n. ?m k = Some n \<and> f \<in> set (nicFindings fx k n)
            \<and> fi_Type f = reachableType \<and> fi_Resource f = name)"
    unfolding Bex_def using reachable_from_nics [of _ fx] by blast
  also have "\<dots> \<longleftrightarrow> (\<exists>nic. ?m name = Some nic
      \<and> (\<exists>f \<in> set (nicFindings fx name nic). fi_Type f = reachableType))"
    by (auto simp: Bex_def dest: nicFindings_resource)
  finally show ?thesis by (simp only: nicFindings_reachable)
qed

text \<open>
  C7: the exposure findings are exact.  The analysis names a resource in an \<open>over-permissive NSG (reachable)\<close>
  finding if and only if it is a NIC with an exposing path: an inbound Internet-sourced rule open after the
  AVNM verdict, with a public IP and an Internet default route, or a firewall DNAT rule to its private
  address; and it names a resource in an \<open>internet reachable via load balancer NAT\<close> finding if and only if an
  inbound NAT rule of a public load balancer forwards to it.  (The other findings that speak of reachability
  are about gateways, clusters, tiers and management ports.)
\<close>

theorem analyze_reports_exposed_nics:
  "((\<exists>f \<in> set (analyze fx). fi_Type f = ''over-permissive NSG (reachable)'' \<and> fi_Resource f = name)
    \<longleftrightarrow> (\<exists>nic. nicsMap (rg_NetworkInterfaces (fx_ResourceGraph fx)) name = Some nic \<and> internetExposed fx name nic))
   \<and> ((\<exists>f \<in> set (analyze fx). fi_Type f = ''internet reachable via load balancer NAT'' \<and> fi_Resource f = name)
    \<longleftrightarrow> natExposes (fx_ResourceGraph fx) name)"
  using exposed_findings nat_findings by blast

text \<open>
  No inbound Internet-sourced rule of a NIC is dropped.  Each one yields exactly one finding,
  on the NIC it belongs to: a reachable one when it exposes the NIC and a latent, informational
  one otherwise.
\<close>

theorem ruleFindings_one_per_open_rule:
  assumes "sr_Direction r = ''Inbound''"
    and "isInternetSource (sr_SourceAddressPrefix r) \<or> isBroadTagSource (sr_SourceAddressPrefix r)"
  shows "\<exists>f. ruleFindings (avnm_SecurityAdminRules (fx_AVNM fx)) name nic
               (defaultHop (nwLookup (nw_EffectiveRoutes (fx_NetworkWatcher fx)) name nic)) r = [f]
           \<and> fi_Resource f = name
           \<and> fi_Reachable f = ruleExposes fx name nic r
           \<and> (fi_Severity f = ''Informational'' \<longleftrightarrow> \<not> ruleExposes fx name nic r)"
  using assms by (auto simp: ruleFindings_def ruleExposes_def Let_def)

theorem ruleFindings_one_per_open_rule_witness:
  "\<exists>f. ruleFindings (avnm_SecurityAdminRules (fx_AVNM sampleFixture)) ''db''
          (sampleNIC ''db'' [] ''hub/data'' None ''10.0.1.4'')
          (defaultHop (nwLookup (nw_EffectiveRoutes (fx_NetworkWatcher sampleFixture)) ''db''
             (sampleNIC ''db'' [] ''hub/data'' None ''10.0.1.4'')))
          (sampleRule ''sql'' 100 ''Allow'' ''*'' ''1433'') = [f]
       \<and> fi_Severity f = ''Informational''"
proof -
  let ?r = "sampleRule ''sql'' 100 ''Allow'' ''*'' ''1433''"
  let ?n = "sampleNIC ''db'' [] ''hub/data'' None ''10.0.1.4''"
  have "sr_Direction ?r = ''Inbound''" by (simp add: sampleRule_def)
  moreover have "isInternetSource (sr_SourceAddressPrefix ?r) \<or> isBroadTagSource (sr_SourceAddressPrefix ?r)"
    by (simp add: sampleRule_def isInternetSource_def go_string_eval)
  moreover have "\<not> ruleExposes sampleFixture ''db'' ?n ?r"
    by (simp add: ruleExposes_def hasPIP_def sampleNIC_def)
  ultimately show ?thesis
    using ruleFindings_one_per_open_rule [of ?r sampleFixture "''db''" ?n] by blast
qed

section \<open>Ports, address space, private DNS\<close>

lemma parsePortRange_bounds: "parsePortRange s = Some (lo, hi) \<Longrightarrow> lo \<le> hi"
  by (auto simp: parsePortRange_def Let_def split: option.splits if_splits prod.splits)

lemma parsePortRange_trim: "parsePortRange (trimSpace s) = parsePortRange s"
  by (simp add: parsePortRange_def trimSpace_idem)

lemma parsePortRange_star: "parsePortRange ''*'' = None"
  by (simp add: parsePortRange_def go_string_eval)

text \<open>
  An AVNM port specification governs an NSG port specification exactly when every port of the
  NSG range lies in the AVNM range, for any two numeric ports or ranges.
\<close>

theorem adminPortCovers_interval:
  assumes "parsePortRange adminSpec = Some (alo, ahi)" and "parsePortRange nsgPort = Some (nlo, nhi)"
  shows "adminPortCovers adminSpec nsgPort \<longleftrightarrow> {nlo..nhi} \<subseteq> {alo..ahi}"
proof -
  have star: "trimSpace adminSpec \<noteq> ''*''"
    using assms(1) parsePortRange_trim [of adminSpec] parsePortRange_star by auto
  have same: "trimSpace adminSpec = trimSpace nsgPort \<Longrightarrow> alo = nlo \<and> ahi = nhi"
    using assms parsePortRange_trim [of adminSpec] parsePortRange_trim [of nsgPort] by simp
  have "nlo \<le> nhi" using assms(2) by (rule parsePortRange_bounds)
  then show ?thesis
    using star same assms by (auto simp: adminPortCovers_def Let_def parsePortRange_trim)
qed

theorem adminPortCovers_interval_witness:
  "adminPortCovers ''80-443'' '' 443'' \<longleftrightarrow> {443..443::int} \<subseteq> {80..443}"
  by (rule adminPortCovers_interval) (simp_all add: parsePortRange_def go_string_eval)

lemma cidrOverlap_iff:
  "cidrOverlap a b \<longleftrightarrow> (\<exists>p q x. parsePrefix a = Some p \<and> parsePrefix b = Some q
     \<and> inPrefix x p \<and> inPrefix x q)"
  by (auto simp: cidrOverlap_def overlaps_iff_common_address split: option.splits)

lemma bex_nth: "(\<exists>w \<in> set vs. P w) \<longleftrightarrow> (\<exists>j < length vs. P (vs ! j))"
  by (metis in_set_conv_nth)

lemma Ex_less_pair_Cons:
  "(\<exists>i j. i < j \<and> j < length (v # vs) \<and> P ((v # vs) ! i) ((v # vs) ! j))
   \<longleftrightarrow> (\<exists>j < length vs. P v (vs ! j)) \<or> (\<exists>i j. i < j \<and> j < length vs \<and> P (vs ! i) (vs ! j))"
  (is "?l \<longleftrightarrow> ?r")
proof
  assume ?l
  then obtain i j where ij: "i < j" "j < length (v # vs)" "P ((v # vs) ! i) ((v # vs) ! j)" by blast
  then obtain j' where "j = Suc j'" by (cases j) auto
  with ij show ?r by (cases i) auto
next
  assume ?r
  then show ?l
  proof
    assume "\<exists>j < length vs. P v (vs ! j)"
    then obtain j where "j < length vs" "P v (vs ! j)" by blast
    then show ?l by (intro exI [of _ 0] exI [of _ "Suc j"]) simp
  next
    assume "\<exists>i j. i < j \<and> j < length vs \<and> P (vs ! i) (vs ! j)"
    then obtain i j where "i < j" "j < length vs" "P (vs ! i) (vs ! j)" by blast
    then show ?l by (intro exI [of _ "Suc i"] exI [of _ "Suc j"]) simp
  qed
qed

lemma overlapFindings_nonempty:
  "overlapFindings vs \<noteq> [] \<longleftrightarrow>
     (\<exists>i j. i < j \<and> j < length vs
        \<and> (\<exists>pa \<in> set (vn_AddressSpace (vs ! i)). \<exists>pb \<in> set (vn_AddressSpace (vs ! j)). cidrOverlap pa pb))"
proof (induction vs)
  case Nil
  then show ?case by simp
next
  case (Cons v vs)
  let ?ov = "\<lambda>u w. \<exists>pa \<in> set (vn_AddressSpace u). \<exists>pb \<in> set (vn_AddressSpace w). cidrOverlap pa pb"
  have "vnetPairFindings u w = [] \<longleftrightarrow> \<not> ?ov u w" for u w
    by (auto simp: vnetPairFindings_def split: if_splits)
  then have pair: "vnetPairFindings u w \<noteq> [] \<longleftrightarrow> ?ov u w" for u w by simp
  have "overlapFindings (v # vs) \<noteq> [] \<longleftrightarrow> (\<exists>w \<in> set vs. ?ov v w) \<or> overlapFindings vs \<noteq> []"
    using pair by simp
  also have "\<dots> \<longleftrightarrow> (\<exists>j < length vs. ?ov v (vs ! j))
      \<or> (\<exists>i j. i < j \<and> j < length vs \<and> ?ov (vs ! i) (vs ! j))"
    unfolding Cons.IH by (simp only: bex_nth)
  also have "\<dots> \<longleftrightarrow> (\<exists>i j. i < j \<and> j < length (v # vs) \<and> ?ov ((v # vs) ! i) ((v # vs) ! j))"
    by (rule Ex_less_pair_Cons [symmetric])
  finally show ?case .
qed

text \<open>
  A CIDR overlap is reported exactly when two different VNets of the inventory have address
  prefixes that parse and share an address.
\<close>

theorem analyze_reports_common_addresses:
  "(\<exists>f \<in> set (analyze fx). fi_Type f = ''CIDR overlap'')
   \<longleftrightarrow> (let vs = rg_VirtualNetworks (fx_ResourceGraph fx) in
        \<exists>i j. i < j \<and> j < length vs
          \<and> (\<exists>pa \<in> set (vn_AddressSpace (vs ! i)). \<exists>pb \<in> set (vn_AddressSpace (vs ! j)).
               \<exists>p q x. parsePrefix pa = Some p \<and> parsePrefix pb = Some q \<and> inPrefix x p \<and> inPrefix x q))"
proof -
  let ?vs = "rg_VirtualNetworks (fx_ResourceGraph fx)"
  have "(\<exists>f \<in> set (analyze fx). fi_Type f = ''CIDR overlap'')
      \<longleftrightarrow> (\<exists>f \<in> set (overlapFindings ?vs). fi_Type f = ''CIDR overlap'')"
    unfolding Bex_def by (simp only: overlap_from_vnets)
  also have "\<dots> \<longleftrightarrow> overlapFindings ?vs \<noteq> []"
    using overlapFindings_type [of _ ?vs] by (cases "overlapFindings ?vs") auto
  finally show ?thesis by (simp only: overlapFindings_nonempty cidrOverlap_iff Let_def)
qed

lemma zoneLinked_Some:
  "zoneLinked zs name = Some vs \<Longrightarrow> vnet \<in> vs \<longleftrightarrow> (\<exists>z \<in> set zs. pz_Name z = name \<and> vnet \<in> set (pz_LinkedVnets z))"
proof (induction zs arbitrary: vs)
  case Nil
  then show ?case by simp
next
  case (Cons z zs)
  have none: "zoneLinked zs name = None \<Longrightarrow> \<forall>z \<in> set zs. pz_Name z \<noteq> name"
    by (induction zs) (auto simp: Let_def split: if_splits)
  from Cons none show ?case
    by (cases "zoneLinked zs name") (auto simp: Let_def split: if_splits)
qed

lemma zoneLinked_None: "zoneLinked zs name = None \<longleftrightarrow> (\<forall>z \<in> set zs. pz_Name z \<noteq> name)"
  by (induction zs) (auto simp: Let_def)

text \<open>
  The private DNS check is exact.  A private endpoint is flagged if and only if its connection
  is active (approved, or the state is unknown), its service has a known zone, its subnet names a
  VNet, and no private DNS zone record with that zone's name links the VNet.
\<close>

theorem privateEndpoint_flagged_iff:
  "privateEndpointFindings zones pe \<noteq> [] \<longleftrightarrow>
     pe_ConnectionState pe \<in> {''Approved'', []}
     \<and> (\<exists>zone. peGroupIdToZone (pe_GroupId pe) = Some zone
          \<and> subnetToVnet (pe_Subnet pe) \<noteq> []
          \<and> \<not> (\<exists>z \<in> set zones. pz_Name z = zone \<and> subnetToVnet (pe_Subnet pe) \<in> set (pz_LinkedVnets z)))"
proof -
  have unlinked: "(case zoneLinked zones zone of None \<Rightarrow> True | Some vs \<Rightarrow> vnet \<notin> vs)
      \<longleftrightarrow> \<not> (\<exists>z \<in> set zones. pz_Name z = zone \<and> vnet \<in> set (pz_LinkedVnets z))" for zone vnet
    by (auto simp: zoneLinked_None zoneLinked_Some split: option.splits)
  show ?thesis
    unfolding unlinked [symmetric]
    by (auto simp: privateEndpointFindings_def Let_def split: option.splits)
qed

section \<open>The Bastion check and tables keyed by resource id\<close>

text \<open>
  \<open>Analyze\<close> reads the effective rules by resource id and falls back to the bare name;
  \<open>checkBastionBypass\<close> reads them by the bare name only.  On an estate whose Network Watcher
  table is keyed by resource id the Bastion check therefore reports nothing, whatever is open.
\<close>

theorem bastion_check_blind_on_id_keyed_tables:
  assumes "\<And>nic. nic \<in> set (rg_NetworkInterfaces rg) \<Longrightarrow> effRules (nic_Name nic) = None"
  shows "checkBastionBypass rg effRules = []"
  using assms by (auto simp: checkBastionBypass_def opensManagement_def)

text \<open>A NIC with a public IP and SSH open to the Internet, in an estate with a Bastion host.\<close>

definition idKeyedFixture :: Fixture where
  "idKeyedFixture = zeroFixture
     \<lparr>fx_ResourceGraph := zeroResourceGraph
        \<lparr>rg_NetworkInterfaces := [sampleNIC ''vm'' ''/sub/1/vm'' ''hub/front'' (Some ''pip1'') ''10.0.0.4''],
         rg_AzureBastions := [\<lparr>bas_Name = ''bastion'', bas_Subnet = ''hub/AzureBastionSubnet'',
                               bas_PublicIP = ''pip2'', bas_SKU = ''Basic''\<rparr>]\<rparr>,
      fx_NetworkWatcher :=
        \<lparr>nw_EffectiveSecurityRules = [''/sub/1/vm'' \<mapsto> [sampleRule ''ssh'' 100 ''Allow'' ''*'' ''22'']],
         nw_EffectiveRoutes = [''/sub/1/vm'' \<mapsto> [sampleRoute ''default'' ''0.0.0.0/0'' ''Internet'']],
         nw_IncompleteNICs = []\<rparr>\<rparr>"

theorem bastion_check_blind_on_id_keyed_tables_witness:
  "internetExposed idKeyedFixture ''/sub/1/vm'' (hd (rg_NetworkInterfaces (fx_ResourceGraph idKeyedFixture)))
   \<and> checkBastionBypass (fx_ResourceGraph idKeyedFixture)
       (nw_EffectiveSecurityRules (fx_NetworkWatcher idKeyedFixture)) = []"
proof -
  have "internetExposed idKeyedFixture ''/sub/1/vm'' (hd (rg_NetworkInterfaces (fx_ResourceGraph idKeyedFixture)))"
    by (simp add: idKeyedFixture_def sample_defs internetExposed_def ruleExposes_def nwLookup_def
          hasPIP_def defaultHop_def adminVerdict_def openInternet_def isInternetSource_def go_string_eval)
  moreover have "checkBastionBypass (fx_ResourceGraph idKeyedFixture)
       (nw_EffectiveSecurityRules (fx_NetworkWatcher idKeyedFixture)) = []"
    by (rule bastion_check_blind_on_id_keyed_tables) (simp add: idKeyedFixture_def sample_defs)
  ultimately show ?thesis by blast
qed

end
