(* ===== verification/Topo_Project.thy ===== *)
theory Topo_Project
  imports Topo_Simulate
begin

text \<open>
  The projection of simulated NSG rules and routes onto the effective tables the analysis reads:
  what an added rule guarantees, why a removed rule is not removed, when a projection is invisible,
  and the default hop after a route change.
\<close>

section \<open>Projected rules\<close>

abbreviation entry :: "(string \<rightharpoonup> 'a list) \<Rightarrow> string \<Rightarrow> 'a list" where
  "entry m k \<equiv> (case m k of None \<Rightarrow> [] | Some xs \<Rightarrow> xs)"

abbreviation effRules :: "Fixture \<Rightarrow> (string \<rightharpoonup> SecRule list)" where
  "effRules fx \<equiv> nw_EffectiveSecurityRules (fx_NetworkWatcher fx)"

abbreviation effRoutes :: "Fixture \<Rightarrow> (string \<rightharpoonup> Route list)" where
  "effRoutes fx \<equiv> nw_EffectiveRoutes (fx_NetworkWatcher fx)"

definition replacedBy :: "SecRule list \<Rightarrow> SecRule \<Rightarrow> bool" where
  "replacedBy declared r \<longleftrightarrow> sr_Name r \<in> sr_Name ` set declared \<and> userRange r"

lemma projectRulesAt_other: "k \<noteq> n \<Longrightarrow> projectRulesAt srt D m n k = m k"
  by (simp add: projectRulesAt_def Let_def)

lemma entry_projectRulesAt: "entry (projectRulesAt srt D m n) n = projectedRules srt D (entry m n)"
  by (auto simp: projectRulesAt_def Let_def)

lemma project_unaffected: "k \<notin> set ns \<Longrightarrow> foldl (projectRulesAt srt D) m ns k = m k"
  by (induction ns arbitrary: m) (auto simp: projectRulesAt_other)

context priority_sorter
begin

lemma set_projectedRules:
  "set (projectedRules srt D base) = {r \<in> set base. \<not> replacedBy D r} \<union> set D"
  by (auto simp: projectedRules_def srt_set replacedBy_def)

lemma sorted_projectedRules: "sorted (map sr_Priority (projectedRules srt D base))"
  by (simp add: projectedRules_def srt_sorted)

text \<open>The table entry of a governed NIC after the whole projection loop.\<close>

lemma project_affected:
  assumes "k \<in> set ns"
  shows "set (entry (foldl (projectRulesAt srt D) m ns) k)
           = {r \<in> set (entry m k). \<not> replacedBy D r} \<union> set D
       \<and> sorted (map sr_Priority (entry (foldl (projectRulesAt srt D) m ns) k))"
  using assms
proof (induction ns arbitrary: m)
  case Nil
  then show ?case by simp
next
  case (Cons n ns)
  let ?m = "projectRulesAt srt D m n"
  show ?case
  proof (cases "k = n")
    case False
    with Cons have "k \<in> set ns" by simp
    from Cons.IH [OF this, of ?m] False show ?thesis by (simp add: projectRulesAt_other)
  next
    case True
    have e: "entry ?m k = projectedRules srt D (entry m k)"
      unfolding True by (rule entry_projectRulesAt)
    show ?thesis
    proof (cases "k \<in> set ns")
      case True
      have "{r \<in> set (entry ?m k). \<not> replacedBy D r} \<union> set D
          = {r \<in> set (entry m k). \<not> replacedBy D r} \<union> set D"
        unfolding e set_projectedRules by blast
      with Cons.IH [OF True, of ?m] show ?thesis by simp
    next
      case False
      then have "foldl (projectRulesAt srt D) ?m ns k = ?m k" by (rule project_unaffected)
      with e set_projectedRules sorted_projectedRules show ?thesis by simp
    qed
  qed
qed

end

lemma modifyNSG_frame [simp]:
  "effRules (modifyNSG fx n f) = effRules fx" "effRoutes (modifyNSG fx n f) = effRoutes fx"
  "nicsOf (modifyNSG fx n f) = nicsOf fx" "vnetsOf (modifyNSG fx n f) = vnetsOf fx"
  "fx_AVNM (modifyNSG fx n f) = fx_AVNM fx" "firewallsOf (modifyNSG fx n f) = firewallsOf fx"
  by (simp_all add: modifyNSG_def putNSGs_def nicsOf_def vnetsOf_def firewallsOf_def)

lemma nicsByNSG_modifyNSG [simp]: "nicsByNSG (modifyNSG fx n f) g = nicsByNSG fx g"
  by (simp add: nicsByNSG_def subnetNSG_def)

lemma withRules_frame [simp]:
  "effRules (withRules fx m) = m" "effRoutes (withRules fx m) = effRoutes fx"
  "nicsOf (withRules fx m) = nicsOf fx" "nsgsOf (withRules fx m) = nsgsOf fx"
  "fx_AVNM (withRules fx m) = fx_AVNM fx" "firewallsOf (withRules fx m) = firewallsOf fx"
  by (simp_all add: withRules_def nicsOf_def nsgsOf_def firewallsOf_def)

text \<open>An NSG change followed by its projection, as one state change.\<close>

lemma project_modifyNSG:
  assumes "findNSG fx n = Some g" and "\<And>g. nsg_Name (f g) = nsg_Name g"
  shows "projectEffectiveRules srt (modifyNSG fx n f) n
       = withRules (modifyNSG fx n f)
           (foldl (projectRulesAt srt (nsg_SecurityRules (f g))) (effRules fx) (nicsByNSG fx n))"
  using assms by (simp add: projectEffectiveRules_def nsgSlice.lookup_modify)

text \<open>When each NSG operation succeeds, and what it does then.\<close>

lemma applyAddNSGRule_Inr:
  "applyAddNSGRule srt fx op = Inr fx' \<longleftrightarrow>
     (\<exists>g. findNSG fx (anr_NSGName op) = Some g
        \<and> sr_Name (anr_Rule op) \<notin> sr_Name ` set (nsg_SecurityRules g)
        \<and> fx' = withRules (modifyNSG fx (anr_NSGName op)
                    (\<lambda>g. g\<lparr>nsg_SecurityRules := nsg_SecurityRules g @ [normaliseRule (anr_Rule op)]\<rparr>))
                (foldl (projectRulesAt srt (nsg_SecurityRules g @ [normaliseRule (anr_Rule op)]))
                   (effRules fx) (nicsByNSG fx (anr_NSGName op))))"
  by (auto simp: applyAddNSGRule_def project_modifyNSG split: option.splits)

lemma applyRemoveNSGRule_Inr:
  "applyRemoveNSGRule srt fx op = Inr fx' \<longleftrightarrow>
     (\<exists>g. findNSG fx (rnr_NSGName op) = Some g
        \<and> rnr_RuleName op \<in> sr_Name ` set (nsg_SecurityRules g)
        \<and> fx' = withRules (modifyNSG fx (rnr_NSGName op)
                    (\<lambda>g. g\<lparr>nsg_SecurityRules :=
                         removeFirst (\<lambda>r. sr_Name r = rnr_RuleName op) (nsg_SecurityRules g)\<rparr>))
                (foldl (projectRulesAt srt
                     (removeFirst (\<lambda>r. sr_Name r = rnr_RuleName op) (nsg_SecurityRules g)))
                   (effRules fx) (nicsByNSG fx (rnr_NSGName op))))"
  by (auto simp: applyRemoveNSGRule_def project_modifyNSG split: option.splits)

text \<open>
  An accepted \<open>AddNSGRule\<close> takes effect on every NIC the NSG governs: the NIC's effective
  rules become the declared rules of the NSG, the new one included, together with the old entries
  they do not replace, in ascending priority; the system rules (priority 65000 and up) survive, and
  the entries of every other NIC name are untouched.
\<close>

theorem addNSGRule_takes_effect:
  assumes "priority_sorter srt"
    and "applyDelta srt fx (deltaAddNSGRule op) = Inr fx'"
    and "k \<in> set (nicsByNSG fx (anr_NSGName op))"
  shows "normaliseRule (anr_Rule op) \<in> set (entry (effRules fx') k)
       \<and> sorted (map sr_Priority (entry (effRules fx') k))
       \<and> {r \<in> set (entry (effRules fx) k). \<not> userRange r} \<subseteq> set (entry (effRules fx') k)
       \<and> (\<forall>j. j \<notin> set (nicsByNSG fx (anr_NSGName op)) \<longrightarrow> effRules fx' j = effRules fx j)"
proof -
  have "validate (deltaAddNSGRule op) = None" using assms(2) by (rule applyDelta_InrD)
  with assms(2) obtain g where "findNSG fx (anr_NSGName op) = Some g" and fx': "effRules fx'
      = foldl (projectRulesAt srt (nsg_SecurityRules g @ [normaliseRule (anr_Rule op)])) (effRules fx)
          (nicsByNSG fx (anr_NSGName op))"
    by (auto simp: applyAddNSGRule_Inr)
  show ?thesis
    using priority_sorter.project_affected [OF assms(1,3), of "nsg_SecurityRules g @ [normaliseRule (anr_Rule op)]" "effRules fx"]
    unfolding fx' by (auto simp: replacedBy_def project_unaffected)
qed

definition sampleAddRule :: AddNSGRuleOp where
  "sampleAddRule = \<lparr>anr_NSGName = ''nsg1'', anr_Rule = sampleRule ''ssh'' 90 ''Allow'' ''*'' ''22''\<rparr>"

lemma sample_nicsByNSG: "nicsByNSG samplePlan ''nsg1'' = [''web'']"
  by (simp add: nicsByNSG_def governedBy_def subnetNSG_def nicsOf_def vnetsOf_def newSubnet_def samplePlan_defs)

lemma sampleAddRule_accepted: "\<exists>fx'. applyDelta insertionSort samplePlan (deltaAddNSGRule sampleAddRule) = Inr fx'"
proof -
  have v: "validate (deltaAddNSGRule sampleAddRule) = None" by (simp add: sampleAddRule_def sampleRule_def)
  show ?thesis unfolding applyDelta_single(3) [OF v]
    by (simp add: applyAddNSGRule_def findNSG_def nsgsOf_def sampleAddRule_def samplePlan_defs)
qed

theorem addNSGRule_takes_effect_witness:
  "\<exists>fx'. applyDelta insertionSort samplePlan (deltaAddNSGRule sampleAddRule) = Inr fx'
     \<and> normaliseRule (anr_Rule sampleAddRule) \<in> set (entry (effRules fx') ''web'')"
proof -
  obtain fx' where fx': "applyDelta insertionSort samplePlan (deltaAddNSGRule sampleAddRule) = Inr fx'"
    using sampleAddRule_accepted by blast
  have "''web'' \<in> set (nicsByNSG samplePlan (anr_NSGName sampleAddRule))"
    by (simp add: sampleAddRule_def sample_nicsByNSG)
  from addNSGRule_takes_effect [OF goSort.priority_sorter_axioms fx' this] fx' show ?thesis by blast
qed

section \<open>A removed rule stays effective\<close>

lemma applyRemove_entry:
  assumes "priority_sorter srt" and "applyDelta srt fx (deltaRemoveNSGRule op) = Inr fx'"
    and "findNSG fx (rnr_NSGName op) = Some g" and "k \<in> set (nicsByNSG fx (rnr_NSGName op))"
  shows "set (entry (effRules fx') k) =
     (let D = removeFirst (\<lambda>r. sr_Name r = rnr_RuleName op) (nsg_SecurityRules g) in
      {r \<in> set (entry (effRules fx) k). \<not> replacedBy D r} \<union> set D)"
proof -
  have "validate (deltaRemoveNSGRule op) = None" using assms(2) by (rule applyDelta_InrD)
  with assms(2,3) have fx': "effRules fx' =
      foldl (projectRulesAt srt (removeFirst (\<lambda>r. sr_Name r = rnr_RuleName op) (nsg_SecurityRules g)))
        (effRules fx) (nicsByNSG fx (rnr_NSGName op))"
    by (auto simp: applyRemoveNSGRule_Inr)
  show ?thesis unfolding fx' Let_def
    using priority_sorter.project_affected [OF assms(1,4)] by blast
qed

text \<open>
  A removed NSG rule stays in effect.  The projection strips the effective rules whose names
  are still declared after the removal, and the removed name no longer is.  So when the NSG's rule
  names are distinct, an accepted \<open>RemoveNSGRule\<close> leaves every effective rule of that name in
  the effective rules of every governed NIC, where the analysis keeps reporting it.
\<close>

theorem removeNSGRule_leaves_rule_effective:
  assumes "priority_sorter srt"
    and "applyDelta srt fx (deltaRemoveNSGRule op) = Inr fx'"
    and "findNSG fx (rnr_NSGName op) = Some g" and "distinct (map sr_Name (nsg_SecurityRules g))"
    and "k \<in> set (nicsByNSG fx (rnr_NSGName op))"
    and "r \<in> set (entry (effRules fx) k)" and "sr_Name r = rnr_RuleName op"
  shows "r \<in> set (entry (effRules fx') k)"
proof -
  let ?D = "removeFirst (\<lambda>r. sr_Name r = rnr_RuleName op) (nsg_SecurityRules g)"
  have "rnr_RuleName op \<notin> sr_Name ` set ?D"
    unfolding removeFirst_distinct [OF assms(4)] by auto
  with assms(6,7) show ?thesis
    unfolding applyRemove_entry [OF assms(1,2,3,5)] Let_def by (auto simp: replacedBy_def)
qed

definition sampleRemoveRule :: RemoveNSGRuleOp where
  "sampleRemoveRule = \<lparr>rnr_NSGName = ''nsg1'', rnr_RuleName = ''https''\<rparr>"

lemma sampleRemoveRule_accepted:
  "\<exists>fx'. applyDelta insertionSort samplePlan (deltaRemoveNSGRule sampleRemoveRule) = Inr fx'"
proof -
  have v: "validate (deltaRemoveNSGRule sampleRemoveRule) = None" by (simp add: sampleRemoveRule_def)
  show ?thesis unfolding applyDelta_single(4) [OF v]
    by (simp add: applyRemoveNSGRule_def findNSG_def nsgsOf_def sampleRemoveRule_def samplePlan_defs)
qed

theorem removeNSGRule_leaves_rule_effective_witness:
  "\<exists>fx'. applyDelta insertionSort samplePlan (deltaRemoveNSGRule sampleRemoveRule) = Inr fx'
     \<and> sampleRule ''https'' 100 ''Allow'' ''Internet'' ''443'' \<in> set (entry (effRules fx') ''web'')"
proof -
  let ?r = "sampleRule ''https'' 100 ''Allow'' ''Internet'' ''443''"
  obtain fx' where fx': "applyDelta insertionSort samplePlan (deltaRemoveNSGRule sampleRemoveRule) = Inr fx'"
    using sampleRemoveRule_accepted by blast
  have g: "findNSG samplePlan (rnr_NSGName sampleRemoveRule)
      = Some \<lparr>nsg_Name = ''nsg1'', nsg_SecurityRules = [?r], nsg_AssociatedSubnets = [''hub/front'']\<rparr>"
    by (simp add: findNSG_def nsgsOf_def sampleRemoveRule_def samplePlan_def)
  have k: "''web'' \<in> set (nicsByNSG samplePlan (rnr_NSGName sampleRemoveRule))"
    by (simp add: sampleRemoveRule_def sample_nicsByNSG)
  have "?r \<in> set (entry (effRules fx') ''web'')"
    by (rule removeNSGRule_leaves_rule_effective [OF goSort.priority_sorter_axioms fx' g _ k])
       (simp_all add: sampleRemoveRule_def samplePlan_defs)
  with fx' show ?thesis by blast
qed

section \<open>Tables keyed by resource id\<close>

text \<open>
  The projection writes the effective rules under the NIC's bare name, while the analysis
  reads them under the resource id first.  On a table keyed by resource ids, for ids that are not
  also NIC names, an accepted NSG change leaves the rules the analysis sees exactly as they were.
\<close>

theorem nsg_projection_invisible_under_ids:
  assumes "applyDelta srt fx d = Inr fx'"
    and "d = deltaAddNSGRule anr \<or> d = deltaRemoveNSGRule rnr"
    and "effRules fx (rid (nic_Name nic) (nic_ID nic)) \<noteq> None"
    and "rid (nic_Name nic) (nic_ID nic) \<notin> nic_Name ` set (nicsOf fx)"
  shows "nwLookup (effRules fx') (rid (nic_Name nic) (nic_ID nic)) nic
       = nwLookup (effRules fx) (rid (nic_Name nic) (nic_ID nic)) nic"
proof -
  let ?k = "rid (nic_Name nic) (nic_ID nic)"
  have valid: "validate d = None" using assms(1) by (rule applyDelta_InrD)
  have "?k \<notin> set (nicsByNSG fx n)" for n using assms(4) by (auto simp: nicsByNSG_def)
  moreover obtain n D where "effRules fx' = foldl (projectRulesAt srt D) (effRules fx) (nicsByNSG fx n)"
    using assms(1,2) valid by (auto simp: applyAddNSGRule_Inr applyRemoveNSGRule_Inr)
  ultimately have "effRules fx' ?k = effRules fx ?k" by (simp add: project_unaffected)
  with assms(3) show ?thesis by (auto simp: nwLookup_def)
qed

definition idKeyedPlan :: Fixture where
  "idKeyedPlan = idKeyedFixture\<lparr>fx_ResourceGraph := (fx_ResourceGraph idKeyedFixture)
     \<lparr>rg_VirtualNetworks := [sampleVNet ''hub'' [''10.0.0.0/16''] [sampleSubnet ''front'' ''nsg1'']],
      rg_NetworkSecurityGroups := [\<lparr>nsg_Name = ''nsg1'', nsg_SecurityRules = [],
         nsg_AssociatedSubnets = [''hub/front'']\<rparr>]\<rparr>\<rparr>"

theorem nsg_projection_invisible_under_ids_witness:
  "\<exists>fx'. applyDelta insertionSort idKeyedPlan (deltaAddNSGRule sampleAddRule) = Inr fx'
     \<and> nwLookup (effRules fx') ''/sub/1/vm'' (sampleNIC ''vm'' ''/sub/1/vm'' ''hub/front'' (Some ''pip1'') ''10.0.0.4'')
       = [sampleRule ''ssh'' 100 ''Allow'' ''*'' ''22'']"
proof -
  let ?nic = "sampleNIC ''vm'' ''/sub/1/vm'' ''hub/front'' (Some ''pip1'') ''10.0.0.4''"
  have v: "validate (deltaAddNSGRule sampleAddRule) = None" by (simp add: sampleAddRule_def sampleRule_def)
  have "\<exists>fx'. applyDelta insertionSort idKeyedPlan (deltaAddNSGRule sampleAddRule) = Inr fx'"
    unfolding applyDelta_single(3) [OF v]
    by (simp add: applyAddNSGRule_def findNSG_def nsgsOf_def sampleAddRule_def idKeyedPlan_def)
  then obtain fx' where fx': "applyDelta insertionSort idKeyedPlan (deltaAddNSGRule sampleAddRule) = Inr fx'" ..
  have k: "rid (nic_Name ?nic) (nic_ID ?nic) = ''/sub/1/vm''" by (simp add: rid_def sampleNIC_def)
  have "nwLookup (effRules fx') (rid (nic_Name ?nic) (nic_ID ?nic)) ?nic
      = nwLookup (effRules idKeyedPlan) (rid (nic_Name ?nic) (nic_ID ?nic)) ?nic"
    by (rule nsg_projection_invisible_under_ids [OF fx' disjI1 [OF refl]])
       (simp_all add: rid_def nicsOf_def idKeyedPlan_def idKeyedFixture_def sample_defs)
  with fx' show ?thesis
    unfolding k by (auto simp: nwLookup_def idKeyedPlan_def idKeyedFixture_def)
qed

section \<open>Projected routes\<close>

lemma find_unique_key:
  "distinct (map f xs) \<Longrightarrow> x \<in> set xs \<Longrightarrow> find (\<lambda>y. f y = f x) xs = Some x"
  by (induction xs) (auto simp: image_iff)

definition routePrefixes :: "Route list \<Rightarrow> string list" where
  "routePrefixes rs = map ro_AddressPrefix rs"

lemma lastIndex_None: "lastIndex base p = None \<longleftrightarrow> p \<notin> set (routePrefixes base)"
proof -
  have "fst ` set (zip (routePrefixes base) [0..<length base]) = set (routePrefixes base)"
    by (metis length_map length_upt list.set_map map_fst_zip minus_nat.diff_0 routePrefixes_def)
  then show ?thesis by (simp add: lastIndex_def routePrefixes_def map_of_eq_None_iff)
qed

lemma lastIndex_Some: "lastIndex base p = Some i \<Longrightarrow> i < length base \<and> ro_AddressPrefix (base ! i) = p"
  unfolding lastIndex_def by (drule map_of_SomeD) (auto simp: in_set_zip)

text \<open>With distinct prefixes on both sides the overlay replaces matching routes and appends the rest.\<close>

lemma overlayRoutes_distinct:
  assumes "distinct (routePrefixes base)" and "distinct (routePrefixes udrs)"
  shows "overlayRoutes base udrs =
     map (\<lambda>b. case find (\<lambda>u. ro_AddressPrefix u = ro_AddressPrefix b) udrs of Some u \<Rightarrow> u | None \<Rightarrow> b) base
     @ filter (\<lambda>u. ro_AddressPrefix u \<notin> set (routePrefixes base)) udrs"
  using assms(2)
proof (induction udrs rule: rev_induct)
  case Nil
  then show ?case by (simp add: overlayRoutes_def)
next
  case (snoc u udrs)
  let ?rep = "\<lambda>us b. case find (\<lambda>u. ro_AddressPrefix u = ro_AddressPrefix b) us of Some u \<Rightarrow> u | None \<Rightarrow> b"
  have fresh: "\<forall>v \<in> set udrs. ro_AddressPrefix v \<noteq> ro_AddressPrefix u"
    using snoc.prems by (auto simp: routePrefixes_def image_iff)
  have find_u: "find (\<lambda>v. ro_AddressPrefix v = q) (udrs @ [u])
      = (if q = ro_AddressPrefix u then Some u else find (\<lambda>v. ro_AddressPrefix v = q) udrs)" for q
    using fresh by (induction udrs) auto
  have IH: "overlayRoutes base udrs = map (?rep udrs) base
      @ filter (\<lambda>u. ro_AddressPrefix u \<notin> set (routePrefixes base)) udrs"
    using snoc by (simp add: routePrefixes_def)
  show ?case
  proof (cases "lastIndex base (ro_AddressPrefix u)")
    case None
    then have out: "ro_AddressPrefix u \<notin> set (routePrefixes base)" by (simp add: lastIndex_None)
    have "ro_AddressPrefix b \<noteq> ro_AddressPrefix u" if "b \<in> set base" for b
      using that out by (metis image_eqI list.set_map routePrefixes_def)
    then have "map (?rep (udrs @ [u])) base = map (?rep udrs) base"
      by (simp add: find_u)
    with None out IH show ?thesis by (simp add: overlayRoutes_def overlayRoute_def)
  next
    case (Some i)
    then have i: "i < length base" "ro_AddressPrefix (base ! i) = ro_AddressPrefix u"
      by (auto dest: lastIndex_Some)
    have "map (?rep (udrs @ [u])) base = (map (?rep udrs) base)[i := u]"
    proof (rule nth_equalityI)
      fix j assume "j < length (map (?rep (udrs @ [u])) base)"
      then have j: "j < length base" by simp
      have "ro_AddressPrefix (base ! j) = ro_AddressPrefix u \<longleftrightarrow> j = i"
        using assms(1) i j nth_eq_iff_index_eq [of "routePrefixes base" i j]
        by (auto simp: routePrefixes_def)
      with i j show "map (?rep (udrs @ [u])) base ! j = (map (?rep udrs) base)[i := u] ! j"
        by (auto simp: find_u)
    qed simp
    moreover have "ro_AddressPrefix u \<in> set (routePrefixes base)"
      using i by (metis length_map nth_map nth_mem routePrefixes_def)
    ultimately show ?thesis using Some i IH
      by (simp add: overlayRoutes_def overlayRoute_def list_update_append)
  qed
qed

lemma defaultHop_overlayRoutes:
  assumes "distinct (routePrefixes base)" and "distinct (routePrefixes udrs)"
    and "find (\<lambda>u. ro_AddressPrefix u = ''0.0.0.0/0'') udrs = Some d"
  shows "defaultHop (overlayRoutes base udrs) = ro_NextHopType d"
proof -
  let ?rep = "\<lambda>b. case find (\<lambda>u. ro_AddressPrefix u = ro_AddressPrefix b) udrs of Some u \<Rightarrow> u | None \<Rightarrow> b"
  let ?p = "\<lambda>r. ro_AddressPrefix r = ''0.0.0.0/0''"
  have rep: "ro_AddressPrefix (?rep b) = ro_AddressPrefix b" for b
    by (auto split: option.splits dest: find_SomeD)
  have in_base: "find ?p (map ?rep bs) = (if ''0.0.0.0/0'' \<in> set (routePrefixes bs) then Some d else None)" for bs
    using rep assms(3) by (induction bs) (auto simp: routePrefixes_def)
  have app: "find ?p (xs @ ys) = (case find ?p xs of None \<Rightarrow> find ?p ys | Some r \<Rightarrow> Some r)" for xs ys
    by (induction xs) auto
  have "''0.0.0.0/0'' \<notin> set (routePrefixes base) \<Longrightarrow>
      find ?p (filter (\<lambda>u. ro_AddressPrefix u \<notin> set (routePrefixes base)) udrs) = Some d"
    using assms(3) by (induction udrs) (auto split: if_splits)
  then have "find ?p (overlayRoutes base udrs) = Some d"
    unfolding overlayRoutes_distinct [OF assms(1,2)] app in_base by simp
  then show ?thesis by (simp add: defaultHop_def)
qed

lemma entry_routes_loop:
  assumes "k \<in> nic_Name ` {nic \<in> set nics. nic_Subnet nic \<in> set (rt_AssociatedSubnets rt)}"
    and "distinct (map nic_Name nics)"
  shows "foldl (projectRoutesAt rt) m nics k = Some (overlayRoutes (entry m k) (rt_Routes rt))"
  using assms
proof (induction nics arbitrary: m)
  case Nil
  then show ?case by simp
next
  case (Cons nic nics)
  have other: "k \<notin> nic_Name ` set ns \<Longrightarrow> foldl (projectRoutesAt rt) m' ns k = m' k" for ns m'
    by (induction ns arbitrary: m') (auto simp: projectRoutesAt_def)
  show ?case
  proof (cases "nic_Name nic = k")
    case True
    with Cons.prems have "k \<notin> nic_Name ` set nics" by auto
    moreover from True Cons.prems have "nic_Subnet nic \<in> set (rt_AssociatedSubnets rt)" by auto
    then have "projectRoutesAt rt m nic k = Some (overlayRoutes (entry m k) (rt_Routes rt))"
      using True by (simp add: projectRoutesAt_def)
    ultimately show ?thesis by (simp add: other)
  next
    case False
    with Cons.prems have "foldl (projectRoutesAt rt) (projectRoutesAt rt m nic) nics k
        = Some (overlayRoutes (entry (projectRoutesAt rt m nic) k) (rt_Routes rt))"
      by (intro Cons.IH) auto
    moreover from False have "projectRoutesAt rt m nic k = m k" by (simp add: projectRoutesAt_def)
    ultimately show ?thesis by simp
  qed
qed

lemma applyModifyRoute_Inr:
  "applyModifyRoute fx op = Inr fx' \<longleftrightarrow>
     (\<exists>rt. findRouteTable fx (mro_RouteTableName op) = Some rt
        \<and> mro_RouteName op \<in> ro_Name ` set (rt_Routes rt)
        \<and> fx' = projectEffectiveRoutes
             (modifyRouteTable fx (mro_RouteTableName op)
                (\<lambda>t. t\<lparr>rt_Routes := updFirst (\<lambda>r. ro_Name r = mro_RouteName op)
                     (\<lambda>r. r\<lparr>ro_NextHopType := mro_NewNextHopType op,
                           ro_NextHopIPAddress := mro_NewNextHopIP op\<rparr>) (rt_Routes t)\<rparr>))
             (mro_RouteTableName op))"
  by (auto simp: applyModifyRoute_def split: option.splits)

lemma effRoutes_projected:
  assumes "findRouteTable fx n = Some rt" and "\<And>t. rt_Name (f t) = rt_Name t"
  shows "effRoutes (projectEffectiveRoutes (modifyRouteTable fx n f) n)
       = foldl (projectRoutesAt (f rt)) (effRoutes fx) (nicsOf fx)"
  using assms
  by (simp add: projectEffectiveRoutes_def rtSlice.lookup_modify withRoutes_def)
     (simp add: modifyRouteTable_def putRouteTables_def nicsOf_def)

text \<open>
  A simulated change of a route table's default route is the default hop the analysis then
  sees.  For every NIC in an associated subnet (NIC names, the table's prefixes and the NIC's
  effective prefixes being distinct), after an accepted \<open>ModifyRoute\<close> of the table's route for
  \<open>0.0.0.0/0\<close> the NIC's effective default hop is the new next hop type.
\<close>

theorem modifyRoute_sets_default_hop:
  assumes "applyDelta srt fx (deltaModifyRoute op) = Inr fx'"
    and "findRouteTable fx (mro_RouteTableName op) = Some rt"
    and "find (\<lambda>r. ro_Name r = mro_RouteName op) (rt_Routes rt) = Some r"
    and "ro_AddressPrefix r = ''0.0.0.0/0''"
    and "distinct (map nic_Name (nicsOf fx))" and "distinct (routePrefixes (rt_Routes rt))"
    and "distinct (routePrefixes (entry (effRoutes fx) (nic_Name nic)))"
    and "nic \<in> set (nicsOf fx)" and "nic_Subnet nic \<in> set (rt_AssociatedSubnets rt)"
  shows "defaultHop (entry (effRoutes fx') (nic_Name nic)) = mro_NewNextHopType op"
proof -
  let ?new = "\<lambda>r. r\<lparr>ro_NextHopType := mro_NewNextHopType op, ro_NextHopIPAddress := mro_NewNextHopIP op\<rparr>"
  let ?upd = "\<lambda>t. t\<lparr>rt_Routes := updFirst (\<lambda>r. ro_Name r = mro_RouteName op) ?new (rt_Routes t)\<rparr>"
  let ?udrs = "rt_Routes (?upd rt)"
  have "validate (deltaModifyRoute op) = None" using assms(1) by (rule applyDelta_InrD)
  with assms(1) have "applyModifyRoute fx op = Inr fx'" by simp
  then have fx': "effRoutes fx' = foldl (projectRoutesAt (?upd rt)) (effRoutes fx) (nicsOf fx)"
    by (auto simp: applyModifyRoute_Inr effRoutes_projected [OF assms(2)])
  have entry: "effRoutes fx' (nic_Name nic) = Some (overlayRoutes (entry (effRoutes fx) (nic_Name nic)) ?udrs)"
    unfolding fx' using assms(5,8,9) by (subst entry_routes_loop) auto
  have prefixes: "routePrefixes ?udrs = routePrefixes (rt_Routes rt)"
    by (simp add: routePrefixes_def map_updFirst)
  have "find (\<lambda>r. ro_Name r = mro_RouteName op) ?udrs = Some (?new r)"
    using assms(3) by (simp add: find_updFirst)
  then have r: "?new r \<in> set ?udrs" by (rule find_SomeD [THEN conjunct1])
  have "find (\<lambda>u. ro_AddressPrefix u = ''0.0.0.0/0'') ?udrs = Some (?new r)"
    using find_unique_key [of ro_AddressPrefix ?udrs "?new r"] assms(4,6) prefixes r
    by (simp add: routePrefixes_def)
  then show ?thesis
    using defaultHop_overlayRoutes [OF assms(7), of ?udrs "?new r"] assms(6) prefixes
    by (simp add: entry)
qed

definition sampleRouted :: Fixture where
  "sampleRouted = samplePlan\<lparr>fx_ResourceGraph := (fx_ResourceGraph samplePlan)
     \<lparr>rg_RouteTables := [\<lparr>rt_Name = ''rt1'', rt_Routes = [sampleRoute ''default'' ''0.0.0.0/0'' ''Internet''],
        rt_AssociatedSubnets = [''hub/front''], rt_DisableBgpRoutePropagation = False\<rparr>]\<rparr>\<rparr>"

definition sampleModifyRoute :: ModifyRouteOp where
  "sampleModifyRoute = \<lparr>mro_RouteTableName = ''rt1'', mro_RouteName = ''default'',
     mro_NewNextHopType = ''None'', mro_NewNextHopIP = []\<rparr>"

theorem modifyRoute_sets_default_hop_witness:
  "\<exists>fx'. applyDelta insertionSort sampleRouted (deltaModifyRoute sampleModifyRoute) = Inr fx'
     \<and> defaultHop (entry (effRoutes fx') ''web'') = ''None''"
proof -
  let ?nic = "sampleNIC ''web'' [] ''hub/front'' (Some ''pip1'') ''10.0.0.4''"
  let ?r = "sampleRoute ''default'' ''0.0.0.0/0'' ''Internet''"
  let ?rt = "\<lparr>rt_Name = ''rt1'', rt_Routes = [?r], rt_AssociatedSubnets = [''hub/front''],
     rt_DisableBgpRoutePropagation = False\<rparr>"
  have v: "validate (deltaModifyRoute sampleModifyRoute) = None"
    by (simp add: validate_defs sampleModifyRoute_def)
  have rt: "findRouteTable sampleRouted (mro_RouteTableName sampleModifyRoute) = Some ?rt"
    by (simp add: findRouteTable_def routeTablesOf_def sampleRouted_def sampleModifyRoute_def)
  have "\<exists>fx'. applyDelta insertionSort sampleRouted (deltaModifyRoute sampleModifyRoute) = Inr fx'"
    unfolding applyDelta_single(9) [OF v] applyModifyRoute_Inr using rt
    by (auto simp: sampleModifyRoute_def sampleRoute_def)
  then obtain fx' where fx': "applyDelta insertionSort sampleRouted (deltaModifyRoute sampleModifyRoute) = Inr fx'" ..
  have "defaultHop (entry (effRoutes fx') (nic_Name ?nic)) = mro_NewNextHopType sampleModifyRoute"
    by (rule modifyRoute_sets_default_hop [OF fx' rt, of ?r])
       (simp_all add: nicsOf_def routePrefixes_def sampleRouted_def sampleModifyRoute_def samplePlan_defs)
  with fx' show ?thesis by (auto simp: sampleNIC_def sampleModifyRoute_def)
qed

end
