(* ===== verification/Topo_Diff.thy ===== *)
theory Topo_Diff
  imports Topo_Project
begin

text \<open>
  \<open>DiffFindings\<close>, \<open>antr/engine/go/simulator/diff.go\<close>: two lists of findings compared by the key
  type, resource, severity.  Go iterates over the two key maps in unspecified orders, which are
  parameters here.  Also the public IP operations of the simulator, whose effect is read off the
  findings.
\<close>

section \<open>DiffFindings\<close>

record RiskVector =
  rv_CriticalDelta :: int
  rv_HighDelta :: int
  rv_MediumDelta :: int
  rv_LowDelta :: int
  rv_InformationalDelta :: int

record SecurityDelta =
  sd_AddedRisks :: "Finding list"
  sd_MitigatedRisks :: "Finding list"
  sd_Unchanged :: "Finding list"
  sd_OriginalFindingCount :: nat
  sd_SimulatedFindingCount :: nat
  sd_RiskVector :: RiskVector

definition findingKey :: "Finding \<Rightarrow> string" where
  "findingKey f = fi_Type f @ ''|'' @ fi_Resource f @ ''|'' @ fi_Severity f"

definition toFindingMap :: "Finding list \<Rightarrow> (string \<rightharpoonup> Finding)" where
  "toFindingMap fs = foldl (\<lambda>m f. m(findingKey f \<mapsto> f)) Map.empty fs"

definition incSeverity :: "RiskVector \<Rightarrow> string \<Rightarrow> int \<Rightarrow> RiskVector" where
  "incSeverity rv sev delta =
     (if sev = ''Critical'' then rv\<lparr>rv_CriticalDelta := rv_CriticalDelta rv + delta\<rparr>
      else if sev = ''High'' then rv\<lparr>rv_HighDelta := rv_HighDelta rv + delta\<rparr>
      else if sev = ''Medium'' then rv\<lparr>rv_MediumDelta := rv_MediumDelta rv + delta\<rparr>
      else if sev = ''Low'' then rv\<lparr>rv_LowDelta := rv_LowDelta rv + delta\<rparr>
      else rv\<lparr>rv_InformationalDelta := rv_InformationalDelta rv + delta\<rparr>)"

definition zeroRisk :: RiskVector where
  "zeroRisk = \<lparr>rv_CriticalDelta = 0, rv_HighDelta = 0, rv_MediumDelta = 0, rv_LowDelta = 0,
               rv_InformationalDelta = 0\<rparr>"

definition buildRiskVector :: "Finding list \<Rightarrow> Finding list \<Rightarrow> RiskVector" where
  "buildRiskVector added mitigated =
     foldl (\<lambda>rv f. incSeverity rv (fi_Severity f) (- 1))
       (foldl (\<lambda>rv f. incSeverity rv (fi_Severity f) 1) zeroRisk added) mitigated"

text \<open>The values of a map in iteration order, those whose key passes a test.\<close>

definition rangeWhere :: "(string \<rightharpoonup> Finding) \<Rightarrow> (string \<Rightarrow> bool) \<Rightarrow> string list \<Rightarrow> Finding list" where
  "rangeWhere m P ks = map (\<lambda>k. the (m k)) (filter (\<lambda>k. m k \<noteq> None \<and> P k) ks)"

definition diffFindings :: "string list \<Rightarrow> string list \<Rightarrow> Finding list \<Rightarrow> Finding list \<Rightarrow> SecurityDelta" where
  "diffFindings ordSim ordOrig original simulated =
     (let origMap = toFindingMap original; simMap = toFindingMap simulated;
          unchanged = rangeWhere simMap (\<lambda>k. origMap k \<noteq> None) ordSim;
          added = rangeWhere simMap (\<lambda>k. origMap k = None) ordSim;
          mitigated = rangeWhere origMap (\<lambda>k. simMap k = None) ordOrig
      in \<lparr>sd_AddedRisks = added, sd_MitigatedRisks = mitigated, sd_Unchanged = unchanged,
          sd_OriginalFindingCount = length original, sd_SimulatedFindingCount = length simulated,
          sd_RiskVector = buildRiskVector added mitigated\<rparr>)"

section \<open>What the delta says\<close>

lemma toFindingMap_dom: "dom (toFindingMap fs) = findingKey ` set fs"
proof -
  have "dom (foldl (\<lambda>m f. m(findingKey f \<mapsto> f)) m fs) = dom m \<union> findingKey ` set fs" for m
    by (induction fs arbitrary: m) auto
  then show ?thesis by (simp add: toFindingMap_def)
qed

lemma toFindingMap_None: "toFindingMap fs k = None \<longleftrightarrow> k \<notin> findingKey ` set fs"
  using toFindingMap_dom [of fs] by (auto simp: domIff)

lemma toFindingMap_Some: "toFindingMap fs k = Some f \<Longrightarrow> findingKey f = k \<and> f \<in> set fs"
proof -
  have "foldl (\<lambda>m f. m(findingKey f \<mapsto> f)) m fs k = Some f \<Longrightarrow> m k = Some f \<or> (findingKey f = k \<and> f \<in> set fs)" for m
    by (induction fs arbitrary: m) (fastforce split: if_splits)+
  then show "toFindingMap fs k = Some f \<Longrightarrow> findingKey f = k \<and> f \<in> set fs"
    by (auto simp: toFindingMap_def)
qed

lemma keys_rangeWhere:
  assumes "iterationOrder (toFindingMap fs) ks"
  shows "map findingKey (rangeWhere (toFindingMap fs) P ks) = filter P ks"
proof -
  have "\<forall>k \<in> set ks. toFindingMap fs k \<noteq> None" using assms by (auto simp: iterationOrder_def)
  then have "filter (\<lambda>k. toFindingMap fs k \<noteq> None \<and> P k) ks = filter P ks"
    by (auto intro: filter_cong)
  moreover have "map findingKey (map (\<lambda>k. the (toFindingMap fs k)) (filter P ks)) = filter P ks"
    using \<open>\<forall>k \<in> set ks. toFindingMap fs k \<noteq> None\<close>
    by (fastforce intro!: map_idI dest: toFindingMap_Some)
  ultimately show ?thesis by (simp only: rangeWhere_def)
qed

text \<open>
  The security delta partitions the finding keys.  Whatever the map iteration orders, every
  key of the simulated findings that the original lacks is listed exactly once as added, every key
  the simulation lost exactly once as mitigated, and every common key exactly once as unchanged.
\<close>

theorem diffFindings_partition:
  assumes "iterationOrder (toFindingMap simulated) ordSim"
    and "iterationOrder (toFindingMap original) ordOrig"
    and "d = diffFindings ordSim ordOrig original simulated"
  shows "distinct (map findingKey (sd_AddedRisks d @ sd_MitigatedRisks d @ sd_Unchanged d))
       \<and> findingKey ` set (sd_AddedRisks d) = findingKey ` set simulated - findingKey ` set original
       \<and> findingKey ` set (sd_MitigatedRisks d) = findingKey ` set original - findingKey ` set simulated
       \<and> findingKey ` set (sd_Unchanged d) = findingKey ` set original \<inter> findingKey ` set simulated"
proof -
  have sets: "set ordSim = findingKey ` set simulated" "set ordOrig = findingKey ` set original"
    and dist: "distinct ordSim" "distinct ordOrig"
    using assms(1,2) by (simp_all add: iterationOrder_def toFindingMap_dom)
  have keys: "map findingKey (sd_AddedRisks d) = filter (\<lambda>k. k \<notin> findingKey ` set original) ordSim"
    "map findingKey (sd_Unchanged d) = filter (\<lambda>k. k \<in> findingKey ` set original) ordSim"
    "map findingKey (sd_MitigatedRisks d) = filter (\<lambda>k. k \<notin> findingKey ` set simulated) ordOrig"
    unfolding assms(3) diffFindings_def Let_def
    by (simp_all add: keys_rangeWhere [OF assms(1)] keys_rangeWhere [OF assms(2)] toFindingMap_None)
  have img: "findingKey ` set xs = set (map findingKey xs)" for xs by simp
  show ?thesis unfolding map_append img keys set_filter sets using dist sets by auto
qed

section \<open>The risk vector\<close>

definition severityTotal :: "RiskVector \<Rightarrow> int" where
  "severityTotal rv = rv_CriticalDelta rv + rv_HighDelta rv + rv_MediumDelta rv + rv_LowDelta rv
     + rv_InformationalDelta rv"

lemma severityTotal_inc: "severityTotal (incSeverity rv sev d) = severityTotal rv + d"
  by (simp add: severityTotal_def incSeverity_def)

lemma severityTotal_foldl:
  "severityTotal (foldl (\<lambda>rv f. incSeverity rv (fi_Severity f) d) rv fs) = severityTotal rv + d * int (length fs)"
  by (induction fs arbitrary: rv) (auto simp: severityTotal_inc algebra_simps)

text \<open>
  The risk vector adds up.  Over all five severities its total is the number of distinct
  simulated keys minus the number of distinct original keys (not the difference of the two finding
  counts, which count duplicates of a key).
\<close>

theorem riskVector_total:
  assumes "iterationOrder (toFindingMap simulated) ordSim"
    and "iterationOrder (toFindingMap original) ordOrig"
  shows "severityTotal (sd_RiskVector (diffFindings ordSim ordOrig original simulated))
       = int (card (findingKey ` set simulated)) - int (card (findingKey ` set original))"
proof -
  let ?d = "diffFindings ordSim ordOrig original simulated"
  let ?S = "findingKey ` set simulated" and ?O = "findingKey ` set original"
  note part = diffFindings_partition [OF assms refl]
  have "length (sd_AddedRisks ?d) = card (?S - ?O)" "length (sd_MitigatedRisks ?d) = card (?O - ?S)"
    using part by (simp_all add: distinct_card [symmetric])
      (metis distinct_card length_map list.set_map)+
  moreover have "severityTotal (sd_RiskVector ?d)
      = int (length (sd_AddedRisks ?d)) - int (length (sd_MitigatedRisks ?d))"
    by (simp add: diffFindings_def Let_def buildRiskVector_def severityTotal_foldl)
       (simp add: severityTotal_def zeroRisk_def)
  moreover have "int (card (?S - ?O)) = int (card ?S) - int (card (?S \<inter> ?O))"
    by (simp add: card_Diff_subset_Int of_nat_diff card_mono)
  moreover have "int (card (?O - ?S)) = int (card ?O) - int (card (?S \<inter> ?O))"
    by (simp add: card_Diff_subset_Int of_nat_diff card_mono Int_commute)
  ultimately show ?thesis by simp
qed

theorem diffFindings_partition_witness:
  "let fs = [finding ''AKS non-private cluster'' ''Medium'' ''aks1'' [] True] in
   sd_AddedRisks (diffFindings (map findingKey fs) [] [] fs) \<noteq> []
   \<and> findingKey ` set (sd_AddedRisks (diffFindings (map findingKey fs) [] [] fs)) = findingKey ` set fs"
proof -
  let ?fs = "[finding ''AKS non-private cluster'' ''Medium'' ''aks1'' [] True]"
  have s: "iterationOrder (toFindingMap ?fs) (map findingKey ?fs)"
    and o: "iterationOrder (toFindingMap []) []"
    by (auto simp: iterationOrder_def toFindingMap_dom)
  show ?thesis using diffFindings_partition [OF s o refl] by (auto simp: Let_def)
qed

theorem riskVector_total_witness:
  "let fs = [finding ''AKS non-private cluster'' ''Medium'' ''aks1'' [] True] in
   severityTotal (sd_RiskVector (diffFindings (map findingKey fs) [] [] fs)) = 1"
proof -
  let ?fs = "[finding ''AKS non-private cluster'' ''Medium'' ''aks1'' [] True]"
  have s: "iterationOrder (toFindingMap ?fs) (map findingKey ?fs)"
    and o: "iterationOrder (toFindingMap []) []"
    by (auto simp: iterationOrder_def toFindingMap_dom)
  show ?thesis using riskVector_total [OF s o] by (simp add: Let_def)
qed

section \<open>Detaching a public IP\<close>

text \<open>
  Detaching a public IP matches NIC names by substring.  An accepted \<open>RemovePublicIP\<close>
  marks as orphaned every public IP whose configuration contains the NIC's name anywhere, be it
  the configuration of another NIC, and the analysis then reports it as an orphaned endpoint.
\<close>

theorem removePublicIP_detaches_by_substring:
  assumes "applyDelta srt fx (deltaRemovePublicIP op) = Inr fx'"
    and "pip \<in> set (publicIPsOf fx)" and "pip_IPConfiguration pip = Some cfg" and "cfg \<noteq> []"
    and "cfg = before @ rpi_NICName op @ after"
  shows "pip\<lparr>pip_IPConfiguration := None\<rparr> \<in> set (publicIPsOf fx')
       \<and> (\<exists>f \<in> set (analyze fx'). fi_Type f = ''orphaned public endpoint''
            \<and> fi_Resource f = rid (pip_Name pip) (pip_ID pip))"
proof -
  have "validate (deltaRemovePublicIP op) = None" using assms(1) by (rule applyDelta_InrD)
  with assms(1) have "applyRemovePublicIP fx op = Inr fx'" by simp
  then have pips: "publicIPsOf fx' = map (detachPIP (rpi_NICName op)) (publicIPsOf fx)"
    by (auto simp: applyRemovePublicIP_def Let_def publicIPsOf_def putPublicIPs_def modifyNIC_def
          putNICs_def split: option.splits)
  have "strContains cfg (rpi_NICName op)" using assms(5) by (auto simp: strContains_iff)
  with assms(3,4) have "detachPIP (rpi_NICName op) pip = pip\<lparr>pip_IPConfiguration := None\<rparr>"
    by (simp add: detachPIP_def)
  with assms(2) have new: "pip\<lparr>pip_IPConfiguration := None\<rparr> \<in> set (publicIPsOf fx')"
    unfolding pips by (metis image_eqI list.set_map)
  then have "\<exists>f \<in> set (orphanedFindings (fx_ResourceGraph fx')).
      fi_Resource f = rid (pip_Name pip) (pip_ID pip)"
    unfolding orphanedFindings_def bex_concat_map publicIPsOf_def [symmetric]
    by (rule bexI [rotated]) simp
  then obtain f where "f \<in> set (orphanedFindings (fx_ResourceGraph fx'))"
    "fi_Resource f = rid (pip_Name pip) (pip_ID pip)" by blast
  moreover from this have "fi_Type f = ''orphaned public endpoint''" by (intro orphanedFindings_type)
  moreover from calculation have "f \<in> set (analyze fx')" unfolding in_analyze Let_def by blast
  ultimately show ?thesis using new by blast
qed

text \<open>Two NICs \<open>vm1\<close> and \<open>vm10\<close>, each with its own public IP.\<close>

definition samplePIP :: "string \<Rightarrow> string \<Rightarrow> PublicIP" where
  "samplePIP name cfg = \<lparr>pip_Name = name, pip_ID = [], pip_IPAddress = ''20.0.0.1'',
     pip_IPConfiguration = Some cfg, pip_AllocationMethod = [], pip_SKU = []\<rparr>"

definition twoVMs :: Fixture where
  "twoVMs = zeroFixture\<lparr>fx_ResourceGraph := zeroResourceGraph
     \<lparr>rg_NetworkInterfaces := [sampleNIC ''vm1'' [] ''hub/front'' (Some ''pip1'') ''10.0.0.4'',
                               sampleNIC ''vm10'' [] ''hub/front'' (Some ''pip10'') ''10.0.0.5''],
      rg_PublicIPAddresses := [samplePIP ''pip1'' ''vm1'', samplePIP ''pip10'' ''vm10'']\<rparr>\<rparr>"

theorem removePublicIP_detaches_by_substring_witness:
  "\<exists>fx'. applyDelta insertionSort twoVMs (deltaRemovePublicIP \<lparr>rpi_NICName = ''vm1''\<rparr>) = Inr fx'
     \<and> (\<exists>nic. findNIC fx' ''vm10'' = Some nic \<and> nic_PublicIP nic = Some ''pip10'')
     \<and> (\<exists>f \<in> set (analyze fx'). fi_Type f = ''orphaned public endpoint'' \<and> fi_Resource f = ''pip10'')"
proof -
  let ?op = "\<lparr>rpi_NICName = ''vm1''\<rparr>"
  have v: "validate (deltaRemovePublicIP ?op) = None" by simp
  have "\<exists>fx'. applyRemovePublicIP twoVMs ?op = Inr fx'
      \<and> (\<exists>nic. findNIC fx' ''vm10'' = Some nic \<and> nic_PublicIP nic = Some ''pip10'')"
    by (simp add: applyRemovePublicIP_def findNIC_def modifyNIC_def putNICs_def nicsOf_def Let_def
          putPublicIPs_def twoVMs_def sampleNIC_def)
  then obtain fx' where fx': "applyDelta insertionSort twoVMs (deltaRemovePublicIP ?op) = Inr fx'"
    and nic: "\<exists>nic. findNIC fx' ''vm10'' = Some nic \<and> nic_PublicIP nic = Some ''pip10''"
    unfolding applyDelta_single(8) [OF v] by blast
  let ?pip = "samplePIP ''pip10'' ''vm10''"
  have pip: "?pip \<in> set (publicIPsOf twoVMs)" by (simp add: publicIPsOf_def twoVMs_def)
  have cfg: "pip_IPConfiguration ?pip = Some ''vm10''" by (simp add: samplePIP_def)
  have sub: "''vm10'' = [] @ rpi_NICName ?op @ ''0''" by simp
  have r: "rid (pip_Name ?pip) (pip_ID ?pip) = ''pip10''" by (simp add: samplePIP_def rid_def)
  have "\<exists>f \<in> set (analyze fx'). fi_Type f = ''orphaned public endpoint'' \<and> fi_Resource f = ''pip10''"
    using removePublicIP_detaches_by_substring [OF fx' pip cfg _ sub] unfolding r by blast
  with fx' nic show ?thesis by blast
qed

end
