(* ===== verification/Job_Domain.thy ===== *)
theory Job_Domain
  imports Complex_Main Go_Base "HOL-Library.Word"
begin

text \<open>
  The transcript agent's domain, \<open>transcript-agent/backend/internal/domain\<close> (\<open>status.go\<close>,
  \<open>types.go\<close>, \<open>errors.go\<close>): the job life cycle states, the rows the store keeps and the error
  values.  A pointer field is an \<open>option\<close>; rows are values, so the store's copy functions are the
  identity.  A UUID is its 128 bits, a time the nanoseconds since the epoch, and a (finite) float64
  the rational it denotes.
\<close>

type_synonym uuid = "128 word"
type_synonym time = int
type_synonym float64 = rat

definition uuidNil :: uuid where
  "uuidNil = 0"

text \<open>\<open>uuid.UUID.String\<close>: 32 hexadecimal digits in groups of 8, 4, 4, 4 and 12.\<close>

definition uuidDigit :: "uuid \<Rightarrow> nat \<Rightarrow> char" where
  "uuidDigit u i = hexDigit (unat u div 16 ^ (31 - i) mod 16)"

definition uuidStr :: "uuid \<Rightarrow> string" where
  "uuidStr u = map (uuidDigit u) [0..<8] @ ''-'' @ map (uuidDigit u) [8..<12] @ ''-''
     @ map (uuidDigit u) [12..<16] @ ''-'' @ map (uuidDigit u) [16..<20] @ ''-''
     @ map (uuidDigit u) [20..<32]"

section \<open>Status\<close>

datatype Status =
    StatusSubmitted | StatusQueued | StatusValidating | StatusMetadataExtracted
  | StatusCaptionChecked | StatusNeedsUserAction | StatusExtractingAudio | StatusTranscribing
  | StatusNormalizing | StatusQualityChecking | StatusDrafted | StatusInReview | StatusApproved
  | StatusExported | StatusFailed | StatusCancelled
  | StatusOther string

fun statusStr :: "Status \<Rightarrow> string" where
  "statusStr StatusSubmitted = ''submitted''"
| "statusStr StatusQueued = ''queued''"
| "statusStr StatusValidating = ''validating''"
| "statusStr StatusMetadataExtracted = ''metadata_extracted''"
| "statusStr StatusCaptionChecked = ''caption_checked''"
| "statusStr StatusNeedsUserAction = ''needs_user_action''"
| "statusStr StatusExtractingAudio = ''extracting_audio''"
| "statusStr StatusTranscribing = ''transcribing''"
| "statusStr StatusNormalizing = ''normalizing''"
| "statusStr StatusQualityChecking = ''quality_checking''"
| "statusStr StatusDrafted = ''drafted''"
| "statusStr StatusInReview = ''in_review''"
| "statusStr StatusApproved = ''approved''"
| "statusStr StatusExported = ''exported''"
| "statusStr StatusFailed = ''failed''"
| "statusStr StatusCancelled = ''cancelled''"
| "statusStr (StatusOther s) = s"

definition AllStatuses :: "Status list" where
  "AllStatuses =
     [StatusSubmitted, StatusQueued, StatusValidating, StatusMetadataExtracted,
      StatusCaptionChecked, StatusNeedsUserAction, StatusExtractingAudio,
      StatusTranscribing, StatusNormalizing, StatusQualityChecking, StatusDrafted,
      StatusInReview, StatusApproved, StatusExported, StatusFailed, StatusCancelled]"

definition statusValid :: "Status \<Rightarrow> bool" where
  "statusValid s \<longleftrightarrow> s \<in> set AllStatuses"

definition statusTerminal :: "Status \<Rightarrow> bool" where
  "statusTerminal s \<longleftrightarrow> s = StatusFailed \<or> s = StatusCancelled"

definition VersionRaw :: string where "VersionRaw = ''raw''"
definition VersionClean :: string where "VersionClean = ''clean''"
definition VersionReviewed :: string where "VersionReviewed = ''reviewed''"
definition VersionApproved :: string where "VersionApproved = ''approved''"

lemmas version_types = VersionRaw_def VersionClean_def VersionReviewed_def VersionApproved_def

definition ExportFormats :: "string list" where
  "ExportFormats = [''txt'', ''md'', ''srt'', ''vtt'']"

text \<open>Arithmetic on \<open>int\<close>, 64 bits in two's complement; the models write it where inputs can reach
  the bounds.\<close>

definition wrapInt :: "int \<Rightarrow> int" where
  "wrapInt x = sint (word_of_int x :: 64 word)"

lemma wrapInt_id [simp]: "- (2 ^ 63) \<le> x \<Longrightarrow> x < 2 ^ 63 \<Longrightarrow> wrapInt x = x"
  unfolding wrapInt_def by (simp add: sint_sbintrunc' signed_take_bit_int_eq_self)

section \<open>Errors\<close>

text \<open>
  A Go error here is a structured domain error, a context cancellation (or deadline), or any other
  error, of which only the message is used.
\<close>

datatype err = E string string | Interrupted string | OtherErr string

definition codeOf :: "err \<Rightarrow> string" where
  "codeOf e = (case e of E c m \<Rightarrow> c | _ \<Rightarrow> ''INTERNAL_ERROR'')"

definition errString :: "err \<Rightarrow> string" where
  "errString e = (case e of E c m \<Rightarrow> c @ '': '' @ m | Interrupted m \<Rightarrow> m | OtherErr m \<Rightarrow> m)"

definition asError :: "err \<Rightarrow> string \<times> string" where
  "asError e = (case e of E c m \<Rightarrow> (c, m) | _ \<Rightarrow> (''INTERNAL_ERROR'', errString e))"

definition ErrStatusConflict :: err where
  "ErrStatusConflict = E ''STATUS_CONFLICT'' ''job status changed concurrently; reload the job and retry''"

text \<open>What a call returns: a value, an error, or a nil pointer dereference.\<close>

datatype 'a outcome = Ok 'a | Err err | Panic

section \<open>Rows\<close>

record ErrorInfo =
  ei_Code :: string
  ei_Message :: string

record Job =
  j_JobID :: uuid
  j_SourceType :: string
  j_SourceURI :: string
  j_Status :: Status
  j_SubmittedBy :: string
  j_OwnershipAttested :: bool
  j_Language :: string
  j_JobConfigID :: "uuid option"
  j_DurationSeconds :: int
  j_ActionRequired :: string
  j_LastError :: "ErrorInfo option"
  j_CaptionsAvailable :: bool
  j_CaptionTrackID :: string
  j_CaptionReuse :: "bool option"
  j_CancelReason :: string
  j_LibraryMode :: bool
  j_SourceBasis :: string
  j_CreatedAt :: time
  j_UpdatedAt :: time

record Feed =
  fd_FeedID :: uuid
  fd_FeedURL :: string
  fd_Title :: string
  fd_Description :: string
  fd_ImageURL :: string
  fd_AutoTranscribe :: bool
  fd_LastPolledAt :: "time option"
  fd_PollError :: string
  fd_CreatedAt :: time
  fd_DeletedAt :: "time option"

record Episode =
  ep_EpisodeID :: uuid
  ep_FeedID :: uuid
  ep_GUID :: string
  ep_Title :: string
  ep_Description :: string
  ep_AudioURL :: string
  ep_PublishedAt :: "time option"
  ep_DurationSeconds :: "int option"
  ep_MediaArtifactID :: "uuid option"
  ep_JobID :: "uuid option"
  ep_CreatedAt :: time

record JobConfig =
  jc_JobConfigID :: uuid
  jc_JobID :: uuid
  jc_Language :: string
  jc_ConfidenceThreshold :: float64
  jc_EnableDiarization :: bool
  jc_ExpectedSpeakerCount :: "int option"
  jc_StylePolicyID :: string
  jc_SummaryMaxWords :: int
  jc_SummaryStyle :: string
  jc_STTProvider :: string
  jc_STTModel :: string
  jc_MaxDurationSeconds :: "int option"
  jc_CreatedBy :: string
  jc_CreatedAt :: time

record TranscriptVersion =
  tv_TranscriptVersionID :: uuid
  tv_JobID :: uuid
  tv_VersionType :: string
  tv_SourceVersionID :: "uuid option"
  tv_CreatedBy :: string
  tv_IsImmutable :: bool
  tv_CreatedAt :: time

record Segment =
  sg_SegmentID :: uuid
  sg_TranscriptVersionID :: uuid
  sg_StartMS :: int
  sg_EndMS :: int
  sg_SpeakerLabel :: string
  sg_Text :: string
  sg_Confidence :: "float64 option"
  sg_Flags :: "string \<rightharpoonup> bool"

record Summary =
  sm_SummaryID :: uuid
  sm_JobID :: uuid
  sm_SourceTranscriptVersionID :: uuid
  sm_Text :: string
  sm_ValidationStatus :: string
  sm_ValidationNotes :: string
  sm_CreatedBy :: string
  sm_CreatedAt :: time
  sm_UpdatedAt :: "time option"

record QualityIssue =
  qi_IssueType :: string
  qi_Severity :: string
  qi_StartMS :: int
  qi_EndMS :: int
  qi_Message :: string

record QualityReport =
  qr_QualityReportID :: uuid
  qr_JobID :: uuid
  qr_TranscriptVersionID :: uuid
  qr_JobConfigID :: uuid
  qr_ConfidenceThreshold :: float64
  qr_QualityScore :: "float64 option"
  qr_AverageConfidence :: "float64 option"
  qr_LowConfidenceSegmentCount :: int
  qr_CoverageGapSeconds :: int
  qr_TimestampGapCount :: int
  qr_DiarizationWarningCount :: int
  qr_ConfidenceUnavailable :: bool
  qr_Issues :: "QualityIssue list"
  qr_CreatedAt :: time

record Approval =
  ap_ApprovalID :: uuid
  ap_JobID :: uuid
  ap_ApprovedTranscriptVersionID :: uuid
  ap_ApprovedBy :: string
  ap_ApprovedAt :: time
  ap_ApprovalNote :: string
  ap_SupersededByApprovalID :: "uuid option"

text \<open>The values of an audit payload, \<open>map[string]any\<close>.\<close>

datatype any = AnyString string | AnyInt int | AnyBool bool | AnyStrings "string list"
  | AnyFloat float64 | AnyTime "time option"

record AuditEvent =
  ae_AuditEventID :: uuid
  ae_JobID :: "uuid option"
  ae_ActorType :: string
  ae_ActorID :: string
  ae_EventType :: string
  ae_EventPayload :: "string \<rightharpoonup> any"
  ae_CreatedAt :: time

record MediaArtifact =
  ma_ArtifactID :: uuid
  ma_JobID :: uuid
  ma_ArtifactType :: string
  ma_URI :: string
  ma_MimeType :: string
  ma_SizeBytes :: int
  ma_Superseded :: bool
  ma_RetentionUntil :: "time option"
  ma_CreatedAt :: time

record ExportRecord =
  ex_ExportID :: uuid
  ex_JobID :: uuid
  ex_ApprovedTranscriptVersionID :: uuid
  ex_Format :: string
  ex_ArtifactURI :: string
  ex_ValidationStatus :: string
  ex_Superseded :: bool
  ex_CreatedBy :: string
  ex_CreatedAt :: time

end
