(* ===== verification/Job_State.thy ===== *)
theory Job_State
  imports Job_Domain "HOL-Library.Sublist"
begin

text \<open>
  The job life cycle, \<open>transcript-agent/backend/internal/state/state.go\<close>: the table of allowed
  transitions, \<open>CanTransition\<close> and \<open>Transition\<close>, and what every walk through the table does.
\<close>

fun allowed :: "Status \<Rightarrow> Status list" where
  "allowed StatusSubmitted = [StatusQueued, StatusCancelled]"
| "allowed StatusQueued = [StatusValidating, StatusCancelled]"
| "allowed StatusValidating =
     [StatusMetadataExtracted, StatusNeedsUserAction, StatusQueued, StatusFailed, StatusCancelled]"
| "allowed StatusMetadataExtracted =
     [StatusCaptionChecked, StatusExtractingAudio, StatusQueued, StatusNeedsUserAction,
      StatusFailed, StatusCancelled]"
| "allowed StatusCaptionChecked =
     [StatusNeedsUserAction, StatusExtractingAudio, StatusNormalizing, StatusQueued,
      StatusFailed, StatusCancelled]"
| "allowed StatusNeedsUserAction =
     [StatusQueued, StatusCaptionChecked, StatusFailed, StatusCancelled]"
| "allowed StatusExtractingAudio =
     [StatusTranscribing, StatusNeedsUserAction, StatusQueued, StatusFailed, StatusCancelled]"
| "allowed StatusTranscribing =
     [StatusNormalizing, StatusQueued, StatusNeedsUserAction, StatusFailed, StatusCancelled]"
| "allowed StatusNormalizing =
     [StatusQualityChecking, StatusQueued, StatusFailed, StatusCancelled]"
| "allowed StatusQualityChecking =
     [StatusDrafted, StatusQueued, StatusFailed, StatusCancelled]"
| "allowed StatusDrafted = [StatusInReview, StatusFailed, StatusCancelled]"
| "allowed StatusInReview = [StatusApproved, StatusCancelled]"
| "allowed StatusApproved = [StatusExported, StatusInReview, StatusCancelled]"
| "allowed StatusExported = [StatusInReview, StatusCancelled]"
| "allowed StatusFailed = []"
| "allowed StatusCancelled = []"
| "allowed (StatusOther s) = []"

definition canTransition :: "Status \<Rightarrow> Status \<Rightarrow> bool" where
  "canTransition from to \<longleftrightarrow> to \<in> set (allowed from)"

text \<open>\<open>Transition\<close>; the clock's reading is the first argument.\<close>

definition transition :: "time \<Rightarrow> Job \<Rightarrow> Status \<Rightarrow> Job outcome" where
  "transition now job to =
     (if \<not> statusValid to
      then Err (E ''INVALID_STATE_TRANSITION'' (''unknown status '' @ goQuote (statusStr to)))
      else if \<not> canTransition (j_Status job) to
      then Err (E ''INVALID_STATE_TRANSITION''
             (''illegal transition '' @ statusStr (j_Status job) @ '' -> '' @ statusStr to))
      else Ok (job\<lparr>j_Status := to, j_UpdatedAt := now\<rparr>))"

lemma transition_Ok:
  "transition now job to = Ok job' \<longleftrightarrow>
     canTransition (j_Status job) to \<and> job' = job\<lparr>j_Status := to, j_UpdatedAt := now\<rparr>"
proof -
  have "canTransition (j_Status job) to \<Longrightarrow> statusValid to"
    by (cases "j_Status job") (auto simp: canTransition_def statusValid_def AllStatuses_def)
  then show ?thesis by (auto simp: transition_def)
qed

lemma transition_not_Panic [simp]: "transition now job to \<noteq> Panic"
  by (simp add: transition_def)

section \<open>Walks through the table\<close>

fun legalRun :: "Status list \<Rightarrow> bool" where
  "legalRun [] = True"
| "legalRun [s] = True"
| "legalRun (s # t # r) = (canTransition s t \<and> legalRun (t # r))"

lemma legalRun_append: "legalRun (xs @ ys) \<Longrightarrow> legalRun xs \<and> legalRun ys"
proof (induction xs rule: legalRun.induct)
  case (2 s)
  then show ?case by (cases ys) auto
qed auto

lemma legalRun_snoc: "legalRun (xs @ [s, t]) \<Longrightarrow> canTransition s t"
  by (induction xs rule: legalRun.induct) auto

text \<open>The states every run into a state has passed, in order; only the review phase has any.\<close>

fun milestones :: "Status \<Rightarrow> Status list" where
  "milestones StatusQualityChecking = [StatusNormalizing, StatusQualityChecking]"
| "milestones StatusDrafted = [StatusNormalizing, StatusQualityChecking, StatusDrafted]"
| "milestones StatusInReview =
     [StatusNormalizing, StatusQualityChecking, StatusDrafted, StatusInReview]"
| "milestones StatusApproved =
     [StatusNormalizing, StatusQualityChecking, StatusDrafted, StatusInReview, StatusApproved]"
| "milestones StatusExported =
     [StatusNormalizing, StatusQualityChecking, StatusDrafted, StatusInReview, StatusApproved,
      StatusExported]"
| "milestones StatusNormalizing = [StatusNormalizing]"
| "milestones s = []"

lemma milestones_step: "canTransition s t \<Longrightarrow> subseq (milestones t) (milestones s @ [t])"
  by (cases s) (auto simp: canTransition_def)

lemma milestones_run:
  assumes "legalRun (xs @ [s])" and "hd (xs @ [s]) = StatusSubmitted"
  shows "subseq (milestones s) (xs @ [s])"
  using assms
proof (induction xs arbitrary: s rule: rev_induct)
  case Nil
  then show ?case by simp
next
  case (snoc t xs)
  then have "legalRun (xs @ [t])" and "hd (xs @ [t]) = StatusSubmitted"
    using legalRun_append [of "xs @ [t]" "[s]"] by (auto simp: hd_append split: if_splits)
  then have IH: "subseq (milestones t) (xs @ [t])" by (rule snoc.IH)
  have "canTransition t s" using snoc.prems(1) by (auto intro: legalRun_snoc)
  then have "subseq (milestones s) (milestones t @ [s])" by (rule milestones_step)
  also have "subseq (milestones t @ [s]) ((xs @ [t]) @ [s])"
    using IH by (rule list_emb_append_mono) simp
  finally show ?case .
qed

text \<open>
  A job is approved only after the whole pipeline and a review.  Every run of legal transitions
  from \<open>submitted\<close> to \<open>approved\<close> has passed, in this order, through normalizing, quality
  checking, drafted and in review.
\<close>

theorem approved_only_after_review:
  assumes "legalRun (StatusSubmitted # p @ [StatusApproved])"
  shows "subseq [StatusNormalizing, StatusQualityChecking, StatusDrafted, StatusInReview] p"
proof -
  have "subseq (milestones StatusApproved) ((StatusSubmitted # p) @ [StatusApproved])"
    by (rule milestones_run) (use assms in auto)
  then have "subseq ([StatusNormalizing, StatusQualityChecking, StatusDrafted, StatusInReview] @ [StatusApproved])
      ((StatusSubmitted # p) @ [StatusApproved])"
    by simp
  then have "subseq [StatusNormalizing, StatusQualityChecking, StatusDrafted, StatusInReview]
      (StatusSubmitted # p)"
    by (simp only: subseq_append)
  then show ?thesis by simp
qed

theorem approved_only_after_review_witness:
  "subseq [StatusNormalizing, StatusQualityChecking, StatusDrafted, StatusInReview]
     [StatusQueued, StatusValidating, StatusMetadataExtracted, StatusExtractingAudio,
      StatusTranscribing, StatusNormalizing, StatusQualityChecking, StatusDrafted, StatusInReview]"
  by (rule approved_only_after_review) (simp add: canTransition_def)

text \<open>
  Review is a closed phase.  Once a job is in review, approved or exported, every legal run keeps
  it there until it is cancelled: it never returns to the pipeline and never fails.  A failed or
  cancelled job never moves again.
\<close>

theorem review_phase_closed:
  assumes "legalRun (s # p)"
  shows "(s \<in> {StatusInReview, StatusApproved, StatusExported} \<longrightarrow>
            set p \<subseteq> {StatusInReview, StatusApproved, StatusExported, StatusCancelled})
       \<and> (statusTerminal s \<longrightarrow> p = [])"
proof (intro conjI impI)
  assume "s \<in> {StatusInReview, StatusApproved, StatusExported}"
  then have "s \<in> {StatusInReview, StatusApproved, StatusExported, StatusCancelled}" by blast
  then show "set p \<subseteq> {StatusInReview, StatusApproved, StatusExported, StatusCancelled}"
    using assms
  proof (induction p arbitrary: s)
    case Nil
    then show ?case by simp
  next
    case (Cons t p)
    from Cons.prems have "t \<in> {StatusInReview, StatusApproved, StatusExported, StatusCancelled}"
      by (auto simp: canTransition_def)
    with Cons.IH [of t] Cons.prems show ?case by simp
  qed
next
  assume "statusTerminal s"
  then show "p = []" using assms by (cases p) (auto simp: statusTerminal_def canTransition_def)
qed

theorem review_phase_closed_witness:
  "set [StatusApproved, StatusExported, StatusInReview, StatusCancelled]
     \<subseteq> {StatusInReview, StatusApproved, StatusExported, StatusCancelled}"
  using review_phase_closed
    [of StatusInReview "[StatusApproved, StatusExported, StatusInReview, StatusCancelled]"]
  by (simp add: canTransition_def)

end
