(* ===== verification/Job_Store.thy ===== *)
theory Job_Store
  imports Job_State
begin

text \<open>
  The in-memory store, \<open>transcript-agent/backend/internal/store/memory/memory.go\<close>: maps from ids
  to rows beside slices that keep the insertion order.  Every method runs under the store's mutex,
  so it is one step.  A loop over an order slice dereferences the row of each id; an id without a
  row is a nil dereference, the outcome \<open>Panic\<close>, which the invariant of \<open>Job_Invariant\<close> excludes.
\<close>

record Store =
  st_jobs :: "uuid \<rightharpoonup> Job"
  st_jobOrder :: "uuid list"
  st_configs :: "uuid \<rightharpoonup> JobConfig"
  st_versions :: "uuid \<rightharpoonup> TranscriptVersion"
  st_verOrder :: "uuid list"
  st_segments :: "uuid \<rightharpoonup> Segment"
  st_segByVer :: "uuid \<Rightarrow> uuid list"
  st_summaries :: "uuid \<rightharpoonup> Summary"
  st_sumOrder :: "uuid list"
  st_reports :: "uuid \<rightharpoonup> QualityReport"
  st_repOrder :: "uuid list"
  st_approvals :: "uuid \<rightharpoonup> Approval"
  st_apprOrder :: "uuid list"
  st_audits :: "AuditEvent list"
  st_artifacts :: "uuid \<rightharpoonup> MediaArtifact"
  st_artOrder :: "uuid list"
  st_exports :: "uuid \<rightharpoonup> ExportRecord"
  st_expOrder :: "uuid list"
  st_feeds :: "uuid \<rightharpoonup> Feed"
  st_feedOrder :: "uuid list"
  st_episodes :: "uuid \<rightharpoonup> Episode"
  st_epOrder :: "uuid list"
  st_epByFeedGUID :: "string \<rightharpoonup> uuid"

definition newStore :: Store where
  "newStore =
     \<lparr>st_jobs = Map.empty, st_jobOrder = [], st_configs = Map.empty, st_versions = Map.empty,
      st_verOrder = [], st_segments = Map.empty, st_segByVer = (\<lambda>_. []), st_summaries = Map.empty,
      st_sumOrder = [], st_reports = Map.empty, st_repOrder = [], st_approvals = Map.empty,
      st_apprOrder = [], st_audits = [], st_artifacts = Map.empty, st_artOrder = [],
      st_exports = Map.empty, st_expOrder = [], st_feeds = Map.empty, st_feedOrder = [],
      st_episodes = Map.empty, st_epOrder = [], st_epByFeedGUID = Map.empty\<rparr>"

section \<open>Loops over an order slice\<close>

text \<open>\<open>for _, id := range order { r := m[id]; ... }\<close>: all rows; the first row that matches; the
  rows that match, updated through their pointers, with a key of each.\<close>

fun scanRows :: "(uuid \<rightharpoonup> 'a) \<Rightarrow> uuid list \<Rightarrow> 'a list outcome" where
  "scanRows m [] = Ok []"
| "scanRows m (i # is) =
     (case m i of None \<Rightarrow> Panic
      | Some r \<Rightarrow> (case scanRows m is of Ok rs \<Rightarrow> Ok (r # rs) | Err e \<Rightarrow> Err e | Panic \<Rightarrow> Panic))"

fun scanFind :: "('a \<Rightarrow> bool) \<Rightarrow> (uuid \<rightharpoonup> 'a) \<Rightarrow> uuid list \<Rightarrow> 'a option outcome" where
  "scanFind P m [] = Ok None"
| "scanFind P m (i # is) =
     (case m i of None \<Rightarrow> Panic | Some r \<Rightarrow> if P r then Ok (Some r) else scanFind P m is)"

fun updRows :: "('a \<Rightarrow> bool) \<Rightarrow> ('a \<Rightarrow> 'a) \<Rightarrow> ('a \<Rightarrow> uuid) \<Rightarrow> (uuid \<rightharpoonup> 'a) \<Rightarrow> uuid list \<Rightarrow>
    ((uuid \<rightharpoonup> 'a) \<times> uuid list) outcome" where
  "updRows P f key m [] = Ok (m, [])"
| "updRows P f key m (i # is) =
     (case m i of None \<Rightarrow> Panic
      | Some r \<Rightarrow>
          if P r then
            (case updRows P f key (m(i \<mapsto> f r)) is of
               Ok (m', ks) \<Rightarrow> Ok (m', key r # ks) | Err e \<Rightarrow> Err e | Panic \<Rightarrow> Panic)
          else updRows P f key m is)"

definition mapOk :: "('a \<Rightarrow> 'b) \<Rightarrow> 'a outcome \<Rightarrow> 'b outcome" where
  "mapOk f r = (case r of Ok x \<Rightarrow> Ok (f x) | Err e \<Rightarrow> Err e | Panic \<Rightarrow> Panic)"

lemma mapOk_simps [simp]:
  "mapOk f (Ok x) = Ok (f x)" "mapOk f (Err e) = Err e" "mapOk f Panic = Panic"
  by (simp_all add: mapOk_def)

lemma mapOk_Ok_iff: "mapOk f r = Ok y \<longleftrightarrow> (\<exists>x. r = Ok x \<and> y = f x)"
  by (cases r) auto

lemma mapOk_Panic [simp]: "mapOk f r = Panic \<longleftrightarrow> r = Panic"
  by (cases r) auto

definition lastMatch :: "('a \<Rightarrow> bool) \<Rightarrow> 'a list \<Rightarrow> 'a option" where
  "lastMatch P rs = foldl (\<lambda>latest r. if P r then Some r else latest) None rs"

definition notFound :: "string \<Rightarrow> string \<Rightarrow> uuid \<Rightarrow> err" where
  "notFound code what i = E code (what @ '' '' @ uuidStr i @ '' not found'')"

definition getRow :: "string \<Rightarrow> string \<Rightarrow> (uuid \<rightharpoonup> 'a) \<Rightarrow> uuid \<Rightarrow> 'a outcome" where
  "getRow code what m i = (case m i of None \<Rightarrow> Err (notFound code what i) | Some r \<Rightarrow> Ok r)"

section \<open>JobStore\<close>

definition createJob :: "Job \<Rightarrow> Store \<Rightarrow> Store" where
  "createJob j s = s\<lparr>st_jobs := (st_jobs s)(j_JobID j \<mapsto> j), st_jobOrder := st_jobOrder s @ [j_JobID j]\<rparr>"

definition getJob :: "uuid \<Rightarrow> Store \<Rightarrow> Job outcome" where
  "getJob i s = getRow ''JOB_NOT_FOUND'' ''job'' (st_jobs s) i"

definition updateJob :: "Job \<Rightarrow> Store \<Rightarrow> Store outcome" where
  "updateJob j s = (case st_jobs s (j_JobID j) of
       None \<Rightarrow> Err (notFound ''JOB_NOT_FOUND'' ''job'' (j_JobID j))
     | Some _ \<Rightarrow> Ok (s\<lparr>st_jobs := (st_jobs s)(j_JobID j \<mapsto> j)\<rparr>))"

definition transitionJob :: "uuid \<Rightarrow> Status \<Rightarrow> (Job \<Rightarrow> Job outcome) \<Rightarrow> Store \<Rightarrow> (Job \<times> Store) outcome" where
  "transitionJob jobID from apply s =
     (case st_jobs s jobID of
        None \<Rightarrow> Err (notFound ''JOB_NOT_FOUND'' ''job'' jobID)
      | Some cur \<Rightarrow>
          if j_Status cur \<noteq> from then Err ErrStatusConflict
          else mapOk (\<lambda>next. (next, s\<lparr>st_jobs := (st_jobs s)(jobID \<mapsto> next)\<rparr>)) (apply cur))"

definition listJobs :: "Store \<Rightarrow> Job list outcome" where
  "listJobs s = mapOk (sort_key (\<lambda>j. - j_CreatedAt j)) (scanRows (st_jobs s) (st_jobOrder s))"

definition listJobsByStatus :: "Status list \<Rightarrow> Store \<Rightarrow> Job list outcome" where
  "listJobsByStatus statuses s =
     mapOk (filter (\<lambda>j. j_Status j \<in> set statuses)) (scanRows (st_jobs s) (st_jobOrder s))"

definition createJobConfig :: "JobConfig \<Rightarrow> Store \<Rightarrow> Store" where
  "createJobConfig c s = s\<lparr>st_configs := (st_configs s)(jc_JobConfigID c \<mapsto> c)\<rparr>"

definition getJobConfig :: "uuid \<Rightarrow> Store \<Rightarrow> JobConfig outcome" where
  "getJobConfig i s = getRow ''VALIDATION_ERROR'' ''job_config'' (st_configs s) i"

section \<open>TranscriptStore\<close>

text \<open>The body of \<open>CreateVersion\<close> and of \<open>insertVersionLocked\<close>.\<close>

definition insertSegment :: "uuid \<Rightarrow> Store \<Rightarrow> Segment \<Rightarrow> Store" where
  "insertSegment v s sg =
     s\<lparr>st_segments := (st_segments s)(sg_SegmentID sg \<mapsto> sg),
       st_segByVer := (st_segByVer s)(v := st_segByVer s v @ [sg_SegmentID sg])\<rparr>"

definition insertVersionLocked :: "TranscriptVersion \<Rightarrow> Segment list \<Rightarrow> Store \<Rightarrow> Store" where
  "insertVersionLocked v segs s =
     foldl (insertSegment (tv_TranscriptVersionID v))
       (s\<lparr>st_versions := (st_versions s)(tv_TranscriptVersionID v \<mapsto> v),
          st_verOrder := st_verOrder s @ [tv_TranscriptVersionID v]\<rparr>) segs"

definition createVersion :: "TranscriptVersion \<Rightarrow> Segment list \<Rightarrow> Store \<Rightarrow> Store" where
  "createVersion v segs s =
     foldl (insertSegment (tv_TranscriptVersionID v))
       (s\<lparr>st_versions := (st_versions s)(tv_TranscriptVersionID v \<mapsto> v),
          st_verOrder := st_verOrder s @ [tv_TranscriptVersionID v]\<rparr>) segs"

definition getVersion :: "uuid \<Rightarrow> Store \<Rightarrow> TranscriptVersion outcome" where
  "getVersion i s = getRow ''TRANSCRIPT_NOT_FOUND'' ''transcript version'' (st_versions s) i"

definition listVersions :: "uuid \<Rightarrow> Store \<Rightarrow> TranscriptVersion list outcome" where
  "listVersions jobID s =
     mapOk (filter (\<lambda>v. tv_JobID v = jobID)) (scanRows (st_versions s) (st_verOrder s))"

definition latestVersion :: "uuid \<Rightarrow> string \<Rightarrow> Store \<Rightarrow> TranscriptVersion option outcome" where
  "latestVersion jobID versionType s =
     mapOk (lastMatch (\<lambda>v. tv_JobID v = jobID \<and> tv_VersionType v = versionType))
       (scanRows (st_versions s) (st_verOrder s))"

definition listSegments :: "uuid \<Rightarrow> Store \<Rightarrow> Segment list outcome" where
  "listSegments versionID s =
     mapOk (sort_key sg_StartMS) (scanRows (st_segments s) (st_segByVer s versionID))"

definition getSegment :: "uuid \<Rightarrow> Store \<Rightarrow> Segment outcome" where
  "getSegment i s = getRow ''SEGMENT_NOT_FOUND'' ''segment'' (st_segments s) i"

definition updateSegment :: "Segment \<Rightarrow> Store \<Rightarrow> Store outcome" where
  "updateSegment sg s = (case st_segments s (sg_SegmentID sg) of
       None \<Rightarrow> Err (notFound ''SEGMENT_NOT_FOUND'' ''segment'' (sg_SegmentID sg))
     | Some _ \<Rightarrow> Ok (s\<lparr>st_segments := (st_segments s)(sg_SegmentID sg \<mapsto> sg)\<rparr>))"

section \<open>SummaryStore and QualityStore\<close>

definition createSummary :: "Summary \<Rightarrow> Store \<Rightarrow> Store" where
  "createSummary sm s =
     s\<lparr>st_summaries := (st_summaries s)(sm_SummaryID sm \<mapsto> sm), st_sumOrder := st_sumOrder s @ [sm_SummaryID sm]\<rparr>"

definition getSummary :: "uuid \<Rightarrow> Store \<Rightarrow> Summary outcome" where
  "getSummary i s = getRow ''SUMMARY_NOT_FOUND'' ''summary'' (st_summaries s) i"

definition orNone :: "string \<Rightarrow> string \<Rightarrow> 'a option outcome \<Rightarrow> 'a outcome" where
  "orNone code msg r = (case r of
       Ok (Some x) \<Rightarrow> Ok x | Ok None \<Rightarrow> Err (E code msg) | Err e \<Rightarrow> Err e | Panic \<Rightarrow> Panic)"

definition latestSummaryByJob :: "uuid \<Rightarrow> Store \<Rightarrow> Summary outcome" where
  "latestSummaryByJob jobID s =
     orNone ''SUMMARY_NOT_FOUND'' (''no summary for job '' @ uuidStr jobID)
       (mapOk (lastMatch (\<lambda>m. sm_JobID m = jobID)) (scanRows (st_summaries s) (st_sumOrder s)))"

definition updateSummary :: "Summary \<Rightarrow> Store \<Rightarrow> Store outcome" where
  "updateSummary sm s = (case st_summaries s (sm_SummaryID sm) of
       None \<Rightarrow> Err (notFound ''SUMMARY_NOT_FOUND'' ''summary'' (sm_SummaryID sm))
     | Some _ \<Rightarrow> Ok (s\<lparr>st_summaries := (st_summaries s)(sm_SummaryID sm \<mapsto> sm)\<rparr>))"

definition createReport :: "QualityReport \<Rightarrow> Store \<Rightarrow> Store" where
  "createReport r s =
     s\<lparr>st_reports := (st_reports s)(qr_QualityReportID r \<mapsto> r), st_repOrder := st_repOrder s @ [qr_QualityReportID r]\<rparr>"

definition latestReportByJob :: "uuid \<Rightarrow> Store \<Rightarrow> QualityReport outcome" where
  "latestReportByJob jobID s =
     orNone ''QUALITY_REPORT_NOT_FOUND'' (''no quality report for job '' @ uuidStr jobID)
       (mapOk (lastMatch (\<lambda>r. qr_JobID r = jobID)) (scanRows (st_reports s) (st_repOrder s)))"

section \<open>ApprovalStore and AuditStore\<close>

definition createApproval :: "Approval \<Rightarrow> Store \<Rightarrow> Store" where
  "createApproval a s =
     s\<lparr>st_approvals := (st_approvals s)(ap_ApprovalID a \<mapsto> a), st_apprOrder := st_apprOrder s @ [ap_ApprovalID a]\<rparr>"

definition getApproval :: "uuid \<Rightarrow> Store \<Rightarrow> Approval outcome" where
  "getApproval i s = getRow ''VALIDATION_ERROR'' ''approval'' (st_approvals s) i"

definition listApprovalsByJob :: "uuid \<Rightarrow> Store \<Rightarrow> Approval list outcome" where
  "listApprovalsByJob jobID s =
     mapOk (filter (\<lambda>a. ap_JobID a = jobID)) (scanRows (st_approvals s) (st_apprOrder s))"

definition currentApproval :: "uuid \<Rightarrow> Store \<Rightarrow> Approval option outcome" where
  "currentApproval jobID s =
     mapOk (lastMatch (\<lambda>a. ap_JobID a = jobID \<and> ap_SupersededByApprovalID a = None))
       (scanRows (st_approvals s) (st_apprOrder s))"

definition updateApproval :: "Approval \<Rightarrow> Store \<Rightarrow> Store outcome" where
  "updateApproval a s = (case st_approvals s (ap_ApprovalID a) of
       None \<Rightarrow> Err (notFound ''VALIDATION_ERROR'' ''approval'' (ap_ApprovalID a))
     | Some _ \<Rightarrow> Ok (s\<lparr>st_approvals := (st_approvals s)(ap_ApprovalID a \<mapsto> a)\<rparr>))"

definition appendAudit :: "AuditEvent \<Rightarrow> Store \<Rightarrow> Store" where
  "appendAudit e s = s\<lparr>st_audits := st_audits s @ [e]\<rparr>"

definition listByJob :: "uuid \<Rightarrow> Store \<Rightarrow> AuditEvent list" where
  "listByJob jobID s = filter (\<lambda>e. ae_JobID e = Some jobID) (st_audits s)"

section \<open>ArtifactStore\<close>

definition createArtifact :: "MediaArtifact \<Rightarrow> Store \<Rightarrow> Store" where
  "createArtifact a s =
     s\<lparr>st_artifacts := (st_artifacts s)(ma_ArtifactID a \<mapsto> a), st_artOrder := st_artOrder s @ [ma_ArtifactID a]\<rparr>"

definition getArtifact :: "uuid \<Rightarrow> Store \<Rightarrow> MediaArtifact outcome" where
  "getArtifact i s = getRow ''MEDIA_NOT_FOUND'' ''artifact'' (st_artifacts s) i"

definition listArtifactsByJob :: "uuid \<Rightarrow> string \<Rightarrow> Store \<Rightarrow> MediaArtifact list outcome" where
  "listArtifactsByJob jobID artifactType s =
     mapOk (filter (\<lambda>a. ma_JobID a = jobID \<and> (artifactType = [] \<or> ma_ArtifactType a = artifactType)))
       (scanRows (st_artifacts s) (st_artOrder s))"

definition markArtifactsSuperseded :: "uuid \<Rightarrow> Store \<Rightarrow> Store outcome" where
  "markArtifactsSuperseded jobID s =
     mapOk (\<lambda>(m, _). s\<lparr>st_artifacts := m\<rparr>)
       (updRows (\<lambda>a. ma_JobID a = jobID) (\<lambda>a. a\<lparr>ma_Superseded := True\<rparr>) ma_ArtifactID
          (st_artifacts s) (st_artOrder s))"

definition expired :: "time \<Rightarrow> MediaArtifact \<Rightarrow> bool" where
  "expired cutoff a \<longleftrightarrow> (case ma_RetentionUntil a of None \<Rightarrow> False | Some t \<Rightarrow> t < cutoff)"

fun expiredLoop :: "time \<Rightarrow> int \<Rightarrow> (uuid \<rightharpoonup> MediaArtifact) \<Rightarrow> MediaArtifact list \<Rightarrow> uuid list \<Rightarrow> MediaArtifact list outcome" where
  "expiredLoop cutoff limit m out [] = Ok out"
| "expiredLoop cutoff limit m out (i # is) =
     (case m i of None \<Rightarrow> Panic
      | Some a \<Rightarrow>
          if \<not> expired cutoff a then expiredLoop cutoff limit m out is
          else if 0 < limit \<and> limit \<le> int (length out) + 1 then Ok (out @ [a])
          else expiredLoop cutoff limit m (out @ [a]) is)"

definition listExpiredArtifacts :: "time \<Rightarrow> int \<Rightarrow> Store \<Rightarrow> MediaArtifact list outcome" where
  "listExpiredArtifacts cutoff limit s = expiredLoop cutoff limit (st_artifacts s) [] (st_artOrder s)"

definition deleteArtifact :: "uuid \<Rightarrow> Store \<Rightarrow> Store outcome" where
  "deleteArtifact i s = (case st_artifacts s i of
       None \<Rightarrow> Err (notFound ''MEDIA_NOT_FOUND'' ''artifact'' i)
     | Some _ \<Rightarrow> Ok (s\<lparr>st_artifacts := (st_artifacts s)(i := None),
                       st_artOrder := removeFirst (\<lambda>a. a = i) (st_artOrder s)\<rparr>))"

definition createExport :: "ExportRecord \<Rightarrow> Store \<Rightarrow> Store" where
  "createExport e s =
     s\<lparr>st_exports := (st_exports s)(ex_ExportID e \<mapsto> e), st_expOrder := st_expOrder s @ [ex_ExportID e]\<rparr>"

definition getExport :: "uuid \<Rightarrow> Store \<Rightarrow> ExportRecord outcome" where
  "getExport i s = getRow ''EXPORT_NOT_FOUND'' ''export'' (st_exports s) i"

definition listExportsByJob :: "uuid \<Rightarrow> Store \<Rightarrow> ExportRecord list outcome" where
  "listExportsByJob jobID s =
     mapOk (filter (\<lambda>e. ex_JobID e = jobID)) (scanRows (st_exports s) (st_expOrder s))"

section \<open>ReviewTxStore\<close>

record ApproveJobParams =
  apj_JobID :: uuid
  apj_ApprovedVersion :: TranscriptVersion
  apj_Segments :: "Segment list"
  apj_Approval :: Approval

record ReopenJobParams =
  rpj_JobID :: uuid
  rpj_ReviewedVersion :: TranscriptVersion
  rpj_Segments :: "Segment list"

definition staleApproval :: "ApproveJobParams \<Rightarrow> Approval \<Rightarrow> bool" where
  "staleApproval p a \<longleftrightarrow> ap_JobID a = apj_JobID p \<and> ap_SupersededByApprovalID a = None
     \<and> ap_ApprovalID a \<noteq> ap_ApprovalID (apj_Approval p)"

definition supersedeApprovals :: "ApproveJobParams \<Rightarrow> Store \<Rightarrow> (Store \<times> uuid list) outcome" where
  "supersedeApprovals p s =
     mapOk (\<lambda>(m, ids). (s\<lparr>st_approvals := m\<rparr>, ids))
       (updRows (staleApproval p)
          (\<lambda>a. a\<lparr>ap_SupersededByApprovalID := Some (ap_ApprovalID (apj_Approval p))\<rparr>) ap_ApprovalID
          (st_approvals s) (st_apprOrder s))"

definition supersedeExports :: "uuid \<Rightarrow> Store \<Rightarrow> Store outcome" where
  "supersedeExports jobID s =
     mapOk (\<lambda>(m, _). s\<lparr>st_exports := m\<rparr>)
       (updRows (\<lambda>e. ex_JobID e = jobID \<and> \<not> ex_Superseded e) (\<lambda>e. e\<lparr>ex_Superseded := True\<rparr>) ex_ExportID
          (st_exports s) (st_expOrder s))"

definition approvedJob :: "time \<Rightarrow> Job \<Rightarrow> Job" where
  "approvedJob now cur =
     cur\<lparr>j_Status := StatusApproved, j_LastError := None, j_ActionRequired := [], j_UpdatedAt := now\<rparr>"

definition approveJob :: "time \<Rightarrow> ApproveJobParams \<Rightarrow> Store \<Rightarrow> (Job \<times> uuid list \<times> Store) outcome" where
  "approveJob now p s =
     (case st_jobs s (apj_JobID p) of
        None \<Rightarrow> Err (notFound ''JOB_NOT_FOUND'' ''job'' (apj_JobID p))
      | Some cur \<Rightarrow>
          if j_Status cur \<noteq> StatusInReview then Err ErrStatusConflict
          else
            (let s1 = insertVersionLocked (apj_ApprovedVersion p) (apj_Segments p) s;
                 s2 = createApproval (apj_Approval p) s1
             in case supersedeApprovals p s2 of
                  Ok (s3, superseded) \<Rightarrow>
                    (case supersedeExports (apj_JobID p) s3 of
                       Ok s4 \<Rightarrow>
                         Ok (approvedJob now cur, superseded,
                             s4\<lparr>st_jobs := (st_jobs s4)(apj_JobID p \<mapsto> approvedJob now cur)\<rparr>)
                     | Err e \<Rightarrow> Err e | Panic \<Rightarrow> Panic)
                | Err e \<Rightarrow> Err e | Panic \<Rightarrow> Panic))"

definition reopenJob :: "time \<Rightarrow> ReopenJobParams \<Rightarrow> Store \<Rightarrow> (Job \<times> Store) outcome" where
  "reopenJob now p s =
     (case st_jobs s (rpj_JobID p) of
        None \<Rightarrow> Err (notFound ''JOB_NOT_FOUND'' ''job'' (rpj_JobID p))
      | Some cur \<Rightarrow>
          if j_Status cur \<noteq> StatusApproved \<and> j_Status cur \<noteq> StatusExported then Err ErrStatusConflict
          else
            (let s1 = insertVersionLocked (rpj_ReviewedVersion p) (rpj_Segments p) s;
                 next = cur\<lparr>j_Status := StatusInReview, j_UpdatedAt := now\<rparr>
             in Ok (next, s1\<lparr>st_jobs := (st_jobs s1)(rpj_JobID p \<mapsto> next)\<rparr>)))"

end
