(* ===== verification/Job_Library.thy ===== *)
theory Job_Library
  imports Job_Store
begin

text \<open>
  The library part of the in-memory store, \<open>store/memory/library.go\<close>: feeds, episodes keyed by
  feed and GUID, and the naive segment search with its highlighting.
\<close>

section \<open>Feeds and episodes\<close>

definition epKey :: "uuid \<Rightarrow> string \<Rightarrow> string" where
  "epKey feedID guid = uuidStr feedID @ CHR 0x00 # guid"

definition createFeed :: "Feed \<Rightarrow> Store \<Rightarrow> Store" where
  "createFeed f s = s\<lparr>st_feeds := (st_feeds s)(fd_FeedID f \<mapsto> f), st_feedOrder := st_feedOrder s @ [fd_FeedID f]\<rparr>"

definition getFeed :: "uuid \<Rightarrow> Store \<Rightarrow> Feed outcome" where
  "getFeed i s = getRow ''FEED_NOT_FOUND'' ''feed'' (st_feeds s) i"

definition getFeedByURL :: "string \<Rightarrow> Store \<Rightarrow> Feed option outcome" where
  "getFeedByURL feedURL s =
     scanFind (\<lambda>f. fd_FeedURL f = feedURL \<and> fd_DeletedAt f = None) (st_feeds s) (st_feedOrder s)"

definition updateFeed :: "Feed \<Rightarrow> Store \<Rightarrow> Store outcome" where
  "updateFeed f s = (case st_feeds s (fd_FeedID f) of
       None \<Rightarrow> Err (notFound ''FEED_NOT_FOUND'' ''feed'' (fd_FeedID f))
     | Some _ \<Rightarrow> Ok (s\<lparr>st_feeds := (st_feeds s)(fd_FeedID f \<mapsto> f)\<rparr>))"

definition listFeeds :: "Store \<Rightarrow> Feed list outcome" where
  "listFeeds s =
     mapOk (\<lambda>fs. sort_key (\<lambda>f. - fd_CreatedAt f) (filter (\<lambda>f. fd_DeletedAt f = None) fs))
       (scanRows (st_feeds s) (st_feedOrder s))"

definition refreshEpisode :: "Episode \<Rightarrow> Episode \<Rightarrow> Episode" where
  "refreshEpisode e cur =
     cur\<lparr>ep_Title := ep_Title e, ep_Description := ep_Description e, ep_AudioURL := ep_AudioURL e,
         ep_PublishedAt := ep_PublishedAt e, ep_DurationSeconds := ep_DurationSeconds e\<rparr>"

text \<open>The result is whether a row was created, and the episode as the caller's pointer then shows it.\<close>

definition upsertEpisode :: "Episode \<Rightarrow> Store \<Rightarrow> (bool \<times> Episode \<times> Store) outcome" where
  "upsertEpisode e s =
     (let key = epKey (ep_FeedID e) (ep_GUID e) in
      case st_epByFeedGUID s key of
        Some existingID \<Rightarrow>
          (case st_episodes s existingID of
             None \<Rightarrow> Panic
           | Some cur \<Rightarrow>
               (let cur' = refreshEpisode e cur in
                Ok (False, cur', s\<lparr>st_episodes := (st_episodes s)(existingID \<mapsto> cur')\<rparr>)))
      | None \<Rightarrow>
          Ok (True, e, s\<lparr>st_episodes := (st_episodes s)(ep_EpisodeID e \<mapsto> e),
                         st_epOrder := st_epOrder s @ [ep_EpisodeID e],
                         st_epByFeedGUID := (st_epByFeedGUID s)(key \<mapsto> ep_EpisodeID e)\<rparr>))"

definition getEpisode :: "uuid \<Rightarrow> Store \<Rightarrow> Episode outcome" where
  "getEpisode i s = getRow ''EPISODE_NOT_FOUND'' ''episode'' (st_episodes s) i"

definition getEpisodeByJobID :: "uuid \<Rightarrow> Store \<Rightarrow> Episode option outcome" where
  "getEpisodeByJobID jobID s = scanFind (\<lambda>e. ep_JobID e = Some jobID) (st_episodes s) (st_epOrder s)"

definition updateEpisode :: "Episode \<Rightarrow> Store \<Rightarrow> Store outcome" where
  "updateEpisode e s = (case st_episodes s (ep_EpisodeID e) of
       None \<Rightarrow> Err (notFound ''EPISODE_NOT_FOUND'' ''episode'' (ep_EpisodeID e))
     | Some _ \<Rightarrow> Ok (s\<lparr>st_episodes := (st_episodes s)(ep_EpisodeID e \<mapsto> e)\<rparr>))"

definition claimEpisodeJob :: "uuid \<Rightarrow> uuid \<Rightarrow> Store \<Rightarrow> Store outcome" where
  "claimEpisodeJob episodeID jobID s = (case st_episodes s episodeID of
       None \<Rightarrow> Err (notFound ''EPISODE_NOT_FOUND'' ''episode'' episodeID)
     | Some e \<Rightarrow> (case ep_JobID e of
           Some other \<Rightarrow> Err (E ''EPISODE_ALREADY_TRANSCRIBED''
               (''episode '' @ uuidStr episodeID @ '' already has job '' @ uuidStr other))
         | None \<Rightarrow> Ok (s\<lparr>st_episodes := (st_episodes s)(episodeID \<mapsto> e\<lparr>ep_JobID := Some jobID\<rparr>)\<rparr>)))"

text \<open>\<open>sortEpisodes\<close>: newest publication first, unpublished last, then newest creation first.\<close>

definition episodeRank :: "Episode \<Rightarrow> int \<times> int \<times> int" where
  "episodeRank e = (case ep_PublishedAt e of
       Some t \<Rightarrow> (0, - t, - ep_CreatedAt e)
     | None \<Rightarrow> (1, 0, - ep_CreatedAt e))"

definition sortEpisodes :: "Episode list \<Rightarrow> Episode list" where
  "sortEpisodes eps = sort_key episodeRank eps"

definition episodeListed :: "uuid option \<Rightarrow> Store \<Rightarrow> Episode \<Rightarrow> bool" where
  "episodeListed feedID s e = (case feedID of
       Some f \<Rightarrow> ep_FeedID e = f
     | None \<Rightarrow> (case st_feeds s (ep_FeedID e) of None \<Rightarrow> False | Some f \<Rightarrow> fd_DeletedAt f = None))"

definition listEpisodes :: "uuid option \<Rightarrow> Store \<Rightarrow> Episode list outcome" where
  "listEpisodes feedID s =
     mapOk (\<lambda>es. sortEpisodes (filter (episodeListed feedID s) es)) (scanRows (st_episodes s) (st_epOrder s))"

definition countEpisodes :: "uuid \<Rightarrow> Store \<Rightarrow> nat outcome" where
  "countEpisodes feedID s =
     mapOk (\<lambda>es. length (filter (\<lambda>e. ep_FeedID e = feedID) es)) (scanRows (st_episodes s) (st_epOrder s))"

section \<open>Highlighting\<close>

text \<open>\<open>strings.Index\<close>: the text before and after the first occurrence.\<close>

fun cutStr :: "string \<Rightarrow> string \<Rightarrow> (string \<times> string) option" where
  "cutStr sub [] = (if sub = [] then Some ([], []) else None)"
| "cutStr sub (c # cs) =
     (if hasPrefix (c # cs) sub then Some ([], drop (length sub) (c # cs))
      else map_option (\<lambda>(l, r). (c # l, r)) (cutStr sub cs))"

lemma cutStr_Some: "cutStr sub s = Some (l, r) \<Longrightarrow> s = l @ sub @ r"
proof (induction s arbitrary: l)
  case Nil
  then show ?case by (auto split: if_splits)
next
  case (Cons c cs)
  show ?case
  proof (cases "hasPrefix (c # cs) sub")
    case True
    with Cons.prems have "l = []" and r: "r = drop (length sub) (c # cs)" by auto
    moreover from True obtain t where "c # cs = sub @ t" by (auto simp only: hasPrefix_iff)
    ultimately show ?thesis by simp
  next
    case False
    with Cons show ?thesis by auto
  qed
qed

lemma cutStr_shorter: "cutStr sub s = Some (l, r) \<Longrightarrow> sub \<noteq> [] \<Longrightarrow> length r < length s"
  by (auto dest!: cutStr_Some)

text \<open>\<open>strings.Count\<close> for a non-empty substring.\<close>

function strCount :: "string \<Rightarrow> string \<Rightarrow> nat" where
  "strCount sub s =
     (if sub = [] then 0
      else case cutStr sub s of None \<Rightarrow> 0 | Some (l, r) \<Rightarrow> Suc (strCount sub r))"
  by pat_completeness auto
termination by (relation "measure (\<lambda>(sub, s). length s)") (auto dest: cutStr_shorter)

declare strCount.simps [simp del]

text \<open>The loop of \<open>highlight\<close>: \<open>lower\<close> and \<open>text\<close> are the parts not yet written.\<close>

function highlightLoop :: "string \<Rightarrow> string \<Rightarrow> string \<Rightarrow> string" where
  "highlightLoop lq lower text =
     (if lq = [] then text
      else case cutStr lq lower of
        None \<Rightarrow> text
      | Some (l, r) \<Rightarrow>
          (let k = length l; end = k + length lq in
           if length text < end then text
           else take k text @ ''<b>'' @ take (length lq) (drop k text) @ ''</b>''
                @ highlightLoop lq r (drop end text)))"
  by pat_completeness auto
termination by (relation "measure (\<lambda>(lq, lower, text). length lower)") (auto dest: cutStr_shorter)

declare highlightLoop.simps [simp del]

definition highlight :: "string \<Rightarrow> string \<Rightarrow> string" where
  "highlight text q =
     (let lower = toLower text; lq = toLower q in
      if lq = [] \<or> length lower \<noteq> length text then text
      else highlightLoop lq lower text)"

section \<open>Search\<close>

record SearchResult =
  hit_JobID :: uuid
  hit_TranscriptVersionID :: uuid
  hit_SegmentID :: uuid
  hit_StartMS :: int
  hit_Snippet :: string
  hit_Rank :: float64

definition latestVersionLocked :: "uuid \<Rightarrow> string \<Rightarrow> Store \<Rightarrow> TranscriptVersion option outcome" where
  "latestVersionLocked jobID versionType s =
     mapOk (lastMatch (\<lambda>v. tv_JobID v = jobID \<and> tv_VersionType v = versionType))
       (scanRows (st_versions s) (st_verOrder s))"

definition currentApprovalLocked :: "uuid \<Rightarrow> Store \<Rightarrow> Approval option outcome" where
  "currentApprovalLocked jobID s =
     mapOk (lastMatch (\<lambda>a. ap_JobID a = jobID \<and> ap_SupersededByApprovalID a = None))
       (scanRows (st_approvals s) (st_apprOrder s))"

text \<open>The version of a job that is searched: the latest clean (or raw) one of a drafted library
  job, the currently approved one of any other job.\<close>

definition searchedVersion :: "Job \<Rightarrow> uuid \<Rightarrow> Store \<Rightarrow> uuid option outcome" where
  "searchedVersion j jobID s =
     (if j_LibraryMode j then
        (if j_Status j \<noteq> StatusDrafted then Ok None
         else case latestVersionLocked jobID VersionClean s of
             Ok (Some v) \<Rightarrow> Ok (Some (tv_TranscriptVersionID v))
           | Ok None \<Rightarrow> mapOk (map_option tv_TranscriptVersionID) (latestVersionLocked jobID VersionRaw s)
           | Err e \<Rightarrow> Err e | Panic \<Rightarrow> Panic)
      else mapOk (map_option ap_ApprovedTranscriptVersionID) (currentApprovalLocked jobID s))"

definition segmentHits :: "string \<Rightarrow> string \<Rightarrow> uuid \<Rightarrow> uuid \<Rightarrow> Segment list \<Rightarrow> SearchResult list" where
  "segmentHits q query jobID verID segs =
     concat (map (\<lambda>sg. let n = strCount q (toLower (sg_Text sg)) in
       if n = 0 then []
       else [\<lparr>hit_JobID = jobID, hit_TranscriptVersionID = verID, hit_SegmentID = sg_SegmentID sg,
              hit_StartMS = sg_StartMS sg, hit_Snippet = highlight (sg_Text sg) query, hit_Rank = of_nat n\<rparr>])
       segs)"

definition jobHits :: "string \<Rightarrow> string \<Rightarrow> Store \<Rightarrow> uuid \<Rightarrow> SearchResult list outcome" where
  "jobHits q query s jobID =
     (case st_jobs s jobID of
        None \<Rightarrow> Panic
      | Some j \<Rightarrow>
          (case searchedVersion j jobID s of
             Ok None \<Rightarrow> Ok []
           | Ok (Some verID) \<Rightarrow>
               mapOk (segmentHits q query jobID verID) (scanRows (st_segments s) (st_segByVer s verID))
           | Err e \<Rightarrow> Err e | Panic \<Rightarrow> Panic))"

fun concatOk :: "('a \<Rightarrow> 'b list outcome) \<Rightarrow> 'a list \<Rightarrow> 'b list outcome" where
  "concatOk f [] = Ok []"
| "concatOk f (x # xs) = (case f x of
       Ok ys \<Rightarrow> mapOk (append ys) (concatOk f xs) | Err e \<Rightarrow> Err e | Panic \<Rightarrow> Panic)"

definition searchSegments :: "string \<Rightarrow> int \<Rightarrow> Store \<Rightarrow> SearchResult list outcome" where
  "searchSegments query limit0 s =
     (let q = toLower (trimSpace query) in
      if q = [] then Ok []
      else let limit = (if limit0 \<le> 0 then 50 else limit0) in
        mapOk (\<lambda>rs. take (nat limit) (sort_key (\<lambda>r. (- hit_Rank r, hit_StartMS r)) rs))
          (concatOk (jobHits q query s) (st_jobOrder s)))"

end
