(* ===== verification/Job_Invariant.thy ===== *)
theory Job_Invariant
  imports Job_Library
begin

text \<open>
  The representation invariant of the in-memory store: every order slice lists, without repetition,
  exactly the keys of its map, every row is stored under its own id, and the index maps point at
  rows.  Every operation keeps it and, under it, no operation dereferences a missing row.
\<close>

named_theorems job_store \<open>how the loops over a well-formed table evaluate\<close>

section \<open>Tables\<close>

definition table :: "('a \<Rightarrow> uuid) \<Rightarrow> (uuid \<rightharpoonup> 'a) \<Rightarrow> uuid list \<Rightarrow> bool" where
  "table key m ord \<longleftrightarrow> distinct ord \<and> set ord = dom m \<and> (\<forall>i r. m i = Some r \<longrightarrow> key r = i)"

lemma table_empty [simp]: "table key Map.empty []"
  by (simp add: table_def)

lemma table_insert:
  "table key m ord \<Longrightarrow> m (key r) = None \<Longrightarrow> table key (m(key r \<mapsto> r)) (ord @ [key r])"
  by (auto simp: table_def)

lemma table_update:
  "table key m ord \<Longrightarrow> m i \<noteq> None \<Longrightarrow> key r = i \<Longrightarrow> table key (m(i \<mapsto> r)) ord"
  by (auto simp: table_def)

lemma removeFirst_distinct_eq: "distinct xs \<Longrightarrow> removeFirst (\<lambda>a. a = i) xs = filter (\<lambda>a. a \<noteq> i) xs"
  using removeFirst_distinct [of "\<lambda>x. x" xs i] by simp

lemma table_delete:
  "table key m ord \<Longrightarrow> table key (m(i := None)) (removeFirst (\<lambda>a. a = i) ord)"
  by (auto simp: table_def removeFirst_distinct_eq)

text \<open>The rows in insertion order.\<close>

definition rows :: "(uuid \<rightharpoonup> 'a) \<Rightarrow> uuid list \<Rightarrow> 'a list" where
  "rows m ord = map (\<lambda>i. the (m i)) ord"

lemma scanRows_dom: "set ord \<subseteq> dom m \<Longrightarrow> scanRows m ord = Ok (rows m ord)"
  by (induction ord) (auto simp: rows_def)

lemma scanRows_table [job_store]: "table key m ord \<Longrightarrow> scanRows m ord = Ok (rows m ord)"
  by (rule scanRows_dom) (simp add: table_def)

lemma scanFind_dom: "set ord \<subseteq> dom m \<Longrightarrow> scanFind P m ord = Ok (find P (rows m ord))"
  by (induction ord) (auto simp: rows_def)

lemma scanFind_table [job_store]: "table key m ord \<Longrightarrow> scanFind P m ord = Ok (find P (rows m ord))"
  by (rule scanFind_dom) (simp add: table_def)

lemma set_rows: "table key m ord \<Longrightarrow> set (rows m ord) = ran m"
  by (force simp: table_def rows_def ran_def)

text \<open>What the updating loop leaves, for an update after which the test no longer holds.\<close>

definition updMap :: "('a \<Rightarrow> bool) \<Rightarrow> ('a \<Rightarrow> 'a) \<Rightarrow> uuid set \<Rightarrow> (uuid \<rightharpoonup> 'a) \<Rightarrow> (uuid \<rightharpoonup> 'a)" where
  "updMap P f is m = (\<lambda>i. map_option (\<lambda>r. if i \<in> is \<and> P r then f r else r) (m i))"

lemma updRows_dom:
  assumes "distinct ord" and "set ord \<subseteq> dom m"
  shows "updRows P f key m ord = Ok (updMap P f (set ord) m, map key (filter P (rows m ord)))"
  using assms
proof (induction ord arbitrary: m)
  case Nil
  then show ?case by (simp add: updMap_def rows_def option.map_ident)
next
  case (Cons i ord)
  then obtain r where r: "m i = Some r" by auto
  from Cons.prems have dist: "distinct ord" "i \<notin> set ord" by auto
  have same: "rows (m(i \<mapsto> x)) ord = rows m ord" for x
    using dist by (auto simp: rows_def)
  have upd: "updMap P f (set ord) (m(i \<mapsto> f r)) = updMap P f (set (i # ord)) m" if "P r"
  proof (rule ext)
    fix j
    show "updMap P f (set ord) (m(i \<mapsto> f r)) j = updMap P f (set (i # ord)) m j"
      using dist r that by (cases "j = i") (simp_all add: updMap_def)
  qed
  have keep: "updMap P f (set ord) m = updMap P f (set (i # ord)) m" if "\<not> P r"
  proof (rule ext)
    fix j
    show "updMap P f (set ord) m j = updMap P f (set (i # ord)) m j"
      using dist r that by (cases "j = i") (simp_all add: updMap_def)
  qed
  show ?case
  proof (cases "P r")
    case True
    have "set ord \<subseteq> dom (m(i \<mapsto> f r))" using Cons.prems by auto
    from Cons.IH [OF dist(1) this]
    have "updRows P f key (m(i \<mapsto> f r)) ord
        = Ok (updMap P f (set (i # ord)) m, map key (filter P (rows m ord)))"
      by (simp only: same upd [OF True])
    with True r show ?thesis by (simp add: rows_def)
  next
    case False
    have "set ord \<subseteq> dom m" using Cons.prems by auto
    from Cons.IH [OF dist(1) this]
    have "updRows P f key m ord = Ok (updMap P f (set (i # ord)) m, map key (filter P (rows m ord)))"
      by (simp only: keep [OF False])
    with False r show ?thesis by (simp add: rows_def)
  qed
qed

lemma updRows_table [job_store]:
  "table key m ord \<Longrightarrow>
   updRows P f k m ord = Ok (updMap P f (dom m) m, map k (filter P (rows m ord)))"
  using updRows_dom [of ord m P f k] by (simp add: table_def)

lemma updMap_dom [simp]: "dom (updMap P f is m) = dom m"
  by (auto simp: updMap_def)

lemma updMap_Some:
  "updMap P f is m i = Some r' \<longleftrightarrow> (\<exists>r. m i = Some r \<and> r' = (if i \<in> is \<and> P r then f r else r))"
  by (auto simp: updMap_def)

lemma updMap_None [simp]: "updMap P f is m i = None \<longleftrightarrow> m i = None"
  by (simp add: updMap_def)

lemma table_updMap:
  "table key m ord \<Longrightarrow> (\<And>r. key (f r) = key r) \<Longrightarrow> table key (updMap P f is m) ord"
  by (auto simp: table_def updMap_Some split: if_splits)

lemma expiredLoop_dom:
  "set ord \<subseteq> dom m \<Longrightarrow> \<exists>as. expiredLoop cutoff limit m out ord = Ok as"
  by (induction ord arbitrary: out) auto

lemma lastMatch_snoc: "lastMatch P (rs @ [r]) = (if P r then Some r else lastMatch P rs)"
  by (simp add: lastMatch_def)

lemma lastMatch_Some: "lastMatch P rs = Some r \<Longrightarrow> r \<in> set rs \<and> P r"
  by (induction rs rule: rev_induct) (auto simp: lastMatch_snoc lastMatch_def split: if_splits)

lemma lastMatch_None: "lastMatch P rs = None \<longleftrightarrow> (\<forall>r \<in> set rs. \<not> P r)"
  by (induction rs rule: rev_induct) (auto simp: lastMatch_snoc lastMatch_def)

section \<open>The invariant\<close>

definition segIndex :: "(uuid \<rightharpoonup> TranscriptVersion) \<Rightarrow> (uuid \<rightharpoonup> Segment) \<Rightarrow> (uuid \<Rightarrow> uuid list) \<Rightarrow> bool" where
  "segIndex vs sgs by_ver \<longleftrightarrow> (\<forall>v. distinct (by_ver v) \<and> (by_ver v \<noteq> [] \<longrightarrow> v \<in> dom vs)
     \<and> (\<forall>i \<in> set (by_ver v). \<exists>sg. sgs i = Some sg \<and> sg_SegmentID sg = i \<and> sg_TranscriptVersionID sg = v))"

definition epIndex :: "(uuid \<rightharpoonup> Episode) \<Rightarrow> (string \<rightharpoonup> uuid) \<Rightarrow> bool" where
  "epIndex eps by_key \<longleftrightarrow> (\<forall>k i. by_key k = Some i \<longrightarrow> i \<in> dom eps)"

lemma segIndexD:
  "segIndex vs sgs by_ver \<Longrightarrow> i \<in> set (by_ver v) \<Longrightarrow>
   \<exists>sg. sgs i = Some sg \<and> sg_SegmentID sg = i \<and> sg_TranscriptVersionID sg = v"
  unfolding segIndex_def by blast

lemma segIndex_empty: "segIndex vs sgs by_ver \<Longrightarrow> vs v = None \<Longrightarrow> by_ver v = []"
  unfolding segIndex_def by blast

lemma segIndex_update:
  assumes "segIndex vs sgs by_ver" and "sgs (sg_SegmentID sg) = Some old"
    and "sg_TranscriptVersionID sg = sg_TranscriptVersionID old"
  shows "segIndex vs (sgs(sg_SegmentID sg \<mapsto> sg)) by_ver"
  using assms unfolding segIndex_def by fastforce

lemma epIndex_upd: "epIndex eps by_key \<Longrightarrow> epIndex (eps(i \<mapsto> e)) by_key"
  by (auto simp: epIndex_def)

lemma epIndex_add: "epIndex eps by_key \<Longrightarrow> epIndex (eps(i \<mapsto> e)) (by_key(k \<mapsto> i))"
  by (auto simp: epIndex_def)

definition storeInv :: "Store \<Rightarrow> bool" where
  "storeInv s \<longleftrightarrow>
     table j_JobID (st_jobs s) (st_jobOrder s)
   \<and> table tv_TranscriptVersionID (st_versions s) (st_verOrder s)
   \<and> table sm_SummaryID (st_summaries s) (st_sumOrder s)
   \<and> table qr_QualityReportID (st_reports s) (st_repOrder s)
   \<and> table ap_ApprovalID (st_approvals s) (st_apprOrder s)
   \<and> table ma_ArtifactID (st_artifacts s) (st_artOrder s)
   \<and> table ex_ExportID (st_exports s) (st_expOrder s)
   \<and> table fd_FeedID (st_feeds s) (st_feedOrder s)
   \<and> table ep_EpisodeID (st_episodes s) (st_epOrder s)
   \<and> segIndex (st_versions s) (st_segments s) (st_segByVer s)
   \<and> epIndex (st_episodes s) (st_epByFeedGUID s)"

lemma storeInv_new [simp]: "storeInv newStore"
  by (simp add: storeInv_def newStore_def segIndex_def epIndex_def)

lemma storeInv_tables:
  assumes "storeInv s"
  shows "table j_JobID (st_jobs s) (st_jobOrder s)"
    and "table tv_TranscriptVersionID (st_versions s) (st_verOrder s)"
    and "table sm_SummaryID (st_summaries s) (st_sumOrder s)"
    and "table qr_QualityReportID (st_reports s) (st_repOrder s)"
    and "table ap_ApprovalID (st_approvals s) (st_apprOrder s)"
    and "table ma_ArtifactID (st_artifacts s) (st_artOrder s)"
    and "table ex_ExportID (st_exports s) (st_expOrder s)"
    and "table fd_FeedID (st_feeds s) (st_feedOrder s)"
    and "table ep_EpisodeID (st_episodes s) (st_epOrder s)"
  using assms by (simp_all add: storeInv_def)

section \<open>Inserting a version\<close>

definition addSegs :: "(uuid \<rightharpoonup> Segment) \<Rightarrow> Segment list \<Rightarrow> (uuid \<rightharpoonup> Segment)" where
  "addSegs m segs = foldl (\<lambda>m sg. m(sg_SegmentID sg \<mapsto> sg)) m segs"

lemma addSegs_simps [simp]:
  "addSegs m [] = m" "addSegs m (sg # segs) = addSegs (m(sg_SegmentID sg \<mapsto> sg)) segs"
  by (simp_all add: addSegs_def)

lemma addSegs_other: "i \<notin> sg_SegmentID ` set segs \<Longrightarrow> addSegs m segs i = m i"
  by (induction segs arbitrary: m) auto

lemma addSegs_in:
  "distinct (map sg_SegmentID segs) \<Longrightarrow> sg \<in> set segs \<Longrightarrow> addSegs m segs (sg_SegmentID sg) = Some sg"
  by (induction segs arbitrary: m) (auto simp: addSegs_other)

lemma foldl_insertSegment:
  "foldl (insertSegment v) s segs =
     s\<lparr>st_segments := addSegs (st_segments s) segs,
       st_segByVer := (st_segByVer s)(v := st_segByVer s v @ map sg_SegmentID segs)\<rparr>"
  by (induction segs arbitrary: s) (simp_all add: insertSegment_def)

lemma insertVersionLocked_eq:
  "insertVersionLocked v segs s =
     s\<lparr>st_versions := (st_versions s)(tv_TranscriptVersionID v \<mapsto> v),
       st_verOrder := st_verOrder s @ [tv_TranscriptVersionID v],
       st_segments := addSegs (st_segments s) segs,
       st_segByVer := (st_segByVer s)(tv_TranscriptVersionID v :=
          st_segByVer s (tv_TranscriptVersionID v) @ map sg_SegmentID segs)\<rparr>"
  by (simp add: insertVersionLocked_def foldl_insertSegment)

lemma createVersion_insert: "createVersion v segs s = insertVersionLocked v segs s"
  by (simp add: createVersion_def insertVersionLocked_def)

text \<open>A version and its segments under ids that \<open>uuid.New\<close> has just made.\<close>

definition freshVersion :: "TranscriptVersion \<Rightarrow> Segment list \<Rightarrow> Store \<Rightarrow> bool" where
  "freshVersion v segs s \<longleftrightarrow>
     st_versions s (tv_TranscriptVersionID v) = None
   \<and> distinct (map sg_SegmentID segs)
   \<and> (\<forall>sg \<in> set segs. st_segments s (sg_SegmentID sg) = None
        \<and> sg_TranscriptVersionID sg = tv_TranscriptVersionID v)"

lemma freshVersion_empty:
  "storeInv s \<Longrightarrow> freshVersion v segs s \<Longrightarrow> st_segByVer s (tv_TranscriptVersionID v) = []"
  by (auto simp: storeInv_def freshVersion_def intro: segIndex_empty)

lemma freshVersion_other:
  "freshVersion v segs s \<Longrightarrow> st_segments s i = Some sg \<Longrightarrow> addSegs (st_segments s) segs i = Some sg"
  by (subst addSegs_other) (auto simp: freshVersion_def)

lemma segIndex_insert:
  assumes ix: "segIndex vs sgs by_ver" and empty: "by_ver v = []"
    and "distinct (map sg_SegmentID segs)"
    and seg: "\<And>sg. sg \<in> set segs \<Longrightarrow> sgs (sg_SegmentID sg) = None \<and> sg_TranscriptVersionID sg = v"
  shows "segIndex (vs(v \<mapsto> tv)) (addSegs sgs segs) (by_ver(v := map sg_SegmentID segs))"
  unfolding segIndex_def
proof (intro allI conjI)
  fix w
  let ?by = "by_ver(v := map sg_SegmentID segs)"
  show "distinct (?by w)" using assms by (simp add: segIndex_def)
  show "?by w \<noteq> [] \<longrightarrow> w \<in> dom (vs(v \<mapsto> tv))" using ix by (auto simp: segIndex_def)
  show "\<forall>i \<in> set (?by w). \<exists>sg. addSegs sgs segs i = Some sg \<and> sg_SegmentID sg = i
      \<and> sg_TranscriptVersionID sg = w"
  proof
    fix i assume i: "i \<in> set (?by w)"
    show "\<exists>sg. addSegs sgs segs i = Some sg \<and> sg_SegmentID sg = i \<and> sg_TranscriptVersionID sg = w"
    proof (cases "w = v")
      case True
      with i obtain sg where "sg \<in> set segs" "sg_SegmentID sg = i" by auto
      with assms True show ?thesis by (auto dest: addSegs_in)
    next
      case False
      with i have "i \<in> set (by_ver w)" by simp
      with ix obtain sg where sg: "sgs i = Some sg" "sg_SegmentID sg = i" "sg_TranscriptVersionID sg = w"
        by (blast dest: segIndexD)
      with seg have "i \<notin> sg_SegmentID ` set segs" by force
      with sg show ?thesis by (simp add: addSegs_other)
    qed
  qed
qed

lemma inv_insertVersion:
  assumes "storeInv s" and "freshVersion v segs s"
  shows "storeInv (insertVersionLocked v segs s)"
  using assms freshVersion_empty [OF assms]
  by (simp add: insertVersionLocked_eq storeInv_def freshVersion_def table_insert segIndex_insert)

section \<open>Every operation keeps the invariant\<close>

lemma inv_createJob: "storeInv s \<Longrightarrow> st_jobs s (j_JobID j) = None \<Longrightarrow> storeInv (createJob j s)"
  by (simp add: storeInv_def createJob_def table_insert)

lemma inv_setJob:
  "storeInv s \<Longrightarrow> st_jobs s i \<noteq> None \<Longrightarrow> j_JobID j = i \<Longrightarrow> storeInv (s\<lparr>st_jobs := (st_jobs s)(i \<mapsto> j)\<rparr>)"
  by (simp add: storeInv_def table_update)

lemma inv_createSummary:
  "storeInv s \<Longrightarrow> st_summaries s (sm_SummaryID m) = None \<Longrightarrow> storeInv (createSummary m s)"
  by (simp add: storeInv_def createSummary_def table_insert)

lemma inv_createReport:
  "storeInv s \<Longrightarrow> st_reports s (qr_QualityReportID r) = None \<Longrightarrow> storeInv (createReport r s)"
  by (simp add: storeInv_def createReport_def table_insert)

lemma inv_createApproval:
  "storeInv s \<Longrightarrow> st_approvals s (ap_ApprovalID a) = None \<Longrightarrow> storeInv (createApproval a s)"
  by (simp add: storeInv_def createApproval_def table_insert)

lemma inv_createArtifact:
  "storeInv s \<Longrightarrow> st_artifacts s (ma_ArtifactID a) = None \<Longrightarrow> storeInv (createArtifact a s)"
  by (simp add: storeInv_def createArtifact_def table_insert)

lemma inv_createExport:
  "storeInv s \<Longrightarrow> st_exports s (ex_ExportID e) = None \<Longrightarrow> storeInv (createExport e s)"
  by (simp add: storeInv_def createExport_def table_insert)

lemma inv_createFeed:
  "storeInv s \<Longrightarrow> st_feeds s (fd_FeedID f) = None \<Longrightarrow> storeInv (createFeed f s)"
  by (simp add: storeInv_def createFeed_def table_insert)

lemma inv_unkeyed:
  assumes "storeInv s"
  shows "storeInv (createJobConfig c s)" and "storeInv (appendAudit e s)"
  using assms by (simp_all add: storeInv_def createJobConfig_def appendAudit_def)

lemma inv_updates:
  assumes "storeInv s"
  shows "updateJob j s = Ok s' \<Longrightarrow> storeInv s'"
    and "updateSummary m s = Ok s' \<Longrightarrow> storeInv s'"
    and "updateApproval a s = Ok s' \<Longrightarrow> storeInv s'"
    and "updateFeed f s = Ok s' \<Longrightarrow> storeInv s'"
    and "deleteArtifact i s = Ok s' \<Longrightarrow> storeInv s'"
  using assms
  by (auto simp: storeInv_def updateJob_def updateSummary_def updateApproval_def updateFeed_def
      deleteArtifact_def table_update table_delete split: option.splits)

lemma inv_markArtifacts:
  assumes "storeInv s"
  shows "\<exists>s'. markArtifactsSuperseded jobID s = Ok s' \<and> storeInv s'"
  using assms storeInv_tables(6) [OF assms]
  by (simp add: markArtifactsSuperseded_def updRows_table storeInv_def table_updMap)

lemma updateSegment_Ok:
  "updateSegment sg s = Ok s' \<longleftrightarrow> st_segments s (sg_SegmentID sg) \<noteq> None
     \<and> s' = s\<lparr>st_segments := (st_segments s)(sg_SegmentID sg \<mapsto> sg)\<rparr>"
  by (auto simp: updateSegment_def split: option.splits)

lemma inv_updateSegment:
  assumes "storeInv s" and "st_segments s (sg_SegmentID sg) = Some old"
    and "sg_TranscriptVersionID sg = sg_TranscriptVersionID old"
  shows "storeInv (s\<lparr>st_segments := (st_segments s)(sg_SegmentID sg \<mapsto> sg)\<rparr>)"
  using assms by (simp add: storeInv_def segIndex_update)

lemma inv_upsertEpisode:
  assumes "storeInv s" and "st_episodes s (ep_EpisodeID e) = None"
    and "upsertEpisode e s = Ok (isNew, e', s')"
  shows "storeInv s'"
proof (cases "st_epByFeedGUID s (epKey (ep_FeedID e) (ep_GUID e))")
  case None
  with assms show ?thesis
    by (auto simp: upsertEpisode_def Let_def storeInv_def table_insert epIndex_add)
next
  case (Some i)
  with assms(1) obtain cur where cur: "st_episodes s i = Some cur" "ep_EpisodeID cur = i"
    unfolding storeInv_def table_def epIndex_def by blast
  have "ep_EpisodeID (refreshEpisode e cur) = i" using cur by (simp add: refreshEpisode_def)
  with Some cur assms show ?thesis
    by (auto simp: upsertEpisode_def Let_def storeInv_def table_update epIndex_upd)
qed

lemma inv_episodes:
  assumes "storeInv s"
  shows "updateEpisode e s = Ok s' \<Longrightarrow> storeInv s'"
    and "claimEpisodeJob i j s = Ok s' \<Longrightarrow> storeInv s'"
proof -
  show "updateEpisode e s = Ok s' \<Longrightarrow> storeInv s'"
    using assms by (auto simp: storeInv_def updateEpisode_def table_update epIndex_upd split: option.splits)
  assume "claimEpisodeJob i j s = Ok s'"
  then obtain r where r: "st_episodes s i = Some r"
    and s': "s' = s\<lparr>st_episodes := (st_episodes s)(i \<mapsto> r\<lparr>ep_JobID := Some j\<rparr>)\<rparr>"
    by (auto simp: claimEpisodeJob_def split: option.splits)
  from r assms have "ep_EpisodeID r = i" unfolding storeInv_def table_def by blast
  with r assms s' show "storeInv s'" by (auto simp: storeInv_def table_update epIndex_upd)
qed

end
