(* ===== verification/Job_Lifecycle.thy ===== *)
theory Job_Lifecycle
  imports Job_Invariant
begin

text \<open>
  What the store's clients do to it, as a step relation: one step is one store call, with the ids
  that \<open>uuid.New\<close> supplies not yet in use.  The orchestrator and the tools make only these steps
  (\<open>Job_Tools\<close>, \<open>Job_Drive\<close>).  Reachable stores are those the steps lead to from the empty
  store, in any interleaving of clients; the review life cycle is proved over them.
\<close>

section \<open>Steps\<close>

text \<open>Rows outside the review life cycle.\<close>

inductive quietStep :: "Store \<Rightarrow> Store \<Rightarrow> bool" where
  qConfig: "quietStep s (createJobConfig c s)"
| qSummary: "st_summaries s (sm_SummaryID m) = None \<Longrightarrow> quietStep s (createSummary m s)"
| qUpdateSummary: "updateSummary m s = Ok s' \<Longrightarrow> quietStep s s'"
| qReport: "st_reports s (qr_QualityReportID r) = None \<Longrightarrow> quietStep s (createReport r s)"
| qAudit: "quietStep s (appendAudit e s)"
| qArtifact: "st_artifacts s (ma_ArtifactID a) = None \<Longrightarrow> quietStep s (createArtifact a s)"
| qMark: "markArtifactsSuperseded i s = Ok s' \<Longrightarrow> quietStep s s'"
| qDelete: "deleteArtifact i s = Ok s' \<Longrightarrow> quietStep s s'"
| qExport: "st_exports s (ex_ExportID e) = None \<Longrightarrow> quietStep s (createExport e s)"
| qFeed: "st_feeds s (fd_FeedID f) = None \<Longrightarrow> quietStep s (createFeed f s)"
| qUpdateFeed: "updateFeed f s = Ok s' \<Longrightarrow> quietStep s s'"
| qUpsert: "st_episodes s (ep_EpisodeID e) = None \<Longrightarrow> upsertEpisode e s = Ok (n, e', s') \<Longrightarrow> quietStep s s'"
| qUpdateEpisode: "updateEpisode e s = Ok s' \<Longrightarrow> quietStep s s'"
| qClaim: "claimEpisodeJob i j s = Ok s' \<Longrightarrow> quietStep s s'"

text \<open>
  The functions the clients pass to \<open>TransitionJob\<close> beside the status they expect: they keep the id,
  and either keep the status or go through \<open>Transition\<close>, to anything but \<open>approved\<close>, and to
  \<open>in_review\<close> from \<open>drafted\<close> only.
\<close>

definition lawfulApply :: "Status \<Rightarrow> (Job \<Rightarrow> Job outcome) \<Rightarrow> bool" where
  "lawfulApply st f \<longleftrightarrow> (\<forall>j j'. j_Status j = st \<longrightarrow> f j = Ok j' \<longrightarrow> j_JobID j' = j_JobID j
     \<and> (j_Status j' = st
        \<or> canTransition st (j_Status j') \<and> j_Status j' \<noteq> StatusApproved
          \<and> (j_Status j' = StatusInReview \<longrightarrow> st = StatusDrafted)))"

lemma lawfulApplyD:
  "lawfulApply st f \<Longrightarrow> j_Status j = st \<Longrightarrow> f j = Ok j' \<Longrightarrow> j_JobID j' = j_JobID j
     \<and> (j_Status j' = st
        \<or> canTransition st (j_Status j') \<and> j_Status j' \<noteq> StatusApproved
          \<and> (j_Status j' = StatusInReview \<longrightarrow> st = StatusDrafted))"
  unfolding lawfulApply_def by blast

definition approveReady :: "ApproveJobParams \<Rightarrow> Store \<Rightarrow> bool" where
  "approveReady p s \<longleftrightarrow>
     (let v = apj_ApprovedVersion p; a = apj_Approval p in
      freshVersion v (apj_Segments p) s \<and> st_approvals s (ap_ApprovalID a) = None
      \<and> tv_VersionType v = VersionApproved \<and> tv_IsImmutable v \<and> tv_JobID v = apj_JobID p
      \<and> ap_JobID a = apj_JobID p \<and> ap_ApprovedTranscriptVersionID a = tv_TranscriptVersionID v
      \<and> ap_SupersededByApprovalID a = None)"

definition draftVersion :: "TranscriptVersion \<Rightarrow> bool" where
  "draftVersion v \<longleftrightarrow> tv_VersionType v \<noteq> VersionApproved \<and> \<not> tv_IsImmutable v"

text \<open>\<open>EditSegment\<close> writes a segment it has read, of a mutable reviewed version, back under its id.\<close>

definition editable :: "Segment \<Rightarrow> Store \<Rightarrow> bool" where
  "editable sg s \<longleftrightarrow> (\<exists>old v. st_segments s (sg_SegmentID sg) = Some old
     \<and> sg_TranscriptVersionID sg = sg_TranscriptVersionID old
     \<and> st_versions s (sg_TranscriptVersionID old) = Some v \<and> \<not> tv_IsImmutable v)"

inductive storeStep :: "Store \<Rightarrow> Store \<Rightarrow> bool" where
  sQuiet: "quietStep s s' \<Longrightarrow> storeStep s s'"
| sCreateJob: "st_jobs s (j_JobID j) = None \<Longrightarrow> j_Status j = StatusSubmitted \<Longrightarrow> storeStep s (createJob j s)"
| sTransition: "transitionJob i st f s = Ok (j, s') \<Longrightarrow> lawfulApply st f \<Longrightarrow> storeStep s s'"
| sVersion: "freshVersion v segs s \<Longrightarrow> draftVersion v \<Longrightarrow> storeStep s (createVersion v segs s)"
| sEdit: "editable sg s \<Longrightarrow> updateSegment sg s = Ok s' \<Longrightarrow> storeStep s s'"
| sApprove: "approveReady p s \<Longrightarrow> approveJob now p s = Ok (j, ids, s') \<Longrightarrow> storeStep s s'"
| sReopen: "freshVersion (rpj_ReviewedVersion p) (rpj_Segments p) s \<Longrightarrow> draftVersion (rpj_ReviewedVersion p)
     \<Longrightarrow> reopenJob now p s = Ok (j, s') \<Longrightarrow> storeStep s s'"

inductive_cases quietStepE: "quietStep s s'"
inductive_cases storeStepE: "storeStep s s'"

abbreviation storeSteps :: "Store \<Rightarrow> Store \<Rightarrow> bool" where
  "storeSteps \<equiv> storeStep\<^sup>*\<^sup>*"

abbreviation reachable :: "Store \<Rightarrow> bool" where
  "reachable \<equiv> storeSteps newStore"

section \<open>What each step does\<close>

lemma transitionJob_Ok:
  "transitionJob i from f s = Ok (j, s') \<longleftrightarrow> (\<exists>cur. st_jobs s i = Some cur \<and> j_Status cur = from
     \<and> f cur = Ok j \<and> s' = s\<lparr>st_jobs := (st_jobs s)(i \<mapsto> j)\<rparr>)"
  by (auto simp: transitionJob_def mapOk_Ok_iff split: option.splits)

lemma reopenJob_Ok:
  "reopenJob now p s = Ok (j, s') \<longleftrightarrow> (\<exists>cur. st_jobs s (rpj_JobID p) = Some cur
     \<and> (j_Status cur = StatusApproved \<or> j_Status cur = StatusExported)
     \<and> j = cur\<lparr>j_Status := StatusInReview, j_UpdatedAt := now\<rparr>
     \<and> s' = (insertVersionLocked (rpj_ReviewedVersion p) (rpj_Segments p) s)
              \<lparr>st_jobs := (st_jobs s)(rpj_JobID p \<mapsto> j)\<rparr>)"
  by (auto simp: reopenJob_def Let_def insertVersionLocked_eq split: option.splits)

abbreviation supersededBy :: "uuid \<Rightarrow> Approval \<Rightarrow> Approval" where
  "supersededBy i a \<equiv> a\<lparr>ap_SupersededByApprovalID := Some i\<rparr>"

text \<open>The approvals and exports after an approval.\<close>

definition approvalsAfter :: "ApproveJobParams \<Rightarrow> (uuid \<rightharpoonup> Approval) \<Rightarrow> (uuid \<rightharpoonup> Approval)" where
  "approvalsAfter p m =
     (let a = apj_Approval p; m' = m(ap_ApprovalID a \<mapsto> a)
      in updMap (staleApproval p) (supersededBy (ap_ApprovalID a)) (dom m') m')"

definition exportsAfter :: "uuid \<Rightarrow> (uuid \<rightharpoonup> ExportRecord) \<Rightarrow> (uuid \<rightharpoonup> ExportRecord)" where
  "exportsAfter i m =
     updMap (\<lambda>e. ex_JobID e = i \<and> \<not> ex_Superseded e) (\<lambda>e. e\<lparr>ex_Superseded := True\<rparr>) (dom m) m"

definition approvedStore :: "time \<Rightarrow> ApproveJobParams \<Rightarrow> Job \<Rightarrow> Store \<Rightarrow> Store" where
  "approvedStore now p cur s =
     (insertVersionLocked (apj_ApprovedVersion p) (apj_Segments p) s)
       \<lparr>st_approvals := approvalsAfter p (st_approvals s),
        st_apprOrder := st_apprOrder s @ [ap_ApprovalID (apj_Approval p)],
        st_exports := exportsAfter (apj_JobID p) (st_exports s),
        st_jobs := (st_jobs s)(apj_JobID p \<mapsto> approvedJob now cur)\<rparr>"

lemma approveJob_eq:
  assumes "storeInv s" and "approveReady p s"
  shows "approveJob now p s = (case st_jobs s (apj_JobID p) of
       None \<Rightarrow> Err (notFound ''JOB_NOT_FOUND'' ''job'' (apj_JobID p))
     | Some cur \<Rightarrow> if j_Status cur \<noteq> StatusInReview then Err ErrStatusConflict
         else Ok (approvedJob now cur,
                  map ap_ApprovalID (filter (staleApproval p) (rows (st_approvals s) (st_apprOrder s))),
                  approvedStore now p cur s))"
proof -
  let ?a = "apj_Approval p"
  have fresh: "st_approvals s (ap_ApprovalID ?a) = None" using assms(2) by (simp add: approveReady_def Let_def)
  have tab: "table ap_ApprovalID ((st_approvals s)(ap_ApprovalID ?a \<mapsto> ?a)) (st_apprOrder s @ [ap_ApprovalID ?a])"
    using storeInv_tables(5) [OF assms(1)] fresh by (rule table_insert)
  have new: "ap_ApprovalID ?a \<notin> set (st_apprOrder s)"
    using storeInv_tables(5) [OF assms(1)] fresh by (auto simp: table_def)
  have "rows ((st_approvals s)(ap_ApprovalID ?a \<mapsto> ?a)) (st_apprOrder s @ [ap_ApprovalID ?a])
      = rows (st_approvals s) (st_apprOrder s) @ [?a]"
    using new by (auto simp: rows_def)
  moreover have "\<not> staleApproval p ?a" by (simp add: staleApproval_def)
  ultimately show ?thesis
    using updRows_table [OF tab] updRows_table [OF storeInv_tables(7) [OF assms(1)]]
    by (simp add: approveJob_def Let_def supersedeApprovals_def supersedeExports_def createApproval_def
        insertVersionLocked_eq approvedStore_def approvalsAfter_def exportsAfter_def
        split: option.split)
qed

lemma approveJob_Ok:
  assumes "storeInv s" and "approveReady p s"
  shows "approveJob now p s = Ok (j, ids, s') \<longleftrightarrow> (\<exists>cur. st_jobs s (apj_JobID p) = Some cur
     \<and> j_Status cur = StatusInReview \<and> j = approvedJob now cur
     \<and> ids = map ap_ApprovalID (filter (staleApproval p) (rows (st_approvals s) (st_apprOrder s)))
     \<and> s' = approvedStore now p cur s)"
  by (auto simp: approveJob_eq [OF assms] split: option.splits)

lemma quiet_frame:
  assumes "quietStep s s'"
  shows "st_jobs s' = st_jobs s \<and> st_versions s' = st_versions s \<and> st_segments s' = st_segments s
    \<and> st_segByVer s' = st_segByVer s \<and> st_approvals s' = st_approvals s
    \<and> st_apprOrder s' = st_apprOrder s \<and> prefix (st_audits s) (st_audits s')"
  using assms
  by (cases rule: quietStep.cases)
    (auto simp: createJobConfig_def createSummary_def updateSummary_def createReport_def appendAudit_def
      createArtifact_def markArtifactsSuperseded_def deleteArtifact_def createExport_def createFeed_def
      updateFeed_def upsertEpisode_def updateEpisode_def claimEpisodeJob_def Let_def mapOk_Ok_iff
      split: option.splits)

lemma quiet_inv:
  assumes "quietStep s s'" and "storeInv s"
  shows "storeInv s'"
  using assms
proof (cases rule: quietStep.cases)
  case (qMark i)
  with inv_markArtifacts [OF assms(2), of i] show ?thesis by auto
qed (insert assms(2), auto intro: inv_createSummary inv_createReport inv_createArtifact
      inv_createExport inv_createFeed inv_unkeyed inv_updates inv_episodes inv_upsertEpisode)

lemma inv_approvedStore:
  assumes "storeInv s" and "approveReady p s" and "st_jobs s (apj_JobID p) = Some cur"
  shows "storeInv (approvedStore now p cur s)"
proof -
  let ?a = "apj_Approval p"
  have "freshVersion (apj_ApprovedVersion p) (apj_Segments p) s"
    using assms(2) by (simp add: approveReady_def Let_def)
  with assms(1) have s1: "storeInv (insertVersionLocked (apj_ApprovedVersion p) (apj_Segments p) s)"
    by (rule inv_insertVersion)
  have "table ap_ApprovalID (approvalsAfter p (st_approvals s)) (st_apprOrder s @ [ap_ApprovalID ?a])"
    unfolding approvalsAfter_def Let_def
    using storeInv_tables(5) [OF assms(1)] assms(2)
    by (intro table_updMap table_insert) (auto simp: approveReady_def Let_def)
  moreover have "table ex_ExportID (exportsAfter (apj_JobID p) (st_exports s)) (st_expOrder s)"
    unfolding exportsAfter_def using storeInv_tables(7) [OF assms(1)] by (rule table_updMap) simp
  moreover have "j_JobID (approvedJob now cur) = apj_JobID p"
    using storeInv_tables(1) [OF assms(1)] assms(3) by (auto simp: approvedJob_def table_def)
  then have "table j_JobID ((st_jobs s)(apj_JobID p \<mapsto> approvedJob now cur)) (st_jobOrder s)"
    using storeInv_tables(1) [OF assms(1)] assms(3) by (intro table_update) auto
  ultimately show ?thesis
    using s1 by (simp add: storeInv_def approvedStore_def insertVersionLocked_eq)
qed

lemma step_inv:
  assumes "storeStep s s'" and inv: "storeInv s"
  shows "storeInv s'"
  using assms(1)
proof (cases rule: storeStep.cases)
  case sQuiet
  with inv show ?thesis by (blast intro: quiet_inv)
next
  case (sCreateJob j)
  with inv show ?thesis by (simp add: inv_createJob)
next
  case (sTransition i st0 f j)
  then obtain cur where cur: "st_jobs s i = Some cur" "j_Status cur = st0" "f cur = Ok j"
    and s': "s' = s\<lparr>st_jobs := (st_jobs s)(i \<mapsto> j)\<rparr>"
    by (auto simp: transitionJob_Ok)
  have "j_JobID j = j_JobID cur" using lawfulApplyD [OF sTransition(2) cur(2,3)] by simp
  also have "\<dots> = i" using storeInv_tables(1) [OF inv] cur(1) by (auto simp: table_def)
  finally show ?thesis unfolding s' using inv cur(1) by (intro inv_setJob) auto
next
  case (sVersion v segs)
  with inv show ?thesis by (simp add: createVersion_insert inv_insertVersion)
next
  case (sEdit sg)
  with inv show ?thesis by (auto simp: updateSegment_Ok editable_def intro: inv_updateSegment)
next
  case (sApprove p now j ids)
  with inv show ?thesis by (auto simp: approveJob_Ok intro: inv_approvedStore)
next
  case (sReopen p now j)
  then obtain cur where cur: "st_jobs s (rpj_JobID p) = Some cur"
    and j: "j = cur\<lparr>j_Status := StatusInReview, j_UpdatedAt := now\<rparr>"
    and s': "s' = (insertVersionLocked (rpj_ReviewedVersion p) (rpj_Segments p) s)
              \<lparr>st_jobs := (st_jobs s)(rpj_JobID p \<mapsto> j)\<rparr>"
    by (auto simp: reopenJob_Ok)
  have "storeInv (insertVersionLocked (rpj_ReviewedVersion p) (rpj_Segments p) s)"
    using inv sReopen(1) by (rule inv_insertVersion)
  moreover have "j_JobID j = rpj_JobID p"
    using storeInv_tables(1) [OF inv] cur j by (auto simp: table_def)
  ultimately show ?thesis
    using inv_setJob [of "insertVersionLocked (rpj_ReviewedVersion p) (rpj_Segments p) s" "rpj_JobID p" j] cur
    by (simp add: s' insertVersionLocked_eq)
qed

lemma steps_inv: "storeSteps s s' \<Longrightarrow> storeInv s \<Longrightarrow> storeInv s'"
  by (induction rule: rtranclp_induct) (auto intro: step_inv)

lemma reachable_inv: "reachable s \<Longrightarrow> storeInv s"
  using steps_inv [of newStore s] by simp

end
