(* ===== verification/Job_World.thy ===== *)
theory Job_World
  imports Job_Lifecycle
begin

text \<open>
  The world in which the tools and the orchestrator of the transcript service run
  (\<open>transcript-agent/backend/internal/tools\<close>, \<open>audit\<close>, \<open>orchestrator\<close>).

  The state is the store and the worker's own bookkeeping.  What lies outside, \<open>Env\<close>, answers by
  the number of the call: the clock, \<open>uuid.New\<close>, the providers behind their Go interfaces, the
  object store, the audit append (which may fail), the cancellation of the context, the
  iteration order of a map with given keys.  Every store
  method runs under the store's lock, so it is one step; between two of them the other goroutines
  and processes may have moved the store, which is \<open>en_others\<close>.

  A call is an action: it returns a value, an error or a panic, and the world after it.
\<close>

section \<open>What the providers return\<close>

record Metadata =
  md_DurationSeconds :: int
  md_Format :: string
  md_AudioTracks :: int
  md_VideoTracks :: int
  md_Codec :: string
  md_SampleRateHz :: int

record Track =
  tk_CaptionTrackID :: string
  tk_Language :: string
  tk_CaptionType :: string
  tk_Downloadable :: bool

record CheckResult =
  cr_OfficialCaptionsFound :: bool
  cr_AutoCaptionsFound :: bool
  cr_DownloadAuthorized :: bool
  cr_Tracks :: "Track list"

record SttSegment =
  ss_StartMS :: int
  ss_EndMS :: int
  ss_SpeakerLabel :: string
  ss_Text :: string
  ss_Confidence :: float64

record SttResult =
  sr_Segments :: "SttSegment list"
  sr_Provider :: string
  sr_Model :: string
  sr_RequestID :: string
  sr_DiarizationAvailable :: bool

record CleanupStats =
  cs_SegmentsProcessed :: int
  cs_FillerWordsRemoved :: int
  cs_MeaningChangeDetected :: bool

text \<open>What the RSS parser hands to the library tools.\<close>

record RssItem =
  ri_GUID :: string
  ri_Title :: string
  ri_Description :: string
  ri_EnclosureURL :: string
  ri_PublishedAt :: "time option"
  ri_DurationSeconds :: "int option"

record RssFeed =
  rf_Title :: string
  rf_Description :: string
  rf_ImageURL :: string
  rf_Items :: "RssItem list"

section \<open>State and environment\<close>

record World =
  w_store :: Store
  w_drawn :: nat
  w_tick :: nat
  w_pauseUntil :: time
  w_running :: "uuid set"
  w_inFlight :: "uuid set"
  w_queue :: "uuid list"
  w_nextLibraryPoll :: time
  w_pollBusy :: "uuid set"

text \<open>The fields of \<open>Toolset\<close> and of \<open>Orchestrator\<close> that are configuration or collaborators, and the
  other actors.  The library fields answer for the HTTP client and \<open>net/url\<close>: the parsed feed, the
  error of building a request, the response's status, declared length and content type, and the URI
  and size of the enclosure once streamed into the object store.\<close>

record Env =
  en_uuids :: "uuid list"
  en_now :: "nat \<Rightarrow> time"
  en_others :: "nat \<Rightarrow> Store \<Rightarrow> Store"
  en_cancelled :: "nat \<Rightarrow> bool"
  en_appendFails :: "nat \<Rightarrow> string option"
  en_parseUUID :: "string \<Rightarrow> uuid option"
  en_URIHash :: "string \<Rightarrow> string"
  en_mapOrder :: "nat \<Rightarrow> string list \<Rightarrow> string list"
  en_validFeedURL :: "string \<Rightarrow> bool"
  en_put :: "nat \<Rightarrow> string \<Rightarrow> string \<Rightarrow> string outcome"
  en_get :: "nat \<Rightarrow> string \<Rightarrow> string outcome"
  en_delete :: "nat \<Rightarrow> string \<Rightarrow> unit outcome"
  en_Metadata :: "nat \<Rightarrow> string \<Rightarrow> string \<Rightarrow> Metadata outcome"
  en_ExtractAudio :: "nat \<Rightarrow> string \<Rightarrow> string \<Rightarrow> (string \<times> Metadata) outcome"
  en_Check :: "nat \<Rightarrow> string \<Rightarrow> string \<Rightarrow> CheckResult outcome"
  en_Fetch :: "nat \<Rightarrow> string \<Rightarrow> string outcome"
  en_Transcribe :: "nat \<Rightarrow> string \<Rightarrow> string \<Rightarrow> bool \<Rightarrow> int option \<Rightarrow> SttResult outcome"
  en_Cleanup :: "nat \<Rightarrow> string list \<Rightarrow> string \<Rightarrow> (string list \<times> CleanupStats) outcome"
  en_Summarize :: "nat \<Rightarrow> string \<Rightarrow> int \<Rightarrow> string \<Rightarrow> string outcome"
  en_fetchFeed :: "nat \<Rightarrow> string \<Rightarrow> RssFeed outcome"
  en_urlPath :: "string \<Rightarrow> string option"
  en_newRequest :: "string \<Rightarrow> string option"
  en_download :: "nat \<Rightarrow> string \<Rightarrow> (int \<times> int \<times> string) outcome"
  en_stream :: "nat \<Rightarrow> string \<Rightarrow> int \<Rightarrow> (string \<times> int) outcome"
  en_STTProvider :: string
  en_ConfigDefaults :: "JobConfig option"
  en_RetentionDays :: int
  en_LibraryMaxDownloadBytes :: int
  en_Sync :: bool
  en_durationString :: "int \<Rightarrow> string"
  en_StuckThreshold :: int
  en_LibraryPollInterval :: int
  en_LibraryAutoPerPoll :: int

section \<open>Actions\<close>

type_synonym 'a action = "World \<Rightarrow> 'a outcome \<times> World"

definition ret :: "'a \<Rightarrow> 'a action" where
  "ret x w = (Ok x, w)"

definition failWith :: "err \<Rightarrow> 'a action" where
  "failWith e w = (Err e, w)"

text \<open>\<open>x, err := m; if err != nil { return err }; f(x)\<close>.\<close>

definition andThen :: "'a action \<Rightarrow> ('a \<Rightarrow> 'b action) \<Rightarrow> 'b action" where
  "andThen m f w = (case m w of
       (Ok x, w') \<Rightarrow> f x w' | (Err e, w') \<Rightarrow> (Err e, w') | (Panic, w') \<Rightarrow> (Panic, w'))"

text \<open>\<open>x, err := m\<close> with the error inspected by what follows.\<close>

definition attempt :: "'a action \<Rightarrow> (err + 'a) action" where
  "attempt m w = (case m w of
       (Ok x, w') \<Rightarrow> (Ok (Inr x), w') | (Err e, w') \<Rightarrow> (Ok (Inl e), w') | (Panic, w') \<Rightarrow> (Panic, w'))"

fun mapA :: "('a \<Rightarrow> 'b action) \<Rightarrow> 'a list \<Rightarrow> 'b list action" where
  "mapA f [] = ret []"
| "mapA f (x # xs) = andThen (f x) (\<lambda>y. andThen (mapA f xs) (\<lambda>ys. ret (y # ys)))"

definition outside :: "(nat \<Rightarrow> 'a outcome) \<Rightarrow> 'a action" where
  "outside f w = (f (w_tick w), w\<lparr>w_tick := Suc (w_tick w)\<rparr>)"

definition now :: "Env \<Rightarrow> time action" where
  "now env = outside (\<lambda>n. Ok (en_now env n))"

text \<open>\<open>uuid.New\<close>, which panics when the random source is exhausted.\<close>

definition newUUID :: "Env \<Rightarrow> uuid action" where
  "newUUID env w =
     (if w_drawn w < length (en_uuids env)
      then (Ok (en_uuids env ! w_drawn w), w\<lparr>w_drawn := Suc (w_drawn w)\<rparr>)
      else (Panic, w))"

text \<open>A store method, after whatever the others did since the last one.\<close>

definition locked :: "Env \<Rightarrow> (Store \<Rightarrow> ('a \<times> Store) outcome) \<Rightarrow> 'a action" where
  "locked env f w =
     (let s = en_others env (w_tick w) (w_store w); w' = w\<lparr>w_tick := Suc (w_tick w)\<rparr> in
      case f s of
        Ok (x, s') \<Rightarrow> (Ok x, w'\<lparr>w_store := s'\<rparr>)
      | Err e \<Rightarrow> (Err e, w'\<lparr>w_store := s\<rparr>)
      | Panic \<Rightarrow> (Panic, w'\<lparr>w_store := s\<rparr>))"

definition reads :: "Env \<Rightarrow> (Store \<Rightarrow> 'a outcome) \<Rightarrow> 'a action" where
  "reads env g = locked env (\<lambda>s. mapOk (\<lambda>x. (x, s)) (g s))"

definition writes :: "Env \<Rightarrow> (Store \<Rightarrow> Store outcome) \<Rightarrow> unit action" where
  "writes env f = locked env (\<lambda>s. mapOk (Pair ()) (f s))"

definition inserts :: "Env \<Rightarrow> (Store \<Rightarrow> Store) \<Rightarrow> unit action" where
  "inserts env f = locked env (\<lambda>s. Ok ((), f s))"

text \<open>\<open>TransitionJob\<close>; the function applied may read the clock.\<close>

definition transitionA :: "Env \<Rightarrow> uuid \<Rightarrow> Status \<Rightarrow> (time \<Rightarrow> Job \<Rightarrow> Job outcome) \<Rightarrow> Job action" where
  "transitionA env jobID from apply =
     andThen (now env) (\<lambda>t. locked env (transitionJob jobID from (apply t)))"

section \<open>The audit writer\<close>

definition event :: "Env \<Rightarrow> uuid option \<Rightarrow> string \<Rightarrow> string \<Rightarrow> string \<Rightarrow> (string \<rightharpoonup> any) \<Rightarrow> unit action" where
  "event env jobID actorType actorID eventType payload =
     andThen (newUUID env) (\<lambda>i.
     andThen (now env) (\<lambda>t.
     andThen (outside (\<lambda>n. Ok (en_appendFails env n))) (\<lambda>failure.
       case failure of
         Some msg \<Rightarrow> failWith (E ''AUDIT_WRITE_FAILED'' (''audit append failed for '' @ eventType @ '': '' @ msg))
       | None \<Rightarrow> inserts env (appendAudit
           \<lparr>ae_AuditEventID = i, ae_JobID = jobID, ae_ActorType = actorType, ae_ActorID = actorID,
            ae_EventType = eventType, ae_EventPayload = payload, ae_CreatedAt = t\<rparr>))))"

definition eventStrict :: "Env \<Rightarrow> uuid option \<Rightarrow> string \<Rightarrow> string \<Rightarrow> string \<Rightarrow> (string \<rightharpoonup> any) \<Rightarrow> unit action" where
  "eventStrict env jobID actorType actorID eventType payload =
     andThen (attempt (event env jobID actorType actorID eventType payload)) (\<lambda>r.
       case r of
         Inl _ \<Rightarrow> failWith (E ''AUDIT_UNAVAILABLE''
           ''the audit log is unavailable; high-risk actions are paused until audit writes recover'')
       | Inr _ \<Rightarrow> ret ())"

text \<open>\<open>Audit\<close> at the call sites that ignore its error.\<close>

definition audit :: "Env \<Rightarrow> uuid option \<Rightarrow> string \<Rightarrow> string \<Rightarrow> string \<Rightarrow> (string \<rightharpoonup> any) \<Rightarrow> unit action" where
  "audit env jobID actorType actorID eventType payload =
     andThen (attempt (event env jobID actorType actorID eventType payload)) (\<lambda>_. ret ())"

definition errPayload :: "err \<Rightarrow> (string \<rightharpoonup> any)" where
  "errPayload e = map_of [(''error_code'', AnyString (codeOf e)), (''error'', AnyString (errString e))]"

text \<open>The audit of a failed tool, followed by the error.\<close>

definition toolFailed :: "Env \<Rightarrow> uuid \<Rightarrow> string \<Rightarrow> (string \<rightharpoonup> any) \<Rightarrow> err \<Rightarrow> 'a action" where
  "toolFailed env jobID tool payload e =
     andThen (audit env (Some jobID) ''tool'' tool (''tool.'' @ tool @ ''.failed'') payload) (\<lambda>_. failWith e)"

end
