(* ===== verification/Go_Decimal.thy ===== *)
theory Go_Decimal
  imports Go_Base
begin

text \<open>
  Decimal numbers as \<open>fmt\<close> writes them and \<open>strconv\<close> reads them, and the identifiers that several
  services number with \<open>fmt.Sprintf("%s-%06d", prefix, seq)\<close>.
\<close>

section \<open>Digits\<close>

definition dig :: "nat \<Rightarrow> char" where
  "dig k = char_of (48 + k)"

lemma byte_dig: "k < 10 \<Longrightarrow> byte (dig k) = 48 + k"
  by (simp add: byte_def dig_def)

lemma byte_inject: "byte c = byte d \<longleftrightarrow> c = d"
  by (simp add: byte_def)

lemma dig_facts [simp]:
  assumes "k < 10"
  shows "isDigit (dig k)" "digitVal (dig k) = k" "\<not> isSpaceByte (dig k)"
  using byte_dig [OF assms] assms by (auto simp: isDigit_def digitVal_def isSpaceByte_def)

lemma isDigit_not:
  assumes "isDigit c"
  shows "c \<noteq> CHR ''-''" "c \<noteq> CHR ''+''" "c \<noteq> CHR '':''" "c \<noteq> CHR '',''" "c \<noteq> CHR ''.''"
    "c \<noteq> CHR 0x0A" "c \<noteq> CHR 0x0D" "c \<noteq> CHR '' ''" "\<not> isSpaceByte c"
  using assms by (auto simp: isDigit_def isSpaceByte_def byte_def)

lemma showNat_digits: "list_all isDigit (showNat n) \<and> showNat n \<noteq> []"
proof (induction n rule: showNat.induct)
  case (1 n)
  have "isDigit (char_of (48 + n mod 10))"
    using dig_facts(1) [of "n mod 10"] by (simp add: dig_def)
  moreover have "n < 10 \<Longrightarrow> isDigit (char_of (48 + n))"
    using dig_facts(1) [of n] by (simp add: dig_def)
  ultimately show ?case using 1 by (simp add: showNat.simps [of n])
qed

lemma digitsVal_snoc: "digitsVal (s @ [c]) = 10 * digitsVal s + digitVal c"
  by (simp add: digitsVal_def)

lemma digitsVal_showNat: "digitsVal (showNat n) = n"
proof (induction n rule: showNat.induct)
  case (1 n)
  show ?case
  proof (cases "n < 10")
    case True
    then have "showNat n = [dig n]" by (simp add: showNat.simps [of n] dig_def)
    with True show ?thesis by (simp add: digitsVal_def)
  next
    case False
    then have "showNat n = showNat (n div 10) @ [dig (n mod 10)]" by (simp add: showNat.simps [of n] dig_def)
    with 1 False show ?thesis by (simp add: digitsVal_snoc)
  qed
qed

lemma atoi_digits:
  assumes "list_all isDigit s" and "s \<noteq> []" and "digitsVal s < 2 ^ 63"
  shows "atoi s = Some (int (digitsVal s))"
proof (cases s)
  case (Cons c cs)
  with assms(1) have "c \<noteq> CHR ''-''" "c \<noteq> CHR ''+''" by (auto dest: isDigit_not)
  with Cons assms show ?thesis by (simp add: atoi_def parseDigits_def)
qed (use assms(2) in simp)

lemma atoi_showNat: "n < 2 ^ 63 \<Longrightarrow> atoi (showNat n) = Some (int n)"
  using atoi_digits [of "showNat n"] showNat_digits [of n] by (simp add: digitsVal_showNat)

text \<open>\<open>%0wd\<close>.\<close>

definition padInt :: "nat \<Rightarrow> int \<Rightarrow> string" where
  "padInt w i =
     (let ds = showNat (nat \<bar>i\<bar>) in
      if i < 0 then CHR ''-'' # replicate (w - 1 - length ds) (CHR ''0'') @ ds
      else replicate (w - length ds) (CHR ''0'') @ ds)"

section \<open>Numbered identifiers\<close>

definition numberedID :: "string \<Rightarrow> nat \<Rightarrow> string" where
  "numberedID p n = p @ ''-'' @ padInt 6 (int n)"

lemma digitsVal_zeros: "digitsVal (replicate k (CHR ''0'') @ s) = digitsVal s"
  by (induction k) (simp_all add: digitsVal_def digitVal_def byte_def)

lemma digitsVal_padInt: "digitsVal (padInt w (int n)) = n"
  by (simp add: padInt_def Let_def digitsVal_zeros digitsVal_showNat)

lemma padInt_chars: "c \<in> set (padInt w (int n)) \<Longrightarrow> isDigit c"
  using showNat_digits [of n] by (auto simp: padInt_def Let_def list_all_iff isDigit_def byte_def split: if_splits)

lemma split_at_first: "c \<notin> set p \<Longrightarrow> c \<notin> set q \<Longrightarrow> p @ c # x = q @ c # y \<longleftrightarrow> p = q \<and> x = y"
proof (induction p arbitrary: q)
  case Nil
  then show ?case by (cases q) auto
next
  case (Cons d p)
  then show ?case by (cases q) auto
qed

lemma numberedID_inject:
  assumes "CHR ''-'' \<notin> set p" and "CHR ''-'' \<notin> set q"
  shows "numberedID p m = numberedID q n \<longleftrightarrow> p = q \<and> m = n"
proof
  assume "numberedID p m = numberedID q n"
  then have "p = q" "padInt 6 (int m) = padInt 6 (int n)"
    using split_at_first [OF assms] by (simp_all add: numberedID_def)
  then show "p = q \<and> m = n" using digitsVal_padInt by metis
qed simp

end
