(* ===== verification/Job_Export.thy ===== *)
theory Job_Export
  imports Job_Library Go_Decimal
begin

text \<open>
  The exporter, \<open>transcript-agent/backend/internal/exporter/exporter.go\<close>: the four renderings of a
  transcript and the parse-back validation of the subtitle formats.  Parser errors carry their
  messages; \<open>strings.Fields(...)[0]\<close> on blank text is the outcome \<open>Panic\<close>.
\<close>

section \<open>Strings and numbers\<close>

definition newline :: string where
  "newline = [CHR 0x0A]"

text \<open>Go's \<open>/\<close> and \<open>%\<close> on \<open>int\<close> truncate towards zero.\<close>

definition goQuot :: "int \<Rightarrow> int \<Rightarrow> int" where
  "goQuot a b = sgn a * sgn b * (\<bar>a\<bar> div \<bar>b\<bar>)"

definition goRem :: "int \<Rightarrow> int \<Rightarrow> int" where
  "goRem a b = a - b * goQuot a b"

text \<open>\<open>strings.Split\<close> for a non-empty separator.\<close>

function splitStr :: "string \<Rightarrow> string \<Rightarrow> string list" where
  "splitStr sep s =
     (if sep = [] then [s]
      else case cutStr sep s of None \<Rightarrow> [s] | Some (l, r) \<Rightarrow> l # splitStr sep r)"
  by pat_completeness auto
termination by (relation "measure (\<lambda>(sep, s). length s)") (auto dest: cutStr_shorter)

declare splitStr.simps [simp del]

text \<open>\<open>strings.ReplaceAll\<close> of CR LF by LF.\<close>

fun replaceCRLF :: "string \<Rightarrow> string" where
  "replaceCRLF (c # d # s) =
     (if c = CHR 0x0D \<and> d = CHR 0x0A then CHR 0x0A # replaceCRLF s else c # replaceCRLF (d # s))"
| "replaceCRLF s = s"

definition trimRightNL :: "string \<Rightarrow> string" where
  "trimRightNL s = rev (dropWhile (\<lambda>c. c = CHR 0x0A) (rev s))"

text \<open>\<open>strings.Fields(s)[0]\<close>.\<close>

definition firstField :: "string \<Rightarrow> string outcome" where
  "firstField s = (case dropWhile isSpaceByte s of
       [] \<Rightarrow> Panic | t \<Rightarrow> Ok (takeWhile (\<lambda>c. \<not> isSpaceByte c) t))"

section \<open>Rendering\<close>

definition cueSegments :: "Segment list \<Rightarrow> Segment list" where
  "cueSegments segs = filter (\<lambda>s. trimSpace (sg_Text s) \<noteq> []) segs"

definition ts :: "int \<Rightarrow> string \<Rightarrow> string" where
  "ts ms sep =
     padInt 2 (goQuot ms 3600000) @ '':'' @ padInt 2 (goQuot (goRem ms 3600000) 60000) @ '':''
     @ padInt 2 (goQuot (goRem ms 60000) 1000) @ sep @ padInt 3 (goRem ms 1000)"

definition exportTXT :: "Segment list \<Rightarrow> string" where
  "exportTXT segs = concat (map (\<lambda>s. ''['' @ ts (sg_StartMS s) ''.'' @ ''] '' @ sg_SpeakerLabel s @ '': ''
      @ sg_Text s @ newline) (cueSegments segs))"

definition exportMD :: "Segment list \<Rightarrow> string" where
  "exportMD segs = ''# Transcript'' @ newline @ newline
     @ concat (map (\<lambda>s. ''**['' @ ts (sg_StartMS s) ''.'' @ ''] '' @ sg_SpeakerLabel s @ '':** ''
         @ sg_Text s @ newline @ newline) (cueSegments segs))"

definition badCueError :: "nat \<Rightarrow> Segment \<Rightarrow> err" where
  "badCueError n s = E ''FORMAT_VALIDATION_FAILED'' (''segment '' @ showNat n @ '' has end_ms '' @ showInt (sg_EndMS s)
      @ '' <= start_ms '' @ showInt (sg_StartMS s))"

definition noSegmentsError :: err where
  "noSegmentsError = E ''FORMAT_VALIDATION_FAILED'' ''no segments to export''"

fun srtCues :: "nat \<Rightarrow> Segment list \<Rightarrow> string outcome" where
  "srtCues n [] = Ok []"
| "srtCues n (s # segs) =
     (if sg_EndMS s \<le> sg_StartMS s then Err (badCueError n s)
      else mapOk (append (showNat n @ newline @ ts (sg_StartMS s) '','' @ '' --> '' @ ts (sg_EndMS s) '',''
             @ newline @ sg_SpeakerLabel s @ '': '' @ sg_Text s @ newline @ newline))
           (srtCues (n + 1) segs))"

definition exportSRT :: "Segment list \<Rightarrow> string outcome" where
  "exportSRT segs =
     (if cueSegments segs = [] then Err noSegmentsError else srtCues 1 (cueSegments segs))"

fun vttCues :: "nat \<Rightarrow> Segment list \<Rightarrow> string outcome" where
  "vttCues n [] = Ok []"
| "vttCues n (s # segs) =
     (if sg_EndMS s \<le> sg_StartMS s then Err (badCueError n s)
      else mapOk (append (ts (sg_StartMS s) ''.'' @ '' --> '' @ ts (sg_EndMS s) ''.''
             @ newline @ sg_SpeakerLabel s @ '': '' @ sg_Text s @ newline @ newline))
           (vttCues (n + 1) segs))"

definition exportVTT :: "Segment list \<Rightarrow> string outcome" where
  "exportVTT segs =
     (if cueSegments segs = [] then Err noSegmentsError
      else mapOk (append (''WEBVTT'' @ newline @ newline)) (vttCues 1 (cueSegments segs)))"

definition generate :: "string \<Rightarrow> Segment list \<Rightarrow> string outcome" where
  "generate format segs =
     (if format = ''txt'' then Ok (exportTXT segs)
      else if format = ''md'' then Ok (exportMD segs)
      else if format = ''srt'' then exportSRT segs
      else if format = ''vtt'' then exportVTT segs
      else Err (E ''VALIDATION_ERROR'' (''unsupported export format '' @ goQuote format
             @ ''; supported: '' @ strJoin '', '' ExportFormats)))"

section \<open>Parsing back\<close>

record Cue =
  cue_StartMS :: int
  cue_EndMS :: int
  cue_Text :: string

definition badTimestamp :: "string \<Rightarrow> int outcome" where
  "badTimestamp v = Err (OtherErr (''bad timestamp '' @ goQuote v))"

text \<open>The loop over the three fields of the clock.\<close>

fun clockFields :: "string \<Rightarrow> string list \<Rightarrow> int list outcome" where
  "clockFields v [] = Ok []"
| "clockFields v (p # ps) =
     (if length p \<noteq> 2
      then Err (OtherErr (''bad timestamp field '' @ goQuote p @ '' in '' @ goQuote v))
      else case atoi p of
          None \<Rightarrow> Err (OtherErr (''bad timestamp '' @ goQuote v))
        | Some n \<Rightarrow> if n < 0 then Err (OtherErr (''bad timestamp '' @ goQuote v))
            else mapOk (Cons n) (clockFields v ps))"

definition parseClock :: "string \<Rightarrow> string \<Rightarrow> int outcome" where
  "parseClock v sep = (case cutStr sep v of
       None \<Rightarrow> badTimestamp v
     | Some (main, fracPart) \<Rightarrow>
         if length fracPart \<noteq> 3 then badTimestamp v
         else let parts = splitStr '':'' main in
           if length parts \<noteq> 3 then badTimestamp v
           else case clockFields v parts of
               Ok nums \<Rightarrow>
                 if nums ! 1 > 59 \<or> nums ! 2 > 59
                 then Err (OtherErr (''timestamp out of range '' @ goQuote v))
                 else (case atoi fracPart of
                     None \<Rightarrow> badTimestamp v
                   | Some ms \<Rightarrow> Ok (((nums ! 0 * 60 + nums ! 1) * 60 + nums ! 2) * 1000 + ms))
             | Err e \<Rightarrow> Err e | Panic \<Rightarrow> Panic)"

definition parseTiming :: "string \<Rightarrow> string \<Rightarrow> (int \<times> int) outcome" where
  "parseTiming line sep = (case splitStr '' --> '' line of
       [p0, p1] \<Rightarrow>
         (case parseClock (trimSpace p0) sep of
            Ok start \<Rightarrow>
              (case firstField (trimSpace p1) of
                 Ok endStr \<Rightarrow> mapOk (\<lambda>end. (start, end)) (parseClock endStr sep)
               | Err e \<Rightarrow> Err e | Panic \<Rightarrow> Panic)
          | Err e \<Rightarrow> Err e | Panic \<Rightarrow> Panic)
     | _ \<Rightarrow> Err (OtherErr (''bad timing line '' @ goQuote line)))"

definition formatError :: "string \<Rightarrow> 'a outcome" where
  "formatError msg = Err (E ''FORMAT_VALIDATION_FAILED'' msg)"

fun checkCuesLoop :: "string \<Rightarrow> nat \<Rightarrow> int \<Rightarrow> Cue list \<Rightarrow> unit outcome" where
  "checkCuesLoop fmt n prevStart [] = Ok ()"
| "checkCuesLoop fmt n prevStart (c # cs) =
     (if cue_EndMS c \<le> cue_StartMS c then
        formatError (fmt @ '': cue '' @ showNat n @ '' end '' @ showInt (cue_EndMS c) @ '' <= start '' @ showInt (cue_StartMS c))
      else if cue_StartMS c < prevStart then
        formatError (fmt @ '': cue '' @ showNat n @ '' starts before previous cue (ordering violation)'')
      else if trimSpace (cue_Text c) = [] then
        formatError (fmt @ '': cue '' @ showNat n @ '' has empty text'')
      else checkCuesLoop fmt (n + 1) (cue_StartMS c) cs)"

definition checkCues :: "Cue list \<Rightarrow> string \<Rightarrow> unit outcome" where
  "checkCues cues fmt = (if cues = [] then formatError (fmt @ '': no cues'') else checkCuesLoop fmt 1 (- 1) cues)"

definition parseSRTBlock :: "nat \<Rightarrow> string \<Rightarrow> Cue outcome" where
  "parseSRTBlock n block =
     (let lines = splitStr newline (trimSpace block) in
      if length lines < 3 then
        formatError (''srt: block '' @ showNat n @ '' has '' @ showNat (length lines) @ '' lines, need index, timing, text'')
      else if atoi (trimSpace (lines ! 0)) \<noteq> Some (int n) then
        formatError (''srt: block '' @ showNat n @ '' has bad index '' @ goQuote (lines ! 0) @ '' (must be sequential from 1)'')
      else case parseTiming (lines ! 1) '','' of
          Ok (start, end) \<Rightarrow>
            Ok \<lparr>cue_StartMS = start, cue_EndMS = end, cue_Text = strJoin newline (drop 2 lines)\<rparr>
        | Err e \<Rightarrow> formatError (''srt: block '' @ showNat n @ '': '' @ errString e)
        | Panic \<Rightarrow> Panic)"

fun parseSRTLoop :: "nat \<Rightarrow> string list \<Rightarrow> Cue list outcome" where
  "parseSRTLoop n [] = Ok []"
| "parseSRTLoop n (b # bs) = (case parseSRTBlock n b of
       Ok c \<Rightarrow> mapOk (Cons c) (parseSRTLoop (n + 1) bs) | Err e \<Rightarrow> Err e | Panic \<Rightarrow> Panic)"

definition parseSRT :: "string \<Rightarrow> Cue list outcome" where
  "parseSRT data = parseSRTLoop 1 (splitStr (newline @ newline) (trimRightNL (replaceCRLF data)))"

definition thenCheck :: "Cue list outcome \<Rightarrow> string \<Rightarrow> unit outcome" where
  "thenCheck r fmt = (case r of Ok cues \<Rightarrow> checkCues cues fmt | Err e \<Rightarrow> Err e | Panic \<Rightarrow> Panic)"

definition validateSRT :: "string \<Rightarrow> unit outcome" where
  "validateSRT data = thenCheck (parseSRT data) ''srt''"

definition nonBlank :: "string \<Rightarrow> bool" where
  "nonBlank l \<longleftrightarrow> trimSpace l \<noteq> []"

text \<open>The loop of \<open>ParseVTT\<close> on the lines from index \<open>i\<close> on.\<close>

function vttLoop :: "string list \<Rightarrow> Cue list outcome" and vttCue :: "string \<Rightarrow> string list \<Rightarrow> Cue list outcome" where
  "vttLoop [] = Ok []"
| "vttLoop (l # ls) =
     (let line = trimSpace l in
      if line = [] \<or> hasPrefix line ''NOTE'' then vttLoop ls
      else if \<not> strContains line ''-->'' then
        (case ls of
           [] \<Rightarrow> formatError (''vtt: expected timing after identifier '' @ goQuote line)
         | l2 # ls2 \<Rightarrow>
             if \<not> strContains l2 ''-->''
             then formatError (''vtt: expected timing after identifier '' @ goQuote line)
             else vttCue (trimSpace l2) ls2)
      else vttCue line ls)"
| "vttCue line ls =
     (case parseTiming line ''.'' of
        Ok (start, end) \<Rightarrow>
          mapOk (Cons \<lparr>cue_StartMS = start, cue_EndMS = end,
              cue_Text = strJoin newline (map trimSpace (takeWhile nonBlank ls))\<rparr>)
            (vttLoop (dropWhile nonBlank ls))
      | Err e \<Rightarrow> formatError (''vtt: '' @ errString e)
      | Panic \<Rightarrow> Panic)"
  by pat_completeness auto
termination
proof (relation "measure (case_sum (\<lambda>ls. 2 * length ls) (\<lambda>(l, ls). 2 * length ls + 1))")
  fix ls :: "string list"
  show "(Inl (dropWhile nonBlank ls), Inr (line, ls))
      \<in> measure (case_sum (\<lambda>ls. 2 * length ls) (\<lambda>(l, ls). 2 * length ls + 1))" for line :: string
    using length_dropWhile_le [of nonBlank ls] by simp
qed auto

definition parseVTT :: "string \<Rightarrow> Cue list outcome" where
  "parseVTT data =
     (let lines = splitStr newline (replaceCRLF data) in
      if lines = [] \<or> \<not> hasPrefix (trimSpace (hd lines)) ''WEBVTT''
      then formatError ''vtt: missing WEBVTT header''
      else vttLoop (tl lines))"

definition validateVTT :: "string \<Rightarrow> unit outcome" where
  "validateVTT data = thenCheck (parseVTT data) ''vtt''"

definition validateExport :: "string \<Rightarrow> string \<Rightarrow> unit outcome" where
  "validateExport format data =
     (if format = ''txt'' \<or> format = ''md'' then
        (if data = [] then formatError (format @ '' export is empty'') else Ok ())
      else if format = ''srt'' then validateSRT data
      else if format = ''vtt'' then validateVTT data
      else Err (E ''VALIDATION_ERROR'' (''unsupported export format '' @ goQuote format)))"

end
