(* ===== verification/Job_Subtitles.thy ===== *)
theory Job_Subtitles
  imports Job_Export
begin

text \<open>
  The subtitle exports parse back: for every transcript whose cues have sane times and no line
  breaks in labels and text, the validators accept what the renderers wrote and read the same cues.
\<close>

named_theorems subtitle \<open>how the parsers read the pieces the renderers write\<close>

section \<open>Digits\<close>

definition d2 :: "nat \<Rightarrow> string" where
  "d2 n = [dig (n div 10), dig (n mod 10)]"

definition d3 :: "nat \<Rightarrow> string" where
  "d3 n = [dig (n div 100), dig (n div 10 mod 10), dig (n mod 10)]"

lemma showNat_1: "n < 10 \<Longrightarrow> showNat n = [dig n]"
  by (simp add: showNat.simps [of n] dig_def)

lemma showNat_2: "10 \<le> n \<Longrightarrow> n < 100 \<Longrightarrow> showNat n = [dig (n div 10), dig (n mod 10)]"
  using showNat_1 [of "n div 10"] by (simp add: showNat.simps [of n] dig_def)

lemma showNat_3:
  "100 \<le> n \<Longrightarrow> n < 1000 \<Longrightarrow> showNat n = [dig (n div 100), dig (n div 10 mod 10), dig (n mod 10)]"
  using showNat_2 [of "n div 10"] by (simp add: showNat.simps [of n] dig_def div_mult2_eq [symmetric])

lemma dig_0: "dig 0 = CHR ''0''"
proof -
  have "byte (dig 0) = byte (CHR ''0'')" unfolding byte_dig [OF zero_less_numeral] by (simp add: byte_def)
  then show ?thesis by (simp only: byte_inject)
qed

lemma replicate_2: "replicate 2 x = [x, x]"
  by (simp add: numeral_2_eq_2)

lemma padInt_2: "n < 100 \<Longrightarrow> padInt 2 (int n) = d2 n"
  by (cases "n < 10") (simp_all add: padInt_def d2_def showNat_1 showNat_2 dig_0 numeral_2_eq_2)

lemma padInt_3:
  assumes "n < 1000"
  shows "padInt 3 (int n) = d3 n"
proof -
  consider (one) "n < 10" | (two) "10 \<le> n" "n < 100" | (three) "100 \<le> n" by linarith
  then show ?thesis
  proof cases
    case one
    then show ?thesis by (simp add: padInt_def d3_def showNat_1 dig_0 replicate_2)
  next
    case two
    then show ?thesis by (simp add: padInt_def d3_def showNat_2 dig_0)
  next
    case three
    with assms show ?thesis by (simp add: padInt_def d3_def showNat_3)
  qed
qed

lemma d2_digits: "n < 100 \<Longrightarrow> list_all isDigit (d2 n)"
  by (simp add: d2_def)

lemma d3_digits: "n < 1000 \<Longrightarrow> list_all isDigit (d3 n)"
  by (simp add: d3_def)

lemma atoi_d2: "n < 100 \<Longrightarrow> atoi (d2 n) = Some (int n)"
  using atoi_digits [OF d2_digits, of n] by (simp add: d2_def digitsVal_def)

lemma atoi_d3:
  assumes "n < 1000"
  shows "atoi (d3 n) = Some (int n)"
proof -
  have "n div 100 = n div 10 div 10" by (simp add: div_mult2_eq [symmetric])
  moreover have "10 * (n div 10 div 10) + n div 10 mod 10 = n div 10" by simp
  moreover have "10 * (n div 10) + n mod 10 = n" by simp
  ultimately have "100 * (n div 100) + 10 * (n div 10 mod 10) + n mod 10 = n" by linarith
  moreover have "digitsVal (d3 n) = 100 * (n div 100) + 10 * (n div 10 mod 10) + n mod 10"
    using assms by (simp add: d3_def digitsVal_def)
  ultimately show ?thesis using atoi_digits [OF d3_digits [OF assms]] assms by (simp add: d3_def)
qed

section \<open>Cutting and splitting\<close>

lemma cutStr_first:
  assumes "sub \<noteq> []" and "hd sub \<notin> set l"
  shows "cutStr sub (l @ sub @ r) = Some (l, r)"
  using assms
proof (induction l)
  case Nil
  then obtain c cs where "sub = c # cs" by (cases sub) auto
  then show ?case by (simp add: hasPrefix_iff)
next
  case (Cons a l)
  then have "\<not> hasPrefix ((a # l) @ sub @ r) sub"
    by (cases sub) (auto simp: hasPrefix_iff)
  with Cons show ?case by simp
qed

lemma cutStr_absent: "sub \<noteq> [] \<Longrightarrow> hd sub \<notin> set l \<Longrightarrow> cutStr sub l = None"
proof (induction l)
  case (Cons a l)
  then have "\<not> hasPrefix (a # l) sub" by (cases sub) (auto simp: hasPrefix_iff)
  with Cons show ?case by simp
qed simp

lemma splitStr_cut: "sep \<noteq> [] \<Longrightarrow> cutStr sep s = Some (l, r) \<Longrightarrow> splitStr sep s = l # splitStr sep r"
  by (simp add: splitStr.simps [of sep s])

lemma splitStr_none: "sep \<noteq> [] \<Longrightarrow> cutStr sep s = None \<Longrightarrow> splitStr sep s = [s]"
  by (simp add: splitStr.simps [of sep s])

lemma splitStr_first:
  "sep \<noteq> [] \<Longrightarrow> hd sep \<notin> set l \<Longrightarrow> splitStr sep (l @ sep @ r) = l # splitStr sep r"
  by (simp add: splitStr_cut cutStr_first)

lemma splitStr_absent: "sep \<noteq> [] \<Longrightarrow> hd sep \<notin> set l \<Longrightarrow> splitStr sep l = [l]"
  by (simp add: splitStr_none cutStr_absent)

section \<open>Time stamps\<close>

lemma goQuot_nat: "0 \<le> a \<Longrightarrow> 0 < b \<Longrightarrow> goQuot a b = a div b"
  by (auto simp: goQuot_def sgn_if)

lemma goRem_nat: "0 \<le> a \<Longrightarrow> 0 < b \<Longrightarrow> goRem a b = a mod b"
  by (simp add: goRem_def goQuot_nat minus_mult_div_eq_mod)

definition clockOf :: "nat \<Rightarrow> string" where
  "clockOf m = d2 (m div 3600000) @ '':'' @ d2 (m mod 3600000 div 60000) @ '':'' @ d2 (m mod 60000 div 1000)"

lemma ts_eq:
  assumes "m < 360000000"
  shows "ts (int m) sep = clockOf m @ sep @ d3 (m mod 1000)"
proof -
  have "goQuot (int m) 3600000 = int (m div 3600000)" by (simp add: goQuot_nat zdiv_int)
  moreover have "goQuot (goRem (int m) 3600000) 60000 = int (m mod 3600000 div 60000)"
    by (simp add: goQuot_nat goRem_nat zdiv_int zmod_int)
  moreover have "goQuot (goRem (int m) 60000) 1000 = int (m mod 60000 div 1000)"
    by (simp add: goQuot_nat goRem_nat zdiv_int zmod_int)
  moreover have "goRem (int m) 1000 = int (m mod 1000)" by (simp add: goRem_nat zmod_int)
  moreover have "m div 3600000 < 100" "m mod 3600000 div 60000 < 100" "m mod 60000 div 1000 < 100" "m mod 1000 < 1000"
    using assms by (simp_all add: less_mult_imp_div_less)
  ultimately show ?thesis by (simp only: ts_def padInt_2 padInt_3 clockOf_def append_assoc)
qed

lemma clock_parts:
  assumes "m < 360000000"
  shows "list_all isDigit (d2 (m div 3600000))" "list_all isDigit (d2 (m mod 3600000 div 60000))"
    "list_all isDigit (d2 (m mod 60000 div 1000))" "list_all isDigit (d3 (m mod 1000))"
  using assms by (auto intro!: d2_digits d3_digits simp: less_mult_imp_div_less)

lemma digits_not_in: "list_all isDigit s \<Longrightarrow> \<not> isDigit c \<Longrightarrow> c \<notin> set s"
  by (auto simp: list_all_iff)

lemma ts_char:
  assumes "m < 360000000" and "c \<in> set (ts (int m) sep)"
  shows "isDigit c \<or> c = CHR '':'' \<or> c \<in> set sep"
  using assms clock_parts [OF assms(1)] by (auto simp: ts_eq clockOf_def list_all_iff)

lemma clock_split:
  assumes "m < 360000000"
  shows "splitStr '':'' (clockOf m) = [d2 (m div 3600000), d2 (m mod 3600000 div 60000), d2 (m mod 60000 div 1000)]"
proof -
  have nd: "\<not> isDigit (CHR '':'')" by (auto dest: isDigit_not)
  note out = clock_parts [OF assms, THEN digits_not_in, OF nd]
  have "splitStr '':'' (clockOf m) = d2 (m div 3600000) # splitStr '':'' (d2 (m mod 3600000 div 60000) @ '':'' @ d2 (m mod 60000 div 1000))"
    unfolding clockOf_def by (rule splitStr_first) (use out in simp_all)
  also have "splitStr '':'' (d2 (m mod 3600000 div 60000) @ '':'' @ d2 (m mod 60000 div 1000))
      = d2 (m mod 3600000 div 60000) # splitStr '':'' (d2 (m mod 60000 div 1000))"
    by (rule splitStr_first) (use out in simp_all)
  also have "splitStr '':'' (d2 (m mod 60000 div 1000)) = [d2 (m mod 60000 div 1000)]"
    by (rule splitStr_absent) (use out in simp_all)
  finally show ?thesis .
qed

lemma mod_div_mult: "m mod (b * c) div b = m div b mod (c::nat)"
  by (cases "b = 0") (simp_all add: mod_mult2_eq)

lemma clock_value:
  "((m div 3600000 * 60 + m mod 3600000 div 60000) * 60 + m mod 60000 div 1000) * 1000 + m mod 1000 = (m::nat)"
proof -
  have s: "m mod 60000 div 1000 = m div 1000 mod 60" using mod_div_mult [of m 1000 60] by simp
  have mi: "m mod 3600000 div 60000 = m div 60000 mod 60" using mod_div_mult [of m 60000 60] by simp
  have h: "m div 3600000 = m div 60000 div 60" and q: "m div 60000 = m div 1000 div 60"
    by (simp_all add: div_mult2_eq [symmetric])
  have "m div 3600000 * 60 + m mod 3600000 div 60000 = m div 60000"
    unfolding h mi by (rule div_mult_mod_eq)
  then have "(m div 3600000 * 60 + m mod 3600000 div 60000) * 60 + m mod 60000 div 1000 = m div 1000"
    unfolding s q by (simp only: div_mult_mod_eq)
  then show ?thesis by (simp only: div_mult_mod_eq)
qed

lemma parseClock_ts [subtitle]:
  assumes m: "m < 360000000" and sep: "sep = '','' \<or> sep = ''.''"
  shows "parseClock (ts (int m) sep) sep = Ok (int m)"
proof -
  have "hd sep \<notin> set (clockOf m)"
  proof
    assume "hd sep \<in> set (clockOf m)"
    with clock_parts [OF m] have "isDigit (hd sep) \<or> hd sep = CHR '':''"
      by (auto simp: clockOf_def list_all_iff)
    with sep show False by (auto dest: isDigit_not)
  qed
  with sep have cut: "cutStr sep (ts (int m) sep) = Some (clockOf m, d3 (m mod 1000))"
    unfolding ts_eq [OF m] by (intro cutStr_first) auto
  have small: "m div 3600000 < 100" "m mod 3600000 div 60000 < 60" "m mod 60000 div 1000 < 60"
    using m by (simp_all add: less_mult_imp_div_less)
  have "clockFields v [d2 (m div 3600000), d2 (m mod 3600000 div 60000), d2 (m mod 60000 div 1000)]
      = Ok [int (m div 3600000), int (m mod 3600000 div 60000), int (m mod 60000 div 1000)]" for v
    using small atoi_d2 [of "m div 3600000"] atoi_d2 [of "m mod 3600000 div 60000"]
      atoi_d2 [of "m mod 60000 div 1000"] by (simp add: d2_def mapOk_def)
  moreover have "atoi (d3 (m mod 1000)) = Some (int (m mod 1000))" by (rule atoi_d3) simp
  moreover have "length (d3 (m mod 1000)) = 3" by (simp add: d3_def)
  moreover note clock_value [of m]
  then have "((int (m div 3600000) * 60 + int (m mod 3600000 div 60000)) * 60 + int (m mod 60000 div 1000)) * 1000
      + int (m mod 1000) = int m"
    by (simp only: of_nat_add [symmetric] of_nat_mult [symmetric] of_nat_numeral [symmetric, where 'a=int])
  moreover have "\<not> int (m mod 3600000 div 60000) > 59" "\<not> int (m mod 60000 div 1000) > 59"
    using small(2,3) by linarith+
  ultimately show ?thesis
    using clock_split [OF m] by (simp add: parseClock_def cut Let_def del: of_nat_div of_nat_mod)
qed

section \<open>Trimming\<close>

lemma trimSpace_id: "(\<And>c. c \<in> set s \<Longrightarrow> \<not> isSpaceByte c) \<Longrightarrow> trimSpace s = s"
proof -
  assume none: "\<And>c. c \<in> set s \<Longrightarrow> \<not> isSpaceByte c"
  have "dropWhile isSpaceByte xs = xs" if "set xs \<subseteq> set s" for xs
    using that none by (cases xs) auto
  from this [of s] this [of "rev s"] show ?thesis by (simp add: trimSpace_def)
qed

definition trimRight :: "string \<Rightarrow> string" where
  "trimRight s = rev (dropWhile isSpaceByte (rev s))"

lemma trimSpace_append:
  assumes "x \<noteq> []" and "\<not> isSpaceByte (hd x)" and "c \<in> set t" and "\<not> isSpaceByte c"
  shows "trimSpace (x @ t) = x @ trimRight t"
proof -
  have "dropWhile isSpaceByte (x @ t) = x @ t" using assms(1,2) by (cases x) auto
  moreover have "dropWhile isSpaceByte (rev t @ rev x) = dropWhile isSpaceByte (rev t) @ rev x"
    using assms(3,4) by (intro dropWhile_append1) auto
  ultimately show ?thesis by (simp add: trimSpace_def trimRight_def)
qed

lemma trimRight_subset: "set (trimRight s) \<subseteq> set s"
  unfolding trimRight_def by (metis set_dropWhileD set_rev subsetI)

lemma ts_nospace: "m < 360000000 \<Longrightarrow> sep = '','' \<or> sep = ''.'' \<Longrightarrow> c \<in> set (ts (int m) sep) \<Longrightarrow>
  \<not> isSpaceByte c \<and> c \<noteq> CHR '' ''"
  using ts_char [of m c sep] by (auto dest: isDigit_not) (auto simp: isSpaceByte_def byte_def)

lemma parseTiming_ts [subtitle]:
  assumes "a < 360000000" and "b < 360000000" and sep: "sep = '','' \<or> sep = ''.''"
  shows "parseTiming (ts (int a) sep @ '' --> '' @ ts (int b) sep) sep = Ok (int a, int b)"
proof -
  have sp: "CHR '' '' \<notin> set (ts (int m) sep)" if "m < 360000000" for m
    using ts_nospace [OF that sep] by blast
  have "splitStr '' --> '' (ts (int a) sep @ '' --> '' @ ts (int b) sep)
      = ts (int a) sep # splitStr '' --> '' (ts (int b) sep)"
    by (rule splitStr_first) (use sp [OF assms(1)] in simp_all)
  also have "splitStr '' --> '' (ts (int b) sep) = [ts (int b) sep]"
    by (rule splitStr_absent) (use sp [OF assms(2)] in simp_all)
  finally have split: "splitStr '' --> '' (ts (int a) sep @ '' --> '' @ ts (int b) sep)
      = [ts (int a) sep, ts (int b) sep]" .
  have trim: "trimSpace (ts (int m) sep) = ts (int m) sep" if "m < 360000000" for m
    using ts_nospace [OF that sep] by (intro trimSpace_id) blast
  have "ts (int b) sep \<noteq> []" using assms(2) by (simp add: ts_eq clockOf_def d2_def)
  moreover have "dropWhile isSpaceByte (ts (int b) sep) = ts (int b) sep"
    using ts_nospace [OF assms(2) sep] by (cases "ts (int b) sep") auto
  moreover have "takeWhile (\<lambda>c. \<not> isSpaceByte c) (ts (int b) sep) = ts (int b) sep"
    using ts_nospace [OF assms(2) sep] by (simp add: takeWhile_eq_all_conv)
  ultimately have "firstField (ts (int b) sep) = Ok (ts (int b) sep)"
    by (simp add: firstField_def split: list.split)
  then show ?thesis
    by (simp only: parseTiming_def split list.case trim [OF assms(1)] trim [OF assms(2)]
        parseClock_ts [OF assms(1) sep] parseClock_ts [OF assms(2) sep] outcome.case mapOk_def)
qed

section \<open>One cue\<close>

text \<open>What the export needs of a cue: times in order and below 100 hours, no line break in label or
  text.\<close>

definition exportable :: "Segment \<Rightarrow> bool" where
  "exportable s \<longleftrightarrow> 0 \<le> sg_StartMS s \<and> sg_StartMS s < sg_EndMS s \<and> sg_EndMS s < 360000000
     \<and> CHR 0x0A \<notin> set (sg_SpeakerLabel s @ sg_Text s) \<and> CHR 0x0D \<notin> set (sg_SpeakerLabel s @ sg_Text s)"

definition cueLine :: "Segment \<Rightarrow> string" where
  "cueLine s = sg_SpeakerLabel s @ '': '' @ sg_Text s"

definition timingLine :: "string \<Rightarrow> Segment \<Rightarrow> string" where
  "timingLine sep s = ts (sg_StartMS s) sep @ '' --> '' @ ts (sg_EndMS s) sep"

definition srtBlock :: "nat \<Rightarrow> Segment \<Rightarrow> string" where
  "srtBlock n s = showNat n @ newline @ timingLine '','' s @ newline @ cueLine s"

definition srtCue :: "Segment \<Rightarrow> Cue" where
  "srtCue s = \<lparr>cue_StartMS = sg_StartMS s, cue_EndMS = sg_EndMS s, cue_Text = trimRight (cueLine s)\<rparr>"

lemma exportable_nat:
  assumes "exportable s"
  obtains a b where "sg_StartMS s = int a" "sg_EndMS s = int b" "a < b" "b < 360000000"
proof
  show "sg_StartMS s = int (nat (sg_StartMS s))" "sg_EndMS s = int (nat (sg_EndMS s))"
    "nat (sg_StartMS s) < nat (sg_EndMS s)" "nat (sg_EndMS s) < 360000000"
    using assms by (auto simp: exportable_def)
qed

lemma cueLine_clean:
  assumes "exportable s"
  shows "CHR 0x0A \<notin> set (cueLine s)" "CHR 0x0D \<notin> set (cueLine s)" "CHR '':'' \<in> set (cueLine s)"
  using assms by (auto simp: cueLine_def exportable_def)

lemma colon_nospace: "\<not> isSpaceByte (CHR '':'')"
  by (simp add: isSpaceByte_def byte_def)

lemma timing_chars:
  assumes "exportable s" and "sep = '','' \<or> sep = ''.''"
  shows "CHR 0x0A \<notin> set (timingLine sep s)" "CHR 0x0D \<notin> set (timingLine sep s)"
    "timingLine sep s \<noteq> []" "\<not> isSpaceByte (hd (timingLine sep s))" "\<not> isSpaceByte (last (timingLine sep s))"
proof -
  obtain a b where ab: "sg_StartMS s = int a" "sg_EndMS s = int b" "a < b" "b < 360000000"
    using assms(1) by (rule exportable_nat)
  then have a: "a < 360000000" by simp
  have out: "\<not> isSpaceByte c" if "c \<in> set (ts (int m) sep)" "m < 360000000" for c m
    using ts_nospace [OF that(2) assms(2) that(1)] by blast
  have sp: "isSpaceByte (CHR 0x0A)" "isSpaceByte (CHR 0x0D)" by (simp_all add: isSpaceByte_def byte_def)
  have ne: "ts (int m) sep \<noteq> []" if "m < 360000000" for m
    using that by (simp add: ts_eq clockOf_def d2_def)
  show "CHR 0x0A \<notin> set (timingLine sep s)" "CHR 0x0D \<notin> set (timingLine sep s)"
    using out a ab(4) sp by (auto simp: timingLine_def ab)
  show "timingLine sep s \<noteq> []" by (simp add: timingLine_def)
  show "\<not> isSpaceByte (hd (timingLine sep s))"
    using out [OF hd_in_set [OF ne [OF a]] a] ne [OF a] by (simp add: timingLine_def ab)
  show "\<not> isSpaceByte (last (timingLine sep s))"
    using out [OF last_in_set [OF ne [OF ab(4)]] ab(4)] ne [OF ab(4)] by (simp add: timingLine_def ab)
qed

lemma newline_simps [simp]: "newline \<noteq> []" "hd newline = CHR 0x0A" "set newline = {CHR 0x0A}"
  by (simp_all add: newline_def)

lemma showNat_chars:
  "CHR 0x0A \<notin> set (showNat n)" "CHR 0x0D \<notin> set (showNat n)" "\<not> isSpaceByte (hd (showNat n))"
  "\<And>c. c \<in> set (showNat n) \<Longrightarrow> \<not> isSpaceByte c"
proof -
  have "isDigit c" if "c \<in> set (showNat n)" for c
    using that showNat_digits [of n] by (simp add: list_all_iff)
  then show "CHR 0x0A \<notin> set (showNat n)" "CHR 0x0D \<notin> set (showNat n)"
    "\<And>c. c \<in> set (showNat n) \<Longrightarrow> \<not> isSpaceByte c"
    by (auto dest: isDigit_not)
  then show "\<not> isSpaceByte (hd (showNat n))" using showNat_digits [of n] by (meson hd_in_set)
qed

lemma parseSRTBlock_srtBlock [subtitle]:
  assumes "exportable s" and "n < 2 ^ 63"
  shows "parseSRTBlock n (srtBlock n s) = Ok (srtCue s)"
proof -
  note line = cueLine_clean [OF assms(1)]
  let ?t = "timingLine '','' s"
  have "srtBlock n s = (showNat n @ newline @ ?t @ newline) @ cueLine s" by (simp add: srtBlock_def)
  also have "trimSpace \<dots> = (showNat n @ newline @ ?t @ newline) @ trimRight (cueLine s)"
    by (rule trimSpace_append [OF _ _ line(3) colon_nospace])
      (use showNat_digits [of n] showNat_chars(3) [of n] in simp_all)
  finally have trim: "trimSpace (srtBlock n s) = showNat n @ newline @ ?t @ newline @ trimRight (cueLine s)"
    by simp
  have "CHR 0x0A \<notin> set (trimRight (cueLine s))" using trimRight_subset line(1) by blast
  then have lines: "splitStr newline (trimSpace (srtBlock n s)) = [showNat n, ?t, trimRight (cueLine s)]"
    unfolding trim using showNat_chars(1) timing_chars(1) [OF assms(1), of "'',''"]
    by (simp add: splitStr_first splitStr_absent)
  obtain a b where ab: "sg_StartMS s = int a" "sg_EndMS s = int b" "a < b" "b < 360000000"
    using assms(1) by (rule exportable_nat)
  have "parseTiming ?t '','' = Ok (sg_StartMS s, sg_EndMS s)"
    unfolding timingLine_def ab by (rule parseTiming_ts) (use ab in simp_all)
  moreover have "trimSpace (showNat n) = showNat n" using showNat_chars(4) by (rule trimSpace_id)
  ultimately show ?thesis
    using atoi_showNat [OF assms(2)] by (simp add: parseSRTBlock_def lines srtCue_def)
qed

end
