(* ===== verification/Job_Roundtrip.thy ===== *)
theory Job_Roundtrip
  imports Job_Subtitles
begin

text \<open>The whole subtitle documents: rendering, splitting into cues again, and the validators.\<close>

section \<open>SubRip\<close>

fun srtText :: "nat \<Rightarrow> Segment list \<Rightarrow> string" where
  "srtText n [] = []"
| "srtText n (s # ss) = srtBlock n s @ newline @ newline @ srtText (n + 1) ss"

fun srtBlocks :: "nat \<Rightarrow> Segment list \<Rightarrow> string list" where
  "srtBlocks n [] = []"
| "srtBlocks n (s # ss) = srtBlock n s # srtBlocks (n + 1) ss"

lemma srtCues_text: "\<forall>s \<in> set ss. exportable s \<Longrightarrow> srtCues n ss = Ok (srtText n ss)"
  by (induction ss arbitrary: n)
    (auto simp: exportable_def mapOk_def srtBlock_def timingLine_def cueLine_def)

lemma srtText_join: "ss \<noteq> [] \<Longrightarrow> srtText n ss = strJoin (newline @ newline) (srtBlocks n ss) @ newline @ newline"
proof (induction ss arbitrary: n)
  case (Cons s ss)
  then show ?case by (cases ss) (simp_all del: srtText.simps add: srtText.simps)
qed simp

text \<open>Neither a doubled line break nor one at the end of a block.\<close>

lemma cut_line:
  assumes "CHR 0x0A \<notin> set x" and "y \<noteq> []" and "hd y \<noteq> CHR 0x0A"
  shows "cutStr (newline @ newline) (x @ newline @ y)
       = map_option (\<lambda>(l, r). (x @ newline @ l, r)) (cutStr (newline @ newline) y)"
  using assms(1)
proof (induction x)
  case Nil
  from assms(2,3) show ?case by (cases y) (auto simp: newline_def)
next
  case (Cons c x)
  then show ?case
    by (auto simp: newline_def option.map_comp comp_def split_def)
qed

lemma srtBlock_cut:
  assumes "exportable s"
  shows "cutStr (newline @ newline) (srtBlock n s @ (newline @ newline) @ r) = Some (srtBlock n s, r)"
    and "cutStr (newline @ newline) (srtBlock n s) = None"
proof -
  let ?t = "timingLine '','' s" and ?l = "cueLine s"
  note line = cueLine_clean [OF assms]
  note time = timing_chars [OF assms, of "'',''"]
  have hdt: "hd ?t \<noteq> CHR 0x0A" using time(1,3) by (metis hd_in_set)
  have nel: "?l \<noteq> []" using line(3) by auto
  then have hdl: "hd ?l \<noteq> CHR 0x0A" using line(1) by (metis hd_in_set)
  have l1: "cutStr (newline @ newline) (?l @ (newline @ newline) @ r) = Some (?l, r)"
    by (rule cutStr_first) (use line(1) in simp_all)
  have l2: "cutStr (newline @ newline) ?l = None" by (rule cutStr_absent) (use line(1) in simp_all)
  have "cutStr (newline @ newline) (showNat n @ newline @ ?t @ newline @ y)
      = map_option (\<lambda>(l, r). (showNat n @ newline @ ?t @ newline @ l, r)) (cutStr (newline @ newline) y)"
    if "y \<noteq> []" "hd y \<noteq> CHR 0x0A" for y
  proof -
    have "cutStr (newline @ newline) (showNat n @ newline @ (?t @ newline @ y))
      = map_option (\<lambda>(l, r). (showNat n @ newline @ l, r)) (cutStr (newline @ newline) (?t @ newline @ y))"
      using showNat_chars(1) time(3) hdt by (intro cut_line) auto
    also have "cutStr (newline @ newline) (?t @ newline @ y)
      = map_option (\<lambda>(l, r). (?t @ newline @ l, r)) (cutStr (newline @ newline) y)"
      using time(1) that by (intro cut_line) auto
    finally show ?thesis by (simp add: option.map_comp comp_def split_def)
  qed
  note lines = this
  show "cutStr (newline @ newline) (srtBlock n s @ (newline @ newline) @ r) = Some (srtBlock n s, r)"
    using lines [of "?l @ (newline @ newline) @ r"] nel hdl l1 by (simp add: srtBlock_def)
  show "cutStr (newline @ newline) (srtBlock n s) = None"
    using lines [of ?l] nel hdl by (simp add: srtBlock_def l2)
qed

lemma split_srt:
  assumes "\<forall>s \<in> set ss. exportable s" and "ss \<noteq> []"
  shows "splitStr (newline @ newline) (strJoin (newline @ newline) (srtBlocks n ss)) = srtBlocks n ss"
  using assms
proof (induction ss arbitrary: n)
  case (Cons s ss)
  show ?case
  proof (cases ss)
    case Nil
    with Cons.prems srtBlock_cut(2) [of s n] show ?thesis by (simp add: splitStr_none)
  next
    case (Cons t us)
    with Cons.prems Cons.IH [of "n + 1"] srtBlock_cut(1) [of s n] show ?thesis
      by (simp add: splitStr_cut)
  qed
qed simp

lemma parse_blocks:
  assumes "\<forall>s \<in> set ss. exportable s" and "n + length ss \<le> 2 ^ 63"
  shows "parseSRTLoop n (srtBlocks n ss) = Ok (map srtCue ss)"
  using assms
proof (induction ss arbitrary: n)
  case (Cons s ss)
  have "parseSRTBlock n (srtBlock n s) = Ok (srtCue s)"
    using Cons.prems by (intro parseSRTBlock_srtBlock) auto
  with Cons show ?case by (simp add: mapOk_def)
qed simp

lemma replaceCRLF_id: "CHR 0x0D \<notin> set s \<Longrightarrow> replaceCRLF s = s"
  by (induction s rule: replaceCRLF.induct) auto

lemma srtText_noCR: "\<forall>s \<in> set ss. exportable s \<Longrightarrow> CHR 0x0D \<notin> set (srtText n ss)"
proof (induction ss arbitrary: n)
  case (Cons s ss)
  then have "exportable s" by simp
  with cueLine_clean [OF this] timing_chars(2) [OF this, of "'',''"] showNat_chars(2) [of n] Cons
  show ?case by (simp add: srtBlock_def)
qed simp

lemma trimRightNL_snoc: "s \<noteq> [] \<Longrightarrow> last s \<noteq> CHR 0x0A \<Longrightarrow> trimRightNL (s @ newline @ newline) = s"
proof -
  assume "s \<noteq> []" "last s \<noteq> CHR 0x0A"
  then obtain xs x where "s = xs @ [x]" "x \<noteq> CHR 0x0A" by (metis append_butlast_last_id)
  then show ?thesis by (simp add: trimRightNL_def newline_def)
qed

lemma join_last:
  assumes "\<forall>s \<in> set ss. exportable s" and "ss \<noteq> []"
  shows "strJoin (newline @ newline) (srtBlocks n ss) \<noteq> []
       \<and> last (strJoin (newline @ newline) (srtBlocks n ss)) \<noteq> CHR 0x0A"
  using assms
proof (induction ss arbitrary: n)
  case (Cons s ss)
  then have "exportable s" by simp
  note line = cueLine_clean [OF this]
  then have "cueLine s \<noteq> []" by auto
  with line(1) have "last (srtBlock n s) \<noteq> CHR 0x0A"
    by (simp add: srtBlock_def) (metis last_in_set)
  moreover have "srtBlock n s \<noteq> []" by (simp add: srtBlock_def)
  ultimately show ?case using Cons by (cases ss) auto
qed simp

section \<open>WebVTT\<close>

definition vttCueOf :: "Segment \<Rightarrow> Cue" where
  "vttCueOf s = \<lparr>cue_StartMS = sg_StartMS s, cue_EndMS = sg_EndMS s, cue_Text = trimSpace (cueLine s)\<rparr>"

fun vttText :: "Segment list \<Rightarrow> string" where
  "vttText [] = []"
| "vttText (s # ss) = timingLine ''.'' s @ newline @ cueLine s @ newline @ newline @ vttText ss"

fun vttLines :: "Segment list \<Rightarrow> string list" where
  "vttLines [] = [[]]"
| "vttLines (s # ss) = timingLine ''.'' s # cueLine s # [] # vttLines ss"

lemma vttCues_text: "\<forall>s \<in> set ss. exportable s \<Longrightarrow> vttCues n ss = Ok (vttText ss)"
  by (induction ss arbitrary: n) (auto simp: exportable_def mapOk_def timingLine_def cueLine_def)

lemma split_vtt: "\<forall>s \<in> set ss. exportable s \<Longrightarrow> splitStr newline (vttText ss) = vttLines ss"
proof (induction ss)
  case Nil
  show ?case by (simp add: splitStr_absent)
next
  case (Cons s ss)
  then have ex: "exportable s" by simp
  have nl: "splitStr newline (newline @ r) = [] # splitStr newline r" for r
    using splitStr_first [of newline "[]" r] by simp
  show ?case
    using Cons cueLine_clean(1) [OF ex] timing_chars(1) [OF ex, of "''.''"]
    by (simp add: splitStr_first nl)
qed

lemma cueLine_nonBlank: "exportable s \<Longrightarrow> nonBlank (cueLine s)"
  unfolding nonBlank_def using trimSpace_nonempty [OF cueLine_clean(3) colon_nospace] .

lemma vttCue_cueLine:
  assumes "exportable s"
  shows "vttCue (timingLine ''.'' s) (cueLine s # [] # ls) = mapOk (Cons (vttCueOf s)) (vttLoop ([] # ls))"
proof -
  obtain a b where ab: "sg_StartMS s = int a" "sg_EndMS s = int b" "a < b" "b < 360000000"
    using assms by (rule exportable_nat)
  have "parseTiming (timingLine ''.'' s) ''.'' = Ok (sg_StartMS s, sg_EndMS s)"
    unfolding timingLine_def ab by (rule parseTiming_ts) (use ab in simp_all)
  moreover have "\<not> nonBlank []" by (simp add: nonBlank_def trimSpace_def)
  ultimately show ?thesis
    using cueLine_nonBlank [OF assms]
    by (simp only: vttCue.simps outcome.case prod.case takeWhile.simps dropWhile.simps if_True if_False
        list.map strJoin.simps vttCueOf_def simp_thms)
qed

lemma timing_not_note:
  assumes "exportable s"
  shows "\<not> hasPrefix (timingLine ''.'' s) ''NOTE''" "strContains (timingLine ''.'' s) ''-->''"
proof -
  obtain a b where ab: "sg_StartMS s = int a" "sg_EndMS s = int b" "a < b" "b < 360000000"
    using assms by (rule exportable_nat)
  then have "a < 360000000" by simp
  then have "isDigit (hd (timingLine ''.'' s))"
    using clock_parts(1) [of a] by (simp add: timingLine_def ab ts_eq clockOf_def d2_def)
  then show "\<not> hasPrefix (timingLine ''.'' s) ''NOTE''"
    by (cases "timingLine ''.'' s") (auto simp: isDigit_def byte_def)
  have "timingLine ''.'' s = (ts (sg_StartMS s) ''.'' @ '' '') @ ''-->'' @ ('' '' @ ts (sg_EndMS s) ''.'')"
    by (simp add: timingLine_def)
  then show "strContains (timingLine ''.'' s) ''-->''" unfolding strContains_iff by blast
qed

lemma vttLoop_lines: "\<forall>s \<in> set ss. exportable s \<Longrightarrow> vttLoop (vttLines ss) = Ok (map vttCueOf ss)"
proof (induction ss)
  case Nil
  show ?case by (simp add: trimSpace_def)
next
  case (Cons s ss)
  then have ex: "exportable s" by simp
  note time = timing_chars [OF ex, of "''.''"]
  have trim: "trimSpace (timingLine ''.'' s) = timingLine ''.'' s"
    by (rule trimSpace_ends) (use time(3-5) in simp_all)
  have blank: "vttLoop ([] # ls) = vttLoop ls" for ls by (simp add: trimSpace_def)
  have "vttLoop (vttLines (s # ss)) = vttCue (timingLine ''.'' s) (cueLine s # [] # vttLines ss)"
    using timing_not_note [OF ex] time(3) by (simp del: vttCue.simps add: trim Let_def)
  then show ?case using Cons by (simp only: vttCue_cueLine [OF ex] blank) (simp add: mapOk_def)
qed

lemma vttText_noCR: "\<forall>s \<in> set ss. exportable s \<Longrightarrow> CHR 0x0D \<notin> set (vttText ss)"
proof (induction ss)
  case (Cons s ss)
  then have "exportable s" by simp
  with cueLine_clean [OF this] timing_chars(2) [OF this, of "''.''"] Cons show ?case by simp
qed simp

section \<open>The round trips\<close>

lemma checkCues_ok:
  assumes "sorted_wrt (\<lambda>c d. cue_StartMS c \<le> cue_StartMS d) cs"
    and "\<And>c. c \<in> set cs \<Longrightarrow> prev \<le> cue_StartMS c \<and> cue_StartMS c < cue_EndMS c \<and> trimSpace (cue_Text c) \<noteq> []"
  shows "checkCuesLoop fmt n prev cs = Ok ()"
  using assms
proof (induction cs arbitrary: n prev)
  case (Cons c cs)
  from Cons.prems(2) [of c] have c: "prev \<le> cue_StartMS c" "cue_StartMS c < cue_EndMS c"
    "trimSpace (cue_Text c) \<noteq> []" by auto
  have "checkCuesLoop fmt (n + 1) (cue_StartMS c) cs = Ok ()"
    using Cons.prems by (intro Cons.IH) auto
  with c show ?case by simp
qed simp

lemma trimRight_keeps: "c \<in> set s \<Longrightarrow> \<not> isSpaceByte c \<Longrightarrow> c \<in> set (trimRight s)"
  unfolding trimRight_def by (metis Un_iff set_append set_rev set_takeWhileD takeWhile_dropWhile_id)

lemma trimSpace_keeps: "c \<in> set s \<Longrightarrow> \<not> isSpaceByte c \<Longrightarrow> c \<in> set (trimSpace s)"
  unfolding trimSpace_def by (metis Un_iff set_append set_rev set_takeWhileD takeWhile_dropWhile_id)

lemma checkCues_segments:
  assumes "\<forall>s \<in> set ss. exportable s" and "ss \<noteq> []" and "sorted (map sg_StartMS ss)"
    and f: "\<And>s. cue_StartMS (f s) = sg_StartMS s \<and> cue_EndMS (f s) = sg_EndMS s"
    and body: "\<And>s. exportable s \<Longrightarrow> CHR '':'' \<in> set (cue_Text (f s))"
  shows "checkCues (map f ss) fmt = Ok ()"
proof -
  have "sorted_wrt (\<lambda>c d. cue_StartMS c \<le> cue_StartMS d) (map f ss)"
    using assms(3) by (simp add: sorted_wrt_map f)
  moreover have "- 1 \<le> cue_StartMS c \<and> cue_StartMS c < cue_EndMS c \<and> trimSpace (cue_Text c) \<noteq> []"
    if c: "c \<in> set (map f ss)" for c
  proof -
    from c obtain s where s: "s \<in> set ss" "c = f s" by auto
    with assms(1) have "exportable s" by blast
    with s f [of s] trimSpace_nonempty [OF body colon_nospace] show ?thesis by (simp add: exportable_def)
  qed
  ultimately have "checkCuesLoop fmt 1 (- 1) (map f ss) = Ok ()" by (rule checkCues_ok)
  with assms(2) show ?thesis by (simp add: checkCues_def)
qed

text \<open>
  C17: exportable SubRip documents parse back.  For every transcript with at least one non-blank segment and
  fewer than \<open>2 ^ 63\<close> segments, whose non-blank segments are in order of their start times, start at zero or
  later, end after they start, stay below 100 hours and have no line breaks in labels and text, \<open>SRT\<close>
  produces a document that \<open>ParseSRT\<close> reads as one cue per non-blank segment, with its times and its label and
  text without trailing white space, and that \<open>ValidateSRT\<close> accepts.
\<close>

theorem srt_roundtrip:
  assumes "\<forall>s \<in> set (cueSegments segs). exportable s" and "cueSegments segs \<noteq> []"
    and "length segs < 2 ^ 63" and "sorted (map sg_StartMS (cueSegments segs))"
  shows "\<exists>data. exportSRT segs = Ok data \<and> parseSRT data = Ok (map srtCue (cueSegments segs))
       \<and> validateSRT data = Ok ()"
proof -
  let ?ss = "cueSegments segs"
  let ?d = "srtText 1 ?ss"
  have "exportSRT segs = Ok ?d" using assms(2) srtCues_text [OF assms(1)] by (simp add: exportSRT_def)
  moreover have "length ?ss \<le> length segs" by (simp add: cueSegments_def)
  then have "parseSRTLoop 1 (srtBlocks 1 ?ss) = Ok (map srtCue ?ss)"
    using assms(3) by (intro parse_blocks [OF assms(1)]) simp
  then have parse: "parseSRT ?d = Ok (map srtCue ?ss)"
    using srtText_noCR [OF assms(1), of 1] join_last [OF assms(1,2), of 1] split_srt [OF assms(1,2), of 1]
    by (simp add: parseSRT_def replaceCRLF_id srtText_join [OF assms(2)] trimRightNL_snoc)
  moreover have "checkCues (map srtCue ?ss) ''srt'' = Ok ()"
    using assms(1,2,4)
  proof (rule checkCues_segments)
    show "cue_StartMS (srtCue s) = sg_StartMS s \<and> cue_EndMS (srtCue s) = sg_EndMS s" for s
      by (simp add: srtCue_def)
    show "CHR '':'' \<in> set (cue_Text (srtCue s))" if "exportable s" for s
      using trimRight_keeps [OF cueLine_clean(3) [OF that] colon_nospace] by (simp add: srtCue_def)
  qed
  ultimately show ?thesis by (auto simp: validateSRT_def thenCheck_def)
qed

text \<open>
  C18: exportable WebVTT documents parse back.  For every transcript with at least one non-blank segment, whose
  non-blank segments are in order of their start times, start at zero or later, end after they start, stay below
  100 hours and have no line breaks in labels and text, \<open>VTT\<close> produces a document that \<open>ParseVTT\<close> reads as one
  cue per non-blank segment, with its times and its label and text trimmed on both sides, and that
  \<open>ValidateVTT\<close> accepts.
\<close>

theorem vtt_roundtrip:
  assumes "\<forall>s \<in> set (cueSegments segs). exportable s" and "cueSegments segs \<noteq> []"
    and "sorted (map sg_StartMS (cueSegments segs))"
  shows "\<exists>data. exportVTT segs = Ok data \<and> parseVTT data = Ok (map vttCueOf (cueSegments segs))
       \<and> validateVTT data = Ok ()"
proof -
  let ?ss = "cueSegments segs"
  let ?d = "''WEBVTT'' @ newline @ newline @ vttText ?ss"
  have "exportVTT segs = Ok ?d" using assms(2) vttCues_text [OF assms(1), of 1] by (simp add: exportVTT_def mapOk_def)
  moreover have "splitStr newline (replaceCRLF ?d) = ''WEBVTT'' # [] # vttLines ?ss"
  proof -
    have "CHR 0x0D \<notin> set ?d" using vttText_noCR [OF assms(1)] by simp
    moreover have "splitStr newline (newline @ r) = [] # splitStr newline r" for r
      using splitStr_first [of newline "[]" r] by simp
    ultimately show ?thesis
      using split_vtt [OF assms(1)] splitStr_first [of newline "''WEBVTT''" "newline @ vttText ?ss"]
      by (simp add: replaceCRLF_id)
  qed
  moreover have "vttLoop ([] # ls) = vttLoop ls" for ls by (simp add: trimSpace_def)
  moreover have "trimSpace ''WEBVTT'' = ''WEBVTT''" by (simp add: go_string_eval)
  ultimately have parse: "exportVTT segs = Ok ?d \<and> parseVTT ?d = Ok (map vttCueOf ?ss)"
    using vttLoop_lines [OF assms(1)] by (simp del: vttLoop.simps add: parseVTT_def Let_def)
  have "checkCues (map vttCueOf ?ss) ''vtt'' = Ok ()"
    using assms
  proof (rule checkCues_segments)
    show "cue_StartMS (vttCueOf s) = sg_StartMS s \<and> cue_EndMS (vttCueOf s) = sg_EndMS s" for s
      by (simp add: vttCueOf_def)
    show "CHR '':'' \<in> set (cue_Text (vttCueOf s))" if "exportable s" for s
      using trimSpace_keeps [OF cueLine_clean(3) [OF that] colon_nospace] by (simp add: vttCueOf_def)
  qed
  with parse show ?thesis by (auto simp: validateVTT_def thenCheck_def)
qed

end
