(* ===== verification/Job_Validate.thy ===== *)
theory Job_Validate
  imports Job_Roundtrip
begin

text \<open>
  The subtitle round trips at work on a sample transcript, and where the subtitle parsers leave the
  error path: \<open>ParseVTT\<close> never panics, \<open>ParseSRT\<close> does on a timing line without an end time.
\<close>

section \<open>The round trips on a transcript\<close>

definition sampleTalk :: "Segment list" where
  "sampleTalk =
     [\<lparr>sg_SegmentID = 1, sg_TranscriptVersionID = 9, sg_StartMS = 0, sg_EndMS = 1500,
       sg_SpeakerLabel = ''Ana'', sg_Text = ''hello'', sg_Confidence = None, sg_Flags = Map.empty\<rparr>,
      \<lparr>sg_SegmentID = 2, sg_TranscriptVersionID = 9, sg_StartMS = 1600, sg_EndMS = 61000,
       sg_SpeakerLabel = ''Rui'', sg_Text = ''good bye'', sg_Confidence = None, sg_Flags = Map.empty\<rparr>]"

lemma sampleTalk_cues: "cueSegments sampleTalk = sampleTalk"
  by (simp add: cueSegments_def sampleTalk_def go_string_eval)

lemma sampleTalk_exportable: "\<forall>s \<in> set (cueSegments sampleTalk). exportable s"
  unfolding sampleTalk_cues by (simp add: sampleTalk_def exportable_def)

theorem srt_roundtrip_witness:
  "\<exists>data. exportSRT sampleTalk = Ok data \<and> parseSRT data = Ok (map srtCue sampleTalk)
     \<and> validateSRT data = Ok ()"
  using srt_roundtrip [OF sampleTalk_exportable] unfolding sampleTalk_cues
  by (simp add: sampleTalk_def)

theorem vtt_roundtrip_witness:
  "\<exists>data. exportVTT sampleTalk = Ok data \<and> parseVTT data = Ok (map vttCueOf sampleTalk)
     \<and> validateVTT data = Ok ()"
  using vtt_roundtrip [OF sampleTalk_exportable] unfolding sampleTalk_cues
  by (simp add: sampleTalk_def)

section \<open>Where the parsers panic\<close>

lemma clockFields_total: "clockFields v ps \<noteq> Panic"
  by (induction ps) (simp_all split: option.split)

lemma parseClock_total: "parseClock v sep \<noteq> Panic"
  unfolding parseClock_def badTimestamp_def Let_def
  using clockFields_total by (auto split: option.splits prod.splits outcome.splits if_splits)

lemma trimSpace_last: "trimSpace p \<noteq> [] \<Longrightarrow> \<not> isSpaceByte (last (trimSpace p))"
  unfolding trimSpace_def using hd_dropWhile [of isSpaceByte "rev (dropWhile isSpaceByte p)"]
  by (simp add: last_rev)

lemma firstField_panics: "firstField (trimSpace p) = Panic \<longleftrightarrow> trimSpace p = []"
proof
  assume "firstField (trimSpace p) = Panic"
  then have "dropWhile isSpaceByte (trimSpace p) = []" by (auto simp: firstField_def split: list.splits)
  then have blank: "\<forall>c \<in> set (trimSpace p). isSpaceByte c" by (simp add: dropWhile_eq_Nil_conv)
  show "trimSpace p = []"
  proof (rule ccontr)
    assume ne: "trimSpace p \<noteq> []"
    with blank show False using trimSpace_last [OF ne] last_in_set [OF ne] by blast
  qed
next
  assume "trimSpace p = []"
  then show "firstField (trimSpace p) = Panic" by (simp add: firstField_def)
qed

lemma parseTiming_panics:
  "parseTiming line sep = Panic \<longleftrightarrow>
     (\<exists>p0 p1 v. splitStr '' --> '' line = [p0, p1] \<and> parseClock (trimSpace p0) sep = Ok v \<and> trimSpace p1 = [])"
proof (cases "\<exists>p0 p1. splitStr '' --> '' line = [p0, p1]")
  case True
  then obtain p0 p1 where sp: "splitStr '' --> '' line = [p0, p1]" by blast
  show ?thesis
    using parseClock_total [of "trimSpace p0" sep] parseClock_total [of _ sep] firstField_panics [of p1]
    by (cases "parseClock (trimSpace p0) sep"; cases "firstField (trimSpace p1)")
      (simp_all add: parseTiming_def sp)
next
  case False
  then show ?thesis by (auto simp: parseTiming_def split: list.splits)
qed

lemma splitStr_nonempty: "splitStr sep s \<noteq> []"
  by (subst splitStr.simps) (simp split: option.split)

lemma splitStr_join: "strJoin sep (splitStr sep s) = s"
proof (induction sep s rule: splitStr.induct)
  case (1 sep s)
  consider "sep = []" | "sep \<noteq> []" "cutStr sep s = None" | l r where "sep \<noteq> []" "cutStr sep s = Some (l, r)"
    by (cases "cutStr sep s") auto
  then show ?case
  proof cases
    case 1
    then show ?thesis by (subst splitStr.simps) simp
  next
    case 2
    then show ?thesis by (simp add: splitStr_none)
  next
    case 3
    obtain y ys where y: "splitStr sep r = y # ys" using splitStr_nonempty by (cases "splitStr sep r") simp_all
    have "strJoin sep (splitStr sep r) = r" using 1 3 by blast
    then have "strJoin sep (l # splitStr sep r) = s" using cutStr_Some [OF 3(2)] by (simp add: y)
    then show ?thesis by (simp only: splitStr_cut [OF 3])
  qed
qed

lemma trimmed_line_ends:
  assumes "splitStr '' --> '' (trimSpace l) = [p0, p1]"
  shows "trimSpace p1 \<noteq> []"
proof
  assume blank: "trimSpace p1 = []"
  have line: "trimSpace l = p0 @ '' --> '' @ p1" using splitStr_join [of "'' --> ''" "trimSpace l"] assms by simp
  then have ne: "trimSpace l \<noteq> []" by simp
  have "isSpaceByte (last (trimSpace l))"
  proof (cases "p1 = []")
    case True
    then have "last (trimSpace l) = CHR '' ''" by (simp add: line)
    then show ?thesis by (simp add: isSpaceByte_def byte_def)
  next
    case False
    then have "last (trimSpace l) = last p1" "last p1 \<in> set p1" by (simp_all add: line)
    with blank show ?thesis using trimSpace_nonempty by metis
  qed
  with trimSpace_last [OF ne] show False by blast
qed

lemma vttLoop_total:
  "vttLoop ls \<noteq> Panic"
  "\<exists>l. line = trimSpace l \<Longrightarrow> vttCue line ls \<noteq> Panic"
proof (induction ls and line ls rule: vttLoop_vttCue.induct)
  case (2 l ls)
  then show ?case by (auto simp: Let_def formatError_def simp del: vttCue.simps split: list.split)
next
  case (3 line ls)
  then obtain l where l: "line = trimSpace l" by blast
  have "parseTiming line ''.'' \<noteq> Panic" unfolding parseTiming_panics using trimmed_line_ends l by blast
  with 3 show ?case by (auto simp: formatError_def split: outcome.split)
qed simp

text \<open>A SubRip document whose only timing line has no end time.\<close>

definition openCue :: string where
  "openCue = ''1'' @ newline @ ''00:00:01,000 --> '' @ newline @ ''hi''"

lemma openCue_reading:
  "replaceCRLF openCue = openCue" "trimRightNL openCue = openCue"
  "splitStr (newline @ newline) openCue = [openCue]" "trimSpace openCue = openCue"
  "splitStr newline openCue = [''1'', ''00:00:01,000 --> '', ''hi'']" "atoi (trimSpace ''1'') = Some 1"
proof -
  show "replaceCRLF openCue = openCue" by (rule replaceCRLF_id) (simp add: openCue_def newline_def)
  show "trimRightNL openCue = openCue" by (simp add: openCue_def newline_def trimRightNL_def)
  show "splitStr (newline @ newline) openCue = [openCue]"
    by (simp add: openCue_def splitStr.simps newline_def)
  show "trimSpace openCue = openCue"
    by (rule trimSpace_ends) (simp_all add: openCue_def isSpaceByte_def byte_def newline_def)
  show "splitStr newline openCue = [''1'', ''00:00:01,000 --> '', ''hi'']"
    by (simp add: openCue_def splitStr.simps newline_def)
  show "atoi (trimSpace ''1'') = Some 1" by (simp add: go_string_eval)
qed

lemma openCue_timing: "parseTiming ''00:00:01,000 --> '' '','' = Panic"
proof -
  have "splitStr '' --> '' ''00:00:01,000 --> '' = [''00:00:01,000'', []]" by (simp add: splitStr.simps)
  moreover have "trimSpace ''00:00:01,000'' = ''00:00:01,000''"
    by (rule trimSpace_ends) (simp_all add: isSpaceByte_def byte_def)
  moreover have "parseClock ''00:00:01,000'' '','' = Ok 1000"
    by (simp add: parseClock_def splitStr.simps atoi_def parseDigits_def isDigit_def digitsVal_def
        digitVal_def byte_def mapOk_def)
  ultimately show ?thesis by (auto simp: parseTiming_panics) (simp add: trimSpace_def)
qed

text \<open>
  C37: Totality of the subtitle parsers.  \<open>ParseVTT\<close> answers cues or an error on every document.
  A timing line panics exactly when its start is a valid time and nothing but white space follows
  the arrow; \<open>ParseVTT\<close> trims the line first and so never meets one, \<open>ParseSRT\<close> does, and panics
  on the document of one cue whose timing line is \<open>00:00:01,000 --> \<close>.
\<close>

theorem subtitle_parsers_panic:
  "parseVTT data \<noteq> Panic \<and> parseSRT openCue = Panic
   \<and> (parseTiming line sep = Panic \<longleftrightarrow>
     (\<exists>p0 p1 v. splitStr '' --> '' line = [p0, p1] \<and> parseClock (trimSpace p0) sep = Ok v \<and> trimSpace p1 = []))"
proof (intro conjI)
  show "parseVTT data \<noteq> Panic" using vttLoop_total(1) by (simp add: parseVTT_def Let_def formatError_def)
  show "parseSRT openCue = Panic"
    by (simp add: parseSRT_def openCue_reading parseSRTBlock_def Let_def openCue_timing)
qed (rule parseTiming_panics)

end
