(* ===== verification/Job_Tools.thy ===== *)
theory Job_Tools
  imports Job_World Job_Validate
begin

text \<open>
  The tools of \<open>transcript-agent/backend/internal/tools/tools.go\<close>: submission, the configuration
  snapshot, metadata, the caption tools and the disabled publication.  A tool that moves its job
  (\<open>*job = *updated\<close>) returns the new value beside its result.
\<close>

section \<open>URIs\<close>

definition pathExt :: "string \<Rightarrow> string" where
  "pathExt uri =
     (let base = takeWhile (\<lambda>c. c \<noteq> CHR ''?'') uri in
      if CHR ''.'' \<in> set base then CHR ''.'' # rev (takeWhile (\<lambda>c. c \<noteq> CHR ''.'') (rev base)) else [])"

definition SupportedUploadExtensions :: "string list" where
  "SupportedUploadExtensions = [''mp3'', ''m4a'', ''wav'', ''mp4'', ''mov'']"

definition validateSourceURI :: "string \<Rightarrow> string \<Rightarrow> unit outcome" where
  "validateSourceURI sourceType sourceURI =
     (if trimSpace sourceURI = [] then Err (E ''INVALID_SOURCE_URI'' ''source_uri is required'')
      else if sourceType = ''youtube'' then
        (if \<not> strContains sourceURI ''youtube.com'' \<and> \<not> strContains sourceURI ''youtu.be''
         then Err (E ''INVALID_SOURCE_URI'' (''source_uri does not look like a YouTube URL: '' @ sourceURI))
         else Ok ())
      else if sourceType = ''upload'' then
        (if hasPrefix sourceURI ''upload://'' then Ok ()
         else if hasPrefix sourceURI ''mock://'' then
           (let ext = toLower (trimPrefix ''.'' (pathExt sourceURI)) in
            if ext \<notin> set SupportedUploadExtensions
            then Err (E ''UNSUPPORTED_FORMAT'' (''this file type is not supported (got '' @ goQuote ext
                   @ ''); supported: '' @ strJoin '', '' SupportedUploadExtensions))
            else Ok ())
         else Err (E ''INVALID_SOURCE_URI''
                ''upload source_uri must be an upload:// URI returned by POST /api/v1/uploads''))
      else Err (E ''UNSUPPORTED_SOURCE_TYPE'' (''source_type must be '' @ goQuote ''youtube'' @ '' or ''
             @ goQuote ''upload'' @ '', got '' @ goQuote sourceType)))"

definition liftOutcome :: "'a outcome \<Rightarrow> 'a action" where
  "liftOutcome r w = (r, w)"

text \<open>\<open>time.Duration(days) * 24 * time.Hour\<close>, in nanoseconds of 64 bits.\<close>

definition durationDays :: "int \<Rightarrow> int" where
  "durationDays days = wrapInt (days * 86400000000000)"

definition retentionUntil :: "Env \<Rightarrow> time \<Rightarrow> time" where
  "retentionUntil env t =
     (let days = (if en_RetentionDays env \<le> 0 then 30 else en_RetentionDays env) in t + durationDays days)"

definition resolveUploadURI :: "Env \<Rightarrow> string \<Rightarrow> MediaArtifact action" where
  "resolveUploadURI env uri =
     (case en_parseUUID env (trimPrefix ''upload://'' uri) of
        None \<Rightarrow> failWith (E ''INVALID_SOURCE_URI'' (''invalid upload URI '' @ goQuote uri))
      | Some i \<Rightarrow>
          andThen (attempt (reads env (getArtifact i))) (\<lambda>r.
            let unresolved = failWith (E ''INVALID_SOURCE_URI''
                  (''upload URI '' @ goQuote uri @ '' does not resolve to an uploaded media artifact''))
            in case r of
                 Inl _ \<Rightarrow> unresolved
               | Inr art \<Rightarrow> if ma_ArtifactType art \<noteq> ''source_media'' then unresolved else ret art))"

definition episodeFromLibraryURI :: "Env \<Rightarrow> string \<Rightarrow> Episode action" where
  "episodeFromLibraryURI env uri =
     (case en_parseUUID env (trimPrefix ''library://'' uri) of
        None \<Rightarrow> failWith (E ''INVALID_SOURCE_URI'' (''invalid library URI '' @ goQuote uri))
      | Some i \<Rightarrow> reads env (getEpisode i))"

definition mediaSourceURI :: "Env \<Rightarrow> Job \<Rightarrow> string action" where
  "mediaSourceURI env job =
     (if j_SourceType job = ''upload'' \<and> hasPrefix (j_SourceURI job) ''upload://'' then
        andThen (resolveUploadURI env (j_SourceURI job)) (\<lambda>art. ret (ma_URI art))
      else if j_SourceType job = ''upload'' \<and> hasPrefix (j_SourceURI job) ''library://'' then
        andThen (episodeFromLibraryURI env (j_SourceURI job)) (\<lambda>ep.
          case ep_MediaArtifactID ep of
            None \<Rightarrow> failWith (E ''MEDIA_NOT_FOUND''
              (''library episode '' @ uuidStr (ep_EpisodeID ep) @ '' has no downloaded media yet''))
          | Some a \<Rightarrow> andThen (reads env (getArtifact a)) (\<lambda>art. ret (ma_URI art)))
      else ret (j_SourceURI job))"

section \<open>Submission and configuration\<close>

record SubmitMediaJobInput =
  smi_SourceType :: string
  smi_SourceURI :: string
  smi_Language :: string
  smi_SubmittedBy :: string
  smi_OwnershipAttested :: bool

definition linkStaged :: "Env \<Rightarrow> uuid \<Rightarrow> MediaArtifact \<Rightarrow> time \<Rightarrow> unit action" where
  "linkStaged env jobID staged t =
     andThen (newUUID env) (\<lambda>i.
       inserts env (createArtifact
         \<lparr>ma_ArtifactID = i, ma_JobID = jobID, ma_ArtifactType = ''source_media'', ma_URI = ma_URI staged,
          ma_MimeType = ma_MimeType staged, ma_SizeBytes = ma_SizeBytes staged, ma_Superseded = False,
          ma_RetentionUntil = Some (retentionUntil env t), ma_CreatedAt = t\<rparr>))"

definition submittedJob :: "uuid \<Rightarrow> time \<Rightarrow> string \<Rightarrow> SubmitMediaJobInput \<Rightarrow> Job" where
  "submittedJob i t lang input =
     \<lparr>j_JobID = i, j_SourceType = smi_SourceType input, j_SourceURI = smi_SourceURI input,
      j_Status = StatusSubmitted, j_SubmittedBy = smi_SubmittedBy input, j_OwnershipAttested = True,
      j_Language = lang, j_JobConfigID = None, j_DurationSeconds = 0, j_ActionRequired = [],
      j_LastError = None, j_CaptionsAvailable = False, j_CaptionTrackID = [], j_CaptionReuse = None,
      j_CancelReason = [], j_LibraryMode = False, j_SourceBasis = [], j_CreatedAt = t, j_UpdatedAt = t\<rparr>"

text \<open>The staged artifact of an upload, checked before anything is written.\<close>

definition stagedSource :: "Env \<Rightarrow> string \<Rightarrow> string \<Rightarrow> MediaArtifact option action" where
  "stagedSource env sourceType sourceURI =
     (if sourceType = ''upload'' \<and> hasPrefix sourceURI ''upload://''
      then andThen (resolveUploadURI env sourceURI) (\<lambda>art. ret (Some art))
      else ret None)"

definition submitMediaJob :: "Env \<Rightarrow> SubmitMediaJobInput \<Rightarrow> Job action" where
  "submitMediaJob env input =
     (if \<not> smi_OwnershipAttested input
      then failWith (E ''OWNERSHIP_ATTESTATION_MISSING'' ''please confirm ownership/licensing before submission'')
      else
        andThen (liftOutcome (validateSourceURI (smi_SourceType input) (smi_SourceURI input))) (\<lambda>_.
        andThen (stagedSource env (smi_SourceType input) (smi_SourceURI input)) (\<lambda>staged.
        let lang = (if smi_Language input = [] then ''en'' else smi_Language input) in
        if lang \<noteq> ''en''
        then failWith (E ''LANGUAGE_UNSUPPORTED'' (''MVP is English-only (language=en), got '' @ goQuote lang))
        else
          andThen (now env) (\<lambda>t.
          andThen (newUUID env) (\<lambda>i.
          let job = submittedJob i t lang input in
          andThen (inserts env (createJob job)) (\<lambda>_.
          andThen (case staged of None \<Rightarrow> ret () | Some art \<Rightarrow> linkStaged env i art t) (\<lambda>_.
          andThen (audit env (Some i) ''user'' (smi_SubmittedBy input) ''job.submitted'' (map_of
            [(''source_type'', AnyString (smi_SourceType input)),
             (''source_uri_hash'', AnyString (en_URIHash env (smi_SourceURI input))),
             (''language'', AnyString lang), (''ownership_attested'', AnyBool True)])) (\<lambda>_.
          ret job))))))))"

definition defaultJobConfig :: "string \<Rightarrow> JobConfig" where
  "defaultJobConfig sttProvider =
     \<lparr>jc_JobConfigID = uuidNil, jc_JobID = uuidNil, jc_Language = ''en'', jc_ConfidenceThreshold = 8 / 10,
      jc_EnableDiarization = True, jc_ExpectedSpeakerCount = None, jc_StylePolicyID = ''default-clean-v1'',
      jc_SummaryMaxWords = 150, jc_SummaryStyle = ''neutral-professional'', jc_STTProvider = sttProvider,
      jc_STTModel = [], jc_MaxDurationSeconds = None, jc_CreatedBy = [], jc_CreatedAt = 0\<rparr>"

definition snapshotConfig :: "Env \<Rightarrow> JobConfig" where
  "snapshotConfig env =
     (let cfg = (case en_ConfigDefaults env of
            None \<Rightarrow> defaultJobConfig (en_STTProvider env)
          | Some d \<Rightarrow> if jc_STTProvider d = [] then d\<lparr>jc_STTProvider := en_STTProvider env\<rparr> else d)
      in if jc_STTProvider cfg = [] then cfg\<lparr>jc_STTProvider := ''mock''\<rparr> else cfg)"

definition createConfigSnapshot :: "Env \<Rightarrow> Job \<Rightarrow> string \<Rightarrow> (JobConfig \<times> Job) action" where
  "createConfigSnapshot env job createdBy =
     andThen (newUUID env) (\<lambda>i.
     andThen (now env) (\<lambda>t.
     let cfg = (snapshotConfig env)\<lparr>jc_JobConfigID := i, jc_JobID := j_JobID job,
                 jc_Language := j_Language job, jc_CreatedBy := createdBy, jc_CreatedAt := t\<rparr> in
     andThen (inserts env (createJobConfig cfg)) (\<lambda>_.
     andThen (transitionA env (j_JobID job) (j_Status job) (\<lambda>_ j. Ok (j\<lparr>j_JobConfigID := Some i\<rparr>))) (\<lambda>updated.
     andThen (audit env (Some (j_JobID updated)) ''system'' createdBy ''job_config.snapshot_created'' (map_of
       [(''job_config_id'', AnyString (uuidStr i)),
        (''confidence_threshold'', AnyFloat (jc_ConfidenceThreshold cfg)),
        (''enable_diarization'', AnyBool (jc_EnableDiarization cfg)),
        (''style_policy_id'', AnyString (jc_StylePolicyID cfg)),
        (''summary_max_words'', AnyInt (jc_SummaryMaxWords cfg)),
        (''summary_style'', AnyString (jc_SummaryStyle cfg)),
        (''stt_provider'', AnyString (jc_STTProvider cfg))])) (\<lambda>_.
     ret (cfg, updated))))))"

definition configOf :: "Env \<Rightarrow> Job \<Rightarrow> JobConfig action" where
  "configOf env job =
     (case j_JobConfigID job of
        None \<Rightarrow> failWith (E ''VALIDATION_ERROR'' (''job '' @ uuidStr (j_JobID job) @ '' has no config snapshot yet''))
      | Some i \<Rightarrow> reads env (getJobConfig i))"

section \<open>Metadata and captions\<close>

definition getMediaMetadata :: "Env \<Rightarrow> Job \<Rightarrow> (Metadata \<times> Job) action" where
  "getMediaMetadata env job =
     andThen (attempt (mediaSourceURI env job)) (\<lambda>r. case r of
       Inl e \<Rightarrow> toolFailed env (j_JobID job) ''get_media_metadata'' (errPayload e) e
     | Inr sourceURI \<Rightarrow>
         andThen (attempt (outside (\<lambda>n. en_Metadata env n (j_SourceType job) sourceURI))) (\<lambda>r. case r of
           Inl e \<Rightarrow> toolFailed env (j_JobID job) ''get_media_metadata'' (errPayload e) e
         | Inr meta \<Rightarrow>
             if md_AudioTracks meta = 0
             then toolFailed env (j_JobID job) ''get_media_metadata''
                    (map_of [(''error_code'', AnyString ''NO_AUDIO_TRACK'')])
                    (E ''NO_AUDIO_TRACK'' ''no audio track was detected; please replace the media with an audio-bearing file or confirm cancellation'')
             else
               andThen (transitionA env (j_JobID job) (j_Status job)
                   (\<lambda>_ j. Ok (j\<lparr>j_DurationSeconds := md_DurationSeconds meta\<rparr>))) (\<lambda>updated.
               andThen (audit env (Some (j_JobID updated)) ''tool'' ''get_media_metadata''
                 ''tool.get_media_metadata.completed'' (map_of
                   [(''duration_seconds'', AnyInt (md_DurationSeconds meta)), (''format'', AnyString (md_Format meta)),
                    (''audio_tracks'', AnyInt (md_AudioTracks meta)), (''video_tracks'', AnyInt (md_VideoTracks meta)),
                    (''codec'', AnyString (md_Codec meta)), (''sample_rate_hz'', AnyInt (md_SampleRateHz meta))])) (\<lambda>_.
               ret (meta, updated)))))"

text \<open>Only official downloadable tracks are reusable.\<close>

definition reusableTrack :: "CheckResult \<Rightarrow> Track option" where
  "reusableTrack res =
     (if cr_OfficialCaptionsFound res \<and> cr_DownloadAuthorized res
      then find (\<lambda>tr. tk_CaptionType tr = ''official'' \<and> tk_Downloadable tr) (cr_Tracks res)
      else None)"

definition checkYouTubeCaptions :: "Env \<Rightarrow> Job \<Rightarrow> (CheckResult \<times> Job) action" where
  "checkYouTubeCaptions env job =
     (if j_SourceType job \<noteq> ''youtube''
      then failWith (E ''VALIDATION_ERROR'' ''caption check applies to youtube jobs only'')
      else
        andThen (attempt (outside (\<lambda>n. en_Check env n (j_SourceURI job) (j_Language job)))) (\<lambda>r. case r of
          Inl e \<Rightarrow> toolFailed env (j_JobID job) ''check_youtube_captions'' (errPayload e) e
        | Inr res \<Rightarrow>
            let track = reusableTrack res in
            andThen (transitionA env (j_JobID job) (j_Status job)
                (\<lambda>_ j. Ok (j\<lparr>j_CaptionsAvailable := track \<noteq> None,
                             j_CaptionTrackID := (case track of None \<Rightarrow> [] | Some tr \<Rightarrow> tk_CaptionTrackID tr)\<rparr>))) (\<lambda>updated.
            andThen (audit env (Some (j_JobID updated)) ''tool'' ''check_youtube_captions''
              ''tool.check_youtube_captions.completed'' (map_of
                [(''video_uri_hash'', AnyString (en_URIHash env (j_SourceURI updated))),
                 (''official_captions_found'', AnyBool (cr_OfficialCaptionsFound res)),
                 (''auto_captions_found'', AnyBool (cr_AutoCaptionsFound res)),
                 (''download_authorized'', AnyBool (cr_DownloadAuthorized res)),
                 (''reusable'', AnyBool (j_CaptionsAvailable updated))])) (\<lambda>_.
            ret (res, updated)))))"

definition keyFor :: "string \<Rightarrow> string \<Rightarrow> string \<Rightarrow> string" where
  "keyFor jobID kind filename = jobID @ ''/'' @ kind @ ''/'' @ filename"

text \<open>The artifact row of bytes just put into the object store.\<close>

definition recordArtifact :: "Env \<Rightarrow> Job \<Rightarrow> string \<Rightarrow> string \<Rightarrow> string \<Rightarrow> int \<Rightarrow> uuid action" where
  "recordArtifact env job artifactType uri mime sizeBytes =
     andThen (now env) (\<lambda>t.
     andThen (newUUID env) (\<lambda>i.
     andThen (inserts env (createArtifact
       \<lparr>ma_ArtifactID = i, ma_JobID = j_JobID job, ma_ArtifactType = artifactType, ma_URI = uri,
        ma_MimeType = mime, ma_SizeBytes = sizeBytes, ma_Superseded = False,
        ma_RetentionUntil = Some (retentionUntil env t), ma_CreatedAt = t\<rparr>)) (\<lambda>_.
     ret i)))"

definition fetchExistingCaptions :: "Env \<Rightarrow> Job \<Rightarrow> string \<Rightarrow> string action" where
  "fetchExistingCaptions env job captionTrackID =
     andThen (attempt (outside (\<lambda>n. en_Fetch env n captionTrackID))) (\<lambda>r. case r of
       Inl e \<Rightarrow> toolFailed env (j_JobID job) ''fetch_existing_captions'' (errPayload e) e
     | Inr content \<Rightarrow>
         andThen (outside (\<lambda>n. en_put env n (keyFor (uuidStr (j_JobID job)) ''captions'' ''official.vtt'') content)) (\<lambda>uri.
         andThen (recordArtifact env job ''caption_source'' uri ''text/vtt'' (int (length content))) (\<lambda>i.
         andThen (audit env (Some (j_JobID job)) ''tool'' ''fetch_existing_captions''
           ''tool.fetch_existing_captions.completed'' (map_of
             [(''caption_track_id'', AnyString captionTrackID), (''artifact_id'', AnyString (uuidStr i)),
              (''format'', AnyString ''vtt''), (''size_bytes'', AnyInt (int (length content)))])) (\<lambda>_.
         ret uri))))"

definition publishCaptionFile :: "Env \<Rightarrow> uuid \<Rightarrow> string \<Rightarrow> unit action" where
  "publishCaptionFile env jobID actorID =
     andThen (event env (Some jobID) ''tool'' ''publish_caption_file'' ''caption.publish.blocked'' (map_of
       [(''reason'', AnyString ''disabled in MVP; requires Level 3 approval-gated workflow''),
        (''actor'', AnyString actorID)])) (\<lambda>_.
     failWith (E ''DISABLED_IN_MVP'' ''publish_caption_file is defined as an interface stub only and is disabled in the MVP; publishing requires a future approval-gated workflow (Level 3)''))"

end
