(* ===== verification/Job_Captions.thy ===== *)
theory Job_Captions
  imports Job_Tools
begin

text \<open>
  The WebVTT reader of the caption path, \<open>transcript-agent/backend/internal/providers/captions/captions.go\<close>
  (more lenient than the exporter's: minutes alone, cue settings, any field width), and
  \<open>ParseCaptionsToTranscript\<close> of \<open>tools/tools.go\<close>.
\<close>

section \<open>Reading captions\<close>

definition badVTT :: "string \<Rightarrow> 'a outcome" where
  "badVTT v = Err (E ''TIMESTAMP_INVALID'' (''invalid VTT timestamp '' @ goQuote v))"

fun vttFields :: "string \<Rightarrow> string list \<Rightarrow> int list outcome" where
  "vttFields v [] = Ok []"
| "vttFields v (p # ps) = (case atoi p of
       None \<Rightarrow> badVTT v
     | Some n \<Rightarrow> if n < 0 then badVTT v else mapOk (Cons n) (vttFields v ps))"

definition parseVTTTimestamp :: "string \<Rightarrow> int outcome" where
  "parseVTTTimestamp v = (case cutStr ''.'' v of
       None \<Rightarrow> badVTT v
     | Some (main, fracPart) \<Rightarrow>
         if length fracPart \<noteq> 3 then badVTT v
         else let parts = splitStr '':'' main in
           if length parts \<noteq> 2 \<and> length parts \<noteq> 3 then badVTT v
           else case vttFields v parts of
               Ok nums \<Rightarrow> (case atoi fracPart of
                   None \<Rightarrow> badVTT v
                 | Some ms \<Rightarrow>
                     Ok (wrapInt ((if length nums = 3 then ((nums ! 0 * 60 + nums ! 1) * 60 + nums ! 2) * 1000
                          else (nums ! 0 * 60 + nums ! 1) * 1000) + ms)))
             | Err e \<Rightarrow> Err e | Panic \<Rightarrow> Panic)"

text \<open>The timing line: what stands before the first arrow, and the first field after it.\<close>

definition captionTiming :: "string \<Rightarrow> (int \<times> int) outcome" where
  "captionTiming line = (case cutStr ''-->'' line of
       None \<Rightarrow> Panic
     | Some (p0, p1) \<Rightarrow>
         (case parseVTTTimestamp (trimSpace p0) of
            Ok start \<Rightarrow>
              (case firstField (trimSpace p1) of
                 Ok endField \<Rightarrow>
                   (case parseVTTTimestamp endField of
                      Ok end \<Rightarrow>
                        if end \<le> start
                        then Err (E ''TIMESTAMP_INVALID'' (''cue end '' @ showInt end @ '' <= start '' @ showInt start))
                        else Ok (start, end)
                    | Err e \<Rightarrow> Err e | Panic \<Rightarrow> Panic)
               | _ \<Rightarrow> Err (E ''TIMESTAMP_INVALID'' (''missing end timestamp in '' @ goQuote line)))
          | Err e \<Rightarrow> Err e | Panic \<Rightarrow> Panic))"

function captionLoop :: "string list \<Rightarrow> Cue list outcome" and captionCue :: "string \<Rightarrow> string list \<Rightarrow> Cue list outcome" where
  "captionLoop [] = Ok []"
| "captionLoop (l # ls) =
     (let line = trimSpace l in
      if line = [] \<or> hasPrefix line ''NOTE'' then captionLoop ls
      else if \<not> strContains line ''-->'' then
        (case ls of
           [] \<Rightarrow> Err (E ''CAPTION_PARSE_FAILED'' (''expected timing line near '' @ goQuote line))
         | l2 # ls2 \<Rightarrow>
             if \<not> strContains l2 ''-->''
             then Err (E ''CAPTION_PARSE_FAILED'' (''expected timing line near '' @ goQuote line))
             else captionCue (trimSpace l2) ls2)
      else captionCue line ls)"
| "captionCue line ls =
     (case captionTiming line of
        Ok (start, end) \<Rightarrow>
          mapOk (Cons \<lparr>cue_StartMS = start, cue_EndMS = end,
              cue_Text = strJoin '' '' (map trimSpace (takeWhile nonBlank ls))\<rparr>)
            (captionLoop (dropWhile nonBlank ls))
      | Err e \<Rightarrow> Err e
      | Panic \<Rightarrow> Panic)"
  by pat_completeness auto
termination
proof (relation "measure (case_sum (\<lambda>ls. 2 * length ls) (\<lambda>(l, ls). 2 * length ls + 1))")
  fix ls :: "string list"
  show "(Inl (dropWhile nonBlank ls), Inr (line, ls))
      \<in> measure (case_sum (\<lambda>ls. 2 * length ls) (\<lambda>(l, ls). 2 * length ls + 1))" for line :: string
    using length_dropWhile_le [of nonBlank ls] by simp
qed auto

definition captionsParseVTT :: "string \<Rightarrow> Cue list outcome" where
  "captionsParseVTT content =
     (let lines = splitStr newline (replaceCRLF content) in
      if lines = [] \<or> \<not> hasPrefix (trimSpace (hd lines)) ''WEBVTT''
      then Err (E ''CAPTION_PARSE_FAILED'' ''missing WEBVTT header'')
      else case captionLoop (tl lines) of
          Ok [] \<Rightarrow> Err (E ''CAPTION_EMPTY_OR_TRUNCATED'' ''caption file contains no cues'')
        | r \<Rightarrow> r)"

section \<open>Captions to a raw transcript\<close>

definition cueSegment :: "Env \<Rightarrow> uuid \<Rightarrow> Cue \<Rightarrow> Segment action" where
  "cueSegment env v c =
     andThen (newUUID env) (\<lambda>i. ret
       \<lparr>sg_SegmentID = i, sg_TranscriptVersionID = v, sg_StartMS = cue_StartMS c, sg_EndMS = cue_EndMS c,
        sg_SpeakerLabel = ''Speaker 1'', sg_Text = cue_Text c, sg_Confidence = None,
        sg_Flags = [''caption_origin'' \<mapsto> True]\<rparr>)"

definition rawVersion :: "uuid \<Rightarrow> Job \<Rightarrow> string \<Rightarrow> time \<Rightarrow> TranscriptVersion" where
  "rawVersion v job createdBy t =
     \<lparr>tv_TranscriptVersionID = v, tv_JobID = j_JobID job, tv_VersionType = VersionRaw,
      tv_SourceVersionID = None, tv_CreatedBy = createdBy, tv_IsImmutable = False, tv_CreatedAt = t\<rparr>"

definition parseCaptionsToTranscript :: "Env \<Rightarrow> Job \<Rightarrow> string \<Rightarrow> JobConfig \<Rightarrow> (TranscriptVersion \<times> int) action" where
  "parseCaptionsToTranscript env job captionArtifactURI cfg =
     andThen (attempt (outside (\<lambda>n. en_get env n captionArtifactURI))) (\<lambda>r. case r of
       Inl e \<Rightarrow> failWith (E ''CAPTION_PARSE_FAILED'' (''read caption artifact: '' @ errString e))
     | Inr content \<Rightarrow>
         (case captionsParseVTT content of
            Err e \<Rightarrow> toolFailed env (j_JobID job) ''parse_captions_to_transcript'' (errPayload e) e
          | Panic \<Rightarrow> liftOutcome Panic
          | Ok cues \<Rightarrow>
              andThen (newUUID env) (\<lambda>v.
              andThen (now env) (\<lambda>t.
              let version = rawVersion v job ''tool:parse_captions_to_transcript'' t in
              andThen (mapA (cueSegment env v) cues) (\<lambda>segs.
              andThen (inserts env (createVersion version segs)) (\<lambda>_.
              andThen (audit env (Some (j_JobID job)) ''tool'' ''parse_captions_to_transcript''
                ''tool.parse_captions_to_transcript.completed'' (map_of
                  [(''caption_artifact_uri_hash'', AnyString (en_URIHash env captionArtifactURI)),
                   (''transcript_version_id'', AnyString (uuidStr v)),
                   (''segment_count'', AnyInt (int (length segs))),
                   (''confidence_available'', AnyBool False), (''speaker_labels_available'', AnyBool False),
                   (''job_config_id'', AnyString (uuidStr (jc_JobConfigID cfg)))])) (\<lambda>_.
              ret (version, int (length segs)))))))))"

end
