(* ===== verification/Job_Pipeline.thy ===== *)
theory Job_Pipeline
  imports Job_Captions
begin

text \<open>
  The pipeline tools, \<open>transcript-agent/backend/internal/tools/pipeline.go\<close>: audio extraction,
  transcription, normalisation and the quality check.  \<open>float64\<close> values are exact rationals.
\<close>

section \<open>Audio\<close>

definition audioName :: "string \<Rightarrow> string" where
  "audioName sourceURI =
     foldl (\<lambda>name marker. if strContains sourceURI marker then name @ ''-'' @ marker else name)
       ''normalized'' [''stt-timeout-once'', ''stt-quota'', ''no-diarization'']"

definition extractAudio :: "Env \<Rightarrow> Job \<Rightarrow> string action" where
  "extractAudio env job =
     (let failed = (\<lambda>e. toolFailed env (j_JobID job) ''extract_audio'' (errPayload e) e) in
      andThen (attempt (mediaSourceURI env job)) (\<lambda>r. case r of Inl e \<Rightarrow> failed e | Inr sourceURI \<Rightarrow>
      andThen (attempt (outside (\<lambda>n. en_ExtractAudio env n (j_SourceType job) sourceURI))) (\<lambda>r. case r of
        Inl e \<Rightarrow> failed e
      | Inr (content, meta) \<Rightarrow>
          andThen (attempt (outside (\<lambda>n. en_put env n
              (keyFor (uuidStr (j_JobID job)) ''audio'' (audioName (j_SourceURI job) @ ''.wav'')) content))) (\<lambda>r. case r of
            Inl e \<Rightarrow> failed e
          | Inr uri \<Rightarrow>
              andThen (recordArtifact env job ''audio_extract'' uri ''audio/wav'' (int (length content))) (\<lambda>i.
              andThen (audit env (Some (j_JobID job)) ''tool'' ''extract_audio'' ''tool.extract_audio.completed'' (map_of
                [(''artifact_id'', AnyString (uuidStr i)), (''duration_seconds'', AnyInt (md_DurationSeconds meta)),
                 (''format'', AnyString (md_Format meta)), (''sample_rate_hz'', AnyInt (md_SampleRateHz meta)),
                 (''channels'', AnyInt 1)])) (\<lambda>_.
              ret uri))))))"

definition latestAudioArtifactURI :: "Env \<Rightarrow> uuid \<Rightarrow> string action" where
  "latestAudioArtifactURI env jobID =
     andThen (reads env (listArtifactsByJob jobID ''audio_extract'')) (\<lambda>arts.
       if arts = [] then failWith (E ''MEDIA_NOT_FOUND'' (''no audio artifact for job '' @ uuidStr jobID))
       else ret (ma_URI (last arts)))"

section \<open>Transcription\<close>

definition sttFlags :: "JobConfig \<Rightarrow> bool \<Rightarrow> float64 \<Rightarrow> (string \<rightharpoonup> bool)" where
  "sttFlags cfg diarization conf =
     (let f = (if conf < jc_ConfidenceThreshold cfg then [''low_confidence'' \<mapsto> True] else Map.empty) in
      if diarization then f else f(''diarization_unavailable'' \<mapsto> True))"

definition sttSegment :: "Env \<Rightarrow> JobConfig \<Rightarrow> bool \<Rightarrow> uuid \<Rightarrow> SttSegment \<Rightarrow> Segment action" where
  "sttSegment env cfg diarization v s =
     andThen (newUUID env) (\<lambda>i. ret
       \<lparr>sg_SegmentID = i, sg_TranscriptVersionID = v, sg_StartMS = ss_StartMS s, sg_EndMS = ss_EndMS s,
        sg_SpeakerLabel = ss_SpeakerLabel s, sg_Text = ss_Text s, sg_Confidence = Some (ss_Confidence s),
        sg_Flags = sttFlags cfg diarization (ss_Confidence s)\<rparr>)"

definition transcribeAudio :: "Env \<Rightarrow> Job \<Rightarrow> string \<Rightarrow> JobConfig \<Rightarrow> TranscriptVersion action" where
  "transcribeAudio env job audioArtifactURI cfg =
     andThen (attempt (outside (\<lambda>n. en_Transcribe env n audioArtifactURI (jc_Language cfg)
         (jc_EnableDiarization cfg) (jc_ExpectedSpeakerCount cfg)))) (\<lambda>r. case r of
       Inl e \<Rightarrow> toolFailed env (j_JobID job) ''transcribe_audio''
                  ((errPayload e)(''job_config_id'' \<mapsto> AnyString (uuidStr (jc_JobConfigID cfg)))) e
     | Inr res \<Rightarrow>
         andThen (newUUID env) (\<lambda>v.
         andThen (now env) (\<lambda>t.
         let version = rawVersion v job ''tool:transcribe_audio'' t in
         andThen (mapA (sttSegment env cfg (sr_DiarizationAvailable res) v) (sr_Segments res)) (\<lambda>segs.
         andThen (inserts env (createVersion version segs)) (\<lambda>_.
         andThen (audit env (Some (j_JobID job)) ''tool'' ''transcribe_audio'' ''tool.transcribe_audio.completed'' (map_of
           [(''provider'', AnyString (sr_Provider res)), (''model'', AnyString (sr_Model res)),
            (''request_id'', AnyString (sr_RequestID res)), (''transcript_version_id'', AnyString (uuidStr v)),
            (''segment_count'', AnyInt (int (length segs))),
            (''job_config_id'', AnyString (uuidStr (jc_JobConfigID cfg))),
            (''confidence_threshold'', AnyFloat (jc_ConfidenceThreshold cfg)),
            (''low_confidence_count'', AnyInt (int (length
               (filter (\<lambda>s. ss_Confidence s < jc_ConfidenceThreshold cfg) (sr_Segments res))))),
            (''diarization_available'', AnyBool (sr_DiarizationAvailable res))])) (\<lambda>_.
         ret version))))))"

section \<open>Normalisation\<close>

definition cleanSegment :: "Env \<Rightarrow> uuid \<Rightarrow> bool \<Rightarrow> Segment \<times> string \<Rightarrow> Segment action" where
  "cleanSegment env v risk p = (case p of (s, text') \<Rightarrow>
     andThen (newUUID env) (\<lambda>i. ret
       (s\<lparr>sg_SegmentID := i, sg_TranscriptVersionID := v, sg_Text := text',
          sg_Flags := (if risk then (sg_Flags s)(''meaning_change_risk'' \<mapsto> True) else sg_Flags s)\<rparr>)))"

definition normalizeTranscript :: "Env \<Rightarrow> Job \<Rightarrow> TranscriptVersion \<Rightarrow> JobConfig \<Rightarrow> (TranscriptVersion \<times> CleanupStats) action" where
  "normalizeTranscript env job source cfg =
     andThen (reads env (listSegments (tv_TranscriptVersionID source))) (\<lambda>segs.
     andThen (attempt (outside (\<lambda>n. en_Cleanup env n (map sg_Text segs) (jc_StylePolicyID cfg)))) (\<lambda>r. case r of
       Inl e \<Rightarrow> toolFailed env (j_JobID job) ''normalize_transcript''
                  ((errPayload e)(''job_config_id'' \<mapsto> AnyString (uuidStr (jc_JobConfigID cfg)))) e
     | Inr (cleaned, stats) \<Rightarrow>
         if length cleaned \<noteq> length segs
         then toolFailed env (j_JobID job) ''normalize_transcript''
                (map_of [(''error_code'', AnyString ''LLM_OUTPUT_INVALID'')])
                (E ''LLM_OUTPUT_INVALID'' (''cleanup returned '' @ showNat (length cleaned) @ '' texts for ''
                   @ showNat (length segs) @ '' segments''))
         else
           andThen (newUUID env) (\<lambda>v.
           andThen (now env) (\<lambda>t.
           let version =
             \<lparr>tv_TranscriptVersionID = v, tv_JobID = j_JobID job, tv_VersionType = VersionClean,
              tv_SourceVersionID = Some (tv_TranscriptVersionID source), tv_CreatedBy = ''tool:normalize_transcript'',
              tv_IsImmutable = False, tv_CreatedAt = t\<rparr> in
           andThen (mapA (cleanSegment env v (cs_MeaningChangeDetected stats)) (zip segs cleaned)) (\<lambda>newSegs.
           andThen (inserts env (createVersion version newSegs)) (\<lambda>_.
           andThen (audit env (Some (j_JobID job)) ''tool'' ''normalize_transcript'' ''tool.normalize_transcript.completed'' (map_of
             [(''source_transcript_version_id'', AnyString (uuidStr (tv_TranscriptVersionID source))),
              (''clean_transcript_version_id'', AnyString (uuidStr v)),
              (''job_config_id'', AnyString (uuidStr (jc_JobConfigID cfg))),
              (''style_policy_id_used'', AnyString (jc_StylePolicyID cfg)),
              (''segments_processed'', AnyInt (cs_SegmentsProcessed stats)),
              (''filler_words_removed'', AnyInt (cs_FillerWordsRemoved stats)),
              (''meaning_change_detected'', AnyBool (cs_MeaningChangeDetected stats))])) (\<lambda>_.
           ret (version, stats))))))))"

section \<open>The quality check\<close>

text \<open>\<open>%.2f\<close> of a rational: two decimals, halves to even.\<close>

definition roundHalfEven :: "rat \<Rightarrow> int" where
  "roundHalfEven r =
     (let f = floor r; d = r - of_int f in
      if d < 1 / 2 then f else if 1 / 2 < d then f + 1 else if even f then f else f + 1)"

definition showFixed2 :: "rat \<Rightarrow> string" where
  "showFixed2 r =
     (let n = nat \<bar>roundHalfEven (r * 100)\<bar>; digits = showNat (n div 100) @ ''.''
            @ showNat (n div 10 mod 10) @ showNat (n mod 10)
      in if r < 0 then CHR ''-'' # digits else digits)"

definition lowConfidence :: "JobConfig \<Rightarrow> Segment \<Rightarrow> bool" where
  "lowConfidence cfg s \<longleftrightarrow>
     (case sg_Confidence s of None \<Rightarrow> False | Some c \<Rightarrow> c < jc_ConfidenceThreshold cfg)"

definition confidenceIssue :: "JobConfig \<Rightarrow> Segment \<Rightarrow> QualityIssue" where
  "confidenceIssue cfg s =
     \<lparr>qi_IssueType = ''LOW_CONFIDENCE_SEGMENT'', qi_Severity = ''medium'', qi_StartMS = sg_StartMS s,
      qi_EndMS = sg_EndMS s,
      qi_Message = ''Segment confidence '' @ showFixed2 (the (sg_Confidence s)) @ '' below threshold ''
        @ showFixed2 (jc_ConfidenceThreshold cfg) @ ''.''\<rparr>"

text \<open>The loop over the segments in order of start: covered time, gap time, gaps over 2 s as issues,
  and the end of the covered span.\<close>

fun coverage :: "int \<Rightarrow> int \<Rightarrow> int \<Rightarrow> QualityIssue list \<Rightarrow> Segment list \<Rightarrow> int \<times> int \<times> int \<times> QualityIssue list" where
  "coverage covered gaps prevEnd issues [] = (covered, gaps, prevEnd, issues)"
| "coverage covered gaps prevEnd issues (s # ss) =
     (let gap = wrapInt (sg_StartMS s - prevEnd);
          issues' = (if 2000 < gap then issues @
              [\<lparr>qi_IssueType = ''TIMESTAMP_GAP'', qi_Severity = ''low'', qi_StartMS = prevEnd,
                qi_EndMS = sg_StartMS s,
                qi_Message = ''Timestamp discontinuity of '' @ showInt gap @ ''ms between segments.''\<rparr>]
            else issues)
      in coverage (wrapInt (covered + (sg_EndMS s - sg_StartMS s))) (wrapInt (gaps + max 0 gap)) (max prevEnd (sg_EndMS s)) issues' ss)"

text \<open>\<open>diff := a - b; if diff < 0 { diff = -diff }\<close>.\<close>

definition absDiff :: "int \<Rightarrow> int \<Rightarrow> int" where
  "absDiff a b = (let d = wrapInt (a - b) in if d < 0 then wrapInt (- d) else d)"

definition durationIssues :: "Job \<Rightarrow> int \<Rightarrow> QualityIssue list" where
  "durationIssues job prevEnd =
     (let durationMS = wrapInt (j_DurationSeconds job * 1000) in
      if 0 < durationMS \<and> 3 / 10 * of_int durationMS < (of_int (absDiff durationMS prevEnd) :: rat)
      then [\<lparr>qi_IssueType = ''DURATION_MISMATCH'', qi_Severity = ''medium'', qi_StartMS = 0, qi_EndMS = prevEnd,
             qi_Message = ''Transcript span '' @ showInt (goQuot prevEnd 1000)
               @ ''s differs from media duration '' @ showInt (j_DurationSeconds job) @ ''s.''\<rparr>]
      else [])"

definition unavailableIssue :: "Segment list \<Rightarrow> QualityIssue" where
  "unavailableIssue segs =
     \<lparr>qi_IssueType = ''CONFIDENCE_UNAVAILABLE'', qi_Severity = ''info'', qi_StartMS = 0,
      qi_EndMS = sg_EndMS (last segs),
      qi_Message = ''Caption-derived transcript: provider confidence scores are unavailable; threshold flagging skipped.''\<rparr>"

definition diarizationIssue :: "int \<Rightarrow> QualityIssue" where
  "diarizationIssue prevEnd =
     \<lparr>qi_IssueType = ''DIARIZATION_WARNING'', qi_Severity = ''medium'', qi_StartMS = 0, qi_EndMS = prevEnd,
      qi_Message = ''Speaker detection produced fewer than two speakers; transcript needs manual speaker review.''\<rparr>"

text \<open>The report of a non-empty transcript, whose segments are sorted by start.\<close>

definition qualityReport :: "uuid \<Rightarrow> time \<Rightarrow> Job \<Rightarrow> TranscriptVersion \<Rightarrow> JobConfig \<Rightarrow> Segment list \<Rightarrow> QualityReport" where
  "qualityReport i t job version cfg segs =
     (let confs = List.map_filter sg_Confidence segs;
          low = filter (lowConfidence cfg) segs;
          unavailable = (confs = []);
          average = (if unavailable then None else Some (sum_list confs / of_nat (length confs)));
          first = sg_StartMS (hd segs);
          durationMS = wrapInt (j_DurationSeconds job * 1000)
      in case coverage 0 first first [] segs of (coveredMS, gapMS, prevEnd, gapIssues) \<Rightarrow>
        let gapMS' = (if prevEnd < durationMS then wrapInt (gapMS + (durationMS - prevEnd)) else gapMS);
            warn = jc_EnableDiarization cfg \<and> \<not> unavailable \<and> length (remdups (map sg_SpeakerLabel segs)) < 2;
            ratio = (if 0 < durationMS then min 1 (of_int coveredMS / of_int durationMS) else 1)
        in \<lparr>qr_QualityReportID = i, qr_JobID = j_JobID job,
            qr_TranscriptVersionID = tv_TranscriptVersionID version, qr_JobConfigID = jc_JobConfigID cfg,
            qr_ConfidenceThreshold = jc_ConfidenceThreshold cfg,
            qr_QualityScore = map_option (\<lambda>a. a * ratio) average, qr_AverageConfidence = average,
            qr_LowConfidenceSegmentCount = int (length low), qr_CoverageGapSeconds = goQuot gapMS' 1000,
            qr_TimestampGapCount = int (length gapIssues),
            qr_DiarizationWarningCount = (if warn then 1 else 0), qr_ConfidenceUnavailable = unavailable,
            qr_Issues = map (confidenceIssue cfg) low @ (if unavailable then [unavailableIssue segs] else [])
              @ gapIssues @ durationIssues job prevEnd @ (if warn then [diarizationIssue prevEnd] else []),
            qr_CreatedAt = t\<rparr>)"

definition qualityCheckTranscript :: "Env \<Rightarrow> Job \<Rightarrow> TranscriptVersion \<Rightarrow> JobConfig \<Rightarrow> QualityReport action" where
  "qualityCheckTranscript env job version cfg =
     andThen (attempt (reads env (listSegments (tv_TranscriptVersionID version)))) (\<lambda>r.
       let segs = (case r of Inl _ \<Rightarrow> [] | Inr ss \<Rightarrow> sort_key sg_StartMS ss) in
       if segs = []
       then toolFailed env (j_JobID job) ''quality_check_transcript''
              (map_of [(''error_code'', AnyString ''TRANSCRIPT_NOT_FOUND'')])
              (E ''TRANSCRIPT_NOT_FOUND'' (''no segments for transcript version '' @ uuidStr (tv_TranscriptVersionID version)))
       else
         andThen (newUUID env) (\<lambda>i.
         andThen (now env) (\<lambda>t.
         let report = qualityReport i t job version cfg segs in
         andThen (inserts env (createReport report)) (\<lambda>_.
         andThen (audit env (Some (j_JobID job)) ''tool'' ''quality_check_transcript'' ''tool.quality_check_transcript.completed'' (map_of
           [(''quality_report_id'', AnyString (uuidStr i)),
            (''job_config_id'', AnyString (uuidStr (jc_JobConfigID cfg))),
            (''confidence_threshold_used'', AnyFloat (jc_ConfidenceThreshold cfg)),
            (''low_confidence_segment_count'', AnyInt (qr_LowConfidenceSegmentCount report)),
            (''coverage_gap_seconds'', AnyInt (qr_CoverageGapSeconds report)),
            (''timestamp_gap_count'', AnyInt (qr_TimestampGapCount report)),
            (''diarization_warning_count'', AnyInt (qr_DiarizationWarningCount report)),
            (''confidence_unavailable'', AnyBool (qr_ConfidenceUnavailable report)),
            (''issue_count'', AnyInt (int (length (qr_Issues report))))])) (\<lambda>_.
         ret report)))))"

end
