(* ===== verification/Job_Actions.thy ===== *)
theory Job_Actions
  imports Job_Pipeline
begin

text \<open>
  The review and publication tools, \<open>transcript-agent/backend/internal/tools/actions.go\<close>: clones,
  edits, approval, reopening, summaries, exports, media replacement and cancellation.
\<close>

section \<open>Clones and edits\<close>

definition cloneSegment :: "Env \<Rightarrow> uuid \<Rightarrow> Segment \<Rightarrow> Segment action" where
  "cloneSegment env v s =
     andThen (newUUID env) (\<lambda>i. ret (s\<lparr>sg_SegmentID := i, sg_TranscriptVersionID := v\<rparr>))"

definition buildClone :: "Env \<Rightarrow> Job \<Rightarrow> TranscriptVersion \<Rightarrow> string \<Rightarrow> string \<Rightarrow> bool \<Rightarrow> (TranscriptVersion \<times> Segment list) action" where
  "buildClone env job source versionType createdBy immutable =
     andThen (reads env (listSegments (tv_TranscriptVersionID source))) (\<lambda>segs.
     andThen (newUUID env) (\<lambda>v.
     andThen (now env) (\<lambda>t.
     andThen (mapA (cloneSegment env v) segs) (\<lambda>newSegs.
     ret (\<lparr>tv_TranscriptVersionID = v, tv_JobID = j_JobID job, tv_VersionType = versionType,
           tv_SourceVersionID = Some (tv_TranscriptVersionID source), tv_CreatedBy = createdBy,
           tv_IsImmutable = immutable, tv_CreatedAt = t\<rparr>, newSegs)))))"

definition versionCreatedPayload :: "TranscriptVersion \<Rightarrow> TranscriptVersion \<Rightarrow> nat \<Rightarrow> (string \<rightharpoonup> any)" where
  "versionCreatedPayload version source segmentCount = map_of
     [(''transcript_version_id'', AnyString (uuidStr (tv_TranscriptVersionID version))),
      (''version_type'', AnyString (tv_VersionType version)),
      (''source_version_id'', AnyString (uuidStr (tv_TranscriptVersionID source))),
      (''is_immutable'', AnyBool (tv_IsImmutable version)),
      (''segment_count'', AnyInt (int segmentCount))]"

definition cloneToVersion :: "Env \<Rightarrow> Job \<Rightarrow> TranscriptVersion \<Rightarrow> string \<Rightarrow> string \<Rightarrow> bool \<Rightarrow> TranscriptVersion action" where
  "cloneToVersion env job source versionType createdBy immutable =
     andThen (buildClone env job source versionType createdBy immutable) (\<lambda>(version, newSegs).
     andThen (inserts env (createVersion version newSegs)) (\<lambda>_.
     andThen (audit env (Some (j_JobID job)) ''user'' createdBy ''transcript.version_created''
       (versionCreatedPayload version source (length newSegs))) (\<lambda>_.
     ret version)))"

text \<open>The edited segment and the payload that records what changed.\<close>

definition applyEdit :: "uuid \<Rightarrow> uuid \<Rightarrow> string option \<Rightarrow> string option \<Rightarrow> Segment \<Rightarrow> Segment \<times> (string \<rightharpoonup> any)" where
  "applyEdit versionID segmentID text' speakerLabel seg =
     (let p0 = map_of [(''transcript_version_id'', AnyString (uuidStr versionID)),
                       (''segment_id'', AnyString (uuidStr segmentID))];
          (seg1, p1) = (case text' of
              Some x \<Rightarrow> if x \<noteq> sg_Text seg
                then (seg\<lparr>sg_Text := x\<rparr>, p0(''text_before'' \<mapsto> AnyString (sg_Text seg), ''text_after'' \<mapsto> AnyString x))
                else (seg, p0)
            | None \<Rightarrow> (seg, p0))
      in case speakerLabel of
           Some l \<Rightarrow> if l \<noteq> sg_SpeakerLabel seg1
             then (seg1\<lparr>sg_SpeakerLabel := l\<rparr>,
                   p1(''speaker_before'' \<mapsto> AnyString (sg_SpeakerLabel seg1), ''speaker_after'' \<mapsto> AnyString l))
             else (seg1, p1)
         | None \<Rightarrow> (seg1, p1))"

definition showBool :: "bool \<Rightarrow> string" where
  "showBool b = (if b then ''true'' else ''false'')"

definition editSegment :: "Env \<Rightarrow> uuid \<Rightarrow> uuid \<Rightarrow> string option \<Rightarrow> string option \<Rightarrow> string \<Rightarrow> Segment action" where
  "editSegment env versionID segmentID text' speakerLabel editedBy =
     andThen (reads env (getVersion versionID)) (\<lambda>version.
       if tv_VersionType version \<noteq> VersionReviewed \<or> tv_IsImmutable version
       then failWith (E ''TRANSCRIPT_VERSION_IMMUTABLE''
              (''segments can be edited only on mutable reviewed versions; '' @ uuidStr versionID @ '' is ''
               @ tv_VersionType version @ '' (immutable='' @ showBool (tv_IsImmutable version) @ '')''))
       else
         andThen (reads env (getSegment segmentID)) (\<lambda>seg.
           if sg_TranscriptVersionID seg \<noteq> versionID
           then failWith (E ''SEGMENT_NOT_FOUND''
                  (''segment '' @ uuidStr segmentID @ '' does not belong to version '' @ uuidStr versionID))
           else
             (let (seg', payload) = applyEdit versionID segmentID text' speakerLabel seg in
              andThen (writes env (updateSegment seg')) (\<lambda>_.
              andThen (audit env (Some (tv_JobID version)) ''user'' editedBy ''transcript.segment_edited'' payload) (\<lambda>_.
              ret seg')))))"

section \<open>Approval\<close>

definition criticalIssues :: "QualityReport \<Rightarrow> string list" where
  "criticalIssues report =
     map qi_IssueType (filter (\<lambda>i. equalFold (qi_Severity i) ''critical'') (qr_Issues report))"

text \<open>The guards of \<open>ApproveTranscript\<close> on the version and on the latest quality report.\<close>

definition approvable :: "Job \<Rightarrow> uuid \<Rightarrow> TranscriptVersion \<Rightarrow> unit outcome" where
  "approvable job reviewedVersionID reviewed =
     (if tv_JobID reviewed \<noteq> j_JobID job
      then Err (E ''TRANSCRIPT_VERSION_NOT_REVIEWABLE''
             (''version '' @ uuidStr reviewedVersionID @ '' does not belong to job '' @ uuidStr (j_JobID job)))
      else if tv_VersionType reviewed \<noteq> VersionReviewed \<or> tv_IsImmutable reviewed
      then Err (E ''TRANSCRIPT_VERSION_NOT_REVIEWABLE''
             (''version '' @ uuidStr reviewedVersionID @ '' is '' @ tv_VersionType reviewed @ '' (immutable=''
              @ showBool (tv_IsImmutable reviewed) @ ''); only mutable reviewed versions can be approved''))
      else Ok ())"

definition reportGate :: "Env \<Rightarrow> Job \<Rightarrow> unit action" where
  "reportGate env job =
     andThen (attempt (reads env (latestReportByJob (j_JobID job)))) (\<lambda>r. case r of
       Inl e \<Rightarrow> if codeOf e \<noteq> ''QUALITY_REPORT_NOT_FOUND'' then failWith e else ret ()
     | Inr report \<Rightarrow>
         if criticalIssues report \<noteq> []
         then failWith (E ''OPEN_CRITICAL_ISSUES''
                (''approval blocked because the latest quality report has critical issues: ''
                 @ strJoin '', '' (criticalIssues report)))
         else ret ())"

definition approvalPayload :: "uuid \<Rightarrow> uuid \<Rightarrow> uuid \<Rightarrow> string \<Rightarrow> (string \<rightharpoonup> any)" where
  "approvalPayload approvalID reviewedID approvedID note' = map_of
     [(''approval_id'', AnyString (uuidStr approvalID)),
      (''reviewed_transcript_version_id'', AnyString (uuidStr reviewedID)),
      (''approved_transcript_version_id'', AnyString (uuidStr approvedID)),
      (''approval_note'', AnyString note')]"

definition approveA :: "Env \<Rightarrow> ApproveJobParams \<Rightarrow> (Job \<times> uuid list) action" where
  "approveA env p =
     andThen (now env) (\<lambda>t. locked env (\<lambda>s. mapOk (\<lambda>(j, ids, s'). ((j, ids), s')) (approveJob t p s)))"

definition approveTranscript :: "Env \<Rightarrow> Job \<Rightarrow> uuid \<Rightarrow> string \<Rightarrow> string \<Rightarrow> (Approval \<times> TranscriptVersion \<times> Job) action" where
  "approveTranscript env job reviewedVersionID approvedBy note' =
     (if j_Status job \<noteq> StatusInReview
      then failWith (E ''TRANSCRIPT_VERSION_NOT_REVIEWABLE''
             (''job '' @ uuidStr (j_JobID job) @ '' is '' @ statusStr (j_Status job) @ ''; approval requires in_review''))
      else
        andThen (reads env (getVersion reviewedVersionID)) (\<lambda>reviewed.
        andThen (liftOutcome (approvable job reviewedVersionID reviewed)) (\<lambda>_.
        andThen (reportGate env job) (\<lambda>_.
        andThen (buildClone env job reviewed VersionApproved approvedBy True) (\<lambda>(approvedVersion, approvedSegs).
        andThen (newUUID env) (\<lambda>i.
        andThen (now env) (\<lambda>t.
        let approval = \<lparr>ap_ApprovalID = i, ap_JobID = j_JobID job,
              ap_ApprovedTranscriptVersionID = tv_TranscriptVersionID approvedVersion,
              ap_ApprovedBy = approvedBy, ap_ApprovedAt = t, ap_ApprovalNote = note',
              ap_SupersededByApprovalID = None\<rparr>;
            payload = approvalPayload i reviewedVersionID (tv_TranscriptVersionID approvedVersion) note' in
        andThen (eventStrict env (Some (j_JobID job)) ''user'' approvedBy ''transcript.approval_requested'' payload) (\<lambda>_.
        andThen (approveA env \<lparr>apj_JobID = j_JobID job, apj_ApprovedVersion = approvedVersion,
                  apj_Segments = approvedSegs, apj_Approval = approval\<rparr>) (\<lambda>(updatedJob, superseded).
        andThen (audit env (Some (j_JobID updatedJob)) ''user'' approvedBy ''transcript.version_created''
          (versionCreatedPayload approvedVersion reviewed (length approvedSegs))) (\<lambda>_.
        andThen (mapA (\<lambda>prior. audit env (Some (j_JobID updatedJob)) ''system'' ''approve_transcript'' ''approval.superseded''
          (map_of [(''superseded_approval_id'', AnyString (uuidStr prior)),
                   (''superseded_by_approval_id'', AnyString (uuidStr i))])) superseded) (\<lambda>_.
        andThen (audit env (Some (j_JobID updatedJob)) ''user'' approvedBy ''transcript.approved'' payload) (\<lambda>_.
        ret (approval, approvedVersion, updatedJob)))))))))))))"

definition reopenA :: "Env \<Rightarrow> ReopenJobParams \<Rightarrow> Job action" where
  "reopenA env p = andThen (now env) (\<lambda>t. locked env (reopenJob t p))"

definition reopenTranscript :: "Env \<Rightarrow> Job \<Rightarrow> string \<Rightarrow> (Job \<times> TranscriptVersion) action" where
  "reopenTranscript env job reopenedBy =
     (if j_Status job \<noteq> StatusApproved \<and> j_Status job \<noteq> StatusExported
      then failWith (E ''JOB_NOT_IN_ACTIONABLE_STATE''
             (''reopen applies only to approved or exported jobs; job is '' @ statusStr (j_Status job)))
      else
        andThen (reads env (latestVersion (j_JobID job) VersionApproved)) (\<lambda>latest. case latest of
          None \<Rightarrow> failWith (E ''TRANSCRIPT_NOT_FOUND''
              (''job '' @ uuidStr (j_JobID job) @ '' has no approved version to reopen from''))
        | Some approved \<Rightarrow>
            andThen (buildClone env job approved VersionReviewed reopenedBy False) (\<lambda>(reviewed, segs).
            andThen (eventStrict env (Some (j_JobID job)) ''user'' reopenedBy ''job.reopen_requested'' (map_of
              [(''from_approved_version_id'', AnyString (uuidStr (tv_TranscriptVersionID approved))),
               (''reviewed_version_id'', AnyString (uuidStr (tv_TranscriptVersionID reviewed)))])) (\<lambda>_.
            andThen (reopenA env \<lparr>rpj_JobID = j_JobID job, rpj_ReviewedVersion = reviewed, rpj_Segments = segs\<rparr>) (\<lambda>updatedJob.
            andThen (audit env (Some (j_JobID updatedJob)) ''user'' reopenedBy ''transcript.version_created''
              (versionCreatedPayload reviewed approved (length segs))) (\<lambda>_.
            andThen (audit env (Some (j_JobID updatedJob)) ''user'' reopenedBy ''job.reopened'' (map_of
              [(''from_approved_version_id'', AnyString (uuidStr (tv_TranscriptVersionID approved)))])) (\<lambda>_.
            ret (updatedJob, reviewed))))))))"

end
