(* ===== verification/Job_Publish.thy ===== *)
theory Job_Publish
  imports Job_Actions
begin

text \<open>
  The rest of \<open>transcript-agent/backend/internal/tools/actions.go\<close>: summaries with their grounding
  check, exports, media replacement and cancellation.
\<close>

section \<open>Summaries\<close>

text \<open>\<open>strings.Fields\<close> and the trimming of what is neither letter nor number, on ASCII.\<close>

fun fieldsLoop :: "string \<Rightarrow> string \<Rightarrow> string list" where
  "fieldsLoop cur [] = (if cur = [] then [] else [rev cur])"
| "fieldsLoop cur (c # cs) =
     (if isSpaceByte c then (if cur = [] then fieldsLoop [] cs else rev cur # fieldsLoop [] cs)
      else fieldsLoop (c # cur) cs)"

definition goFields :: "string \<Rightarrow> string list" where
  "goFields s = fieldsLoop [] s"

definition trimPunct :: "string \<Rightarrow> string" where
  "trimPunct w = rev (dropWhile (\<lambda>c. \<not> isAlnum c) (rev (dropWhile (\<lambda>c. \<not> isAlnum c) w)))"

text \<open>The keys of the set \<open>summaryWords\<close> builds, in order of insertion.\<close>

definition summaryWords :: "string \<Rightarrow> string list" where
  "summaryWords text' = remdups (filter (\<lambda>c. c \<noteq> []) (map (\<lambda>w. toLower (trimPunct w)) (goFields text')))"

definition transcriptText :: "Segment list \<Rightarrow> string" where
  "transcriptText segs = strJoin '' '' (map sg_Text segs)"

definition generateSummary :: "Env \<Rightarrow> Job \<Rightarrow> TranscriptVersion \<Rightarrow> JobConfig \<Rightarrow> string \<Rightarrow> Summary action" where
  "generateSummary env job source cfg createdBy =
     andThen (reads env (listSegments (tv_TranscriptVersionID source))) (\<lambda>segs.
       if segs = []
       then failWith (E ''TRANSCRIPT_NOT_FOUND''
              (''transcript version '' @ uuidStr (tv_TranscriptVersionID source) @ '' has no segments''))
       else
         andThen (attempt (outside (\<lambda>n. en_Summarize env n (transcriptText segs)
             (jc_SummaryMaxWords cfg) (jc_SummaryStyle cfg)))) (\<lambda>r. case r of
           Inl e \<Rightarrow> toolFailed env (j_JobID job) ''generate_summary'' (errPayload e) e
         | Inr text' \<Rightarrow>
             andThen (outside (\<lambda>n. Ok (en_mapOrder env n (summaryWords text')))) (\<lambda>order.
             let ungrounded = filter (\<lambda>w. w \<notin> set (summaryWords (transcriptText segs))) order;
                 validation = (if ungrounded = [] then ''passed'' else ''needs_review'') in
             andThen (newUUID env) (\<lambda>i.
             andThen (now env) (\<lambda>t.
             let summary =
               \<lparr>sm_SummaryID = i, sm_JobID = j_JobID job,
                sm_SourceTranscriptVersionID = tv_TranscriptVersionID source, sm_Text = text',
                sm_ValidationStatus = validation,
                sm_ValidationNotes = (if ungrounded = [] then []
                   else ''summary contains words not present in the transcript: '' @ strJoin '', '' ungrounded),
                sm_CreatedBy = createdBy, sm_CreatedAt = t, sm_UpdatedAt = None\<rparr> in
             andThen (inserts env (createSummary summary)) (\<lambda>_.
             andThen (audit env (Some (j_JobID job)) ''tool'' ''generate_summary'' ''tool.generate_summary.completed'' (map_of
               [(''summary_id'', AnyString (uuidStr i)),
                (''source_transcript_version_id'', AnyString (uuidStr (tv_TranscriptVersionID source))),
                (''job_config_id'', AnyString (uuidStr (jc_JobConfigID cfg))),
                (''summary_max_words'', AnyInt (jc_SummaryMaxWords cfg)),
                (''summary_style'', AnyString (jc_SummaryStyle cfg)),
                (''validation_status'', AnyString validation)])) (\<lambda>_.
             ret summary)))))))"

section \<open>Exports\<close>

definition exportMime :: "string \<Rightarrow> string" where
  "exportMime format =
     (if format = ''txt'' then ''text/plain; charset=utf-8''
      else if format = ''md'' then ''text/markdown; charset=utf-8''
      else if format = ''srt'' then ''application/x-subrip''
      else if format = ''vtt'' then ''text/vtt''
      else ''application/octet-stream'')"

text \<open>One turn of the loop over the formats.\<close>

definition exportFormat :: "Env \<Rightarrow> Job \<Rightarrow> TranscriptVersion \<Rightarrow> Segment list \<Rightarrow> string \<Rightarrow> string \<Rightarrow> ExportRecord action" where
  "exportFormat env job approved segs requestedBy format =
     andThen (attempt (liftOutcome (generate format segs))) (\<lambda>r. case r of
       Inl e \<Rightarrow>
         andThen (audit env (Some (j_JobID job)) ''tool'' ''export_transcript'' ''tool.export_transcript.failed''
           ((errPayload e)(''format'' \<mapsto> AnyString format))) (\<lambda>_. failWith e)
     | Inr content \<Rightarrow>
         andThen (attempt (liftOutcome (validateExport format content))) (\<lambda>v.
         andThen (case v of
             Inl e \<Rightarrow> audit env (Some (j_JobID job)) ''tool'' ''export_transcript'' ''export.validation_failed''
               (map_of [(''format'', AnyString format), (''error'', AnyString (errString e))])
           | Inr _ \<Rightarrow> ret ()) (\<lambda>_.
         andThen (outside (\<lambda>n. en_put env n (keyFor (uuidStr (j_JobID job)) ''exports''
             (uuidStr (tv_TranscriptVersionID approved) @ ''.'' @ format)) content)) (\<lambda>uri.
         andThen (newUUID env) (\<lambda>a.
         andThen (now env) (\<lambda>t.
         andThen (inserts env (createArtifact
           \<lparr>ma_ArtifactID = a, ma_JobID = j_JobID job, ma_ArtifactType = ''export'', ma_URI = uri,
            ma_MimeType = exportMime format, ma_SizeBytes = int (length content), ma_Superseded = False,
            ma_RetentionUntil = None, ma_CreatedAt = t\<rparr>)) (\<lambda>_.
         andThen (newUUID env) (\<lambda>x.
         andThen (now env) (\<lambda>t2.
         let rec = \<lparr>ex_ExportID = x, ex_JobID = j_JobID job,
               ex_ApprovedTranscriptVersionID = tv_TranscriptVersionID approved, ex_Format = format,
               ex_ArtifactURI = uri,
               ex_ValidationStatus = (case v of Inl _ \<Rightarrow> ''failed'' | Inr _ \<Rightarrow> ''passed''),
               ex_Superseded = False, ex_CreatedBy = requestedBy, ex_CreatedAt = t2\<rparr> in
         andThen (inserts env (createExport rec)) (\<lambda>_.
         ret rec))))))))))"

text \<open>The job moves to exported; losing the swap to another actor is tolerated.\<close>

definition markExported :: "Env \<Rightarrow> Job \<Rightarrow> Job action" where
  "markExported env job =
     (if j_Status job \<noteq> StatusApproved then ret job
      else
        andThen (attempt (transitionA env (j_JobID job) StatusApproved (\<lambda>t j. transition t j StatusExported))) (\<lambda>r. case r of
          Inr updated \<Rightarrow> ret updated
        | Inl e \<Rightarrow> if codeOf e = ''STATUS_CONFLICT'' then ret job else failWith e))"

definition exportTranscript :: "Env \<Rightarrow> Job \<Rightarrow> TranscriptVersion option \<Rightarrow> string list \<Rightarrow> string \<Rightarrow> (ExportRecord list \<times> Job) action" where
  "exportTranscript env job approved' formats requestedBy =
     (case approved' of
        None \<Rightarrow> failWith (E ''APPROVED_TRANSCRIPT_REQUIRED'' ''exports are generated only from an approved transcript version'')
      | Some approved \<Rightarrow>
     if tv_VersionType approved \<noteq> VersionApproved
     then failWith (E ''APPROVED_TRANSCRIPT_REQUIRED'' ''exports are generated only from an approved transcript version'')
     else if formats = []
     then failWith (E ''VALIDATION_ERROR'' (''formats is required, e.g. ['' @ strJoin '','' (map goQuote ExportFormats) @ '']''))
     else case find (\<lambda>f. f \<notin> set ExportFormats) formats of
       Some f \<Rightarrow> failWith (E ''VALIDATION_ERROR'' (''unsupported export format '' @ goQuote f
             @ ''; supported: '' @ strJoin '', '' ExportFormats))
     | None \<Rightarrow>
         andThen (reads env (listSegments (tv_TranscriptVersionID approved))) (\<lambda>segs.
         let payload = map_of [(''approved_transcript_version_id'', AnyString (uuidStr (tv_TranscriptVersionID approved))),
               (''formats'', AnyStrings formats), (''requested_by'', AnyString requestedBy)] in
         andThen (eventStrict env (Some (j_JobID job)) ''tool'' ''export_transcript'' ''tool.export_transcript.requested'' payload) (\<lambda>_.
         andThen (mapA (exportFormat env job approved segs requestedBy) formats) (\<lambda>records.
         andThen (markExported env job) (\<lambda>job'.
         andThen (audit env (Some (j_JobID job')) ''tool'' ''export_transcript'' ''tool.export_transcript.completed''
           (payload(''export_ids'' \<mapsto> AnyStrings (map (\<lambda>r. uuidStr (ex_ExportID r)) records)))) (\<lambda>_.
         ret (records, job')))))))"

section \<open>Replacement and cancellation\<close>

record ReplaceJobMediaInput =
  rmi_SourceType :: string
  rmi_SourceURI :: string
  rmi_ReplacedBy :: string
  rmi_ReplacedByRole :: string
  rmi_OwnershipAttested :: bool

definition replacedJob :: "ReplaceJobMediaInput \<Rightarrow> Job \<Rightarrow> Job" where
  "replacedJob input j =
     j\<lparr>j_SourceType := rmi_SourceType input, j_SourceURI := rmi_SourceURI input,
       j_OwnershipAttested := True, j_DurationSeconds := 0, j_ActionRequired := [], j_LastError := None,
       j_CaptionsAvailable := False, j_CaptionTrackID := [], j_CaptionReuse := None\<rparr>"

definition replacePayload :: "Env \<Rightarrow> Job \<Rightarrow> ReplaceJobMediaInput \<Rightarrow> (string \<rightharpoonup> any)" where
  "replacePayload env job input = map_of
     [(''prior_source_uri_hash'', AnyString (en_URIHash env (j_SourceURI job))),
      (''new_source_uri_hash'', AnyString (en_URIHash env (rmi_SourceURI input))),
      (''source_type'', AnyString (rmi_SourceType input)), (''ownership_attested'', AnyBool True)]"

definition replaceJobMedia :: "Env \<Rightarrow> Job \<Rightarrow> ReplaceJobMediaInput \<Rightarrow> Job action" where
  "replaceJobMedia env job input =
     (if j_Status job \<noteq> StatusNeedsUserAction
      then failWith (E ''JOB_NOT_IN_ACTIONABLE_STATE''
             (''media replacement is allowed only in needs_user_action; job is '' @ statusStr (j_Status job)))
      else if rmi_ReplacedBy input \<noteq> j_SubmittedBy job \<and> rmi_ReplacedByRole input \<noteq> ''admin''
            \<and> rmi_ReplacedByRole input \<noteq> ''reviewer''
      then failWith (E ''USER_NOT_AUTHORIZED'' ''only the original submitter, team lead, or admin can replace job media'')
      else if \<not> rmi_OwnershipAttested input
      then failWith (E ''OWNERSHIP_ATTESTATION_MISSING'' ''ownership attestation is required again for replacement media'')
      else
        andThen (liftOutcome (validateSourceURI (rmi_SourceType input) (rmi_SourceURI input))) (\<lambda>_.
        andThen (stagedSource env (rmi_SourceType input) (rmi_SourceURI input)) (\<lambda>staged.
        andThen (eventStrict env (Some (j_JobID job)) ''user'' (rmi_ReplacedBy input) ''job.media_replace_requested''
          (replacePayload env job input)) (\<lambda>_.
        andThen (writes env (markArtifactsSuperseded (j_JobID job))) (\<lambda>_.
        andThen (transitionA env (j_JobID job) StatusNeedsUserAction
            (\<lambda>t j. transition t (replacedJob input j) StatusQueued)) (\<lambda>updated.
        andThen (case staged of
            None \<Rightarrow> ret ()
          | Some art \<Rightarrow> andThen (now env) (\<lambda>t. linkStaged env (j_JobID updated) art t)) (\<lambda>_.
        andThen (audit env (Some (j_JobID updated)) ''user'' (rmi_ReplacedBy input) ''job.media_replaced''
          (replacePayload env job input)) (\<lambda>_.
        ret updated))))))))"

definition cancelJob :: "Env \<Rightarrow> Job \<Rightarrow> string \<Rightarrow> string \<Rightarrow> string \<Rightarrow> Job action" where
  "cancelJob env job cancelledBy role reason =
     (if statusTerminal (j_Status job)
      then failWith (E ''JOB_ALREADY_TERMINAL'' (''job is already terminal ('' @ statusStr (j_Status job) @ '')''))
      else if (j_Status job = StatusApproved \<or> j_Status job = StatusExported) \<and> role \<noteq> ''admin''
      then failWith (E ''USER_NOT_AUTHORIZED'' ''cancellation after approval requires admin'')
      else if cancelledBy \<noteq> j_SubmittedBy job \<and> role \<noteq> ''admin'' \<and> role \<noteq> ''reviewer''
      then failWith (E ''USER_NOT_AUTHORIZED'' ''only the original submitter, team lead, or admin can cancel a job'')
      else
        let payload = map_of [(''reason'', AnyString reason), (''prior_status'', AnyString (statusStr (j_Status job)))] in
        andThen (eventStrict env (Some (j_JobID job)) ''user'' cancelledBy ''job.cancel_requested'' payload) (\<lambda>_.
        andThen (transitionA env (j_JobID job) (j_Status job)
            (\<lambda>t j. transition t (j\<lparr>j_CancelReason := reason, j_ActionRequired := []\<rparr>) StatusCancelled)) (\<lambda>updated.
        andThen (audit env (Some (j_JobID updated)) ''user'' cancelledBy ''job.cancelled'' payload) (\<lambda>_.
        ret updated))))"

end
