(* ===== verification/Job_Feeds.thy ===== *)
theory Job_Feeds
  imports Job_Publish
begin

text \<open>
  The library tools, \<open>transcript-agent/backend/internal/tools/library.go\<close>: feeds, their polls, the
  jobs of episodes and the download of enclosures.  Fetching and parsing a feed is one call to the
  outside.
\<close>

section \<open>Feeds\<close>

definition newEpisode :: "Env \<Rightarrow> Feed \<Rightarrow> RssItem \<Rightarrow> Episode action" where
  "newEpisode env feed it =
     andThen (newUUID env) (\<lambda>i.
     andThen (now env) (\<lambda>t.
     ret \<lparr>ep_EpisodeID = i, ep_FeedID = fd_FeedID feed, ep_GUID = ri_GUID it, ep_Title = ri_Title it,
          ep_Description = ri_Description it, ep_AudioURL = ri_EnclosureURL it,
          ep_PublishedAt = ri_PublishedAt it, ep_DurationSeconds = ri_DurationSeconds it,
          ep_MediaArtifactID = None, ep_JobID = None, ep_CreatedAt = t\<rparr>))"

definition upsertA :: "Env \<Rightarrow> Episode \<Rightarrow> (bool \<times> Episode) action" where
  "upsertA env ep = locked env (\<lambda>s. mapOk (\<lambda>(isNew, e, s'). ((isNew, e), s')) (upsertEpisode ep s))"

definition ingestEpisode :: "Env \<Rightarrow> Feed \<Rightarrow> RssItem \<Rightarrow> Episode list action" where
  "ingestEpisode env feed it =
     andThen (newEpisode env feed it) (\<lambda>ep.
     andThen (attempt (upsertA env ep)) (\<lambda>r. case r of
       Inl _ \<Rightarrow> ret []
     | Inr (isNew, e) \<Rightarrow> ret (if isNew then [e] else [])))"

definition ingestEpisodes :: "Env \<Rightarrow> Feed \<Rightarrow> RssItem list \<Rightarrow> Episode list action" where
  "ingestEpisodes env feed items = andThen (mapA (ingestEpisode env feed) items) (\<lambda>ess. ret (concat ess))"

definition addFeed :: "Env \<Rightarrow> string \<Rightarrow> bool \<Rightarrow> string \<Rightarrow> Feed action" where
  "addFeed env rawURL autoTranscribe addedBy =
     (let feedURL = trimSpace rawURL in
      if \<not> en_validFeedURL env feedURL
      then failWith (E ''FEED_URL_INVALID'' ''feed_url must be an absolute http(s) URL'')
      else
        andThen (reads env (getFeedByURL feedURL)) (\<lambda>existing.
          if existing \<noteq> None then failWith (E ''FEED_ALREADY_EXISTS'' ''feed is already in the library'')
          else
            andThen (outside (\<lambda>n. en_fetchFeed env n feedURL)) (\<lambda>parsed.
            andThen (now env) (\<lambda>t.
            andThen (newUUID env) (\<lambda>i.
            let feed = \<lparr>fd_FeedID = i, fd_FeedURL = feedURL, fd_Title = rf_Title parsed,
                  fd_Description = rf_Description parsed, fd_ImageURL = rf_ImageURL parsed,
                  fd_AutoTranscribe = autoTranscribe, fd_LastPolledAt = Some t, fd_PollError = [],
                  fd_CreatedAt = t, fd_DeletedAt = None\<rparr> in
            andThen (inserts env (createFeed feed)) (\<lambda>_.
            andThen (ingestEpisodes env feed (rf_Items parsed)) (\<lambda>backfilled.
            andThen (audit env None ''user'' addedBy ''library.feed_added'' (map_of
              [(''feed_id'', AnyString (uuidStr i)), (''feed_url_hash'', AnyString (en_URIHash env feedURL)),
               (''auto_transcribe'', AnyBool autoTranscribe), (''backfilled'', AnyInt (int (length backfilled)))])) (\<lambda>_.
            ret feed))))))))"

text \<open>The feed's channel data is filled on the first successful fetch only.\<close>

definition polledFeed :: "time \<Rightarrow> RssFeed \<Rightarrow> Feed \<Rightarrow> Feed" where
  "polledFeed t parsed feed =
     feed\<lparr>fd_LastPolledAt := Some t,
          fd_Title := (if fd_Title feed = [] then rf_Title parsed else fd_Title feed),
          fd_Description := (if fd_Description feed = [] then rf_Description parsed else fd_Description feed),
          fd_ImageURL := (if fd_ImageURL feed = [] then rf_ImageURL parsed else fd_ImageURL feed),
          fd_PollError := []\<rparr>"

definition pollFeedOnce :: "Env \<Rightarrow> Feed \<Rightarrow> Episode list action" where
  "pollFeedOnce env feed =
     andThen (attempt (outside (\<lambda>n. en_fetchFeed env n (fd_FeedURL feed)))) (\<lambda>r.
     andThen (now env) (\<lambda>t. case r of
       Inl e \<Rightarrow>
         andThen (attempt (writes env (updateFeed
           (feed\<lparr>fd_LastPolledAt := Some t, fd_PollError := snd (asError e)\<rparr>)))) (\<lambda>_.
         andThen (audit env None ''system'' ''library-poller'' ''library.feed_poll_failed''
           ((errPayload e)(''feed_id'' \<mapsto> AnyString (uuidStr (fd_FeedID feed))))) (\<lambda>_.
         failWith e))
     | Inr parsed \<Rightarrow>
         andThen (writes env (updateFeed (polledFeed t parsed feed))) (\<lambda>_.
         andThen (ingestEpisodes env feed (rf_Items parsed)) (\<lambda>newEps.
         andThen (audit env None ''system'' ''library-poller'' ''library.feed_polled'' (map_of
           [(''feed_id'', AnyString (uuidStr (fd_FeedID feed))),
            (''item_count'', AnyInt (int (length (rf_Items parsed)))),
            (''new_episodes'', AnyInt (int (length newEps)))])) (\<lambda>_.
         ret newEps)))))"

section \<open>The jobs of episodes\<close>

definition libraryJob :: "uuid \<Rightarrow> time \<Rightarrow> Episode \<Rightarrow> string \<Rightarrow> Job" where
  "libraryJob i t ep requestedBy =
     \<lparr>j_JobID = i, j_SourceType = ''upload'', j_SourceURI = ''library://'' @ uuidStr (ep_EpisodeID ep),
      j_Status = StatusSubmitted, j_SubmittedBy = requestedBy, j_OwnershipAttested = True,
      j_Language = ''en'', j_JobConfigID = None, j_DurationSeconds = 0, j_ActionRequired = [],
      j_LastError = None, j_CaptionsAvailable = False, j_CaptionTrackID = [], j_CaptionReuse = None,
      j_CancelReason = [], j_LibraryMode = True, j_SourceBasis = ''open_rss_personal_use'',
      j_CreatedAt = t, j_UpdatedAt = t\<rparr>"

definition submitLibraryJob :: "Env \<Rightarrow> Episode \<Rightarrow> string \<Rightarrow> Job action" where
  "submitLibraryJob env ep requestedBy =
     (case ep_JobID ep of
        Some j \<Rightarrow> failWith (E ''EPISODE_ALREADY_TRANSCRIBED''
            (''episode '' @ uuidStr (ep_EpisodeID ep) @ '' already has job '' @ uuidStr j))
      | None \<Rightarrow>
          andThen (newUUID env) (\<lambda>i.
          andThen (now env) (\<lambda>t.
          let job = libraryJob i t ep requestedBy in
          andThen (inserts env (createJob job)) (\<lambda>_.
          andThen (attempt (writes env (claimEpisodeJob (ep_EpisodeID ep) i))) (\<lambda>r. case r of
            Inl e \<Rightarrow>
              andThen (attempt (transitionA env i StatusSubmitted (\<lambda>t j. transition t
                (j\<lparr>j_CancelReason := ''episode claimed by a concurrent transcription''\<rparr>) StatusCancelled))) (\<lambda>_.
              failWith e)
          | Inr _ \<Rightarrow>
              let actorType = (if hasPrefix requestedBy ''system:'' then ''system'' else ''user'') in
              andThen (audit env (Some i) actorType requestedBy ''job.submitted'' (map_of
                [(''source_type'', AnyString (j_SourceType job)),
                 (''source_uri_hash'', AnyString (en_URIHash env (j_SourceURI job))),
                 (''language'', AnyString (j_Language job)), (''ownership_attested'', AnyBool True),
                 (''library_mode'', AnyBool True), (''episode_id'', AnyString (uuidStr (ep_EpisodeID ep))),
                 (''feed_id'', AnyString (uuidStr (ep_FeedID ep)))])) (\<lambda>_.
              andThen (audit env (Some i) actorType requestedBy ''job.ownership_attested'' (map_of
                [(''source_basis'', AnyString ''open_rss_personal_use''),
                 (''note'', AnyString ''attestation set programmatically: open RSS enclosure transcribed for personal use''),
                 (''episode_id'', AnyString (uuidStr (ep_EpisodeID ep)))])) (\<lambda>_.
              ret job)))))))"

section \<open>Enclosures\<close>

text \<open>\<open>path.Ext\<close>: from the last dot of the last path element.\<close>

definition goPathExt :: "string \<Rightarrow> string" where
  "goPathExt p =
     (let base = rev (takeWhile (\<lambda>c. c \<noteq> CHR ''/'') (rev p)) in
      if CHR ''.'' \<in> set base then CHR ''.'' # rev (takeWhile (\<lambda>c. c \<noteq> CHR ''.'') (rev base)) else [])"

definition enclosureExt :: "Env \<Rightarrow> string \<Rightarrow> string \<Rightarrow> string" where
  "enclosureExt env audioURL contentType =
     (let byType = (if strContains contentType ''mp4'' \<or> strContains contentType ''m4a'' \<or> strContains contentType ''aac''
           then ''m4a'' else if strContains contentType ''wav'' then ''wav'' else ''mp3'')
      in case en_urlPath env audioURL of
           None \<Rightarrow> byType
         | Some p \<Rightarrow>
             let ext = toLower (trimPrefix ''.'' (goPathExt p)) in
             if ext \<in> set SupportedUploadExtensions then ext else byType)"

definition mimeForExt :: "string \<Rightarrow> string" where
  "mimeForExt ext =
     (if ext = ''mp3'' then ''audio/mpeg'' else if ext = ''m4a'' then ''audio/mp4''
      else if ext = ''wav'' then ''audio/wav'' else if ext = ''mp4'' then ''video/mp4''
      else if ext = ''mov'' then ''video/quicktime'' else ''application/octet-stream'')"

definition libraryMaxDownloadBytes :: "Env \<Rightarrow> int" where
  "libraryMaxDownloadBytes env =
     (if 0 < en_LibraryMaxDownloadBytes env then en_LibraryMaxDownloadBytes env else 524288000)"

definition tooLarge :: "string \<Rightarrow> err" where
  "tooLarge msg = E ''LIBRARY_DOWNLOAD_TOO_LARGE'' msg"

definition downloadFailed :: "string \<Rightarrow> err" where
  "downloadFailed msg = E ''LIBRARY_DOWNLOAD_FAILED'' msg"

text \<open>The request, the response's checks and the bounded copy into the object store: the URI, the
  size and the extension.\<close>

definition downloadEnclosure :: "Env \<Rightarrow> Episode \<Rightarrow> (string \<times> int \<times> string) action" where
  "downloadEnclosure env ep =
     (let capBytes = libraryMaxDownloadBytes env in
      case en_newRequest env (ep_AudioURL ep) of
        Some msg \<Rightarrow> failWith (downloadFailed (''invalid enclosure URL '' @ goQuote (ep_AudioURL ep) @ '': '' @ msg))
      | None \<Rightarrow>
          andThen (attempt (outside (\<lambda>n. en_download env n (ep_AudioURL ep)))) (\<lambda>r. case r of
            Inl e \<Rightarrow> failWith (downloadFailed (''download enclosure: '' @ errString e))
          | Inr (status, contentLength, contentType) \<Rightarrow>
              if status \<noteq> 200 then failWith (downloadFailed (''enclosure responded with HTTP '' @ showInt status))
              else if capBytes < contentLength
              then failWith (tooLarge (''enclosure is '' @ showInt contentLength @ '' bytes, above the ''
                     @ showInt capBytes @ '' byte download cap''))
              else
                let ext = enclosureExt env (ep_AudioURL ep) contentType in
                andThen (attempt (outside (\<lambda>n. en_stream env n
                    (''library/'' @ uuidStr (ep_EpisodeID ep) @ ''.'' @ ext) (capBytes + 1)))) (\<lambda>r. case r of
                  Inl e \<Rightarrow> failWith (downloadFailed (''store enclosure: '' @ errString e))
                | Inr (uri, n) \<Rightarrow>
                    if capBytes < n
                    then andThen (attempt (outside (\<lambda>k. en_delete env k uri))) (\<lambda>_.
                           failWith (tooLarge (''enclosure exceeds the '' @ showInt capBytes @ '' byte download cap'')))
                    else ret (uri, n, ext))))"

definition ensureLibraryMedia :: "Env \<Rightarrow> Job \<Rightarrow> unit action" where
  "ensureLibraryMedia env job =
     andThen (episodeFromLibraryURI env (j_SourceURI job)) (\<lambda>ep.
     andThen (case ep_MediaArtifactID ep of
         None \<Rightarrow> ret False
       | Some a \<Rightarrow> andThen (attempt (reads env (getArtifact a))) (\<lambda>r. ret (case r of Inl _ \<Rightarrow> False | Inr _ \<Rightarrow> True))) (\<lambda>present.
     if present then ret ()
     else
       andThen (downloadEnclosure env ep) (\<lambda>(uri, n, ext).
       andThen (recordArtifact env job ''source_media'' uri (mimeForExt ext) n) (\<lambda>a.
       andThen (writes env (updateEpisode (ep\<lparr>ep_MediaArtifactID := Some a\<rparr>))) (\<lambda>_.
       andThen (audit env (Some (j_JobID job)) ''tool'' ''download_episode_media''
         ''tool.download_episode_media.completed'' (map_of
           [(''episode_id'', AnyString (uuidStr (ep_EpisodeID ep))), (''artifact_id'', AnyString (uuidStr a)),
            (''audio_url_hash'', AnyString (en_URIHash env (ep_AudioURL ep))),
            (''size_bytes'', AnyInt n), (''mime_type'', AnyString (mimeForExt ext))])) (\<lambda>_.
       ret ()))))))"

end
