(* ===== verification/Job_Steps.thy ===== *)
theory Job_Steps
  imports Job_Feeds
begin

text \<open>
  The pipeline steps of \<open>transcript-agent/backend/internal/orchestrator/orchestrator.go\<close>: how a
  status is changed, how errors park or fail a job, and one function per step.  A step answers
  whether the loop goes on.
\<close>

section \<open>Changing the status\<close>

text \<open>The worker's bookkeeping that \<open>setStatus\<close> carries into the swap.\<close>

definition carry :: "Job \<Rightarrow> Job \<Rightarrow> Job" where
  "carry job j =
     j\<lparr>j_JobConfigID := j_JobConfigID job, j_DurationSeconds := j_DurationSeconds job,
       j_ActionRequired := j_ActionRequired job, j_LastError := j_LastError job,
       j_CaptionsAvailable := j_CaptionsAvailable job, j_CaptionTrackID := j_CaptionTrackID job,
       j_CaptionReuse := j_CaptionReuse job\<rparr>"

definition setStatus :: "Env \<Rightarrow> Job \<Rightarrow> Status \<Rightarrow> bool action" where
  "setStatus env job to =
     andThen (attempt (transitionA env (j_JobID job) (j_Status job) (\<lambda>t j. transition t (carry job j) to))) (\<lambda>r. case r of
       Inl _ \<Rightarrow> ret False
     | Inr updated \<Rightarrow>
         andThen (audit env (Some (j_JobID updated)) ''system'' ''orchestrator'' ''job.status_changed'' (map_of
           [(''from'', AnyString (statusStr (j_Status job))), (''to'', AnyString (statusStr to))])) (\<lambda>_.
         ret True))"

definition shutdownInterrupted :: "Env \<Rightarrow> err \<Rightarrow> bool action" where
  "shutdownInterrupted env e =
     outside (\<lambda>n. Ok (en_cancelled env n \<or> (case e of Interrupted _ \<Rightarrow> True | _ \<Rightarrow> False)))"

definition errorInfo :: "err \<Rightarrow> ErrorInfo" where
  "errorInfo e = \<lparr>ei_Code = fst (asError e), ei_Message = snd (asError e)\<rparr>"

definition toNeedsUserAction :: "Env \<Rightarrow> Job \<Rightarrow> string \<Rightarrow> err \<Rightarrow> unit action" where
  "toNeedsUserAction env job act e =
     andThen (shutdownInterrupted env e) (\<lambda>interrupted.
       if interrupted then ret ()
       else
         andThen (setStatus env (job\<lparr>j_ActionRequired := act, j_LastError := Some (errorInfo e)\<rparr>) StatusNeedsUserAction) (\<lambda>moved.
         if \<not> moved then ret ()
         else audit env (Some (j_JobID job)) ''system'' ''orchestrator'' ''job.needs_user_action'' (map_of
           [(''action_required'', AnyString act), (''error_code'', AnyString (fst (asError e))),
            (''message'', AnyString (snd (asError e)))])))"

definition toFailed :: "Env \<Rightarrow> Job \<Rightarrow> err \<Rightarrow> unit action" where
  "toFailed env job e =
     andThen (shutdownInterrupted env e) (\<lambda>interrupted.
       if interrupted then ret ()
       else
         andThen (setStatus env (job\<lparr>j_ActionRequired := [], j_LastError := Some (errorInfo e)\<rparr>) StatusFailed) (\<lambda>moved.
         if \<not> moved then ret ()
         else audit env (Some (j_JobID job)) ''system'' ''orchestrator'' ''job.failed'' (map_of
           [(''error_code'', AnyString (fst (asError e))), (''message'', AnyString (snd (asError e)))])))"

definition clearError :: "Env \<Rightarrow> Job \<Rightarrow> Job action" where
  "clearError env job =
     (if j_LastError job = None \<and> j_ActionRequired job = [] then ret job
      else
        andThen (attempt (transitionA env (j_JobID job) (j_Status job)
            (\<lambda>_ j. Ok (j\<lparr>j_LastError := None, j_ActionRequired := []\<rparr>)))) (\<lambda>r. case r of
          Inl _ \<Rightarrow> ret job | Inr updated \<Rightarrow> ret updated))"

text \<open>\<open>retryBackoff\<close>: whether the wait ended without a cancellation.\<close>

definition retryBackoff :: "Env \<Rightarrow> bool action" where
  "retryBackoff env = outside (\<lambda>n. Ok (\<not> en_cancelled env n))"

text \<open>A call that is repeated once after the backoff when its error has one of the codes; \<open>None\<close>
  when the wait was cancelled.\<close>

definition retryOn :: "Env \<Rightarrow> string list \<Rightarrow> 'a action \<Rightarrow> (err + 'a) option action" where
  "retryOn env codes m =
     andThen (attempt m) (\<lambda>r. case r of
       Inr x \<Rightarrow> ret (Some (Inr x))
     | Inl e \<Rightarrow>
         if codeOf e \<in> set codes
         then andThen (retryBackoff env) (\<lambda>go.
                if go then andThen (attempt m) (\<lambda>r2. ret (Some r2)) else ret None)
         else ret (Some (Inl e)))"

definition failStep :: "Env \<Rightarrow> Job \<Rightarrow> err \<Rightarrow> bool action" where
  "failStep env job e = andThen (toFailed env job e) (\<lambda>_. ret False)"

definition parkStep :: "Env \<Rightarrow> Job \<Rightarrow> string \<Rightarrow> err \<Rightarrow> bool action" where
  "parkStep env job act e = andThen (toNeedsUserAction env job act e) (\<lambda>_. ret False)"

section \<open>Validation\<close>

definition durationError :: "Job \<Rightarrow> int \<Rightarrow> err" where
  "durationError job m = E ''DURATION_LIMIT_EXCEEDED''
     (''media duration '' @ showInt (j_DurationSeconds job) @ ''s exceeds the configured maximum of ''
      @ showInt m @ ''s; replace the media with a shorter file or cancel the job'')"

definition stepDuration :: "Env \<Rightarrow> Job \<Rightarrow> bool action" where
  "stepDuration env job =
     andThen (attempt (configOf env job)) (\<lambda>r.
       case (case r of Inl _ \<Rightarrow> None | Inr cfg \<Rightarrow> jc_MaxDurationSeconds cfg) of
         Some m \<Rightarrow>
           if 0 < m \<and> m < j_DurationSeconds job
           then parkStep env job ''duration_exceeded'' (durationError job m)
           else andThen (clearError env job) (\<lambda>job'. setStatus env job' StatusMetadataExtracted)
       | None \<Rightarrow> andThen (clearError env job) (\<lambda>job'. setStatus env job' StatusMetadataExtracted))"

definition stepMetadata :: "Env \<Rightarrow> Job \<Rightarrow> bool action" where
  "stepMetadata env job =
     andThen (retryOn env [''METADATA_TIMEOUT''] (getMediaMetadata env job)) (\<lambda>r. case r of
       None \<Rightarrow> ret False
     | Some (Inl e) \<Rightarrow>
         if codeOf e \<in> {''NO_AUDIO_TRACK'', ''UNSUPPORTED_FORMAT'', ''MEDIA_NOT_FOUND''}
         then parkStep env job ''replace_media'' e
         else failStep env job e
     | Some (Inr (meta, job')) \<Rightarrow> stepDuration env job')"

definition stepLibraryMedia :: "Env \<Rightarrow> Job \<Rightarrow> bool action" where
  "stepLibraryMedia env job =
     (if \<not> j_LibraryMode job then stepMetadata env job
      else
        andThen (retryOn env [''LIBRARY_DOWNLOAD_FAILED''] (ensureLibraryMedia env job)) (\<lambda>r. case r of
          None \<Rightarrow> ret False
        | Some (Inl e) \<Rightarrow>
            if codeOf e \<in> {''LIBRARY_DOWNLOAD_TOO_LARGE'', ''LIBRARY_DOWNLOAD_FAILED''}
            then parkStep env job ''replace_media'' e
            else failStep env job e
        | Some (Inr _) \<Rightarrow> stepMetadata env job))"

definition stepValidate :: "Env \<Rightarrow> Job \<Rightarrow> bool action" where
  "stepValidate env job =
     (if j_JobConfigID job = None
      then andThen (attempt (createConfigSnapshot env job ''system:orchestrator'')) (\<lambda>r. case r of
          Inl e \<Rightarrow> failStep env job e
        | Inr (cfg, job') \<Rightarrow> stepLibraryMedia env job')
      else stepLibraryMedia env job)"

section \<open>Captions\<close>

definition stepRouteAfterMetadata :: "Env \<Rightarrow> Job \<Rightarrow> bool action" where
  "stepRouteAfterMetadata env job =
     (if j_SourceType job \<noteq> ''youtube'' then setStatus env job StatusExtractingAudio
      else
        andThen (retryOn env [''CAPTION_API_UNAVAILABLE''] (checkYouTubeCaptions env job)) (\<lambda>r. case r of
          None \<Rightarrow> ret False
        | Some (Inl e) \<Rightarrow>
            andThen (audit env (Some (j_JobID job)) ''system'' ''orchestrator'' ''caption_check.skipped'' (map_of
              [(''error_code'', AnyString (codeOf e)), (''message'', AnyString (errString e))])) (\<lambda>_.
            setStatus env (job\<lparr>j_CaptionsAvailable := False, j_CaptionTrackID := []\<rparr>) StatusCaptionChecked)
        | Some (Inr (res, job')) \<Rightarrow> setStatus env job' StatusCaptionChecked))"

definition stepCaptionRoute :: "Env \<Rightarrow> Job \<Rightarrow> bool action" where
  "stepCaptionRoute env job =
     (if j_CaptionsAvailable job \<and> j_CaptionReuse job = None then
        andThen (setStatus env (job\<lparr>j_LastError := None, j_ActionRequired := ''caption_decision''\<rparr>) StatusNeedsUserAction) (\<lambda>moved.
          if \<not> moved then ret False
          else andThen (audit env (Some (j_JobID job)) ''system'' ''orchestrator'' ''job.needs_user_action''
                 (map_of [(''action_required'', AnyString ''caption_decision'')])) (\<lambda>_. ret False))
      else if j_CaptionsAvailable job \<and> j_CaptionReuse job = Some True then
        andThen (attempt (configOf env job)) (\<lambda>r. case r of
          Inl e \<Rightarrow> failStep env job e
        | Inr cfg \<Rightarrow>
            andThen (attempt
                (andThen (fetchExistingCaptions env job (j_CaptionTrackID job)) (\<lambda>uri.
                 parseCaptionsToTranscript env job uri cfg))) (\<lambda>r. case r of
              Inl e \<Rightarrow>
                andThen (audit env (Some (j_JobID job)) ''system'' ''orchestrator'' ''caption_reuse.fallback_to_transcription''
                  (map_of [(''error_code'', AnyString (codeOf e)), (''message'', AnyString (errString e))])) (\<lambda>_.
                setStatus env job StatusExtractingAudio)
            | Inr _ \<Rightarrow> setStatus env job StatusNormalizing))
      else setStatus env job StatusExtractingAudio)"

section \<open>Audio, transcription, normalisation, quality\<close>

definition stepExtractAudio :: "Env \<Rightarrow> Job \<Rightarrow> bool action" where
  "stepExtractAudio env job =
     andThen (retryOn env [''EXTRACTION_FAILED'', ''ARTIFACT_WRITE_FAILED''] (extractAudio env job)) (\<lambda>r. case r of
       None \<Rightarrow> ret False
     | Some (Inl e) \<Rightarrow>
         if codeOf e = ''NO_AUDIO_TRACK'' then parkStep env job ''replace_media'' e else failStep env job e
     | Some (Inr _) \<Rightarrow> setStatus env job StatusTranscribing)"

text \<open>\<open>pauseQueue(5 * time.Minute)\<close>.\<close>

definition pauseQueue :: "Env \<Rightarrow> unit action" where
  "pauseQueue env = andThen (now env) (\<lambda>t w. (Ok (), w\<lparr>w_pauseUntil := t + 300000000000\<rparr>))"

definition quotaStep :: "Env \<Rightarrow> Job \<Rightarrow> err \<Rightarrow> bool action" where
  "quotaStep env job e =
     andThen (setStatus env (job\<lparr>j_LastError := Some \<lparr>ei_Code = fst (asError e),
         ei_Message = ''Transcription is paused due to provider quota.''\<rparr>\<rparr>) StatusQueued) (\<lambda>moved.
       if \<not> moved then ret False
       else
         andThen (pauseQueue env) (\<lambda>_.
         andThen (audit env (Some (j_JobID job)) ''system'' ''orchestrator'' ''queue.paused_quota''
           (map_of [(''error_code'', AnyString (fst (asError e)))])) (\<lambda>_.
         ret False)))"

definition stepTranscribe :: "Env \<Rightarrow> Job \<Rightarrow> bool action" where
  "stepTranscribe env job =
     andThen (attempt (configOf env job)) (\<lambda>r. case r of Inl e \<Rightarrow> failStep env job e | Inr cfg \<Rightarrow>
     andThen (attempt (latestAudioArtifactURI env (j_JobID job))) (\<lambda>r. case r of Inl e \<Rightarrow> failStep env job e | Inr audioURI \<Rightarrow>
     andThen (retryOn env [''STT_PROVIDER_TIMEOUT''] (transcribeAudio env job audioURI cfg)) (\<lambda>r. case r of
       None \<Rightarrow> ret False
     | Some (Inl e) \<Rightarrow>
         if codeOf e = ''STT_PROVIDER_QUOTA_EXCEEDED'' then quotaStep env job e else failStep env job e
     | Some (Inr _) \<Rightarrow> andThen (clearError env job) (\<lambda>job'. setStatus env job' StatusNormalizing))))"

definition noVersion :: "string \<Rightarrow> Job \<Rightarrow> err" where
  "noVersion what job = E ''TRANSCRIPT_NOT_FOUND'' (''no '' @ what @ '' for job '' @ uuidStr (j_JobID job))"

definition stepNormalize :: "Env \<Rightarrow> Job \<Rightarrow> bool action" where
  "stepNormalize env job =
     andThen (attempt (configOf env job)) (\<lambda>r. case r of Inl e \<Rightarrow> failStep env job e | Inr cfg \<Rightarrow>
     andThen (attempt (reads env (latestVersion (j_JobID job) VersionRaw))) (\<lambda>r.
       case (case r of Inl _ \<Rightarrow> None | Inr v \<Rightarrow> v) of
         None \<Rightarrow> failStep env job (noVersion ''raw transcript version'' job)
       | Some raw \<Rightarrow>
           andThen (retryOn env [''LLM_OUTPUT_INVALID''] (normalizeTranscript env job raw cfg)) (\<lambda>r. case r of
             None \<Rightarrow> ret False
           | Some (Inl e) \<Rightarrow> failStep env job e
           | Some (Inr _) \<Rightarrow> setStatus env job StatusQualityChecking)))"

text \<open>The latest clean version, or the latest raw one.\<close>

definition cleanOrRaw :: "Env \<Rightarrow> uuid \<Rightarrow> TranscriptVersion option action" where
  "cleanOrRaw env jobID =
     andThen (attempt (reads env (latestVersion jobID VersionClean))) (\<lambda>r. case r of
       Inl _ \<Rightarrow> ret None
     | Inr (Some v) \<Rightarrow> ret (Some v)
     | Inr None \<Rightarrow>
         andThen (attempt (reads env (latestVersion jobID VersionRaw))) (\<lambda>r.
           ret (case r of Inl _ \<Rightarrow> None | Inr v \<Rightarrow> v)))"

definition stepQualityCheck :: "Env \<Rightarrow> Job \<Rightarrow> bool action" where
  "stepQualityCheck env job =
     andThen (attempt (configOf env job)) (\<lambda>r. case r of Inl e \<Rightarrow> failStep env job e | Inr cfg \<Rightarrow>
     andThen (cleanOrRaw env (j_JobID job)) (\<lambda>v. case v of
       None \<Rightarrow> failStep env job (noVersion ''transcript version to quality-check'' job)
     | Some version \<Rightarrow>
         andThen (attempt (qualityCheckTranscript env job version cfg)) (\<lambda>r. case r of
           Inr _ \<Rightarrow> setStatus env job StatusDrafted
         | Inl e \<Rightarrow>
             andThen (audit env (Some (j_JobID job)) ''system'' ''orchestrator'' ''quality_check.warning'' (map_of
               [(''error_code'', AnyString (fst (asError e))), (''message'', AnyString (snd (asError e)))])) (\<lambda>_.
             setStatus env (job\<lparr>j_LastError := Some \<lparr>ei_Code = ''QUALITY_CHECK_FAILED'',
                 ei_Message = snd (asError e)\<rparr>\<rparr>) StatusDrafted))))"

section \<open>Library drafts\<close>

definition finishLibraryDraft :: "Env \<Rightarrow> Job \<Rightarrow> unit action" where
  "finishLibraryDraft env job =
     andThen (attempt (reads env (latestSummaryByJob (j_JobID job)))) (\<lambda>r. case r of
       Inr _ \<Rightarrow> ret ()
     | Inl e \<Rightarrow>
         if codeOf e \<noteq> ''SUMMARY_NOT_FOUND'' then ret ()
         else
           andThen (attempt (configOf env job)) (\<lambda>r. case r of
             Inl _ \<Rightarrow> ret ()
           | Inr cfg \<Rightarrow>
               andThen (cleanOrRaw env (j_JobID job)) (\<lambda>v. case v of
                 None \<Rightarrow> ret ()
               | Some source \<Rightarrow>
                   andThen (attempt (generateSummary env job source cfg ''system:library'')) (\<lambda>_. ret ()))))"

end
