(* ===== verification/Job_Orchestrator.thy ===== *)
theory Job_Orchestrator
  imports Job_Steps
begin

text \<open>
  The drive loop, the queue, the scans and the library poll of
  \<open>transcript-agent/backend/internal/orchestrator\<close> (\<open>orchestrator.go\<close>, \<open>library.go\<close>), and
  \<open>ResumeAfterCaptionDecision\<close>.  The goroutines of \<open>Start\<close> are reduced to their turns: one job
  taken from the queue, one scan.
\<close>

section \<open>Driving a job\<close>

text \<open>One turn of the loop on the job just loaded: does the loop go on?\<close>

definition driveStep :: "Env \<Rightarrow> Job \<Rightarrow> bool action" where
  "driveStep env job = (case j_Status job of
       StatusSubmitted \<Rightarrow> setStatus env job StatusQueued
     | StatusQueued \<Rightarrow> setStatus env job StatusValidating
     | StatusValidating \<Rightarrow> stepValidate env job
     | StatusMetadataExtracted \<Rightarrow> stepRouteAfterMetadata env job
     | StatusCaptionChecked \<Rightarrow> stepCaptionRoute env job
     | StatusExtractingAudio \<Rightarrow> stepExtractAudio env job
     | StatusTranscribing \<Rightarrow> stepTranscribe env job
     | StatusNormalizing \<Rightarrow> stepNormalize env job
     | StatusQualityChecking \<Rightarrow> stepQualityCheck env job
     | StatusDrafted \<Rightarrow>
         if j_LibraryMode job then andThen (finishLibraryDraft env job) (\<lambda>_. ret False)
         else setStatus env job StatusInReview
     | _ \<Rightarrow> ret False)"

text \<open>How the loop ended.\<close>

datatype DriveEnd = Paused | AlreadyRunning | LoadFailed | Rested | BoundExceeded

fun driveLoop :: "Env \<Rightarrow> nat \<Rightarrow> uuid \<Rightarrow> DriveEnd action" where
  "driveLoop env 0 jobID = ret BoundExceeded"
| "driveLoop env (Suc n) jobID =
     andThen (attempt (reads env (getJob jobID))) (\<lambda>r. case r of
       Inl _ \<Rightarrow> ret LoadFailed
     | Inr job \<Rightarrow>
         andThen (driveStep env job) (\<lambda>proceed.
           if proceed then driveLoop env n jobID else ret Rested))"

definition driveBound :: nat where
  "driveBound = 32"

definition paused :: "Env \<Rightarrow> bool action" where
  "paused env = andThen (now env) (\<lambda>t w. (Ok (t < w_pauseUntil w), w))"

definition beginDrive :: "uuid \<Rightarrow> bool action" where
  "beginDrive jobID w =
     (if jobID \<in> w_running w then (Ok False, w) else (Ok True, w\<lparr>w_running := insert jobID (w_running w)\<rparr>))"

text \<open>\<open>defer o.finishDrive(jobID)\<close>, which runs on a panic too.\<close>

definition finishing :: "uuid \<Rightarrow> 'a action \<Rightarrow> 'a action" where
  "finishing jobID m w = (case m w of (r, w') \<Rightarrow> (r, w'\<lparr>w_running := w_running w' - {jobID}\<rparr>))"

definition drive :: "Env \<Rightarrow> uuid \<Rightarrow> DriveEnd action" where
  "drive env jobID =
     andThen (paused env) (\<lambda>p.
       if p then ret Paused
       else
         andThen (beginDrive jobID) (\<lambda>begun.
           if \<not> begun then ret AlreadyRunning
           else finishing jobID (driveLoop env driveBound jobID)))"

section \<open>The queue\<close>

definition queueCapacity :: nat where
  "queueCapacity = 256"

definition enqueue :: "Env \<Rightarrow> uuid \<Rightarrow> unit action" where
  "enqueue env jobID =
     (if en_Sync env then andThen (drive env jobID) (\<lambda>_. ret ())
      else (\<lambda>w.
        if jobID \<in> w_inFlight w then (Ok (), w)
        else if length (w_queue w) < queueCapacity
        then (Ok (), w\<lparr>w_inFlight := insert jobID (w_inFlight w), w_queue := w_queue w @ [jobID]\<rparr>)
        else (Ok (), w)))"

text \<open>A worker's turn: the next id of the queue is driven and leaves the in-flight set.\<close>

definition workerTurn :: "Env \<Rightarrow> unit action" where
  "workerTurn env w = (case w_queue w of
       [] \<Rightarrow> (Ok (), w)
     | jobID # q \<Rightarrow>
         andThen (drive env jobID) (\<lambda>_ w'. (Ok (), w'\<lparr>w_inFlight := w_inFlight w' - {jobID}\<rparr>))
           (w\<lparr>w_queue := q\<rparr>))"

section \<open>Scans\<close>

definition midPipelineStatuses :: "Status list" where
  "midPipelineStatuses =
     [StatusValidating, StatusMetadataExtracted, StatusCaptionChecked, StatusExtractingAudio,
      StatusTranscribing, StatusNormalizing, StatusQualityChecking]"

definition busy :: "uuid \<Rightarrow> bool action" where
  "busy jobID w = (Ok (jobID \<in> w_inFlight w \<or> jobID \<in> w_running w), w)"

definition reclaimOne :: "Env \<Rightarrow> time \<Rightarrow> Job \<Rightarrow> unit action" where
  "reclaimOne env cutoff j =
     (if \<not> j_UpdatedAt j < cutoff then ret ()
      else
        andThen (busy (j_JobID j)) (\<lambda>b.
          if b then ret ()
          else
            andThen (attempt (transitionA env (j_JobID j) (j_Status j) (\<lambda>t job. transition t job StatusQueued))) (\<lambda>r. case r of
              Inl _ \<Rightarrow> ret ()
            | Inr _ \<Rightarrow>
                andThen (audit env (Some (j_JobID j)) ''system'' ''orchestrator'' ''job.reclaimed_stuck'' (map_of
                  [(''stuck_in'', AnyString (statusStr (j_Status j))), (''threshold'', AnyString (en_durationString env (en_StuckThreshold env)))])) (\<lambda>_.
                enqueue env (j_JobID j)))))"

definition reclaimStuck :: "Env \<Rightarrow> unit action" where
  "reclaimStuck env =
     (if en_StuckThreshold env \<le> 0 then ret ()
      else
        andThen (attempt (reads env (listJobsByStatus midPipelineStatuses))) (\<lambda>r. case r of
          Inl _ \<Rightarrow> ret ()
        | Inr jobs \<Rightarrow>
            andThen (now env) (\<lambda>t.
            andThen (mapA (reclaimOne env (t - en_StuckThreshold env)) jobs) (\<lambda>_. ret ()))))"

definition sweepOne :: "Env \<Rightarrow> MediaArtifact \<Rightarrow> unit action" where
  "sweepOne env art =
     (if ma_ArtifactType art = ''export'' then ret ()
      else
        andThen (busy (ma_JobID art)) (\<lambda>b.
          if b then ret ()
          else
            andThen (attempt (outside (\<lambda>n. en_delete env n (ma_URI art)))) (\<lambda>r. case r of
              Inl _ \<Rightarrow> ret ()
            | Inr _ \<Rightarrow>
                andThen (attempt (writes env (deleteArtifact (ma_ArtifactID art)))) (\<lambda>r. case r of
                  Inl _ \<Rightarrow> ret ()
                | Inr _ \<Rightarrow>
                    audit env (if ma_JobID art = uuidNil then None else Some (ma_JobID art)) ''system'' ''orchestrator''
                      ''artifact.retention_deleted'' (map_of
                      [(''artifact_id'', AnyString (uuidStr (ma_ArtifactID art))),
                       (''artifact_type'', AnyString (ma_ArtifactType art)),
                       (''uri_hash'', AnyString (en_URIHash env (ma_URI art))),
                       (''retention_until'', AnyTime (ma_RetentionUntil art))])))))"

definition sweepRetention :: "Env \<Rightarrow> unit action" where
  "sweepRetention env =
     andThen (now env) (\<lambda>t.
     andThen (attempt (reads env (listExpiredArtifacts t 100))) (\<lambda>r. case r of
       Inl _ \<Rightarrow> ret ()
     | Inr arts \<Rightarrow> andThen (mapA (sweepOne env) arts) (\<lambda>_. ret ())))"

section \<open>The library poll\<close>

text \<open>The jobs of the new episodes, at most \<open>LibraryAutoPerPoll\<close> of them.\<close>

fun autoTranscribe :: "Env \<Rightarrow> int \<Rightarrow> int \<Rightarrow> Episode list \<Rightarrow> unit action" where
  "autoTranscribe env started limit [] = ret ()"
| "autoTranscribe env started limit (ep # eps) =
     (if limit \<le> started then ret ()
      else
        andThen (attempt (submitLibraryJob env ep ''system:library-poller'')) (\<lambda>r. case r of
          Inl _ \<Rightarrow> autoTranscribe env started limit eps
        | Inr job \<Rightarrow> andThen (enqueue env (j_JobID job)) (\<lambda>_. autoTranscribe env (started + 1) limit eps)))"

definition pollFeedBody :: "Env \<Rightarrow> Feed \<Rightarrow> unit action" where
  "pollFeedBody env feed =
     andThen (attempt (pollFeedOnce env feed)) (\<lambda>r. case r of
       Inl _ \<Rightarrow> ret ()
     | Inr newEps \<Rightarrow>
         if \<not> fd_AutoTranscribe feed \<or> newEps = [] then ret ()
         else autoTranscribe env 0 (if en_LibraryAutoPerPoll env \<le> 0 then 3 else en_LibraryAutoPerPoll env) newEps)"

definition pollFeed :: "Env \<Rightarrow> Feed \<Rightarrow> unit action" where
  "pollFeed env feed w =
     (if fd_FeedID feed \<in> w_pollBusy w then (Ok (), w)
      else case pollFeedBody env feed (w\<lparr>w_pollBusy := insert (fd_FeedID feed) (w_pollBusy w)\<rparr>) of
          (r, w') \<Rightarrow> (r, w'\<lparr>w_pollBusy := w_pollBusy w' - {fd_FeedID feed}\<rparr>))"

definition requestFeedPoll :: "Env \<Rightarrow> uuid \<Rightarrow> unit action" where
  "requestFeedPoll env feedID =
     andThen (attempt (reads env (getFeed feedID))) (\<lambda>r. case r of
       Inl _ \<Rightarrow> ret ()
     | Inr feed \<Rightarrow> if fd_DeletedAt feed \<noteq> None then ret () else pollFeed env feed)"

text \<open>Whether a poll is due, with the next one scheduled.\<close>

definition pollDue :: "Env \<Rightarrow> bool action" where
  "pollDue env =
     andThen (now env) (\<lambda>t. andThen (\<lambda>w. (Ok (w_nextLibraryPoll w \<le> t), w)) (\<lambda>due.
       if \<not> due then ret False
       else andThen (now env) (\<lambda>t2 w. (Ok True, w\<lparr>w_nextLibraryPoll := t2
         + (if en_LibraryPollInterval env \<le> 0 then 1800000000000 else en_LibraryPollInterval env)\<rparr>))))"

definition libraryScan :: "Env \<Rightarrow> unit action" where
  "libraryScan env =
     andThen (pollDue env) (\<lambda>due.
       if \<not> due then ret ()
       else
         andThen (attempt (reads env listFeeds)) (\<lambda>r. case r of
           Inl _ \<Rightarrow> ret ()
         | Inr feeds \<Rightarrow> andThen (mapA (pollFeed env) feeds) (\<lambda>_. ret ())))"

definition scan :: "Env \<Rightarrow> unit action" where
  "scan env =
     andThen (reclaimStuck env) (\<lambda>_.
     andThen (sweepRetention env) (\<lambda>_.
     andThen (libraryScan env) (\<lambda>_.
     andThen (paused env) (\<lambda>p.
       if p then ret ()
       else
         andThen (attempt (reads env (listJobsByStatus [StatusSubmitted, StatusQueued]))) (\<lambda>r. case r of
           Inl _ \<Rightarrow> ret ()
         | Inr jobs \<Rightarrow> andThen (mapA (\<lambda>j. enqueue env (j_JobID j)) jobs) (\<lambda>_. ret ()))))))"

section \<open>The caption decision\<close>

definition notActionable :: "Job \<Rightarrow> err" where
  "notActionable j = E ''JOB_NOT_IN_ACTIONABLE_STATE''
     (''caption decision applies only in needs_user_action/caption_decision; job is ''
      @ statusStr (j_Status j) @ ''/'' @ j_ActionRequired j)"

definition decideCaptions :: "bool \<Rightarrow> time \<Rightarrow> Job \<Rightarrow> Job outcome" where
  "decideCaptions reuse t j =
     (if j_ActionRequired j \<noteq> ''caption_decision'' then Err (notActionable j)
      else transition t (j\<lparr>j_CaptionReuse := Some reuse, j_ActionRequired := [], j_LastError := None\<rparr>) StatusCaptionChecked)"

definition resumeAfterCaptionDecision :: "Env \<Rightarrow> Job \<Rightarrow> bool \<Rightarrow> string \<Rightarrow> unit action" where
  "resumeAfterCaptionDecision env job reuse decidedBy =
     (if j_Status job \<noteq> StatusNeedsUserAction \<or> j_ActionRequired job \<noteq> ''caption_decision''
      then failWith (notActionable job)
      else
        andThen (eventStrict env (Some (j_JobID job)) ''user'' decidedBy ''job.caption_decision_requested''
          (map_of [(''reuse_captions'', AnyBool reuse)])) (\<lambda>_.
        andThen (transitionA env (j_JobID job) StatusNeedsUserAction (decideCaptions reuse)) (\<lambda>updated.
        andThen (audit env (Some (j_JobID updated)) ''user'' decidedBy ''job.caption_decision_recorded''
          (map_of [(''reuse_captions'', AnyBool reuse)])) (\<lambda>_.
        enqueue env (j_JobID updated)))))"

end
