(* ===== verification/Job_Contract.thy ===== *)
theory Job_Contract
  imports Job_Orchestrator
begin

text \<open>
  Contracts of actions.  A contract has an invariant of the world, a relation every execution stays
  in (whatever the outcome), a precondition and a postcondition of the value returned.  The locale
  \<open>guarantee\<close> proves the rules for any reflexive and transitive relation; it is interpreted for the
  service: the store moves by steps of the life cycle of \<open>Job_Lifecycle\<close>, and the ids drawn from
  \<open>uuid.New\<close> are not in use.
\<close>

definition triple :: "(World \<Rightarrow> bool) \<Rightarrow> (World \<Rightarrow> World \<Rightarrow> bool) \<Rightarrow> (World \<Rightarrow> bool) \<Rightarrow> 'a action
    \<Rightarrow> ('a \<Rightarrow> World \<Rightarrow> bool) \<Rightarrow> bool" where
  "triple I R P m Q \<longleftrightarrow> (\<forall>w. I w \<longrightarrow> P w \<longrightarrow>
     (case m w of (r, w') \<Rightarrow> I w' \<and> R w w' \<and> (\<forall>x. r = Ok x \<longrightarrow> Q x w')))"

lemma tripleI:
  "(\<And>w r w'. I w \<Longrightarrow> P w \<Longrightarrow> m w = (r, w') \<Longrightarrow> I w' \<and> R w w' \<and> (\<forall>x. r = Ok x \<longrightarrow> Q x w')) \<Longrightarrow> triple I R P m Q"
  by (auto simp: triple_def)

lemma tripleD:
  "triple I R P m Q \<Longrightarrow> I w \<Longrightarrow> P w \<Longrightarrow> m w = (r, w') \<Longrightarrow> I w' \<and> R w w' \<and> (\<forall>x. r = Ok x \<longrightarrow> Q x w')"
  by (auto simp: triple_def)

lemma triple_conseq:
  assumes "triple I R P' m Q'" and "\<And>w. I w \<Longrightarrow> P w \<Longrightarrow> P' w" and "\<And>x w. Q' x w \<Longrightarrow> Q x w"
  shows "triple I R P m Q"
  using assms unfolding triple_def by (fastforce split: prod.splits)

locale guarantee =
  fixes I :: "World \<Rightarrow> bool" and R :: "World \<Rightarrow> World \<Rightarrow> bool"
  assumes R_refl: "I w \<Longrightarrow> R w w"
    and R_trans: "R w w1 \<Longrightarrow> R w1 w2 \<Longrightarrow> R w w2"
begin

lemma ret_rule: "(\<And>w. I w \<Longrightarrow> P w \<Longrightarrow> Q x w) \<Longrightarrow> triple I R P (ret x) Q"
  by (simp add: triple_def ret_def R_refl)

lemma fail_rule: "triple I R P (failWith e) Q"
  by (simp add: triple_def failWith_def R_refl)

lemma lift_rule: "(\<And>x w. r = Ok x \<Longrightarrow> I w \<Longrightarrow> P w \<Longrightarrow> Q x w) \<Longrightarrow> triple I R P (liftOutcome r) Q"
  by (simp add: triple_def liftOutcome_def R_refl)

lemma bind_rule:
  assumes m: "triple I R P m M" and f: "\<And>x. triple I R (M x) (f x) Q"
  shows "triple I R P (andThen m f) Q"
proof (rule tripleI)
  fix w r w'
  assume w: "I w" "P w" and run: "andThen m f w = (r, w')"
  obtain r1 w1 where m1: "m w = (r1, w1)" by (cases "m w")
  note post = tripleD [OF m w m1]
  show "I w' \<and> R w w' \<and> (\<forall>x. r = Ok x \<longrightarrow> Q x w')"
  proof (cases r1)
    case (Ok y)
    then have "f y w1 = (r, w')" using run m1 by (simp add: andThen_def)
    then have "I w' \<and> R w1 w' \<and> (\<forall>x. r = Ok x \<longrightarrow> Q x w')" using tripleD [OF f] post Ok by blast
    then show ?thesis using R_trans post by blast
  qed (insert run m1 post, auto simp: andThen_def)
qed

lemma attempt_rule:
  assumes "triple I R P m Q"
  shows "triple I R P (attempt m) (\<lambda>r w. \<forall>x. r = Inr x \<longrightarrow> Q x w)"
proof (rule tripleI)
  fix w r w'
  assume w: "I w" "P w" and run: "attempt m w = (r, w')"
  obtain r1 w1 where m1: "m w = (r1, w1)" by (cases "m w")
  from tripleD [OF assms w m1] run m1 show "I w' \<and> R w w' \<and> (\<forall>x. r = Ok x \<longrightarrow> (\<forall>y. x = Inr y \<longrightarrow> Q y w'))"
    by (cases r1) (auto simp: attempt_def)
qed

lemma vacuous_rule: "triple I R (\<lambda>_. False) m Q"
  by (simp add: triple_def)

end

section \<open>The service's invariant and relation\<close>

definition usedIds :: "Store \<Rightarrow> uuid set" where
  "usedIds s = dom (st_jobs s) \<union> dom (st_versions s) \<union> dom (st_segments s) \<union> dom (st_summaries s)
     \<union> dom (st_reports s) \<union> dom (st_approvals s) \<union> dom (st_artifacts s) \<union> dom (st_exports s)
     \<union> dom (st_feeds s) \<union> dom (st_episodes s)"

definition statusOf :: "uuid \<Rightarrow> Store \<Rightarrow> Status option" where
  "statusOf i s = map_option j_Status (st_jobs s i)"

text \<open>What the service relies on: \<open>uuid.New\<close> does not repeat itself, and the other actors follow the
  life cycle and do not use the ids this one draws.\<close>

definition relyOK :: "Env \<Rightarrow> bool" where
  "relyOK env \<longleftrightarrow> distinct (en_uuids env)
     \<and> (\<forall>n s. reachable s \<longrightarrow> storeSteps s (en_others env n s)
          \<and> usedIds (en_others env n s) \<inter> set (en_uuids env) \<subseteq> usedIds s)"

text \<open>The others leave the status of one job alone.\<close>

definition spares :: "Env \<Rightarrow> uuid \<Rightarrow> bool" where
  "spares env i \<longleftrightarrow> (\<forall>n s. statusOf i (en_others env n s) = statusOf i s)"

definition worldOK :: "Env \<Rightarrow> World \<Rightarrow> bool" where
  "worldOK env w \<longleftrightarrow> relyOK env \<and> reachable (w_store w)
     \<and> usedIds (w_store w) \<inter> set (drop (w_drawn w) (en_uuids env)) = {}"

definition fresh :: "Env \<Rightarrow> uuid list \<Rightarrow> World \<Rightarrow> bool" where
  "fresh env us w \<longleftrightarrow> distinct us \<and> set us \<subseteq> set (take (w_drawn w) (en_uuids env))
     \<and> set us \<inter> usedIds (w_store w) = {}"

text \<open>Executions move the store by steps of the life cycle and the calls are numbered upwards; with the
  flag, they also leave alone the status of every job the others leave alone.\<close>

definition moves :: "Env \<Rightarrow> bool \<Rightarrow> World \<Rightarrow> World \<Rightarrow> bool" where
  "moves env k w w' \<longleftrightarrow> storeSteps (w_store w) (w_store w') \<and> w_tick w \<le> w_tick w'
     \<and> (k \<longrightarrow> (\<forall>i. spares env i \<longrightarrow> statusOf i (w_store w') = statusOf i (w_store w)))"

interpretation svc: guarantee "worldOK env" "moves env k" for env k
  by unfold_locales (auto simp: moves_def)

text \<open>The contract of an action that holds the ids \<open>us\<close>: a fact about what it returns, and the ids it
  still holds.\<close>

definition spec :: "Env \<Rightarrow> bool \<Rightarrow> uuid list \<Rightarrow> 'a action \<Rightarrow> ('a \<Rightarrow> bool) \<Rightarrow> ('a \<Rightarrow> uuid list) \<Rightarrow> bool" where
  "spec env k us m G us' \<longleftrightarrow>
     triple (worldOK env) (moves env k) (fresh env us) m (\<lambda>x w. G x \<and> fresh env (us' x) w)"

lemma fresh_Nil [simp]: "fresh env [] w"
  by (simp add: fresh_def)

lemma fresh_subset: "fresh env us w \<Longrightarrow> distinct vs \<Longrightarrow> set vs \<subseteq> set us \<Longrightarrow> fresh env vs w"
  unfolding fresh_def by blast

section \<open>Rules\<close>

named_theorems act \<open>contracts of the primitives and of the tools\<close>

lemma spec_ret: "G x \<Longrightarrow> (\<And>w. fresh env us w \<Longrightarrow> fresh env (us' x) w) \<Longrightarrow> spec env k us (ret x) G us'"
  unfolding spec_def by (rule svc.ret_rule) blast

lemma spec_ret0 [act]: "G x \<Longrightarrow> spec env k us (ret x) G (\<lambda>_. [])"
  by (rule spec_ret) simp_all

lemma spec_fail [act]: "spec env k us (failWith e) G us'"
  unfolding spec_def by (rule svc.fail_rule)

lemma spec_lift [act]: "spec env k us (liftOutcome r) (\<lambda>x. r = Ok x) (\<lambda>_. us)"
  unfolding spec_def by (rule svc.lift_rule) blast

lemma spec_bind:
  assumes "spec env k us m G us1" and "\<And>x. G x \<Longrightarrow> spec env k (us1 x) (f x) G2 us2"
  shows "spec env k us (andThen m f) G2 us2"
  unfolding spec_def
proof (rule svc.bind_rule)
  show "triple (worldOK env) (moves env k) (fresh env us) m (\<lambda>x w. G x \<and> fresh env (us1 x) w)"
    using assms(1) by (simp add: spec_def)
  show "triple (worldOK env) (moves env k) (\<lambda>w. G x \<and> fresh env (us1 x) w) (f x)
      (\<lambda>y w. G2 y \<and> fresh env (us2 y) w)" for x
    using assms(2) [of x] by (auto simp: spec_def triple_def)
qed

lemma spec_conseq:
  assumes "spec env k us m G us'" and "\<And>x. G x \<Longrightarrow> G2 x"
    and "\<And>w. fresh env vs w \<Longrightarrow> fresh env us w" and "\<And>x w. fresh env (us' x) w \<Longrightarrow> fresh env (vs' x) w"
  shows "spec env k vs m G2 vs'"
  using assms unfolding spec_def by (blast intro: triple_conseq)

lemma spec_attempt:
  assumes "spec env k us m G us'"
  shows "spec env k us (attempt m) (\<lambda>r. \<forall>x. r = Inr x \<longrightarrow> G x)
    (\<lambda>r. case r of Inl _ \<Rightarrow> [] | Inr x \<Rightarrow> us' x)"
  unfolding spec_def
  using svc.attempt_rule [OF assms [unfolded spec_def]]
  by (rule triple_conseq) (auto split: sum.split)

text \<open>Calls to the outside change nothing but the counter.\<close>

lemma outside_run: "worldOK env w \<Longrightarrow> outside f w = (r, w') \<Longrightarrow>
    worldOK env w' \<and> moves env k w w' \<and> r = f (w_tick w) \<and> w' = w\<lparr>w_tick := Suc (w_tick w)\<rparr>"
  by (auto simp: outside_def worldOK_def moves_def)

lemma spec_outside [act]: "spec env k us (outside f) (\<lambda>x. \<exists>n. f n = Ok x) (\<lambda>_. us)"
  unfolding spec_def
proof (rule tripleI)
  fix w r w'
  assume "worldOK env w" "fresh env us w" "outside f w = (r, w')"
  with outside_run [of env w f r w' k]
  show "worldOK env w' \<and> moves env k w w' \<and> (\<forall>x. r = Ok x \<longrightarrow> (\<exists>n. f n = Ok x) \<and> fresh env us w')"
    by (auto simp: fresh_def)
qed

lemma spec_now [act]: "spec env k us (now env) (\<lambda>_. True) (\<lambda>_. us)"
  unfolding now_def by (rule spec_conseq [OF spec_outside]) simp_all

lemma spec_attempt_outside [act]: "spec env k us (attempt (outside f)) (\<lambda>_. True) (\<lambda>_. us)"
  unfolding spec_def
proof (rule tripleI)
  fix w r w'
  assume w: "worldOK env w" "fresh env us w" and "attempt (outside f) w = (r, w')"
  then have "w' = w\<lparr>w_tick := Suc (w_tick w)\<rparr>"
    by (auto simp: attempt_def outside_def split: outcome.splits)
  with w show "worldOK env w' \<and> moves env k w w' \<and> (\<forall>x. r = Ok x \<longrightarrow> True \<and> fresh env us w')"
    by (simp add: worldOK_def moves_def fresh_def)
qed

lemma spec_newUUID [act]: "spec env k us (newUUID env) (\<lambda>_. True) (\<lambda>i. i # us)"
  unfolding spec_def
proof (rule tripleI)
  fix w r w'
  assume w: "worldOK env w" and us: "fresh env us w" and run: "newUUID env w = (r, w')"
  let ?n = "w_drawn w"
  show "worldOK env w' \<and> moves env k w w' \<and> (\<forall>i. r = Ok i \<longrightarrow> True \<and> fresh env (i # us) w')"
  proof (cases "?n < length (en_uuids env)")
    case True
    let ?i = "en_uuids env ! ?n"
    have r: "r = Ok ?i" "w' = w\<lparr>w_drawn := Suc ?n\<rparr>" using run True by (simp_all add: newUUID_def)
    have dr: "drop ?n (en_uuids env) = ?i # drop (Suc ?n) (en_uuids env)" using True by (simp add: Cons_nth_drop_Suc)
    have tk: "take (Suc ?n) (en_uuids env) = take ?n (en_uuids env) @ [?i]" using True by (simp add: take_Suc_conv_app_nth)
    have "distinct (take (Suc ?n) (en_uuids env))" using w by (simp add: worldOK_def relyOK_def)
    then have "?i \<notin> set us" using us by (auto simp: fresh_def tk)
    with w us r show ?thesis by (auto simp: worldOK_def moves_def fresh_def dr tk)
  next
    case False
    with run w show ?thesis by (simp add: newUUID_def moves_def)
  qed
qed

end
