(* ===== verification/Job_Review.thy ===== *)
theory Job_Review
  imports Job_Lifecycle
begin

text \<open>
  The review life cycle over every reachable store: one current approval per job, approved jobs
  with their immutable version, frozen approved transcripts, an append-only audit trail, and
  status changes that follow the transition table.
\<close>

section \<open>No method dereferences a missing row\<close>

lemma lastMatch_version_Panic: "storeInv s \<Longrightarrow> latestVersionLocked i t s \<noteq> Panic"
  using storeInv_tables(2) [of s] by (simp add: latestVersionLocked_def scanRows_table)

lemma currentApprovalLocked_Panic: "storeInv s \<Longrightarrow> currentApprovalLocked i s \<noteq> Panic"
  using storeInv_tables(5) [of s] by (simp add: currentApprovalLocked_def scanRows_table)

lemma searchedVersion_Panic: "storeInv s \<Longrightarrow> searchedVersion j i s \<noteq> Panic"
  using lastMatch_version_Panic currentApprovalLocked_Panic
  by (auto simp: searchedVersion_def split: outcome.splits option.splits)

lemma segments_scan:
  assumes "storeInv s"
  shows "scanRows (st_segments s) (st_segByVer s v) = Ok (rows (st_segments s) (st_segByVer s v))"
proof (rule scanRows_dom)
  show "set (st_segByVer s v) \<subseteq> dom (st_segments s)"
    using assms by (auto simp: storeInv_def dest: segIndexD)
qed

lemma concatOk_Panic: "(\<And>x. x \<in> set xs \<Longrightarrow> f x \<noteq> Panic) \<Longrightarrow> concatOk f xs \<noteq> Panic"
  by (induction xs) (auto split: outcome.splits)

lemma searchSegments_Panic:
  assumes "storeInv s"
  shows "searchSegments query limit s \<noteq> Panic"
proof -
  have "jobHits q query s i \<noteq> Panic" if "i \<in> set (st_jobOrder s)" for q i
    using that storeInv_tables(1) [OF assms] searchedVersion_Panic [OF assms]
    by (auto simp: jobHits_def table_def segments_scan [OF assms] split: option.splits outcome.splits)
  then have "concatOk (jobHits q query s) (st_jobOrder s) \<noteq> Panic" for q by (rule concatOk_Panic)
  then show ?thesis by (simp add: searchSegments_def Let_def)
qed

text \<open>
  The store never dereferences a missing row.  Whatever sequence of steps the clients have made,
  in whatever interleaving, no method of the store that walks an order slice or an index panics.
\<close>

theorem store_never_dangles:
  assumes "reachable s"
  shows "listJobs s \<noteq> Panic \<and> listJobsByStatus sts s \<noteq> Panic \<and> listVersions i s \<noteq> Panic
    \<and> latestVersion i t s \<noteq> Panic \<and> listSegments i s \<noteq> Panic \<and> latestSummaryByJob i s \<noteq> Panic
    \<and> latestReportByJob i s \<noteq> Panic \<and> listApprovalsByJob i s \<noteq> Panic \<and> currentApproval i s \<noteq> Panic
    \<and> listArtifactsByJob i t s \<noteq> Panic \<and> listExpiredArtifacts cutoff limit s \<noteq> Panic
    \<and> markArtifactsSuperseded i s \<noteq> Panic \<and> listExportsByJob i s \<noteq> Panic
    \<and> listFeeds s \<noteq> Panic \<and> getFeedByURL t s \<noteq> Panic \<and> upsertEpisode e s \<noteq> Panic
    \<and> getEpisodeByJobID i s \<noteq> Panic \<and> listEpisodes f s \<noteq> Panic \<and> countEpisodes i s \<noteq> Panic
    \<and> searchSegments q limit s \<noteq> Panic \<and> (approveReady p s \<longrightarrow> approveJob now p s \<noteq> Panic)"
proof -
  have inv: "storeInv s" using assms by (rule reachable_inv)
  note tabs = storeInv_tables [OF inv, THEN scanRows_table]
  note finds = storeInv_tables [OF inv, THEN scanFind_table]
  have "listExpiredArtifacts cutoff limit s \<noteq> Panic"
    using expiredLoop_dom [of "st_artOrder s" "st_artifacts s" cutoff limit "[]"] storeInv_tables(6) [OF inv]
    by (auto simp: listExpiredArtifacts_def table_def)
  moreover have "upsertEpisode e s \<noteq> Panic"
    using inv unfolding upsertEpisode_def Let_def storeInv_def epIndex_def
    by (auto split: option.splits)
  moreover have "approveReady p s \<longrightarrow> approveJob now p s \<noteq> Panic"
    using approveJob_eq [OF inv] by (auto split: option.splits)
  ultimately show ?thesis
    using inv_markArtifacts [OF inv, of i]
    by (auto simp: listJobs_def listJobsByStatus_def listVersions_def latestVersion_def listSegments_def
        latestSummaryByJob_def latestReportByJob_def listApprovalsByJob_def currentApproval_def
        listArtifactsByJob_def listExportsByJob_def listFeeds_def getFeedByURL_def getEpisodeByJobID_def
        listEpisodes_def countEpisodes_def searchSegments_Panic [OF inv] segments_scan [OF inv] orNone_def
        tabs finds split: option.splits)
qed

section \<open>Approvals\<close>

definition current :: "uuid \<Rightarrow> Approval \<Rightarrow> bool" where
  "current i a \<longleftrightarrow> ap_JobID a = i \<and> ap_SupersededByApprovalID a = None"

definition approvalInv :: "(uuid \<rightharpoonup> Approval) \<Rightarrow> bool" where
  "approvalInv m \<longleftrightarrow>
     (\<forall>i a b. a \<in> ran m \<longrightarrow> b \<in> ran m \<longrightarrow> current i a \<longrightarrow> current i b \<longrightarrow> a = b)
   \<and> (\<forall>a \<in> ran m. \<forall>k. ap_SupersededByApprovalID a = Some k \<longrightarrow>
        (\<exists>c. m k = Some c \<and> ap_JobID c = ap_JobID a))"

definition versionInv :: "(uuid \<rightharpoonup> TranscriptVersion) \<Rightarrow> bool" where
  "versionInv m \<longleftrightarrow> (\<forall>v \<in> ran m. tv_IsImmutable v \<longleftrightarrow> tv_VersionType v = VersionApproved)"

definition approvedVersionOf :: "uuid \<Rightarrow> (uuid \<rightharpoonup> TranscriptVersion) \<Rightarrow> Approval \<Rightarrow> bool" where
  "approvedVersionOf i vs a \<longleftrightarrow> (\<exists>v. vs (ap_ApprovedTranscriptVersionID a) = Some v
     \<and> tv_VersionType v = VersionApproved \<and> tv_IsImmutable v \<and> tv_JobID v = i)"

definition jobInv :: "(uuid \<rightharpoonup> Job) \<Rightarrow> (uuid \<rightharpoonup> TranscriptVersion) \<Rightarrow> (uuid \<rightharpoonup> Approval) \<Rightarrow> bool" where
  "jobInv js vs as \<longleftrightarrow>
     (\<forall>i j. js i = Some j \<longrightarrow> j_Status j \<in> {StatusApproved, StatusExported} \<longrightarrow>
        (\<exists>a \<in> ran as. current i a \<and> approvedVersionOf i vs a))"

definition reviewInv :: "Store \<Rightarrow> bool" where
  "reviewInv s \<longleftrightarrow> storeInv s \<and> approvalInv (st_approvals s) \<and> versionInv (st_versions s)
     \<and> jobInv (st_jobs s) (st_versions s) (st_approvals s)"

lemma approvalsAfter_Some:
  assumes "m (ap_ApprovalID (apj_Approval p)) = None"
  shows "approvalsAfter p m i = Some r \<longleftrightarrow>
     (i = ap_ApprovalID (apj_Approval p) \<and> r = apj_Approval p)
     \<or> (\<exists>r0. m i = Some r0 \<and> r = (if staleApproval p r0 then supersededBy (ap_ApprovalID (apj_Approval p)) r0 else r0))"
  using assms
  by (auto simp: approvalsAfter_def Let_def updMap_Some staleApproval_def)

lemma approvalInv_after:
  assumes inv: "approvalInv m" and tab: "table ap_ApprovalID m ord"
    and fresh: "m (ap_ApprovalID (apj_Approval p)) = None"
    and a: "ap_JobID (apj_Approval p) = apj_JobID p" "ap_SupersededByApprovalID (apj_Approval p) = None"
  shows "approvalInv (approvalsAfter p m)"
proof -
  let ?n = "ap_ApprovalID (apj_Approval p)"
  note after = approvalsAfter_Some [of m p, OF fresh]
  have cur: "(a = apj_Approval p \<and> i = apj_JobID p) \<or> (a \<in> ran m \<and> i \<noteq> apj_JobID p)"
    if "a \<in> ran (approvalsAfter p m)" "current i a" for a i
  proof -
    from that(1) obtain k where "approvalsAfter p m k = Some a" by (auto simp: ran_def)
    with after [of k a] consider "a = apj_Approval p"
      | r0 where "m k = Some r0" "a = (if staleApproval p r0 then supersededBy ?n r0 else r0)" by blast
    then show ?thesis
    proof cases
      case 1
      with that(2) assms(4) show ?thesis by (auto simp: current_def)
    next
      case 2
      with that(2) have "\<not> staleApproval p r0" "a = r0" by (auto simp: current_def split: if_splits)
      moreover have "ap_ApprovalID r0 \<noteq> ?n" using 2(1) tab fresh by (auto simp: table_def)
      ultimately show ?thesis using 2(1) that(2) by (auto simp: staleApproval_def current_def ran_def)
    qed
  qed
  have "a = b" if "a \<in> ran (approvalsAfter p m)" "b \<in> ran (approvalsAfter p m)" "current i a" "current i b"
    for a b i
    using cur [OF that(1,3)] cur [OF that(2,4)] that(3,4) inv unfolding approvalInv_def by blast
  moreover have "\<exists>c. approvalsAfter p m k = Some c \<and> ap_JobID c = ap_JobID a"
    if "a \<in> ran (approvalsAfter p m)" "ap_SupersededByApprovalID a = Some k" for a k
  proof -
    from that(1) obtain l where "approvalsAfter p m l = Some a" by (auto simp: ran_def)
    with after [of l a] that(2) a obtain r0 where r0: "m l = Some r0"
      "a = (if staleApproval p r0 then supersededBy ?n r0 else r0)" by auto
    show ?thesis
    proof (cases "staleApproval p r0")
      case True
      with r0 that(2) have "k = ?n" "ap_JobID a = apj_JobID p" by (auto simp: staleApproval_def)
      then show ?thesis using after [of k "apj_Approval p"] a by auto
    next
      case False
      with r0 that(2) have "a \<in> ran m" by (auto simp: ran_def)
      with that(2) inv obtain c where c: "m k = Some c" "ap_JobID c = ap_JobID a"
        unfolding approvalInv_def by blast
      have "approvalsAfter p m k = Some (if staleApproval p c then supersededBy ?n c else c)"
        using after [of k] c(1) by blast
      with c(2) show ?thesis by (cases "staleApproval p c") auto
    qed
  qed
  ultimately show ?thesis unfolding approvalInv_def by blast
qed

lemma versionInv_insert:
  "versionInv m \<Longrightarrow> (tv_IsImmutable v \<longleftrightarrow> tv_VersionType v = VersionApproved) \<Longrightarrow> versionInv (m(i \<mapsto> v))"
  by (auto simp: versionInv_def ran_def)

lemma jobInv_version:
  "jobInv js vs as \<Longrightarrow> vs i = None \<Longrightarrow> jobInv js (vs(i \<mapsto> v)) as"
  unfolding jobInv_def approvedVersionOf_def by (metis fun_upd_other option.distinct(1))

lemma jobInv_set:
  assumes "jobInv js vs as"
    and "j_Status j \<in> {StatusApproved, StatusExported} \<Longrightarrow>
         (\<exists>cur. js i = Some cur \<and> j_Status cur \<in> {StatusApproved, StatusExported})"
  shows "jobInv (js(i \<mapsto> j)) vs as"
  using assms unfolding jobInv_def by (metis fun_upd_apply option.inject)

lemma exported_from_approved: "canTransition s StatusExported \<Longrightarrow> s = StatusApproved"
  by (cases s) (auto simp: canTransition_def)

lemma jobInv_approved:
  assumes inv: "jobInv js vs as" and ready: "vs (tv_TranscriptVersionID v) = None"
    and fresh: "as (ap_ApprovalID (apj_Approval p)) = None" and tab: "table ap_ApprovalID as ord"
    and v: "tv_VersionType v = VersionApproved" "tv_IsImmutable v" "tv_JobID v = apj_JobID p"
    and a: "ap_JobID (apj_Approval p) = apj_JobID p" "ap_SupersededByApprovalID (apj_Approval p) = None"
      "ap_ApprovedTranscriptVersionID (apj_Approval p) = tv_TranscriptVersionID v"
  shows "jobInv (js(apj_JobID p \<mapsto> j)) (vs(tv_TranscriptVersionID v \<mapsto> v)) (approvalsAfter p as)"
  unfolding jobInv_def
proof (intro allI impI)
  fix i j'
  let ?vs = "vs(tv_TranscriptVersionID v \<mapsto> v)"
  assume j': "(js(apj_JobID p \<mapsto> j)) i = Some j'" and st: "j_Status j' \<in> {StatusApproved, StatusExported}"
  show "\<exists>x \<in> ran (approvalsAfter p as). current i x \<and> approvedVersionOf i ?vs x"
  proof (cases "i = apj_JobID p")
    case True
    have "approvalsAfter p as (ap_ApprovalID (apj_Approval p)) = Some (apj_Approval p)"
      using approvalsAfter_Some [of as p, OF fresh] by blast
    then have "apj_Approval p \<in> ran (approvalsAfter p as)" by (rule ranI)
    with True v a show ?thesis by (intro bexI) (auto simp: current_def approvedVersionOf_def)
  next
    case False
    with j' st inv obtain x where x: "x \<in> ran as" "current i x" "approvedVersionOf i vs x"
      unfolding jobInv_def by auto
    from x(1) obtain k where k: "as k = Some x" by (auto simp: ran_def)
    have "\<not> staleApproval p x" using x(2) False by (auto simp: staleApproval_def current_def)
    with k have "approvalsAfter p as k = Some x"
      using approvalsAfter_Some [of as p, OF fresh] by auto
    moreover have "approvedVersionOf i ?vs x" using x(3) ready by (auto simp: approvedVersionOf_def)
    ultimately show ?thesis using x(2) by (blast intro: ranI)
  qed
qed

lemma step_reviewInv:
  assumes step: "storeStep s s'" and inv: "reviewInv s"
  shows "reviewInv s'"
proof -
  have s: "storeInv s" "approvalInv (st_approvals s)" "versionInv (st_versions s)"
    "jobInv (st_jobs s) (st_versions s) (st_approvals s)"
    using inv by (auto simp: reviewInv_def)
  have s': "storeInv s'" using step s(1) by (rule step_inv)
  from step have "approvalInv (st_approvals s') \<and> versionInv (st_versions s')
      \<and> jobInv (st_jobs s') (st_versions s') (st_approvals s')"
  proof (cases rule: storeStep.cases)
    case sQuiet
    with s quiet_frame show ?thesis by metis
  next
    case (sCreateJob j)
    then have "jobInv ((st_jobs s)(j_JobID j \<mapsto> j)) (st_versions s) (st_approvals s)"
      using s(4) by (intro jobInv_set) auto
    with sCreateJob s show ?thesis by (simp add: createJob_def)
  next
    case (sTransition i st0 f j)
    then obtain cur where cur: "st_jobs s i = Some cur" "j_Status cur = st0" "f cur = Ok j"
      and s'_eq: "s' = s\<lparr>st_jobs := (st_jobs s)(i \<mapsto> j)\<rparr>"
      by (auto simp: transitionJob_Ok)
    have "j_Status cur \<in> {StatusApproved, StatusExported}" if "j_Status j \<in> {StatusApproved, StatusExported}"
      using lawfulApplyD [OF sTransition(2) cur(2,3)] that exported_from_approved [of "j_Status cur"] cur(2) by auto
    with cur(1) have "jobInv ((st_jobs s)(i \<mapsto> j)) (st_versions s) (st_approvals s)"
      using s(4) by (intro jobInv_set) auto
    with s s'_eq show ?thesis by simp
  next
    case (sVersion v segs)
    then show ?thesis using s
      by (simp add: createVersion_insert insertVersionLocked_eq versionInv_insert jobInv_version
          freshVersion_def draftVersion_def)
  next
    case (sEdit sg)
    with s show ?thesis by (auto simp: updateSegment_Ok)
  next
    case (sApprove p now j ids)
    with s(1) obtain cur where "s' = approvedStore now p cur s" by (auto simp: approveJob_Ok)
    with sApprove(1) s storeInv_tables(2,5) [OF s(1)] show ?thesis
      by (simp add: approvedStore_def insertVersionLocked_eq approveReady_def Let_def freshVersion_def
          versionInv_insert approvalInv_after jobInv_approved)
  next
    case (sReopen p now j)
    then have "jobInv ((st_jobs s)(rpj_JobID p \<mapsto> j)) (st_versions s) (st_approvals s)"
      using s(4) by (intro jobInv_set) (auto simp: reopenJob_Ok)
    with sReopen s show ?thesis
      by (auto simp: reopenJob_Ok insertVersionLocked_eq versionInv_insert jobInv_version
          freshVersion_def draftVersion_def)
  qed
  with s' show ?thesis by (simp add: reviewInv_def)
qed

lemma reviewInv_new: "reviewInv newStore"
  by (simp add: reviewInv_def approvalInv_def versionInv_def jobInv_def) (simp add: newStore_def)

lemma reachable_reviewInv: "reachable s \<Longrightarrow> reviewInv s"
  by (induction rule: rtranclp_induct) (auto intro: reviewInv_new step_reviewInv)

section \<open>What reachable stores promise\<close>

lemma rows_table_in: "table key m ord \<Longrightarrow> r \<in> set (rows m ord) \<longleftrightarrow> r \<in> ran m"
  by (simp add: set_rows)

lemma currentApproval_rows:
  "storeInv s \<Longrightarrow> currentApproval i s = Ok (lastMatch (current i) (rows (st_approvals s) (st_apprOrder s)))"
  using storeInv_tables(5) [of s] by (simp add: currentApproval_def scanRows_table current_def [abs_def])

lemma currentApproval_iff:
  assumes "reviewInv s"
  shows "currentApproval i s = Ok (Some a) \<longleftrightarrow> a \<in> ran (st_approvals s) \<and> current i a"
proof -
  have inv: "storeInv s" and uniq: "approvalInv (st_approvals s)" using assms by (simp_all add: reviewInv_def)
  let ?rs = "rows (st_approvals s) (st_apprOrder s)"
  have rs: "set ?rs = ran (st_approvals s)" using storeInv_tables(5) [OF inv] by (rule set_rows)
  show ?thesis
  proof
    assume "currentApproval i s = Ok (Some a)"
    then have "lastMatch (current i) ?rs = Some a" by (simp add: currentApproval_rows [OF inv])
    then show "a \<in> ran (st_approvals s) \<and> current i a" using rs by (auto dest: lastMatch_Some)
  next
    assume a: "a \<in> ran (st_approvals s) \<and> current i a"
    with rs obtain b where b: "lastMatch (current i) ?rs = Some b"
      by (cases "lastMatch (current i) ?rs") (auto simp: lastMatch_None)
    with rs have "b \<in> ran (st_approvals s)" "current i b" by (auto dest: lastMatch_Some)
    with a uniq have "b = a" unfolding approvalInv_def by blast
    with b show "currentApproval i s = Ok (Some a)" by (simp add: currentApproval_rows [OF inv])
  qed
qed

lemma length_le_1:
  assumes "distinct xs" and "\<And>x y. x \<in> set xs \<Longrightarrow> y \<in> set xs \<Longrightarrow> x = y"
  shows "length xs \<le> 1"
proof (cases xs)
  case (Cons x ys)
  have "ys = []"
  proof (cases ys)
    case (Cons y zs)
    with \<open>xs = x # ys\<close> assms(2) [of x y] have "x = y" by simp
    with \<open>xs = x # ys\<close> Cons assms(1) show ?thesis by simp
  qed simp
  with Cons show ?thesis by simp
qed simp

lemma map_key_rows: "table key m ord \<Longrightarrow> map key (rows m ord) = ord"
  unfolding rows_def map_map by (rule map_idI) (auto simp: table_def)

lemma distinct_rows: "table key m ord \<Longrightarrow> distinct (rows m ord)"
  using map_key_rows [of key m ord] distinct_map [of key "rows m ord"] by (simp add: table_def)

text \<open>
  A job has at most one current approval.  In every reachable store at most one approval of a
  job is not superseded, \<open>CurrentApproval\<close> returns exactly that one, and a superseded approval
  names an existing approval of the same job.
\<close>

theorem one_current_approval:
  assumes "reachable s"
  shows "length (filter (current i) (rows (st_approvals s) (st_apprOrder s))) \<le> 1
       \<and> (currentApproval i s = Ok (Some a) \<longleftrightarrow> a \<in> ran (st_approvals s) \<and> current i a)
       \<and> (\<forall>b \<in> ran (st_approvals s). \<forall>k. ap_SupersededByApprovalID b = Some k \<longrightarrow>
            (\<exists>c. getApproval k s = Ok c \<and> ap_JobID c = ap_JobID b))"
proof -
  have inv: "reviewInv s" using assms by (rule reachable_reviewInv)
  then have st: "storeInv s" and uniq: "approvalInv (st_approvals s)" by (simp_all add: reviewInv_def)
  have "length (filter (current i) (rows (st_approvals s) (st_apprOrder s))) \<le> 1"
  proof (rule length_le_1)
    show "distinct (filter (current i) (rows (st_approvals s) (st_apprOrder s)))"
      using distinct_rows [OF storeInv_tables(5) [OF st]] by simp
    show "x = y" if "x \<in> set (filter (current i) (rows (st_approvals s) (st_apprOrder s)))"
      "y \<in> set (filter (current i) (rows (st_approvals s) (st_apprOrder s)))" for x y
      using that uniq set_rows [OF storeInv_tables(5) [OF st]] unfolding approvalInv_def by auto
  qed
  moreover have "\<exists>c. getApproval k s = Ok c \<and> ap_JobID c = ap_JobID b"
    if "b \<in> ran (st_approvals s)" "ap_SupersededByApprovalID b = Some k" for b k
    using that uniq unfolding approvalInv_def getApproval_def getRow_def by fastforce
  ultimately show ?thesis using currentApproval_iff [OF inv] by blast
qed

text \<open>
  C13: An approved transcript exists.  Whenever a reachable store shows a job as approved or exported,
  the job has a current approval, and the version that approval names is an immutable, approved
  version of this job.
\<close>

theorem approved_job_has_version:
  assumes "reachable s" and "getJob i s = Ok j" and "j_Status j \<in> {StatusApproved, StatusExported}"
  shows "\<exists>a v. currentApproval i s = Ok (Some a) \<and> getVersion (ap_ApprovedTranscriptVersionID a) s = Ok v
       \<and> tv_VersionType v = VersionApproved \<and> tv_IsImmutable v \<and> tv_JobID v = i"
proof -
  have inv: "reviewInv s" using assms(1) by (rule reachable_reviewInv)
  from assms(2) have "st_jobs s i = Some j" by (auto simp: getJob_def getRow_def split: option.splits)
  with inv assms(3) obtain a where "a \<in> ran (st_approvals s)" "current i a"
    "approvedVersionOf i (st_versions s) a"
    unfolding reviewInv_def jobInv_def by blast
  with currentApproval_iff [OF inv] show ?thesis
    by (fastforce simp: approvedVersionOf_def getVersion_def getRow_def)
qed

lemma step_frozen:
  assumes step: "storeStep s s'" and inv: "reviewInv s"
    and v: "st_versions s v = Some tv" "tv_IsImmutable tv"
  shows "st_versions s' v = Some tv \<and> listSegments v s' = listSegments v s"
proof -
  have st: "storeInv s" using inv by (simp add: reviewInv_def)
  have new: "st_versions s' v = Some tv \<and> listSegments v s' = listSegments v s"
    if fresh: "freshVersion w segs s"
      and s': "st_versions s' = (st_versions s)(tv_TranscriptVersionID w \<mapsto> w)"
        "st_segments s' = addSegs (st_segments s) segs"
        "st_segByVer s' = (st_segByVer s)(tv_TranscriptVersionID w :=
            st_segByVer s (tv_TranscriptVersionID w) @ map sg_SegmentID segs)" for w segs
  proof -
    have ne: "tv_TranscriptVersionID w \<noteq> v" using fresh v(1) by (auto simp: freshVersion_def)
    have "rows (addSegs (st_segments s) segs) (st_segByVer s v) = rows (st_segments s) (st_segByVer s v)"
      unfolding rows_def
    proof (rule map_cong [OF refl])
      fix i assume "i \<in> set (st_segByVer s v)"
      with st obtain sg where "st_segments s i = Some sg" unfolding storeInv_def by (blast dest: segIndexD)
      with freshVersion_other [OF fresh] show "the (addSegs (st_segments s) segs i) = the (st_segments s i)" by simp
    qed
    moreover have "set (st_segByVer s v) \<subseteq> dom (addSegs (st_segments s) segs)"
    proof
      fix i assume "i \<in> set (st_segByVer s v)"
      with st obtain sg where "st_segments s i = Some sg" unfolding storeInv_def by (blast dest: segIndexD)
      with freshVersion_other [OF fresh] show "i \<in> dom (addSegs (st_segments s) segs)" by blast
    qed
    ultimately show ?thesis
      using ne v(1) segments_scan [OF st, of v] by (simp add: listSegments_def s' scanRows_dom)
  qed
  from step show ?thesis
  proof (cases rule: storeStep.cases)
    case sQuiet
    with quiet_frame v(1) show ?thesis by (simp add: listSegments_def)
  next
    case sCreateJob
    with v(1) show ?thesis by (simp add: createJob_def listSegments_def)
  next
    case sTransition
    with v(1) show ?thesis by (auto simp: transitionJob_Ok listSegments_def)
  next
    case sVersion
    with new show ?thesis by (simp add: createVersion_insert insertVersionLocked_eq)
  next
    case (sEdit sg)
    then obtain old w where old: "st_segments s (sg_SegmentID sg) = Some old"
      "st_versions s (sg_TranscriptVersionID old) = Some w" "\<not> tv_IsImmutable w"
      and s': "s' = s\<lparr>st_segments := (st_segments s)(sg_SegmentID sg \<mapsto> sg)\<rparr>"
      by (auto simp: editable_def updateSegment_Ok)
    have out: "sg_SegmentID sg \<notin> set (st_segByVer s v)"
    proof
      assume "sg_SegmentID sg \<in> set (st_segByVer s v)"
      with st obtain x where "st_segments s (sg_SegmentID sg) = Some x" "sg_TranscriptVersionID x = v"
        unfolding storeInv_def by (blast dest: segIndexD)
      with old v show False by simp
    qed
    then have "rows ((st_segments s)(sg_SegmentID sg \<mapsto> sg)) (st_segByVer s v)
        = rows (st_segments s) (st_segByVer s v)"
      by (auto simp: rows_def)
    moreover have "set (st_segByVer s v) \<subseteq> dom ((st_segments s)(sg_SegmentID sg \<mapsto> sg))"
      using st unfolding storeInv_def by (auto dest: segIndexD)
    ultimately show ?thesis
      using v(1) s' segments_scan [OF st, of v] by (simp add: listSegments_def scanRows_dom)
  next
    case (sApprove p now j ids)
    with st have "\<exists>cur. s' = approvedStore now p cur s" by (auto simp: approveJob_Ok)
    moreover have "freshVersion (apj_ApprovedVersion p) (apj_Segments p) s"
      using sApprove(1) by (simp add: approveReady_def Let_def)
    ultimately show ?thesis using new by (auto simp: approvedStore_def insertVersionLocked_eq)
  next
    case (sReopen p now j)
    then show ?thesis using new [OF sReopen(1)] by (auto simp: reopenJob_Ok insertVersionLocked_eq)
  qed
qed

text \<open>
  C2: Approved transcripts are frozen.  Once a reachable store holds an immutable version, no sequence
  of client steps (edits, reopens and re-approvals included) changes the version or its segments.
\<close>

theorem approved_transcript_frozen:
  assumes "reachable s" and "storeSteps s s'"
    and "getVersion v s = Ok tv" and "tv_IsImmutable tv"
  shows "getVersion v s' = Ok tv \<and> listSegments v s' = listSegments v s"
proof -
  have v: "st_versions s v = Some tv" using assms(3) by (auto simp: getVersion_def getRow_def split: option.splits)
  have "reviewInv s' \<and> st_versions s' v = Some tv \<and> listSegments v s' = listSegments v s"
    using assms(2)
  proof (induction rule: rtranclp_induct)
    case base
    with v assms(1) show ?case by (simp add: reachable_reviewInv)
  next
    case (step y z)
    then have "st_versions z v = Some tv \<and> listSegments v z = listSegments v y"
      using step_frozen [of y z v tv] assms(4) by blast
    with step show ?case using step_reviewInv by auto
  qed
  then show ?thesis by (simp add: getVersion_def getRow_def)
qed

end
