(* ===== verification/Job_Rules.thy ===== *)
theory Job_Rules
  imports Job_Contract Job_Review
begin

text \<open>
  The contracts of the store's operations: each is a step of the life cycle, on ids that are held.
\<close>

section \<open>A store method\<close>

lemma others_run:
  assumes w: "worldOK env w" and s: "s = en_others env n (w_store w)"
  shows "reachable s" "storeSteps (w_store w) s" "usedIds s \<inter> set (en_uuids env) \<subseteq> usedIds (w_store w)"
    "spares env i \<Longrightarrow> statusOf i s = statusOf i (w_store w)"
proof -
  have "reachable (w_store w)" "relyOK env" using w by (auto simp: worldOK_def)
  then have steps: "storeSteps (w_store w) s" and ids: "usedIds s \<inter> set (en_uuids env) \<subseteq> usedIds (w_store w)"
    by (auto simp: relyOK_def s)
  then show "storeSteps (w_store w) s" "usedIds s \<inter> set (en_uuids env) \<subseteq> usedIds (w_store w)" by auto
  show "reachable s" using \<open>reachable (w_store w)\<close> steps by (rule rtranclp_trans)
  show "spares env i \<Longrightarrow> statusOf i s = statusOf i (w_store w)" by (simp add: spares_def s)
qed

text \<open>\<open>F\<close> is a fact about the store that every step of the life cycle keeps.\<close>

lemma triple_locked:
  assumes vs: "set vs \<subseteq> set us"
    and stable: "\<And>s s'. reachable s \<Longrightarrow> storeSteps s s' \<Longrightarrow> F s \<Longrightarrow> F s'"
    and eff: "\<And>s x s'. reachable s \<Longrightarrow> set vs \<inter> usedIds s = {} \<Longrightarrow> F s \<Longrightarrow> f s = Ok (x, s') \<Longrightarrow>
      storeSteps s s' \<and> usedIds s' \<subseteq> usedIds s \<union> set vs \<and> (k \<longrightarrow> (\<forall>i. statusOf i s' = statusOf i s)) \<and> G x s'"
  shows "triple (worldOK env) (moves env k) (\<lambda>w. fresh env us w \<and> F (w_store w)) (locked env f)
    (\<lambda>x w. G x (w_store w))"
proof (rule tripleI)
  fix w r w'
  assume w: "worldOK env w" and pre: "fresh env us w \<and> F (w_store w)" and run: "locked env f w = (r, w')"
  then have us: "fresh env us w" by simp
  let ?s = "en_others env (w_tick w) (w_store w)"
  note o = others_run [OF w refl, where n = "w_tick w"]
  have rely: "relyOK env" and free: "usedIds (w_store w) \<inter> set (drop (w_drawn w) (en_uuids env)) = {}"
    using w by (auto simp: worldOK_def)
  have sub: "set (drop (w_drawn w) (en_uuids env)) \<subseteq> set (en_uuids env)" by (rule set_drop_subset)
  have held: "set us \<subseteq> set (take (w_drawn w) (en_uuids env))" "set us \<inter> usedIds (w_store w) = {}" "distinct us"
    using us by (auto simp: fresh_def)
  have quiet: "worldOK env w'" "moves env k w w'" if "w' = w\<lparr>w_tick := Suc (w_tick w), w_store := ?s\<rparr>"
    using that o rely free sub by (auto simp: worldOK_def moves_def)
  have F: "F ?s" using stable [OF _ o(2)] pre w by (simp add: worldOK_def)
  show "worldOK env w' \<and> moves env k w w' \<and> (\<forall>x. r = Ok x \<longrightarrow> G x (w_store w'))"
  proof (cases "f ?s")
    case (Ok y)
    obtain x s' where y: "y = (x, s')" by (cases y)
    have w': "w' = w\<lparr>w_tick := Suc (w_tick w), w_store := s'\<rparr>" "r = Ok x"
      using run Ok y by (simp_all add: locked_def Let_def)
    have "set us \<subseteq> set (en_uuids env)" using held(1) set_take_subset by (rule subset_trans)
    then have "set vs \<inter> usedIds ?s = {}" using vs held(2) o(3) by blast
    with eff [OF o(1) _ F Ok [unfolded y]]
    have s': "storeSteps ?s s'" "usedIds s' \<subseteq> usedIds ?s \<union> set vs"
      "k \<longrightarrow> (\<forall>i. statusOf i s' = statusOf i ?s)" "G x s'" by auto
    have "storeSteps (w_store w) s'" using o(2) s'(1) by (rule rtranclp_trans)
    moreover have "reachable s'" using o(1) s'(1) by (rule rtranclp_trans)
    moreover have "distinct (en_uuids env)" using rely by (simp add: relyOK_def)
    then have "set us \<inter> set (drop (w_drawn w) (en_uuids env)) = {}"
      using held(1) set_take_disj_set_drop_if_distinct [of "en_uuids env" "w_drawn w" "w_drawn w"] by blast
    then have "usedIds s' \<inter> set (drop (w_drawn w) (en_uuids env)) = {}"
      using s'(2) vs o(3) free sub by blast
    ultimately show ?thesis using s' w' o(4) rely by (auto simp: worldOK_def moves_def)
  next
    case (Err e)
    with run have "w' = w\<lparr>w_tick := Suc (w_tick w), w_store := ?s\<rparr>" "r = Err e" by (simp_all add: locked_def Let_def)
    with quiet show ?thesis by simp
  next
    case Panic
    with run have "w' = w\<lparr>w_tick := Suc (w_tick w), w_store := ?s\<rparr>" "r = Panic" by (simp_all add: locked_def Let_def)
    with quiet show ?thesis by simp
  qed
qed

lemma spec_locked:
  assumes "set vs \<subseteq> set us"
    and "\<And>s x s'. reachable s \<Longrightarrow> set vs \<inter> usedIds s = {} \<Longrightarrow> f s = Ok (x, s') \<Longrightarrow>
      storeSteps s s' \<and> usedIds s' \<subseteq> usedIds s \<union> set vs \<and> (k \<longrightarrow> (\<forall>i. statusOf i s' = statusOf i s)) \<and> G x"
  shows "spec env k us (locked env f) G (\<lambda>_. [])"
  unfolding spec_def
  by (rule triple_conseq [OF triple_locked [where F = "\<lambda>_. True" and G = "\<lambda>x _. G x", OF assms(1)]])
    (auto dest: assms(2))

text \<open>Reading keeps the held ids.\<close>

lemma reads_eq:
  "reads env g w = (g (en_others env (w_tick w) (w_store w)),
     w\<lparr>w_tick := Suc (w_tick w), w_store := en_others env (w_tick w) (w_store w)\<rparr>)"
  by (cases "g (en_others env (w_tick w) (w_store w))") (simp_all add: reads_def locked_def Let_def)

lemma reads_run:
  assumes w: "worldOK env w" and us: "fresh env us w" and run: "reads env g w = (r, w')"
  shows "worldOK env w' \<and> moves env k w w' \<and> fresh env us w' \<and> (\<exists>s. reachable s \<and> g s = r)"
proof -
  let ?s = "en_others env (w_tick w) (w_store w)"
  note o = others_run [OF w refl, where n = "w_tick w"]
  have w': "w' = w\<lparr>w_tick := Suc (w_tick w), w_store := ?s\<rparr>" and r: "g ?s = r"
    using run by (simp_all add: reads_eq)
  have "set (drop (w_drawn w) (en_uuids env)) \<subseteq> set (en_uuids env)" by (rule set_drop_subset)
  moreover have "set us \<subseteq> set (en_uuids env)" if "set us \<subseteq> set (take (w_drawn w) (en_uuids env))"
    using that set_take_subset by (rule subset_trans)
  ultimately show ?thesis using w us o r unfolding w' by (auto simp: worldOK_def moves_def fresh_def)
qed

lemma spec_reads [act]: "spec env k us (reads env g) (\<lambda>x. \<exists>s. reachable s \<and> g s = Ok x) (\<lambda>_. us)"
  unfolding spec_def
proof (rule tripleI)
  fix w r w'
  assume "worldOK env w" "fresh env us w" "reads env g w = (r, w')"
  from reads_run [OF this, of k]
  show "worldOK env w' \<and> moves env k w w' \<and> (\<forall>x. r = Ok x \<longrightarrow> (\<exists>s. reachable s \<and> g s = Ok x) \<and> fresh env us w')"
    by blast
qed

lemma attempt_run:
  assumes "attempt m w = (r, w')"
  obtains r1 where "m w = (r1, w')" "\<And>x. r = Ok (Inr x) \<Longrightarrow> r1 = Ok x"
proof (cases "m w")
  case (Pair r1 w1)
  with assms have "w' = w1" "\<And>x. r = Ok (Inr x) \<Longrightarrow> r1 = Ok x"
    by (auto simp: attempt_def split: outcome.splits)
  with Pair that show ?thesis by blast
qed

lemma spec_attempt_reads [act]:
  "spec env k us (attempt (reads env g)) (\<lambda>r. \<forall>x. r = Inr x \<longrightarrow> (\<exists>s. reachable s \<and> g s = Ok x)) (\<lambda>_. us)"
  unfolding spec_def
proof (rule tripleI)
  fix w r w'
  assume w: "worldOK env w" "fresh env us w" and att: "attempt (reads env g) w = (r, w')"
  obtain r1 where run: "reads env g w = (r1, w')" and r: "\<And>x. r = Ok (Inr x) \<Longrightarrow> r1 = Ok x"
    using att by (rule attempt_run) blast
  have "\<forall>y. r = Ok (Inr y) \<longrightarrow> (\<exists>s. reachable s \<and> g s = Ok y)"
    using reads_run [OF w run, of k] r by blast
  with reads_run [OF w run, of k] show "worldOK env w' \<and> moves env k w w'
      \<and> (\<forall>x. r = Ok x \<longrightarrow> (\<forall>y. x = Inr y \<longrightarrow> (\<exists>s. reachable s \<and> g s = Ok y)) \<and> fresh env us w')"
    by blast
qed

section \<open>The audit\<close>

lemma usedIds_appendAudit [simp]: "usedIds (appendAudit e s) = usedIds s"
  by (simp add: usedIds_def appendAudit_def)

lemma statusOf_appendAudit [simp]: "statusOf i (appendAudit e s) = statusOf i s"
  by (simp add: statusOf_def appendAudit_def)

lemma event_run:
  assumes w: "worldOK env w" and us: "fresh env us w" and run: "event env j aty ai et pl w = (r, w')"
  shows "worldOK env w' \<and> moves env k w w' \<and> fresh env us w'"
proof -
  obtain r1 w1 where n: "newUUID env w = (r1, w1)" by (cases "newUUID env w")
  note p1 = tripleD [OF spec_newUUID [of env k us, unfolded spec_def] w us n]
  have "set (take (w_drawn w) (en_uuids env)) \<subseteq> set (take (Suc (w_drawn w)) (en_uuids env))"
    by (rule set_take_subset_set_take) simp
  then have us1: "fresh env us w1" using us n by (auto simp: newUUID_def fresh_def split: if_splits)
  show ?thesis
  proof (cases r1)
    case (Ok i)
    let ?w2 = "w1\<lparr>w_tick := Suc (w_tick w1)\<rparr>" and ?w3 = "w1\<lparr>w_tick := Suc (Suc (w_tick w1))\<rparr>"
    have w3: "worldOK env ?w3" "moves env k w ?w3" "fresh env us ?w3"
      using p1 us1 by (auto simp: worldOK_def moves_def fresh_def)
    have step: "event env j aty ai et pl w = (case en_appendFails env (w_tick ?w2) of
        Some msg \<Rightarrow> (Err (E ''AUDIT_WRITE_FAILED'' (''audit append failed for '' @ et @ '': '' @ msg)), ?w3)
      | None \<Rightarrow> inserts env (appendAudit \<lparr>ae_AuditEventID = i, ae_JobID = j, ae_ActorType = aty, ae_ActorID = ai,
            ae_EventType = et, ae_EventPayload = pl, ae_CreatedAt = en_now env (w_tick w1)\<rparr>) ?w3)"
      using n Ok by (simp add: event_def andThen_def now_def outside_def failWith_def split: option.split)
    show ?thesis
    proof (cases "en_appendFails env (w_tick ?w2)")
      case None
      let ?s = "en_others env (w_tick ?w3) (w_store ?w3)"
      obtain e where "w' = ?w3\<lparr>w_tick := Suc (w_tick ?w3), w_store := appendAudit e ?s\<rparr>"
        using run unfolding step None by (auto simp: inserts_def locked_def Let_def)
      note w' = this
      have rd: "reads env (\<lambda>s. Ok ()) ?w3 = (Ok (), ?w3\<lparr>w_tick := Suc (w_tick ?w3), w_store := ?s\<rparr>)"
        by (simp add: reads_eq)
      from reads_run [OF w3(1,3) rd, of k] have q: "worldOK env (?w3\<lparr>w_tick := Suc (w_tick ?w3), w_store := ?s\<rparr>)"
        "moves env k ?w3 (?w3\<lparr>w_tick := Suc (w_tick ?w3), w_store := ?s\<rparr>)"
        "fresh env us (?w3\<lparr>w_tick := Suc (w_tick ?w3), w_store := ?s\<rparr>)" by auto
      have st: "storeStep ?s (appendAudit e ?s)" by (rule sQuiet) (rule qAudit)
      have "moves env k w (?w3\<lparr>w_tick := Suc (w_tick ?w3), w_store := ?s\<rparr>)"
        using w3(2) q(2) by (rule svc.R_trans)
      with q(1,3) st show ?thesis
        unfolding w' by (auto simp: worldOK_def moves_def fresh_def intro: rtranclp.rtrancl_into_rtrancl)
    qed (insert run w3, simp add: step)
  next
    case (Err e)
    with n run p1 us1 show ?thesis by (simp add: event_def andThen_def)
  next
    case Panic
    with n run p1 us1 show ?thesis by (simp add: event_def andThen_def)
  qed
qed

lemma spec_event [act]: "spec env k us (event env j aty ai et pl) (\<lambda>_. True) (\<lambda>_. us)"
  unfolding spec_def using event_run by (intro tripleI) blast

lemma spec_eventStrict [act]: "spec env k us (eventStrict env j aty ai et pl) (\<lambda>_. True) (\<lambda>_. us)"
  unfolding spec_def
proof (rule tripleI)
  fix w r w'
  assume w: "worldOK env w" "fresh env us w" and run: "eventStrict env j aty ai et pl w = (r, w')"
  obtain r1 w1 where ev: "event env j aty ai et pl w = (r1, w1)" by (cases "event env j aty ai et pl w")
  have "w' = w1" using run ev
    by (cases r1) (auto simp: eventStrict_def attempt_def andThen_def failWith_def ret_def)
  with event_run [OF w ev, of k]
  show "worldOK env w' \<and> moves env k w w' \<and> (\<forall>x. r = Ok x \<longrightarrow> True \<and> fresh env us w')" by simp
qed

lemma spec_audit [act]: "spec env k us (audit env j aty ai et pl) (\<lambda>_. True) (\<lambda>_. [])"
  unfolding audit_def
  by (rule spec_bind [OF spec_attempt [OF spec_event]]) (rule spec_ret0, simp)

lemma spec_toolFailed [act]: "spec env k us (toolFailed env j tool pl e) G us'"
  unfolding toolFailed_def by (rule spec_bind [OF spec_audit]) (rule spec_fail)

end
