(* ===== verification/Job_Ops.thy ===== *)
theory Job_Ops
  imports Job_Rules
begin

text \<open>
  The contracts of the store's writes: inserts under ids that are held, updates, the swap of a status,
  approval and reopening.
\<close>

section \<open>Ids in use\<close>

lemma statusOf_quiet: "quietStep s s' \<Longrightarrow> statusOf i s' = statusOf i s"
  using quiet_frame by (simp add: statusOf_def)

lemma dom_addSegs: "dom (addSegs m segs) \<subseteq> dom m \<union> set (map sg_SegmentID segs)"
proof
  fix i
  assume "i \<in> dom (addSegs m segs)"
  then show "i \<in> dom m \<union> set (map sg_SegmentID segs)"
    using addSegs_other [of i segs m] by (cases "i \<in> sg_SegmentID ` set segs") (auto simp: dom_def)
qed

definition versionIds :: "TranscriptVersion \<Rightarrow> Segment list \<Rightarrow> uuid list" where
  "versionIds v segs = tv_TranscriptVersionID v # map sg_SegmentID segs"

lemma usedIds_insertVersion:
  "usedIds (insertVersionLocked v segs s) \<subseteq> usedIds s \<union> set (versionIds v segs)"
  using dom_addSegs [of "st_segments s" segs]
  by (auto simp: usedIds_def insertVersionLocked_eq versionIds_def)

lemma freshVersion_held:
  assumes "set (versionIds v segs) \<inter> usedIds s = {}" and "distinct (map sg_SegmentID segs)"
    and "\<forall>sg \<in> set segs. sg_TranscriptVersionID sg = tv_TranscriptVersionID v"
  shows "freshVersion v segs s"
  using assms by (auto simp: freshVersion_def versionIds_def usedIds_def disjoint_iff domIff)

lemma usedIds_setJob: "st_jobs s i = Some cur \<Longrightarrow> usedIds (s\<lparr>st_jobs := (st_jobs s)(i \<mapsto> j)\<rparr>) = usedIds s"
  by (auto simp: usedIds_def)

section \<open>Inserts and updates\<close>

text \<open>A step that touches neither jobs nor versions nor approvals.\<close>

lemma spec_quiet:
  assumes "set vs \<subseteq> set us"
    and "\<And>s x s'. reachable s \<Longrightarrow> set vs \<inter> usedIds s = {} \<Longrightarrow> f s = Ok (x, s') \<Longrightarrow>
      quietStep s s' \<and> usedIds s' \<subseteq> usedIds s \<union> set vs \<and> G x"
  shows "spec env k us (locked env f) G (\<lambda>_. [])"
proof (rule spec_locked [OF assms(1)])
  fix s x s'
  assume "reachable s" "set vs \<inter> usedIds s = {}" "f s = Ok (x, s')"
  from assms(2) [OF this] show "storeSteps s s' \<and> usedIds s' \<subseteq> usedIds s \<union> set vs
      \<and> (k \<longrightarrow> (\<forall>i. statusOf i s' = statusOf i s)) \<and> G x"
    by (auto intro: sQuiet statusOf_quiet)
qed

lemma spec_insert:
  assumes "i \<in> set us"
    and "\<And>s. reachable s \<Longrightarrow> i \<notin> usedIds s \<Longrightarrow> quietStep s (f s) \<and> usedIds (f s) \<subseteq> insert i (usedIds s)"
  shows "spec env k us (inserts env f) (\<lambda>_. True) (\<lambda>_. [])"
  unfolding inserts_def using assms by (intro spec_quiet [where vs = "[i]"]) auto

lemma spec_update:
  assumes "\<And>s s'. reachable s \<Longrightarrow> f s = Ok s' \<Longrightarrow> quietStep s s' \<and> usedIds s' \<subseteq> usedIds s"
  shows "spec env k us (writes env f) (\<lambda>_. True) (\<lambda>_. [])"
  unfolding writes_def by (rule spec_quiet [where vs = "[]"]) (auto simp: mapOk_Ok_iff dest: assms)

lemma spec_createSummary [act]:
  "sm_SummaryID m \<in> set us \<Longrightarrow> spec env k us (inserts env (createSummary m)) (\<lambda>_. True) (\<lambda>_. [])"
  by (erule spec_insert, intro conjI qSummary) (auto simp: usedIds_def createSummary_def)

lemma spec_createReport [act]:
  "qr_QualityReportID r \<in> set us \<Longrightarrow> spec env k us (inserts env (createReport r)) (\<lambda>_. True) (\<lambda>_. [])"
  by (erule spec_insert, intro conjI qReport) (auto simp: usedIds_def createReport_def)

lemma spec_createArtifact [act]:
  "ma_ArtifactID a \<in> set us \<Longrightarrow> spec env k us (inserts env (createArtifact a)) (\<lambda>_. True) (\<lambda>_. [])"
  by (erule spec_insert, intro conjI qArtifact) (auto simp: usedIds_def createArtifact_def)

lemma spec_createExport [act]:
  "ex_ExportID e \<in> set us \<Longrightarrow> spec env k us (inserts env (createExport e)) (\<lambda>_. True) (\<lambda>_. [])"
  by (erule spec_insert, intro conjI qExport) (auto simp: usedIds_def createExport_def)

lemma spec_createFeed [act]:
  "fd_FeedID f \<in> set us \<Longrightarrow> spec env k us (inserts env (createFeed f)) (\<lambda>_. True) (\<lambda>_. [])"
  by (erule spec_insert, intro conjI qFeed) (auto simp: usedIds_def createFeed_def)

lemma spec_createJobConfig [act]:
  "spec env k (i # us) (inserts env (createJobConfig c)) (\<lambda>_. True) (\<lambda>_. [])"
  by (rule spec_insert [where i = i], simp, intro conjI qConfig) (auto simp: usedIds_def createJobConfig_def)

lemma spec_upsert [act]:
  assumes "ep_EpisodeID e \<in> set us"
  shows "spec env k us (upsertA env e) (\<lambda>_. True) (\<lambda>_. [])"
  unfolding upsertA_def
proof (rule spec_quiet [where vs = "[ep_EpisodeID e]"])
  fix s x s'
  assume "set [ep_EpisodeID e] \<inter> usedIds s = {}"
    and "mapOk (\<lambda>(isNew, e, s'). ((isNew, e), s')) (upsertEpisode e s) = Ok (x, s')"
  then have none: "st_episodes s (ep_EpisodeID e) = None" and up: "upsertEpisode e s = Ok (fst x, snd x, s')"
    by (auto simp: usedIds_def domIff mapOk_Ok_iff)
  have "usedIds s' \<subseteq> usedIds s \<union> set [ep_EpisodeID e]"
    using up by (auto simp: upsertEpisode_def Let_def usedIds_def split: option.splits if_splits)
  with none up show "quietStep s s' \<and> usedIds s' \<subseteq> usedIds s \<union> set [ep_EpisodeID e] \<and> True"
    by (blast intro: qUpsert)
qed (simp add: assms)

lemma spec_updateFeed [act]: "spec env k us (writes env (updateFeed f)) (\<lambda>_. True) (\<lambda>_. [])"
  by (rule spec_update, intro conjI, erule qUpdateFeed) (auto simp: updateFeed_def usedIds_def split: option.splits if_splits)

lemma spec_updateEpisode [act]: "spec env k us (writes env (updateEpisode e)) (\<lambda>_. True) (\<lambda>_. [])"
  by (rule spec_update, intro conjI, erule qUpdateEpisode) (auto simp: updateEpisode_def usedIds_def split: option.splits if_splits)

lemma spec_claim [act]: "spec env k us (writes env (claimEpisodeJob i j)) (\<lambda>_. True) (\<lambda>_. [])"
  by (rule spec_update, intro conjI, erule qClaim) (auto simp: claimEpisodeJob_def usedIds_def split: option.splits if_splits)

lemma spec_deleteArtifact [act]: "spec env k us (writes env (deleteArtifact i)) (\<lambda>_. True) (\<lambda>_. [])"
  by (rule spec_update, intro conjI, erule qDelete) (auto simp: deleteArtifact_def usedIds_def split: option.splits if_splits)

lemma spec_markArtifacts [act]: "spec env k us (writes env (markArtifactsSuperseded i)) (\<lambda>_. True) (\<lambda>_. [])"
proof (rule spec_update, intro conjI)
  fix s s'
  assume "reachable s" and mark: "markArtifactsSuperseded i s = Ok s'"
  then have "table ma_ArtifactID (st_artifacts s) (st_artOrder s)"
    using storeInv_tables reachable_inv by blast
  from updRows_table [OF this] mark show "usedIds s' \<subseteq> usedIds s"
    by (auto simp: markArtifactsSuperseded_def usedIds_def updMap_def)
qed (rule qMark)

section \<open>Versions, segments and the review operations\<close>

lemma spec_createVersion [act]:
  assumes "set (versionIds v segs) \<subseteq> set us" and "draftVersion v" and "distinct (map sg_SegmentID segs)"
    and "\<forall>sg \<in> set segs. sg_TranscriptVersionID sg = tv_TranscriptVersionID v"
  shows "spec env k us (inserts env (createVersion v segs)) (\<lambda>_. True) (\<lambda>_. [])"
  unfolding inserts_def
proof (rule spec_locked [OF assms(1)])
  fix s x s'
  assume "set (versionIds v segs) \<inter> usedIds s = {}" and "Ok ((), createVersion v segs s) = Ok (x, s')"
  then have s': "s' = insertVersionLocked v segs s" and "freshVersion v segs s"
    using freshVersion_held [OF _ assms(3,4)] by (simp_all add: createVersion_insert)
  then have "storeStep s s'" using sVersion [OF _ assms(2)] by (simp add: createVersion_insert)
  then show "storeSteps s s' \<and> usedIds s' \<subseteq> usedIds s \<union> set (versionIds v segs)
      \<and> (k \<longrightarrow> (\<forall>i. statusOf i s' = statusOf i s)) \<and> True"
    using usedIds_insertVersion by (auto simp: s' statusOf_def insertVersionLocked_eq)
qed

lemma spec_approve [act]:
  assumes "set (ap_ApprovalID (apj_Approval p) # versionIds (apj_ApprovedVersion p) (apj_Segments p)) \<subseteq> set us"
    and "distinct (map sg_SegmentID (apj_Segments p))"
    and "\<forall>sg \<in> set (apj_Segments p). sg_TranscriptVersionID sg = tv_TranscriptVersionID (apj_ApprovedVersion p)"
    and v: "tv_VersionType (apj_ApprovedVersion p) = VersionApproved" "tv_IsImmutable (apj_ApprovedVersion p)"
      "tv_JobID (apj_ApprovedVersion p) = apj_JobID p"
    and a: "ap_JobID (apj_Approval p) = apj_JobID p" "ap_SupersededByApprovalID (apj_Approval p) = None"
      "ap_ApprovedTranscriptVersionID (apj_Approval p) = tv_TranscriptVersionID (apj_ApprovedVersion p)"
  shows "spec env False us (approveA env p) (\<lambda>(j, _). j_JobID j = apj_JobID p) (\<lambda>_. [])"
  unfolding approveA_def
proof (rule spec_bind [OF spec_now], rule spec_locked [OF assms(1)])
  fix t s x s'
  let ?ids = "ap_ApprovalID (apj_Approval p) # versionIds (apj_ApprovedVersion p) (apj_Segments p)"
  assume reach: "reachable s" and free: "set ?ids \<inter> usedIds s = {}"
    and run: "mapOk (\<lambda>(j, ids, s'). ((j, ids), s')) (approveJob t p s) = Ok (x, s')"
  have "freshVersion (apj_ApprovedVersion p) (apj_Segments p) s"
    using free by (intro freshVersion_held assms(2,3)) auto
  moreover have "st_approvals s (ap_ApprovalID (apj_Approval p)) = None"
    using free by (auto simp: usedIds_def domIff)
  ultimately have ready: "approveReady p s" using v a by (simp add: approveReady_def Let_def)
  obtain j ids where x: "x = (j, ids)" and app: "approveJob t p s = Ok (j, ids, s')"
    using run by (auto simp: mapOk_Ok_iff)
  have step: "storeStep s s'" using ready app by (rule sApprove)
  obtain cur where cur: "st_jobs s (apj_JobID p) = Some cur" "j = approvedJob t cur" "s' = approvedStore t p cur s"
    using app by (auto simp: approveJob_Ok [OF reachable_inv [OF reach] ready])
  have "usedIds s' \<subseteq> usedIds s \<union> set ?ids"
    using dom_addSegs [of "st_segments s" "apj_Segments p"] cur(1)
    by (auto simp: cur(3) usedIds_def approvedStore_def insertVersionLocked_eq versionIds_def
        approvalsAfter_def exportsAfter_def updMap_def Let_def split: if_splits)
  moreover have "j_JobID cur = apj_JobID p"
    using storeInv_tables(1) [OF reachable_inv [OF reach]] cur(1) by (auto simp: table_def)
  ultimately show "storeSteps s s' \<and> usedIds s' \<subseteq> usedIds s \<union> set ?ids
      \<and> (False \<longrightarrow> (\<forall>i. statusOf i s' = statusOf i s)) \<and> (case x of (j, _) \<Rightarrow> j_JobID j = apj_JobID p)"
    using step x cur(2) by (auto simp: approvedJob_def)
qed

lemma spec_reopen [act]:
  assumes "set (versionIds (rpj_ReviewedVersion p) (rpj_Segments p)) \<subseteq> set us"
    and "distinct (map sg_SegmentID (rpj_Segments p))" and "draftVersion (rpj_ReviewedVersion p)"
    and "\<forall>sg \<in> set (rpj_Segments p). sg_TranscriptVersionID sg = tv_TranscriptVersionID (rpj_ReviewedVersion p)"
  shows "spec env False us (reopenA env p) (\<lambda>j. j_JobID j = rpj_JobID p) (\<lambda>_. [])"
  unfolding reopenA_def
proof (rule spec_bind [OF spec_now], rule spec_locked [OF assms(1)])
  fix t s x s'
  let ?ids = "versionIds (rpj_ReviewedVersion p) (rpj_Segments p)"
  assume reach: "reachable s" and free: "set ?ids \<inter> usedIds s = {}" and run: "reopenJob t p s = Ok (x, s')"
  have step: "storeStep s s'"
    using freshVersion_held [OF free assms(2,4)] assms(3) run by (rule sReopen)
  obtain cur where cur: "st_jobs s (rpj_JobID p) = Some cur"
      "x = cur\<lparr>j_Status := StatusInReview, j_UpdatedAt := t\<rparr>"
      "s' = (insertVersionLocked (rpj_ReviewedVersion p) (rpj_Segments p) s)
              \<lparr>st_jobs := (st_jobs s)(rpj_JobID p \<mapsto> x)\<rparr>"
    using run unfolding reopenJob_Ok by blast
  have "usedIds s' \<subseteq> usedIds s \<union> set ?ids"
    using usedIds_insertVersion [of "rpj_ReviewedVersion p" "rpj_Segments p" s] cur(1)
    by (auto simp: cur(3) usedIds_def insertVersionLocked_eq split: if_splits)
  moreover have "j_JobID cur = rpj_JobID p"
    using storeInv_tables(1) [OF reachable_inv [OF reach]] cur(1) by (auto simp: table_def)
  ultimately show "storeSteps s s' \<and> usedIds s' \<subseteq> usedIds s \<union> set ?ids
      \<and> (False \<longrightarrow> (\<forall>i. statusOf i s' = statusOf i s)) \<and> j_JobID x = rpj_JobID p"
    using step cur(2) by auto
qed

lemma spec_createJob [act]:
  assumes "j_JobID j \<in> set us" and "j_Status j = StatusSubmitted"
  shows "spec env False us (inserts env (createJob j)) (\<lambda>_. True) (\<lambda>_. [])"
  unfolding inserts_def
proof (rule spec_locked [where vs = "[j_JobID j]"])
  fix s x s'
  assume "set [j_JobID j] \<inter> usedIds s = {}" and "Ok ((), createJob j s) = Ok (x, s')"
  then have none: "st_jobs s (j_JobID j) = None" and s': "s' = createJob j s" by (auto simp: usedIds_def domIff)
  have "storeStep s s'" unfolding s' using none assms(2) by (rule sCreateJob)
  then show "storeSteps s s' \<and> usedIds s' \<subseteq> usedIds s \<union> set [j_JobID j]
      \<and> (False \<longrightarrow> (\<forall>i. statusOf i s' = statusOf i s)) \<and> True"
    by (auto simp: s' usedIds_def createJob_def split: if_splits)
qed (simp add: assms)

section \<open>Swaps\<close>

lemma spec_swap:
  assumes "lawfulApply st f" and "k \<Longrightarrow> (\<And>j j'. f j = Ok j' \<Longrightarrow> j_Status j' = j_Status j)"
  shows "spec env k us (locked env (transitionJob i st f))
    (\<lambda>j. j_JobID j = i \<and> (\<exists>cur. j_Status cur = st \<and> f cur = Ok j)) (\<lambda>_. [])"
proof (rule spec_locked [where vs = "[]"])
  fix s j s'
  assume reach: "reachable s" and run: "transitionJob i st f s = Ok (j, s')"
  then obtain cur where cur: "st_jobs s i = Some cur" "j_Status cur = st" "f cur = Ok j"
    and s': "s' = s\<lparr>st_jobs := (st_jobs s)(i \<mapsto> j)\<rparr>" by (auto simp: transitionJob_Ok)
  have step: "storeStep s s'" using run assms(1) by (rule sTransition)
  have "j_JobID cur = i"
    using storeInv_tables(1) [OF reachable_inv [OF reach]] cur(1) by (auto simp: table_def)
  with lawfulApplyD [OF assms(1) cur(2,3)] have "j_JobID j = i" by simp
  moreover have "k \<longrightarrow> (\<forall>i. statusOf i s' = statusOf i s)"
    using assms(2) cur by (auto simp: s' statusOf_def)
  ultimately show "storeSteps s s' \<and> usedIds s' \<subseteq> usedIds s \<union> set []
      \<and> (k \<longrightarrow> (\<forall>i. statusOf i s' = statusOf i s))
      \<and> j_JobID j = i \<and> (\<exists>cur. j_Status cur = st \<and> f cur = Ok j)"
    using step cur(2,3) usedIds_setJob [OF cur(1), of j] by (auto simp: s')
qed simp

text \<open>A swap that keeps the status, and one through \<open>Transition\<close>.\<close>

lemma spec_touch:
  assumes "\<And>t j j'. f t j = Ok j' \<Longrightarrow> j_Status j' = j_Status j \<and> j_JobID j' = j_JobID j"
  shows "spec env k us (transitionA env i st f)
    (\<lambda>j. j_JobID j = i \<and> j_Status j = st \<and> (\<exists>t cur. j_Status cur = st \<and> f t cur = Ok j)) (\<lambda>_. [])"
  unfolding transitionA_def
proof (rule spec_bind [OF spec_now])
  fix t
  have "lawfulApply st (f t)" using assms [of t] by (auto simp: lawfulApply_def)
  then show "spec env k us (locked env (transitionJob i st (f t)))
    (\<lambda>j. j_JobID j = i \<and> j_Status j = st \<and> (\<exists>t cur. j_Status cur = st \<and> f t cur = Ok j)) (\<lambda>_. [])"
    using assms by (intro spec_conseq [OF spec_swap]) (auto dest: assms)
qed

lemma spec_transition:
  assumes "\<And>t j j'. f t j = Ok j' \<Longrightarrow> \<exists>j0. j_Status j0 = j_Status j \<and> j_JobID j0 = j_JobID j \<and> transition t j0 to = Ok j'"
    and "to \<noteq> StatusApproved" and "to = StatusInReview \<Longrightarrow> st = StatusDrafted"
  shows "spec env False us (transitionA env i st f) (\<lambda>j. j_JobID j = i \<and> j_Status j = to) (\<lambda>_. [])"
  unfolding transitionA_def
proof (rule spec_bind [OF spec_now])
  fix t
  have moved: "j_JobID j' = j_JobID j \<and> j_Status j' = to \<and> canTransition (j_Status j) to" if "f t j = Ok j'" for j j'
    using assms(1) [OF that] by (auto simp: transition_Ok)
  then have "lawfulApply st (f t)" using assms(2,3) by (fastforce simp: lawfulApply_def)
  then show "spec env False us (locked env (transitionJob i st (f t)))
    (\<lambda>j. j_JobID j = i \<and> j_Status j = to) (\<lambda>_. [])"
    by (rule spec_conseq [OF spec_swap]) (auto dest: moved)
qed

end
