(* ===== verification/Job_Service.thy ===== *)
theory Job_Service
  imports Job_Ops
begin

text \<open>
  The contracts of the tools: whatever they return, the store has moved by steps of the life cycle.
\<close>

section \<open>Branches and loops\<close>

lemma spec_if: "(b \<Longrightarrow> spec env k us m G us') \<Longrightarrow> (\<not> b \<Longrightarrow> spec env k us m' G us')
    \<Longrightarrow> spec env k us (if b then m else m') G us'"
  by simp

lemma spec_sum: "(\<And>e. r = Inl e \<Longrightarrow> spec env k us (f e) G us') \<Longrightarrow> (\<And>x. r = Inr x \<Longrightarrow> spec env k us (g x) G us')
    \<Longrightarrow> spec env k us (case r of Inl e \<Rightarrow> f e | Inr x \<Rightarrow> g x) G us'"
  by (cases r) simp_all

lemma spec_option: "(r = None \<Longrightarrow> spec env k us m G us') \<Longrightarrow> (\<And>x. r = Some x \<Longrightarrow> spec env k us (g x) G us')
    \<Longrightarrow> spec env k us (case r of None \<Rightarrow> m | Some x \<Rightarrow> g x) G us'"
  by (cases r) simp_all

lemma spec_prod: "(\<And>x y. p = (x, y) \<Longrightarrow> spec env k us (f x y) G us')
    \<Longrightarrow> spec env k us (case p of (x, y) \<Rightarrow> f x y) G us'"
  by (cases p) simp_all

lemma spec_Let: "(\<And>x. x = a \<Longrightarrow> spec env k us (f x) G us') \<Longrightarrow> spec env k us (let x = a in f x) G us'"
  by simp

lemmas branches = spec_if spec_sum spec_option spec_prod spec_Let spec_bind

lemma spec_weaken: "spec env k us m G us' \<Longrightarrow> (\<And>x. G x \<Longrightarrow> G2 x) \<Longrightarrow> spec env k us m G2 us'"
  by (rule spec_conseq)

lemma spec_distinct:
  assumes "spec env k us m G us'"
  shows "spec env k us m (\<lambda>x. G x \<and> distinct (us' x)) us'"
  using assms unfolding spec_def by (rule triple_conseq) (auto simp: fresh_def)

lemma spec_mapA:
  assumes "\<And>x us. spec env k us (f x) (G x) (\<lambda>_. [])"
  shows "spec env k us (mapA f xs) (list_all2 G xs) (\<lambda>_. [])"
proof (induction xs arbitrary: us)
  case Nil
  show ?case by (auto intro: spec_ret0)
next
  case (Cons x xs)
  show ?case
    unfolding mapA.simps by (rule spec_bind [OF assms], rule spec_bind [OF Cons.IH], rule spec_ret0) simp
qed

text \<open>A loop that makes a row under a new id in every turn.\<close>

lemma spec_mapA_new:
  assumes "\<And>x us. spec env k us (f x) (G x) (\<lambda>y. key y # us)"
  shows "spec env k us (mapA f xs) (list_all2 G xs) (\<lambda>ys. map key ys @ us)"
proof (induction xs arbitrary: us)
  case Nil
  show ?case by (auto intro: spec_ret)
next
  case (Cons x xs)
  have "spec env k us (f x) (G x) (\<lambda>y. key y # us)" by (rule assms)
  then show ?case unfolding mapA.simps
  proof (rule spec_bind)
    fix y
    assume y: "G x y"
    have "spec env k (key y # us) (mapA f xs) (list_all2 G xs) (\<lambda>ys. map key ys @ key y # us)" by (rule Cons.IH)
    then show "spec env k (key y # us) (andThen (mapA f xs) (\<lambda>ys. ret (y # ys))) (list_all2 G (x # xs))
        (\<lambda>ys. map key ys @ us)"
    proof (rule spec_bind)
      fix ys
      assume "list_all2 G xs ys"
      with y show "spec env k (map key ys @ key y # us) (ret (y # ys)) (list_all2 G (x # xs)) (\<lambda>ys. map key ys @ us)"
        by (intro spec_ret) (auto simp: fresh_def)
    qed
  qed
qed

text \<open>The rows a loop made: their ids are distinct, and all of them belong to the version.\<close>

lemma rows_of_version:
  assumes "list_all2 G xs segs" and "\<And>x s. G x s \<Longrightarrow> sg_TranscriptVersionID s = v"
  shows "\<forall>s \<in> set segs. sg_TranscriptVersionID s = v"
  using assms by (metis in_set_conv_nth list_all2_conv_all_nth)

section \<open>Media\<close>

lemma spec_resolveUploadURI [act]: "spec env k us (resolveUploadURI env uri) (\<lambda>_. True) (\<lambda>_. [])"
  unfolding resolveUploadURI_def Let_def by (rule TrueI branches act)+

lemma spec_episodeFromLibraryURI [act]: "spec env k us (episodeFromLibraryURI env uri) (\<lambda>_. True) (\<lambda>_. us)"
  unfolding episodeFromLibraryURI_def by (rule TrueI branches spec_fail spec_weaken [OF spec_reads])+

lemma spec_mediaSourceURI [act]: "spec env k us (mediaSourceURI env job) (\<lambda>_. True) (\<lambda>_. [])"
  unfolding mediaSourceURI_def by (rule TrueI branches act)+

lemma spec_linkStaged [act]: "spec env k us (linkStaged env j art t) (\<lambda>_. True) (\<lambda>_. [])"
  unfolding linkStaged_def by (rule TrueI branches act | (simp; fail))+

lemma spec_stagedSource [act]: "spec env k us (stagedSource env ty uri) (\<lambda>_. True) (\<lambda>_. [])"
  unfolding stagedSource_def by (rule TrueI branches act)+

lemma spec_recordArtifact [act]: "spec env k us (recordArtifact env job ty uri mime n) (\<lambda>_. True) (\<lambda>_. [])"
  unfolding recordArtifact_def by (rule TrueI branches act | (simp; fail))+

lemma spec_configOf [act]: "spec env k us (configOf env job) (\<lambda>_. True) (\<lambda>_. us)"
  unfolding configOf_def by (rule TrueI branches spec_fail spec_weaken [OF spec_reads])+

lemma spec_submitMediaJob [act]:
  "spec env False us (submitMediaJob env input) (\<lambda>j. j_Status j = StatusSubmitted) (\<lambda>_. [])"
  unfolding submitMediaJob_def Let_def
  by (rule TrueI branches act | (simp add: submittedJob_def; fail))+

text \<open>A tool that touches its job keeps its id and its status.\<close>

definition sameJob :: "Job \<Rightarrow> Job \<Rightarrow> bool" where
  "sameJob job job' \<longleftrightarrow> j_JobID job' = j_JobID job \<and> j_Status job' = j_Status job"

lemma spec_createConfigSnapshot [act]:
  "spec env k us (createConfigSnapshot env job by') (\<lambda>(_, j). sameJob job j) (\<lambda>_. [])"
  unfolding createConfigSnapshot_def Let_def
  by (rule TrueI branches act spec_touch | (simp add: sameJob_def; fail) | (auto simp: sameJob_def; fail))+

lemma spec_getMediaMetadata [act]:
  "spec env k us (getMediaMetadata env job) (\<lambda>(_, j). sameJob job j) (\<lambda>_. [])"
  unfolding getMediaMetadata_def
  by (rule TrueI branches act spec_touch spec_attempt | (auto simp: sameJob_def; fail))+

lemma spec_checkYouTubeCaptions [act]:
  "spec env k us (checkYouTubeCaptions env job) (\<lambda>(_, j). sameJob job j) (\<lambda>_. [])"
  unfolding checkYouTubeCaptions_def Let_def
  by (rule TrueI branches act spec_touch | (auto simp: sameJob_def; fail))+

lemma spec_fetchExistingCaptions [act]:
  "spec env k us (fetchExistingCaptions env job track) (\<lambda>_. True) (\<lambda>_. [])"
  unfolding fetchExistingCaptions_def by (rule TrueI branches act)+

lemma spec_publishCaptionFile [act]: "spec env k us (publishCaptionFile env i actor) G (\<lambda>_. [])"
  unfolding publishCaptionFile_def by (rule TrueI branches act)+

section \<open>Transcripts\<close>

text \<open>A loop that makes the segments of a new version.\<close>

lemma spec_segments:
  assumes "\<And>x us. spec env k us (f x) (\<lambda>s. sg_TranscriptVersionID s = v) (\<lambda>s. sg_SegmentID s # us)"
  shows "spec env k us (mapA f xs)
    (\<lambda>ss. distinct (map sg_SegmentID ss) \<and> (\<forall>s \<in> set ss. sg_TranscriptVersionID s = v))
    (\<lambda>ss. map sg_SegmentID ss @ us)"
  by (rule spec_weaken [OF spec_distinct [OF spec_mapA_new [OF assms]]])
    (auto dest: rows_of_version [where v = v])

lemma spec_cueSegment: "spec env k us (cueSegment env v c) (\<lambda>s. sg_TranscriptVersionID s = v) (\<lambda>s. sg_SegmentID s # us)"
  unfolding cueSegment_def by (rule spec_bind [OF spec_newUUID], rule spec_ret) simp_all

lemma spec_sttSegment: "spec env k us (sttSegment env cfg d v c) (\<lambda>s. sg_TranscriptVersionID s = v) (\<lambda>s. sg_SegmentID s # us)"
  unfolding sttSegment_def by (rule spec_bind [OF spec_newUUID], rule spec_ret) simp_all

lemma spec_cleanSegment: "spec env k us (cleanSegment env v r p) (\<lambda>s. sg_TranscriptVersionID s = v) (\<lambda>s. sg_SegmentID s # us)"
  unfolding cleanSegment_def by (rule spec_prod, rule spec_bind [OF spec_newUUID], rule spec_ret) simp_all

lemma spec_cloneSegment: "spec env k us (cloneSegment env v s) (\<lambda>s. sg_TranscriptVersionID s = v) (\<lambda>s. sg_SegmentID s # us)"
  unfolding cloneSegment_def by (rule spec_bind [OF spec_newUUID], rule spec_ret) simp_all

lemmas new_segments = spec_segments [OF spec_cueSegment] spec_segments [OF spec_sttSegment]
  spec_segments [OF spec_cleanSegment] spec_segments [OF spec_cloneSegment]

lemmas version_facts = versionIds_def rawVersion_def draftVersion_def version_types

lemma spec_panic: "spec env k us (liftOutcome Panic) G us'"
  unfolding spec_def by (rule svc.lift_rule) simp

lemma spec_outcome: "(\<And>x. r = Ok x \<Longrightarrow> spec env k us (f x) G us') \<Longrightarrow> (\<And>e. r = Err e \<Longrightarrow> spec env k us (g e) G us')
    \<Longrightarrow> spec env k us (case r of Ok x \<Rightarrow> f x | Err e \<Rightarrow> g e | Panic \<Rightarrow> liftOutcome Panic) G us'"
  by (cases r) (simp_all add: spec_panic)

lemma spec_parseCaptions [act]:
  "spec env k us (parseCaptionsToTranscript env job uri cfg) (\<lambda>_. True) (\<lambda>_. [])"
  unfolding parseCaptionsToTranscript_def Let_def
  by (rule TrueI branches spec_outcome act new_segments | (auto simp: version_facts; fail))+

lemma spec_extractAudio [act]: "spec env k us (extractAudio env job) (\<lambda>_. True) (\<lambda>_. [])"
  unfolding extractAudio_def Let_def by (rule TrueI branches act spec_attempt)+

lemma spec_latestAudio [act]: "spec env k us (latestAudioArtifactURI env i) (\<lambda>_. True) (\<lambda>_. [])"
  unfolding latestAudioArtifactURI_def by (rule TrueI branches act)+

lemma spec_transcribeAudio [act]: "spec env k us (transcribeAudio env job uri cfg) (\<lambda>_. True) (\<lambda>_. [])"
  unfolding transcribeAudio_def Let_def
  by (rule TrueI branches act new_segments | (auto simp: version_facts; fail))+

lemma spec_normalizeTranscript [act]: "spec env k us (normalizeTranscript env job source cfg) (\<lambda>_. True) (\<lambda>_. [])"
  unfolding normalizeTranscript_def Let_def
  by (rule TrueI branches act new_segments | (auto simp: version_facts; fail))+

lemma report_id: "qr_QualityReportID (qualityReport i t job version cfg segs) = i"
  by (simp add: qualityReport_def Let_def split: prod.split)

lemma spec_qualityCheck [act]: "spec env k us (qualityCheckTranscript env job version cfg) (\<lambda>_. True) (\<lambda>_. [])"
  unfolding qualityCheckTranscript_def Let_def
  by (rule TrueI branches act | (simp add: report_id; fail))+

lemma spec_generateSummary [act]: "spec env k us (generateSummary env job source cfg by') (\<lambda>_. True) (\<lambda>_. [])"
  unfolding generateSummary_def Let_def
  by (rule TrueI branches act | (simp; fail))+

end
