(* ===== verification/Job_Refine.thy ===== *)
theory Job_Refine
  imports Job_Service
begin

text \<open>
  The contracts of the review, publication and library tools: whatever they return, the store has
  moved by steps of the life cycle.
\<close>

section \<open>Rows that stay\<close>

definition keyed :: "Store \<Rightarrow> bool" where
  "keyed s \<longleftrightarrow> (\<forall>i sg. st_segments s i = Some sg \<longrightarrow> sg_SegmentID sg = i)"

text \<open>Version rows do not change, segments stay in their version and under their ids.\<close>

definition rowsStay :: "Store \<Rightarrow> Store \<Rightarrow> bool" where
  "rowsStay s s' \<longleftrightarrow> (\<forall>i v. st_versions s i = Some v \<longrightarrow> st_versions s' i = Some v) \<and> (keyed s \<longrightarrow> keyed s')
     \<and> (\<forall>i sg. st_segments s i = Some sg \<longrightarrow>
          (\<exists>sg'. st_segments s' i = Some sg' \<and> sg_TranscriptVersionID sg' = sg_TranscriptVersionID sg))"

lemma rowsStay_same:
  "st_versions s' = st_versions s \<Longrightarrow> st_segments s' = st_segments s \<Longrightarrow> rowsStay s s'"
  by (simp add: rowsStay_def keyed_def)

lemma rowsStay_trans: "rowsStay s s1 \<Longrightarrow> rowsStay s1 s2 \<Longrightarrow> rowsStay s s2"
  unfolding rowsStay_def by (intro conjI allI impI; elim conjE) (blast | metis)+

lemma addSegs_Some: "addSegs m segs i = Some sg \<Longrightarrow> m i = Some sg \<or> sg_SegmentID sg = i"
proof (induction segs arbitrary: m)
  case (Cons a segs)
  then have "(m(sg_SegmentID a \<mapsto> a)) i = Some sg \<or> sg_SegmentID sg = i" by (simp only: addSegs_simps)
  then show ?case by (auto split: if_splits)
qed simp

lemma rowsStay_insert:
  assumes "freshVersion v segs s" and "st_versions s' = (st_versions s)(tv_TranscriptVersionID v \<mapsto> v)"
    and "st_segments s' = addSegs (st_segments s) segs"
  shows "rowsStay s s'"
proof -
  have "\<forall>i w. st_versions s i = Some w \<longrightarrow> st_versions s' i = Some w"
    using assms(1) by (auto simp: assms(2) freshVersion_def)
  moreover have "keyed s \<Longrightarrow> keyed s'" unfolding keyed_def assms(3) using addSegs_Some by blast
  ultimately show ?thesis using freshVersion_other [OF assms(1)] by (auto simp: rowsStay_def assms(3))
qed

lemma step_rows:
  assumes "storeStep s s'" and "storeInv s"
  shows "rowsStay s s'"
  using assms(1)
proof (cases rule: storeStep.cases)
  case sQuiet
  with quiet_frame show ?thesis by (blast intro: rowsStay_same)
next
  case sCreateJob
  then show ?thesis by (auto simp: createJob_def intro: rowsStay_same)
next
  case sTransition
  then show ?thesis by (auto simp: transitionJob_Ok intro: rowsStay_same)
next
  case (sVersion v segs)
  then show ?thesis by (auto simp: createVersion_insert insertVersionLocked_eq intro: rowsStay_insert)
next
  case (sEdit sg)
  then obtain old where "st_segments s (sg_SegmentID sg) = Some old"
    "sg_TranscriptVersionID sg = sg_TranscriptVersionID old"
    "s' = s\<lparr>st_segments := (st_segments s)(sg_SegmentID sg \<mapsto> sg)\<rparr>"
    by (auto simp: editable_def updateSegment_Ok)
  then show ?thesis by (auto simp: rowsStay_def keyed_def)
next
  case (sApprove p t j ids)
  with assms(2) have "freshVersion (apj_ApprovedVersion p) (apj_Segments p) s"
    and "\<exists>cur. s' = approvedStore t p cur s"
    by (auto simp: approveJob_Ok approveReady_def Let_def)
  then show ?thesis by (auto simp: approvedStore_def insertVersionLocked_eq intro: rowsStay_insert)
next
  case (sReopen p t j)
  then show ?thesis by (auto simp: reopenJob_Ok insertVersionLocked_eq intro: rowsStay_insert)
qed

lemma steps_rows: "storeSteps s s' \<Longrightarrow> reachable s \<Longrightarrow> rowsStay s s'"
proof (induction rule: rtranclp_induct)
  case base
  show ?case by (simp add: rowsStay_same)
next
  case (step y z)
  have "reachable y" using step.prems step.hyps(1) by (rule rtranclp_trans)
  then show ?case using step step_rows [OF step.hyps(2) reachable_inv] rowsStay_trans by blast
qed

lemma reachable_keyed: "reachable s \<Longrightarrow> keyed s"
  using steps_rows [of newStore s] by (simp add: rowsStay_def keyed_def newStore_def)

section \<open>Clones and edits\<close>

lemma spec_buildClone:
  "spec env k us (buildClone env job source ty by' imm)
     (\<lambda>(v, segs). distinct (map sg_SegmentID segs) \<and> (\<forall>s \<in> set segs. sg_TranscriptVersionID s = tv_TranscriptVersionID v)
        \<and> tv_JobID v = j_JobID job \<and> tv_VersionType v = ty \<and> tv_IsImmutable v = imm)
     (\<lambda>(v, segs). versionIds v segs @ us)"
  unfolding buildClone_def
proof (rule spec_bind [OF spec_reads], rule spec_bind [OF spec_newUUID], rule spec_bind [OF spec_now],
    rule spec_bind [OF spec_segments [OF spec_cloneSegment]], rule spec_ret)
qed (auto simp: versionIds_def fresh_def)

lemma spec_pair:
  assumes "spec env k us m (\<lambda>(x, y). G x y) (\<lambda>(x, y). us1 x y)"
    and "\<And>x y. G x y \<Longrightarrow> spec env k (us1 x y) (f x y) G2 us2"
  shows "spec env k us (andThen m (\<lambda>(x, y). f x y)) G2 us2"
  by (rule spec_bind [OF assms(1)]) (auto intro: assms(2) split: prod.splits)

lemma spec_cloneToVersion [act]:
  "ty \<noteq> VersionApproved \<Longrightarrow> \<not> imm
    \<Longrightarrow> spec env k us (cloneToVersion env job source ty by' imm) (\<lambda>_. True) (\<lambda>_. [])"
  unfolding cloneToVersion_def
  by (rule spec_pair [OF spec_buildClone])
    (rule TrueI branches act | (auto simp: versionIds_def draftVersion_def; fail))+

lemma applyEdit_keeps:
  "applyEdit vid sid t l seg = (seg', p) \<Longrightarrow>
     sg_SegmentID seg' = sg_SegmentID seg \<and> sg_TranscriptVersionID seg' = sg_TranscriptVersionID seg"
  by (auto simp: applyEdit_def Let_def split: option.splits if_splits)

definition mutableAt :: "uuid \<Rightarrow> TranscriptVersion \<Rightarrow> Store \<Rightarrow> bool" where
  "mutableAt i v s \<longleftrightarrow> st_versions s i = Some v"

definition segmentAt :: "uuid \<Rightarrow> uuid \<Rightarrow> Store \<Rightarrow> bool" where
  "segmentAt i v s \<longleftrightarrow> (\<exists>sg. st_segments s i = Some sg \<and> sg_TranscriptVersionID sg = v)"

lemma stable_rows:
  assumes "reachable s" and "storeSteps s s'"
  shows "mutableAt i v s \<Longrightarrow> mutableAt i v s'" and "segmentAt i v' s \<Longrightarrow> segmentAt i v' s'"
  using steps_rows [OF assms(2,1)]
  by (simp_all add: rowsStay_def mutableAt_def segmentAt_def) blast

lemma triple_reads:
  assumes "\<And>s s'. reachable s \<Longrightarrow> storeSteps s s' \<Longrightarrow> F s \<Longrightarrow> F s'"
  shows "triple (worldOK env) (moves env k) (\<lambda>w. F (w_store w)) (reads env g)
    (\<lambda>x w. reachable (w_store w) \<and> F (w_store w) \<and> g (w_store w) = Ok x)"
  unfolding reads_def
  by (rule triple_conseq [OF triple_locked [where us = "[]" and vs = "[]" and F = F
        and G = "\<lambda>x s. reachable s \<and> F s \<and> g s = Ok x"]])
    (auto simp: mapOk_Ok_iff dest: assms)

text \<open>The write of \<open>EditSegment\<close>: what was read of the version and of the segment still holds.\<close>

lemma triple_edit:
  assumes v: "\<not> tv_IsImmutable version" and seg: "sg_TranscriptVersionID seg = versionID"
    and e: "applyEdit versionID segmentID t l seg = (seg', p)"
  shows "triple (worldOK env) (moves env k)
    (\<lambda>w. reachable (w_store w) \<and> mutableAt versionID version (w_store w) \<and> getSegment segmentID (w_store w) = Ok seg)
    (writes env (updateSegment seg')) (\<lambda>_ _. True)"
  unfolding writes_def
proof (rule triple_conseq)
  let ?F = "\<lambda>s. mutableAt versionID version s \<and> segmentAt segmentID versionID s \<and> sg_SegmentID seg' = segmentID"
  show "triple (worldOK env) (moves env k) (\<lambda>w. fresh env [] w \<and> ?F (w_store w))
      (locked env (\<lambda>s. mapOk (Pair ()) (updateSegment seg' s))) (\<lambda>_ _. True)"
  proof (rule triple_locked [where us = "[]" and vs = "[]" and G = "\<lambda>_ _. True"])
    fix s x s'
    assume F: "?F s" and "mapOk (Pair ()) (updateSegment seg' s) = Ok (x, s')"
    then have up: "updateSegment seg' s = Ok s'" by (auto simp: mapOk_Ok_iff)
    moreover have "editable seg' s"
      using F v seg applyEdit_keeps [OF e] by (auto simp: editable_def mutableAt_def segmentAt_def)
    ultimately have "storeStep s s'" by (blast intro: sEdit)
    with up show "storeSteps s s' \<and> usedIds s' \<subseteq> usedIds s \<union> set []
        \<and> (k \<longrightarrow> (\<forall>i. statusOf i s' = statusOf i s)) \<and> True"
      by (auto simp: updateSegment_Ok usedIds_def statusOf_def)
  qed (auto intro: stable_rows)
next
  fix w :: World
  assume "reachable (w_store w) \<and> mutableAt versionID version (w_store w) \<and> getSegment segmentID (w_store w) = Ok seg"
  with reachable_keyed [of "w_store w"] seg applyEdit_keeps [OF e]
  show "fresh env [] w \<and> mutableAt versionID version (w_store w) \<and> segmentAt segmentID versionID (w_store w)
      \<and> sg_SegmentID seg' = segmentID"
    by (auto simp: getSegment_def getRow_def keyed_def segmentAt_def split: option.splits)
qed simp

lemma triple_if:
  "(b \<Longrightarrow> triple I R P m Q) \<Longrightarrow> (\<not> b \<Longrightarrow> triple I R P m' Q) \<Longrightarrow> triple I R P (if b then m else m') Q"
  by simp

lemma spec_editSegment [act]:
  "spec env k us (editSegment env versionID segmentID t l by') (\<lambda>_. True) (\<lambda>_. [])"
proof -
  have "triple (worldOK env) (moves env k) (\<lambda>w. True) (editSegment env versionID segmentID t l by') (\<lambda>_ _. True)"
    unfolding editSegment_def Let_def
  proof (rule svc.bind_rule [OF triple_reads [where F = "\<lambda>_. True"]], goal_cases)
    case (2 version)
    have start: "triple (worldOK env) (moves env k)
        (\<lambda>w. reachable (w_store w) \<and> True \<and> getVersion versionID (w_store w) = Ok version) (reads env (getSegment segmentID))
        (\<lambda>seg w. reachable (w_store w) \<and> mutableAt versionID version (w_store w) \<and> getSegment segmentID (w_store w) = Ok seg)"
      by (rule triple_conseq [OF triple_reads [where F = "mutableAt versionID version"]], erule (2) stable_rows(1))
        (auto simp: mutableAt_def getVersion_def getRow_def split: option.splits)
    have "triple (worldOK env) (moves env k)
        (\<lambda>w. reachable (w_store w) \<and> mutableAt versionID version (w_store w) \<and> getSegment segmentID (w_store w) = Ok seg)
        (case applyEdit versionID segmentID t l seg of (seg', payload) \<Rightarrow>
           andThen (writes env (updateSegment seg')) (\<lambda>_.
           andThen (audit env (Some (tv_JobID version)) ''user'' by' ''transcript.segment_edited'' payload) (\<lambda>_.
           ret seg'))) (\<lambda>_ _. True)"
      if v: "\<not> tv_IsImmutable version" "sg_TranscriptVersionID seg = versionID" for seg
    proof (cases "applyEdit versionID segmentID t l seg")
      case (Pair seg' p)
      have "spec env k [] (andThen (audit env (Some (tv_JobID version)) ''user'' by' ''transcript.segment_edited'' p)
          (\<lambda>_. ret seg')) (\<lambda>_. True) (\<lambda>_. [])"
        by (rule TrueI branches act)+
      then have "triple (worldOK env) (moves env k) (\<lambda>_. True)
          (andThen (audit env (Some (tv_JobID version)) ''user'' by' ''transcript.segment_edited'' p) (\<lambda>_. ret seg')) (\<lambda>_ _. True)"
        unfolding spec_def by (rule triple_conseq) simp_all
      then show ?thesis by (simp add: Pair svc.bind_rule [OF triple_edit [OF v Pair]])
    qed
    note edit = this
    show ?case
      by (rule triple_if svc.fail_rule svc.bind_rule [OF start] edit | (simp; fail))+
  qed simp
  then show ?thesis unfolding spec_def by (rule triple_conseq) simp_all
qed

end
