(* ===== verification/Job_Offices.thy ===== *)
theory Job_Offices
  imports Job_Refine
begin

text \<open>
  The contracts of approval, reopening, exports, media replacement, cancellation and of the library
  tools: whatever they return, the store has moved by steps of the life cycle.
\<close>

section \<open>Review\<close>

text \<open>A swap through \<open>Transition\<close>, after other fields of the job are set.\<close>

lemma spec_move [act]:
  assumes "\<And>j. j_Status (g j) = j_Status j \<and> j_JobID (g j) = j_JobID j"
    and "to \<noteq> StatusApproved" and "to = StatusInReview \<Longrightarrow> st = StatusDrafted"
  shows "spec env False us (transitionA env i st (\<lambda>t j. transition t (g j) to))
    (\<lambda>j. j_JobID j = i \<and> j_Status j = to) (\<lambda>_. [])"
  using assms by (intro spec_transition) blast+

lemma spec_reportGate [act]: "spec env k us (reportGate env job) (\<lambda>_. True) (\<lambda>_. us)"
  unfolding reportGate_def
  by (rule spec_bind [OF spec_attempt_reads]) (auto intro!: spec_sum spec_fail spec_ret split: if_splits)

lemma spec_approveTranscript [act]:
  "spec env False us (approveTranscript env job vid by' note') (\<lambda>(_, _, j). j_JobID j = j_JobID job) (\<lambda>_. [])"
  unfolding approveTranscript_def Let_def
  by (rule TrueI spec_pair [OF spec_buildClone] branches act spec_mapA
      | (auto simp: versionIds_def; fail))+

lemma spec_reopenTranscript [act]:
  "spec env False us (reopenTranscript env job by') (\<lambda>(j, _). j_JobID j = j_JobID job) (\<lambda>_. [])"
  unfolding reopenTranscript_def
  by (rule TrueI spec_pair [OF spec_buildClone] branches act
      | (auto simp: version_facts; fail))+

section \<open>Publication\<close>

lemma spec_exportFormat [act]:
  "spec env k us (exportFormat env job approved segs by' f) (\<lambda>_. True) (\<lambda>_. [])"
  unfolding exportFormat_def Let_def
  by (rule TrueI branches act spec_attempt | (simp; fail))+

lemma spec_markExported [act]: "spec env False us (markExported env job) (\<lambda>_. True) (\<lambda>_. [])"
  unfolding markExported_def
  by (rule TrueI branches act spec_attempt | (simp; fail))+

lemma spec_exportTranscript [act]:
  "spec env False us (exportTranscript env job v formats by') (\<lambda>_. True) (\<lambda>_. [])"
  unfolding exportTranscript_def Let_def
  by (rule TrueI branches act spec_mapA | (simp; fail))+

lemma spec_replaceJobMedia [act]:
  "spec env False us (replaceJobMedia env job input) (\<lambda>j. j_JobID j = j_JobID job) (\<lambda>_. [])"
  unfolding replaceJobMedia_def
  by (rule TrueI branches act | (simp add: replacedJob_def; fail))+

lemma spec_cancelJob [act]:
  "spec env False us (cancelJob env job by' role reason) (\<lambda>j. j_JobID j = j_JobID job) (\<lambda>_. [])"
  unfolding cancelJob_def Let_def
  by (rule TrueI branches act | (simp; fail))+

section \<open>The library\<close>

lemma spec_newEpisode: "spec env k us (newEpisode env feed it) (\<lambda>_. True) (\<lambda>e. ep_EpisodeID e # us)"
  unfolding newEpisode_def by (rule spec_bind [OF spec_newUUID], rule spec_bind [OF spec_now], rule spec_ret) simp_all

lemma spec_ingestEpisode [act]: "spec env k us (ingestEpisode env feed it) (\<lambda>_. True) (\<lambda>_. [])"
  unfolding ingestEpisode_def
  by (rule TrueI branches spec_newEpisode spec_attempt act | (simp; fail))+

lemma spec_ingestEpisodes [act]: "spec env k us (ingestEpisodes env feed items) (\<lambda>_. True) (\<lambda>_. [])"
  unfolding ingestEpisodes_def by (rule TrueI branches spec_mapA act)+

lemma spec_addFeed [act]: "spec env k us (addFeed env url auto by') (\<lambda>_. True) (\<lambda>_. [])"
  unfolding addFeed_def Let_def by (rule TrueI branches act | (simp; fail))+

lemma spec_pollFeedOnce [act]: "spec env k us (pollFeedOnce env feed) (\<lambda>_. True) (\<lambda>_. [])"
  unfolding pollFeedOnce_def by (rule TrueI branches act spec_attempt)+

lemma spec_submitLibraryJob [act]:
  "spec env False us (submitLibraryJob env ep by') (\<lambda>j. j_Status j = StatusSubmitted) (\<lambda>_. [])"
  unfolding submitLibraryJob_def Let_def
  by (rule TrueI branches act spec_attempt | (simp add: libraryJob_def; fail))+

lemma spec_downloadEnclosure [act]: "spec env k us (downloadEnclosure env ep) (\<lambda>_. True) (\<lambda>_. [])"
  unfolding downloadEnclosure_def Let_def by (rule TrueI branches act)+

lemma spec_ensureLibraryMedia [act]: "spec env k us (ensureLibraryMedia env job) (\<lambda>_. True) (\<lambda>_. [])"
  unfolding ensureLibraryMedia_def by (rule TrueI branches act)+

end
