(* ===== verification/Job_Calm.thy ===== *)
theory Job_Calm
  imports Job_Offices
begin

text \<open>
  What errors an action can end in.  Without a shutdown, no tool of the pipeline returns the error of
  a cancelled context: the errors of the store and of the tools have codes.
\<close>

definition steady :: "err \<Rightarrow> bool" where
  "steady e \<longleftrightarrow> (case e of Interrupted _ \<Rightarrow> False | _ \<Rightarrow> True)"

lemma steady_simps [simp]: "steady (E c m)" "steady (OtherErr m)" "\<not> steady (Interrupted m)"
  by (simp_all add: steady_def)

definition errs :: "(err \<Rightarrow> bool) \<Rightarrow> 'a action \<Rightarrow> bool" where
  "errs P m \<longleftrightarrow> (\<forall>w e w'. m w = (Err e, w') \<longrightarrow> P e)"

named_theorems calm \<open>the errors of the primitives and of the tools\<close>

lemma errs_ret [calm]: "errs P (ret x)"
  by (simp add: errs_def ret_def)

lemma errs_fail [calm]: "P e \<Longrightarrow> errs P (failWith e)"
  by (simp add: errs_def failWith_def)

lemma errs_lift [calm]: "(\<And>e. r = Err e \<Longrightarrow> P e) \<Longrightarrow> errs P (liftOutcome r)"
  by (simp add: errs_def liftOutcome_def)

lemma errs_andThen [calm]: "errs P m \<Longrightarrow> (\<And>x. errs P (f x)) \<Longrightarrow> errs P (andThen m f)"
  by (auto simp: errs_def andThen_def split: prod.splits outcome.splits)

lemma errs_attempt [calm]: "errs P (attempt m)"
  by (auto simp: errs_def attempt_def split: prod.splits outcome.splits)

lemma errs_attemptThen:
  assumes "errs P m" and "\<And>e. P e \<Longrightarrow> errs P (f (Inl e))" and "\<And>x. errs P (f (Inr x))"
  shows "errs P (andThen (attempt m) f)"
  unfolding errs_def
proof (intro allI impI)
  fix w e w'
  assume run: "andThen (attempt m) f w = (Err e, w')"
  obtain r w1 where m: "m w = (r, w1)" by (cases "m w")
  show "P e"
  proof (cases r)
    case (Ok x)
    then show ?thesis using run m assms(3) [of x] by (auto simp: andThen_def attempt_def errs_def)
  next
    case (Err e1)
    moreover from this m assms(1) have "P e1" by (auto simp: errs_def)
    ultimately show ?thesis using run m assms(2) [of e1] by (auto simp: andThen_def attempt_def errs_def)
  next
    case Panic
    then show ?thesis using run m by (auto simp: andThen_def attempt_def)
  qed
qed

lemma errs_outside [calm]: "(\<And>n e. f n = Err e \<Longrightarrow> P e) \<Longrightarrow> errs P (outside f)"
  by (auto simp: errs_def outside_def)

lemma errs_now [calm]: "errs P (now env)"
  unfolding now_def by (rule errs_outside) simp

lemma errs_newUUID [calm]: "errs P (newUUID env)"
  by (simp add: errs_def newUUID_def)

lemma errs_locked: "(\<And>s e. f s = Err e \<Longrightarrow> P e) \<Longrightarrow> errs P (locked env f)"
  by (auto simp: errs_def locked_def Let_def split: outcome.splits)

lemma errs_inserts [calm]: "errs P (inserts env f)"
  unfolding inserts_def by (rule errs_locked) simp

lemma errs_reads [calm]: "(\<And>s e. g s = Err e \<Longrightarrow> P e) \<Longrightarrow> errs P (reads env g)"
  by (auto simp: errs_def reads_eq)

lemma errs_writes [calm]: "(\<And>s e. f s = Err e \<Longrightarrow> P e) \<Longrightarrow> errs P (writes env f)"
  unfolding writes_def by (rule errs_locked) (simp add: mapOk_def split: outcome.splits)

lemma errs_transitionA [calm]:
  assumes "\<And>c m. P (E c m)" and "\<And>t j e. f t j = Err e \<Longrightarrow> P e"
  shows "errs P (transitionA env i st f)"
  unfolding transitionA_def
proof (rule errs_andThen [OF errs_now errs_locked])
  show "transitionJob i st (f t) s = Err e \<Longrightarrow> P e" for t s e
    using assms by (auto simp: transitionJob_def mapOk_def notFound_def ErrStatusConflict_def split: option.splits if_splits outcome.splits)
qed

lemma errs_audit [calm]: "errs P (audit env j aty ai et pl)"
  unfolding audit_def by (rule calm)+

lemma errs_toolFailed [calm]: "P e \<Longrightarrow> errs P (toolFailed env j tool pl e)"
  unfolding toolFailed_def by (rule calm | assumption)+

lemma errs_mapA [calm]: "(\<And>x. errs P (f x)) \<Longrightarrow> errs P (mapA f xs)"
  by (induction xs) (simp_all add: errs_ret errs_andThen)

lemma errs_if: "(b \<Longrightarrow> errs P m) \<Longrightarrow> (\<not> b \<Longrightarrow> errs P m') \<Longrightarrow> errs P (if b then m else m')"
  by simp

lemma errs_sum: "(\<And>e. r = Inl e \<Longrightarrow> errs P (f e)) \<Longrightarrow> (\<And>x. r = Inr x \<Longrightarrow> errs P (g x))
    \<Longrightarrow> errs P (case r of Inl e \<Rightarrow> f e | Inr x \<Rightarrow> g x)"
  by (cases r) simp_all

lemma errs_option: "(r = None \<Longrightarrow> errs P m) \<Longrightarrow> (\<And>x. r = Some x \<Longrightarrow> errs P (g x))
    \<Longrightarrow> errs P (case r of None \<Rightarrow> m | Some x \<Rightarrow> g x)"
  by (cases r) simp_all

lemma errs_prod: "(\<And>x y. p = (x, y) \<Longrightarrow> errs P (f x y)) \<Longrightarrow> errs P (case p of (x, y) \<Rightarrow> f x y)"
  by (cases p) simp_all

lemmas errs_branches = errs_if errs_sum errs_option errs_prod errs_attemptThen

section \<open>The store's reads\<close>

lemma steady_getRow: "getRow c what m i = Err e \<Longrightarrow> steady e"
  by (auto simp: getRow_def notFound_def split: option.splits)

lemma scanRows_no_Err [simp]: "scanRows m order \<noteq> Err e"
  by (induction order) (auto simp: mapOk_def split: option.splits outcome.splits)

lemma steady_gets:
  "getArtifact i s = Err e \<Longrightarrow> steady e" "getEpisode i s = Err e \<Longrightarrow> steady e"
  "getJobConfig i s = Err e \<Longrightarrow> steady e"
  by (auto simp: getArtifact_def getEpisode_def getJobConfig_def dest: steady_getRow)

lemma mapOk_Err [simp]: "mapOk f r = Err e \<longleftrightarrow> r = Err e"
  by (cases r) auto

lemma lists_no_Err [simp]:
  "listSegments i s \<noteq> Err e" "listArtifactsByJob i ty s \<noteq> Err e"
  by (simp_all add: listSegments_def listArtifactsByJob_def)

lemma updateEpisode_steady: "updateEpisode ep s = Err e \<Longrightarrow> steady e"
  by (auto simp: updateEpisode_def notFound_def split: option.splits)

lemmas steady_store = steady_gets updateEpisode_steady

section \<open>The tools\<close>

text \<open>No shutdown is under way, and no collaborator reports a cancelled context.\<close>

definition calmEnv :: "Env \<Rightarrow> bool" where
  "calmEnv env \<longleftrightarrow> (\<forall>n. \<not> en_cancelled env n)
     \<and> (\<forall>n a b e. en_Metadata env n a b = Err e \<longrightarrow> steady e)
     \<and> (\<forall>n a b e. en_ExtractAudio env n a b = Err e \<longrightarrow> steady e)
     \<and> (\<forall>n a b e. en_Check env n a b = Err e \<longrightarrow> steady e)
     \<and> (\<forall>n a b e. en_put env n a b = Err e \<longrightarrow> steady e)
     \<and> (\<forall>n a b c d e. en_Transcribe env n a b c d = Err e \<longrightarrow> steady e)
     \<and> (\<forall>n a b e. en_Cleanup env n a b = Err e \<longrightarrow> steady e)"

lemma calm_outside:
  assumes "calmEnv env"
  shows "errs steady (outside (\<lambda>n. en_Metadata env n a b))"
    and "errs steady (outside (\<lambda>n. en_ExtractAudio env n a b))"
    and "errs steady (outside (\<lambda>n. en_Check env n a b))"
    and "errs steady (outside (\<lambda>n. en_put env n a b))"
    and "errs steady (outside (\<lambda>n. en_Transcribe env n a b c d))"
    and "errs steady (outside (\<lambda>n. en_Cleanup env n texts b))"
  by (rule errs_outside, insert assms, simp add: calmEnv_def)+

lemma calm_resolveUploadURI [calm]: "errs steady (resolveUploadURI env uri)"
  unfolding resolveUploadURI_def Let_def by (rule errs_branches calm steady_simps steady_store | assumption)+

lemma calm_episodeFromLibraryURI [calm]: "errs steady (episodeFromLibraryURI env uri)"
  unfolding episodeFromLibraryURI_def by (rule errs_branches calm steady_simps steady_store | assumption)+

lemma calm_mediaSourceURI [calm]: "errs steady (mediaSourceURI env job)"
  unfolding mediaSourceURI_def by (rule errs_branches calm steady_simps steady_store | assumption)+

lemma calm_configOf [calm]: "errs steady (configOf env job)"
  unfolding configOf_def by (rule errs_branches calm steady_simps steady_store | assumption)+

lemma calm_recordArtifact [calm]: "errs steady (recordArtifact env job ty uri mime n)"
  unfolding recordArtifact_def by (rule calm)+

lemma calm_createConfigSnapshot [calm]: "errs steady (createConfigSnapshot env job by')"
  unfolding createConfigSnapshot_def Let_def by (rule errs_branches calm steady_simps | (simp; fail))+

lemma calm_getMediaMetadata: "calmEnv env \<Longrightarrow> errs steady (getMediaMetadata env job)"
  unfolding getMediaMetadata_def
  by (rule errs_branches calm_outside calm steady_simps | assumption | (simp; fail))+

lemma calm_checkYouTubeCaptions: "calmEnv env \<Longrightarrow> errs steady (checkYouTubeCaptions env job)"
  unfolding checkYouTubeCaptions_def Let_def
  by (rule errs_branches calm_outside calm steady_simps | assumption | (simp; fail))+

lemma calm_downloadEnclosure [calm]: "errs steady (downloadEnclosure env ep)"
  unfolding downloadEnclosure_def Let_def
  by (rule errs_if errs_sum errs_option errs_prod calm | (simp add: downloadFailed_def tooLarge_def; fail))+

lemma calm_ensureLibraryMedia [calm]: "errs steady (ensureLibraryMedia env job)"
  unfolding ensureLibraryMedia_def
  by (rule errs_if errs_sum errs_option errs_prod calm steady_store | assumption)+

lemma calm_extractAudio: "calmEnv env \<Longrightarrow> errs steady (extractAudio env job)"
  unfolding extractAudio_def Let_def
  by (rule errs_branches calm_outside calm steady_simps | assumption | (simp; fail))+

lemma calm_latestAudio [calm]: "errs steady (latestAudioArtifactURI env i)"
  unfolding latestAudioArtifactURI_def by (rule errs_branches calm steady_simps | (simp; fail))+

lemma calm_transcribeAudio: "calmEnv env \<Longrightarrow> errs steady (transcribeAudio env job uri cfg)"
  unfolding transcribeAudio_def sttSegment_def Let_def
  by (rule errs_branches calm_outside calm steady_simps | assumption | (simp; fail))+

lemma calm_normalizeTranscript: "calmEnv env \<Longrightarrow> errs steady (normalizeTranscript env job source cfg)"
  unfolding normalizeTranscript_def cleanSegment_def Let_def
  by (rule errs_branches calm_outside calm steady_simps | assumption | (simp; fail))+

end
