(* ===== verification/Job_Walk.thy ===== *)
theory Job_Walk
  imports Job_Calm
begin

text \<open>
  The turns of the drive loop: every step moves the store by steps of the life cycle; when the others
  leave the status of the job alone, a step that goes on has brought the job nearer to its end, and
  one that stops has left it at rest, unless a shutdown came in between.
\<close>

text \<open>The calls are past the number \<open>T\<close>, and the job is in status \<open>st\<close> if the others spare it.\<close>

definition held :: "Env \<Rightarrow> nat \<Rightarrow> uuid \<Rightarrow> Status \<Rightarrow> World \<Rightarrow> bool" where
  "held env T i st w \<longleftrightarrow> T \<le> w_tick w \<and> (spares env i \<longrightarrow> statusOf i (w_store w) = Some st)"

text \<open>No pipeline work is left behind in these statuses.\<close>

definition atRest :: "Status \<Rightarrow> bool" where
  "atRest st \<longleftrightarrow> st \<notin> set (StatusSubmitted # StatusQueued # midPipelineStatuses)"

lemma atRest_simps [simp]:
  "atRest StatusNeedsUserAction" "atRest StatusFailed" "atRest StatusDrafted"
  "atRest StatusInReview" "atRest StatusApproved" "atRest StatusExported" "atRest StatusCancelled"
  "atRest (StatusOther s)"
  by (simp_all add: atRest_def midPipelineStatuses_def)

text \<open>Queued counts as rest only with the queue paused for five minutes, counted from a call after the
  number \<open>T\<close>: that is what the quota error of the provider leads to.\<close>

definition resting :: "Env \<Rightarrow> nat \<Rightarrow> Status \<Rightarrow> World \<Rightarrow> bool" where
  "resting env T st w \<longleftrightarrow> atRest st
     \<or> st = StatusQueued \<and> (\<exists>n \<ge> T. w_pauseUntil w = en_now env n + 300000000000)"

lemma resting_atRest: "atRest st \<Longrightarrow> resting env T st w"
  by (simp add: resting_def)

fun turnsLeft :: "Status \<Rightarrow> nat" where
  "turnsLeft StatusSubmitted = 10"
| "turnsLeft StatusQueued = 9"
| "turnsLeft StatusValidating = 8"
| "turnsLeft StatusMetadataExtracted = 7"
| "turnsLeft StatusCaptionChecked = 6"
| "turnsLeft StatusExtractingAudio = 5"
| "turnsLeft StatusTranscribing = 4"
| "turnsLeft StatusNormalizing = 3"
| "turnsLeft StatusQualityChecking = 2"
| "turnsLeft StatusDrafted = 1"
| "turnsLeft _ = 0"

text \<open>What a turn promises when it starts with the job \<open>i\<close> in status \<open>st\<close>.\<close>

definition turn :: "Env \<Rightarrow> nat \<Rightarrow> uuid \<Rightarrow> Status \<Rightarrow> bool action \<Rightarrow> bool" where
  "turn env T i st m \<longleftrightarrow> triple (worldOK env) (moves env False) (held env T i st) m
     (\<lambda>go w. T \<le> w_tick w \<and> (spares env i \<longrightarrow> (\<exists>st'. statusOf i (w_store w) = Some st'
        \<and> (if go then turnsLeft st' < turnsLeft st else calmEnv env \<longrightarrow> resting env T st' w))))"

section \<open>Rules\<close>

text \<open>An action that touches no status keeps what is held.\<close>

lemma held_keep:
  assumes "spec env True [] m G us"
  shows "triple (worldOK env) (moves env False) (held env T i st) m (\<lambda>x w. G x \<and> held env T i st w)"
proof (rule tripleI)
  fix w r w'
  assume w: "worldOK env w" and h: "held env T i st w" and run: "m w = (r, w')"
  from tripleD [OF assms [unfolded spec_def] w fresh_Nil run] h
  show "worldOK env w' \<and> moves env False w w' \<and> (\<forall>x. r = Ok x \<longrightarrow> G x \<and> held env T i st w')"
    by (auto simp: moves_def held_def)
qed

lemma turn_bind:
  assumes "spec env True [] m G us" and "\<And>x. G x \<Longrightarrow> turn env T i st (f x)"
  shows "turn env T i st (andThen m f)"
  unfolding turn_def
proof (rule svc.bind_rule [OF held_keep [OF assms(1)]])
  show "triple (worldOK env) (moves env False) (\<lambda>w. G x \<and> held env T i st w) (f x)
    (\<lambda>go w. T \<le> w_tick w \<and> (spares env i \<longrightarrow> (\<exists>st'. statusOf i (w_store w) = Some st'
        \<and> (if go then turnsLeft st' < turnsLeft st else calmEnv env \<longrightarrow> resting env T st' w))))" for x
    using assms(2) [of x] by (auto simp: turn_def triple_def)
qed

lemma turn_rest: "(calmEnv env \<Longrightarrow> atRest st) \<Longrightarrow> turn env T i st (ret False)"
  unfolding turn_def by (rule svc.ret_rule) (auto simp: held_def resting_atRest)

lemma turn_if: "(b \<Longrightarrow> turn env T i st m) \<Longrightarrow> (\<not> b \<Longrightarrow> turn env T i st m') \<Longrightarrow> turn env T i st (if b then m else m')"
  by simp

lemma turn_sum: "(\<And>e. r = Inl e \<Longrightarrow> turn env T i st (f e)) \<Longrightarrow> (\<And>x. r = Inr x \<Longrightarrow> turn env T i st (g x))
    \<Longrightarrow> turn env T i st (case r of Inl e \<Rightarrow> f e | Inr x \<Rightarrow> g x)"
  by (cases r) simp_all

lemma turn_option: "(r = None \<Longrightarrow> turn env T i st m) \<Longrightarrow> (\<And>x. r = Some x \<Longrightarrow> turn env T i st (g x))
    \<Longrightarrow> turn env T i st (case r of None \<Rightarrow> m | Some x \<Rightarrow> g x)"
  by (cases r) simp_all

lemma turn_prod: "(\<And>x y. p = (x, y) \<Longrightarrow> turn env T i st (f x y)) \<Longrightarrow> turn env T i st (case p of (x, y) \<Rightarrow> f x y)"
  by (cases p) simp_all

text \<open>A call whose error is inspected: without a shutdown the error is none of the context's.\<close>

lemma spec_attempt_calm:
  assumes "spec env k us m G us'" and "calmEnv env \<Longrightarrow> errs steady m"
  shows "spec env k us (attempt m) (\<lambda>r. case r of Inl e \<Rightarrow> calmEnv env \<longrightarrow> steady e | Inr x \<Rightarrow> G x) (\<lambda>_. [])"
  unfolding spec_def
proof (rule tripleI)
  fix w r w'
  assume w: "worldOK env w" "fresh env us w" and run: "attempt m w = (r, w')"
  obtain r1 w1 where m: "m w = (r1, w1)" by (cases "m w")
  have "calmEnv env \<longrightarrow> steady e" if "r1 = Err e" for e
    using assms(2) m that by (auto simp: errs_def)
  with tripleD [OF assms(1) [unfolded spec_def] w m] run m
  show "worldOK env w' \<and> moves env k w w' \<and>
      (\<forall>x. r = Ok x \<longrightarrow> (case x of Inl e \<Rightarrow> calmEnv env \<longrightarrow> steady e | Inr x \<Rightarrow> G x) \<and> fresh env [] w')"
    by (cases r1) (auto simp: attempt_def)
qed

lemma turn_attempt:
  assumes "spec env True [] m G us" and "calmEnv env \<Longrightarrow> errs steady m"
    and "\<And>e. (calmEnv env \<Longrightarrow> steady e) \<Longrightarrow> turn env T i st (f (Inl e))"
    and "\<And>x. G x \<Longrightarrow> turn env T i st (f (Inr x))"
  shows "turn env T i st (andThen (attempt m) f)"
  by (rule turn_bind [OF spec_attempt_calm [OF assms(1,2)]]) (auto split: sum.splits intro: assms(3,4))

section \<open>Changing the status\<close>

lemma swap_held:
  assumes "canTransition st to" and "\<And>j. j_Status (g j) = j_Status j \<and> j_JobID (g j) = j_JobID j"
    and "to \<noteq> StatusApproved" and "to = StatusInReview \<Longrightarrow> st = StatusDrafted"
  shows "triple (worldOK env) (moves env False) (held env T i st)
    (attempt (transitionA env i st (\<lambda>t j. transition t (g j) to)))
    (\<lambda>r w. (spares env i \<longrightarrow> (\<exists>j. r = Inr j)) \<and> held env T i to w)"
proof (rule tripleI)
  fix w r w'
  let ?m = "transitionA env i st (\<lambda>t j. transition t (g j) to)"
  assume w: "worldOK env w" and h: "held env T i st w" and run: "attempt ?m w = (r, w')"
  have "spec env False [] ?m (\<lambda>j. j_JobID j = i \<and> j_Status j = to) (\<lambda>_. [])"
    using assms(2-4) by (rule spec_move)
  note post = tripleD [OF spec_attempt [OF this, unfolded spec_def] w fresh_Nil run]
  have "(\<exists>j. r = Ok (Inr j)) \<and> statusOf i (w_store w') = Some to" if sp: "spares env i"
  proof -
    let ?s = "en_others env (Suc (w_tick w)) (w_store w)" and ?t = "en_now env (w_tick w)"
    have "statusOf i ?s = Some st" using h sp by (simp add: held_def spares_def)
    then obtain cur where cur: "st_jobs ?s i = Some cur" "j_Status cur = st" by (auto simp: statusOf_def)
    then have "transition ?t (g cur) to = Ok ((g cur)\<lparr>j_Status := to, j_UpdatedAt := ?t\<rparr>)"
      using assms(1,2) by (simp add: transition_Ok)
    with cur have "transitionJob i st (\<lambda>j. transition ?t (g j) to) ?s =
        Ok ((g cur)\<lparr>j_Status := to, j_UpdatedAt := ?t\<rparr>,
          ?s\<lparr>st_jobs := (st_jobs ?s)(i \<mapsto> (g cur)\<lparr>j_Status := to, j_UpdatedAt := ?t\<rparr>)\<rparr>)"
      by (auto simp: transitionJob_Ok)
    with run show ?thesis
      by (auto simp: attempt_def transitionA_def andThen_def now_def outside_def locked_def Let_def statusOf_def)
  qed
  with post h show "worldOK env w' \<and> moves env False w w' \<and>
      (\<forall>x. r = Ok x \<longrightarrow> (spares env i \<longrightarrow> (\<exists>j. x = Inr j)) \<and> held env T i to w')"
    by (auto simp: held_def moves_def)
qed

lemma carry_simps [simp]: "j_Status (carry job j) = j_Status j" "j_JobID (carry job j) = j_JobID j"
  by (simp_all add: carry_def)

lemma setStatus_held:
  assumes job: "j_JobID job = i" "j_Status job = st"
    and to: "canTransition st to" "to \<noteq> StatusApproved" "to = StatusInReview \<Longrightarrow> st = StatusDrafted"
  shows "triple (worldOK env) (moves env False) (held env T i st) (setStatus env job to)
    (\<lambda>moved w. (spares env i \<longrightarrow> moved) \<and> held env T i to w)"
  unfolding setStatus_def job
proof (rule svc.bind_rule [OF swap_held [OF to(1) _ to(2,3)]], simp)
  fix r :: "err + Job"
  let ?post = "\<lambda>moved w. (spares env i \<longrightarrow> moved) \<and> held env T i to w"
  show "triple (worldOK env) (moves env False) (\<lambda>w. (spares env i \<longrightarrow> (\<exists>j. r = Inr j)) \<and> held env T i to w)
      (case r of Inl _ \<Rightarrow> ret False
       | Inr updated \<Rightarrow> andThen (audit env (Some (j_JobID updated)) ''system'' ''orchestrator'' ''job.status_changed''
           (map_of [(''from'', AnyString (statusStr st)), (''to'', AnyString (statusStr to))])) (\<lambda>_. ret True)) ?post"
  proof (cases r)
    case (Inl e)
    then show ?thesis by (auto intro: svc.ret_rule)
  next
    case (Inr j)
    have "triple (worldOK env) (moves env False) (held env T i to)
       (andThen (audit env (Some (j_JobID j)) ''system'' ''orchestrator'' ''job.status_changed''
           (map_of [(''from'', AnyString (statusStr st)), (''to'', AnyString (statusStr to))])) (\<lambda>_. ret True)) ?post"
      by (rule svc.bind_rule [OF held_keep [OF spec_audit]], rule svc.ret_rule) simp
    then show ?thesis unfolding Inr by (simp add: triple_def)
  qed
qed

lemma turn_move:
  assumes "j_JobID job = i" and "j_Status job = st" and "canTransition st to" and "to \<noteq> StatusApproved"
    and "to = StatusInReview \<Longrightarrow> st = StatusDrafted" and "turnsLeft to < turnsLeft st"
  shows "turn env T i st (setStatus env job to)"
  unfolding turn_def
  by (rule triple_conseq [OF setStatus_held [OF assms(1-5)]]) (auto simp: held_def assms(6))

text \<open>After a change of status, something that touches none; otherwise the step gives up.\<close>

lemma stop_held:
  assumes "j_JobID job = i" and "j_Status job = st" and "canTransition st to" and "to \<noteq> StatusApproved"
    and "to = StatusInReview \<Longrightarrow> st = StatusDrafted" and m: "spec env True [] m G us" and x: "G x"
  shows "triple (worldOK env) (moves env False) (held env T i st)
    (andThen (setStatus env job to) (\<lambda>moved. if \<not> moved then ret x else m)) (\<lambda>y w. G y \<and> held env T i to w)"
proof (rule svc.bind_rule [OF setStatus_held [OF assms(1-5)]])
  fix moved
  show "triple (worldOK env) (moves env False) (\<lambda>w. (spares env i \<longrightarrow> moved) \<and> held env T i to w)
      (if \<not> moved then ret x else m) (\<lambda>y w. G y \<and> held env T i to w)"
  proof (cases moved)
    case True
    then show ?thesis using held_keep [OF m] by (simp add: triple_def)
  next
    case False
    then show ?thesis using x by (auto intro!: svc.ret_rule)
  qed
qed

lemma turn_stop:
  assumes "j_JobID job = i" and "j_Status job = st" and "canTransition st to" and "to \<noteq> StatusApproved"
    and "to = StatusInReview \<Longrightarrow> st = StatusDrafted" and "atRest to" and "spec env True [] m Not us"
  shows "turn env T i st (andThen (setStatus env job to) (\<lambda>moved. if \<not> moved then ret False else m))"
  unfolding turn_def
  by (rule triple_conseq [OF stop_held [OF assms(1-5,7)]]) (auto simp: held_def resting_atRest assms(6))

section \<open>Errors\<close>

lemma spec_shutdown: "spec env k us (shutdownInterrupted env e) (\<lambda>b. calmEnv env \<longrightarrow> steady e \<longrightarrow> \<not> b) (\<lambda>_. us)"
  unfolding shutdownInterrupted_def
  by (rule spec_weaken [OF spec_outside]) (auto simp: calmEnv_def split: err.splits)

lemma settle_held:
  assumes m: "triple (worldOK env) (moves env False) (held env T i st) m (\<lambda>_. held env T i to)"
    and "calmEnv env \<Longrightarrow> steady e" and "atRest to"
  shows "turn env T i st (andThen (andThen (shutdownInterrupted env e) (\<lambda>b. if b then ret () else m)) (\<lambda>_. ret False))"
  unfolding turn_def
proof (rule svc.bind_rule, rule svc.bind_rule [OF held_keep [OF spec_shutdown]])
  let ?Q = "\<lambda>w. \<exists>st'. held env T i st' w \<and> (calmEnv env \<longrightarrow> atRest st')"
  show "triple (worldOK env) (moves env False)
      (\<lambda>w. (calmEnv env \<longrightarrow> steady e \<longrightarrow> \<not> b) \<and> held env T i st w) (if b then ret () else m) (\<lambda>_. ?Q)" for b
  proof (cases b)
    case True
    then show ?thesis using assms(2) by (auto intro!: svc.ret_rule)
  next
    case False
    then show ?thesis using assms(3) by (auto intro!: triple_conseq [OF m])
  qed
  show "triple (worldOK env) (moves env False) ?Q (ret False)
      (\<lambda>go w. T \<le> w_tick w \<and> (spares env i \<longrightarrow> (\<exists>st'. statusOf i (w_store w) = Some st'
         \<and> (if go then turnsLeft st' < turnsLeft st else calmEnv env \<longrightarrow> resting env T st' w))))"
    by (rule svc.ret_rule) (auto simp: held_def resting_atRest)
qed

lemma turn_fail:
  assumes "j_JobID job = i" and "j_Status job = st" and "canTransition st StatusFailed" and "calmEnv env \<Longrightarrow> steady e"
  shows "turn env T i st (failStep env job e)"
  unfolding failStep_def toFailed_def
  by (rule settle_held [where to = StatusFailed, OF triple_conseq [OF stop_held [OF _ _ _ _ _ spec_audit]]]) (simp_all add: assms)

lemma turn_park:
  assumes "j_JobID job = i" and "j_Status job = st" and "canTransition st StatusNeedsUserAction"
    and "calmEnv env \<Longrightarrow> steady e"
  shows "turn env T i st (parkStep env job act' e)"
  unfolding parkStep_def toNeedsUserAction_def
  by (rule settle_held [where to = StatusNeedsUserAction, OF triple_conseq [OF stop_held [OF _ _ _ _ _ spec_audit]]]) (simp_all add: assms)

section \<open>Retries\<close>

lemma spec_backoff: "spec env k us (retryBackoff env) (\<lambda>b. calmEnv env \<longrightarrow> b) (\<lambda>_. us)"
  unfolding retryBackoff_def by (rule spec_weaken [OF spec_outside]) (auto simp: calmEnv_def)

lemma spec_retryOn:
  assumes "\<And>us. spec env k us m G (\<lambda>_. [])" and "calmEnv env \<Longrightarrow> errs steady m"
  shows "spec env k us (retryOn env codes m)
    (\<lambda>r. case r of None \<Rightarrow> \<not> calmEnv env | Some (Inl e) \<Rightarrow> calmEnv env \<longrightarrow> steady e | Some (Inr x) \<Rightarrow> G x) (\<lambda>_. [])"
  unfolding retryOn_def
  by (rule branches spec_attempt_calm [OF assms] spec_backoff spec_ret0 | assumption | (auto split: sum.splits; fail))+

lemma turn_retry:
  assumes "\<And>us. spec env True us m G (\<lambda>_. [])" and "calmEnv env \<Longrightarrow> errs steady m"
    and "\<not> calmEnv env \<Longrightarrow> turn env T i st (f None)"
    and "\<And>e. (calmEnv env \<Longrightarrow> steady e) \<Longrightarrow> turn env T i st (f (Some (Inl e)))"
    and "\<And>x. G x \<Longrightarrow> turn env T i st (f (Some (Inr x)))"
  shows "turn env T i st (andThen (retryOn env codes m) f)"
  by (rule turn_bind [OF spec_retryOn [OF assms(1,2)]])
    (auto split: option.splits sum.splits intro: assms(3-5))

end
