(* ===== verification/Job_Drive.thy ===== *)
theory Job_Drive
  imports Job_Walk
begin

text \<open>
  Every step of the pipeline is a turn, and the drive loop is a walk of such turns: within the bound
  it comes to its end, and without interference or shutdown it leaves no work behind.
\<close>

lemma spec_clearError [act]: "spec env k us (clearError env job) (sameJob job) (\<lambda>_. [])"
  unfolding clearError_def
  by (rule TrueI branches spec_attempt spec_touch act | (auto simp: sameJob_def; fail))+

lemma spec_pauseQueue [act]: "spec env k us (pauseQueue env) (\<lambda>_. True) (\<lambda>_. [])"
  unfolding pauseQueue_def
proof (rule spec_bind [OF spec_now])
  fix t
  show "spec env k us (\<lambda>w. (Ok (), w\<lparr>w_pauseUntil := t + 300000000000\<rparr>)) (\<lambda>_. True) (\<lambda>_. [])"
    unfolding spec_def by (rule tripleI) (auto simp: worldOK_def moves_def)
qed

lemma spec_False: "spec env k us (ret False) Not (\<lambda>_. [])"
  by (rule spec_ret0) simp

lemmas turn_rules = turn_if turn_sum turn_option turn_prod turn_rest turn_move turn_fail turn_park

lemmas turn_simps = canTransition_def sameJob_def

section \<open>The steps\<close>

lemma turn_duration:
  "j_JobID job = i \<Longrightarrow> j_Status job = StatusValidating \<Longrightarrow> turn env T i StatusValidating (stepDuration env job)"
  unfolding stepDuration_def durationError_def
  by (rule turn_rules turn_attempt [OF spec_configOf calm_configOf] turn_bind [OF spec_clearError]
      | (simp add: turn_simps; fail))+

lemma turn_metadata:
  "j_JobID job = i \<Longrightarrow> j_Status job = StatusValidating \<Longrightarrow> turn env T i StatusValidating (stepMetadata env job)"
  unfolding stepMetadata_def
  by (rule turn_rules turn_prod turn_duration turn_retry [OF spec_getMediaMetadata calm_getMediaMetadata]
      | (simp add: turn_simps split: prod.splits; fail))+

lemma turn_libraryMedia:
  "j_JobID job = i \<Longrightarrow> j_Status job = StatusValidating \<Longrightarrow> turn env T i StatusValidating (stepLibraryMedia env job)"
  unfolding stepLibraryMedia_def
  by (rule turn_rules turn_metadata turn_retry [OF spec_ensureLibraryMedia calm_ensureLibraryMedia]
      | (simp add: turn_simps; fail))+

lemma turn_validate:
  "j_JobID job = i \<Longrightarrow> j_Status job = StatusValidating \<Longrightarrow> turn env T i StatusValidating (stepValidate env job)"
  unfolding stepValidate_def
  by (rule turn_rules turn_libraryMedia turn_attempt [OF spec_createConfigSnapshot calm_createConfigSnapshot]
      | (simp add: turn_simps split: prod.splits; fail))+

lemma turn_routeAfterMetadata:
  "j_JobID job = i \<Longrightarrow> j_Status job = StatusMetadataExtracted
    \<Longrightarrow> turn env T i StatusMetadataExtracted (stepRouteAfterMetadata env job)"
  unfolding stepRouteAfterMetadata_def
  by (rule turn_rules turn_retry [OF spec_checkYouTubeCaptions calm_checkYouTubeCaptions] turn_bind [OF spec_audit]
      | (simp add: turn_simps split: prod.splits; fail))+

text \<open>The two calls of the caption path, under one attempt.\<close>

lemma spec_captionPath:
  "spec env k us (andThen (fetchExistingCaptions env job track) (\<lambda>uri. parseCaptionsToTranscript env job uri cfg))
    (\<lambda>_. True) (\<lambda>_. [])"
  by (rule spec_bind [OF spec_fetchExistingCaptions spec_parseCaptions])

lemma turn_captionRoute:
  "j_JobID job = i \<Longrightarrow> j_Status job = StatusCaptionChecked
    \<Longrightarrow> turn env T i StatusCaptionChecked (stepCaptionRoute env job)"
  unfolding stepCaptionRoute_def
  by (rule turn_stop [OF _ _ _ _ _ _ spec_bind [OF spec_audit spec_False]] turn_rules
        turn_attempt [OF spec_configOf calm_configOf] turn_bind [OF spec_attempt [OF spec_captionPath]] turn_bind [OF spec_audit]
      | (simp add: turn_simps; fail))+

lemma turn_extractAudio:
  "j_JobID job = i \<Longrightarrow> j_Status job = StatusExtractingAudio
    \<Longrightarrow> turn env T i StatusExtractingAudio (stepExtractAudio env job)"
  unfolding stepExtractAudio_def
  by (rule turn_rules turn_retry [OF spec_extractAudio calm_extractAudio] | (simp add: turn_simps; fail))+

text \<open>The quota branch: queued again, with the pause counted from a call of this turn.\<close>

lemma audit_pause: "audit env j aty ai et pl w = (r, w') \<Longrightarrow> w_pauseUntil w' = w_pauseUntil w"
  by (auto simp: audit_def event_def andThen_def attempt_def newUUID_def now_def outside_def inserts_def
      locked_def failWith_def ret_def Let_def split: outcome.splits prod.splits if_splits option.splits)

lemma quota_tail:
  "triple (worldOK env) (moves env False) (held env T i StatusQueued)
     (andThen (pauseQueue env) (\<lambda>_. andThen (audit env j aty ai et pl) (\<lambda>_. ret False)))
     (\<lambda>go w. \<not> go \<and> held env T i StatusQueued w \<and> resting env T StatusQueued w)"
proof (rule svc.bind_rule)
  let ?M = "\<lambda>w. held env T i StatusQueued w \<and> (\<exists>n \<ge> T. w_pauseUntil w = en_now env n + 300000000000)"
  show "triple (worldOK env) (moves env False) (held env T i StatusQueued) (pauseQueue env) (\<lambda>_. ?M)"
  proof (rule tripleI)
    fix w r w'
    assume w: "worldOK env w" "held env T i StatusQueued w" and run: "pauseQueue env w = (r, w')"
    then have "w' = w\<lparr>w_tick := Suc (w_tick w), w_pauseUntil := en_now env (w_tick w) + 300000000000\<rparr>"
      by (simp add: pauseQueue_def andThen_def now_def outside_def)
    with w show "worldOK env w' \<and> moves env False w w' \<and> (\<forall>x. r = Ok x \<longrightarrow> ?M w')"
      by (auto simp: worldOK_def moves_def held_def)
  qed
  show "triple (worldOK env) (moves env False) ?M (andThen (audit env j aty ai et pl) (\<lambda>_. ret False))
      (\<lambda>go w. \<not> go \<and> held env T i StatusQueued w \<and> resting env T StatusQueued w)"
  proof (rule svc.bind_rule)
    show "triple (worldOK env) (moves env False) ?M (audit env j aty ai et pl) (\<lambda>_. ?M)"
    proof (rule tripleI)
      fix w r w'
      assume w: "worldOK env w" "?M w" and run: "audit env j aty ai et pl w = (r, w')"
      from tripleD [OF held_keep [OF spec_audit] w(1) _ run] w(2) audit_pause [OF run]
      show "worldOK env w' \<and> moves env False w w' \<and> (\<forall>x. r = Ok x \<longrightarrow> ?M w')" by auto
    qed
    show "triple (worldOK env) (moves env False) ?M (ret False)
        (\<lambda>go w. \<not> go \<and> held env T i StatusQueued w \<and> resting env T StatusQueued w)"
      by (rule svc.ret_rule) (auto simp: resting_def)
  qed
qed

lemma turn_quota:
  assumes "j_JobID job = i" and "j_Status job = StatusTranscribing"
  shows "turn env T i StatusTranscribing (quotaStep env job e)"
  unfolding turn_def quotaStep_def
proof (rule svc.bind_rule [OF setStatus_held])
  let ?post = "\<lambda>go w. T \<le> w_tick w \<and> (spares env i \<longrightarrow> (\<exists>st'. statusOf i (w_store w) = Some st'
        \<and> (if go then turnsLeft st' < turnsLeft StatusTranscribing else calmEnv env \<longrightarrow> resting env T st' w)))"
  fix moved
  show "triple (worldOK env) (moves env False) (\<lambda>w. (spares env i \<longrightarrow> moved) \<and> held env T i StatusQueued w)
      (if \<not> moved then ret False
       else andThen (pauseQueue env) (\<lambda>_. andThen (audit env (Some (j_JobID job)) ''system'' ''orchestrator''
         ''queue.paused_quota'' (map_of [(''error_code'', AnyString (fst (asError e)))])) (\<lambda>_. ret False))) ?post"
  proof (cases moved)
    case True
    then show ?thesis by (auto simp: held_def intro!: triple_conseq [OF quota_tail])
  next
    case False
    then show ?thesis by (auto simp: held_def intro!: svc.ret_rule)
  qed
qed (simp_all add: assms turn_simps)

lemma turn_transcribe:
  "j_JobID job = i \<Longrightarrow> j_Status job = StatusTranscribing \<Longrightarrow> turn env T i StatusTranscribing (stepTranscribe env job)"
  unfolding stepTranscribe_def
  by (rule turn_rules turn_quota turn_attempt [OF spec_configOf calm_configOf]
        turn_attempt [OF spec_latestAudio calm_latestAudio] turn_retry [OF spec_transcribeAudio calm_transcribeAudio]
        turn_bind [OF spec_clearError]
      | (simp add: turn_simps; fail))+

lemma turn_normalize:
  "j_JobID job = i \<Longrightarrow> j_Status job = StatusNormalizing \<Longrightarrow> turn env T i StatusNormalizing (stepNormalize env job)"
  unfolding stepNormalize_def noVersion_def
  by (rule turn_rules turn_attempt [OF spec_configOf calm_configOf] turn_bind [OF spec_attempt_reads]
        turn_retry [OF spec_normalizeTranscript calm_normalizeTranscript]
      | (simp add: turn_simps; fail))+

lemma spec_cleanOrRaw [act]: "spec env k us (cleanOrRaw env i) (\<lambda>_. True) (\<lambda>_. [])"
  unfolding cleanOrRaw_def by (rule TrueI branches act)+

lemma turn_qualityCheck:
  "j_JobID job = i \<Longrightarrow> j_Status job = StatusQualityChecking
    \<Longrightarrow> turn env T i StatusQualityChecking (stepQualityCheck env job)"
  unfolding stepQualityCheck_def noVersion_def
  by (rule turn_rules turn_attempt [OF spec_configOf calm_configOf] turn_bind [OF spec_cleanOrRaw]
        turn_bind [OF spec_attempt [OF spec_qualityCheck]] turn_bind [OF spec_audit]
      | (simp add: turn_simps; fail))+

lemma spec_finishLibraryDraft [act]: "spec env k us (finishLibraryDraft env job) (\<lambda>_. True) (\<lambda>_. [])"
  unfolding finishLibraryDraft_def by (rule TrueI branches act spec_attempt)+

section \<open>The loop\<close>

lemmas turn_steps = turn_validate turn_routeAfterMetadata turn_captionRoute turn_extractAudio turn_transcribe
  turn_normalize turn_qualityCheck

lemma turn_driveStep: "j_JobID job = i \<Longrightarrow> j_Status job = st \<Longrightarrow> turn env T i st (driveStep env job)"
  unfolding driveStep_def
  by (cases st; hypsubst_thin?; simp only: Status.case)
    (rule turn_steps turn_rules turn_bind [OF spec_finishLibraryDraft] | (simp add: turn_simps; fail))+

text \<open>The load: what was read is the status that is held.\<close>

lemma load_held:
  "triple (worldOK env) (moves env False) (\<lambda>w. T \<le> w_tick w \<and> (spares env i \<longrightarrow> statusOf i (w_store w) = so))
     (attempt (reads env (getJob i)))
     (\<lambda>r w. (\<forall>job. r = Inr job \<longrightarrow> j_JobID job = i \<and> held env T i (j_Status job) w)
        \<and> (spares env i \<longrightarrow> so = (case r of Inl _ \<Rightarrow> None | Inr job \<Rightarrow> Some (j_Status job))))"
proof (rule tripleI)
  fix w r w'
  assume w: "worldOK env w" and h: "T \<le> w_tick w \<and> (spares env i \<longrightarrow> statusOf i (w_store w) = so)"
    and run: "attempt (reads env (getJob i)) w = (r, w')"
  let ?s = "en_others env (w_tick w) (w_store w)"
  note o = others_run [OF w refl, where n = "w_tick w"]
  have w': "w' = w\<lparr>w_tick := Suc (w_tick w), w_store := ?s\<rparr>"
    and r: "r = (case getJob i ?s of Ok x \<Rightarrow> Ok (Inr x) | Err e \<Rightarrow> Ok (Inl e) | Panic \<Rightarrow> Panic)"
    using run by (auto simp: attempt_def reads_eq split: outcome.splits)
  have ids: "j_JobID job = i" if "st_jobs ?s i = Some job" for job
    using storeInv_tables(1) [OF reachable_inv [OF o(1)]] that by (auto simp: table_def)
  have "spares env i \<longrightarrow> statusOf i ?s = so" using h o(4) by simp
  moreover have "worldOK env w' \<and> moves env False w w'"
    using tripleD [OF spec_reads [of env False "[]" "getJob i", unfolded spec_def] w fresh_Nil reads_eq [of env "getJob i" w]]
    by (simp add: w')
  ultimately show "worldOK env w' \<and> moves env False w w' \<and> (\<forall>x. r = Ok x \<longrightarrow>
      (\<forall>job. x = Inr job \<longrightarrow> j_JobID job = i \<and> held env T i (j_Status job) w')
        \<and> (spares env i \<longrightarrow> so = (case x of Inl _ \<Rightarrow> None | Inr job \<Rightarrow> Some (j_Status job))))"
    using ids h by (auto simp: r w' getJob_def getRow_def statusOf_def held_def split: option.splits)
qed

text \<open>Whatever happens, the loop moves the store by steps of the life cycle.\<close>

lemma triple_driveLoop:
  "triple (worldOK env) (moves env False) (\<lambda>_. True) (driveLoop env n i) (\<lambda>_ _. True)"
proof (induction n)
  case 0
  show ?case unfolding driveLoop.simps by (rule svc.ret_rule) simp
next
  case (Suc n)
  show ?case unfolding driveLoop.simps
  proof (rule svc.bind_rule)
    show "triple (worldOK env) (moves env False) (\<lambda>_. True) (attempt (reads env (getJob i)))
        (\<lambda>r w. \<forall>job. r = Inr job \<longrightarrow> j_JobID job = i \<and> held env 0 i (j_Status job) w)"
      unfolding triple_def
    proof (intro allI impI)
      fix w
      assume w: "worldOK env w"
      from load_held [of env 0 i "statusOf i (w_store w)"] w
      show "case attempt (reads env (getJob i)) w of (r, w') \<Rightarrow> worldOK env w' \<and> moves env False w w' \<and>
          (\<forall>x. r = Ok x \<longrightarrow> (\<forall>job. x = Inr job \<longrightarrow> j_JobID job = i \<and> held env 0 i (j_Status job) w'))"
        by (auto simp: triple_def split: prod.splits)
    qed
    fix r :: "err + Job"
    have go: "triple (worldOK env) (moves env False) (\<lambda>_. True)
        (if proceed then driveLoop env n i else ret Rested) (\<lambda>_ _. True)" for proceed
      by (rule triple_if [OF Suc.IH svc.ret_rule]) simp
    have "triple (worldOK env) (moves env False) (held env 0 i (j_Status job))
        (andThen (driveStep env job) (\<lambda>proceed. if proceed then driveLoop env n i else ret Rested)) (\<lambda>_ _. True)"
      if "j_JobID job = i" for job
      by (rule svc.bind_rule [OF turn_driveStep [OF that refl, unfolded turn_def] triple_conseq [OF go]]) simp_all
    then show "triple (worldOK env) (moves env False)
        (\<lambda>w. \<forall>job. r = Inr job \<longrightarrow> j_JobID job = i \<and> held env 0 i (j_Status job) w)
        (case r of Inl _ \<Rightarrow> ret LoadFailed
         | Inr job \<Rightarrow> andThen (driveStep env job) (\<lambda>proceed. if proceed then driveLoop env n i else ret Rested))
        (\<lambda>_ _. True)"
      by (cases r) (auto simp: triple_def ret_def svc.R_refl)
  qed
qed

text \<open>Undisturbed, the loop with enough fuel comes to its end, and without a shutdown it leaves the job
  at rest.\<close>

abbreviation settled :: "Env \<Rightarrow> nat \<Rightarrow> uuid \<Rightarrow> DriveEnd \<Rightarrow> World \<Rightarrow> bool" where
  "settled env T i ending w \<equiv> ending = Rested
     \<and> (\<exists>st'. statusOf i (w_store w) = Some st' \<and> (calmEnv env \<longrightarrow> resting env T st' w))"

lemma triple_ex:
  "(\<And>z. Z z \<Longrightarrow> triple I R (P z) m Q) \<Longrightarrow> triple I R (\<lambda>w. \<exists>z. P z w \<and> Z z) m Q"
  by (rule tripleI) (blast dest: tripleD)

lemma driveLoop_settles:
  assumes sp: "spares env i"
  shows "turnsLeft st < n \<Longrightarrow>
    triple (worldOK env) (moves env False) (held env T i st) (driveLoop env n i) (settled env T i)"
proof (induction n arbitrary: st)
  case (Suc n)
  let ?loop = "\<lambda>proceed. if proceed then driveLoop env n i else ret Rested"
  have go: "triple (worldOK env) (moves env False)
      (\<lambda>w. T \<le> w_tick w \<and> (spares env i \<longrightarrow> (\<exists>st'. statusOf i (w_store w) = Some st'
        \<and> (if proceed then turnsLeft st' < turnsLeft st else calmEnv env \<longrightarrow> resting env T st' w))))
      (?loop proceed) (settled env T i)" for proceed
  proof (cases proceed)
    case True
    have "triple (worldOK env) (moves env False) (\<lambda>w. \<exists>st'. held env T i st' w \<and> turnsLeft st' < turnsLeft st)
        (driveLoop env n i) (settled env T i)"
      by (rule triple_ex, rule Suc.IH) (use Suc.prems in simp)
    then show ?thesis using True sp by (simp add: held_def)
  next
    case False
    then show ?thesis using sp by (auto intro!: svc.ret_rule)
  qed
  have "triple (worldOK env) (moves env False) (held env T i st) (andThen (driveStep env job) ?loop) (settled env T i)"
    if "j_JobID job = i" "j_Status job = st" for job
    using turn_driveStep [OF that, unfolded turn_def] go by (rule svc.bind_rule)
  then have "triple (worldOK env) (moves env False)
      (\<lambda>w. (\<forall>job. r = Inr job \<longrightarrow> j_JobID job = i \<and> held env T i (j_Status job) w)
        \<and> (spares env i \<longrightarrow> Some st = (case r of Inl _ \<Rightarrow> None | Inr job \<Rightarrow> Some (j_Status job))))
      (case r of Inl _ \<Rightarrow> ret LoadFailed | Inr job \<Rightarrow> andThen (driveStep env job) ?loop) (settled env T i)" for r
    using sp by (cases r) (auto simp: triple_def)
  moreover have "triple (worldOK env) (moves env False) (held env T i st) (attempt (reads env (getJob i)))
     (\<lambda>r w. (\<forall>job. r = Inr job \<longrightarrow> j_JobID job = i \<and> held env T i (j_Status job) w)
        \<and> (spares env i \<longrightarrow> Some st = (case r of Inl _ \<Rightarrow> None | Inr job \<Rightarrow> Some (j_Status job))))"
    using load_held by (rule triple_conseq) (simp_all add: held_def)
  ultimately show ?case unfolding driveLoop.simps by (rule svc.bind_rule [rotated])
qed simp

text \<open>A job that is not there is not driven.\<close>

lemma driveLoop_missing:
  assumes "spares env i" and "worldOK env w" and "statusOf i (w_store w) = None"
    and "driveLoop env (Suc n) i w = (r, w')"
  shows "r = Ok LoadFailed"
proof -
  have "statusOf i (en_others env (w_tick w) (w_store w)) = None" using assms(1,3) by (simp add: spares_def)
  then have "st_jobs (en_others env (w_tick w) (w_store w)) i = None" by (simp add: statusOf_def)
  with assms(4) show ?thesis
    by (auto simp: andThen_def attempt_def reads_eq getJob_def getRow_def ret_def)
qed

section \<open>No error comes back\<close>

text \<open>The worker swallows every error of a step: it is audited, parks the job or fails it.\<close>

lemma errs_eventStrictless [calm]: "errs P (shutdownInterrupted env e)"
  unfolding shutdownInterrupted_def by (rule errs_outside) simp

lemma errs_setStatus [calm]: "errs P (setStatus env job to)"
  unfolding setStatus_def by (rule errs_sum calm)+

lemma errs_retryBackoff [calm]: "errs P (retryBackoff env)"
  unfolding retryBackoff_def by (rule errs_outside) simp

lemma errs_retryOn [calm]: "errs P (retryOn env codes m)"
  unfolding retryOn_def by (rule errs_if errs_sum calm)+

lemma errs_clearError [calm]: "errs P (clearError env job)"
  unfolding clearError_def by (rule errs_if errs_sum calm)+

lemma errs_failStep [calm]: "errs P (failStep env job e)"
  unfolding failStep_def toFailed_def by (rule errs_if calm)+

lemma errs_parkStep [calm]: "errs P (parkStep env job act' e)"
  unfolding parkStep_def toNeedsUserAction_def by (rule errs_if calm)+

lemma errs_pauseQueue [calm]: "errs P (pauseQueue env)"
  unfolding pauseQueue_def by (rule errs_andThen [OF errs_now]) (simp add: errs_def)

lemma errs_cleanOrRaw [calm]: "errs P (cleanOrRaw env i)"
  unfolding cleanOrRaw_def by (rule errs_sum errs_option calm)+

lemma errs_finishLibraryDraft [calm]: "errs P (finishLibraryDraft env job)"
  unfolding finishLibraryDraft_def by (rule errs_if errs_sum errs_option calm)+

lemmas step_defs = stepValidate_def stepLibraryMedia_def stepMetadata_def stepDuration_def
  stepRouteAfterMetadata_def stepCaptionRoute_def stepExtractAudio_def stepTranscribe_def quotaStep_def
  stepNormalize_def stepQualityCheck_def

lemma errs_driveStep [calm]: "errs P (driveStep env job)"
  unfolding driveStep_def step_defs
  by (cases "j_Status job"; simp only: Status.case; (rule errs_if errs_sum errs_option errs_prod calm)+)

lemma errs_driveLoop: "errs P (driveLoop env n i)"
  by (induction n) (simp_all, (rule errs_sum errs_if calm | assumption)+)

end
