(* ===== verification/Job_Scans.thy ===== *)
theory Job_Scans
  imports Job_Drive
begin

text \<open>
  The contracts of the drive, of the queue, of the scans, of the library poll and of the caption
  decision; then every operation of the service is a refinement of the life cycle of the store.
\<close>

section \<open>Driving and queueing\<close>

text \<open>The worker's bookkeeping is no part of what the contracts speak of.\<close>

lemma spec_bookkeeping:
  assumes "\<And>w. w_store (snd (m w)) = w_store w \<and> w_drawn (snd (m w)) = w_drawn w \<and> w_tick (snd (m w)) = w_tick w"
  shows "spec env k us m (\<lambda>_. True) (\<lambda>_. us)"
  unfolding spec_def
proof (rule tripleI)
  fix w r w'
  assume "worldOK env w" "fresh env us w" and run: "m w = (r, w')"
  moreover have "w_store w' = w_store w" "w_drawn w' = w_drawn w" "w_tick w' = w_tick w"
    using assms [of w] run by simp_all
  ultimately show "worldOK env w' \<and> moves env k w w' \<and> (\<forall>x. r = Ok x \<longrightarrow> True \<and> fresh env us w')"
    by (auto simp: worldOK_def moves_def fresh_def)
qed

lemma spec_paused [act]: "spec env k us (paused env) (\<lambda>_. True) (\<lambda>_. us)"
  unfolding paused_def by (rule spec_bind [OF spec_now], rule spec_bookkeeping) simp

lemma spec_beginDrive [act]: "spec env k us (beginDrive i) (\<lambda>_. True) (\<lambda>_. us)"
  by (rule spec_bookkeeping) (simp add: beginDrive_def)

lemma spec_busy [act]: "spec env k us (busy i) (\<lambda>_. True) (\<lambda>_. us)"
  by (rule spec_bookkeeping) (simp add: busy_def)

lemma spec_driveLoop [act]: "spec env False us (driveLoop env n i) (\<lambda>_. True) (\<lambda>_. [])"
  unfolding spec_def by (rule triple_conseq [OF triple_driveLoop]) simp_all

lemma triple_finishing:
  assumes "triple (worldOK env) (moves env k) P m Q"
    and "\<And>x w f. Q x w \<Longrightarrow> Q x (w\<lparr>w_running := f\<rparr>)"
  shows "triple (worldOK env) (moves env k) P (finishing i m) Q"
proof (rule tripleI)
  fix w r w'
  assume w: "worldOK env w" "P w" and run: "finishing i m w = (r, w')"
  obtain r1 w1 where m: "m w = (r1, w1)" by (cases "m w")
  with run have "r = r1" "w' = w1\<lparr>w_running := w_running w1 - {i}\<rparr>" by (auto simp: finishing_def)
  with tripleD [OF assms(1) w m] assms(2)
  show "worldOK env w' \<and> moves env k w w' \<and> (\<forall>x. r = Ok x \<longrightarrow> Q x w')"
    by (simp add: worldOK_def moves_def)
qed

lemma spec_finishing:
  assumes "spec env k us m (\<lambda>_. True) (\<lambda>_. [])"
  shows "spec env k us (finishing i m) (\<lambda>_. True) (\<lambda>_. [])"
  using assms unfolding spec_def by (rule triple_finishing) simp

lemma spec_drive [act]: "spec env False us (drive env i) (\<lambda>_. True) (\<lambda>_. [])"
  unfolding drive_def by (rule TrueI branches act spec_finishing)+

lemma spec_enqueue [act]: "spec env False us (enqueue env i) (\<lambda>_. True) (\<lambda>_. [])"
proof (cases "en_Sync env")
  case True
  then show ?thesis by (simp only: enqueue_def if_True) (rule TrueI branches act)+
next
  case False
  have "spec env False us (enqueue env i) (\<lambda>_. True) (\<lambda>_. us)"
    by (rule spec_bookkeeping) (simp add: enqueue_def False)
  then show ?thesis by (rule spec_conseq) simp_all
qed

lemma spec_workerTurn [act]: "spec env False us (workerTurn env) (\<lambda>_. True) (\<lambda>_. [])"
  unfolding spec_def
proof (rule tripleI)
  fix w r w'
  assume w: "worldOK env w" and us: "fresh env us w" and run: "workerTurn env w = (r, w')"
  show "worldOK env w' \<and> moves env False w w' \<and> (\<forall>x. r = Ok x \<longrightarrow> True \<and> fresh env [] w')"
  proof (cases "w_queue w")
    case Nil
    with run w show ?thesis by (simp add: workerTurn_def svc.R_refl)
  next
    case (Cons i q)
    let ?w = "w\<lparr>w_queue := q\<rparr>"
    have "spec env False us (andThen (drive env i) (\<lambda>_ w'. (Ok (), w'\<lparr>w_inFlight := w_inFlight w' - {i}\<rparr>)))
        (\<lambda>_. True) (\<lambda>_. [])"
      by (rule spec_bind [OF spec_drive], rule spec_bookkeeping) simp
    moreover have "worldOK env ?w" "fresh env us ?w" using w us by (simp_all add: worldOK_def fresh_def)
    ultimately show ?thesis
      using run Cons unfolding spec_def workerTurn_def by (auto dest: tripleD simp: moves_def)
  qed
qed

section \<open>Scans and polls\<close>

lemma spec_reclaimOne [act]: "spec env False us (reclaimOne env cutoff j) (\<lambda>_. True) (\<lambda>_. [])"
  unfolding reclaimOne_def by (rule TrueI branches act spec_attempt | (simp; fail))+

lemma spec_reclaimStuck [act]: "spec env False us (reclaimStuck env) (\<lambda>_. True) (\<lambda>_. [])"
  unfolding reclaimStuck_def by (rule TrueI branches act spec_mapA)+

lemma spec_sweepOne [act]: "spec env k us (sweepOne env art) (\<lambda>_. True) (\<lambda>_. [])"
  unfolding sweepOne_def by (rule TrueI branches act spec_attempt)+

lemma spec_sweepRetention [act]: "spec env k us (sweepRetention env) (\<lambda>_. True) (\<lambda>_. [])"
  unfolding sweepRetention_def by (rule TrueI branches act spec_mapA)+

lemma spec_autoTranscribe [act]: "spec env False us (autoTranscribe env n limit eps) (\<lambda>_. True) (\<lambda>_. [])"
proof (induction eps arbitrary: n us)
  case Nil
  show ?case by (simp add: spec_ret0)
next
  case (Cons ep eps)
  show ?case unfolding autoTranscribe.simps by (rule TrueI branches act spec_attempt Cons.IH)+
qed

lemma spec_pollFeedBody [act]: "spec env False us (pollFeedBody env feed) (\<lambda>_. True) (\<lambda>_. [])"
  unfolding pollFeedBody_def by (rule TrueI branches act spec_attempt)+

lemma spec_pollFeed [act]: "spec env False us (pollFeed env feed) (\<lambda>_. True) (\<lambda>_. [])"
  unfolding spec_def
proof (rule tripleI)
  fix w r w'
  assume w: "worldOK env w" and us: "fresh env us w" and run: "pollFeed env feed w = (r, w')"
  let ?w = "w\<lparr>w_pollBusy := insert (fd_FeedID feed) (w_pollBusy w)\<rparr>"
  obtain r1 w1 where body: "pollFeedBody env feed ?w = (r1, w1)" by (cases "pollFeedBody env feed ?w")
  have "worldOK env ?w" "fresh env us ?w" using w us by (simp_all add: worldOK_def fresh_def)
  from tripleD [OF spec_pollFeedBody [unfolded spec_def] this body] run body w
  show "worldOK env w' \<and> moves env False w w' \<and> (\<forall>x. r = Ok x \<longrightarrow> True \<and> fresh env [] w')"
    by (auto simp: pollFeed_def worldOK_def moves_def split: if_splits)
qed

lemma spec_requestFeedPoll [act]: "spec env False us (requestFeedPoll env i) (\<lambda>_. True) (\<lambda>_. [])"
  unfolding requestFeedPoll_def by (rule TrueI branches act)+

lemma spec_pollDue [act]: "spec env k us (pollDue env) (\<lambda>_. True) (\<lambda>_. us)"
proof -
  have due: "spec env k us (\<lambda>w. (Ok (w_nextLibraryPoll w \<le> t), w)) (\<lambda>_. True) (\<lambda>_. us)" for t
    by (rule spec_bookkeeping) simp
  have next': "spec env k us (\<lambda>w. (Ok True, w\<lparr>w_nextLibraryPoll := t\<rparr>)) (\<lambda>_. True) (\<lambda>_. us)" for t
    by (rule spec_bookkeeping) simp
  show ?thesis unfolding pollDue_def
    by (rule TrueI spec_bind [OF spec_now] spec_bind [OF due] spec_if next' spec_ret | assumption)+
qed

lemma spec_libraryScan [act]: "spec env False us (libraryScan env) (\<lambda>_. True) (\<lambda>_. [])"
  unfolding libraryScan_def by (rule TrueI branches act spec_mapA)+

lemma spec_scan [act]: "spec env False us (scan env) (\<lambda>_. True) (\<lambda>_. [])"
  unfolding scan_def by (rule TrueI branches act spec_mapA)+

section \<open>The caption decision\<close>

lemma spec_resume [act]:
  "spec env False us (resumeAfterCaptionDecision env job reuse by') (\<lambda>_. True) (\<lambda>_. [])"
  unfolding resumeAfterCaptionDecision_def
proof (rule spec_if [OF spec_fail spec_bind [OF spec_eventStrict spec_bind [OF spec_transition]]])
  show "decideCaptions reuse t j = Ok j' \<Longrightarrow>
      \<exists>j0. j_Status j0 = j_Status j \<and> j_JobID j0 = j_JobID j \<and> transition t j0 StatusCaptionChecked = Ok j'" for t j j'
    by (rule exI [of _ "j\<lparr>j_CaptionReuse := Some reuse, j_ActionRequired := [], j_LastError := None\<rparr>"])
      (simp add: decideCaptions_def split: if_splits)
qed (simp_all, (rule TrueI branches act)+)

section \<open>The service\<close>

text \<open>The operations that handlers and workers run, in any order, with whatever copies of jobs and other
  rows they hold.\<close>

inductive serviceStep :: "Env \<Rightarrow> World \<Rightarrow> World \<Rightarrow> bool" for env where
  svSubmit: "submitMediaJob env input w = (r, w') \<Longrightarrow> serviceStep env w w'"
| svPublish: "publishCaptionFile env i actor w = (r, w') \<Longrightarrow> serviceStep env w w'"
| svEdit: "editSegment env vid sid t l by' w = (r, w') \<Longrightarrow> serviceStep env w w'"
| svClone: "cloneToVersion env job v VersionReviewed by' False w = (r, w') \<Longrightarrow> serviceStep env w w'"
| svApprove: "approveTranscript env job vid by' note' w = (r, w') \<Longrightarrow> serviceStep env w w'"
| svReopen: "reopenTranscript env job by' w = (r, w') \<Longrightarrow> serviceStep env w w'"
| svSummary: "generateSummary env job v cfg by' w = (r, w') \<Longrightarrow> serviceStep env w w'"
| svExport: "exportTranscript env job v' formats by' w = (r, w') \<Longrightarrow> serviceStep env w w'"
| svReplace: "replaceJobMedia env job rinput w = (r, w') \<Longrightarrow> serviceStep env w w'"
| svCancel: "cancelJob env job by' role reason w = (r, w') \<Longrightarrow> serviceStep env w w'"
| svCaptions: "resumeAfterCaptionDecision env job reuse by' w = (r, w') \<Longrightarrow> serviceStep env w w'"
| svAddFeed: "addFeed env url auto by' w = (r, w') \<Longrightarrow> serviceStep env w w'"
| svLibraryJob: "submitLibraryJob env ep by' w = (r, w') \<Longrightarrow> serviceStep env w w'"
| svPoll: "requestFeedPoll env i w = (r, w') \<Longrightarrow> serviceStep env w w'"
| svEnqueue: "enqueue env i w = (r, w') \<Longrightarrow> serviceStep env w w'"
| svWorker: "workerTurn env w = (r, w') \<Longrightarrow> serviceStep env w w'"
| svScan: "scan env w = (r, w') \<Longrightarrow> serviceStep env w w'"

lemma spec_run:
  "spec env False [] m G us \<Longrightarrow> m w = (r, w') \<Longrightarrow> worldOK env w \<Longrightarrow> worldOK env w' \<and> storeSteps (w_store w) (w_store w')"
  by (auto simp: spec_def moves_def dest: tripleD)

lemma spec_clone_reviewed: "spec env k us (cloneToVersion env job v VersionReviewed by' False) (\<lambda>_. True) (\<lambda>_. [])"
  by (rule spec_cloneToVersion) (simp_all add: version_types)

lemmas service_specs = spec_submitMediaJob spec_publishCaptionFile spec_editSegment spec_clone_reviewed
  spec_approveTranscript spec_reopenTranscript spec_generateSummary spec_exportTranscript spec_replaceJobMedia
  spec_cancelJob spec_resume spec_addFeed spec_submitLibraryJob spec_requestFeedPoll spec_enqueue
  spec_workerTurn spec_scan

lemma service_step:
  "serviceStep env w w' \<Longrightarrow> worldOK env w \<Longrightarrow> worldOK env w' \<and> storeSteps (w_store w) (w_store w')"
  by (cases rule: serviceStep.cases, assumption; (erule service_specs [THEN spec_run]; assumption))

lemma service_steps:
  "(serviceStep env)\<^sup>*\<^sup>* w w' \<Longrightarrow> worldOK env w \<Longrightarrow> worldOK env w' \<and> storeSteps (w_store w) (w_store w')"
  by (induction rule: rtranclp_induct) (auto dest: service_step)

end
