(* ===== verification/Job_Strict.thy ===== *)
theory Job_Strict
  imports Job_Scans
begin

text \<open>
  The high-risk actions fail closed: each writes its request to the audit log first, and when that
  write fails nothing else happens.
\<close>

definition auditDown :: "Env \<Rightarrow> bool" where
  "auditDown env \<longleftrightarrow> (\<forall>n. en_appendFails env n \<noteq> None) \<and> (\<forall>n s. en_others env n s = s)"

definition sameStore :: "World \<Rightarrow> World \<Rightarrow> bool" where
  "sameStore w w' \<longleftrightarrow> w_store w' = w_store w"

interpretation still: guarantee "\<lambda>_. auditDown env" sameStore for env
  by unfold_locales (simp_all add: sameStore_def)

text \<open>An action that leaves the store as it is, and returns only what satisfies \<open>Q\<close>.\<close>

definition stays :: "Env \<Rightarrow> 'a action \<Rightarrow> ('a \<Rightarrow> bool) \<Rightarrow> bool" where
  "stays env m Q \<longleftrightarrow> triple (\<lambda>_. auditDown env) sameStore (\<lambda>_. True) m (\<lambda>x _. Q x)"

named_theorems inert \<open>actions that leave the store as it is\<close>

lemma stays_ret [inert]: "Q x \<Longrightarrow> stays env (ret x) Q"
  unfolding stays_def by (rule still.ret_rule)

lemma stays_fail [inert]: "stays env (failWith e) Q"
  unfolding stays_def by (rule still.fail_rule)

lemma stays_lift [inert]: "(\<And>x. r = Ok x \<Longrightarrow> Q x) \<Longrightarrow> stays env (liftOutcome r) Q"
  unfolding stays_def by (rule still.lift_rule)

lemma stays_bind:
  assumes "stays env m P" and "\<And>x. P x \<Longrightarrow> stays env (f x) Q"
  shows "stays env (andThen m f) Q"
  unfolding stays_def
proof (rule still.bind_rule [OF assms(1) [unfolded stays_def]])
  show "triple (\<lambda>_. auditDown env) sameStore (\<lambda>_. P x) (f x) (\<lambda>x _. Q x)" for x
    using assms(2) [of x] by (cases "P x") (simp_all add: stays_def still.vacuous_rule)
qed

lemma stays_attempt:
  assumes "stays env m (\<lambda>_. True)"
  shows "stays env (attempt m) (\<lambda>_. True)"
  unfolding stays_def by (rule triple_conseq [OF still.attempt_rule [OF assms [unfolded stays_def]]]) simp_all

lemma stays_run: "(\<And>w. auditDown env \<Longrightarrow> w_store (snd (m w)) = w_store w) \<Longrightarrow> stays env m (\<lambda>_. True)"
  unfolding stays_def by (rule tripleI) (metis sameStore_def snd_conv)

lemma stays_outside [inert]: "stays env (outside f) (\<lambda>_. True)"
  by (rule stays_run) (simp add: outside_def)

lemma stays_now [inert]: "stays env (now env) (\<lambda>_. True)"
  unfolding now_def by (rule stays_outside)

lemma stays_newUUID [inert]: "stays env (newUUID env) (\<lambda>_. True)"
  by (rule stays_run) (simp add: newUUID_def)

lemma stays_reads [inert]: "stays env (reads env g) (\<lambda>_. True)"
  by (rule stays_run) (simp add: reads_eq auditDown_def)

lemma stays_mapA [inert]:
  assumes "\<And>x. stays env (f x) (\<lambda>_. True)"
  shows "stays env (mapA f xs) (\<lambda>_. True)"
proof (induction xs)
  case Nil
  show ?case by (simp add: stays_ret)
next
  case (Cons x xs)
  show ?case unfolding mapA.simps by (rule stays_bind [OF assms] stays_bind [OF Cons.IH] stays_ret TrueI)+
qed

lemma stays_if: "(b \<Longrightarrow> stays env m Q) \<Longrightarrow> (\<not> b \<Longrightarrow> stays env m' Q) \<Longrightarrow> stays env (if b then m else m') Q"
  by simp

lemma stays_sum: "(\<And>e. r = Inl e \<Longrightarrow> stays env (f e) Q) \<Longrightarrow> (\<And>x. r = Inr x \<Longrightarrow> stays env (g x) Q)
    \<Longrightarrow> stays env (case r of Inl e \<Rightarrow> f e | Inr x \<Rightarrow> g x) Q"
  by (cases r) simp_all

lemma stays_option: "(r = None \<Longrightarrow> stays env m Q) \<Longrightarrow> (\<And>x. r = Some x \<Longrightarrow> stays env (g x) Q)
    \<Longrightarrow> stays env (case r of None \<Rightarrow> m | Some x \<Rightarrow> g x) Q"
  by (cases r) simp_all

lemma stays_prod: "(\<And>x y. p = (x, y) \<Longrightarrow> stays env (f x y) Q) \<Longrightarrow> stays env (case p of (x, y) \<Rightarrow> f x y) Q"
  by (cases p) simp_all

lemmas stays_rules = stays_if stays_sum stays_option stays_prod

text \<open>The strict write never succeeds.\<close>

lemma stays_event:
  assumes "auditDown env"
  shows "w_store (snd (event env j aty ai et pl w)) = w_store w \<and> fst (event env j aty ai et pl w) \<noteq> Ok x"
proof -
  obtain msg where "en_appendFails env (Suc (w_tick w)) = Some msg"
    using assms unfolding auditDown_def by blast
  then show ?thesis
    by (simp add: event_def andThen_def newUUID_def now_def outside_def failWith_def)
qed

lemma stays_eventStrict: "stays env (eventStrict env j aty ai et pl) (\<lambda>_. False)"
  unfolding stays_def
proof (rule tripleI)
  fix w r w'
  assume down: "auditDown env" and run: "eventStrict env j aty ai et pl w = (r, w')"
  obtain r1 w1 where ev: "event env j aty ai et pl w = (r1, w1)" by (cases "event env j aty ai et pl w")
  with stays_event [OF down, of j aty ai et pl w] have "w_store w1 = w_store w" "\<And>x. r1 \<noteq> Ok x" by auto
  with run ev show "auditDown env \<and> sameStore w w' \<and> (\<forall>x. r = Ok x \<longrightarrow> False)"
    by (cases r1) (auto simp: eventStrict_def attempt_def andThen_def failWith_def sameStore_def down)
qed

section \<open>The tools\<close>

lemma stays_buildClone [inert]: "stays env (buildClone env job source ty by' imm) (\<lambda>_. True)"
  unfolding buildClone_def cloneSegment_def by (rule stays_bind inert TrueI)+

lemma stays_reportGate [inert]: "stays env (reportGate env job) (\<lambda>_. True)"
  unfolding reportGate_def by (rule stays_bind [OF stays_attempt [OF stays_reads]] stays_rules inert TrueI)+

lemma stays_resolveUploadURI: "stays env (resolveUploadURI env uri) (\<lambda>_. True)"
  unfolding resolveUploadURI_def Let_def
  by (rule stays_bind [OF stays_attempt [OF stays_reads]] stays_rules inert TrueI)+

lemma stays_stagedSource [inert]: "stays env (stagedSource env ty uri) (\<lambda>_. True)"
  unfolding stagedSource_def
  by (rule stays_bind [OF stays_resolveUploadURI] stays_rules inert TrueI)+

lemma stays_liftTrue: "stays env (liftOutcome r) (\<lambda>_. True)"
  by (rule stays_lift) simp

lemmas strict_rules = stays_bind [OF stays_eventStrict] stays_bind [OF stays_reads] stays_bind [OF stays_liftTrue]
  stays_bind [OF stays_reportGate] stays_bind [OF stays_buildClone] stays_bind [OF stays_newUUID]
  stays_bind [OF stays_now] stays_bind [OF stays_stagedSource] stays_rules stays_fail

lemma stays_approve: "stays env (approveTranscript env job vid by' note') (\<lambda>_. False)"
  unfolding approveTranscript_def Let_def by (erule FalseE | rule strict_rules)+

lemma stays_reopen: "stays env (reopenTranscript env job by') (\<lambda>_. False)"
  unfolding reopenTranscript_def by (erule FalseE | rule strict_rules)+

lemma stays_export: "stays env (exportTranscript env job v formats by') (\<lambda>_. False)"
  unfolding exportTranscript_def Let_def by (erule FalseE | rule strict_rules)+

lemma stays_replace: "stays env (replaceJobMedia env job rinput) (\<lambda>_. False)"
  unfolding replaceJobMedia_def by (erule FalseE | rule strict_rules)+

lemma stays_cancel: "stays env (cancelJob env job by' role reason) (\<lambda>_. False)"
  unfolding cancelJob_def Let_def by (erule FalseE | rule strict_rules)+

lemma stays_captions: "stays env (resumeAfterCaptionDecision env job reuse by') (\<lambda>_. False)"
  unfolding resumeAfterCaptionDecision_def by (erule FalseE | rule strict_rules)+

definition failsClosed :: "'a action \<Rightarrow> World \<Rightarrow> bool" where
  "failsClosed m w \<longleftrightarrow> (\<forall>x. fst (m w) \<noteq> Ok x) \<and> w_store (snd (m w)) = w_store w"

lemma stays_failsClosed: "stays env m (\<lambda>_. False) \<Longrightarrow> auditDown env \<Longrightarrow> failsClosed m w"
  unfolding stays_def failsClosed_def by (cases "m w") (auto dest!: tripleD simp: sameStore_def)

text \<open>
  C12: approval, reopening, export, media replacement, cancellation and the caption decision fail
  closed: when the audit log cannot be written and nobody else is at work, none of them succeeds and
  the store is left exactly as it was.
\<close>

theorem high_risk_fails_closed:
  assumes "auditDown env"
  shows "failsClosed (approveTranscript env job vid by' note') w
    \<and> failsClosed (reopenTranscript env job by') w
    \<and> failsClosed (exportTranscript env job v formats by') w
    \<and> failsClosed (replaceJobMedia env job rinput) w
    \<and> failsClosed (cancelJob env job by' role reason) w
    \<and> failsClosed (resumeAfterCaptionDecision env job reuse by') w"
  by (intro conjI stays_failsClosed [OF _ assms] stays_approve stays_reopen stays_export stays_replace
      stays_cancel stays_captions)

end
