(* ===== verification/Job_History.thy ===== *)
theory Job_History
  imports Job_Review
begin

text \<open>
  What an approval leaves, how the history of a job grows, and a sample run of the review life
  cycle on which the theorems about reachable stores are applied.
\<close>

section \<open>A sample run\<close>

definition sampleJob :: "Status \<Rightarrow> Job" where
  "sampleJob st =
     \<lparr>j_JobID = 1, j_SourceType = ''upload'', j_SourceURI = ''mock://talk.mp3'', j_Status = st,
      j_SubmittedBy = ''ana'', j_OwnershipAttested = True, j_Language = ''en'', j_JobConfigID = None,
      j_DurationSeconds = 0, j_ActionRequired = [], j_LastError = None, j_CaptionsAvailable = False,
      j_CaptionTrackID = [], j_CaptionReuse = None, j_CancelReason = [], j_LibraryMode = False,
      j_SourceBasis = [], j_CreatedAt = 0, j_UpdatedAt = 0\<rparr>"

definition sampleStore :: "Status \<Rightarrow> Store" where
  "sampleStore st = createJob (sampleJob st) newStore"

definition sampleSegment :: Segment where
  "sampleSegment = \<lparr>sg_SegmentID = 3, sg_TranscriptVersionID = 2, sg_StartMS = 0, sg_EndMS = 1500,
     sg_SpeakerLabel = ''Speaker 1'', sg_Text = ''hello'', sg_Confidence = None, sg_Flags = Map.empty\<rparr>"

definition sampleApprove :: ApproveJobParams where
  "sampleApprove =
     \<lparr>apj_JobID = 1,
      apj_ApprovedVersion = \<lparr>tv_TranscriptVersionID = 2, tv_JobID = 1, tv_VersionType = VersionApproved,
        tv_SourceVersionID = None, tv_CreatedBy = ''rui'', tv_IsImmutable = True, tv_CreatedAt = 0\<rparr>,
      apj_Segments = [sampleSegment],
      apj_Approval = \<lparr>ap_ApprovalID = 4, ap_JobID = 1, ap_ApprovedTranscriptVersionID = 2,
        ap_ApprovedBy = ''rui'', ap_ApprovedAt = 0, ap_ApprovalNote = [], ap_SupersededByApprovalID = None\<rparr>\<rparr>"

definition approvedSample :: Store where
  "approvedSample = approvedStore 0 sampleApprove (sampleJob StatusInReview) (sampleStore StatusInReview)"

lemmas sample_store_defs = sampleStore_def sampleJob_def sampleApprove_def sampleSegment_def
  newStore_def createJob_def

lemma sample_move:
  assumes "reachable (sampleStore st)" and "canTransition st to"
    and "to \<noteq> StatusApproved" and "to = StatusInReview \<Longrightarrow> st = StatusDrafted"
  shows "reachable (sampleStore to)"
proof -
  have "transitionJob 1 st (\<lambda>j. transition 0 j to) (sampleStore st) = Ok (sampleJob to, sampleStore to)"
    using assms(2) by (simp add: transitionJob_Ok transition_Ok sample_store_defs)
  moreover have "lawfulApply st (\<lambda>j. transition 0 j to)"
    using assms(3,4) by (auto simp: lawfulApply_def transition_Ok)
  ultimately have "storeStep (sampleStore st) (sampleStore to)" by (rule sTransition)
  with assms(1) show ?thesis by (rule rtranclp.rtrancl_into_rtrancl)
qed

lemma sample_reachable:
  "reachable (sampleStore StatusSubmitted)" "reachable (sampleStore StatusQueued)"
  "reachable (sampleStore StatusDrafted)" "reachable (sampleStore StatusInReview)"
proof -
  have "storeStep newStore (sampleStore StatusSubmitted)"
    unfolding sampleStore_def by (rule sCreateJob) (simp_all add: newStore_def sampleJob_def)
  then show 1: "reachable (sampleStore StatusSubmitted)" by (rule r_into_rtranclp)
  then show 2: "reachable (sampleStore StatusQueued)" by (rule sample_move) (simp_all add: canTransition_def)
  from 2 have "reachable (sampleStore StatusValidating)" by (rule sample_move) (simp_all add: canTransition_def)
  then have "reachable (sampleStore StatusMetadataExtracted)" by (rule sample_move) (simp_all add: canTransition_def)
  then have "reachable (sampleStore StatusExtractingAudio)" by (rule sample_move) (simp_all add: canTransition_def)
  then have "reachable (sampleStore StatusTranscribing)" by (rule sample_move) (simp_all add: canTransition_def)
  then have "reachable (sampleStore StatusNormalizing)" by (rule sample_move) (simp_all add: canTransition_def)
  then have "reachable (sampleStore StatusQualityChecking)" by (rule sample_move) (simp_all add: canTransition_def)
  then show 3: "reachable (sampleStore StatusDrafted)" by (rule sample_move) (simp_all add: canTransition_def)
  then show "reachable (sampleStore StatusInReview)" by (rule sample_move) (simp_all add: canTransition_def)
qed

lemma sample_approve_ready: "approveReady sampleApprove (sampleStore StatusInReview)"
  by (simp add: approveReady_def freshVersion_def sample_store_defs)

lemma sample_approves:
  "approveJob 0 sampleApprove (sampleStore StatusInReview)
     = Ok (approvedJob 0 (sampleJob StatusInReview), [], approvedSample)"
  unfolding approveJob_eq [OF reachable_inv [OF sample_reachable(4)] sample_approve_ready]
  by (simp add: approvedSample_def) (simp add: sample_store_defs rows_def)

lemma approvedSample_reachable: "reachable approvedSample"
  using sample_reachable(4) sApprove [OF sample_approve_ready sample_approves]
  by (rule rtranclp.rtrancl_into_rtrancl)

lemma getJob_Ok: "getJob i s = Ok j \<longleftrightarrow> st_jobs s i = Some j"
  by (auto simp: getJob_def getRow_def split: option.splits)

lemma approvedSample_job: "getJob 1 approvedSample = Ok (approvedJob 0 (sampleJob StatusInReview))"
proof -
  have "apj_JobID sampleApprove = 1" by (simp add: sampleApprove_def)
  then show ?thesis by (simp add: getJob_Ok approvedSample_def approvedStore_def)
qed

lemma approvedSample_version:
  "getVersion 2 approvedSample = Ok (apj_ApprovedVersion sampleApprove)"
proof -
  have "tv_TranscriptVersionID (apj_ApprovedVersion sampleApprove) = 2" by (simp add: sampleApprove_def)
  then show ?thesis
    by (simp add: getVersion_def getRow_def approvedSample_def approvedStore_def insertVersionLocked_eq)
qed

theorem store_never_dangles_witness:
  "listJobs approvedSample \<noteq> Panic \<and> currentApproval 1 approvedSample \<noteq> Panic"
  using store_never_dangles [OF approvedSample_reachable] by blast

theorem one_current_approval_witness:
  "length (filter (current 1) (rows (st_approvals approvedSample) (st_apprOrder approvedSample))) \<le> 1"
  using one_current_approval [OF approvedSample_reachable] by blast

theorem approved_job_has_version_witness:
  "\<exists>a v. currentApproval 1 approvedSample = Ok (Some a)
     \<and> getVersion (ap_ApprovedTranscriptVersionID a) approvedSample = Ok v
     \<and> tv_VersionType v = VersionApproved \<and> tv_IsImmutable v \<and> tv_JobID v = 1"
  by (rule approved_job_has_version [OF approvedSample_reachable approvedSample_job])
    (simp add: approvedJob_def)

section \<open>What an approval leaves\<close>

lemma exportsAfter_superseded:
  assumes "e \<in> ran (exportsAfter i m)" and "ex_JobID e = i"
  shows "ex_Superseded e"
proof -
  from assms(1) obtain k where "exportsAfter i m k = Some e" by (auto simp: ran_def)
  then obtain r where r: "m k = Some r"
    and e: "e = (if k \<in> dom m \<and> ex_JobID r = i \<and> \<not> ex_Superseded r
      then r\<lparr>ex_Superseded := True\<rparr> else r)"
    unfolding exportsAfter_def updMap_Some by (elim exE conjE)
  from r have "k \<in> dom m" by (rule domI)
  with assms(2) e show ?thesis by (cases "ex_JobID r = i \<and> \<not> ex_Superseded r") simp_all
qed

text \<open>
  C16: Approval is atomic and exclusive.  An accepted \<open>ApproveJob\<close> makes the new approval the job's
  current one, reports exactly the approval that was current before (there is at most one), flags
  every export of the job as superseded and leaves the job approved; every further \<open>ApproveJob\<close> for
  the job, whatever it carries, then loses with a status conflict.
\<close>

theorem approval_exclusive:
  assumes "reachable s" and "approveReady p s" and "approveJob now p s = Ok (j, ids, s')"
  shows "currentApproval (apj_JobID p) s' = Ok (Some (apj_Approval p))
    \<and> ids = map ap_ApprovalID (filter (current (apj_JobID p)) (rows (st_approvals s) (st_apprOrder s)))
    \<and> length ids \<le> 1
    \<and> (\<forall>e \<in> ran (st_exports s'). ex_JobID e = apj_JobID p \<longrightarrow> ex_Superseded e)
    \<and> getJob (apj_JobID p) s' = Ok j \<and> j_Status j = StatusApproved
    \<and> (\<forall>now' p'. apj_JobID p' = apj_JobID p \<longrightarrow> approveJob now' p' s' = Err ErrStatusConflict)"
proof -
  let ?rs = "rows (st_approvals s) (st_apprOrder s)"
  have inv: "storeInv s" using assms(1) by (rule reachable_inv)
  obtain cur where j: "j = approvedJob now cur" and s': "s' = approvedStore now p cur s"
    and ids: "ids = map ap_ApprovalID (filter (staleApproval p) ?rs)"
    using assms(3) by (auto simp: approveJob_Ok [OF inv assms(2)])
  have fresh: "st_approvals s (ap_ApprovalID (apj_Approval p)) = None"
    and a: "current (apj_JobID p) (apj_Approval p)"
    using assms(2) by (auto simp: approveReady_def Let_def current_def)
  have "staleApproval p a \<longleftrightarrow> current (apj_JobID p) a" if "a \<in> set ?rs" for a
    using that fresh storeInv_tables(5) [OF inv] set_rows [OF storeInv_tables(5) [OF inv]]
    by (auto simp: staleApproval_def current_def table_def ran_def)
  then have ids': "ids = map ap_ApprovalID (filter (current (apj_JobID p)) ?rs)"
    using ids filter_cong [OF refl, of ?rs "staleApproval p" "current (apj_JobID p)"] by simp
  have "approvalsAfter p (st_approvals s) (ap_ApprovalID (apj_Approval p)) = Some (apj_Approval p)"
    using approvalsAfter_Some [of "st_approvals s" p, OF fresh] by blast
  then have "apj_Approval p \<in> ran (st_approvals s')" by (auto simp: s' approvedStore_def intro: ranI)
  moreover have "reviewInv s'"
    using step_reviewInv [OF sApprove [OF assms(2,3)] reachable_reviewInv [OF assms(1)]] .
  ultimately have "currentApproval (apj_JobID p) s' = Ok (Some (apj_Approval p))"
    using a by (simp add: currentApproval_iff)
  moreover have "length ids \<le> 1"
    unfolding ids' using one_current_approval [OF assms(1), of "apj_JobID p"] by simp
  moreover have job: "st_jobs s' (apj_JobID p) = Some j" by (simp add: s' approvedStore_def j)
  moreover have "\<forall>e \<in> ran (st_exports s'). ex_JobID e = apj_JobID p \<longrightarrow> ex_Superseded e"
    by (auto simp: s' approvedStore_def dest: exportsAfter_superseded)
  moreover have "j_Status j = StatusApproved" by (simp add: j approvedJob_def)
  moreover have "approveJob now' p' s' = Err ErrStatusConflict" if "apj_JobID p' = apj_JobID p" for now' p'
    using that job \<open>j_Status j = StatusApproved\<close> by (simp add: approveJob_def)
  ultimately show ?thesis using ids' by (simp add: getJob_def getRow_def)
qed

theorem approval_exclusive_witness:
  "currentApproval 1 approvedSample = Ok (Some (apj_Approval sampleApprove))
   \<and> approveJob 7 sampleApprove approvedSample = Err ErrStatusConflict"
  using approval_exclusive [OF sample_reachable(4) sample_approve_ready sample_approves]
  by (simp add: sampleApprove_def)

section \<open>History\<close>

lemma legalRun_extend: "legalRun xs \<Longrightarrow> xs \<noteq> [] \<Longrightarrow> canTransition (last xs) t \<Longrightarrow> legalRun (xs @ [t])"
  by (induction xs rule: legalRun.induct) auto

lemma step_job:
  assumes step: "storeStep s s'" and inv: "storeInv s" and j: "st_jobs s i = Some j"
  shows "\<exists>j'. st_jobs s' i = Some j' \<and> (j_Status j' = j_Status j \<or> canTransition (j_Status j) (j_Status j'))"
  using step
proof (cases rule: storeStep.cases)
  case sQuiet
  with quiet_frame j show ?thesis by fastforce
next
  case (sCreateJob x)
  with j show ?thesis by (auto simp: createJob_def)
next
  case (sTransition k st0 f x)
  then obtain cur where cur: "st_jobs s k = Some cur" "j_Status cur = st0" "f cur = Ok x"
    and s': "s' = s\<lparr>st_jobs := (st_jobs s)(k \<mapsto> x)\<rparr>"
    by (auto simp: transitionJob_Ok)
  with lawfulApplyD [OF sTransition(2) cur(2,3)] j show ?thesis by (cases "k = i") auto
next
  case sVersion
  with j show ?thesis by (simp add: createVersion_insert insertVersionLocked_eq)
next
  case sEdit
  with j show ?thesis by (auto simp: updateSegment_Ok)
next
  case (sApprove p now x ids)
  with inv obtain cur where "st_jobs s (apj_JobID p) = Some cur" "j_Status cur = StatusInReview"
    "s' = approvedStore now p cur s" by (auto simp: approveJob_Ok)
  with j show ?thesis
    by (cases "i = apj_JobID p") (auto simp: approvedStore_def approvedJob_def canTransition_def)
next
  case (sReopen p now x)
  with j show ?thesis
    by (cases "i = rpj_JobID p") (auto simp: reopenJob_Ok canTransition_def)
qed

lemma step_audits:
  assumes "storeStep s s'" and "storeInv s"
  shows "prefix (st_audits s) (st_audits s')"
  using assms(1)
proof (cases rule: storeStep.cases)
  case sQuiet
  with quiet_frame show ?thesis by blast
next
  case sApprove
  with assms(2) show ?thesis by (auto simp: approveJob_Ok approvedStore_def insertVersionLocked_eq)
qed (auto simp: createJob_def transitionJob_Ok createVersion_insert insertVersionLocked_eq
      updateSegment_Ok reopenJob_Ok)

text \<open>
  C39: History only grows.  From any reachable store, whatever the clients then do, the audit trail is
  only extended, no job disappears, and the status of every job has moved along a run of legal
  transitions.
\<close>

theorem history_only_grows:
  assumes "reachable s" and "storeSteps s s'"
  shows "prefix (st_audits s) (st_audits s')
    \<and> (\<forall>i j. getJob i s = Ok j \<longrightarrow> (\<exists>j' run. getJob i s' = Ok j'
          \<and> legalRun (j_Status j # run) \<and> last (j_Status j # run) = j_Status j'))"
proof -
  have "storeInv s' \<and> prefix (st_audits s) (st_audits s')
    \<and> (\<forall>i j. st_jobs s i = Some j \<longrightarrow> (\<exists>j' run. st_jobs s' i = Some j'
          \<and> legalRun (j_Status j # run) \<and> last (j_Status j # run) = j_Status j'))"
    using assms(2)
  proof (induction rule: rtranclp_induct)
    case base
    show ?case using reachable_inv [OF assms(1)] by (auto intro!: exI [of _ "[]"])
  next
    case (step y z)
    then have inv: "storeInv y" and "storeInv z" by (auto intro: step_inv)
    moreover have "prefix (st_audits s) (st_audits z)"
      using step step_audits inv by (meson prefix_order.trans)
    moreover have "\<exists>j' run. st_jobs z i = Some j' \<and> legalRun (j_Status j # run)
        \<and> last (j_Status j # run) = j_Status j'" if "st_jobs s i = Some j" for i j
    proof -
      from that step.IH obtain j1 run where j1: "st_jobs y i = Some j1" "legalRun (j_Status j # run)"
        "last (j_Status j # run) = j_Status j1" by blast
      from step_job [OF step.hyps(2) inv j1(1)] obtain j' where j': "st_jobs z i = Some j'"
        and "j_Status j' = j_Status j1 \<or> canTransition (j_Status j1) (j_Status j')" by blast
      then consider "j_Status j' = j_Status j1" | "canTransition (last (j_Status j # run)) (j_Status j')"
        using j1(3) by auto
      then show ?thesis
      proof cases
        case 1
        with j' j1 show ?thesis by metis
      next
        case 2
        with j1(2) have "legalRun ((j_Status j # run) @ [j_Status j'])" by (intro legalRun_extend) auto
        with j' show ?thesis by (intro exI [of _ j'] exI [of _ "run @ [j_Status j']"]) simp
      qed
    qed
    ultimately show ?case by blast
  qed
  then show ?thesis unfolding getJob_Ok by blast
qed

theorem history_only_grows_witness:
  "\<exists>j' run. getJob 1 approvedSample = Ok j' \<and> legalRun (StatusInReview # run)
     \<and> last (StatusInReview # run) = j_Status j'"
proof -
  have "storeSteps (sampleStore StatusInReview) approvedSample"
    using sApprove [OF sample_approve_ready sample_approves] by (rule r_into_rtranclp)
  note grows = history_only_grows [OF sample_reachable(4) this]
  have job: "getJob 1 (sampleStore StatusInReview) = Ok (sampleJob StatusInReview)"
    by (simp add: getJob_def getRow_def sample_store_defs)
  have "j_Status (sampleJob StatusInReview) = StatusInReview" by (simp add: sampleJob_def)
  with grows [THEN conjunct2, rule_format, OF job] show ?thesis by simp
qed

definition sampleEvent :: AuditEvent where
  "sampleEvent = \<lparr>ae_AuditEventID = 5, ae_JobID = Some 1, ae_ActorType = ''user'', ae_ActorID = ''rui'',
     ae_EventType = ''transcript.approved'', ae_EventPayload = Map.empty, ae_CreatedAt = 0\<rparr>"

theorem approved_transcript_frozen_witness:
  "getVersion 2 (appendAudit sampleEvent approvedSample) = Ok (apj_ApprovedVersion sampleApprove)
   \<and> listSegments 2 (appendAudit sampleEvent approvedSample) = listSegments 2 approvedSample"
proof (rule approved_transcript_frozen [OF approvedSample_reachable])
  show "storeSteps approvedSample (appendAudit sampleEvent approvedSample)"
    by (rule r_into_rtranclp) (rule sQuiet, rule qAudit)
  show "getVersion 2 approvedSample = Ok (apj_ApprovedVersion sampleApprove)"
    by (rule approvedSample_version)
  show "tv_IsImmutable (apj_ApprovedVersion sampleApprove)" by (simp add: sampleApprove_def)
qed

end
