(* ===== verification/Job_Captioned.thy ===== *)
theory Job_Captioned
  imports Job_Captions
begin

text \<open>
  What the caption reader accepts: it never panics, every cue of an accepted file ends after it
  starts, and its clock is laxer than the exporter's.
\<close>

lemma dropWhile_keeps: "\<not> P c \<Longrightarrow> \<exists>a'. dropWhile P (a @ c # r) = a' @ c # r"
  by (induction a) auto

lemma trimSpace_contains:
  assumes "strContains s (c # m @ [d])" and "\<not> isSpaceByte c" and "\<not> isSpaceByte d"
  shows "strContains (trimSpace s) (c # m @ [d])"
proof -
  obtain a b where s: "s = a @ c # m @ [d] @ b" using assms(1) by (auto simp: strContains_iff)
  obtain a' where a': "dropWhile isSpaceByte s = a' @ c # m @ [d] @ b"
    unfolding s using dropWhile_keeps [of isSpaceByte c, OF assms(2)] by blast
  have "rev (a' @ c # m @ [d] @ b) = rev b @ d # rev (a' @ c # m)" by simp
  moreover obtain b' where "dropWhile isSpaceByte (rev b @ d # rev (a' @ c # m)) = b' @ d # rev (a' @ c # m)"
    using dropWhile_keeps [of isSpaceByte d, OF assms(3)] by blast
  ultimately have "trimSpace s = a' @ (c # m @ [d]) @ rev b'" by (simp add: trimSpace_def a')
  then show ?thesis by (auto simp: strContains_iff)
qed

lemma arrow_trim: "strContains s ''-->'' \<Longrightarrow> strContains (trimSpace s) ''-->''"
  using trimSpace_contains [of s "CHR ''-''" "''-''" "CHR ''>''"] by (simp add: isSpaceByte_def byte_def)

lemma cutStr_arrow: "strContains s ''-->'' \<Longrightarrow> cutStr ''-->'' s \<noteq> None"
  by (induction s) auto

section \<open>The clock\<close>

lemma vttFields_total: "vttFields v ps \<noteq> Panic"
  by (induction ps) (simp_all add: badVTT_def split: option.split)

lemma parseVTTTimestamp_total: "parseVTTTimestamp v \<noteq> Panic"
  unfolding parseVTTTimestamp_def badVTT_def Let_def
  using vttFields_total by (auto split: option.splits prod.splits outcome.splits if_splits)

lemma captionTiming_total: "strContains line ''-->'' \<Longrightarrow> captionTiming line \<noteq> Panic"
  unfolding captionTiming_def using cutStr_arrow [of line] parseVTTTimestamp_total
  by (auto split: option.splits prod.splits outcome.splits if_splits)

lemma captionTiming_Ok: "captionTiming line = Ok (a, b) \<Longrightarrow> a < b"
  by (auto simp: captionTiming_def split: option.splits prod.splits outcome.splits if_splits)

section \<open>The loop\<close>

lemma captionLoop_total:
  "captionLoop ls \<noteq> Panic" "strContains line ''-->'' \<Longrightarrow> captionCue line ls \<noteq> Panic"
proof (induction ls and line ls rule: captionLoop_captionCue.induct)
  case (2 l ls)
  then show ?case using arrow_trim by (auto simp: Let_def split: list.splits)
next
  case (3 line ls)
  then show ?case using captionTiming_total [of line] by (auto split: outcome.splits)
qed simp

lemma captionLoop_cues:
  "captionLoop ls = Ok cues \<Longrightarrow> c \<in> set cues \<Longrightarrow> cue_StartMS c < cue_EndMS c"
  "captionCue line ls = Ok cues \<Longrightarrow> c \<in> set cues \<Longrightarrow> cue_StartMS c < cue_EndMS c"
proof (induction ls and line ls arbitrary: cues and cues rule: captionLoop_captionCue.induct)
  case (2 l ls)
  then show ?case by (auto simp: Let_def split: if_splits list.splits)
next
  case (3 line ls)
  then obtain a b cs where t: "captionTiming line = Ok (a, b)" and loop: "captionLoop (dropWhile nonBlank ls) = Ok cs"
    and "c \<in> set cs \<or> cue_StartMS c = a \<and> cue_EndMS c = b"
    by (auto simp: mapOk_Ok_iff split: outcome.splits prod.splits)
  then show ?case using 3(1) [OF t refl loop] captionTiming_Ok [OF t] by auto
qed simp

section \<open>Its errors\<close>

lemma codeOf_E [simp]: "codeOf (E c m) = c"
  by (simp add: codeOf_def)

lemma vttFields_Err: "vttFields v ps = Err e \<Longrightarrow> codeOf e = ''TIMESTAMP_INVALID''"
  by (induction ps) (auto simp: badVTT_def mapOk_def split: option.splits outcome.splits if_splits)

lemma parseVTTTimestamp_Err: "parseVTTTimestamp v = Err e \<Longrightarrow> codeOf e = ''TIMESTAMP_INVALID''"
  unfolding parseVTTTimestamp_def Let_def
  by (auto simp: badVTT_def dest: vttFields_Err split: option.splits prod.splits outcome.splits if_splits)

lemma captionTiming_Err: "captionTiming line = Err e \<Longrightarrow> codeOf e = ''TIMESTAMP_INVALID''"
  unfolding captionTiming_def
  by (auto dest: parseVTTTimestamp_Err split: option.splits prod.splits outcome.splits list.splits if_splits)

lemma captionLoop_Err:
  "captionLoop ls = Err e \<Longrightarrow> codeOf e \<in> {''CAPTION_PARSE_FAILED'', ''TIMESTAMP_INVALID''}"
  "captionCue line ls = Err e \<Longrightarrow> codeOf e \<in> {''CAPTION_PARSE_FAILED'', ''TIMESTAMP_INVALID''}"
proof (induction ls and line ls rule: captionLoop_captionCue.induct)
  case (2 l ls)
  then show ?case by (auto simp: Let_def split: if_splits list.splits)
next
  case (3 line ls)
  then show ?case by (auto simp: mapOk_def dest: captionTiming_Err split: outcome.splits prod.splits)
qed simp

text \<open>
  C38: the caption reader is total, whatever the file: it never panics, every cue it accepts ends after
  it starts, and it refuses a file with one of three codes.  Its clock takes a signed fraction, so a cue
  may start before zero, and it takes hours without a bound, so that the 64-bit product wraps around.
\<close>

theorem caption_reader_total:
  "(case captionsParseVTT content of
      Panic \<Rightarrow> False
    | Err e \<Rightarrow> codeOf e \<in> {''CAPTION_PARSE_FAILED'', ''TIMESTAMP_INVALID'', ''CAPTION_EMPTY_OR_TRUNCATED''}
    | Ok cues \<Rightarrow> cues \<noteq> [] \<and> list_all (\<lambda>c. cue_StartMS c < cue_EndMS c) cues)
   \<and> parseVTTTimestamp ''00:00.-12'' = Ok (- 12)
   \<and> parseVTTTimestamp ''2562047788016:00:00.000'' = Ok (- 9223372036851951616)"
proof (intro conjI)
  show "parseVTTTimestamp ''00:00.-12'' = Ok (- 12)"
    by (simp add: parseVTTTimestamp_def splitStr.simps atoi_def parseDigits_def isDigit_def digitsVal_def
        digitVal_def byte_def Let_def)
  show "parseVTTTimestamp ''2562047788016:00:00.000'' = Ok (- 9223372036851951616)"
    by (simp add: parseVTTTimestamp_def splitStr.simps atoi_def parseDigits_def isDigit_def digitsVal_def
        digitVal_def byte_def Let_def wrapInt_def)
  let ?loop = "captionLoop (tl (splitStr newline (replaceCRLF content)))"
  have "?loop \<noteq> Panic" "\<And>e. ?loop = Err e \<Longrightarrow> codeOf e \<in> {''CAPTION_PARSE_FAILED'', ''TIMESTAMP_INVALID''}"
    "\<And>cues. ?loop = Ok cues \<Longrightarrow> list_all (\<lambda>c. cue_StartMS c < cue_EndMS c) cues"
    using captionLoop_total(1) captionLoop_Err(1) captionLoop_cues(1) by (auto simp: list_all_iff)
  then show "case captionsParseVTT content of Panic \<Rightarrow> False
    | Err e \<Rightarrow> codeOf e \<in> {''CAPTION_PARSE_FAILED'', ''TIMESTAMP_INVALID'', ''CAPTION_EMPTY_OR_TRUNCATED''}
    | Ok cues \<Rightarrow> cues \<noteq> [] \<and> list_all (\<lambda>c. cue_StartMS c < cue_EndMS c) cues"
    by (auto simp: captionsParseVTT_def Let_def split: outcome.splits list.splits if_splits)
qed

end
