(* ===== verification/Job_Promises.thy ===== *)
theory Job_Promises
  imports Job_Strict Job_History Job_Captioned
begin

text \<open>
  What the orchestrator and the service as a whole promise, and a sample environment in which the
  theorems about runs are applied.  Before that, which panics a run of the pipeline can end in: an action
  is sound when it panics only once the ids are used up, or on a store that breaks the invariant, which no
  reachable store does.  One rule per construct; the tools and the steps of the drive follow by the rules.
\<close>

section \<open>Sound actions\<close>

text \<open>\<open>uuid.New\<close> has nothing left to draw.\<close>

definition exhausted :: "Env \<Rightarrow> World \<Rightarrow> bool" where
  "exhausted env w \<longleftrightarrow> length (en_uuids env) \<le> w_drawn w"

definition sound :: "Env \<Rightarrow> 'a action \<Rightarrow> bool" where
  "sound env m \<longleftrightarrow> (\<forall>w w'. m w = (Panic, w') \<longrightarrow> exhausted env w' \<or> \<not> storeInv (w_store w'))"

named_theorems sound \<open>the actions that panic only without ids\<close>

lemma sound_ret [sound]: "sound env (ret x)"
  by (simp add: sound_def ret_def)

lemma sound_fail [sound]: "sound env (failWith e)"
  by (simp add: sound_def failWith_def)

lemma sound_andThen [sound]: "sound env m \<Longrightarrow> (\<And>x. sound env (f x)) \<Longrightarrow> sound env (andThen m f)"
  by (auto simp: sound_def andThen_def split: prod.splits outcome.splits)

lemma sound_attempt [sound]: "sound env m \<Longrightarrow> sound env (attempt m)"
  by (auto simp: sound_def attempt_def split: prod.splits outcome.splits)

lemma sound_outside [sound]: "(\<And>n. f n \<noteq> Panic) \<Longrightarrow> sound env (outside f)"
  by (simp add: sound_def outside_def)

lemma sound_now [sound]: "sound env (now env)"
  unfolding now_def by (rule sound_outside) simp

lemma sound_newUUID [sound]: "sound env (newUUID env)"
  by (simp add: sound_def newUUID_def exhausted_def)

lemma sound_locked: "(\<And>s. storeInv s \<Longrightarrow> f s \<noteq> Panic) \<Longrightarrow> sound env (locked env f)"
  unfolding sound_def locked_def Let_def by (auto split: outcome.splits)

lemma sound_inserts [sound]: "sound env (inserts env f)"
  unfolding inserts_def by (rule sound_locked) simp

lemma sound_reads [sound]: "(\<And>s. storeInv s \<Longrightarrow> g s \<noteq> Panic) \<Longrightarrow> sound env (reads env g)"
  unfolding reads_def by (rule sound_locked) simp

lemma sound_writes [sound]: "(\<And>s. storeInv s \<Longrightarrow> f s \<noteq> Panic) \<Longrightarrow> sound env (writes env f)"
  unfolding writes_def by (rule sound_locked) simp

lemma sound_transitionA [sound]: "(\<And>t j. f t j \<noteq> Panic) \<Longrightarrow> sound env (transitionA env i st f)"
  unfolding transitionA_def
  by (rule sound_andThen [OF sound_now], rule sound_locked) (simp add: transitionJob_def split: option.splits)

lemma sound_event [sound]: "sound env (event env j aty ai et pl)"
  unfolding event_def
  by (rule sound_andThen sound_newUUID sound_now sound_outside | simp add: sound split: option.splits)+

lemma sound_audit [sound]: "sound env (audit env j aty ai et pl)"
  unfolding audit_def by (rule sound)+

lemma sound_toolFailed [sound]: "sound env (toolFailed env j tool pl e)"
  unfolding toolFailed_def by (rule sound)+

lemma sound_mapA [sound]: "(\<And>x. sound env (f x)) \<Longrightarrow> sound env (mapA f xs)"
  by (induction xs) (simp_all add: sound_ret sound_andThen)

lemma sound_if: "(b \<Longrightarrow> sound env m) \<Longrightarrow> (\<not> b \<Longrightarrow> sound env m') \<Longrightarrow> sound env (if b then m else m')"
  by simp

lemma sound_sum: "(\<And>e. r = Inl e \<Longrightarrow> sound env (f e)) \<Longrightarrow> (\<And>x. r = Inr x \<Longrightarrow> sound env (g x))
    \<Longrightarrow> sound env (case r of Inl e \<Rightarrow> f e | Inr x \<Rightarrow> g x)"
  by (cases r) simp_all

lemma sound_option: "(r = None \<Longrightarrow> sound env m) \<Longrightarrow> (\<And>x. r = Some x \<Longrightarrow> sound env (g x))
    \<Longrightarrow> sound env (case r of None \<Rightarrow> m | Some x \<Rightarrow> g x)"
  by (cases r) simp_all

lemma sound_prod: "(\<And>x y. p = (x, y) \<Longrightarrow> sound env (f x y)) \<Longrightarrow> sound env (case p of (x, y) \<Rightarrow> f x y)"
  by (cases p) simp_all

lemmas sound_branches = sound_if sound_sum sound_option sound_prod

section \<open>The store's methods\<close>

lemma gets_total:
  "getRow c what m i \<noteq> Panic" "getJob i s \<noteq> Panic" "getArtifact i s \<noteq> Panic" "getEpisode i s \<noteq> Panic"
  "getJobConfig i s \<noteq> Panic" "updateEpisode ep s \<noteq> Panic"
  by (simp_all add: getJob_def getArtifact_def getEpisode_def getJobConfig_def getRow_def updateEpisode_def
      split: option.split)

lemma scans_total:
  assumes "storeInv s"
  shows "listSegments i s \<noteq> Panic" "listArtifactsByJob i ty s \<noteq> Panic" "latestVersion i vt s \<noteq> Panic"
    "latestSummaryByJob i s \<noteq> Panic"
proof -
  note tabs = storeInv_tables [OF assms, THEN scanRows_table]
  show "listSegments i s \<noteq> Panic" "listArtifactsByJob i ty s \<noteq> Panic" "latestVersion i vt s \<noteq> Panic"
      "latestSummaryByJob i s \<noteq> Panic"
    by (simp_all add: listSegments_def segments_scan [OF assms] listArtifactsByJob_def latestVersion_def
        latestSummaryByJob_def orNone_def tabs split: option.split)
qed

lemmas store_total = gets_total scans_total

section \<open>The tools\<close>

text \<open>No collaborator panics.\<close>

definition solidEnv :: "Env \<Rightarrow> bool" where
  "solidEnv env \<longleftrightarrow>
     (\<forall>n a b. en_put env n a b \<noteq> Panic) \<and> (\<forall>n a. en_get env n a \<noteq> Panic)
     \<and> (\<forall>n a. en_delete env n a \<noteq> Panic) \<and> (\<forall>n a b. en_Metadata env n a b \<noteq> Panic)
     \<and> (\<forall>n a b. en_ExtractAudio env n a b \<noteq> Panic) \<and> (\<forall>n a b. en_Check env n a b \<noteq> Panic)
     \<and> (\<forall>n a. en_Fetch env n a \<noteq> Panic) \<and> (\<forall>n a b c d. en_Transcribe env n a b c d \<noteq> Panic)
     \<and> (\<forall>n a b. en_Cleanup env n a b \<noteq> Panic) \<and> (\<forall>n a b c. en_Summarize env n a b c \<noteq> Panic)
     \<and> (\<forall>n a. en_download env n a \<noteq> Panic) \<and> (\<forall>n a b. en_stream env n a b \<noteq> Panic)"

lemma solid_outside:
  assumes "solidEnv env"
  shows "sound env (outside (\<lambda>n. en_put env n a b))" "sound env (outside (\<lambda>n. en_get env n a))"
    "sound env (outside (\<lambda>n. en_delete env n a))" "sound env (outside (\<lambda>n. en_Metadata env n a b))"
    "sound env (outside (\<lambda>n. en_ExtractAudio env n a b))" "sound env (outside (\<lambda>n. en_Check env n a b))"
    "sound env (outside (\<lambda>n. en_Fetch env n a))" "sound env (outside (\<lambda>n. en_Transcribe env n a b d' e'))"
    "sound env (outside (\<lambda>n. en_Cleanup env n xs b))" "sound env (outside (\<lambda>n. en_Summarize env n a k b))"
    "sound env (outside (\<lambda>n. en_download env n a))" "sound env (outside (\<lambda>n. en_stream env n a k))"
  by (rule sound_outside, insert assms, simp add: solidEnv_def)+

lemma sound_Ok: "sound env (outside (\<lambda>n. Ok (f n)))"
  by (rule sound_outside) simp

lemmas sound_rules = sound_branches solid_outside sound_Ok

lemma sound_clone_rules [sound]:
  "sound env (cueSegment env v c)" "sound env (sttSegment env cfg d v x)" "sound env (cleanSegment env v risk p)"
  unfolding cueSegment_def sttSegment_def cleanSegment_def by (rule sound_branches sound)+

lemma sound_resolveUploadURI [sound]: "sound env (resolveUploadURI env uri)"
  unfolding resolveUploadURI_def Let_def by (rule sound_branches sound store_total)+

lemma sound_episodeFromLibraryURI [sound]: "sound env (episodeFromLibraryURI env uri)"
  unfolding episodeFromLibraryURI_def by (rule sound_branches sound store_total)+

lemma sound_mediaSourceURI [sound]: "sound env (mediaSourceURI env job)"
  unfolding mediaSourceURI_def by (rule sound_branches sound store_total)+

lemma sound_configOf [sound]: "sound env (configOf env job)"
  unfolding configOf_def by (rule sound_branches sound store_total)+

lemma sound_recordArtifact [sound]: "sound env (recordArtifact env job ty uri mime n)"
  unfolding recordArtifact_def by (rule sound)+

lemma sound_createConfigSnapshot [sound]: "sound env (createConfigSnapshot env job by')"
  unfolding createConfigSnapshot_def Let_def by (rule sound_branches sound | simp; fail)+

lemma sound_latestAudio [sound]: "sound env (latestAudioArtifactURI env i)"
  unfolding latestAudioArtifactURI_def by (rule sound_branches sound store_total | assumption)+

lemma sound_getMediaMetadata: "solidEnv env \<Longrightarrow> sound env (getMediaMetadata env job)"
  unfolding getMediaMetadata_def by (rule sound_rules sound | assumption | simp; fail)+

lemma sound_checkYouTubeCaptions: "solidEnv env \<Longrightarrow> sound env (checkYouTubeCaptions env job)"
  unfolding checkYouTubeCaptions_def Let_def by (rule sound_rules sound | assumption | simp; fail)+

lemma sound_fetchExistingCaptions: "solidEnv env \<Longrightarrow> sound env (fetchExistingCaptions env job track)"
  unfolding fetchExistingCaptions_def by (rule sound_rules sound | assumption)+

text \<open>The caption parser is total.\<close>

lemma captions_total: "captionsParseVTT content \<noteq> Panic"
  using captionLoop_total(1) by (auto simp: captionsParseVTT_def Let_def split: outcome.splits list.splits)

lemma sound_parseCaptions: "solidEnv env \<Longrightarrow> sound env (parseCaptionsToTranscript env job uri cfg)"
proof -
  have outc: "(\<And>e. sound env (g e)) \<Longrightarrow> (\<And>x. sound env (f x)) \<Longrightarrow>
      sound env (case captionsParseVTT content of Ok x \<Rightarrow> f x | Err e \<Rightarrow> g e | Panic \<Rightarrow> h)"
    for content f and g :: "err \<Rightarrow> 'b action" and h
    using captions_total [of content] by (cases "captionsParseVTT content") simp_all
  show "solidEnv env \<Longrightarrow> ?thesis"
    unfolding parseCaptionsToTranscript_def Let_def by (rule outc sound_rules sound | assumption)+
qed

lemma sound_downloadEnclosure: "solidEnv env \<Longrightarrow> sound env (downloadEnclosure env ep)"
  unfolding downloadEnclosure_def Let_def by (rule sound_rules sound | assumption)+

lemma sound_ensureLibraryMedia: "solidEnv env \<Longrightarrow> sound env (ensureLibraryMedia env job)"
  unfolding ensureLibraryMedia_def
  by (rule sound_downloadEnclosure sound_branches sound store_total | assumption)+

lemma sound_extractAudio: "solidEnv env \<Longrightarrow> sound env (extractAudio env job)"
  unfolding extractAudio_def Let_def by (rule sound_rules sound | assumption)+

lemma sound_transcribeAudio: "solidEnv env \<Longrightarrow> sound env (transcribeAudio env job uri cfg)"
  unfolding transcribeAudio_def Let_def by (rule sound_rules sound | assumption)+

lemma sound_normalizeTranscript: "solidEnv env \<Longrightarrow> sound env (normalizeTranscript env job source cfg)"
  unfolding normalizeTranscript_def Let_def by (rule sound_rules sound store_total | assumption)+

lemma sound_qualityCheck [sound]: "sound env (qualityCheckTranscript env job version cfg)"
  unfolding qualityCheckTranscript_def Let_def by (rule sound_branches sound store_total | assumption)+

lemma sound_generateSummary: "solidEnv env \<Longrightarrow> sound env (generateSummary env job source cfg by')"
  unfolding generateSummary_def Let_def by (rule sound_rules sound store_total | assumption)+

section \<open>The steps and the loop\<close>

lemma sound_shutdown [sound]: "sound env (shutdownInterrupted env e)"
  unfolding shutdownInterrupted_def by (rule sound_Ok)

lemma sound_setStatus [sound]: "sound env (setStatus env job to)"
  unfolding setStatus_def by (rule sound_branches sound transition_not_Panic)+

lemma sound_retryOn [sound]: "sound env m \<Longrightarrow> sound env (retryOn env codes m)"
  unfolding retryOn_def retryBackoff_def by (rule sound_branches sound_Ok sound | assumption)+

lemma sound_clearError [sound]: "sound env (clearError env job)"
  unfolding clearError_def by (rule sound_branches sound | simp; fail)+

lemma sound_failStep [sound]: "sound env (failStep env job e)"
  unfolding failStep_def toFailed_def by (rule sound_branches sound)+

lemma sound_parkStep [sound]: "sound env (parkStep env job act' e)"
  unfolding parkStep_def toNeedsUserAction_def by (rule sound_branches sound)+

lemma sound_pauseQueue [sound]: "sound env (pauseQueue env)"
  unfolding pauseQueue_def by (rule sound_andThen [OF sound_now]) (simp add: sound_def)

lemma sound_cleanOrRaw [sound]: "sound env (cleanOrRaw env i)"
  unfolding cleanOrRaw_def by (rule sound_branches sound store_total | assumption)+

lemma sound_finishLibraryDraft: "solidEnv env \<Longrightarrow> sound env (finishLibraryDraft env job)"
  unfolding finishLibraryDraft_def
  by (rule sound_generateSummary sound_branches sound store_total | assumption)+

lemmas sound_tools = sound_ensureLibraryMedia sound_getMediaMetadata sound_checkYouTubeCaptions
  sound_fetchExistingCaptions sound_parseCaptions sound_extractAudio sound_transcribeAudio
  sound_normalizeTranscript sound_finishLibraryDraft

lemma sound_driveStep: "solidEnv env \<Longrightarrow> sound env (driveStep env job)"
  unfolding driveStep_def step_defs
  by (cases "j_Status job"; simp only: Status.case;
      (rule sound_tools sound_branches sound store_total | assumption)+)

lemma sound_driveLoop: "solidEnv env \<Longrightarrow> sound env (driveLoop env n i)"
  by (induction n) (simp_all, (rule sound_driveStep sound_branches sound store_total | assumption)+)

section \<open>The service\<close>

text \<open>
  C1: refinement of the store's life cycle.  Whatever operations the handlers and workers run, in any
  order, with any copies of rows in hand, whatever the collaborators answer, and whatever the other
  processes do within the life cycle, the store moves by steps of the life cycle only, and the ids
  still to be drawn stay unused: so all that is proved of reachable stores holds of the service.
\<close>

theorem service_refines_lifecycle:
  assumes "worldOK env w" and "(serviceStep env)\<^sup>*\<^sup>* w w'"
  shows "worldOK env w' \<and> storeSteps (w_store w) (w_store w') \<and> storeInv (w_store w')"
  using service_steps [OF assms(2,1)] reachable_inv by (auto simp: worldOK_def)

section \<open>The drive\<close>

lemma drive_run:
  assumes "w_pauseUntil w \<le> en_now env (w_tick w)" and "i \<notin> w_running w"
  shows "drive env i w = finishing i (driveLoop env driveBound i)
    (w\<lparr>w_tick := Suc (w_tick w), w_running := insert i (w_running w)\<rparr>)"
  using assms by (simp add: drive_def paused_def andThen_def now_def outside_def beginDrive_def)

lemma drive_cases:
  obtains (skipped) "fst (drive env i w) = Ok Paused \<or> fst (drive env i w) = Ok AlreadyRunning"
  | (runs) "w_pauseUntil w \<le> en_now env (w_tick w)" "i \<notin> w_running w"
  by (cases "w_pauseUntil w \<le> en_now env (w_tick w)"; cases "i \<in> w_running w")
    (simp_all add: drive_def paused_def andThen_def now_def outside_def beginDrive_def ret_def)

lemma turnsLeft_bound: "turnsLeft st < driveBound"
  by (cases st) (simp_all add: driveBound_def)

lemma loop_settles:
  assumes w: "worldOK env w" and sp: "spares env i" and st: "statusOf i (w_store w) = Some st"
    and run: "driveLoop env driveBound i w = (Ok ending, w')"
  shows "settled env (w_tick w) i ending w'"
proof -
  have "held env (w_tick w) i st w" using st by (simp add: held_def)
  from tripleD [OF driveLoop_settles [OF sp turnsLeft_bound] w this run] show ?thesis by simp
qed

text \<open>A loop that panics has used up the ids: the store it leaves is reachable.\<close>

lemma loop_panics:
  assumes "worldOK env w" and "solidEnv env" and "driveLoop env n i w = (Panic, w')"
  shows "exhausted env w'"
proof -
  have "worldOK env w'" using tripleD [OF triple_driveLoop assms(1) _ assms(3)] by simp
  then have "storeInv (w_store w')" using reachable_inv by (simp add: worldOK_def)
  with sound_driveLoop [OF assms(2)] assms(3) show ?thesis by (auto simp: sound_def)
qed

text \<open>
  C9: termination of the drive.  When no one else moves the job, the loop never reaches its bound of
  32 turns: it has ended before, whatever the collaborators answer.
\<close>

theorem drive_within_bound:
  assumes "worldOK env w" and "spares env i"
  shows "fst (drive env i w) \<noteq> Ok BoundExceeded"
proof (cases rule: drive_cases [of env i w])
  case runs
  let ?w = "w\<lparr>w_tick := Suc (w_tick w), w_running := insert i (w_running w)\<rparr>"
  have w: "worldOK env ?w" using assms(1) by (simp add: worldOK_def)
  obtain r w' where loop: "driveLoop env driveBound i ?w = (r, w')" by (cases "driveLoop env driveBound i ?w")
  have "r \<noteq> Ok BoundExceeded"
  proof (cases "statusOf i (w_store ?w)")
    case None
    have "driveLoop env (Suc 31) i ?w = (r, w')" using loop by (simp add: driveBound_def)
    with driveLoop_missing [OF assms(2) w None] show ?thesis by blast
  next
    case (Some st)
    with loop_settles [OF w assms(2)] loop show ?thesis by auto
  qed
  then show ?thesis by (simp add: drive_run [OF runs] finishing_def loop)
qed auto

text \<open>
  C8: no work is left behind.  A drive that starts on a job of the store, with the queue not paused, no
  shutdown and no interference with the job's status, and with collaborators that do not panic, returns
  no error and leaves the job at rest: waiting for a user, in review, drafted, failed or finished; or it
  is queued again and the queue is paused for five minutes, counted from a call of this drive, as on the
  provider's quota error.  It panics only when \<open>uuid.New\<close> has nothing left to draw.
\<close>

theorem drive_leaves_at_rest:
  assumes "worldOK env w" and "spares env i" and "calmEnv env" and "solidEnv env"
    and "statusOf i (w_store w) = Some st" and "w_pauseUntil w \<le> en_now env (w_tick w)" and "i \<notin> w_running w"
  shows "(fst (drive env i w) = Panic \<and> length (en_uuids env) \<le> w_drawn (snd (drive env i w)))
    \<or> (fst (drive env i w) = Ok Rested
       \<and> (\<exists>st'. statusOf i (w_store (snd (drive env i w))) = Some st'
            \<and> (atRest st' \<or> st' = StatusQueued
                 \<and> (\<exists>n \<ge> w_tick w. w_pauseUntil (snd (drive env i w)) = en_now env n + 300000000000))))"
proof -
  let ?w = "w\<lparr>w_tick := Suc (w_tick w), w_running := insert i (w_running w)\<rparr>"
  have w: "worldOK env ?w" "statusOf i (w_store ?w) = Some st" using assms(1,5) by (simp_all add: worldOK_def)
  obtain r w' where loop: "driveLoop env driveBound i ?w = (r, w')" by (cases "driveLoop env driveBound i ?w")
  have run: "drive env i w = (r, w'\<lparr>w_running := w_running w' - {i}\<rparr>)"
    by (simp add: drive_run [OF assms(6,7)] finishing_def loop)
  show ?thesis
  proof (cases r)
    case Panic
    with loop_panics [OF w(1) assms(4)] loop show ?thesis by (simp add: run exhausted_def)
  next
    case (Err e)
    with errs_driveLoop [of "\<lambda>_. False" env driveBound i] loop show ?thesis by (simp add: errs_def)
  next
    case (Ok ending)
    with loop_settles [OF w(1) assms(2) w(2)] loop assms(3)
    obtain st' where "ending = Rested" "statusOf i (w_store w') = Some st'" "resting env (Suc (w_tick w)) st' w'"
      by auto
    moreover from this(3) have "atRest st' \<or> st' = StatusQueued
        \<and> (\<exists>n \<ge> w_tick w. w_pauseUntil w' = en_now env n + 300000000000)"
      unfolding resting_def by (meson Suc_leD)
    ultimately show ?thesis using Ok by (simp add: run)
  qed
qed

section \<open>A sample environment\<close>

text \<open>Nobody else is at work, the clock stands still, and every collaborator refuses.\<close>

definition sampleEnv :: Env where
  "sampleEnv =
     \<lparr>en_uuids = [11, 12, 13, 14, 15, 16, 17, 18], en_now = (\<lambda>_. 0), en_others = (\<lambda>_ s. s),
      en_cancelled = (\<lambda>_. False), en_appendFails = (\<lambda>_. None), en_parseUUID = (\<lambda>_. None),
      en_URIHash = (\<lambda>u. u), en_mapOrder = (\<lambda>_ ks. ks), en_validFeedURL = (\<lambda>_. False),
      en_put = (\<lambda>_ _ _. Err (OtherErr ''refused'')), en_get = (\<lambda>_ _. Err (OtherErr ''refused'')),
      en_delete = (\<lambda>_ _. Err (OtherErr ''refused'')), en_Metadata = (\<lambda>_ _ _. Err (OtherErr ''refused'')),
      en_ExtractAudio = (\<lambda>_ _ _. Err (OtherErr ''refused'')), en_Check = (\<lambda>_ _ _. Err (OtherErr ''refused'')),
      en_Fetch = (\<lambda>_ _. Err (OtherErr ''refused'')), en_Transcribe = (\<lambda>_ _ _ _ _. Err (OtherErr ''refused'')),
      en_Cleanup = (\<lambda>_ _ _. Err (OtherErr ''refused'')), en_Summarize = (\<lambda>_ _ _ _. Ok ''hello''),
      en_fetchFeed = (\<lambda>_ _. Err (OtherErr ''refused'')), en_urlPath = (\<lambda>_. None), en_newRequest = (\<lambda>_. None),
      en_download = (\<lambda>_ _. Err (OtherErr ''refused'')), en_stream = (\<lambda>_ _ _. Err (OtherErr ''refused'')),
      en_STTProvider = ''mock'', en_ConfigDefaults = None, en_RetentionDays = 30,
      en_LibraryMaxDownloadBytes = 0, en_Sync = False, en_durationString = (\<lambda>_. ''15m0s''),
      en_StuckThreshold = 900000000000, en_LibraryPollInterval = 0, en_LibraryAutoPerPoll = 0\<rparr>"

definition sampleWorld :: "Status \<Rightarrow> World" where
  "sampleWorld st =
     \<lparr>w_store = sampleStore st, w_drawn = 0, w_tick = 0, w_pauseUntil = 0, w_running = {}, w_inFlight = {},
      w_queue = [], w_nextLibraryPoll = 0, w_pollBusy = {}\<rparr>"

lemma sample_used: "usedIds (sampleStore st) = {1}"
  by (auto simp: usedIds_def sample_store_defs)

lemma sample_world:
  assumes "reachable (sampleStore st)"
  shows "worldOK sampleEnv (sampleWorld st)" and "spares sampleEnv i" and "calmEnv sampleEnv"
    and "statusOf 1 (w_store (sampleWorld st)) = Some st"
  using assms
  by (auto simp: worldOK_def relyOK_def spares_def calmEnv_def sampleEnv_def sampleWorld_def sample_used)
    (simp_all add: statusOf_def sample_store_defs)

lemma service_refines_lifecycle_witness:
  "worldOK sampleEnv (snd (workerTurn sampleEnv (snd (enqueue sampleEnv 1 (sampleWorld StatusDrafted)))))"
proof -
  let ?w1 = "snd (enqueue sampleEnv 1 (sampleWorld StatusDrafted))"
  let ?w2 = "snd (workerTurn sampleEnv ?w1)"
  have "serviceStep sampleEnv (sampleWorld StatusDrafted) ?w1" by (rule svEnqueue) (rule surjective_pairing)
  moreover have "serviceStep sampleEnv ?w1 ?w2" by (rule svWorker) (rule surjective_pairing)
  ultimately have "(serviceStep sampleEnv)\<^sup>*\<^sup>* (sampleWorld StatusDrafted) ?w2" by (simp add: rtranclp.rtrancl_into_rtrancl)
  with service_refines_lifecycle [OF sample_world(1) [OF sample_reachable(3)]] show ?thesis by blast
qed

lemma drive_within_bound_witness: "fst (drive sampleEnv 1 (sampleWorld StatusSubmitted)) \<noteq> Ok BoundExceeded"
  using sample_world(1,2) [OF sample_reachable(1)] by (rule drive_within_bound)

lemma drive_leaves_at_rest_witness:
  "(fst (drive sampleEnv 1 (sampleWorld StatusDrafted)) = Panic
      \<and> length (en_uuids sampleEnv) \<le> w_drawn (snd (drive sampleEnv 1 (sampleWorld StatusDrafted))))
    \<or> (fst (drive sampleEnv 1 (sampleWorld StatusDrafted)) = Ok Rested
       \<and> (\<exists>st'. statusOf 1 (w_store (snd (drive sampleEnv 1 (sampleWorld StatusDrafted)))) = Some st'
            \<and> (atRest st' \<or> st' = StatusQueued
                 \<and> (\<exists>n \<ge> w_tick (sampleWorld StatusDrafted).
                       w_pauseUntil (snd (drive sampleEnv 1 (sampleWorld StatusDrafted))) = en_now sampleEnv n + 300000000000))))"
proof (rule drive_leaves_at_rest [OF sample_world(1-3) [OF sample_reachable(3)] _ sample_world(4) [OF sample_reachable(3)]])
  show "solidEnv sampleEnv" by (simp add: solidEnv_def sampleEnv_def)
qed (simp_all add: sampleWorld_def sampleEnv_def)

lemma high_risk_fails_closed_witness:
  "failsClosed (cancelJob (sampleEnv\<lparr>en_appendFails := \<lambda>_. Some ''disk full''\<rparr>) (sampleJob StatusQueued) ''ana'' ''user'' ''typo'')
     (sampleWorld StatusQueued)"
proof -
  have "auditDown (sampleEnv\<lparr>en_appendFails := \<lambda>_. Some ''disk full''\<rparr>)" by (simp add: auditDown_def sampleEnv_def)
  from high_risk_fails_closed [OF this] show ?thesis by blast
qed

end
