(* ===== verification/Job_Bounds.thy ===== *)
theory Job_Bounds
  imports Job_Promises
begin

text \<open>
  The numbers of the tools: the retention window, and the coverage and the score of the quality
  report.
\<close>

section \<open>Retention\<close>

abbreviation effectiveDays :: "Env \<Rightarrow> int" where
  "effectiveDays env \<equiv> (if en_RetentionDays env \<le> 0 then 30 else en_RetentionDays env)"

text \<open>
  The retention window of an artifact is the configured number of days, 30 when none is set,
  exactly up to 106751 days; one day more overflows the 64 bits of a duration and the artifact has
  expired before it was made.
\<close>

theorem retention_window:
  assumes "en_RetentionDays env \<le> 106752"
  shows "(t < retentionUntil env t \<longleftrightarrow> en_RetentionDays env \<le> 106751)
    \<and> (en_RetentionDays env \<le> 106751 \<longrightarrow> retentionUntil env t = t + effectiveDays env * 86400000000000)"
proof (cases "en_RetentionDays env = 106752")
  case True
  then show ?thesis by (simp add: retentionUntil_def durationDays_def wrapInt_def)
next
  case False
  let ?d = "effectiveDays env"
  have d: "1 \<le> ?d" "?d \<le> 106751" using False assms by auto
  then have "durationDays ?d = ?d * 86400000000000"
    unfolding durationDays_def by (intro wrapInt_id) simp_all
  then show ?thesis using False assms d by (simp add: retentionUntil_def Let_def)
qed

lemma retention_window_witness: "5 < retentionUntil sampleEnv 5 \<and> retentionUntil sampleEnv 5 = 5 + 30 * 86400000000000"
  using retention_window [of sampleEnv 5] by (simp add: sampleEnv_def)

section \<open>The quality report\<close>

definition spoken :: "Segment list \<Rightarrow> int" where
  "spoken segs = (\<Sum>s\<leftarrow>segs. sg_EndMS s - sg_StartMS s)"

lemma spoken_simps [simp]:
  "spoken [] = 0" "spoken (s # ss) = sg_EndMS s - sg_StartMS s + spoken ss"
  by (simp_all add: spoken_def)

abbreviation forwards :: "Segment list \<Rightarrow> bool" where
  "forwards segs \<equiv> \<forall>s \<in> set segs. sg_StartMS s \<le> sg_EndMS s"

lemma spoken_nonneg: "forwards segs \<Longrightarrow> 0 \<le> spoken segs"
  by (induction segs) auto

lemma coverage_spoken:
  "0 \<le> c \<Longrightarrow> forwards segs \<Longrightarrow> c + spoken segs < 2 ^ 63 \<Longrightarrow> fst (coverage c g p is segs) = c + spoken segs"
proof (induction segs arbitrary: c g p "is")
  case (Cons s ss)
  have "0 \<le> spoken ss" using Cons.prems by (intro spoken_nonneg) simp
  with Cons.prems have "wrapInt (c + (sg_EndMS s - sg_StartMS s)) = c + (sg_EndMS s - sg_StartMS s)"
    by (intro wrapInt_id) auto
  with Cons.prems show ?case by (simp add: Let_def Cons.IH)
qed simp

text \<open>Segments one after the other: the state of the loop is the spoken time, the silence and the end.\<close>

fun timeline :: "int \<Rightarrow> Segment list \<Rightarrow> bool" where
  "timeline p [] = True"
| "timeline p (s # ss) = (p \<le> sg_StartMS s \<and> sg_StartMS s \<le> sg_EndMS s \<and> timeline (sg_EndMS s) ss)"

fun timelineEnd :: "int \<Rightarrow> Segment list \<Rightarrow> int" where
  "timelineEnd p [] = p"
| "timelineEnd p (s # ss) = timelineEnd (sg_EndMS s) ss"

lemma timelineEnd_le: "timeline p segs \<Longrightarrow> p \<le> timelineEnd p segs"
  by (induction segs arbitrary: p) (auto intro: order_trans)

lemma coverage_timeline:
  "timeline p segs \<Longrightarrow> 0 \<le> c \<Longrightarrow> 0 \<le> g \<Longrightarrow> c + g = p \<Longrightarrow> timelineEnd p segs < 2 ^ 63 \<Longrightarrow>
    \<exists>is'. coverage c g p is segs
      = (c + spoken segs, timelineEnd p segs - (c + spoken segs), timelineEnd p segs, is')"
proof (induction segs arbitrary: c g p "is")
  case (Cons s ss)
  from Cons.prems timelineEnd_le [of "sg_EndMS s" ss] have e: "sg_EndMS s < 2 ^ 63" by auto
  with Cons.prems have w: "wrapInt (c + (sg_EndMS s - sg_StartMS s)) = c + (sg_EndMS s - sg_StartMS s)"
    "wrapInt (sg_StartMS s - p) = sg_StartMS s - p" "wrapInt (g + (sg_StartMS s - p)) = g + (sg_StartMS s - p)"
    by (auto intro!: wrapInt_id)
  have "\<exists>is''. coverage (c + (sg_EndMS s - sg_StartMS s)) (g + (sg_StartMS s - p)) (sg_EndMS s) is' ss
      = (c + (sg_EndMS s - sg_StartMS s + spoken ss),
         timelineEnd (sg_EndMS s) ss - (c + (sg_EndMS s - sg_StartMS s + spoken ss)), timelineEnd (sg_EndMS s) ss, is'')" for is'
    using Cons.prems Cons.IH [of "sg_EndMS s" "c + (sg_EndMS s - sg_StartMS s)" "g + (sg_StartMS s - p)" is']
    by (simp add: algebra_simps)
  moreover have "max p (sg_EndMS s) = sg_EndMS s" "max 0 (sg_StartMS s - p) = sg_StartMS s - p" using Cons.prems by simp_all
  ultimately show ?case by (simp only: coverage.simps timelineEnd.simps spoken_simps Let_def w)
qed simp

text \<open>
  The quality report accounts for the whole recording.  For segments one after the other that end
  within the media's duration, the reported gap is the duration less the time spoken, in whole
  seconds.
\<close>

theorem quality_gap_accounting:
  assumes "segs \<noteq> []" and "timeline 0 segs" and "timelineEnd 0 segs \<le> j_DurationSeconds job * 1000"
    and "j_DurationSeconds job * 1000 < 2 ^ 63"
  shows "qr_CoverageGapSeconds (qualityReport i t job version cfg segs)
    = (j_DurationSeconds job * 1000 - spoken segs) div 1000"
proof -
  let ?first = "sg_StartMS (hd segs)" and ?d = "j_DurationSeconds job * 1000"
  have t: "timeline ?first segs" "0 \<le> ?first" "timelineEnd ?first segs = timelineEnd 0 segs"
    using assms(1,2) by (cases segs; simp)+
  have "wrapInt ?d = ?d" using assms(3,4) timelineEnd_le [OF assms(2)] by (intro wrapInt_id) auto
  moreover have nonneg: "0 \<le> spoken segs" using assms(2)
  proof (intro spoken_nonneg)
    show "timeline p segs \<Longrightarrow> forwards segs" for p by (induction segs arbitrary: p) auto
  qed
  moreover obtain is' where cov: "coverage 0 ?first ?first [] segs
      = (spoken segs, timelineEnd 0 segs - spoken segs, timelineEnd 0 segs, is')"
    using coverage_timeline [OF t(1), of 0 ?first "[]"] t assms(3,4) by auto
  moreover have "spoken segs \<le> timelineEnd 0 segs"
  proof -
    have "timeline p ss \<Longrightarrow> spoken ss \<le> timelineEnd p ss - p" for p ss
      by (induction ss arbitrary: p) force+
    from this [OF assms(2)] show ?thesis by simp
  qed
  moreover have "wrapInt (timelineEnd 0 segs - spoken segs + (?d - timelineEnd 0 segs)) = ?d - spoken segs"
    using calculation assms(3,4) by (simp add: wrapInt_id)
  moreover have "goQuot x 1000 = x div 1000" if "0 \<le> x" for x
    using that by (cases "x = 0") (simp_all add: goQuot_def)
  ultimately show ?thesis using assms(3) by (simp add: qualityReport_def Let_def)
qed

abbreviation sampleMedia :: Job where
  "sampleMedia \<equiv> (sampleJob StatusQualityChecking)\<lparr>j_DurationSeconds := 62\<rparr>"

lemma quality_gap_accounting_witness:
  "qr_CoverageGapSeconds (qualityReport 7 0 sampleMedia (apj_ApprovedVersion sampleApprove) (defaultJobConfig ''mock'') sampleTalk)
     = (62000 - 60900) div 1000"
  using quality_gap_accounting [of sampleTalk sampleMedia 7 0 "apj_ApprovedVersion sampleApprove" "defaultJobConfig ''mock''"]
  by (simp add: sampleTalk_def)

section \<open>The score\<close>

abbreviation unitRange :: "rat \<Rightarrow> bool" where
  "unitRange x \<equiv> 0 \<le> x \<and> x \<le> 1"

lemma sum_list_unit: "\<forall>x \<in> set xs. unitRange x \<Longrightarrow> 0 \<le> sum_list xs \<and> sum_list xs \<le> of_nat (length xs)"
  by (induction xs) auto

lemma average_unit:
  assumes "\<forall>x \<in> set xs. unitRange x" and "xs \<noteq> []"
  shows "unitRange (sum_list xs / of_nat (length xs))"
  using sum_list_unit [OF assms(1)] assms(2) by (simp add: divide_le_eq_1)

lemma scaled_unit: "unitRange a \<Longrightarrow> unitRange q \<Longrightarrow> 0 \<le> a * q \<and> a * q \<le> a \<and> a \<le> 1"
  by (simp add: mult_left_le)

lemma confidences: "x \<in> set (List.map_filter sg_Confidence segs) \<longleftrightarrow> (\<exists>s \<in> set segs. sg_Confidence s = Some x)"
  by (induction segs) (auto simp: List.map_filter_simps split: option.splits)

lemma no_confidences: "List.map_filter sg_Confidence segs = [] \<longleftrightarrow> (\<forall>s \<in> set segs. sg_Confidence s = None)"
  by (induction segs) (auto simp: List.map_filter_simps split: option.splits)

text \<open>
  Bounds of the score.  When every confidence lies between 0 and 1, no segment runs backwards and
  the spoken time fits an \<open>int\<close>, the average confidence and the composite score lie between 0 and 1,
  the score is at most the average, and both are there exactly when some segment has a confidence.
\<close>

theorem quality_score_unit:
  assumes "\<forall>s \<in> set segs. \<forall>c. sg_Confidence s = Some c \<longrightarrow> 0 \<le> c \<and> c \<le> 1"
    and "\<forall>s \<in> set segs. sg_StartMS s \<le> sg_EndMS s" and "spoken segs < 2 ^ 63"
  shows "case (qr_QualityScore (qualityReport i t job version cfg segs), qr_AverageConfidence (qualityReport i t job version cfg segs)) of
      (Some q, Some a) \<Rightarrow> 0 \<le> q \<and> q \<le> a \<and> a \<le> 1 \<and> (\<exists>s \<in> set segs. sg_Confidence s \<noteq> None)
    | (None, None) \<Rightarrow> (\<forall>s \<in> set segs. sg_Confidence s = None)
    | _ \<Rightarrow> False"
proof -
  let ?confs = "List.map_filter sg_Confidence segs" and ?r = "qualityReport i t job version cfg segs"
  let ?a = "sum_list ?confs / of_nat (length ?confs)" and ?d = "wrapInt (j_DurationSeconds job * 1000)"
  define ratio :: rat where "ratio = (if 0 < ?d then min 1 (of_int (spoken segs) / of_int ?d) else 1)"
  have "fst (coverage 0 (sg_StartMS (hd segs)) (sg_StartMS (hd segs)) [] segs) = spoken segs"
    using coverage_spoken [of 0] assms(2,3) by simp
  then have r: "qr_AverageConfidence ?r = (if ?confs = [] then None else Some ?a)"
    "qr_QualityScore ?r = (if ?confs = [] then None else Some (?a * ratio))"
    by (auto simp: qualityReport_def Let_def ratio_def split: prod.splits)
  have "unitRange ratio" using spoken_nonneg [OF assms(2)] by (auto simp: ratio_def)
  moreover have "unitRange ?a" if "?confs \<noteq> []"
    using that assms(1) by (intro average_unit) (auto simp: confidences)
  ultimately have "0 \<le> ?a * ratio \<and> ?a * ratio \<le> ?a \<and> ?a \<le> 1" if "?confs \<noteq> []"
    using that by (intro scaled_unit) blast+
  then show ?thesis using no_confidences [of segs] by (auto simp: r)
qed

lemma quality_score_unit_witness:
  "case (qr_QualityScore (qualityReport 7 0 sampleMedia (apj_ApprovedVersion sampleApprove) (defaultJobConfig ''mock'')
           (map (\<lambda>s. s\<lparr>sg_Confidence := Some (9 / 10)\<rparr>) sampleTalk)),
         qr_AverageConfidence (qualityReport 7 0 sampleMedia (apj_ApprovedVersion sampleApprove) (defaultJobConfig ''mock'')
           (map (\<lambda>s. s\<lparr>sg_Confidence := Some (9 / 10)\<rparr>) sampleTalk))) of
      (Some q, Some a) \<Rightarrow> 0 \<le> q \<and> q \<le> a \<and> a \<le> 1 \<and> (\<exists>s \<in> set (map (\<lambda>s. s\<lparr>sg_Confidence := Some (9 / 10)\<rparr>) sampleTalk). sg_Confidence s \<noteq> None)
    | (None, None) \<Rightarrow> (\<forall>s \<in> set (map (\<lambda>s. s\<lparr>sg_Confidence := Some (9 / 10)\<rparr>) sampleTalk). sg_Confidence s = None)
    | _ \<Rightarrow> False"
  by (rule quality_score_unit) (simp_all add: sampleTalk_def)

end
