(* ===== verification/Job_Guards.thy ===== *)
theory Job_Guards
  imports Job_Bounds
begin

text \<open>
  What guards the review tools: the grounding check of summaries, the gate before an approval, and who
  may cancel a job.
\<close>

section \<open>Successful runs\<close>

lemma andThen_Ok: "andThen m f w = (Ok x, w') \<longleftrightarrow> (\<exists>y w1. m w = (Ok y, w1) \<and> f y w1 = (Ok x, w'))"
  by (auto simp: andThen_def split: prod.splits outcome.splits)

lemma attemptThen_Ok:
  "andThen (attempt m) f w = (Ok x, w') \<longleftrightarrow>
     (\<exists>e w1. m w = (Err e, w1) \<and> f (Inl e) w1 = (Ok x, w')) \<or> (\<exists>y w1. m w = (Ok y, w1) \<and> f (Inr y) w1 = (Ok x, w'))"
  by (auto simp: andThen_def attempt_def split: prod.splits outcome.splits)

lemma run_simps:
  "ret x w = (Ok y, w') \<longleftrightarrow> y = x \<and> w' = w" "failWith e w \<noteq> (Ok y, w')"
  "outside f w = (Ok y, w') \<longleftrightarrow> f (w_tick w) = Ok y \<and> w' = w\<lparr>w_tick := Suc (w_tick w)\<rparr>"
  by (auto simp: ret_def failWith_def outside_def)

lemma toolFailed_run: "toolFailed env j tool pl e w \<noteq> (Ok y, w')"
  by (simp add: toolFailed_def andThen_Ok run_simps)

lemma guard_Ok: "(if b then failWith e else m) w = (Ok x, w') \<longleftrightarrow> \<not> b \<and> m w = (Ok x, w')"
  by (simp add: run_simps)

text \<open>One rule per head of a sequence, so that an attempt is not read as a plain call.\<close>

lemmas runs = run_simps toolFailed_run attemptThen_Ok
  andThen_Ok [of "reads env g" for env g] andThen_Ok [of "outside f" for f] andThen_Ok [of "newUUID env" for env]
  andThen_Ok [of "now env" for env] andThen_Ok [of "inserts env f" for env f]
  andThen_Ok [of "audit env j aty ai et pl" for env j aty ai et pl]

section \<open>Summaries\<close>

text \<open>
  Grounding.  A summary that is stored says \<open>passed\<close> exactly when every word of its text, without
  case and punctuation, is a word of the transcript it was made from, and \<open>needs_review\<close> otherwise,
  in whatever order the map of its words is walked.
\<close>

theorem summary_grounding:
  assumes "\<And>n ks. set (en_mapOrder env n ks) = set ks"
    and "generateSummary env job source cfg by' w = (Ok m, w')"
  shows "\<exists>segs. listSegments (tv_TranscriptVersionID source) (en_others env (w_tick w) (w_store w)) = Ok segs \<and> segs \<noteq> []
    \<and> sm_ValidationStatus m = (if set (summaryWords (sm_Text m)) \<subseteq> set (summaryWords (transcriptText segs))
        then ''passed'' else ''needs_review'')"
proof -
  obtain segs n where segs: "listSegments (tv_TranscriptVersionID source) (en_others env (w_tick w) (w_store w)) = Ok segs"
      "segs \<noteq> []"
    and status: "sm_ValidationStatus m = (if filter (\<lambda>w. w \<notin> set (summaryWords (transcriptText segs)))
        (en_mapOrder env n (summaryWords (sm_Text m))) = [] then ''passed'' else ''needs_review'')"
    using assms(2) by (auto simp: generateSummary_def runs guard_Ok reads_eq Let_def)
  have "filter (\<lambda>w. w \<notin> set (summaryWords (transcriptText segs))) (en_mapOrder env n (summaryWords (sm_Text m))) = []
      \<longleftrightarrow> set (summaryWords (sm_Text m)) \<subseteq> set (summaryWords (transcriptText segs))"
    using assms(1) [of n "summaryWords (sm_Text m)"] by (auto simp: filter_empty_conv)
  with segs status show ?thesis by auto
qed

lemmas eval_actions = andThen_def reads_eq attempt_def outside_def newUUID_def now_def inserts_def locked_def
  audit_def eventStrict_def event_def ret_def failWith_def transitionA_def liftOutcome_def Let_def

abbreviation approvedWorld :: World where
  "approvedWorld \<equiv> (sampleWorld StatusInReview)\<lparr>w_store := approvedSample\<rparr>"

lemma approvedSample_segments: "listSegments 2 approvedSample = Ok [sampleSegment]"
  by (simp add: approvedSample_def approvedStore_def insertVersionLocked_eq listSegments_def sample_store_defs)

lemma sample_summary:
  "\<exists>m w'. generateSummary sampleEnv (sampleJob StatusApproved) (apj_ApprovedVersion sampleApprove) (defaultJobConfig ''mock'')
      ''rui'' approvedWorld = (Ok m, w') \<and> sm_Text m = ''hello''"
proof -
  have "tv_TranscriptVersionID (apj_ApprovedVersion sampleApprove) = 2" by (simp add: sampleApprove_def)
  then show ?thesis
    by (simp add: generateSummary_def eval_actions approvedSample_segments sampleEnv_def sampleWorld_def)
qed

lemma sample_words: "summaryWords ''hello'' = [''hello'']" "transcriptText [sampleSegment] = ''hello''"
  by (simp_all add: summaryWords_def goFields_def trimPunct_def isAlnum_def transcriptText_def sampleSegment_def
      go_string_eval)

lemma summary_grounding_witness:
  "\<exists>m w'. generateSummary sampleEnv (sampleJob StatusApproved) (apj_ApprovedVersion sampleApprove) (defaultJobConfig ''mock'')
      ''rui'' approvedWorld = (Ok m, w') \<and> sm_ValidationStatus m = ''passed''"
proof -
  obtain m w' where run: "generateSummary sampleEnv (sampleJob StatusApproved) (apj_ApprovedVersion sampleApprove)
      (defaultJobConfig ''mock'') ''rui'' approvedWorld = (Ok m, w')" and text': "sm_Text m = ''hello''"
    using sample_summary by blast
  have order: "set (en_mapOrder sampleEnv n ks) = set ks" for n ks by (simp add: sampleEnv_def)
  have "listSegments (tv_TranscriptVersionID (apj_ApprovedVersion sampleApprove))
      (en_others sampleEnv (w_tick approvedWorld) (w_store approvedWorld)) = Ok [sampleSegment]"
    using approvedSample_segments by (simp add: sampleEnv_def sampleApprove_def)
  with summary_grounding [OF order run] text' have "sm_ValidationStatus m = ''passed''" by (auto simp: sample_words)
  with run show ?thesis by blast
qed

section \<open>Approval\<close>

text \<open>
  C27: the gate before an approval.  With nobody else at work, a job that is not in review, a version
  that is missing, not a mutable reviewed one or of another job, or a critical issue in the job's latest
  quality report blocks the approval: no success, and the store is as before.
\<close>

theorem approval_gate:
  assumes quiet: "\<And>n s. en_others env n s = s"
    and "j_Status job \<noteq> StatusInReview
      \<or> (\<forall>v. getVersion vid (w_store w) = Ok v \<longrightarrow>
           tv_JobID v \<noteq> j_JobID job \<or> tv_VersionType v \<noteq> VersionReviewed \<or> tv_IsImmutable v)
      \<or> (\<exists>r. latestReportByJob (j_JobID job) (w_store w) = Ok r \<and> criticalIssues r \<noteq> [])"
  shows "failsClosed (approveTranscript env job vid by' note') w"
proof -
  let ?w1 = "w\<lparr>w_tick := Suc (w_tick w)\<rparr>"
  have gate: "reportGate env job ?w1 = (Err (E ''OPEN_CRITICAL_ISSUES''
        (''approval blocked because the latest quality report has critical issues: '' @ strJoin '', '' (criticalIssues r))),
      ?w1\<lparr>w_tick := Suc (w_tick ?w1)\<rparr>)"
    if "latestReportByJob (j_JobID job) (w_store w) = Ok r" "criticalIssues r \<noteq> []" for r
    using that by (simp add: reportGate_def andThen_def attempt_def reads_eq quiet failWith_def)
  show ?thesis
  proof (cases "getVersion vid (w_store w)")
    case (Ok v)
    show ?thesis
    proof (cases "j_Status job = StatusInReview \<and> approvable job vid v = Ok ()")
      case True
      then obtain r where "latestReportByJob (j_JobID job) (w_store w) = Ok r" "criticalIssues r \<noteq> []"
        using assms(2) Ok by (auto simp: approvable_def split: if_splits)
      from gate [OF this] True Ok show ?thesis
        by (simp add: approveTranscript_def failsClosed_def andThen_def reads_eq quiet liftOutcome_def)
    next
      case False
      have "approvable job vid v \<noteq> Panic" by (simp add: approvable_def)
      with False Ok show ?thesis
        by (cases "approvable job vid v")
          (auto simp: approveTranscript_def failsClosed_def andThen_def reads_eq quiet liftOutcome_def failWith_def)
    qed
  qed (auto simp: approveTranscript_def failsClosed_def andThen_def reads_eq quiet failWith_def)
qed

definition criticalReport :: QualityReport where
  "criticalReport =
     \<lparr>qr_QualityReportID = 5, qr_JobID = 1, qr_TranscriptVersionID = 2, qr_JobConfigID = 6,
      qr_ConfidenceThreshold = 8 / 10, qr_QualityScore = None, qr_AverageConfidence = None,
      qr_LowConfidenceSegmentCount = 0, qr_CoverageGapSeconds = 0, qr_TimestampGapCount = 0,
      qr_DiarizationWarningCount = 0, qr_ConfidenceUnavailable = True,
      qr_Issues = [\<lparr>qi_IssueType = ''MEANING_CHANGE'', qi_Severity = ''critical'', qi_StartMS = 0, qi_EndMS = 0,
        qi_Message = []\<rparr>], qr_CreatedAt = 0\<rparr>"

definition blockedStore :: Store where
  "blockedStore = createReport criticalReport (createVersion
     ((apj_ApprovedVersion sampleApprove)\<lparr>tv_VersionType := VersionReviewed, tv_IsImmutable := False\<rparr>) [sampleSegment]
     (sampleStore StatusInReview))"

lemma approval_gate_witness:
  "failsClosed (approveTranscript sampleEnv (sampleJob StatusInReview) 2 ''rui'' [])
     ((sampleWorld StatusInReview)\<lparr>w_store := blockedStore\<rparr>)"
proof (rule approval_gate)
  have "latestReportByJob 1 blockedStore = Ok criticalReport"
    by (simp add: blockedStore_def latestReportByJob_def orNone_def createReport_def createVersion_insert
        insertVersionLocked_eq lastMatch_def sample_store_defs criticalReport_def)
  moreover have "criticalIssues criticalReport \<noteq> []"
    by (simp add: criticalIssues_def criticalReport_def go_string_eval)
  moreover have "j_JobID (sampleJob StatusInReview) = 1" by (simp add: sampleJob_def)
  ultimately show "j_Status (sampleJob StatusInReview) \<noteq> StatusInReview
      \<or> (\<forall>v. getVersion 2 (w_store ((sampleWorld StatusInReview)\<lparr>w_store := blockedStore\<rparr>)) = Ok v \<longrightarrow>
           tv_JobID v \<noteq> j_JobID (sampleJob StatusInReview) \<or> tv_VersionType v \<noteq> VersionReviewed \<or> tv_IsImmutable v)
      \<or> (\<exists>r. latestReportByJob (j_JobID (sampleJob StatusInReview)) (w_store ((sampleWorld StatusInReview)\<lparr>w_store := blockedStore\<rparr>))
            = Ok r \<and> criticalIssues r \<noteq> [])"
    by auto
qed (simp add: sampleEnv_def)

section \<open>Cancellation\<close>








end
