(* ===== verification/Go_Float.thy ===== *)
theory Go_Float
  imports Complex_Main "HOL-Library.Log_Nat"
begin

text \<open>
  Go's \<open>float64\<close>: the finite values are rationals, every result is rounded to the nearest value of 53
  significant bits with exponents from \<open>-1074\<close>, ties to even, and overflows to an infinity.  The sign of
  zero is not kept.  The lemmas show that rounding is monotone, leaves the representable values alone, and
  that a quotient of two representable values rounds to \<open>1\<close> from below for none.
\<close>

section \<open>Rounding\<close>

definition nearestEven :: "rat \<Rightarrow> int" where
  "nearestEven q = (let f = \<lfloor>q\<rfloor>; d = q - of_int f in if d < 1 / 2 \<or> d = 1 / 2 \<and> even f then f else f + 1)"

text \<open>The power of two at or below a positive value, and the distance of the floats around it.\<close>

definition exponent2 :: "rat \<Rightarrow> int" where
  "exponent2 r = (case quotient_of r of (n, d) \<Rightarrow>
     let k = bitlen n - bitlen d in if 2 powi k \<le> r then k else k - 1)"

definition ulpOf :: "rat \<Rightarrow> rat" where
  "ulpOf r = 2 powi max (- 1074) (exponent2 \<bar>r\<bar> - 52)"

definition fround :: "rat \<Rightarrow> rat" where
  "fround r = (if r = 0 then 0 else of_int (nearestEven (r / ulpOf r)) * ulpOf r)"

definition isDouble :: "rat \<Rightarrow> bool" where
  "isDouble r \<longleftrightarrow> fround r = r"

section \<open>Values and operations\<close>

datatype f64 = FNaN | FPosInf | FNegInf | Fin rat

definition fin :: "rat \<Rightarrow> f64" where
  "fin r = (let x = fround r in if 2 ^ 1024 \<le> x then FPosInf else if x \<le> - (2 ^ 1024) then FNegInf else Fin x)"

fun fneg :: "f64 \<Rightarrow> f64" where
  "fneg FNaN = FNaN" | "fneg FPosInf = FNegInf" | "fneg FNegInf = FPosInf" | "fneg (Fin a) = Fin (- a)"

fun fadd :: "f64 \<Rightarrow> f64 \<Rightarrow> f64" where
  "fadd (Fin a) (Fin b) = fin (a + b)"
| "fadd FNaN y = FNaN"
| "fadd x FNaN = FNaN"
| "fadd (Fin a) y = y"
| "fadd x (Fin b) = x"
| "fadd FPosInf FPosInf = FPosInf"
| "fadd FNegInf FNegInf = FNegInf"
| "fadd _ _ = FNaN"

definition fsub :: "f64 \<Rightarrow> f64 \<Rightarrow> f64" where
  "fsub x y = fadd x (fneg y)"

fun fsign :: "f64 \<Rightarrow> rat" where
  "fsign FNaN = 0" | "fsign FPosInf = 1" | "fsign FNegInf = - 1" | "fsign (Fin a) = sgn a"

definition finf :: "rat \<Rightarrow> f64" where
  "finf g = (if g < 0 then FNegInf else FPosInf)"

fun fdiv :: "f64 \<Rightarrow> f64 \<Rightarrow> f64" where
  "fdiv (Fin a) (Fin b) = (if b = 0 then (if a = 0 then FNaN else finf (sgn a)) else fin (a / b))"
| "fdiv FNaN y = FNaN"
| "fdiv x FNaN = FNaN"
| "fdiv (Fin a) y = Fin 0"
| "fdiv x (Fin b) = finf (fsign x * (if b = 0 then 1 else sgn b))"
| "fdiv _ _ = FNaN"

fun fmul20 :: "f64 \<Rightarrow> f64" where
  "fmul20 (Fin p) = fin (20 * p)" | "fmul20 x = x"

text \<open>\<open><\<close> is false on NaN.\<close>

fun flt :: "f64 \<Rightarrow> f64 \<Rightarrow> bool" where
  "flt (Fin a) (Fin b) = (a < b)"
| "flt FNaN y = False"
| "flt x FNaN = False"
| "flt FNegInf y = (y \<noteq> FNegInf)"
| "flt x FPosInf = (x \<noteq> FPosInf)"
| "flt _ _ = False"

definition finite64 :: "f64 \<Rightarrow> bool" where
  "finite64 x \<longleftrightarrow> (case x of Fin _ \<Rightarrow> True | _ \<Rightarrow> False)"

text \<open>\<open>int(math.Round(x))\<close>: half away from zero; the conversion of NaN and the infinities gives the
  least integer.\<close>

definition roundHalfAway :: "rat \<Rightarrow> int" where
  "roundHalfAway r = (if r < 0 then - \<lfloor>- r + 1 / 2\<rfloor> else \<lfloor>r + 1 / 2\<rfloor>)"

definition intRound :: "f64 \<Rightarrow> int" where
  "intRound x = (case x of Fin r \<Rightarrow> roundHalfAway r | _ \<Rightarrow> - (2 ^ 63))"

section \<open>Rounding to an integer\<close>

lemma nearestEven_int [simp]: "nearestEven (of_int k) = k"
  by (simp add: nearestEven_def)

lemma nearestEven_cases: "nearestEven q = \<lfloor>q\<rfloor> \<or> nearestEven q = \<lfloor>q\<rfloor> + 1 \<and> q \<noteq> of_int \<lfloor>q\<rfloor>"
  by (simp add: nearestEven_def Let_def)

lemma nearestEven_le: "q \<le> of_int k \<Longrightarrow> nearestEven q \<le> k"
proof -
  assume q: "q \<le> of_int k"
  then have "\<lfloor>q\<rfloor> \<le> k" by (metis floor_mono floor_of_int)
  moreover have "\<lfloor>q\<rfloor> \<noteq> k" if "q \<noteq> of_int \<lfloor>q\<rfloor>"
    using that q of_int_floor_le [of q] by (metis order.antisym)
  ultimately show ?thesis using nearestEven_cases [of q] by linarith
qed

lemma nearestEven_ge: "of_int k \<le> q \<Longrightarrow> k \<le> nearestEven q"
  using nearestEven_cases [of q] by (metis le_floor_iff le_add_same_cancel1 order.trans zero_le_one)

lemma nearestEven_mono: "q \<le> p \<Longrightarrow> nearestEven q \<le> nearestEven p"
proof (cases "\<lfloor>q\<rfloor> = \<lfloor>p\<rfloor>")
  case True
  assume "q \<le> p"
  then show ?thesis using True by (auto simp: nearestEven_def Let_def)
next
  case False
  assume "q \<le> p"
  with False have "\<lfloor>q\<rfloor> + 1 \<le> \<lfloor>p\<rfloor>" using floor_mono [of q p] by linarith
  then show ?thesis using nearestEven_cases [of q] nearestEven_cases [of p] by linarith
qed

lemma nearestEven_minus: "nearestEven (- q) = - nearestEven q"
proof (cases "q = of_int \<lfloor>q\<rfloor>")
  case True
  then show ?thesis by (metis nearestEven_int of_int_minus)
next
  case False
  then have "of_int \<lfloor>q\<rfloor> < q" "q < of_int \<lfloor>q\<rfloor> + 1" using of_int_floor_le [of q] floor_correct [of q] by linarith+
  then have f: "\<lfloor>- q\<rfloor> = - \<lfloor>q\<rfloor> - 1" by (intro floor_unique) simp_all
  show ?thesis by (auto simp: nearestEven_def Let_def f)
qed

section \<open>The exponent\<close>

lemma exponent2_bounds:
  assumes "0 < r"
  shows "2 powi exponent2 r \<le> r \<and> r < 2 powi (exponent2 r + 1)"
proof -
  obtain n d where q: "quotient_of r = (n, d)" by (cases "quotient_of r")
  have d: "0 < d" "r = of_int n / of_int d" using quotient_of_denom_pos [OF q] quotient_of_div [OF q] by simp_all
  with assms have n: "0 < n" by (simp add: zero_less_divide_iff)
  define a b where "a = nat (bitlen n)" and "b = nat (bitlen d)"
  have bits: "bitlen n = int a" "bitlen d = int b" "0 < a" "0 < b"
    using bitlen_nonneg [of n] bitlen_nonneg [of d] bitlen_eq_zero_iff [of n] bitlen_eq_zero_iff [of d] n d(1)
    by (simp_all add: a_def b_def)
  have "nat (int a - 1) = a - 1" "nat (int b - 1) = b - 1" by simp_all
  then have "2 ^ (a - 1) \<le> n" "n < 2 ^ a" "2 ^ (b - 1) \<le> d" "d < 2 ^ b"
    using bitlen_bounds [OF n] bitlen_bounds [OF d(1)] by (simp_all add: bits(1,2))
  then have "(of_int (2 ^ (a - 1)) :: rat) \<le> of_int n" "(of_int n :: rat) < of_int (2 ^ a)"
    "(of_int (2 ^ (b - 1)) :: rat) \<le> of_int d" "(of_int d :: rat) < of_int (2 ^ b)"
    unfolding of_int_le_iff of_int_less_iff by simp_all
  then have pw: "(2::rat) ^ (a - 1) \<le> of_int n" "(of_int n :: rat) < 2 ^ a" "(2::rat) ^ (b - 1) \<le> of_int d" "(of_int d :: rat) < 2 ^ b"
    by simp_all
  have A: "(2::rat) ^ a = 2 * 2 ^ (a - 1)" and B: "(2::rat) ^ b = 2 * 2 ^ (b - 1)"
    using bits(3,4) by (simp_all flip: power_Suc)
  have k: "(2::rat) powi (int a - int b) = 2 ^ a / 2 ^ b" by (simp add: power_int_diff)
  have "r < 2 ^ a / 2 ^ (b - 1)" unfolding d(2) using pw d(1) n by (intro frac_less) auto
  also have "\<dots> = 2 powi (int a - int b + 1)" by (simp add: power_int_add k B)
  finally have up: "r < 2 powi (int a - int b + 1)" .
  have "2 ^ (a - 1) / 2 ^ b \<le> r" unfolding d(2) using pw d(1) n by (intro frac_le) auto
  then have low: "2 powi (int a - int b - 1) \<le> r" by (simp add: power_int_diff k A)
  show ?thesis using up low by (auto simp: exponent2_def q bits(1,2) Let_def not_le)
qed

lemma powi_le: "(2::rat) powi m \<le> 2 powi n \<longleftrightarrow> m \<le> n"
  by (rule iffI) (auto intro: power_int_increasing, metis less_le_not_le not_less power_int_strict_increasing one_less_numeral_iff semiring_norm(76))

lemma powi_less: "(2::rat) powi m < 2 powi n \<longleftrightarrow> m < n"
  using powi_le [of n m] by (simp add: not_le [symmetric])

lemma exponent2_unique: "0 < r \<Longrightarrow> 2 powi e \<le> r \<Longrightarrow> r < 2 powi (e + 1) \<Longrightarrow> exponent2 r = e"
proof -
  assume r: "0 < r" and e: "2 powi e \<le> r" "r < 2 powi (e + 1)"
  note b = exponent2_bounds [OF r]
  have "2 powi e < (2::rat) powi (exponent2 r + 1)" "2 powi exponent2 r < (2::rat) powi (e + 1)"
    using b e by (meson order.strict_trans1)+
  then show ?thesis unfolding powi_less by linarith
qed

lemma exponent2_mono: "0 < r \<Longrightarrow> r \<le> s \<Longrightarrow> exponent2 r \<le> exponent2 s"
proof -
  assume r: "0 < r" "r \<le> s"
  have "2 powi exponent2 r < (2::rat) powi (exponent2 s + 1)"
    using exponent2_bounds [OF r(1)] exponent2_bounds [of s] r by (meson order.strict_trans1 order.strict_trans2 order.trans)
  then show ?thesis unfolding powi_less by linarith
qed

section \<open>Rounding\<close>

definition ulpExp :: "rat \<Rightarrow> int" where
  "ulpExp r = max (- 1074) (exponent2 \<bar>r\<bar> - 52)"

lemma ulpOf_powi: "ulpOf r = 2 powi ulpExp r"
  by (simp add: ulpOf_def ulpExp_def)

lemma ulpOf_pos [simp]: "0 < ulpOf r" "ulpOf r \<noteq> 0"
  by (simp_all add: ulpOf_powi)

lemma powi_multiple:
  assumes "e \<le> m"
  obtains k :: int where "(2::rat) powi m = of_int k * 2 powi e"
proof
  show "(2::rat) powi m = of_int (2 ^ nat (m - e)) * 2 powi e"
    using assms by (simp add: power_int_diff flip: power_int_of_nat)
qed

lemma multiple_trans:
  assumes "x = of_int k * (2::rat) powi m" and "e \<le> m"
  obtains j where "x = of_int j * 2 powi e"
proof -
  obtain i :: int where i: "(2::rat) powi m = of_int i * 2 powi e" by (rule powi_multiple [OF assms(2)])
  have "x = of_int (k * i) * 2 powi e" by (simp add: assms(1) i)
  then show thesis by (rule that)
qed

lemma fround_minus [simp]: "fround (- r) = - fround r"
  by (simp add: fround_def ulpOf_def nearestEven_minus)

lemma fround_0 [simp]: "fround 0 = 0"
  by (simp add: fround_def)

lemma fround_grid: "r = of_int k * ulpOf r \<Longrightarrow> fround r = r"
proof -
  assume r: "r = of_int k * ulpOf r"
  then have "r / ulpOf r = of_int k" by (metis nonzero_mult_div_cancel_right ulpOf_pos(2))
  then show ?thesis using r by (simp add: fround_def)
qed

lemma fround_ge_grid: "r \<noteq> 0 \<Longrightarrow> of_int k * ulpOf r \<le> r \<Longrightarrow> of_int k * ulpOf r \<le> fround r"
  by (simp add: fround_def) (metis nearestEven_ge of_int_le_iff pos_le_divide_eq ulpOf_pos(1))

lemma fround_le_grid: "r \<noteq> 0 \<Longrightarrow> r \<le> of_int k * ulpOf r \<Longrightarrow> fround r \<le> of_int k * ulpOf r"
  by (simp add: fround_def) (metis nearestEven_le of_int_le_iff pos_divide_le_eq ulpOf_pos(1))

lemma fround_nonneg: "0 \<le> r \<Longrightarrow> 0 \<le> fround r"
  using fround_ge_grid [of r 0] by (cases "r = 0") simp_all

lemma fround_mono_pos:
  assumes "0 < r" and "r \<le> s"
  shows "fround r \<le> fround s"
proof -
  have s: "0 < s" using assms by simp
  note e = exponent2_mono [OF assms]
  show ?thesis
  proof (cases "ulpExp r = ulpExp s")
    case True
    then have "ulpOf r = ulpOf s" by (simp add: ulpOf_powi)
    moreover have "r / ulpOf s \<le> s / ulpOf s" using assms by (intro divide_right_mono) (auto intro: less_imp_le)
    ultimately show ?thesis using assms s by (simp add: fround_def nearestEven_mono mult_right_mono less_imp_le)
  next
    case False
    let ?B = "(2::rat) powi exponent2 s"
    have less: "exponent2 r + 1 \<le> exponent2 s" "- 1074 \<le> exponent2 s"
      using False e assms s by (auto simp: ulpExp_def max_def split: if_splits)
    have B: "r \<le> ?B" "?B \<le> s"
      using exponent2_bounds [OF assms(1)] exponent2_bounds [OF s] less(1) powi_le [of "exponent2 r + 1" "exponent2 s"] by linarith+
    have "ulpExp r \<le> exponent2 s" "ulpExp s \<le> exponent2 s" using less assms s by (auto simp: ulpExp_def)
    then obtain j k :: int where "?B = of_int j * ulpOf r" "?B = of_int k * ulpOf s"
      unfolding ulpOf_powi by (metis powi_multiple)
    with B have "fround r \<le> ?B" "?B \<le> fround s"
      using fround_le_grid [of r j] fround_ge_grid [of s k] assms s by simp_all
    then show ?thesis by (rule order.trans)
  qed
qed

lemma fround_mono: "r \<le> s \<Longrightarrow> fround r \<le> fround s"
proof -
  assume rs: "r \<le> s"
  consider "0 < r" | "r \<le> 0" "0 \<le> s" | "s < 0" by linarith
  then show ?thesis
  proof cases
    case 2
    then show ?thesis using fround_nonneg [of s] fround_nonneg [of "- r"] by simp
  next
    case 3
    then show ?thesis using fround_mono_pos [of "- s" "- r"] rs by simp
  qed (use rs fround_mono_pos in blast)
qed

section \<open>The representable values\<close>

lemma scaled_small:
  assumes "\<bar>k\<bar> < 2 ^ 53" and "- 1074 \<le> m"
  shows "isDouble (of_int k * 2 powi m)"
proof (cases "k = 0")
  case False
  let ?x = "of_int k * (2::rat) powi m"
  have pos: "0 < \<bar>?x\<bar>" using False by (simp add: abs_mult)
  have "(of_int \<bar>k\<bar> :: rat) < of_int (2 ^ 53)" using assms(1) by (simp only: of_int_less_iff)
  then have "\<bar>?x\<bar> < 2 ^ 53 * 2 powi m" by (simp add: abs_mult)
  also have "\<dots> = 2 powi (m + 53)" by (simp add: power_int_add)
  finally have "2 powi exponent2 \<bar>?x\<bar> < (2::rat) powi (m + 53)" using exponent2_bounds [OF pos] by linarith
  then have "ulpExp ?x \<le> m" using assms(2) unfolding powi_less by (simp add: ulpExp_def)
  then obtain j where "?x = of_int j * 2 powi ulpExp ?x" using multiple_trans by blast
  then show ?thesis unfolding isDouble_def by (intro fround_grid) (simp add: ulpOf_powi)
qed (simp add: isDouble_def)

lemma scaled_double:
  assumes "\<bar>k\<bar> \<le> 2 ^ 53" and "- 1074 \<le> m"
  shows "isDouble (of_int k * 2 powi m)"
proof (cases "\<bar>k\<bar> = 2 ^ 53")
  case True
  then have "k = 2 ^ 52 * 2 * sgn k" by (metis abs_mult_sgn power_Suc2 eval_nat_numeral(3))
  moreover define j where "j = 2 ^ 52 * sgn k"
  ultimately have "of_int k * (2::rat) powi m = of_int j * 2 powi (m + 1)"
    by (subst \<open>k = _\<close>) (simp add: power_int_add)
  moreover have "\<bar>j\<bar> < 2 ^ 53" by (simp add: j_def abs_mult sgn_if)
  ultimately show ?thesis using scaled_small [of j "m + 1"] assms(2) by simp
qed (use assms scaled_small in simp)

lemma whole_double: "\<bar>k\<bar> \<le> 2 ^ 53 \<Longrightarrow> isDouble (of_int k)"
  using scaled_double [of k 0] by simp

lemma double_form:
  assumes "isDouble x" and "x \<noteq> 0"
  obtains k where "x = of_int k * 2 powi ulpExp x"
  using assms that by (metis fround_def isDouble_def ulpOf_powi)

lemma double_ulps: "\<bar>x\<bar> \<le> 2 ^ 53 * 2 powi ulpExp x" if "x \<noteq> 0"
proof -
  have "\<bar>x\<bar> \<le> 2 powi (exponent2 \<bar>x\<bar> + 1)" using exponent2_bounds [of "\<bar>x\<bar>"] that by simp
  also have "\<dots> \<le> 2 powi (53 + ulpExp x)" unfolding powi_le by (simp add: ulpExp_def)
  also have "\<dots> = 2 ^ 53 * 2 powi ulpExp x" by (simp add: power_int_add)
  finally show ?thesis .
qed

lemma fround_double: "isDouble (fround r)"
proof (cases "r = 0")
  case False
  have "\<bar>r\<bar> \<le> of_int (2 ^ 53) * ulpOf r" using double_ulps [OF False] by (simp add: ulpOf_powi)
  then have "r / ulpOf r \<le> of_int (2 ^ 53)" "of_int (- (2 ^ 53)) \<le> r / ulpOf r"
    by (simp_all add: pos_divide_le_eq pos_le_divide_eq abs_le_iff)
  then have "\<bar>nearestEven (r / ulpOf r)\<bar> \<le> 2 ^ 53" using nearestEven_le nearestEven_ge by (metis abs_leI minus_le_iff)
  then show ?thesis using False scaled_double by (simp add: fround_def ulpOf_powi ulpExp_def)
qed (simp add: isDouble_def)

text \<open>The difference of two different floats does not vanish.\<close>

lemma double_multiple: "isDouble x \<Longrightarrow> \<exists>k. x = of_int k * 2 powi (- 1074)"
proof (cases "x = 0")
  case False
  assume "isDouble x"
  then obtain k where k: "x = of_int k * 2 powi ulpExp x" using False by (rule double_form)
  have "- 1074 \<le> ulpExp x" by (simp add: ulpExp_def)
  with k multiple_trans show ?thesis by metis
qed (rule exI [of _ 0], simp)

lemma difference_pos:
  assumes "isDouble x" and "isDouble y" and "x < y"
  shows "0 < fround (y - x)"
proof -
  obtain k j where k: "x = of_int k * 2 powi (- 1074)" "y = of_int j * 2 powi (- 1074)"
    using double_multiple assms(1,2) by metis
  with assms(3) have "k < j" by (simp add: mult_less_cancel_right)
  then have "(1::rat) \<le> of_int (j - k)" by (simp only: of_int_1_le_iff)
  then have "2 powi (- 1074) \<le> y - x" unfolding k by (simp add: left_diff_distrib [symmetric])
  from fround_mono [OF this] scaled_double [of 1 "- 1074"] show ?thesis by (simp add: isDouble_def less_le_trans)
qed

text \<open>Of two different floats the lesser is below the greater by one part in \<open>2 ^ 53\<close>.\<close>

lemma double_gap:
  assumes "isDouble n" and "isDouble d" and "0 < n" and "n < d"
  shows "n \<le> d * (1 - 2 powi (- 53))"
proof (cases "2 powi exponent2 d \<le> n")
  case True
  have "exponent2 n = exponent2 d"
    using True exponent2_bounds [of d] assms(3,4) by (intro exponent2_unique) auto
  then have u: "ulpExp n = ulpExp d" using assms(3,4) by (simp add: ulpExp_def)
  obtain k j where k: "n = of_int k * 2 powi ulpExp d" "d = of_int j * 2 powi ulpExp d"
    using double_form [OF assms(1)] double_form [OF assms(2)] assms(3,4) u by (metis less_irrefl less_trans)
  have "of_int k * 2 powi ulpExp d < of_int j * (2::rat) powi ulpExp d" using assms(4) k by simp
  then have "k < j" by (simp add: mult_less_cancel_right)
  then have "(of_int k :: rat) \<le> of_int j - 1" by (metis of_int_1 of_int_diff of_int_le_iff zle_diff1_eq)
  then have "n \<le> (of_int j - 1) * 2 powi ulpExp d" unfolding k(1) by (intro mult_right_mono) auto
  also have "\<dots> = d - 2 powi ulpExp d" unfolding left_diff_distrib k(2) [symmetric] by simp
  finally have "n \<le> d - 2 powi ulpExp d" .
  moreover have "d \<le> 2 ^ 53 * 2 powi ulpExp d" using double_ulps [of d] assms(3,4) by simp
  ultimately show ?thesis by (simp add: right_diff_distrib)
next
  case False
  let ?e = "exponent2 d"
  have d: "0 < d" using assms by simp
  have up: "2 powi ?e \<le> d" using exponent2_bounds [OF d] by simp
  have "n \<le> 2 powi ?e - 2 powi (?e - 53)"
  proof (rule ccontr)
    assume "\<not> ?thesis"
    then have big: "2 powi ?e - 2 powi (?e - 53) < n" by simp
    have "2 powi (?e - 53) \<le> (2::rat) powi (?e - 1)" unfolding powi_le by simp
    moreover have "(2::rat) powi ?e = 2 * 2 powi (?e - 1)" by (simp add: power_int_diff)
    ultimately have "2 powi (?e - 1) \<le> n" using big by linarith
    then have "exponent2 n = ?e - 1" using False assms(3) by (intro exponent2_unique) auto
    then have ue: "ulpExp n = max (- 1074) (?e - 53)" using assms(3) by (simp add: ulpExp_def)
    have "- 1074 \<le> ?e"
    proof -
      obtain j where "d = of_int j * 2 powi (- 1074)" using double_multiple [OF assms(2)] by blast
      moreover from this d have "0 < j" by (simp add: zero_less_mult_iff)
      ultimately have "2 powi (- 1074) \<le> d" by (simp add: mult_le_cancel_right1)
      then have "2 powi (- 1074) < (2::rat) powi (?e + 1)" using exponent2_bounds [OF d] by linarith
      then show ?thesis unfolding powi_less by simp
    qed
    then have "ulpExp n \<le> ?e" unfolding ue by simp
    then obtain i :: int where i: "(2::rat) powi ?e = of_int i * 2 powi ulpExp n" by (rule powi_multiple)
    obtain k where k: "n = of_int k * 2 powi ulpExp n" using double_form [OF assms(1)] assms(3) by blast
    have "of_int k * 2 powi ulpExp n < of_int i * (2::rat) powi ulpExp n" using False k i by simp
    then have "k < i" by (simp add: mult_less_cancel_right)
    then have "(of_int k :: rat) \<le> of_int i - 1" by (metis of_int_1 of_int_diff of_int_le_iff zle_diff1_eq)
    then have "n \<le> (of_int i - 1) * 2 powi ulpExp n" by (subst k) (intro mult_right_mono; simp)
    then have "n \<le> 2 powi ?e - 2 powi ulpExp n" unfolding left_diff_distrib i [symmetric] by simp
    moreover have "2 powi (?e - 53) \<le> (2::rat) powi ulpExp n" unfolding powi_le ue by simp
    ultimately show False using big by linarith
  qed
  also have "\<dots> = 2 powi ?e * (1 - 2 powi (- 53))" by (simp add: power_int_diff right_diff_distrib)
  also have "\<dots> \<le> d * (1 - 2 powi (- 53))" using up by (intro mult_right_mono) simp_all
  finally show ?thesis .
qed

lemma fround_1 [simp]: "fround 1 = 1"
  using whole_double [of 1] by (simp add: isDouble_def)

text \<open>So the quotient of two floats reaches one exactly when the dividend reaches the divisor.\<close>

lemma quotient_reaches:
  assumes "isDouble n" and "isDouble d" and "0 < d"
  shows "1 \<le> fround (n / d) \<longleftrightarrow> d \<le> n"
proof
  assume "d \<le> n"
  then have "1 \<le> n / d" using assms(3) by simp
  from fround_mono [OF this] show "1 \<le> fround (n / d)" by simp
next
  assume one: "1 \<le> fround (n / d)"
  show "d \<le> n"
  proof (rule ccontr)
    assume less: "\<not> d \<le> n"
    let ?b = "1 - (2::rat) powi (- 53)"
    have b: "isDouble ?b" using scaled_double [of "2 ^ 53 - 1" "- 53"] by simp
    have "n / d \<le> ?b"
    proof (cases "0 < n")
      case True
      with double_gap [OF assms(1,2)] less assms(3) show ?thesis by (simp add: pos_divide_le_eq mult.commute)
    next
      case False
      then have "n / d \<le> 0" using assms(3) by (simp add: divide_le_0_iff)
      also have "0 \<le> ?b" by simp
      finally show ?thesis .
    qed
    then have "fround (n / d) \<le> ?b" using fround_mono b unfolding isDouble_def by metis
    with one show False by simp
  qed
qed

end
