(* ===== verification/Vria_Approval.thy ===== *)
theory Vria_Approval
  imports Go_Base
begin

text \<open>
  The approval workflow of the value-realization service, \<open>vria/impl/internal/approval/approval.go\<close>
  with the state types of \<open>internal/enums\<close>: the two state machines, separation of duties, the
  publication gate and the append-only decision log.  The sentinel errors of the service's packages
  are the constructors of \<open>verror\<close>, each with the text wrapped around it; \<open>errors.Is\<close> is a test of
  the constructor.  The locale \<open>approval_desk\<close> is what the hypothesis and the scorecard service share:
  a table of requests and a decision on one of them.
\<close>

section \<open>Errors and states\<close>

datatype verror =
    ErrInvalidTransition string | ErrApprovalRequired | ErrTerminalState string
  | ErrSelfApproval | ErrNotDesignatedApprover | ErrDecisionFields
  | ErrNotFound string | ErrInvalidDraft "string list" | ErrAlreadyCommitted
  | ErrAlreadyPromoted | ErrRejectedRecords string | ErrDuplicateUseCase string
  | ErrNothingToPromote | ErrBatchIDRequired
  | ErrUnknownAssessment string | ErrReasonRequired | ErrBadActionType string

datatype ApprovalRequestState =
  ReqDraft | ReqSubmitted | ReqChangesRequested | ReqApproved | ReqRejected | ReqWithdrawn

fun requestStateStr :: "ApprovalRequestState \<Rightarrow> string" where
  "requestStateStr ReqDraft = ''Draft''"
| "requestStateStr ReqSubmitted = ''Submitted''"
| "requestStateStr ReqChangesRequested = ''ChangesRequested''"
| "requestStateStr ReqApproved = ''Approved''"
| "requestStateStr ReqRejected = ''Rejected''"
| "requestStateStr ReqWithdrawn = ''Withdrawn''"

datatype ArtifactState = ArtDraft | ArtApproved | ArtPublished | ArtSuperseded | ArtInvalidated

fun artifactStateStr :: "ArtifactState \<Rightarrow> string" where
  "artifactStateStr ArtDraft = ''Draft''"
| "artifactStateStr ArtApproved = ''Approved''"
| "artifactStateStr ArtPublished = ''Published''"
| "artifactStateStr ArtSuperseded = ''Superseded''"
| "artifactStateStr ArtInvalidated = ''Invalidated''"

section \<open>The state machines\<close>

fun requestTransitions :: "ApprovalRequestState \<Rightarrow> (string \<rightharpoonup> ApprovalRequestState) option" where
  "requestTransitions ReqDraft = Some [''submit_for_approval'' \<mapsto> ReqSubmitted, ''withdraw'' \<mapsto> ReqWithdrawn]"
| "requestTransitions ReqSubmitted =
     Some [''approve'' \<mapsto> ReqApproved, ''reject'' \<mapsto> ReqRejected, ''request_changes'' \<mapsto> ReqChangesRequested]"
| "requestTransitions ReqChangesRequested = Some [''resubmit'' \<mapsto> ReqSubmitted, ''withdraw'' \<mapsto> ReqWithdrawn]"
| "requestTransitions _ = None"

definition requestTransition :: "ApprovalRequestState \<Rightarrow> string \<Rightarrow> verror + ApprovalRequestState" where
  "requestTransition st action = (case requestTransitions st of
       None \<Rightarrow> Inl (ErrTerminalState (requestStateStr st))
     | Some actions \<Rightarrow> (case actions action of
           None \<Rightarrow> Inl (ErrInvalidTransition (action @ '' from '' @ requestStateStr st))
         | Some st' \<Rightarrow> Inr st'))"

fun artifactTransitions :: "ArtifactState \<Rightarrow> (string \<rightharpoonup> ArtifactState) option" where
  "artifactTransitions ArtDraft = Some [''approve'' \<mapsto> ArtApproved]"
| "artifactTransitions ArtApproved = Some [''publish'' \<mapsto> ArtPublished, ''supersede'' \<mapsto> ArtSuperseded]"
| "artifactTransitions ArtPublished = Some [''supersede'' \<mapsto> ArtSuperseded, ''invalidate'' \<mapsto> ArtInvalidated]"
| "artifactTransitions _ = None"

definition artifactTransition :: "ArtifactState \<Rightarrow> string \<Rightarrow> verror + ArtifactState" where
  "artifactTransition st action = (case artifactTransitions st of
       None \<Rightarrow> Inl (ErrTerminalState (artifactStateStr st))
     | Some actions \<Rightarrow> (case actions action of
           None \<Rightarrow> Inl (ErrInvalidTransition (action @ '' from '' @ artifactStateStr st))
         | Some st' \<Rightarrow> Inr st'))"

section \<open>Requests and their approvers\<close>

text \<open>The three descriptive fields that no code reads (risk tier, rationale, comments) are left out.\<close>

record Request =
  rq_ApprovalID :: string
  rq_ActionType :: string
  rq_TargetID :: string
  rq_TargetType :: string
  rq_RequestedBy :: string
  rq_ApproverIDs :: "string list"
  rq_State :: ApprovalRequestState
  rq_DecidedBy :: string

definition checkApprover :: "Request \<Rightarrow> string \<Rightarrow> string \<Rightarrow> verror option" where
  "checkApprover req action decidedBy =
     (if action \<noteq> ''approve'' then None
      else if decidedBy = [] then Some ErrApprovalRequired
      else if rq_RequestedBy req \<noteq> [] \<and> decidedBy = rq_RequestedBy req then Some ErrSelfApproval
      else if rq_ApproverIDs req \<noteq> [] \<and> decidedBy \<notin> set (rq_ApproverIDs req) then Some ErrNotDesignatedApprover
      else None)"

definition publishScorecard :: "string \<Rightarrow> ArtifactState \<Rightarrow> Request option \<Rightarrow> verror + ArtifactState" where
  "publishScorecard scorecardID artifact req = (case req of
       None \<Rightarrow> Inl ErrApprovalRequired
     | Some r \<Rightarrow>
         if rq_State r \<noteq> ReqApproved \<or> rq_ActionType r \<noteq> ''ScorecardPublication'' \<or> rq_TargetID r \<noteq> scorecardID
         then Inl ErrApprovalRequired
         else artifactTransition artifact ''publish'')"

section \<open>The decision log\<close>

record DecisionRecord =
  dr_DecisionRecordID :: string
  dr_DecisionType :: string
  dr_TargetID :: string
  dr_TargetType :: string
  dr_Decision :: string
  dr_Rationale :: string
  dr_DecidedBy :: string
  dr_ApprovalID :: string
  dr_CreatedAt :: int

definition logAppend :: "DecisionRecord \<Rightarrow> DecisionRecord list \<Rightarrow> verror + DecisionRecord list" where
  "logAppend r log = (if dr_DecidedBy r = [] \<or> dr_ApprovalID r = [] then Inl ErrDecisionFields else Inr (log @ [r]))"

section \<open>Decisions\<close>

text \<open>What the two services' \<open>Decide\<close> do to a request: the check, then the transition.\<close>

definition decideRequest :: "Request \<Rightarrow> string \<Rightarrow> string \<Rightarrow> verror + Request" where
  "decideRequest req action decidedBy = (case checkApprover req action decidedBy of
       Some e \<Rightarrow> Inl e
     | None \<Rightarrow> (case requestTransition (rq_State req) action of
           Inl e \<Rightarrow> Inl e
         | Inr next' \<Rightarrow> Inr (req\<lparr>rq_State := next', rq_DecidedBy := decidedBy\<rparr>)))"

text \<open>Duties are separated when an approved request was decided by someone other than its requester,
  on the allowlist if there is one.\<close>

definition dutiesSeparated :: "Request \<Rightarrow> bool" where
  "dutiesSeparated r \<longleftrightarrow> rq_State r = ReqApproved \<longrightarrow>
     rq_DecidedBy r \<noteq> [] \<and> rq_DecidedBy r \<noteq> rq_RequestedBy r
     \<and> (rq_ApproverIDs r = [] \<or> rq_DecidedBy r \<in> set (rq_ApproverIDs r))"

definition requestOpen :: "Request \<Rightarrow> bool" where
  "requestOpen r \<longleftrightarrow> rq_State r \<in> {ReqDraft, ReqSubmitted, ReqChangesRequested}"

lemma requestTransition_Inr:
  "requestTransition st a = Inr st' \<longleftrightarrow>
     (st = ReqDraft \<and> a = ''submit_for_approval'' \<and> st' = ReqSubmitted)
   \<or> (st = ReqDraft \<and> a = ''withdraw'' \<and> st' = ReqWithdrawn)
   \<or> (st = ReqSubmitted \<and> a = ''approve'' \<and> st' = ReqApproved)
   \<or> (st = ReqSubmitted \<and> a = ''reject'' \<and> st' = ReqRejected)
   \<or> (st = ReqSubmitted \<and> a = ''request_changes'' \<and> st' = ReqChangesRequested)
   \<or> (st = ReqChangesRequested \<and> a = ''resubmit'' \<and> st' = ReqSubmitted)
   \<or> (st = ReqChangesRequested \<and> a = ''withdraw'' \<and> st' = ReqWithdrawn)"
  by (cases st) (auto simp: requestTransition_def split: if_splits)

lemma artifactTransition_Inr:
  "artifactTransition st a = Inr st' \<longleftrightarrow>
     (st = ArtDraft \<and> a = ''approve'' \<and> st' = ArtApproved)
   \<or> (st = ArtApproved \<and> a = ''publish'' \<and> st' = ArtPublished)
   \<or> (st = ArtApproved \<and> a = ''supersede'' \<and> st' = ArtSuperseded)
   \<or> (st = ArtPublished \<and> a = ''supersede'' \<and> st' = ArtSuperseded)
   \<or> (st = ArtPublished \<and> a = ''invalidate'' \<and> st' = ArtInvalidated)"
  by (cases st) (auto simp: artifactTransition_def split: if_splits)

lemma decideRequest_Inr:
  assumes "decideRequest q a by' = Inr r"
  shows "dutiesSeparated r" and "requestOpen q"
    and "\<exists>st. r = q\<lparr>rq_State := st, rq_DecidedBy := by'\<rparr>"
    and "rq_State r = ReqApproved \<Longrightarrow> a = ''approve'' \<and> by' \<noteq> [] \<and> by' \<noteq> rq_RequestedBy q"
  using assms
  by (auto simp: decideRequest_def checkApprover_def dutiesSeparated_def requestOpen_def requestTransition_Inr
      split: option.splits sum.splits if_splits)

section \<open>The approval desk\<close>

text \<open>
  A service that keeps requests.  Its calls leave the table as it is, file a new request that nobody
  has decided yet, or decide one.  The invariant is the provider's own: it makes new ids new.
\<close>

locale approval_desk =
  fixes requestsOf :: "'s \<Rightarrow> string \<rightharpoonup> Request"
    and call :: "'s \<Rightarrow> 's \<Rightarrow> bool"
    and inv :: "'s \<Rightarrow> bool"
  assumes inv_call: "inv s \<Longrightarrow> call s s' \<Longrightarrow> inv s'"
    and calls: "inv s \<Longrightarrow> call s s' \<Longrightarrow>
      requestsOf s' = requestsOf s
    \<or> (\<exists>i q. requestsOf s i = None \<and> rq_State q = ReqSubmitted \<and> requestsOf s' = (requestsOf s)(i \<mapsto> q))
    \<or> (\<exists>i q a by' r. requestsOf s i = Some q \<and> decideRequest q a by' = Inr r
         \<and> requestsOf s' = (requestsOf s)(i \<mapsto> r))"
begin

lemma inv_calls: "call\<^sup>*\<^sup>* s s' \<Longrightarrow> inv s \<Longrightarrow> inv s'"
  by (induction rule: rtranclp_induct) (auto intro: inv_call)

definition deskInv :: "'s \<Rightarrow> bool" where
  "deskInv s \<longleftrightarrow> (\<forall>i r. requestsOf s i = Some r \<longrightarrow> dutiesSeparated r)"

lemma deskInv_call:
  assumes "deskInv s" and "inv s" and "call s s'"
  shows "deskInv s'"
proof -
  have submitted: "rq_State q = ReqSubmitted \<Longrightarrow> dutiesSeparated q" for q :: Request
    by (simp add: dutiesSeparated_def)
  show ?thesis
    using calls [OF assms(2,3)] assms(1)
    unfolding deskInv_def by (elim disjE exE conjE) (auto intro: submitted decideRequest_Inr(1))
qed

lemma deskInv_calls: "call\<^sup>*\<^sup>* s s' \<Longrightarrow> inv s \<Longrightarrow> deskInv s \<Longrightarrow> deskInv s'"
  by (induction rule: rtranclp_induct) (auto intro: deskInv_call inv_calls)

text \<open>A closed request is final, and a request never changes what it is about.\<close>

definition sameAbout :: "Request \<Rightarrow> Request \<Rightarrow> bool" where
  "sameAbout q r \<longleftrightarrow> rq_ApprovalID r = rq_ApprovalID q \<and> rq_ActionType r = rq_ActionType q
     \<and> rq_TargetID r = rq_TargetID q \<and> rq_RequestedBy r = rq_RequestedBy q \<and> (requestOpen q \<or> r = q)"

lemma request_call:
  assumes "inv s" and "call s s'" and "requestsOf s i = Some q"
  shows "\<exists>r. requestsOf s' i = Some r \<and> sameAbout q r"
proof -
  have decided: "decideRequest q a by' = Inr r \<Longrightarrow> sameAbout q r" for a by' r
    using decideRequest_Inr(2,3) [of q a by' r] by (auto simp: sameAbout_def)
  then show ?thesis
    using calls [OF assms(1,2)] assms(3) by (auto simp: sameAbout_def [of q q] split: if_splits)
qed

lemma request_calls:
  assumes "call\<^sup>*\<^sup>* s s'" and "inv s" and "requestsOf s i = Some q"
  shows "\<exists>r. requestsOf s' i = Some r \<and> sameAbout q r"
  using assms
proof (induction rule: rtranclp_induct)
  case (step y z)
  then obtain r where r: "requestsOf y i = Some r" "sameAbout q r" by blast
  with request_call [OF inv_calls [OF step.hyps(1) step.prems(1)] step.hyps(2) r(1)] show ?case
    by (auto simp: sameAbout_def)
qed (simp add: sameAbout_def)

text \<open>An approval stays an approval.\<close>

lemma approved_calls:
  "call\<^sup>*\<^sup>* s s' \<Longrightarrow> inv s \<Longrightarrow> requestsOf s i = Some r \<Longrightarrow> rq_State r = ReqApproved \<Longrightarrow> requestsOf s' i = Some r"
  using request_calls [of s s' i r] by (auto simp: sameAbout_def requestOpen_def)

end

end
