(* ===== verification/Vria_Scoring.thy ===== *)
theory Vria_Scoring
  imports Go_Float Vria_Approval
begin

text \<open>
  The deterministic scoring engine of the value-realization service, \<open>vria/impl/internal/scoring\<close>
  (\<open>scoring.go\<close>, \<open>gatea.go\<close>, \<open>sustainment.go\<close>) with its enumerations from \<open>internal/enums\<close>.  The
  enumerations that arrive from outside keep a constructor for any other string.

  The arithmetic on \<open>float64\<close> is that of \<open>Go_Float\<close>, rounded to 53 bits.
\<close>

section \<open>Enumerations\<close>

datatype ValueState =
  NotReady | HypothesisOnly | BaselineReady | OnTrack | AtRisk | Realized | NotRealized | Regressed | Unproven

datatype Recommendation =
  Build | ContinuePilot | Scale | Fix | Defer | Rebaseline | Stop | NeedsSponsor | NeedsEvidence

datatype Confidence = High | Medium | Low

datatype Freshness = Fresh | Aging | Stale | FreshnessUnknown | FreshnessOther string

datatype Authority = Authoritative | Secondary | AuthorityUnknown | AuthorityOther string

datatype AttributionMethod =
    DirectMeasurement | ABComparison | BeforeAfter | MatchedComparison | ExpertJudgement | ProxyMetric
  | AttributionUnknown | AttributionOther string

datatype NetValueCheck = NetPositive | NetNegative | NetNeutral | NetUnknown | NetNotApplicable | NetOther string

datatype SustainmentStatus = SustainNotStarted | SustainOk | SustainAtRisk | SustainRegressed

datatype UseCaseTier = TierTool | TierAgent | TierLayer | TierUnclassified | TierOther string

definition financialBenefit :: "string \<Rightarrow> bool" where
  "financialBenefit b \<longleftrightarrow> b \<in> {''Cost'', ''Productivity'', ''Revenue''}"

section \<open>The input and the result\<close>

record Input =
  in_ValueOwner :: string
  in_Sponsor :: string
  in_BusinessObjective :: string
  in_BenefitType :: string
  in_Tier :: UseCaseTier
  in_PrimaryMetricID :: string
  in_BaselineValue :: "f64 option"
  in_BaselinePeriodDefined :: bool
  in_BaselinePlanApproved :: bool
  in_CurrentValue :: "f64 option"
  in_TargetValue :: "f64 option"
  in_LowerIsBetter :: bool
  in_EvidenceAuthority :: Authority
  in_EvidenceFreshness :: Freshness
  in_AllCitationsPresent :: bool
  in_HasEvidenceSource :: bool
  in_OwnerAcceptedStale :: bool
  in_Attribution :: AttributionMethod
  in_ConfoundersDocumented :: int
  in_MaterialConfoundersUndocumented :: bool
  in_NetValue :: NetValueCheck
  in_NetValueRationale :: string
  in_Sustainment :: SustainmentStatus
  in_ApprovalBoundaryRecorded :: bool
  in_PolicyIssueUnresolved :: bool
  in_ArtifactState :: ArtifactState
  in_HasValueClaim :: bool
  in_DeliveryComplete :: bool

record Breakdown =
  bd_StrategicAlignment :: int
  bd_BaselineQuality :: int
  bd_EvidenceQuality :: int
  bd_MetricMovement :: int
  bd_AttributionConfidence :: int
  bd_NetValue :: int
  bd_Sustainment :: int
  bd_GovernanceReadiness :: int

definition bdTotal :: "Breakdown \<Rightarrow> int" where
  "bdTotal b = bd_StrategicAlignment b + bd_BaselineQuality b + bd_EvidenceQuality b + bd_MetricMovement b
     + bd_AttributionConfidence b + bd_NetValue b + bd_Sustainment b + bd_GovernanceReadiness b"

record Result =
  rs_PreCapScore :: int
  rs_Score :: int
  rs_PublicationScore :: int
  rs_Breakdown :: Breakdown
  rs_AppliedCaps :: "string list"
  rs_ValueState :: ValueState
  rs_Recommendation :: Recommendation
  rs_Confidence :: Confidence
  rs_MissingEvidence :: "string list"
  rs_SecurityEvent :: bool

section \<open>Components\<close>

definition strategicAlignment :: "Input \<Rightarrow> int" where
  "strategicAlignment i =
     (if in_BusinessObjective i \<noteq> [] \<and> in_Sponsor i \<noteq> [] then 10
      else if in_BusinessObjective i \<noteq> [] then 6 else 0)"

definition baselineQuality :: "Input \<Rightarrow> int" where
  "baselineQuality i =
     (if in_BaselineValue i \<noteq> None \<and> in_BaselinePeriodDefined i \<and> in_EvidenceAuthority i = Authoritative then 15
      else if in_BaselineValue i \<noteq> None \<and> in_BaselinePeriodDefined i then 10
      else if in_BaselineValue i \<noteq> None then 6
      else if in_BaselinePlanApproved i then 4 else 0)"

definition evidenceQuality :: "Input \<Rightarrow> int" where
  "evidenceQuality i =
     (case in_EvidenceAuthority i of Authoritative \<Rightarrow> 8 | Secondary \<Rightarrow> 4 | _ \<Rightarrow> 0)
     + (case in_EvidenceFreshness i of Fresh \<Rightarrow> 8 | Aging \<Rightarrow> 5 | Stale \<Rightarrow> 2 | _ \<Rightarrow> 0)
     + (if in_AllCitationsPresent i then 4 else 0)"

text \<open>\<open>Progress\<close>: the pair of the progress and \<open>ok\<close>.\<close>

definition progress :: "Input \<Rightarrow> f64 \<times> bool" where
  "progress i = (case (in_BaselineValue i, in_CurrentValue i, in_TargetValue i) of
       (Some b, Some c, Some t) \<Rightarrow>
         if \<not> finite64 b \<or> \<not> finite64 c \<or> \<not> finite64 t then (Fin 0, False)
         else let den = fsub t b in
           if den = Fin 0 then (Fin 0, False)
           else let p = fdiv (fsub c b) den in
             if p = FNaN then (Fin 0, False)
             else let p1 = (if flt p (Fin 0) then Fin 0 else p);
                      p2 = (if flt (Fin 1) p1 then Fin 1 else p1) in (p2, True)
     | _ \<Rightarrow> (Fin 0, False))"

definition metricMovement :: "Input \<Rightarrow> int" where
  "metricMovement i = (case progress i of (p, ok) \<Rightarrow> if \<not> ok then 0 else intRound (fmul20 p))"

definition attributionConfidence :: "Input \<Rightarrow> int" where
  "attributionConfidence i = (case in_Attribution i of
       DirectMeasurement \<Rightarrow> 10 | ABComparison \<Rightarrow> 10 | MatchedComparison \<Rightarrow> 7
     | BeforeAfter \<Rightarrow> (if 1 \<le> in_ConfoundersDocumented i then 6 else 4)
     | ExpertJudgement \<Rightarrow> 3 | ProxyMetric \<Rightarrow> 3 | _ \<Rightarrow> 0)"

definition netValue :: "Input \<Rightarrow> int" where
  "netValue i = (case in_NetValue i of
       NetPositive \<Rightarrow> 10
     | NetNotApplicable \<Rightarrow> (if in_NetValueRationale i \<noteq> [] then 8 else 0)
     | NetNeutral \<Rightarrow> 5 | _ \<Rightarrow> 0)"

definition sustainment :: "Input \<Rightarrow> int" where
  "sustainment i = (case in_Sustainment i of
       SustainOk \<Rightarrow> 10 | SustainNotStarted \<Rightarrow> 6 | SustainAtRisk \<Rightarrow> 4 | SustainRegressed \<Rightarrow> 0)"

definition governanceReadiness :: "Input \<Rightarrow> int" where
  "governanceReadiness i =
     (if in_ApprovalBoundaryRecorded i then 3 else 0) + (if \<not> in_PolicyIssueUnresolved i then 2 else 0)"

section \<open>State, confidence, recommendation\<close>

definition released :: "ArtifactState \<Rightarrow> bool" where
  "released a \<longleftrightarrow> a = ArtApproved \<or> a = ArtPublished"

definition realizedEligible :: "Input \<Rightarrow> bool" where
  "realizedEligible i =
     (if in_BaselineValue i = None \<or> in_CurrentValue i = None then False
      else if in_EvidenceAuthority i \<noteq> Authoritative then False
      else if in_EvidenceFreshness i \<noteq> Fresh \<and> \<not> (in_EvidenceFreshness i = Aging \<and> in_OwnerAcceptedStale i) then False
      else if in_Attribution i = AttributionUnknown then False
      else if in_Attribution i = ExpertJudgement then False
      else if in_MaterialConfoundersUndocumented i then False
      else if in_NetValue i \<noteq> NetPositive \<and> in_NetValue i \<noteq> NetNotApplicable then False
      else if financialBenefit (in_BenefitType i) \<and> in_NetValue i = NetNotApplicable then False
      else if \<not> released (in_ArtifactState i) then False
      else if in_Sustainment i = SustainRegressed then False
      else True)"

definition valueState :: "Input \<Rightarrow> ValueState" where
  "valueState i =
     (if in_Sustainment i = SustainRegressed then Regressed
      else if in_ValueOwner i = [] then NotReady
      else if in_HasValueClaim i \<and> \<not> in_HasEvidenceSource i then Unproven
      else if in_PrimaryMetricID i = [] then (if in_DeliveryComplete i then Unproven else HypothesisOnly)
      else if in_BaselineValue i = None then HypothesisOnly
      else if in_CurrentValue i = None \<or> in_TargetValue i = None then BaselineReady
      else let p = fst (progress i) in
        if \<not> flt p (Fin 1)
        then (if realizedEligible i then Realized
              else if in_NetValue i = NetNegative then NotRealized else AtRisk)
        else if in_NetValue i = NetNegative then AtRisk
        else if financialBenefit (in_BenefitType i) \<and> in_NetValue i = NetUnknown then AtRisk
        else if flt (Fin 0) p then OnTrack else AtRisk)"

definition confidence :: "Input \<Rightarrow> Confidence" where
  "confidence i =
     (if in_EvidenceAuthority i \<noteq> Authoritative \<or> in_Attribution i = AttributionUnknown
         \<or> in_Attribution i = ExpertJudgement \<or> in_Attribution i = ProxyMetric
         \<or> in_EvidenceFreshness i = Stale \<or> in_EvidenceFreshness i = FreshnessUnknown
         \<or> financialBenefit (in_BenefitType i) \<and> in_NetValue i = NetUnknown
      then Low
      else if in_EvidenceAuthority i = Authoritative \<and> in_EvidenceFreshness i = Fresh
         \<and> in_BaselineValue i \<noteq> None \<and> in_CurrentValue i \<noteq> None \<and> in_TargetValue i \<noteq> None
         \<and> \<not> in_MaterialConfoundersUndocumented i
      then High else Medium)"

definition missingEvidence :: "Input \<Rightarrow> string list" where
  "missingEvidence i =
     (if in_PrimaryMetricID i = [] then [''primary_metric_id''] else [])
     @ (if in_BaselineValue i = None then [''baseline_value''] else [])
     @ (if in_CurrentValue i = None then [''current_value''] else [])
     @ (if in_TargetValue i = None then [''target_value''] else [])
     @ (if \<not> in_HasEvidenceSource i then [''evidence_source''] else [])
     @ (if in_Attribution i = AttributionUnknown then [''attribution_method''] else [])
     @ (if financialBenefit (in_BenefitType i) \<and> in_NetValue i = NetUnknown then [''initiative_cost_period''] else [])"

text \<open>\<open>recommend\<close> reads the state, the score and the missing evidence of the result so far.\<close>

definition recommend :: "Input \<Rightarrow> ValueState \<Rightarrow> int \<Rightarrow> string list \<Rightarrow> Recommendation" where
  "recommend i st score missing =
     (if in_PolicyIssueUnresolved i then Defer
      else if st = Regressed then Fix
      else if in_NetValue i = NetNegative then Fix
      else if in_Sponsor i = [] \<and> in_Tier i = TierLayer then NeedsSponsor
      else if in_PrimaryMetricID i = [] \<or> in_BaselineValue i = None then NeedsEvidence
      else if st = Unproven then NeedsEvidence
      else if 85 \<le> score \<and> st = Realized then Scale
      else if 70 \<le> score \<and> st = OnTrack then ContinuePilot
      else if 50 \<le> score then (if missing \<noteq> [] then NeedsEvidence else Fix)
      else NeedsEvidence)"

section \<open>The score\<close>

definition breakdown :: "Input \<Rightarrow> Breakdown" where
  "breakdown i =
     \<lparr>bd_StrategicAlignment = strategicAlignment i, bd_BaselineQuality = baselineQuality i,
      bd_EvidenceQuality = evidenceQuality i, bd_MetricMovement = metricMovement i,
      bd_AttributionConfidence = attributionConfidence i, bd_NetValue = netValue i,
      bd_Sustainment = sustainment i, bd_GovernanceReadiness = governanceReadiness i\<rparr>"

text \<open>The caps that apply, in the order of the code.\<close>

definition caps :: "Input \<Rightarrow> (string \<times> int) list" where
  "caps i =
     (if in_PolicyIssueUnresolved i then [(''PolicyIssueUnresolved'', 0)] else [])
     @ (if in_ValueOwner i = [] then [(''NoValueOwner'', 29)] else [])
     @ (if in_PrimaryMetricID i = [] then [(''NoPrimaryMetric'', 39)] else [])
     @ (if in_BaselineValue i = None then [(''NoBaseline'', 49)] else [])
     @ (if in_CurrentValue i = None then [(''NoCurrentValue'', 59)] else [])
     @ (if in_EvidenceAuthority i \<noteq> Authoritative then [(''EvidenceNotAuthoritative'', 64)] else [])
     @ (if in_Attribution i = AttributionUnknown then [(''AttributionUnknown'', 69)] else [])
     @ (if in_MaterialConfoundersUndocumented i then [(''MaterialConfoundersUndocumented'', 74)] else [])
     @ (if in_NetValue i = NetUnknown \<and> financialBenefit (in_BenefitType i) then [(''NetValueUnknownFinancialClaim'', 74)] else [])
     @ (if in_EvidenceFreshness i = Stale \<and> \<not> in_OwnerAcceptedStale i then [(''EvidenceStale'', 79)] else [])"

definition applyCap :: "int \<Rightarrow> string \<times> int \<Rightarrow> int" where
  "applyCap c cap = (if snd cap < c then snd cap else c)"

definition score :: "Input \<Rightarrow> Result" where
  "score i =
     (let bd = breakdown i; pre = bdTotal bd; missing = missingEvidence i;
          capped = foldl applyCap pre (caps i); st = valueState i in
      \<lparr>rs_PreCapScore = pre, rs_Score = capped,
       rs_PublicationScore = (if \<not> released (in_ArtifactState i) \<and> 89 < capped then 89 else capped),
       rs_Breakdown = bd, rs_AppliedCaps = map fst (caps i), rs_ValueState = st,
       rs_Recommendation = recommend i st capped missing, rs_Confidence = confidence i,
       rs_MissingEvidence = missing, rs_SecurityEvent = in_PolicyIssueUnresolved i\<rparr>)"

section \<open>Gate A\<close>

record GateAInput =
  ga_ValueOwnerNamed :: bool
  ga_DeliveryOwnerNamed :: bool
  ga_SponsorResolved :: bool
  ga_ScopeAndTierClear :: bool
  ga_ExpectedBenefitStated :: bool
  ga_PrimaryMetricNamed :: bool
  ga_BaselineVerified :: bool
  ga_BaselinePlanApproved :: bool
  ga_TargetAndWindowDefined :: bool
  ga_EvidenceSourceNamed :: bool
  ga_ApprovalBoundaryLogged :: bool
  ga_DependenciesIdentified :: bool

definition gateAScore :: "GateAInput \<Rightarrow> int" where
  "gateAScore g =
     (if ga_ValueOwnerNamed g then 10 else 0) + (if ga_DeliveryOwnerNamed g then 5 else 0)
     + (if ga_SponsorResolved g then 5 else 0) + (if ga_ScopeAndTierClear g then 10 else 0)
     + (if ga_ExpectedBenefitStated g then 10 else 0) + (if ga_PrimaryMetricNamed g then 15 else 0)
     + (if ga_BaselineVerified g then 15 else if ga_BaselinePlanApproved g then 8 else 0)
     + (if ga_TargetAndWindowDefined g then 10 else 0) + (if ga_EvidenceSourceNamed g then 10 else 0)
     + (if ga_ApprovalBoundaryLogged g then 5 else 0) + (if ga_DependenciesIdentified g then 5 else 0)"

section \<open>Sustainment\<close>

record SustainmentCheck =
  sc_MeasuredBenefit :: "f64 option"
  sc_TargetValue :: f64
  sc_Threshold :: f64
  sc_SnapshotStale :: bool

definition checkFailed :: "SustainmentCheck \<Rightarrow> bool" where
  "checkFailed c = (case sc_MeasuredBenefit c of
       None \<Rightarrow> True
     | Some m \<Rightarrow>
         if sc_SnapshotStale c then True
         else let th = (if sc_Threshold c = Fin 0 then fin (4 / 5) else sc_Threshold c) in
           if sc_TargetValue c = Fin 0 then False
           else flt (fadd (fdiv m (sc_TargetValue c)) (fin (1 / 10 ^ 9))) th)"

text \<open>The loop's state: the run of failures and whether it has reached two.\<close>

fun foldChecks :: "int \<Rightarrow> bool \<Rightarrow> SustainmentCheck list \<Rightarrow> int \<times> bool" where
  "foldChecks consecutive regressed [] = (consecutive, regressed)"
| "foldChecks consecutive regressed (c # cs) =
     (if checkFailed c
      then let n = consecutive + 1 in foldChecks n (regressed \<or> 2 \<le> n) cs
      else foldChecks 0 False cs)"

definition evaluateSustainment :: "SustainmentCheck list \<Rightarrow> SustainmentStatus" where
  "evaluateSustainment history =
     (if history = [] then SustainNotStarted
      else case foldChecks 0 False history of (consecutive, regressed) \<Rightarrow>
        if regressed then SustainRegressed
        else if consecutive = 1 then SustainAtRisk
        else SustainOk)"

end
