(* ===== verification/Vria_Registry.thy ===== *)
theory Vria_Registry
  imports Vria_Scoring Go_Decimal
begin

text \<open>
  The use-case registry, \<open>vria/impl/internal/registry\<close>: the normalization of source rows
  (\<open>normalize.go\<close>), the in-memory store with its atomic promotion (\<open>store.go\<close>) and the import service
  (\<open>service.go\<close>).  A source row is a map from column names to texts, where an absent column reads
  as the empty string.  The optional columns that no code fills are left out of a use case.
\<close>

section \<open>Normalization\<close>

datatype DeliveryStatus =
    DSDraft | DSDiscovery | DSTraining | DSPTBNotStarted | DSPTBInProgress | DSPTBApproved
  | DSPTONotStarted | DSPTOInProgress | DSPTOApproved | DSInProgress | DSPilot | DSProduction
  | DSBlocked | DSStopped | DSUnknown

definition statusMapping :: "string \<rightharpoonup> DeliveryStatus" where
  "statusMapping = map_of
     [(''draft'', DSDraft), (''discovery'', DSDiscovery), (''training'', DSTraining),
      (''training; ptb not started; pending'', DSTraining), (''ptb'', DSPTBInProgress),
      (''ptb not started'', DSPTBNotStarted), (''ptb in progress'', DSPTBInProgress),
      (''ptb approved'', DSPTBApproved), (''pto not started'', DSPTONotStarted),
      (''pto in progress'', DSPTOInProgress), (''pto approved'', DSPTOApproved),
      (''in progress'', DSInProgress), (''pilot'', DSPilot), (''production'', DSProduction),
      (''blocked'', DSBlocked), (''stopped'', DSStopped), (''not captured'', DSUnknown), ([], DSUnknown)]"

definition ambiguousMarkers :: "string list" where
  "ambiguousMarkers = [''mixed'', ''not started/completed'', ''/completed/pending'']"

text \<open>The status and the error text, if any.\<close>

definition normalizeDeliveryStatus :: "string \<Rightarrow> DeliveryStatus \<times> string option" where
  "normalizeDeliveryStatus raw =
     (let key = toLower (trimSpace raw) in
      if \<exists>m \<in> set ambiguousMarkers. strContains key m
      then (DSUnknown, Some (''ambiguous/conflicting delivery status; surface to portfolio lead: '' @ goQuote raw))
      else case statusMapping key of
          Some st \<Rightarrow> (st, None)
        | None \<Rightarrow> (DSUnknown, Some (''unmapped delivery status; add to mapping table: '' @ goQuote raw)))"

record StagedRecord =
  sr_UseCaseID :: string
  sr_Name :: string
  sr_Tier :: UseCaseTier
  sr_DeliveryStatus :: DeliveryStatus
  sr_Errors :: "string list"

type_synonym row = "string \<rightharpoonup> string"

definition column :: "row \<Rightarrow> string \<Rightarrow> string" where
  "column r c = (case r c of None \<Rightarrow> [] | Some v \<Rightarrow> v)"

definition tierColumn :: "string \<Rightarrow> UseCaseTier" where
  "tierColumn v = (if v = ''Tool'' then TierTool else if v = ''Agent'' then TierAgent
     else if v = ''Layer'' then TierLayer else TierUnclassified)"

definition stageRow :: "row \<Rightarrow> StagedRecord" where
  "stageRow r = (case normalizeDeliveryStatus (column r ''delivery_status'') of (ds, e) \<Rightarrow>
     \<lparr>sr_UseCaseID = column r ''use_case_id'', sr_Name = column r ''name'', sr_Tier = tierColumn (column r ''tier''),
      sr_DeliveryStatus = ds,
      sr_Errors = (if column r ''use_case_id'' = [] then [''missing use_case_id''] else [])
        @ (if column r ''name'' = [] then [''missing name''] else []) @ (case e of None \<Rightarrow> [] | Some m \<Rightarrow> [m])\<rparr>)"

definition stageImport :: "row list \<Rightarrow> StagedRecord list \<times> int" where
  "stageImport rows =
     (let staged = map stageRow rows in (staged, int (length (filter (\<lambda>r. sr_Errors r \<noteq> []) staged))))"

section \<open>The store\<close>

record UseCase =
  uc_UseCaseID :: string
  uc_Name :: string
  uc_Tier :: UseCaseTier
  uc_Sponsor :: string
  uc_DeliveryStatus :: DeliveryStatus
  uc_ApprovalState :: ArtifactState
  uc_RecordVersion :: int
  uc_CreatedAt :: int
  uc_UpdatedAt :: int

record RegistryEvent =
  ae_AuditID :: string
  ae_ActorID :: string
  ae_Action :: string
  ae_TargetType :: string
  ae_TargetID :: string
  ae_CreatedAt :: int

record ImportBatch =
  ib_ImportBatchID :: string
  ib_SourceID :: string
  ib_RequestedBy :: string
  ib_Staged :: "StagedRecord list"
  ib_Promoted :: bool
  ib_CreatedAt :: int

record MemStore =
  ms_batches :: "string \<rightharpoonup> ImportBatch"
  ms_useCases :: "string \<rightharpoonup> UseCase"
  ms_order :: "string list"
  ms_audit :: "RegistryEvent list"
  ms_seq :: nat

definition newMemStore :: MemStore where
  "newMemStore = \<lparr>ms_batches = Map.empty, ms_useCases = Map.empty, ms_order = [], ms_audit = [], ms_seq = 0\<rparr>"

definition stageBatch :: "ImportBatch \<Rightarrow> MemStore \<Rightarrow> verror + MemStore" where
  "stageBatch b s =
     (if ib_ImportBatchID b = [] then Inl ErrBatchIDRequired
      else Inr (s\<lparr>ms_batches := (ms_batches s)(ib_ImportBatchID b \<mapsto> b)\<rparr>))"

definition getBatch :: "string \<Rightarrow> MemStore \<Rightarrow> verror + ImportBatch" where
  "getBatch i s = (case ms_batches s i of None \<Rightarrow> Inl (ErrNotFound i) | Some b \<Rightarrow> Inr b)"

text \<open>The validation loop: the rows to promote, or the error that aborts the promotion.\<close>

fun promotable :: "bool \<Rightarrow> (string \<rightharpoonup> UseCase) \<Rightarrow> StagedRecord list \<Rightarrow> verror + StagedRecord list" where
  "promotable failOnRejected known [] = Inr []"
| "promotable failOnRejected known (r # rs) =
     (if sr_Errors r \<noteq> []
      then (if failOnRejected then Inl (ErrRejectedRecords (sr_UseCaseID r)) else promotable failOnRejected known rs)
      else if known (sr_UseCaseID r) \<noteq> None then Inl (ErrDuplicateUseCase (sr_UseCaseID r))
      else map_sum id (Cons r) (promotable failOnRejected known rs))"

definition promotedCase :: "int \<Rightarrow> StagedRecord \<Rightarrow> UseCase" where
  "promotedCase t r =
     \<lparr>uc_UseCaseID = sr_UseCaseID r, uc_Name = sr_Name r, uc_Tier = sr_Tier r, uc_Sponsor = [],
      uc_DeliveryStatus = sr_DeliveryStatus r, uc_ApprovalState = ArtDraft, uc_RecordVersion = 1,
      uc_CreatedAt = t, uc_UpdatedAt = t\<rparr>"

definition addUseCase :: "MemStore \<Rightarrow> UseCase \<Rightarrow> MemStore" where
  "addUseCase s uc = s\<lparr>ms_useCases := (ms_useCases s)(uc_UseCaseID uc \<mapsto> uc), ms_order := ms_order s @ [uc_UseCaseID uc]\<rparr>"

definition promoteBatch :: "int \<Rightarrow> string \<Rightarrow> string \<Rightarrow> bool \<Rightarrow> MemStore \<Rightarrow> verror + (UseCase list \<times> MemStore)" where
  "promoteBatch t i actorID failOnRejected s = (case ms_batches s i of
       None \<Rightarrow> Inl (ErrNotFound i)
     | Some b \<Rightarrow>
         if ib_Promoted b then Inl ErrAlreadyPromoted
         else case promotable failOnRejected (ms_useCases s) (ib_Staged b) of
             Inl e \<Rightarrow> Inl e
           | Inr rows \<Rightarrow>
               if rows = [] then Inl ErrNothingToPromote
               else
                 let promoted = map (promotedCase t) rows;
                     s1 = foldl addUseCase s promoted;
                     audit = \<lparr>ae_AuditID = numberedID ''aud'' (ms_seq s + 1), ae_ActorID = actorID,
                         ae_Action = ''registry.promote_batch'', ae_TargetType = ''ImportBatch'',
                         ae_TargetID = i, ae_CreatedAt = t\<rparr>
                 in Inr (promoted, s1\<lparr>ms_batches := (ms_batches s)(i \<mapsto> b\<lparr>ib_Promoted := True\<rparr>),
                      ms_audit := ms_audit s @ [audit], ms_seq := ms_seq s + 1\<rparr>))"

text \<open>A listed id without a row reads as the zero use case, as Go's map access does.\<close>

definition zeroUseCase :: UseCase where
  "zeroUseCase = \<lparr>uc_UseCaseID = [], uc_Name = [], uc_Tier = TierOther [], uc_Sponsor = [],
     uc_DeliveryStatus = DSUnknown, uc_ApprovalState = ArtDraft, uc_RecordVersion = 0, uc_CreatedAt = 0, uc_UpdatedAt = 0\<rparr>"

definition listUseCases :: "MemStore \<Rightarrow> UseCase list" where
  "listUseCases s = map (\<lambda>i. case ms_useCases s i of Some uc \<Rightarrow> uc | None \<Rightarrow> zeroUseCase) (ms_order s)"

definition getUseCase :: "string \<Rightarrow> MemStore \<Rightarrow> verror + UseCase" where
  "getUseCase i s = (case ms_useCases s i of None \<Rightarrow> Inl (ErrNotFound i) | Some uc \<Rightarrow> Inr uc)"

definition msAppendAudit :: "int \<Rightarrow> RegistryEvent \<Rightarrow> MemStore \<Rightarrow> MemStore" where
  "msAppendAudit t e s =
     (let s1 = (if ae_AuditID e = [] then s\<lparr>ms_seq := ms_seq s + 1\<rparr> else s);
          e1 = (if ae_AuditID e = [] then e\<lparr>ae_AuditID := numberedID ''aud'' (ms_seq s1)\<rparr> else e);
          e2 = (if ae_CreatedAt e1 = 0 then e1\<lparr>ae_CreatedAt := t\<rparr> else e1)
      in s1\<lparr>ms_audit := ms_audit s1 @ [e2]\<rparr>)"

section \<open>The import service\<close>

record ImportResult =
  ir_ImportBatchID :: string
  ir_RecordsLoaded :: int
  ir_RecordsRejected :: int
  ir_ValidationErrors :: "(string \<times> string) list"
  ir_AuditID :: string

text \<open>The service's own counter numbers batches and audit ids.  A validation error is the row's id and
  the message; its field and code are constants.\<close>

definition importRows :: "int \<Rightarrow> string \<Rightarrow> string \<Rightarrow> row list \<Rightarrow> nat \<times> MemStore \<Rightarrow> (verror + ImportResult) \<times> (nat \<times> MemStore)" where
  "importRows t sourceID requestedBy rows = (\<lambda>(seq, store).
     case stageImport rows of (staged, rejected) \<Rightarrow>
       let batchID = numberedID ''imp'' (seq + 1) in
       case stageBatch \<lparr>ib_ImportBatchID = batchID, ib_SourceID = sourceID, ib_RequestedBy = requestedBy,
           ib_Staged = staged, ib_Promoted = False, ib_CreatedAt = t\<rparr> store of
         Inl e \<Rightarrow> (Inl e, (seq + 1, store))
       | Inr store1 \<Rightarrow>
           let auditID = numberedID ''aud'' (seq + 2);
               store2 = msAppendAudit t \<lparr>ae_AuditID = auditID, ae_ActorID = requestedBy,
                 ae_Action = ''registry.import_staged'', ae_TargetType = ''ImportBatch'',
                 ae_TargetID = batchID, ae_CreatedAt = 0\<rparr> store1
           in (Inr \<lparr>ir_ImportBatchID = batchID, ir_RecordsLoaded = int (length staged) - rejected,
                 ir_RecordsRejected = rejected,
                 ir_ValidationErrors = concat (map (\<lambda>r. map (Pair (sr_UseCaseID r)) (sr_Errors r)) staged),
                 ir_AuditID = auditID\<rparr>, (seq + 2, store2)))"

definition promoteImport :: "int \<Rightarrow> string \<Rightarrow> string \<Rightarrow> MemStore \<Rightarrow> verror + (UseCase list \<times> MemStore)" where
  "promoteImport t batchID actorID s = promoteBatch t batchID actorID False s"

end
