(* ===== verification/Vria_Hypothesis.thy ===== *)
theory Vria_Hypothesis
  imports Vria_Scoring Go_Decimal
begin

text \<open>
  \<open>vria/impl/internal/hypothesis/hypothesis.go\<close>: value-hypothesis drafts, their validation, the
  approval requests for them and the commit of an approved draft.  A proposed change set, a Go map of
  decoded JSON values, is the list of its entries in an iteration order; the enumerations in it are
  read from their strings.  A service records the calls it makes to the audit sink in order.
\<close>

section \<open>JSON values\<close>

datatype Json = JNull | JBool bool | JNum f64 | JStr string | JArr "Json list" | JObj "(string \<times> Json) list"

text \<open>\<open>%T\<close> of a decoded value.\<close>

fun goTypeOf :: "Json \<Rightarrow> string" where
  "goTypeOf JNull = ''<nil>''"
| "goTypeOf (JBool _) = ''bool''"
| "goTypeOf (JNum _) = ''float64''"
| "goTypeOf (JStr _) = ''string''"
| "goTypeOf (JArr _) = ''[]interface {}''"
| "goTypeOf (JObj _) = ''map[string]interface {}''"

text \<open>The conversions \<open>enums.AttributionMethod(v)\<close> and \<open>enums.NetValueCheck(v)\<close> accept any string.\<close>

definition attributionOf :: "string \<Rightarrow> AttributionMethod" where
  "attributionOf v =
     (if v = ''DirectMeasurement'' then DirectMeasurement else if v = ''A_BComparison'' then ABComparison
      else if v = ''BeforeAfter'' then BeforeAfter else if v = ''MatchedComparison'' then MatchedComparison
      else if v = ''ExpertJudgement'' then ExpertJudgement else if v = ''ProxyMetric'' then ProxyMetric
      else if v = ''Unknown'' then AttributionUnknown else AttributionOther v)"

definition netValueOf :: "string \<Rightarrow> NetValueCheck" where
  "netValueOf v =
     (if v = ''Positive'' then NetPositive else if v = ''Negative'' then NetNegative
      else if v = ''Neutral'' then NetNeutral else if v = ''Unknown'' then NetUnknown
      else if v = ''NotApplicable'' then NetNotApplicable else NetOther v)"

section \<open>State\<close>

record Hypothesis =
  vh_ValueHypothesisID :: string
  vh_UseCaseID :: string
  vh_BusinessObjective :: string
  vh_ExpectedBenefit :: string
  vh_BenefitType :: string
  vh_PrimaryMetricID :: string
  vh_BaselineValue :: "f64 option"
  vh_TargetValue :: "f64 option"
  vh_AttributionMethod :: AttributionMethod
  vh_KnownConfounders :: "string list"
  vh_NetValueCheck :: NetValueCheck
  vh_ValueOwner :: string
  vh_ApprovalState :: ArtifactState
  vh_RecordVersion :: int
  vh_CreatedAt :: int

definition allowedFields :: "string list" where
  "allowedFields =
     [''tier'', ''domain'', ''value_owner'', ''delivery_owner'', ''sponsor'', ''primary_metric_id'',
      ''expected_benefit'', ''attribution_method'', ''known_confounders'', ''initiative_cost_period'',
      ''net_value_check'', ''business_objective'', ''benefit_type'', ''baseline_value'', ''target_value'']"

definition numberFields :: "string list" where
  "numberFields = [''baseline_value'', ''target_value'']"

record Draft =
  dt_DraftID :: string
  dt_UseCaseID :: string
  dt_Proposed :: "(string \<times> Json) list"
  dt_Valid :: bool
  dt_ValidationErrors :: "string list"
  dt_Committed :: bool
  dt_CreatedBy :: string
  dt_CreatedAt :: int

record AuditCall =
  au_Action :: string
  au_TargetType :: string
  au_TargetID :: string
  au_ActorID :: string

record HypService =
  hy_byUC :: "string \<rightharpoonup> Hypothesis"
  hy_drafts :: "string \<rightharpoonup> Draft"
  hy_requests :: "string \<rightharpoonup> Request"
  hy_seq :: nat
  hy_sink :: "AuditCall list"

definition newHypService :: HypService where
  "newHypService = \<lparr>hy_byUC = Map.empty, hy_drafts = Map.empty, hy_requests = Map.empty, hy_seq = 0, hy_sink = []\<rparr>"

definition hyAudit :: "string \<Rightarrow> string \<Rightarrow> string \<Rightarrow> string \<Rightarrow> HypService \<Rightarrow> HypService" where
  "hyAudit action targetType targetID actorID s =
     s\<lparr>hy_sink := hy_sink s @ [\<lparr>au_Action = action, au_TargetType = targetType, au_TargetID = targetID, au_ActorID = actorID\<rparr>]\<rparr>"

section \<open>Reading\<close>

definition missingRequired :: "Hypothesis \<Rightarrow> string list" where
  "missingRequired h =
     (if vh_ValueOwner h = [] then [''value_owner''] else [])
     @ (if vh_ExpectedBenefit h = [] then [''expected_benefit''] else [])
     @ (if vh_PrimaryMetricID h = [] then [''primary_metric_id''] else [])
     @ (if vh_BaselineValue h = None then [''baseline_value''] else [])
     @ (if vh_TargetValue h = None then [''target_value''] else [])"

definition hyGet :: "string \<Rightarrow> HypService \<Rightarrow> verror + (Hypothesis \<times> string list)" where
  "hyGet useCaseID s = (case hy_byUC s useCaseID of
       None \<Rightarrow> Inl (ErrNotFound useCaseID)
     | Some h \<Rightarrow> Inr (h, missingRequired h))"

section \<open>Drafts\<close>

definition fieldErrors :: "string \<times> Json \<Rightarrow> string list" where
  "fieldErrors = (\<lambda>(field, val).
     if field \<notin> set allowedFields
     then [''field not permitted by draft_use_case_update contract: '' @ field]
     else if field \<in> set numberFields
     then (case val of
         JNum _ \<Rightarrow> [] | JNull \<Rightarrow> []
       | _ \<Rightarrow> [field @ '' must be a number, got '' @ goTypeOf val])
     else [])"

definition createDraft :: "int \<Rightarrow> string \<Rightarrow> string \<Rightarrow> (string \<times> Json) list \<Rightarrow> HypService \<Rightarrow> Draft \<times> HypService" where
  "createDraft t useCaseID actorID proposed s =
     (let seq = hy_seq s + 1; errs = concat (map fieldErrors proposed);
          d = \<lparr>dt_DraftID = numberedID ''drf'' seq, dt_UseCaseID = useCaseID, dt_Proposed = proposed,
            dt_Valid = (errs = []), dt_ValidationErrors = errs, dt_Committed = False,
            dt_CreatedBy = actorID, dt_CreatedAt = t\<rparr>
      in (d, hyAudit ''hypothesis.draft_created'' ''Draft'' (dt_DraftID d) actorID
            (s\<lparr>hy_seq := seq, hy_drafts := (hy_drafts s)(dt_DraftID d \<mapsto> d)\<rparr>)))"

definition hySubmit :: "string \<Rightarrow> string \<Rightarrow> HypService \<Rightarrow> verror + (Request \<times> HypService)" where
  "hySubmit draftID requestedBy s = (case hy_drafts s draftID of
       None \<Rightarrow> Inl (ErrNotFound draftID)
     | Some d \<Rightarrow>
         if \<not> dt_Valid d then Inl (ErrInvalidDraft (dt_ValidationErrors d))
         else
           let seq = hy_seq s + 1;
               req = \<lparr>rq_ApprovalID = numberedID ''apr'' seq, rq_ActionType = ''RegistryUpdate'', rq_TargetID = draftID,
                 rq_TargetType = ''UseCase'', rq_RequestedBy = requestedBy, rq_ApproverIDs = [],
                 rq_State = ReqSubmitted, rq_DecidedBy = []\<rparr>
           in Inr (req, hyAudit ''approval.submitted'' ''ApprovalRequest'' (rq_ApprovalID req) requestedBy
                 (s\<lparr>hy_seq := seq, hy_requests := (hy_requests s)(rq_ApprovalID req \<mapsto> req)\<rparr>)))"

definition hyDecide :: "string \<Rightarrow> string \<Rightarrow> string \<Rightarrow> HypService \<Rightarrow> verror + (Request \<times> HypService)" where
  "hyDecide approvalID action decidedBy s = (case hy_requests s approvalID of
       None \<Rightarrow> Inl (ErrNotFound approvalID)
     | Some req \<Rightarrow> (case decideRequest req action decidedBy of
           Inl e \<Rightarrow> Inl e
         | Inr req' \<Rightarrow> Inr (req', hyAudit ''approval.decided'' ''ApprovalRequest'' approvalID decidedBy
               (s\<lparr>hy_requests := (hy_requests s)(approvalID \<mapsto> req')\<rparr>))))"

section \<open>Commit\<close>

definition stringField :: "string \<Rightarrow> (string \<times> Json) list \<Rightarrow> string option" where
  "stringField f p = (case map_of p f of Some (JStr v) \<Rightarrow> Some v | _ \<Rightarrow> None)"

definition numberField :: "string \<Rightarrow> (string \<times> Json) list \<Rightarrow> f64 option" where
  "numberField f p = (case map_of p f of Some (JNum v) \<Rightarrow> Some v | _ \<Rightarrow> None)"

definition setIf :: "'b option \<Rightarrow> ('b \<Rightarrow> 'a \<Rightarrow> 'a) \<Rightarrow> 'a \<Rightarrow> 'a" where
  "setIf v f h = (case v of None \<Rightarrow> h | Some x \<Rightarrow> f x h)"

definition confounders :: "(string \<times> Json) list \<Rightarrow> string list option" where
  "confounders p = (case map_of p ''known_confounders'' of
       Some (JArr vs) \<Rightarrow> Some (List.map_filter (\<lambda>v. case v of JStr c \<Rightarrow> Some c | _ \<Rightarrow> None) vs)
     | _ \<Rightarrow> None)"

definition applyChanges :: "(string \<times> Json) list \<Rightarrow> Hypothesis \<Rightarrow> Hypothesis" where
  "applyChanges p h =
     setIf (confounders p) (\<lambda>v. vh_KnownConfounders_update (\<lambda>_. v))
    (setIf (numberField ''target_value'' p) (\<lambda>v. vh_TargetValue_update (\<lambda>_. Some v))
    (setIf (numberField ''baseline_value'' p) (\<lambda>v. vh_BaselineValue_update (\<lambda>_. Some v))
    (setIf (stringField ''net_value_check'' p) (\<lambda>v. vh_NetValueCheck_update (\<lambda>_. netValueOf v))
    (setIf (stringField ''attribution_method'' p) (\<lambda>v. vh_AttributionMethod_update (\<lambda>_. attributionOf v))
    (setIf (stringField ''value_owner'' p) (\<lambda>v. vh_ValueOwner_update (\<lambda>_. v))
    (setIf (stringField ''primary_metric_id'' p) (\<lambda>v. vh_PrimaryMetricID_update (\<lambda>_. v))
    (setIf (stringField ''benefit_type'' p) (\<lambda>v. vh_BenefitType_update (\<lambda>_. v))
    (setIf (stringField ''expected_benefit'' p) (\<lambda>v. vh_ExpectedBenefit_update (\<lambda>_. v))
    (setIf (stringField ''business_objective'' p) (\<lambda>v. vh_BusinessObjective_update (\<lambda>_. v)) h)))))))))"

definition newHypothesis :: "int \<Rightarrow> string \<Rightarrow> string \<Rightarrow> Hypothesis" where
  "newHypothesis t i useCaseID =
     \<lparr>vh_ValueHypothesisID = i, vh_UseCaseID = useCaseID, vh_BusinessObjective = [], vh_ExpectedBenefit = [],
      vh_BenefitType = [], vh_PrimaryMetricID = [], vh_BaselineValue = None, vh_TargetValue = None,
      vh_AttributionMethod = AttributionUnknown, vh_KnownConfounders = [], vh_NetValueCheck = NetUnknown,
      vh_ValueOwner = [], vh_ApprovalState = ArtDraft, vh_RecordVersion = 0, vh_CreatedAt = t\<rparr>"

definition hyCommit :: "int \<Rightarrow> string \<Rightarrow> string \<Rightarrow> string \<Rightarrow> HypService \<Rightarrow> verror + (Hypothesis \<times> HypService)" where
  "hyCommit t draftID approvalID actorID s = (case hy_drafts s draftID of
       None \<Rightarrow> Inl (ErrNotFound draftID)
     | Some d \<Rightarrow>
         if dt_Committed d then Inl ErrAlreadyCommitted
         else if (case hy_requests s approvalID of
             None \<Rightarrow> True
           | Some r \<Rightarrow> rq_State r \<noteq> ReqApproved \<or> rq_ActionType r \<noteq> ''RegistryUpdate'' \<or> rq_TargetID r \<noteq> draftID)
         then Inl ErrApprovalRequired
         else
           let (h, seq) = (case hy_byUC s (dt_UseCaseID d) of
                 Some h \<Rightarrow> (h, hy_seq s)
               | None \<Rightarrow> (newHypothesis t (numberedID ''vh'' (hy_seq s + 1)) (dt_UseCaseID d), hy_seq s + 1));
               h1 = applyChanges (dt_Proposed d) h;
               h2 = h1\<lparr>vh_RecordVersion := vh_RecordVersion h1 + 1, vh_ApprovalState := ArtApproved\<rparr>
           in Inr (h2, hyAudit ''hypothesis.committed'' ''ValueHypothesis'' (vh_ValueHypothesisID h2) actorID
                 (s\<lparr>hy_seq := seq, hy_byUC := (hy_byUC s)(dt_UseCaseID d \<mapsto> h2),
                    hy_drafts := (hy_drafts s)(draftID \<mapsto> d\<lparr>dt_Committed := True\<rparr>)\<rparr>)))"

end
