(* ===== verification/Vria_Assessment.thy ===== *)
theory Vria_Assessment
  imports Vria_Hypothesis
begin

text \<open>
  Assessment generation and the sustainment scheduler, \<open>vria/impl/internal/assessment\<close>
  (\<open>assessment.go\<close>, \<open>sustainment.go\<close>).  The service keeps every assessment for ever, numbered per
  use case; the scheduler appends one check per reporting window to a use case whose latest assessment
  is \<open>Realized\<close>.  The hypothesis source and the registry lookup are the values they return; the metric
  provider is the in-memory one, part of the service's state.  Times are nanoseconds since Go's zero
  time; the version stamps are constants and left out.
\<close>

section \<open>State\<close>

record MetricSnapshot =
  sn_BaselineValue :: "f64 option"
  sn_CurrentValue :: "f64 option"
  sn_TargetValue :: "f64 option"
  sn_LowerIsBetter :: bool
  sn_BaselinePeriodDefined :: bool
  sn_BaselinePlanApproved :: bool
  sn_EvidenceAuthority :: Authority
  sn_EvidenceFreshness :: Freshness
  sn_AllCitationsPresent :: bool
  sn_HasEvidenceSource :: bool
  sn_OwnerAcceptedStale :: bool
  sn_MaterialConfoundersUndocumented :: bool
  sn_HasValueClaim :: bool
  sn_EvidenceSourceIDs :: "string list"

record UseCaseContext =
  ux_Sponsor :: string
  ux_Tier :: UseCaseTier
  ux_DeliveryComplete :: bool
  ux_ApprovalBoundaryRecorded :: bool
  ux_PolicyIssueUnresolved :: bool
  ux_DeliveryOwnerNamed :: bool
  ux_DependenciesIdentified :: bool

record Assessment =
  as_AssessmentID :: string
  as_UseCaseID :: string
  as_Version :: int
  as_ValueState :: ValueState
  as_RealizationScore :: int
  as_PreCapScore :: int
  as_IntakeScore :: int
  as_ScoreBreakdown :: Breakdown
  as_AppliedCaps :: "string list"
  as_Recommendation :: Recommendation
  as_Confidence :: Confidence
  as_AttributionMethod :: AttributionMethod
  as_KnownConfounders :: "string list"
  as_NetValueCheck :: NetValueCheck
  as_SustainmentStatus :: SustainmentStatus
  as_SustainmentThresh :: "f64 option"
  as_EvidenceSourceIDs :: "string list"
  as_MissingEvidence :: "string list"
  as_Rationale :: string
  as_ApprovalState :: ArtifactState
  as_CreatedAt :: int

record MemProvider =
  mp_snaps :: "string \<rightharpoonup> MetricSnapshot"
  mp_queues :: "string \<Rightarrow> SustainmentCheck list"

record AsmtService =
  am_provider :: MemProvider
  am_byID :: "string \<rightharpoonup> Assessment"
  am_byUC :: "string \<Rightarrow> string list"
  am_checks :: "string \<Rightarrow> SustainmentCheck list"
  am_ucOrder :: "string list"
  am_seq :: nat
  am_sink :: "AuditCall list"

definition newMemProvider :: MemProvider where
  "newMemProvider = \<lparr>mp_snaps = Map.empty, mp_queues = (\<lambda>_. [])\<rparr>"

definition newAsmtService :: AsmtService where
  "newAsmtService = \<lparr>am_provider = newMemProvider, am_byID = Map.empty, am_byUC = (\<lambda>_. []),
     am_checks = (\<lambda>_. []), am_ucOrder = [], am_seq = 0, am_sink = []\<rparr>"

definition amAudit :: "string \<Rightarrow> string \<Rightarrow> string \<Rightarrow> string \<Rightarrow> AsmtService \<Rightarrow> AsmtService" where
  "amAudit action targetType targetID actorID s =
     s\<lparr>am_sink := am_sink s @ [\<lparr>au_Action = action, au_TargetType = targetType, au_TargetID = targetID, au_ActorID = actorID\<rparr>]\<rparr>"

section \<open>The metric provider\<close>

definition setSnapshot :: "string \<Rightarrow> MetricSnapshot \<Rightarrow> MemProvider \<Rightarrow> MemProvider" where
  "setSnapshot useCaseID sn p = p\<lparr>mp_snaps := (mp_snaps p)(useCaseID \<mapsto> sn)\<rparr>"

definition queueCheck :: "string \<Rightarrow> SustainmentCheck \<Rightarrow> MemProvider \<Rightarrow> MemProvider" where
  "queueCheck useCaseID c p = p\<lparr>mp_queues := (mp_queues p)(useCaseID := mp_queues p useCaseID @ [c])\<rparr>"

definition snapshot :: "string \<Rightarrow> string \<Rightarrow> MemProvider \<Rightarrow> MetricSnapshot option" where
  "snapshot useCaseID metricID p = mp_snaps p useCaseID"

definition pullCheck :: "string \<Rightarrow> string \<Rightarrow> MemProvider \<Rightarrow> SustainmentCheck option \<times> MemProvider" where
  "pullCheck useCaseID metricID p = (case mp_queues p useCaseID of
       [] \<Rightarrow> (None, p)
     | c # q \<Rightarrow> (Some c, p\<lparr>mp_queues := (mp_queues p)(useCaseID := q)\<rparr>))"

section \<open>Generation\<close>

definition zeroContext :: UseCaseContext where
  "zeroContext = \<lparr>ux_Sponsor = [], ux_Tier = TierOther [], ux_DeliveryComplete = False,
     ux_ApprovalBoundaryRecorded = False, ux_PolicyIssueUnresolved = False,
     ux_DeliveryOwnerNamed = False, ux_DependenciesIdentified = False\<rparr>"

text \<open>The snapshot of a use case without one: unknown authority and freshness, everything else zero.\<close>

definition noSnapshot :: MetricSnapshot where
  "noSnapshot = \<lparr>sn_BaselineValue = None, sn_CurrentValue = None, sn_TargetValue = None, sn_LowerIsBetter = False,
     sn_BaselinePeriodDefined = False, sn_BaselinePlanApproved = False, sn_EvidenceAuthority = AuthorityUnknown,
     sn_EvidenceFreshness = FreshnessUnknown, sn_AllCitationsPresent = False, sn_HasEvidenceSource = False,
     sn_OwnerAcceptedStale = False, sn_MaterialConfoundersUndocumented = False, sn_HasValueClaim = False,
     sn_EvidenceSourceIDs = []\<rparr>"

text \<open>The hypothesis invented for a registered use case that has none.\<close>

definition emptyHypothesis :: "string \<Rightarrow> Hypothesis" where
  "emptyHypothesis useCaseID = newHypothesis 0 [] useCaseID"

definition gateAFrom :: "Hypothesis \<Rightarrow> UseCaseContext \<Rightarrow> MetricSnapshot \<Rightarrow> GateAInput" where
  "gateAFrom h ctx sn =
     \<lparr>ga_ValueOwnerNamed = (vh_ValueOwner h \<noteq> []), ga_DeliveryOwnerNamed = ux_DeliveryOwnerNamed ctx,
      ga_SponsorResolved = (ux_Sponsor ctx \<noteq> []),
      ga_ScopeAndTierClear = (ux_Tier ctx \<noteq> TierOther [] \<and> ux_Tier ctx \<noteq> TierUnclassified \<and> vh_BusinessObjective h \<noteq> []),
      ga_ExpectedBenefitStated = (vh_ExpectedBenefit h \<noteq> [] \<or> vh_BusinessObjective h \<noteq> []),
      ga_PrimaryMetricNamed = (vh_PrimaryMetricID h \<noteq> []),
      ga_BaselineVerified = (vh_BaselineValue h \<noteq> None \<and> sn_EvidenceAuthority sn = Authoritative),
      ga_BaselinePlanApproved = sn_BaselinePlanApproved sn, ga_TargetAndWindowDefined = (vh_TargetValue h \<noteq> None),
      ga_EvidenceSourceNamed = sn_HasEvidenceSource sn, ga_ApprovalBoundaryLogged = ux_ApprovalBoundaryRecorded ctx,
      ga_DependenciesIdentified = ux_DependenciesIdentified ctx\<rparr>"

definition orElse :: "'a option \<Rightarrow> 'a option \<Rightarrow> 'a option" where
  "orElse a b = (case a of None \<Rightarrow> b | Some _ \<Rightarrow> a)"

definition buildInput :: "Hypothesis \<Rightarrow> UseCaseContext \<Rightarrow> MetricSnapshot \<Rightarrow> SustainmentStatus \<Rightarrow> Input" where
  "buildInput h ctx sn sus =
     \<lparr>in_ValueOwner = vh_ValueOwner h, in_Sponsor = ux_Sponsor ctx, in_BusinessObjective = vh_BusinessObjective h,
      in_BenefitType = vh_BenefitType h, in_Tier = ux_Tier ctx, in_PrimaryMetricID = vh_PrimaryMetricID h,
      in_BaselineValue = orElse (vh_BaselineValue h) (sn_BaselineValue sn),
      in_BaselinePeriodDefined = sn_BaselinePeriodDefined sn, in_BaselinePlanApproved = sn_BaselinePlanApproved sn,
      in_CurrentValue = sn_CurrentValue sn, in_TargetValue = orElse (vh_TargetValue h) (sn_TargetValue sn),
      in_LowerIsBetter = sn_LowerIsBetter sn, in_EvidenceAuthority = sn_EvidenceAuthority sn,
      in_EvidenceFreshness = sn_EvidenceFreshness sn, in_AllCitationsPresent = sn_AllCitationsPresent sn,
      in_HasEvidenceSource = sn_HasEvidenceSource sn, in_OwnerAcceptedStale = sn_OwnerAcceptedStale sn,
      in_Attribution = vh_AttributionMethod h, in_ConfoundersDocumented = int (length (vh_KnownConfounders h)),
      in_MaterialConfoundersUndocumented = sn_MaterialConfoundersUndocumented sn, in_NetValue = vh_NetValueCheck h,
      in_NetValueRationale = [], in_Sustainment = sus,
      in_ApprovalBoundaryRecorded = ux_ApprovalBoundaryRecorded ctx,
      in_PolicyIssueUnresolved = ux_PolicyIssueUnresolved ctx, in_ArtifactState = vh_ApprovalState h,
      in_HasValueClaim = sn_HasValueClaim sn, in_DeliveryComplete = ux_DeliveryComplete ctx\<rparr>"

fun valueStateStr :: "ValueState \<Rightarrow> string" where
  "valueStateStr NotReady = ''NotReady''" | "valueStateStr HypothesisOnly = ''HypothesisOnly''"
| "valueStateStr BaselineReady = ''BaselineReady''" | "valueStateStr OnTrack = ''OnTrack''"
| "valueStateStr AtRisk = ''AtRisk''" | "valueStateStr Realized = ''Realized''"
| "valueStateStr NotRealized = ''NotRealized''" | "valueStateStr Regressed = ''Regressed''"
| "valueStateStr Unproven = ''Unproven''"

fun recommendationStr :: "Recommendation \<Rightarrow> string" where
  "recommendationStr Build = ''Build''" | "recommendationStr ContinuePilot = ''ContinuePilot''"
| "recommendationStr Scale = ''Scale''" | "recommendationStr Fix = ''Fix''"
| "recommendationStr Defer = ''Defer''" | "recommendationStr Rebaseline = ''Rebaseline''"
| "recommendationStr Stop = ''Stop''" | "recommendationStr NeedsSponsor = ''NeedsSponsor''"
| "recommendationStr NeedsEvidence = ''NeedsEvidence''"

fun confidenceStr :: "Confidence \<Rightarrow> string" where
  "confidenceStr High = ''High''" | "confidenceStr Medium = ''Medium''" | "confidenceStr Low = ''Low''"

fun sustainmentStr :: "SustainmentStatus \<Rightarrow> string" where
  "sustainmentStr SustainNotStarted = ''NotStarted''" | "sustainmentStr SustainOk = ''Ok''"
| "sustainmentStr SustainAtRisk = ''AtRisk''" | "sustainmentStr SustainRegressed = ''Regressed''"

definition rationale :: "Result \<Rightarrow> SustainmentStatus \<Rightarrow> string" where
  "rationale r sus =
     ''state='' @ valueStateStr (rs_ValueState r) @ ''; recommendation='' @ recommendationStr (rs_Recommendation r)
     @ ''; confidence='' @ confidenceStr (rs_Confidence r)
     @ (if rs_AppliedCaps r \<noteq> [] then ''; caps='' @ strJoin '','' (rs_AppliedCaps r) else [])
     @ (if sus \<noteq> SustainNotStarted then ''; sustainment='' @ sustainmentStr sus else [])"

definition sustainmentThreshold :: "SustainmentCheck list \<Rightarrow> f64 option" where
  "sustainmentThreshold hist =
     (if hist = [] then None
      else let th = sc_Threshold (last hist) in if th = Fin 0 then None else Some th)"

text \<open>\<open>GenerateAssessment\<close>: \<open>h\<close> and \<open>ctx\<close> are what the hypothesis service and the registry know.\<close>

definition assess :: "int \<Rightarrow> string \<Rightarrow> string \<Rightarrow> int \<Rightarrow> Hypothesis \<Rightarrow> UseCaseContext \<Rightarrow> MetricSnapshot \<Rightarrow> SustainmentCheck list \<Rightarrow> Assessment" where
  "assess t i useCaseID version h ctx sn checks =
     (let sus = evaluateSustainment checks; r = score (buildInput h ctx sn sus) in
      \<lparr>as_AssessmentID = i, as_UseCaseID = useCaseID, as_Version = version, as_ValueState = rs_ValueState r,
       as_RealizationScore = rs_Score r, as_PreCapScore = rs_PreCapScore r,
       as_IntakeScore = gateAScore (gateAFrom h ctx sn), as_ScoreBreakdown = rs_Breakdown r,
       as_AppliedCaps = rs_AppliedCaps r, as_Recommendation = rs_Recommendation r, as_Confidence = rs_Confidence r,
       as_AttributionMethod = vh_AttributionMethod h, as_KnownConfounders = vh_KnownConfounders h,
       as_NetValueCheck = vh_NetValueCheck h, as_SustainmentStatus = sus,
       as_SustainmentThresh = sustainmentThreshold checks, as_EvidenceSourceIDs = sn_EvidenceSourceIDs sn,
       as_MissingEvidence = rs_MissingEvidence r, as_Rationale = rationale r sus, as_ApprovalState = ArtDraft,
       as_CreatedAt = t\<rparr>)"

definition generateAssessment ::
    "int \<Rightarrow> Hypothesis option \<Rightarrow> UseCaseContext option \<Rightarrow> string \<Rightarrow> string \<Rightarrow> AsmtService \<Rightarrow> verror + (Assessment \<times> AsmtService)" where
  "generateAssessment t h ctx useCaseID actorID s =
     (if h = None \<and> ctx = None then Inl (ErrNotFound useCaseID)
      else
        let h1 = (case h of Some x \<Rightarrow> x | None \<Rightarrow> emptyHypothesis useCaseID);
            ctx1 = (case ctx of Some c \<Rightarrow> c | None \<Rightarrow> zeroContext);
            sn = (case snapshot useCaseID (vh_PrimaryMetricID h1) (am_provider s) of Some x \<Rightarrow> x | None \<Rightarrow> noSnapshot);
            i = numberedID ''asm'' (am_seq s + 1);
            a = assess t i useCaseID (int (length (am_byUC s useCaseID)) + 1) h1 ctx1 sn (am_checks s useCaseID)
        in Inr (a, amAudit ''assessment.generated'' ''ValueAssessment'' i actorID
             (s\<lparr>am_seq := am_seq s + 1, am_byID := (am_byID s)(i \<mapsto> a),
                am_ucOrder := (if am_byUC s useCaseID = [] then am_ucOrder s @ [useCaseID] else am_ucOrder s),
                am_byUC := (am_byUC s)(useCaseID := am_byUC s useCaseID @ [i])\<rparr>)))"

definition amGet :: "string \<Rightarrow> AsmtService \<Rightarrow> verror + Assessment" where
  "amGet i s = (case am_byID s i of None \<Rightarrow> Inl (ErrNotFound i) | Some a \<Rightarrow> Inr a)"

text \<open>\<open>*s.byID[id]\<close> panics on an id without a row, the value \<open>None\<close>.\<close>

fun rowsOf :: "(string \<rightharpoonup> 'a) \<Rightarrow> string list \<Rightarrow> 'a list option" where
  "rowsOf m [] = Some []"
| "rowsOf m (i # is) = (case m i of None \<Rightarrow> None | Some a \<Rightarrow> map_option (Cons a) (rowsOf m is))"

definition listByUseCase :: "string \<Rightarrow> AsmtService \<Rightarrow> Assessment list option" where
  "listByUseCase useCaseID s = rowsOf (am_byID s) (am_byUC s useCaseID)"

text \<open>\<open>Latest\<close>: \<open>None\<close> when there is none (or, which no reachable service shows, when its row is missing).\<close>

definition latest :: "string \<Rightarrow> AsmtService \<Rightarrow> Assessment option" where
  "latest useCaseID s = (if am_byUC s useCaseID = [] then None else am_byID s (last (am_byUC s useCaseID)))"

definition appendCheck :: "string \<Rightarrow> SustainmentCheck \<Rightarrow> AsmtService \<Rightarrow> SustainmentStatus \<times> AsmtService" where
  "appendCheck useCaseID c s =
     (let cs = am_checks s useCaseID @ [c] in
      (evaluateSustainment cs, s\<lparr>am_checks := (am_checks s)(useCaseID := cs)\<rparr>))"

section \<open>The scheduler\<close>

record Scheduler =
  sd_window :: int
  sd_nextDue :: "string \<rightharpoonup> int"

definition defaultReportingWindow :: int where
  "defaultReportingWindow = 30 * 24 * 3600000000000"

definition newScheduler :: "int \<Rightarrow> Scheduler" where
  "newScheduler window = \<lparr>sd_window = (if window \<le> 0 then defaultReportingWindow else window), sd_nextDue = Map.empty\<rparr>"

text \<open>The loop of \<open>advance\<close>; \<open>None\<close> is a loop that does not end.\<close>

partial_function (option) advanceLoop :: "int \<Rightarrow> int \<Rightarrow> int \<Rightarrow> int option" where
  "advanceLoop window t n = (if t < n then Some n else advanceLoop window t (n + window))"

definition advance :: "string \<Rightarrow> int \<Rightarrow> Scheduler \<Rightarrow> int option" where
  "advance uc t sd = (case sd_nextDue sd uc of
       None \<Rightarrow> Some (t + sd_window sd)
     | Some prev \<Rightarrow>
         if prev = 0 then Some (t + sd_window sd)
         else advanceLoop (sd_window sd) t (prev + sd_window sd))"

record CheckOutcome =
  co_UseCaseID :: string
  co_Status :: SustainmentStatus
  co_CheckFailed :: bool
  co_NewAssessmentID :: string
  co_NextCheckAt :: int

text \<open>The check of a missing snapshot, the zero value.\<close>

definition missingCheck :: SustainmentCheck where
  "missingCheck = \<lparr>sc_MeasuredBenefit = None, sc_TargetValue = Fin 0, sc_Threshold = Fin 0, sc_SnapshotStale = False\<rparr>"

text \<open>One turn of the sweep for a use case that is due; the notifier is the audit sink's
  \<open>sustainment.owner_notified\<close>, as the server sets it up.\<close>

definition runCheck ::
    "int \<Rightarrow> (string \<Rightarrow> Hypothesis option) \<Rightarrow> (string \<Rightarrow> UseCaseContext option) \<Rightarrow> string
     \<Rightarrow> Scheduler \<times> AsmtService \<Rightarrow> (CheckOutcome \<times> Scheduler \<times> AsmtService) option" where
  "runCheck t hyp lookup uc = (\<lambda>(sd, s).
     let metric = (case hyp uc of Some h \<Rightarrow> vh_PrimaryMetricID h | None \<Rightarrow> []) in
     case pullCheck uc metric (am_provider s) of (pulled, prov) \<Rightarrow>
       let chk = (case pulled of Some c \<Rightarrow> c | None \<Rightarrow> missingCheck) in
       case appendCheck uc chk (s\<lparr>am_provider := prov\<rparr>) of (status, s1) \<Rightarrow>
         (case advance uc t sd of
            None \<Rightarrow> None
          | Some due \<Rightarrow>
              let sd1 = sd\<lparr>sd_nextDue := (sd_nextDue sd)(uc \<mapsto> due)\<rparr>;
                  s2 = (if status = SustainAtRisk \<or> status = SustainRegressed
                        then amAudit ''sustainment.owner_notified'' ''UseCase'' uc ''vria-sustainment-scheduler'' s1 else s1);
                  oc = \<lparr>co_UseCaseID = uc, co_Status = status, co_CheckFailed = checkFailed chk,
                        co_NewAssessmentID = [], co_NextCheckAt = due\<rparr> in
              if status \<noteq> SustainRegressed then Some (oc, sd1, s2)
              else (case generateAssessment t (hyp uc) (lookup uc) uc ''vria-sustainment-scheduler'' s2 of
                  Inl _ \<Rightarrow> Some (oc, sd1, s2)
                | Inr (a, s3) \<Rightarrow> Some (oc\<lparr>co_NewAssessmentID := as_AssessmentID a\<rparr>, sd1, s3))))"

definition isDue :: "int \<Rightarrow> string \<Rightarrow> Scheduler \<times> AsmtService \<Rightarrow> bool" where
  "isDue t uc = (\<lambda>(sd, s).
     (case latest uc s of None \<Rightarrow> False | Some a \<Rightarrow> as_ValueState a = Realized)
     \<and> \<not> (case sd_nextDue sd uc of None \<Rightarrow> False | Some due \<Rightarrow> t < due))"

fun runLoop ::
    "int \<Rightarrow> (string \<Rightarrow> Hypothesis option) \<Rightarrow> (string \<Rightarrow> UseCaseContext option) \<Rightarrow> string list
     \<Rightarrow> Scheduler \<times> AsmtService \<Rightarrow> (CheckOutcome list \<times> Scheduler \<times> AsmtService) option" where
  "runLoop t hyp lookup [] st = Some ([], st)"
| "runLoop t hyp lookup (uc # ucs) st =
     (if \<not> isDue t uc st then runLoop t hyp lookup ucs st
      else (case runCheck t hyp lookup uc st of
          None \<Rightarrow> None
        | Some (oc, st1) \<Rightarrow> map_option (\<lambda>(ocs, st2). (oc # ocs, st2)) (runLoop t hyp lookup ucs st1)))"

definition runDue ::
    "int \<Rightarrow> (string \<Rightarrow> Hypothesis option) \<Rightarrow> (string \<Rightarrow> UseCaseContext option)
     \<Rightarrow> Scheduler \<times> AsmtService \<Rightarrow> (CheckOutcome list \<times> Scheduler \<times> AsmtService) option" where
  "runDue t hyp lookup st = runLoop t hyp lookup (am_ucOrder (snd st)) st"

end
