(* ===== verification/Vria_Scorecard.thy ===== *)
theory Vria_Scorecard
  imports Vria_Hypothesis
begin

text \<open>
  The scorecard lifecycle, \<open>vria/impl/internal/scorecard/scorecard.go\<close>: drafts over existing
  assessments, approval requests for the three gated actions, publication, supersession and
  invalidation, each with a record in the append-only decision log.  \<open>assessments\<close> is the source that
  resolves a member to its missing evidence.  An error leaves the service as it was; the id a refused log
  record would use up is not counted (no reachable approval is refused by the log).
\<close>

record Coverage =
  cv_AssessmentsTotal :: int
  cv_WithCitations :: int
  cv_WithGaps :: int

record Scorecard =
  cd_ScorecardID :: string
  cd_Title :: string
  cd_Period :: "string \<times> string"
  cd_Coverage :: Coverage
  cd_ArtifactState :: ArtifactState
  cd_AssessmentIDs :: "string list"
  cd_SupersedesScorecardID :: string
  cd_DecisionLogPointer :: string
  cd_PublishedAt :: "int option"
  cd_CreatedBy :: string
  cd_CreatedAt :: int

record CardService =
  cs_cards :: "string \<rightharpoonup> Scorecard"
  cs_requests :: "string \<rightharpoonup> Request"
  cs_log :: "DecisionRecord list"
  cs_seq :: nat
  cs_sink :: "AuditCall list"

definition newCardService :: CardService where
  "newCardService = \<lparr>cs_cards = Map.empty, cs_requests = Map.empty, cs_log = [], cs_seq = 0, cs_sink = []\<rparr>"

definition csAudit :: "string \<Rightarrow> string \<Rightarrow> string \<Rightarrow> string \<Rightarrow> CardService \<Rightarrow> CardService" where
  "csAudit action targetType targetID actorID s =
     s\<lparr>cs_sink := cs_sink s @ [\<lparr>au_Action = action, au_TargetType = targetType, au_TargetID = targetID, au_ActorID = actorID\<rparr>]\<rparr>"

section \<open>Drafts\<close>

text \<open>The counts of members without and with missing evidence, or the first unknown member.\<close>

fun coverageLoop :: "(string \<Rightarrow> string list option) \<Rightarrow> int \<Rightarrow> int \<Rightarrow> string list \<Rightarrow> verror + (int \<times> int)" where
  "coverageLoop assessments citations gaps [] = Inr (citations, gaps)"
| "coverageLoop assessments citations gaps (i # is) = (case assessments i of
       None \<Rightarrow> Inl (ErrUnknownAssessment i)
     | Some missing \<Rightarrow>
         if missing = [] then coverageLoop assessments (citations + 1) gaps is
         else coverageLoop assessments citations (gaps + 1) is)"

definition csCreateDraft ::
    "int \<Rightarrow> (string \<Rightarrow> string list option) \<Rightarrow> string \<Rightarrow> string \<times> string \<Rightarrow> string list \<Rightarrow> string \<Rightarrow> CardService
     \<Rightarrow> verror + (Scorecard \<times> CardService)" where
  "csCreateDraft t assessments title period assessmentIDs actorID s =
     (case coverageLoop assessments 0 0 assessmentIDs of
        Inl e \<Rightarrow> Inl e
      | Inr (citations, gaps) \<Rightarrow>
          let seq = cs_seq s + 1; i = numberedID ''scd'' seq;
              c = \<lparr>cd_ScorecardID = i, cd_Title = title, cd_Period = period,
                cd_Coverage = \<lparr>cv_AssessmentsTotal = int (length assessmentIDs), cv_WithCitations = citations, cv_WithGaps = gaps\<rparr>,
                cd_ArtifactState = ArtDraft, cd_AssessmentIDs = assessmentIDs, cd_SupersedesScorecardID = [],
                cd_DecisionLogPointer = [], cd_PublishedAt = None, cd_CreatedBy = actorID, cd_CreatedAt = t\<rparr>
          in Inr (c, csAudit ''scorecard.generated'' ''Scorecard'' i actorID
               (s\<lparr>cs_seq := seq, cs_cards := (cs_cards s)(i \<mapsto> c)\<rparr>)))"

definition csGet :: "string \<Rightarrow> CardService \<Rightarrow> verror + Scorecard" where
  "csGet i s = (case cs_cards s i of None \<Rightarrow> Inl (ErrNotFound i) | Some c \<Rightarrow> Inr c)"

section \<open>Requests\<close>

definition csSubmit :: "string \<Rightarrow> string \<Rightarrow> string \<Rightarrow> CardService \<Rightarrow> verror + (Request \<times> CardService)" where
  "csSubmit scorecardID actionType requestedBy s =
     (if cs_cards s scorecardID = None then Inl (ErrNotFound scorecardID)
      else if actionType \<notin> {''ScorecardPublication'', ''ScorecardSupersession'', ''ScorecardInvalidation'', []}
      then Inl (ErrBadActionType actionType)
      else
        let seq = cs_seq s + 1;
            req = \<lparr>rq_ApprovalID = numberedID ''scapr'' seq,
              rq_ActionType = (if actionType = [] then ''ScorecardPublication'' else actionType),
              rq_TargetID = scorecardID, rq_TargetType = ''Scorecard'', rq_RequestedBy = requestedBy,
              rq_ApproverIDs = [], rq_State = ReqSubmitted, rq_DecidedBy = []\<rparr>
        in Inr (req, csAudit ''approval.submitted'' ''ApprovalRequest'' (rq_ApprovalID req) requestedBy
             (s\<lparr>cs_seq := seq, cs_requests := (cs_requests s)(rq_ApprovalID req \<mapsto> req)\<rparr>)))"

text \<open>Approving a publication moves its draft card to \<open>Approved\<close>.\<close>

definition approveCard :: "Request \<Rightarrow> (string \<rightharpoonup> Scorecard) \<Rightarrow> (string \<rightharpoonup> Scorecard)" where
  "approveCard req cards =
     (if rq_State req = ReqApproved \<and> rq_ActionType req = ''ScorecardPublication''
      then (case cards (rq_TargetID req) of
          None \<Rightarrow> cards
        | Some c \<Rightarrow>
            if cd_ArtifactState c = ArtDraft
            then (case artifactTransition (cd_ArtifactState c) ''approve'' of
                Inl _ \<Rightarrow> cards
              | Inr st \<Rightarrow> cards(rq_TargetID req \<mapsto> c\<lparr>cd_ArtifactState := st\<rparr>))
            else cards)
      else cards)"

definition csDecide :: "string \<Rightarrow> string \<Rightarrow> string \<Rightarrow> CardService \<Rightarrow> verror + (Request \<times> CardService)" where
  "csDecide approvalID action decidedBy s = (case cs_requests s approvalID of
       None \<Rightarrow> Inl (ErrNotFound approvalID)
     | Some req \<Rightarrow> (case decideRequest req action decidedBy of
           Inl e \<Rightarrow> Inl e
         | Inr req' \<Rightarrow> Inr (req', csAudit ''approval.decided'' ''ApprovalRequest'' approvalID decidedBy
               (s\<lparr>cs_requests := (cs_requests s)(approvalID \<mapsto> req'), cs_cards := approveCard req' (cs_cards s)\<rparr>))))"

section \<open>Gated actions\<close>

definition approvedFor :: "string \<Rightarrow> string \<Rightarrow> Request option \<Rightarrow> bool" where
  "approvedFor actionType target req = (case req of
       None \<Rightarrow> False
     | Some r \<Rightarrow> rq_State r = ReqApproved \<and> rq_ActionType r = actionType \<and> rq_TargetID r = target)"

definition decisionRecord :: "int \<Rightarrow> string \<Rightarrow> string \<Rightarrow> string \<Rightarrow> string \<Rightarrow> string \<Rightarrow> string \<Rightarrow> DecisionRecord" where
  "decisionRecord t i actionType target why by' approvalID =
     \<lparr>dr_DecisionRecordID = i, dr_DecisionType = actionType, dr_TargetID = target, dr_TargetType = ''Scorecard'',
      dr_Decision = ''Approved'', dr_Rationale = why, dr_DecidedBy = by', dr_ApprovalID = approvalID, dr_CreatedAt = t\<rparr>"

definition csPublish :: "int \<Rightarrow> string \<Rightarrow> string \<Rightarrow> string \<Rightarrow> CardService \<Rightarrow> verror + (Scorecard \<times> CardService)" where
  "csPublish t scorecardID approvalID actorID s = (case cs_cards s scorecardID of
       None \<Rightarrow> Inl (ErrNotFound scorecardID)
     | Some c \<Rightarrow> (case publishScorecard scorecardID (cd_ArtifactState c) (cs_requests s approvalID) of
           Inl e \<Rightarrow> Inl e
         | Inr next' \<Rightarrow>
             let i = numberedID ''dec'' (cs_seq s + 1);
                 rec = decisionRecord t i ''ScorecardPublication'' scorecardID []
                   (case cs_requests s approvalID of Some r \<Rightarrow> rq_DecidedBy r | None \<Rightarrow> []) approvalID in
             (case logAppend rec (cs_log s) of
                Inl e \<Rightarrow> Inl e
              | Inr log' \<Rightarrow>
                  let c' = c\<lparr>cd_ArtifactState := next', cd_PublishedAt := Some t, cd_DecisionLogPointer := i\<rparr>
                  in Inr (c', csAudit ''scorecard.published'' ''Scorecard'' scorecardID actorID
                       (s\<lparr>cs_seq := cs_seq s + 1, cs_log := log', cs_cards := (cs_cards s)(scorecardID \<mapsto> c')\<rparr>)))))"

text \<open>\<open>Supersede\<close> writes through two pointers, the old card first; they are one when a card replaces
  itself.\<close>

definition csSupersede :: "int \<Rightarrow> string \<Rightarrow> string \<Rightarrow> string \<Rightarrow> string \<Rightarrow> CardService \<Rightarrow> verror + (Scorecard \<times> CardService)" where
  "csSupersede t oldID replacementID approvalID actorID s = (case cs_cards s oldID of
       None \<Rightarrow> Inl (ErrNotFound oldID)
     | Some old \<Rightarrow> (case cs_cards s replacementID of
           None \<Rightarrow> Inl (ErrNotFound (''replacement '' @ replacementID))
         | Some repl \<Rightarrow>
             if \<not> approvedFor ''ScorecardSupersession'' oldID (cs_requests s approvalID) then Inl ErrApprovalRequired
             else (case artifactTransition (cd_ArtifactState old) ''supersede'' of
                 Inl e \<Rightarrow> Inl e
               | Inr next' \<Rightarrow>
                   let i = numberedID ''dec'' (cs_seq s + 1);
                       rec = decisionRecord t i ''ScorecardSupersession'' oldID (''superseded by '' @ replacementID)
                         (case cs_requests s approvalID of Some r \<Rightarrow> rq_DecidedBy r | None \<Rightarrow> []) approvalID in
                   (case logAppend rec (cs_log s) of
                      Inl e \<Rightarrow> Inl e
                    | Inr log' \<Rightarrow>
                        let cards1 = (cs_cards s)(oldID \<mapsto> old\<lparr>cd_ArtifactState := next'\<rparr>);
                            repl' = (case cards1 replacementID of Some c \<Rightarrow> c | None \<Rightarrow> repl)\<lparr>cd_SupersedesScorecardID := oldID\<rparr>
                        in Inr (repl', csAudit ''scorecard.superseded'' ''Scorecard'' oldID actorID
                             (s\<lparr>cs_seq := cs_seq s + 1, cs_log := log', cs_cards := cards1(replacementID \<mapsto> repl')\<rparr>))))))"

definition csInvalidate :: "int \<Rightarrow> string \<Rightarrow> string \<Rightarrow> string \<Rightarrow> string \<Rightarrow> CardService \<Rightarrow> verror + (Scorecard \<times> CardService)" where
  "csInvalidate t scorecardID approvalID reason actorID s = (case cs_cards s scorecardID of
       None \<Rightarrow> Inl (ErrNotFound scorecardID)
     | Some c \<Rightarrow>
         if reason = [] then Inl ErrReasonRequired
         else if \<not> approvedFor ''ScorecardInvalidation'' scorecardID (cs_requests s approvalID) then Inl ErrApprovalRequired
         else (case artifactTransition (cd_ArtifactState c) ''invalidate'' of
             Inl e \<Rightarrow> Inl e
           | Inr next' \<Rightarrow>
               let i = numberedID ''dec'' (cs_seq s + 1);
                   rec = decisionRecord t i ''ScorecardInvalidation'' scorecardID reason
                     (case cs_requests s approvalID of Some r \<Rightarrow> rq_DecidedBy r | None \<Rightarrow> []) approvalID in
               (case logAppend rec (cs_log s) of
                  Inl e \<Rightarrow> Inl e
                | Inr log' \<Rightarrow>
                    let c' = c\<lparr>cd_ArtifactState := next'\<rparr>
                    in Inr (c', csAudit ''scorecard.invalidated'' ''Scorecard'' scorecardID actorID
                         (s\<lparr>cs_seq := cs_seq s + 1, cs_log := log', cs_cards := (cs_cards s)(scorecardID \<mapsto> c')\<rparr>)))))"

end
