(* ===== verification/Vria_Api.thy ===== *)
theory Vria_Api
  imports Vria_Registry Vria_Assessment Vria_Scorecard
begin

text \<open>
  The HTTP handlers of the value-realization service, \<open>vria/impl/internal/api/api.go\<close>: one server owns
  the registry store, the hypothesis, assessment and scorecard services and the scheduler, wired as
  \<open>NewServer\<close> wires them (lookups into one another, and one audit sink that appends to the registry's
  trail).  A request carries its method, its path (clean, as \<open>ServeMux\<close> passes it on), the principal
  header and its body as decoded for the handler it reaches, \<open>None\<close> when it does not decode.  An answer
  is its status and payload, a refusal its status, error code and safe state; the message texts are left
  out.  All clocks read during a request show the same time \<open>t\<close>.
\<close>

section \<open>Requests and answers\<close>

record Payload =
  py_ProposedChanges :: "(string \<times> Json) list"
  py_Submit :: bool
  py_Decision :: string
  py_SourceID :: string
  py_Rows :: "row list"
  py_Title :: string
  py_Period :: "string \<times> string"
  py_AssessmentIDs :: "string list"
  py_ActionType :: string
  py_TargetID :: string
  py_ApprovalID :: string
  py_ReplacementScorecardID :: string

record HttpRequest =
  hr_Method :: string
  hr_Path :: string
  hr_Principal :: string
  hr_TargetQuery :: string
  hr_Body :: "Payload option"

datatype Body =
    BUseCases "UseCase list" | BUseCase UseCase
  | BHypothesis Hypothesis "string list"
  | BDraft Draft "Request option"
  | BDecision Request "Hypothesis option"
  | BImport ImportResult | BPromoted "UseCase list"
  | BAssessment Assessment | BScorecard Scorecard | BApproval Request
  | BDecisionRecords "DecisionRecord list"

datatype Response =
    Answer int Body
  | Refusal int string string
  | MuxNotFound | MuxRedirect

section \<open>The server\<close>

record Server =
  sv_RegSeq :: nat
  sv_Store :: MemStore
  sv_Hyp :: HypService
  sv_Asmt :: AsmtService
  sv_Cards :: CardService
  sv_Sched :: Scheduler

definition newServer :: "MemProvider \<Rightarrow> Server" where
  "newServer provider =
     \<lparr>sv_RegSeq = 0, sv_Store = newMemStore, sv_Hyp = newHypService,
      sv_Asmt = newAsmtService\<lparr>am_provider := provider\<rparr>, sv_Cards = newCardService,
      sv_Sched = newScheduler defaultReportingWindow\<rparr>"

text \<open>The audit sink: every call a service has made appends an event to the registry's trail.\<close>

definition auditEvent :: "AuditCall \<Rightarrow> RegistryEvent" where
  "auditEvent c = \<lparr>ae_AuditID = [], ae_ActorID = au_ActorID c, ae_Action = au_Action c,
     ae_TargetType = au_TargetType c, ae_TargetID = au_TargetID c, ae_CreatedAt = 0\<rparr>"

definition appendCalls :: "int \<Rightarrow> AuditCall list \<Rightarrow> MemStore \<Rightarrow> MemStore" where
  "appendCalls t calls store = fold (\<lambda>c. msAppendAudit t (auditEvent c)) calls store"

definition setHyp :: "int \<Rightarrow> HypService \<Rightarrow> Server \<Rightarrow> Server" where
  "setHyp t h s = s\<lparr>sv_Hyp := h\<lparr>hy_sink := []\<rparr>, sv_Store := appendCalls t (hy_sink h) (sv_Store s)\<rparr>"

definition setAsmt :: "int \<Rightarrow> AsmtService \<Rightarrow> Server \<Rightarrow> Server" where
  "setAsmt t a s = s\<lparr>sv_Asmt := a\<lparr>am_sink := []\<rparr>, sv_Store := appendCalls t (am_sink a) (sv_Store s)\<rparr>"

definition setCards :: "int \<Rightarrow> CardService \<Rightarrow> Server \<Rightarrow> Server" where
  "setCards t c s = s\<lparr>sv_Cards := c\<lparr>cs_sink := []\<rparr>, sv_Store := appendCalls t (cs_sink c) (sv_Store s)\<rparr>"

text \<open>The registry lookup and the assessment source that \<open>NewServer\<close> passes on.\<close>

definition useCaseContext :: "UseCase \<Rightarrow> UseCaseContext" where
  "useCaseContext uc =
     \<lparr>ux_Sponsor = uc_Sponsor uc, ux_Tier = uc_Tier uc,
      ux_DeliveryComplete = (uc_DeliveryStatus uc = DSPTOApproved \<or> uc_DeliveryStatus uc = DSProduction),
      ux_ApprovalBoundaryRecorded = (uc_ApprovalState uc = ArtApproved \<or> uc_ApprovalState uc = ArtPublished),
      ux_PolicyIssueUnresolved = False, ux_DeliveryOwnerNamed = False, ux_DependenciesIdentified = False\<rparr>"

definition lookupUseCase :: "MemStore \<Rightarrow> string \<Rightarrow> UseCaseContext option" where
  "lookupUseCase store i = (case getUseCase i store of Inl _ \<Rightarrow> None | Inr uc \<Rightarrow> Some (useCaseContext uc))"

definition assessmentInfo :: "AsmtService \<Rightarrow> string \<Rightarrow> string list option" where
  "assessmentInfo a i = (case amGet i a of Inl _ \<Rightarrow> None | Inr x \<Rightarrow> Some (as_MissingEvidence x))"

section \<open>Refusals\<close>

definition methodNotAllowed :: Response where
  "methodNotAllowed = Refusal 405 ''METHOD_NOT_ALLOWED'' ''NoActionTaken''"

definition notFound :: Response where
  "notFound = Refusal 404 ''NOT_FOUND'' ''NoActionTaken''"

definition unauthenticated :: Response where
  "unauthenticated = Refusal 401 ''UNAUTHENTICATED'' ''NoActionTaken''"

definition invalidPayload :: Response where
  "invalidPayload = Refusal 400 ''INVALID_PAYLOAD'' ''NoActionTaken''"

section \<open>Handlers\<close>

text \<open>\<open>errors.Is\<close> with the sentinels.\<close>

definition isNotFound :: "verror \<Rightarrow> bool" where
  "isNotFound e = (case e of ErrNotFound _ \<Rightarrow> True | _ \<Rightarrow> False)"

definition handleDecisionLog :: "HttpRequest \<Rightarrow> Server \<Rightarrow> Response" where
  "handleDecisionLog r s =
     (if hr_Method r \<noteq> ''GET'' then methodNotAllowed
      else Answer 200 (BDecisionRecords
        (if hr_TargetQuery r \<noteq> [] then filter (\<lambda>rec. dr_TargetID rec = hr_TargetQuery r) (cs_log (sv_Cards s))
         else cs_log (sv_Cards s))))"

definition handleUseCases :: "HttpRequest \<Rightarrow> Server \<Rightarrow> Response" where
  "handleUseCases r s =
     (if hr_Method r \<noteq> ''GET'' then methodNotAllowed else Answer 200 (BUseCases (listUseCases (sv_Store s))))"

definition handleGetHypothesis :: "HttpRequest \<Rightarrow> string \<Rightarrow> Server \<Rightarrow> Response" where
  "handleGetHypothesis r i s =
     (if hr_Method r \<noteq> ''GET'' then methodNotAllowed
      else case hyGet i (sv_Hyp s) of
          Inl _ \<Rightarrow> notFound
        | Inr (h, missing) \<Rightarrow> Answer 200 (BHypothesis h missing))"

definition handleDraftUpdate :: "int \<Rightarrow> HttpRequest \<Rightarrow> string \<Rightarrow> Server \<Rightarrow> Response \<times> Server" where
  "handleDraftUpdate t r i s =
     (if hr_Method r \<noteq> ''POST'' then (methodNotAllowed, s)
      else if hr_Principal r = [] then (unauthenticated, s)
      else case hr_Body r of
          None \<Rightarrow> (invalidPayload, s)
        | Some p \<Rightarrow> (case createDraft t i (hr_Principal r) (py_ProposedChanges p) (sv_Hyp s) of
            (d, h1) \<Rightarrow>
              if py_Submit p \<and> dt_Valid d
              then (case hySubmit (dt_DraftID d) (hr_Principal r) h1 of
                  Inl _ \<Rightarrow> (Refusal 500 ''SUBMIT_FAILED'' ''Draft'', setHyp t h1 s)
                | Inr (ar, h2) \<Rightarrow> (Answer 201 (BDraft d (Some ar)), setHyp t h2 s))
              else (Answer 201 (BDraft d None), setHyp t h1 s)))"

definition decisionVerbs :: "string list" where
  "decisionVerbs = [''approve'', ''reject'', ''request_changes'']"

text \<open>The refusal of a decision, by its error.\<close>

definition decisionRefusal :: "verror \<Rightarrow> Response" where
  "decisionRefusal e =
     (if isNotFound e then notFound
      else if e = ErrSelfApproval \<or> e = ErrNotDesignatedApprover then Refusal 403 ''SEPARATION_OF_DUTIES'' ''NoActionTaken''
      else Refusal 409 ''INVALID_TRANSITION'' ''NoActionTaken'')"

text \<open>The commit of an approved registry update.\<close>

definition answerDecision :: "int \<Rightarrow> string \<Rightarrow> string \<Rightarrow> Request \<Rightarrow> Server \<Rightarrow> Response \<times> Server" where
  "answerDecision t decision actor ar s =
     (if decision = ''approve'' \<and> rq_ActionType ar = ''RegistryUpdate''
      then (case hyCommit t (rq_TargetID ar) (rq_ApprovalID ar) actor (sv_Hyp s) of
          Inl _ \<Rightarrow> (Refusal 409 ''COMMIT_FAILED'' ''NoActionTaken'', s)
        | Inr (h, hyp') \<Rightarrow> (Answer 200 (BDecision ar (Some h)), setHyp t hyp' s))
      else (Answer 200 (BDecision ar None), s))"

definition handleApprovalDecision :: "int \<Rightarrow> HttpRequest \<Rightarrow> Server \<Rightarrow> Response \<times> Server" where
  "handleApprovalDecision t r s =
     (let parts = splitByte (CHR ''/'') (trimPrefix ''/api/v1/approvals/'' (hr_Path r)); actor = hr_Principal r in
      if length parts \<noteq> 2 \<or> parts ! 1 \<noteq> ''decision'' \<or> hr_Method r \<noteq> ''POST'' then (notFound, s)
      else if actor = [] then (unauthenticated, s)
      else case hr_Body r of
          None \<Rightarrow> (invalidPayload, s)
        | Some p \<Rightarrow>
            if py_Decision p \<notin> set decisionVerbs then (Refusal 400 ''INVALID_DECISION'' ''NoActionTaken'', s)
            else (case hyDecide (parts ! 0) (py_Decision p) actor (sv_Hyp s) of
                Inr (ar, h) \<Rightarrow> answerDecision t (py_Decision p) actor ar (setHyp t h s)
              | Inl e \<Rightarrow>
                  if isNotFound e
                  then (case csDecide (parts ! 0) (py_Decision p) actor (sv_Cards s) of
                      Inl e \<Rightarrow> (decisionRefusal e, s)
                    | Inr (ar, c) \<Rightarrow> answerDecision t (py_Decision p) actor ar (setCards t c s))
                  else (decisionRefusal e, s)))"

definition handleImport :: "int \<Rightarrow> HttpRequest \<Rightarrow> Server \<Rightarrow> Response \<times> Server" where
  "handleImport t r s =
     (if hr_Method r \<noteq> ''POST'' then (methodNotAllowed, s)
      else if hr_Principal r = [] then (unauthenticated, s)
      else case hr_Body r of
          None \<Rightarrow> (invalidPayload, s)
        | Some p \<Rightarrow> (case importRows t (py_SourceID p) (hr_Principal r) (py_Rows p) (sv_RegSeq s, sv_Store s) of
            (res, seq, store) \<Rightarrow>
              ((case res of Inl _ \<Rightarrow> Refusal 500 ''IMPORT_FAILED'' ''NoActionTaken'' | Inr x \<Rightarrow> Answer 201 (BImport x)),
               s\<lparr>sv_RegSeq := seq, sv_Store := store\<rparr>)))"

definition promotionRefusal :: "verror \<Rightarrow> Response" where
  "promotionRefusal e = (case e of
       ErrNotFound _ \<Rightarrow> notFound
     | ErrAlreadyPromoted \<Rightarrow> Refusal 409 ''ALREADY_PROMOTED'' ''NoActionTaken''
     | ErrDuplicateUseCase _ \<Rightarrow> Refusal 409 ''DUPLICATE_USE_CASE'' ''NoActionTaken''
     | ErrNothingToPromote \<Rightarrow> Refusal 422 ''NOTHING_TO_PROMOTE'' ''NoActionTaken''
     | _ \<Rightarrow> Refusal 500 ''PROMOTION_FAILED'' ''NoActionTaken'')"

definition handleBatch :: "int \<Rightarrow> HttpRequest \<Rightarrow> Server \<Rightarrow> Response \<times> Server" where
  "handleBatch t r s =
     (let parts = splitByte (CHR ''/'') (trimPrefix ''/api/v1/import-batches/'' (hr_Path r)) in
      if length parts \<noteq> 2 \<or> parts ! 1 \<noteq> ''promote'' \<or> hr_Method r \<noteq> ''POST'' then (notFound, s)
      else if hr_Principal r = [] then (unauthenticated, s)
      else case promoteImport t (parts ! 0) (hr_Principal r) (sv_Store s) of
          Inl e \<Rightarrow> (promotionRefusal e, s)
        | Inr (ucs, store) \<Rightarrow> (Answer 200 (BPromoted ucs), s\<lparr>sv_Store := store\<rparr>))"

definition handleGenerateAssessment :: "int \<Rightarrow> HttpRequest \<Rightarrow> string \<Rightarrow> Server \<Rightarrow> Response \<times> Server" where
  "handleGenerateAssessment t r i s =
     (if hr_Method r \<noteq> ''POST'' then (methodNotAllowed, s)
      else if hr_Principal r = [] then (unauthenticated, s)
      else case generateAssessment t (hy_byUC (sv_Hyp s) i) (lookupUseCase (sv_Store s) i) i (hr_Principal r) (sv_Asmt s) of
          Inl e \<Rightarrow> (if isNotFound e then notFound else Refusal 500 ''ASSESSMENT_FAILED'' ''NoActionTaken'', s)
        | Inr (a, asmt) \<Rightarrow> (Answer 201 (BAssessment a), setAsmt t asmt s))"

definition handleAssessmentByID :: "HttpRequest \<Rightarrow> Server \<Rightarrow> Response" where
  "handleAssessmentByID r s =
     (let i = trimPrefix ''/api/v1/assessments/'' (hr_Path r) in
      if hr_Method r \<noteq> ''GET'' \<or> i = [] \<or> CHR ''/'' \<in> set i then notFound
      else case amGet i (sv_Asmt s) of Inl _ \<Rightarrow> notFound | Inr a \<Rightarrow> Answer 200 (BAssessment a))"

definition handleUseCaseByID :: "int \<Rightarrow> HttpRequest \<Rightarrow> Server \<Rightarrow> Response \<times> Server" where
  "handleUseCaseByID t r s =
     (let rest = trimPrefix ''/api/v1/use-cases/'' (hr_Path r); parts = splitByte (CHR ''/'') rest; i = parts ! 0 in
      if rest = ''import'' then handleImport t r s
      else if 2 \<le> length parts \<and> parts ! 1 = ''hypothesis'' then (handleGetHypothesis r i s, s)
      else if 2 \<le> length parts \<and> parts ! 1 = ''draft-update'' then handleDraftUpdate t r i s
      else if 2 \<le> length parts \<and> parts ! 1 = ''assessments'' then handleGenerateAssessment t r i s
      else if hr_Method r \<noteq> ''GET'' then (methodNotAllowed, s)
      else (case getUseCase i (sv_Store s) of Inl _ \<Rightarrow> (notFound, s) | Inr uc \<Rightarrow> (Answer 200 (BUseCase uc), s)))"

definition handleScorecards :: "int \<Rightarrow> HttpRequest \<Rightarrow> Server \<Rightarrow> Response \<times> Server" where
  "handleScorecards t r s =
     (if hr_Method r \<noteq> ''POST'' then (methodNotAllowed, s)
      else if hr_Principal r = [] then (unauthenticated, s)
      else case hr_Body r of
          None \<Rightarrow> (invalidPayload, s)
        | Some p \<Rightarrow> (case csCreateDraft t (assessmentInfo (sv_Asmt s)) (py_Title p) (py_Period p) (py_AssessmentIDs p)
              (hr_Principal r) (sv_Cards s) of
            Inl (ErrUnknownAssessment _) \<Rightarrow> (Refusal 400 ''UNKNOWN_ASSESSMENT'' ''NoActionTaken'', s)
          | Inl _ \<Rightarrow> (Refusal 500 ''SCORECARD_FAILED'' ''NoActionTaken'', s)
          | Inr (c, cards) \<Rightarrow> (Answer 201 (BScorecard c), setCards t cards s)))"

definition handleSubmitApproval :: "int \<Rightarrow> HttpRequest \<Rightarrow> Server \<Rightarrow> Response \<times> Server" where
  "handleSubmitApproval t r s =
     (if hr_Method r \<noteq> ''POST'' then (methodNotAllowed, s)
      else if hr_Principal r = [] then (unauthenticated, s)
      else case hr_Body r of
          None \<Rightarrow> (invalidPayload, s)
        | Some p \<Rightarrow> (case csSubmit (py_TargetID p) (py_ActionType p) (hr_Principal r) (sv_Cards s) of
            Inl (ErrNotFound _) \<Rightarrow> (notFound, s)
          | Inl (ErrBadActionType _) \<Rightarrow> (invalidPayload, s)
          | Inl _ \<Rightarrow> (Refusal 500 ''SUBMIT_FAILED'' ''NoActionTaken'', s)
          | Inr (ar, cards) \<Rightarrow> (Answer 201 (BApproval ar), setCards t cards s)))"

definition scorecardRefusal :: "verror \<Rightarrow> Response" where
  "scorecardRefusal e = (case e of
       ErrApprovalRequired \<Rightarrow> Refusal 409 ''APPROVAL_REQUIRED'' ''NoActionTaken''
     | ErrNotFound _ \<Rightarrow> notFound
     | _ \<Rightarrow> Refusal 409 ''INVALID_TRANSITION'' ''NoActionTaken'')"

definition handleScorecardAction :: "int \<Rightarrow> HttpRequest \<Rightarrow> Server \<Rightarrow> Response \<times> Server" where
  "handleScorecardAction t r s =
     (let parts = splitByte (CHR ''/'') (trimPrefix ''/api/v1/scorecards/'' (hr_Path r)); actor = hr_Principal r;
          reply = (\<lambda>res. case res of
              Inl e \<Rightarrow> (scorecardRefusal e, s)
            | Inr (c, cards) \<Rightarrow> (Answer 200 (BScorecard c), setCards t cards s)) in
      if length parts \<noteq> 2 \<or> hr_Method r \<noteq> ''POST'' then (notFound, s)
      else if actor = [] then (unauthenticated, s)
      else if parts ! 1 = ''publish''
      then (case hr_Body r of
          None \<Rightarrow> (invalidPayload, s)
        | Some p \<Rightarrow> reply (csPublish t (parts ! 0) (py_ApprovalID p) actor (sv_Cards s)))
      else if parts ! 1 = ''supersede''
      then (case hr_Body r of
          None \<Rightarrow> (invalidPayload, s)
        | Some p \<Rightarrow> reply (csSupersede t (parts ! 0) (py_ReplacementScorecardID p) (py_ApprovalID p) actor (sv_Cards s)))
      else (notFound, s))"

section \<open>Routing and the timer\<close>

text \<open>The patterns in \<open>ServeMux\<close>'s order of preference: an exact pattern, then the longest subtree; the
  bare path of a subtree without a pattern of its own is redirected.\<close>

definition serveHTTP :: "int \<Rightarrow> HttpRequest \<Rightarrow> Server \<Rightarrow> Response \<times> Server" where
  "serveHTTP t r s =
     (let path = hr_Path r in
      if path = ''/api/v1/use-cases'' then (handleUseCases r s, s)
      else if path = ''/api/v1/use-cases/import'' then handleImport t r s
      else if path = ''/api/v1/approvals'' then handleSubmitApproval t r s
      else if path = ''/api/v1/scorecards'' then handleScorecards t r s
      else if path = ''/api/v1/decision-log'' then (handleDecisionLog r s, s)
      else if hasPrefix path ''/api/v1/use-cases/'' then handleUseCaseByID t r s
      else if hasPrefix path ''/api/v1/import-batches/'' then handleBatch t r s
      else if hasPrefix path ''/api/v1/approvals/'' then handleApprovalDecision t r s
      else if hasPrefix path ''/api/v1/assessments/'' then (handleAssessmentByID r s, s)
      else if hasPrefix path ''/api/v1/scorecards/'' then handleScorecardAction t r s
      else if path = ''/api/v1/import-batches'' \<or> path = ''/api/v1/assessments'' then (MuxRedirect, s)
      else (MuxNotFound, s))"

text \<open>\<open>RunSustainment\<close>; \<open>None\<close> is a sweep that does not return.\<close>

definition runSustainment :: "int \<Rightarrow> Server \<Rightarrow> (CheckOutcome list \<times> Server) option" where
  "runSustainment t s =
     (case runDue t (hy_byUC (sv_Hyp s)) (lookupUseCase (sv_Store s)) (sv_Sched s, sv_Asmt s) of
        None \<Rightarrow> None
      | Some (ocs, sched, asmt) \<Rightarrow> Some (ocs, setAsmt t asmt (s\<lparr>sv_Sched := sched\<rparr>)))"

end
