(* ===== verification/Vria_Control.thy ===== *)
theory Vria_Control
  imports Vria_Hypothesis
begin

text \<open>
  Change control over value hypotheses: the hypothesis service is an approval desk, every change of an
  active hypothesis goes back to a valid draft approved by someone other than its requester, and the
  record version counts them.  And what validation lets through that a commit then drops.
\<close>

section \<open>The calls\<close>

inductive hypCall :: "HypService \<Rightarrow> HypService \<Rightarrow> bool" where
  hcCreate: "createDraft t uc by' p s = (d, s') \<Longrightarrow> hypCall s s'"
| hcSubmit: "hySubmit d by' s = Inr (r, s') \<Longrightarrow> hypCall s s'"
| hcDecide: "hyDecide i a by' s = Inr (r, s') \<Longrightarrow> hypCall s s'"
| hcCommit: "hyCommit t d i by' s = Inr (h, s') \<Longrightarrow> hypCall s s'"
| hcSink: "hypCall s (s\<lparr>hy_sink := calls\<rparr>)"

lemma hyAudit_sel [simp]:
  "hy_byUC (hyAudit a b c d s) = hy_byUC s" "hy_drafts (hyAudit a b c d s) = hy_drafts s"
  "hy_requests (hyAudit a b c d s) = hy_requests s" "hy_seq (hyAudit a b c d s) = hy_seq s"
  by (simp_all add: hyAudit_def)

lemma createDraft_state:
  assumes "createDraft t uc by' p s = (d, s')"
  shows "hy_byUC s' = hy_byUC s" "hy_requests s' = hy_requests s" "hy_seq s' = hy_seq s + 1"
    "hy_drafts s' = (hy_drafts s)(numberedID ''drf'' (hy_seq s + 1) \<mapsto> d)"
    "dt_DraftID d = numberedID ''drf'' (hy_seq s + 1)" "\<not> dt_Committed d"
    "dt_Valid d = (concat (map fieldErrors (dt_Proposed d)) = [])"
  using assms by (auto simp: createDraft_def Let_def)

lemma hySubmit_state:
  assumes "hySubmit i by' s = Inr (r, s')"
  shows "hy_byUC s' = hy_byUC s" "hy_drafts s' = hy_drafts s" "hy_seq s' = hy_seq s + 1"
    "hy_requests s' = (hy_requests s)(numberedID ''apr'' (hy_seq s + 1) \<mapsto> r)"
    "\<exists>d. hy_drafts s i = Some d \<and> dt_Valid d" "rq_TargetID r = i" "rq_State r = ReqSubmitted"
    "rq_ApprovalID r = numberedID ''apr'' (hy_seq s + 1)" "rq_ActionType r = ''RegistryUpdate''"
    "rq_RequestedBy r = by'" "rq_ApproverIDs r = []"
  using assms by (auto simp: hySubmit_def Let_def split: option.splits if_splits)

lemma hyDecide_state:
  assumes "hyDecide i a by' s = Inr (r, s')"
  obtains q where "hy_requests s i = Some q" "decideRequest q a by' = Inr r"
    "hy_requests s' = (hy_requests s)(i \<mapsto> r)" "hy_byUC s' = hy_byUC s" "hy_drafts s' = hy_drafts s" "hy_seq s' = hy_seq s"
  using assms by (auto simp: hyDecide_def split: option.splits sum.splits)

text \<open>What a commit starts from, and what it leaves.\<close>

definition activeOr :: "int \<Rightarrow> string \<Rightarrow> HypService \<Rightarrow> Hypothesis" where
  "activeOr t uc s = (case hy_byUC s uc of
       Some h \<Rightarrow> h | None \<Rightarrow> newHypothesis t (numberedID ''vh'' (hy_seq s + 1)) uc)"

lemma hyCommit_state:
  assumes "hyCommit t i a by' s = Inr (h, s')"
  obtains d r where "hy_drafts s i = Some d" "\<not> dt_Committed d" "hy_requests s a = Some r" "rq_State r = ReqApproved"
    "rq_TargetID r = i" "hy_requests s' = hy_requests s" "hy_seq s \<le> hy_seq s'"
    "hy_drafts s' = (hy_drafts s)(i \<mapsto> d\<lparr>dt_Committed := True\<rparr>)" "hy_byUC s' = (hy_byUC s)(dt_UseCaseID d \<mapsto> h)"
    "h = (applyChanges (dt_Proposed d) (activeOr t (dt_UseCaseID d) s))
         \<lparr>vh_RecordVersion := vh_RecordVersion (applyChanges (dt_Proposed d) (activeOr t (dt_UseCaseID d) s)) + 1,
          vh_ApprovalState := ArtApproved\<rparr>"
  using assms
  by (auto simp: hyCommit_def activeOr_def Let_def split: option.splits if_splits)

section \<open>The desk\<close>

definition hypIDs :: "HypService \<Rightarrow> bool" where
  "hypIDs s \<longleftrightarrow>
     (\<forall>i r. hy_requests s i = Some r \<longrightarrow> rq_ApprovalID r = i \<and> rq_ActionType r = ''RegistryUpdate''
        \<and> (\<exists>n. i = numberedID ''apr'' n \<and> n \<le> hy_seq s) \<and> (\<exists>d. hy_drafts s (rq_TargetID r) = Some d \<and> dt_Valid d))
   \<and> (\<forall>i d. hy_drafts s i = Some d \<longrightarrow> dt_DraftID d = i \<and> (\<exists>n. i = numberedID ''drf'' n \<and> n \<le> hy_seq s)
        \<and> dt_Valid d = (concat (map fieldErrors (dt_Proposed d)) = []))"

lemma fresh_ids:
  assumes "hypIDs s"
  shows "hy_requests s (numberedID ''apr'' (hy_seq s + 1)) = None" "hy_drafts s (numberedID ''drf'' (hy_seq s + 1)) = None"
proof -
  show "hy_requests s (numberedID ''apr'' (hy_seq s + 1)) = None"
    using assms by (cases "hy_requests s (numberedID ''apr'' (hy_seq s + 1))") (fastforce simp: hypIDs_def numberedID_inject)+
  show "hy_drafts s (numberedID ''drf'' (hy_seq s + 1)) = None"
    using assms by (cases "hy_drafts s (numberedID ''drf'' (hy_seq s + 1))") (fastforce simp: hypIDs_def numberedID_inject)+
qed

lemma hypIDs_call:
  assumes "hypIDs s" and "hypCall s s'"
  shows "hypIDs s'"
  using assms(2)
proof cases
  case (hcCreate t uc by' p d)
  note st = createDraft_state [OF hcCreate]
  have "rq_TargetID r \<noteq> numberedID ''drf'' (hy_seq s + 1)" if "hy_requests s i = Some r" for i r
    using assms(1) fresh_ids(2) [OF assms(1)] that by (force simp: hypIDs_def)
  with assms(1) st show ?thesis unfolding hypIDs_def by (auto simp: le_Suc_eq) blast+
next
  case (hcSubmit d by' r)
  with assms(1) hySubmit_state [OF hcSubmit] show ?thesis unfolding hypIDs_def by (auto simp: le_Suc_eq) blast+
next
  case (hcDecide i a by' r)
  then obtain q where q: "hy_requests s i = Some q" "decideRequest q a by' = Inr r"
      "hy_requests s' = (hy_requests s)(i \<mapsto> r)" "hy_drafts s' = hy_drafts s" "hy_seq s' = hy_seq s"
    by (rule hyDecide_state)
  moreover obtain st where "r = q\<lparr>rq_State := st, rq_DecidedBy := by'\<rparr>" using decideRequest_Inr(3) [OF q(2)] by blast
  ultimately show ?thesis using assms(1) unfolding hypIDs_def by auto
next
  case (hcCommit t i a by' h)
  then obtain d where d: "hy_drafts s i = Some d" "hy_requests s' = hy_requests s" "hy_seq s \<le> hy_seq s'"
    "hy_drafts s' = (hy_drafts s)(i \<mapsto> d\<lparr>dt_Committed := True\<rparr>)"
    by (rule hyCommit_state)
  define up where "up j x = (if j = i then (x :: Draft)\<lparr>dt_Committed := True\<rparr> else x)" for j x
  have up: "hy_drafts s' j = map_option (up j) (hy_drafts s j)" for j using d(1,4) by (cases "hy_drafts s j") (auto simp: up_def)
  have same: "dt_DraftID (up j x) = dt_DraftID x" "dt_Valid (up j x) = dt_Valid x" "dt_Proposed (up j x) = dt_Proposed x"
    for j x by (simp_all add: up_def)
  show ?thesis using assms(1) d(2,3) unfolding hypIDs_def up by (fastforce simp: same)
qed (use assms(1) in \<open>simp add: hypIDs_def\<close>)

interpretation hypDesk: approval_desk hy_requests hypCall hypIDs
proof
  fix s s' assume ids: "hypIDs s" and "hypCall s s'"
  from this(2) show "hy_requests s' = hy_requests s
    \<or> (\<exists>i q. hy_requests s i = None \<and> rq_State q = ReqSubmitted \<and> hy_requests s' = (hy_requests s)(i \<mapsto> q))
    \<or> (\<exists>i q a by' r. hy_requests s i = Some q \<and> decideRequest q a by' = Inr r
         \<and> hy_requests s' = (hy_requests s)(i \<mapsto> r))"
  proof cases
    case (hcSubmit d by' r)
    with fresh_ids(1) [OF ids] hySubmit_state(4,7) [OF hcSubmit] show ?thesis by blast
  next
    case (hcDecide i a by' r)
    then show ?thesis by (rule hyDecide_state) blast
  next
    case (hcCommit t i a by' h)
    then show ?thesis by (rule hyCommit_state) blast
  qed (auto dest: createDraft_state(2))
qed (rule hypIDs_call)


section \<open>Committed drafts\<close>

definition committed :: "HypService \<Rightarrow> string \<Rightarrow> string set" where
  "committed s uc = {i. \<exists>d. hy_drafts s i = Some d \<and> dt_Committed d \<and> dt_UseCaseID d = uc}"

text \<open>A draft's warrant: the approved request for it.\<close>

definition warranted :: "HypService \<Rightarrow> string \<Rightarrow> bool" where
  "warranted s i \<longleftrightarrow> (\<exists>a r. hy_requests s a = Some r \<and> rq_TargetID r = i \<and> rq_State r = ReqApproved)"

definition versioned :: "(string \<Rightarrow> string set) \<Rightarrow> (string \<rightharpoonup> Hypothesis) \<Rightarrow> string \<Rightarrow> bool" where
  "versioned c m uc \<longleftrightarrow> (case m uc of
       None \<Rightarrow> c uc = {}
     | Some h \<Rightarrow> vh_RecordVersion h = int (card (c uc)) \<and> vh_ApprovalState h = ArtApproved)"

lemma versioned_insert:
  "\<forall>uc. versioned c m uc \<Longrightarrow> finite (c k) \<Longrightarrow> i \<notin> c k \<Longrightarrow> vh_RecordVersion h = int (card (c k)) + 1
     \<Longrightarrow> vh_ApprovalState h = ArtApproved \<Longrightarrow> versioned (c(k := insert i (c k))) (m(k \<mapsto> h)) uc"
  by (cases "uc = k"; cases "m uc") (auto simp: versioned_def dest: spec [of _ uc])

definition hypInv :: "HypService \<Rightarrow> bool" where
  "hypInv s \<longleftrightarrow> hypIDs s \<and> hypDesk.deskInv s \<and> finite (dom (hy_drafts s))
     \<and> (\<forall>uc. \<forall>i \<in> committed s uc. warranted s i)
     \<and> (\<forall>uc. versioned (committed s) (hy_byUC s) uc)"

lemma hypInv_versioned: "hypInv s \<Longrightarrow> versioned (committed s) (hy_byUC s) uc"
  by (simp add: hypInv_def)

lemma finite_committed: "hypInv s \<Longrightarrow> finite (committed s uc)"
  by (rule finite_subset [of _ "dom (hy_drafts s)"]) (auto simp: hypInv_def committed_def)

lemma warranted_call: "hypIDs s \<Longrightarrow> hypCall s s' \<Longrightarrow> warranted s i \<Longrightarrow> warranted s' i"
  unfolding warranted_def using hypDesk.approved_calls [of s s'] by blast

lemma applyChanges_sel:
  "vh_RecordVersion (applyChanges p h) = vh_RecordVersion h" "vh_UseCaseID (applyChanges p h) = vh_UseCaseID h"
  by (simp_all add: applyChanges_def setIf_def split: option.splits)

lemma commit_committed:
  assumes "hyCommit t i a by' s = Inr (h, s')" and "hypInv s"
  obtains uc where "i \<notin> committed s uc" "committed s' = (committed s)(uc := insert i (committed s uc))"
    "hy_byUC s' = (hy_byUC s)(uc \<mapsto> h)" "vh_RecordVersion h = int (card (committed s uc)) + 1"
    "vh_ApprovalState h = ArtApproved" "warranted s i"
proof -
  obtain d r where d: "hy_drafts s i = Some d" "\<not> dt_Committed d" "hy_requests s a = Some r" "rq_State r = ReqApproved"
      "rq_TargetID r = i" "hy_drafts s' = (hy_drafts s)(i \<mapsto> d\<lparr>dt_Committed := True\<rparr>)"
      "hy_byUC s' = (hy_byUC s)(dt_UseCaseID d \<mapsto> h)"
    and h: "h = (applyChanges (dt_Proposed d) (activeOr t (dt_UseCaseID d) s))
         \<lparr>vh_RecordVersion := vh_RecordVersion (applyChanges (dt_Proposed d) (activeOr t (dt_UseCaseID d) s)) + 1,
          vh_ApprovalState := ArtApproved\<rparr>"
    by (rule hyCommit_state [OF assms(1)])
  have "vh_RecordVersion (activeOr t (dt_UseCaseID d) s) = int (card (committed s (dt_UseCaseID d)))"
    using hypInv_versioned [OF assms(2), of "dt_UseCaseID d"]
    by (auto simp: versioned_def activeOr_def newHypothesis_def split: option.splits)
  with h have "vh_RecordVersion h = int (card (committed s (dt_UseCaseID d))) + 1" "vh_ApprovalState h = ArtApproved"
    by (simp_all add: applyChanges_sel)
  moreover have "committed s' = (committed s)(dt_UseCaseID d := insert i (committed s (dt_UseCaseID d)))"
    using d(1,2,6) by (auto simp: committed_def fun_eq_iff split: if_splits)
  moreover have "i \<notin> committed s (dt_UseCaseID d)" using d(1,2) by (auto simp: committed_def)
  moreover have "warranted s i" using d(3-5) by (auto simp: warranted_def)
  ultimately show thesis using d(7) that by blast
qed

lemma committed_cong: "hy_drafts s' = hy_drafts s \<Longrightarrow> committed s' = committed s"
  by (rule ext) (simp add: committed_def)

lemma other_committed:
  assumes "hypCall s s'" and "hypIDs s" and "\<And>t i a by' h. hyCommit t i a by' s \<noteq> Inr (h, s')"
  shows "committed s' = committed s \<and> hy_byUC s' = hy_byUC s \<and> (finite (dom (hy_drafts s)) \<longrightarrow> finite (dom (hy_drafts s')))"
  using assms(1)
proof cases
  case (hcCreate t uc by' p d)
  note st = createDraft_state [OF hcCreate]
  have "committed s' = committed s"
    using st(4,6) fresh_ids(2) [OF assms(2)] by (auto simp: committed_def fun_eq_iff)
  with st show ?thesis by simp
next
  case (hcSubmit d by' r)
  note st = hySubmit_state(1,2) [OF hcSubmit]
  show ?thesis using committed_cong [OF st(2)] by (simp add: st)
next
  case (hcDecide i a by' r)
  then obtain st: "hy_byUC s' = hy_byUC s" "hy_drafts s' = hy_drafts s" by (rule hyDecide_state)
  show ?thesis using committed_cong [OF st(2)] by (simp add: st)
qed (use assms(3) in \<open>auto simp: committed_def fun_eq_iff\<close>)

lemma hypInv_call:
  assumes "hypInv s" and "hypCall s s'"
  shows "hypInv s'"
proof -
  have ids: "hypIDs s'" "hypDesk.deskInv s'" using assms hypIDs_call hypDesk.deskInv_call by (auto simp: hypInv_def)
  have warrants: "warranted s i \<Longrightarrow> warranted s' i" for i using assms warranted_call by (auto simp: hypInv_def)
  show ?thesis
  proof (cases "\<exists>t i a by' h. hyCommit t i a by' s = Inr (h, s')")
    case True
    then obtain t i a by' h where c: "hyCommit t i a by' s = Inr (h, s')" by blast
    have "finite (dom (hy_drafts s'))"
      by (rule hyCommit_state [OF c]) (use assms(1) in \<open>simp add: hypInv_def\<close>)
    moreover obtain uc where uc: "i \<notin> committed s uc" "committed s' = (committed s)(uc := insert i (committed s uc))"
      "hy_byUC s' = (hy_byUC s)(uc \<mapsto> h)" "vh_RecordVersion h = int (card (committed s uc)) + 1"
      "vh_ApprovalState h = ArtApproved" "warranted s i"
      by (rule commit_committed [OF c assms(1)])
    moreover have "versioned (committed s') (hy_byUC s') k" for k
      unfolding uc(2,3) using assms(1) finite_committed [OF assms(1)] uc(1,4,5)
      by (intro versioned_insert) (auto simp: hypInv_def)
    moreover have "warranted s' j" if "j \<in> committed s' k" for j k
      using that uc(2,6) assms(1) warrants by (auto simp: hypInv_def split: if_splits)
    ultimately show ?thesis using ids unfolding hypInv_def by blast
  next
    case False
    then show ?thesis using other_committed [OF assms(2)] ids warrants assms(1) by (auto simp: hypInv_def)
  qed
qed

lemma hypInv_calls: "hypCall\<^sup>*\<^sup>* s s' \<Longrightarrow> hypInv s \<Longrightarrow> hypInv s'"
  by (induction rule: rtranclp_induct) (auto intro: hypInv_call)

lemma hypInv_new: "hypInv newHypService"
  by (simp add: hypInv_def newHypService_def hypIDs_def hypDesk.deskInv_def committed_def versioned_def)

lemma committed_warrant:
  assumes inv: "hypInv s" and i: "i \<in> committed s uc"
  shows "\<exists>d a r. hy_drafts s i = Some d \<and> concat (map fieldErrors (dt_Proposed d)) = []
        \<and> hy_requests s a = Some r \<and> rq_TargetID r = i \<and> rq_State r = ReqApproved
        \<and> rq_DecidedBy r \<noteq> [] \<and> rq_DecidedBy r \<noteq> rq_RequestedBy r"
proof -
  obtain a r where r: "hy_requests s a = Some r" "rq_TargetID r = i" "rq_State r = ReqApproved"
    using inv i unfolding hypInv_def warranted_def by blast
  have "dutiesSeparated r" using inv r(1) unfolding hypInv_def hypDesk.deskInv_def by blast
  then have "rq_DecidedBy r \<noteq> []" "rq_DecidedBy r \<noteq> rq_RequestedBy r" using r(3) by (auto simp: dutiesSeparated_def)
  moreover have ids: "hypIDs s" using inv by (simp add: hypInv_def)
  then obtain d where d: "hy_drafts s i = Some d" "dt_Valid d" using r(1,2) unfolding hypIDs_def by blast
  moreover have "concat (map fieldErrors (dt_Proposed d)) = []" using ids d unfolding hypIDs_def by blast
  ultimately show ?thesis using r by blast
qed

text \<open>
  C4: change control.  Whatever the clients do, each committed draft of a use case is valid and was
  approved by someone other than its requester; the active hypothesis is approved, its record version is
  the number of committed drafts, there is none before the first commit, and every later change of it
  raises its version.
\<close>

theorem change_control:
  assumes "hypCall\<^sup>*\<^sup>* newHypService s" and "hypCall\<^sup>*\<^sup>* s s'"
  shows "(\<forall>i \<in> committed s uc. \<exists>d a r. hy_drafts s i = Some d \<and> concat (map fieldErrors (dt_Proposed d)) = []
        \<and> hy_requests s a = Some r \<and> rq_TargetID r = i \<and> rq_State r = ReqApproved
        \<and> rq_DecidedBy r \<noteq> [] \<and> rq_DecidedBy r \<noteq> rq_RequestedBy r)
    \<and> (case hy_byUC s uc of
         None \<Rightarrow> committed s uc = {}
       | Some h \<Rightarrow> vh_RecordVersion h = int (card (committed s uc)) \<and> vh_ApprovalState h = ArtApproved
           \<and> (\<exists>h'. hy_byUC s' uc = Some h' \<and> (h' = h \<or> vh_RecordVersion h < vh_RecordVersion h')))"
proof -
  have inv: "hypInv s" using hypInv_calls [OF assms(1) hypInv_new] .
  have later: "\<exists>h'. hy_byUC s' uc = Some h' \<and> (h' = h \<or> vh_RecordVersion h < vh_RecordVersion h')" if "hy_byUC s uc = Some h" for h
    using assms(2)
  proof (induction rule: rtranclp_induct)
    case (step y z)
    then obtain h' where h': "hy_byUC y uc = Some h'" "h' = h \<or> vh_RecordVersion h < vh_RecordVersion h'" by blast
    have y: "hypInv y" using hypInv_calls [OF step.hyps(1) inv] .
    show ?case
    proof (cases "\<exists>t i a by' h. hyCommit t i a by' y = Inr (h, z)")
      case True
      then obtain t i a by' h2 where c: "hyCommit t i a by' y = Inr (h2, z)" by blast
      obtain uc2 where "hy_byUC z = (hy_byUC y)(uc2 \<mapsto> h2)" "vh_RecordVersion h2 = int (card (committed y uc2)) + 1"
        by (rule commit_committed [OF c y])
      moreover have "vh_RecordVersion h' = int (card (committed y uc))"
        using hypInv_versioned [OF y, of uc] h'(1) by (simp add: versioned_def)
      ultimately show ?thesis using h' by auto
    next
      case False
      then show ?thesis using other_committed [OF step.hyps(2)] y h' by (auto simp: hypInv_def)
    qed
  qed (use that in simp)
  have warrant: "\<exists>d a r. hy_drafts s i = Some d \<and> concat (map fieldErrors (dt_Proposed d)) = []
        \<and> hy_requests s a = Some r \<and> rq_TargetID r = i \<and> rq_State r = ReqApproved
        \<and> rq_DecidedBy r \<noteq> [] \<and> rq_DecidedBy r \<noteq> rq_RequestedBy r" if "i \<in> committed s uc" for i
    using committed_warrant [OF inv that] .
  show ?thesis
  proof (cases "hy_byUC s uc")
    case None
    with hypInv_versioned [OF inv, of uc] have "committed s uc = {}" by (simp add: versioned_def)
    with None show ?thesis by simp
  next
    case (Some h)
    with hypInv_versioned [OF inv, of uc]
    have "vh_RecordVersion h = int (card (committed s uc)) \<and> vh_ApprovalState h = ArtApproved" by (simp add: versioned_def)
    with Some later [OF Some] warrant show ?thesis by simp
  qed
qed

text \<open>A valid draft that someone other than its submitter approves can always be committed.\<close>

lemma approve_and_commit:
  fixes a b :: string
  assumes inv: "hypInv s" and ok: "concat (map fieldErrors p) = []" and other: "b \<noteq> []" "b \<noteq> a"
  obtains s' i where "hypCall\<^sup>*\<^sup>* s s'" "i \<in> committed s' uc" "hy_byUC s' uc \<noteq> None"
proof -
  define i where "i = numberedID ''drf'' (hy_seq s + 1)"
  obtain d s1 where c1: "createDraft 0 uc a p s = (d, s1)" by (cases "createDraft 0 uc a p s")
  note st1 = createDraft_state [OF c1]
  have d: "hy_drafts s1 i = Some d" "dt_Valid d" "\<not> dt_Committed d" "dt_UseCaseID d = uc"
    using c1 st1 ok by (auto simp: i_def createDraft_def Let_def)
  obtain r s2 where c2: "hySubmit i a s1 = Inr (r, s2)" using d by (auto simp: hySubmit_def Let_def)
  note st2 = hySubmit_state [OF c2]
  define k where "k = numberedID ''apr'' (hy_seq s1 + 1)"
  have r: "hy_requests s2 k = Some r" "rq_State r = ReqSubmitted" "rq_TargetID r = i" "rq_ActionType r = ''RegistryUpdate''"
      "rq_RequestedBy r = a" "rq_ApproverIDs r = []"
    using st2 by (simp_all add: k_def)
  define r' where "r' = r\<lparr>rq_State := ReqApproved, rq_DecidedBy := b\<rparr>"
  have "decideRequest r ''approve'' b = Inr r'"
    using r other by (simp add: decideRequest_def checkApprover_def requestTransition_def r'_def)
  then obtain s3 where c3: "hyDecide k ''approve'' b s2 = Inr (r', s3)"
    and st3: "hy_requests s3 k = Some r'" "hy_drafts s3 = hy_drafts s2"
    using r(1) by (simp add: hyDecide_def)
  have d3: "hy_drafts s3 i = Some d" using d(1) st2(2) st3(2) by simp
  then have "\<exists>h s4. hyCommit 0 i k b s3 = Inr (h, s4)"
    using d(3) st3(1) r by (simp add: hyCommit_def r'_def Let_def split_beta)
  then obtain h s4 where c4: "hyCommit 0 i k b s3 = Inr (h, s4)" by blast
  obtain d' where "hy_drafts s3 i = Some d'" "hy_drafts s4 = (hy_drafts s3)(i \<mapsto> d'\<lparr>dt_Committed := True\<rparr>)"
      "hy_byUC s4 = (hy_byUC s3)(dt_UseCaseID d' \<mapsto> h)"
    by (rule hyCommit_state [OF c4])
  with d3 d(4) have "i \<in> committed s4 uc" "hy_byUC s4 uc \<noteq> None" by (simp_all add: committed_def)
  moreover have "hypCall\<^sup>*\<^sup>* s s4"
    using c1 c2 c3 c4 by (meson hypCall.intros rtranclp.rtrancl_into_rtrancl rtranclp.rtrancl_refl)
  ultimately show thesis using that by blast
qed

theorem change_control_witness:
  "\<exists>s h. hypCall\<^sup>*\<^sup>* newHypService s \<and> hypCall\<^sup>*\<^sup>* s s \<and> hy_byUC s ''uc-1'' = Some h
     \<and> vh_RecordVersion h = int (card (committed s ''uc-1'')) \<and> committed s ''uc-1'' \<noteq> {}"
proof -
  have "concat (map fieldErrors [(''value_owner'', JStr ''ann'')]) = []"
    by (simp add: fieldErrors_def allowedFields_def numberFields_def)
  then obtain s i where s: "hypCall\<^sup>*\<^sup>* newHypService s" "i \<in> committed s ''uc-1''" "hy_byUC s ''uc-1'' \<noteq> None"
    by (rule approve_and_commit [OF hypInv_new, of _ "''bob''" "''carol''" "''uc-1''"]) auto
  then obtain h where h: "hy_byUC s ''uc-1'' = Some h" by blast
  with change_control [OF s(1) rtranclp.rtrancl_refl, of "''uc-1''"]
  have "vh_RecordVersion h = int (card (committed s ''uc-1''))" by simp
  with s h show ?thesis by blast
qed

section \<open>What a commit drops\<close>

definition unreadFields :: "string list" where
  "unreadFields = [''tier'', ''domain'', ''delivery_owner'', ''sponsor'', ''initiative_cost_period'']"

definition textFields :: "string list" where
  "textFields = [''business_objective'', ''expected_benefit'', ''benefit_type'', ''primary_metric_id'',
     ''value_owner'', ''attribution_method'', ''net_value_check'']"

text \<open>
  Accepted but dropped.  Proposing the tier, the domain, the delivery owner, the sponsor or the
  initiative cost with any value, or a text field or the confounders with a value of another type, adds
  no validation error, and the commit of the draft has the same effect as without it.
\<close>

theorem accepted_but_dropped:
  assumes "f \<in> set unreadFields \<or> f \<in> set textFields \<and> (\<forall>x. v \<noteq> JStr x)
    \<or> f = ''known_confounders'' \<and> (\<forall>x. v \<noteq> JArr x)" and "f \<notin> fst ` set p"
  shows "concat (map fieldErrors ((f, v) # p)) = concat (map fieldErrors p) \<and> applyChanges ((f, v) # p) h = applyChanges p h"
proof
  show "concat (map fieldErrors ((f, v) # p)) = concat (map fieldErrors p)"
    using assms(1) by (auto simp: fieldErrors_def unreadFields_def textFields_def allowedFields_def numberFields_def)
  have none: "map_of p f = None" using assms(2) by (simp add: map_of_eq_None_iff)
  have strings: "stringField g ((f, v) # p) = stringField g p" if "g \<in> set textFields" for g
    using assms(1) none that
    by (cases "g = f"; cases v) (auto simp: stringField_def unreadFields_def textFields_def)
  have numbers: "numberField g ((f, v) # p) = numberField g p" if "g \<in> set numberFields" for g
    using assms(1) that by (auto simp: numberField_def unreadFields_def textFields_def numberFields_def)
  have "confounders ((f, v) # p) = confounders p"
    using assms(1) none by (cases v) (auto simp: confounders_def unreadFields_def textFields_def)
  then show "applyChanges ((f, v) # p) h = applyChanges p h"
    using strings numbers by (simp add: applyChanges_def textFields_def numberFields_def)
qed

theorem accepted_but_dropped_witness:
  "concat (map fieldErrors [(''value_owner'', JNum (Fin 3))]) = []
   \<and> applyChanges [(''value_owner'', JNum (Fin 3))] (newHypothesis 0 ''vh-000001'' ''uc-1'') = newHypothesis 0 ''vh-000001'' ''uc-1''"
  using accepted_but_dropped [of "''value_owner''" "JNum (Fin 3)" "[]" "newHypothesis 0 ''vh-000001'' ''uc-1''"]
  by (simp add: textFields_def applyChanges_def setIf_def stringField_def numberField_def confounders_def)

end
