(* ===== verification/Vria_Intake.thy ===== *)
theory Vria_Intake
  imports Vria_Registry "HOL-Library.Multiset"
begin

text \<open>
  What the registry promises: a promotion takes exactly the clean rows of its batch, once, and only
  adds to the registry; which listings repeat a use case; and when the audit trail repeats an id.
\<close>

section \<open>The calls\<close>

text \<open>The service's counter and the store.  The other services' events come without an id.\<close>

inductive regCall :: "nat \<times> MemStore \<Rightarrow> nat \<times> MemStore \<Rightarrow> bool" where
  rcImport: "importRows t src by' rows st = (r, st') \<Longrightarrow> regCall st st'"
| rcPromote: "promoteImport t i a s = Inr (ucs, s') \<Longrightarrow> regCall (n, s) (n, s')"
| rcAudit: "ae_AuditID e = [] \<Longrightarrow> regCall (n, s) (n, msAppendAudit t e s)"

lemma importRows_state:
  assumes "importRows t src by' rows (n, s) = (r, st')"
  obtains b e where "st' = (n + 2, s\<lparr>ms_batches := (ms_batches s)(numberedID ''imp'' (n + 1) \<mapsto> b), ms_audit := ms_audit s @ [e]\<rparr>)"
    "ib_ImportBatchID b = numberedID ''imp'' (n + 1)" "ib_Staged b = map stageRow rows" "\<not> ib_Promoted b"
    "ae_AuditID e = numberedID ''aud'' (n + 2)"
proof -
  have "numberedID p k \<noteq> []" for p k by (simp add: numberedID_def)
  with assms that show thesis
    by (auto simp: importRows_def stageBatch_def msAppendAudit_def stageImport_def Let_def)
qed

abbreviation cleanRows :: "StagedRecord list \<Rightarrow> StagedRecord list" where
  "cleanRows rs \<equiv> filter (\<lambda>r. sr_Errors r = []) rs"

lemma promotable_new:
  "\<forall>r \<in> set (cleanRows rs). known (sr_UseCaseID r) = None \<Longrightarrow> promotable False known rs = Inr (cleanRows rs)"
  by (induction rs) auto

lemma promotable_known:
  "promotable False known rs = Inr xs \<Longrightarrow> \<forall>r \<in> set (cleanRows rs). known (sr_UseCaseID r) = None"
  by (induction rs arbitrary: xs) (auto simp: map_sum_Inr split: if_splits)

lemma promotable_Inr:
  "promotable False known rs = Inr xs \<longleftrightarrow>
     xs = cleanRows rs \<and> (\<forall>r \<in> set (cleanRows rs). known (sr_UseCaseID r) = None)"
  using promotable_new [of rs known] promotable_known [of known rs] by auto

lemma addUseCases:
  "ms_useCases (foldl addUseCase s ucs) = ms_useCases s ++ map_of (rev (map (\<lambda>uc. (uc_UseCaseID uc, uc)) ucs))"
  "ms_order (foldl addUseCase s ucs) = ms_order s @ map uc_UseCaseID ucs"
  "ms_batches (foldl addUseCase s ucs) = ms_batches s" "ms_audit (foldl addUseCase s ucs) = ms_audit s"
  "ms_seq (foldl addUseCase s ucs) = ms_seq s"
  by (induction ucs arbitrary: s) (simp_all add: addUseCase_def map_add_upd_left fun_eq_iff map_add_def split: option.splits)

lemma promoteImport_state:
  assumes "promoteImport t i a s = Inr (ucs, s')"
  obtains b e where "ms_batches s i = Some b" "\<not> ib_Promoted b" "ucs = map (promotedCase t) (cleanRows (ib_Staged b))"
    "ucs \<noteq> []" "\<forall>uc \<in> set ucs. ms_useCases s (uc_UseCaseID uc) = None"
    "ms_useCases s' = ms_useCases s ++ map_of (rev (map (\<lambda>uc. (uc_UseCaseID uc, uc)) ucs))"
    "ms_order s' = ms_order s @ map uc_UseCaseID ucs" "ms_batches s' = (ms_batches s)(i \<mapsto> b\<lparr>ib_Promoted := True\<rparr>)"
    "ms_audit s' = ms_audit s @ [e]" "ae_AuditID e = numberedID ''aud'' (ms_seq s + 1)" "ms_seq s' = ms_seq s + 1"
proof -
  obtain b rows where b: "ms_batches s i = Some b" "\<not> ib_Promoted b" "promotable False (ms_useCases s) (ib_Staged b) = Inr rows"
      "rows \<noteq> []" "ucs = map (promotedCase t) rows"
    using assms by (auto simp: promoteImport_def promoteBatch_def Let_def split: option.splits if_splits sum.splits)
  moreover have "rows = cleanRows (ib_Staged b)" "\<forall>r \<in> set rows. ms_useCases s (sr_UseCaseID r) = None"
    using b(3) by (auto simp: promotable_Inr)
  ultimately show thesis
    using assms by (intro that [of b]) (auto simp: promoteImport_def promoteBatch_def Let_def addUseCases promotedCase_def)
qed

section \<open>Promotion\<close>

definition regInv :: "nat \<times> MemStore \<Rightarrow> bool" where
  "regInv = (\<lambda>(n, s). set (ms_order s) = dom (ms_useCases s)
     \<and> (\<forall>k uc. ms_useCases s k = Some uc \<longrightarrow> uc_UseCaseID uc = k)
     \<and> (\<forall>i b. ms_batches s i = Some b \<longrightarrow> (\<exists>k. i = numberedID ''imp'' k \<and> k \<le> n)))"

lemma fresh_batch: "regInv (n, s) \<Longrightarrow> ms_batches s (numberedID ''imp'' (Suc n)) = None"
  by (cases "ms_batches s (numberedID ''imp'' (Suc n))") (fastforce simp: regInv_def numberedID_inject)+

lemma map_of_own_ids:
  "map_of (rev (map (\<lambda>uc. (uc_UseCaseID uc, uc)) ucs)) k = Some uc \<Longrightarrow> uc \<in> set ucs \<and> uc_UseCaseID uc = k"
  by (drule map_of_SomeD) auto

lemma regInv_call:
  assumes "regCall st st'" and "regInv st"
  shows "regInv st'"
  using assms(1)
proof cases
  case (rcImport t src by' rows r)
  obtain n s where st: "st = (n, s)" by fastforce
  obtain b e where "st' = (n + 2, s\<lparr>ms_batches := (ms_batches s)(numberedID ''imp'' (n + 1) \<mapsto> b), ms_audit := ms_audit s @ [e]\<rparr>)"
    using rcImport unfolding st by (rule importRows_state)
  with assms(2) st show ?thesis by (fastforce simp: regInv_def)
next
  case (rcPromote t i a s ucs s' n)
  from rcPromote(3) obtain b where b: "ms_batches s i = Some b"
    "ms_useCases s' = ms_useCases s ++ map_of (rev (map (\<lambda>uc. (uc_UseCaseID uc, uc)) ucs))"
    "ms_order s' = ms_order s @ map uc_UseCaseID ucs" "ms_batches s' = (ms_batches s)(i \<mapsto> b\<lparr>ib_Promoted := True\<rparr>)"
    by (rule promoteImport_state)
  have inv: "regInv (n, s)" using assms(2) rcPromote by simp
  have "set (ms_order s') = dom (ms_useCases s')"
    using inv by (auto simp: b regInv_def dom_map_of_conv_image_fst image_image)
  moreover have "uc_UseCaseID uc = k" if "ms_useCases s' k = Some uc" for k uc
    using that inv by (auto simp: b regInv_def map_add_def dest: map_of_own_ids split: option.splits)
  moreover have "\<exists>k. j = numberedID ''imp'' k \<and> k \<le> n" if "ms_batches s' j = Some c" for j c
    using that inv b(1) by (auto simp: b(4) regInv_def split: if_splits)
  ultimately show ?thesis unfolding regInv_def rcPromote by blast
next
  case (rcAudit e n s t)
  with assms(2) show ?thesis by (simp add: regInv_def msAppendAudit_def Let_def)
qed

lemma regInv_calls: "regCall\<^sup>*\<^sup>* st st' \<Longrightarrow> regInv st \<Longrightarrow> regInv st'"
  by (induction rule: rtranclp_induct) (auto intro: regInv_call)

lemma regInv_new: "regInv (0, newMemStore)"
  by (simp add: regInv_def newMemStore_def)

lemma listing_ids: "regInv (n, s) \<Longrightarrow> map uc_UseCaseID (listUseCases s) = ms_order s"
  by (auto simp: regInv_def listUseCases_def dom_def intro!: map_idI split: option.splits)

definition promotedIn :: "string \<Rightarrow> nat \<times> MemStore \<Rightarrow> bool" where
  "promotedIn i = (\<lambda>(n, s). \<exists>b. ms_batches s i = Some b \<and> ib_Promoted b)"

lemma promotedIn_call:
  assumes "regCall st st'" and "regInv st" and "promotedIn i st"
  shows "promotedIn i st'"
  using assms(1)
proof cases
  case (rcImport t src by' rows r)
  obtain n s where st: "st = (n, s)" by fastforce
  obtain b e where "st' = (n + 2, s\<lparr>ms_batches := (ms_batches s)(numberedID ''imp'' (n + 1) \<mapsto> b), ms_audit := ms_audit s @ [e]\<rparr>)"
    using rcImport unfolding st by (rule importRows_state)
  with assms(3) fresh_batch [OF assms(2) [unfolded st]] st show ?thesis by (auto simp: promotedIn_def)
next
  case (rcPromote t k a s ucs s' n)
  from rcPromote(3) obtain b where "ms_batches s k = Some b" "ms_batches s' = (ms_batches s)(k \<mapsto> b\<lparr>ib_Promoted := True\<rparr>)"
    by (rule promoteImport_state)
  with assms(3) rcPromote show ?thesis by (auto simp: promotedIn_def)
qed (use assms(3) in \<open>auto simp: promotedIn_def msAppendAudit_def Let_def\<close>)

lemma promotedIn_calls: "regCall\<^sup>*\<^sup>* st st' \<Longrightarrow> regInv st \<Longrightarrow> promotedIn i st \<Longrightarrow> promotedIn i st'"
  by (induction rule: rtranclp_induct) (auto intro: promotedIn_call regInv_calls)

text \<open>
  C26: promotion.  From a registry the service produced, a promotion that succeeds promotes exactly the
  batch's rows without an error, none of them known before, keeps every known use case, appends them to
  the listing in their order, and never succeeds again on that batch; the listing repeats a use case
  afterwards exactly when it did before or the batch itself repeats one.
\<close>

theorem promotion_adds_clean_rows_once:
  assumes "regCall\<^sup>*\<^sup>* (0, newMemStore) (n, s)" and "promoteImport t i a s = Inr (ucs, s')"
  shows "(\<exists>b. ms_batches s i = Some b \<and> ucs = map (promotedCase t) (cleanRows (ib_Staged b)))
    \<and> (\<forall>uc \<in> set ucs. ms_useCases s (uc_UseCaseID uc) = None)
    \<and> (\<forall>k uc. getUseCase k s = Inr uc \<longrightarrow> getUseCase k s' = Inr uc)
    \<and> map uc_UseCaseID (listUseCases s') = map uc_UseCaseID (listUseCases s) @ map uc_UseCaseID ucs
    \<and> (distinct (map uc_UseCaseID (listUseCases s')) \<longleftrightarrow>
         distinct (map uc_UseCaseID (listUseCases s)) \<and> distinct (map uc_UseCaseID ucs))
    \<and> (regCall\<^sup>*\<^sup>* (n, s') (m, z) \<longrightarrow> promoteImport t' i a' z = Inl ErrAlreadyPromoted)"
proof -
  have inv: "regInv (n, s)" using regInv_calls [OF assms(1) regInv_new] .
  have inv': "regInv (n, s')" using regInv_call [OF rcPromote [OF assms(2)] inv] .
  from assms(2) obtain b where b: "ms_batches s i = Some b" "ucs = map (promotedCase t) (cleanRows (ib_Staged b))"
    and new: "\<forall>uc \<in> set ucs. ms_useCases s (uc_UseCaseID uc) = None"
    and useCases: "ms_useCases s' = ms_useCases s ++ map_of (rev (map (\<lambda>uc. (uc_UseCaseID uc, uc)) ucs))"
    and order: "ms_order s' = ms_order s @ map uc_UseCaseID ucs"
    and batches: "ms_batches s' = (ms_batches s)(i \<mapsto> b\<lparr>ib_Promoted := True\<rparr>)"
    by (rule promoteImport_state)
  have "getUseCase k s' = Inr uc" if "getUseCase k s = Inr uc" for k uc
  proof -
    have known: "ms_useCases s k = Some uc" using that by (simp add: getUseCase_def split: option.splits)
    have "map_of (rev (map (\<lambda>uc. (uc_UseCaseID uc, uc)) ucs)) k = None"
    proof (rule ccontr)
      assume "map_of (rev (map (\<lambda>uc. (uc_UseCaseID uc, uc)) ucs)) k \<noteq> None"
      then obtain u where "map_of (rev (map (\<lambda>uc. (uc_UseCaseID uc, uc)) ucs)) k = Some u" by blast
      from map_of_own_ids [OF this] known new show False by auto
    qed
    then have "ms_useCases s' k = Some uc" using known unfolding useCases by (simp add: map_add_def)
    then show ?thesis by (simp add: getUseCase_def)
  qed
  moreover have "set (ms_order s) \<inter> uc_UseCaseID ` set ucs = {}" using new inv by (auto simp: regInv_def)
  moreover have "promoteImport t' i a' z = Inl ErrAlreadyPromoted" if "regCall\<^sup>*\<^sup>* (n, s') (m, z)"
  proof -
    have "promotedIn i (m, z)" using promotedIn_calls [OF that inv'] batches by (simp add: promotedIn_def)
    then show ?thesis by (auto simp: promotedIn_def promoteImport_def promoteBatch_def)
  qed
  ultimately show ?thesis
    using b new by (auto simp: listing_ids [OF inv] listing_ids [OF inv'] order distinct_append)
qed

definition demoRow :: row where
  "demoRow = [''use_case_id'' \<mapsto> ''uc-1'', ''name'' \<mapsto> ''Search'', ''delivery_status'' \<mapsto> ''Pilot'']"

lemma stage_demoRow:
  "stageRow demoRow = \<lparr>sr_UseCaseID = ''uc-1'', sr_Name = ''Search'', sr_Tier = TierUnclassified,
     sr_DeliveryStatus = DSPilot, sr_Errors = []\<rparr>"
proof -
  have "normalizeDeliveryStatus ''Pilot'' = (DSPilot, None)" by code_simp
  then show ?thesis by (simp add: stageRow_def demoRow_def column_def tierColumn_def)
qed

text \<open>A batch of two equal rows is promoted and listed twice.\<close>

theorem promotion_adds_clean_rows_once_witness:
  "\<exists>n s i ucs s'. regCall\<^sup>*\<^sup>* (0, newMemStore) (n, s) \<and> promoteImport 0 i ''ann'' s = Inr (ucs, s')
     \<and> length ucs = 2 \<and> \<not> distinct (map uc_UseCaseID (listUseCases s'))
     \<and> promoteImport 0 i ''ann'' s' = Inl ErrAlreadyPromoted"
proof -
  obtain r st where imp: "importRows 0 ''jira'' ''ann'' [demoRow, demoRow] (0, newMemStore) = (r, st)"
    by (cases "importRows 0 ''jira'' ''ann'' [demoRow, demoRow] (0, newMemStore)")
  then obtain b e where st: "st = (0 + 2, newMemStore\<lparr>ms_batches := (ms_batches newMemStore)(numberedID ''imp'' (0 + 1) \<mapsto> b),
      ms_audit := ms_audit newMemStore @ [e]\<rparr>)"
    and b: "ib_Staged b = map stageRow [demoRow, demoRow]" "\<not> ib_Promoted b"
    by (rule importRows_state)
  define i where "i = numberedID ''imp'' (0 + 1)"
  obtain n s where ns: "st = (n, s)" by fastforce
  have "ms_batches s i = Some b" "ms_useCases s = Map.empty" using st by (simp_all add: ns i_def newMemStore_def)
  then obtain ucs s' where p: "promoteImport 0 i ''ann'' s = Inr (ucs, s')"
    and ucs: "ucs = map (promotedCase 0) (map stageRow [demoRow, demoRow])"
    using b by (simp add: promoteImport_def promoteBatch_def stage_demoRow Let_def)
  have reach: "regCall\<^sup>*\<^sup>* (0, newMemStore) (n, s)" using rcImport [OF imp] ns by simp
  have "\<not> distinct (map uc_UseCaseID ucs)" "length ucs = 2" by (simp_all add: ucs stage_demoRow promotedCase_def)
  with promotion_adds_clean_rows_once [OF reach p, of n s' 0 "''ann''"] reach p show ?thesis by blast
qed

section \<open>The audit trail's ids\<close>

text \<open>
  The import service numbers its events with every second value of its own counter, the store numbers
  the others with the values of another one, both under the prefix \<open>aud\<close>.
\<close>

definition auditIDs :: "nat \<Rightarrow> nat \<Rightarrow> string list" where
  "auditIDs n q = map (numberedID ''aud'') (map (\<lambda>j. 2 * Suc j) [0..<n div 2] @ map Suc [0..<q])"

definition auditNumbered :: "nat \<times> MemStore \<Rightarrow> bool" where
  "auditNumbered = (\<lambda>(n, s). even n \<and> mset (map ae_AuditID (ms_audit s)) = mset (auditIDs n (ms_seq s)))"

lemma auditIDs_step:
  "even n \<Longrightarrow> mset (auditIDs (n + 2) q) = add_mset (numberedID ''aud'' (n + 2)) (mset (auditIDs n q))"
  "mset (auditIDs n (q + 1)) = add_mset (numberedID ''aud'' (q + 1)) (mset (auditIDs n q))"
  by (auto simp: auditIDs_def elim!: evenE)

lemma auditNumbered_call:
  assumes "regCall st st'" and "auditNumbered st"
  shows "auditNumbered st'"
  using assms(1)
proof cases
  case (rcImport t src by' rows r)
  obtain n s where st: "st = (n, s)" by fastforce
  obtain b e where "st' = (n + 2, s\<lparr>ms_batches := (ms_batches s)(numberedID ''imp'' (n + 1) \<mapsto> b), ms_audit := ms_audit s @ [e]\<rparr>)"
      "ae_AuditID e = numberedID ''aud'' (n + 2)"
    using rcImport unfolding st by (rule importRows_state)
  with assms(2) st show ?thesis using auditIDs_step(1) [of n "ms_seq s"] by (simp add: auditNumbered_def)
next
  case (rcPromote t i a s ucs s' n)
  from rcPromote(3) obtain e where "ms_audit s' = ms_audit s @ [e]" "ae_AuditID e = numberedID ''aud'' (ms_seq s + 1)"
      "ms_seq s' = ms_seq s + 1"
    by (rule promoteImport_state)
  with assms(2) rcPromote show ?thesis using auditIDs_step(2) [of n "ms_seq s"] by (simp add: auditNumbered_def)
next
  case (rcAudit e n s t)
  with assms(2) show ?thesis using auditIDs_step(2) [of n "ms_seq s"] by (simp add: auditNumbered_def msAppendAudit_def Let_def)
qed

lemma auditNumbered_calls: "regCall\<^sup>*\<^sup>* st st' \<Longrightarrow> auditNumbered st \<Longrightarrow> auditNumbered st'"
  by (induction rule: rtranclp_induct) (auto intro: auditNumbered_call)

lemma distinct_auditIDs: "even n \<Longrightarrow> distinct (auditIDs n q) \<longleftrightarrow> n = 0 \<or> q < 2"
proof -
  assume "even n"
  have "inj (numberedID ''aud'')" by (rule injI) (simp add: numberedID_inject)
  then have "distinct (auditIDs n q) \<longleftrightarrow> distinct (map (\<lambda>j. 2 * Suc j) [0..<n div 2] @ map Suc [0..<q])"
    by (simp only: auditIDs_def distinct_map inj_on_subset [OF _ subset_UNIV] simp_thms)
  also have "\<dots> \<longleftrightarrow> n div 2 = 0 \<or> q < 2"
  proof -
    have "(\<lambda>j. 2 * Suc j) ` {0..<n div 2} \<inter> Suc ` {0..<q} = {} \<longleftrightarrow> n div 2 = 0 \<or> q < 2" (is "?L \<longleftrightarrow> ?R")
    proof
      assume ?L
      have "2 \<in> (\<lambda>j. 2 * Suc j) ` {0..<n div 2}" if "n div 2 \<noteq> 0" using that by (intro image_eqI [of _ _ 0]) auto
      moreover have "2 \<in> Suc ` {0..<q}" if "2 \<le> q" using that by (intro image_eqI [of _ _ 1]) auto
      ultimately show ?R using \<open>?L\<close> by (meson disjoint_iff not_le)
    qed auto
    then show ?thesis by (simp add: distinct_map inj_on_def)
  qed
  finally show ?thesis using \<open>even n\<close> by auto
qed

text \<open>
  Audit identifiers.  In every reachable registry the ids of the audit trail are pairwise different
  exactly as long as there was no import or fewer than two events that the store numbered.
\<close>

theorem audit_ids_distinct_iff:
  assumes "regCall\<^sup>*\<^sup>* (0, newMemStore) (n, s)"
  shows "distinct (map ae_AuditID (ms_audit s)) \<longleftrightarrow> n = 0 \<or> ms_seq s < 2"
proof -
  have "auditNumbered (0, newMemStore)" by (simp add: auditNumbered_def newMemStore_def auditIDs_def)
  then have "auditNumbered (n, s)" using auditNumbered_calls [OF assms] by blast
  then show ?thesis
    using distinct_auditIDs [of n "ms_seq s"] mset_eq_imp_distinct_iff [of "map ae_AuditID (ms_audit s)" "auditIDs n (ms_seq s)"]
    by (simp add: auditNumbered_def)
qed

theorem audit_ids_distinct_iff_witness:
  "\<exists>n s. regCall\<^sup>*\<^sup>* (0, newMemStore) (n, s) \<and> \<not> distinct (map ae_AuditID (ms_audit s))"
proof -
  obtain r st where imp: "importRows 0 ''jira'' ''ann'' [demoRow] (0, newMemStore) = (r, st)"
    by (cases "importRows 0 ''jira'' ''ann'' [demoRow] (0, newMemStore)")
  then obtain b e where st: "st = (0 + 2, newMemStore\<lparr>ms_batches := (ms_batches newMemStore)(numberedID ''imp'' (0 + 1) \<mapsto> b),
      ms_audit := ms_audit newMemStore @ [e]\<rparr>)"
    by (rule importRows_state)
  obtain s where s: "st = (2, s)" "ms_seq s = 0" using st by (simp add: newMemStore_def)
  define ev where "ev = \<lparr>ae_AuditID = [], ae_ActorID = ''ann'', ae_Action = ''x'', ae_TargetType = [],
    ae_TargetID = [], ae_CreatedAt = 1\<rparr>"
  have step: "regCall (2, z) (2, msAppendAudit 0 ev z)" for z by (rule rcAudit) (simp add: ev_def)
  define s2 where "s2 = msAppendAudit 0 ev (msAppendAudit 0 ev s)"
  have "regCall\<^sup>*\<^sup>* (0, newMemStore) (2, s2)"
    using rcImport [OF imp] step unfolding s(1) s2_def by (meson rtranclp.rtrancl_into_rtrancl rtranclp.rtrancl_refl)
  moreover have "ms_seq s2 = 2" using s(2) by (simp add: s2_def msAppendAudit_def ev_def Let_def)
  ultimately show ?thesis using audit_ids_distinct_iff [of 2 s2] by (metis less_irrefl zero_neq_numeral)
qed

end
