(* ===== verification/Vria_Score_Facts.thy ===== *)
theory Vria_Score_Facts
  imports Vria_Scoring
begin

text \<open>
  What the scoring engine guarantees: every score lies between 0 and 100 and is the least of the
  component total and the caps, the state \<open>Realized\<close> and the recommendation \<open>Scale\<close> are given exactly
  under their conditions, and the sustainment status is decided by the last two checks.  And where it
  is too lenient: an attribution method it does not know, and a measurement that is not a number.
\<close>

section \<open>Progress\<close>

lemma fround_power: "fround (2 ^ n) = 2 ^ n"
  using scaled_double [of 1 "int n"] by (simp add: isDouble_def)

lemma fround_abs: "isDouble m \<Longrightarrow> \<bar>r\<bar> \<le> m \<Longrightarrow> \<bar>fround r\<bar> \<le> m"
  using fround_mono [of r m] fround_mono [of "- m" r] by (simp add: isDouble_def abs_le_iff)

lemma fin_small: "\<bar>r\<bar> \<le> 2 ^ 1001 \<Longrightarrow> fin r = Fin (fround r)"
proof -
  define big :: rat where "big = 2 ^ 1024"
  assume "\<bar>r\<bar> \<le> 2 ^ 1001"
  then have "\<bar>fround r\<bar> \<le> 2 ^ 1001" by (intro fround_abs) (simp only: isDouble_def fround_power)
  moreover have "2 ^ 1001 < big" unfolding big_def by (rule power_strict_increasing) simp_all
  ultimately have "\<bar>fround r\<bar> < big" by (rule order.strict_trans1)
  then show ?thesis unfolding fin_def big_def [symmetric] by (simp add: Let_def abs_less_iff)
qed

lemma fin_double: "isDouble r \<Longrightarrow> \<bar>r\<bar> \<le> 2 ^ 1001 \<Longrightarrow> fin r = Fin r"
  by (simp only: fin_small isDouble_def)

lemma progress_unit: "\<exists>r. fst (progress i) = Fin r \<and> 0 \<le> r \<and> r \<le> 1"
proof -
  have clamp: "\<exists>r. (if flt (Fin 1) (if flt p (Fin 0) then Fin 0 else p) then Fin 1 else (if flt p (Fin 0) then Fin 0 else p)) = Fin r
      \<and> 0 \<le> r \<and> r \<le> 1" if "p \<noteq> FNaN" for p
    using that by (cases p) auto
  then show ?thesis
    unfolding progress_def by (auto simp: Let_def split: option.splits)
qed

lemma round_unit: "0 \<le> r \<Longrightarrow> r \<le> 20 \<Longrightarrow> 0 \<le> roundHalfAway r \<and> roundHalfAway r \<le> 20"
  by (auto simp: roundHalfAway_def floor_le_iff)

lemma metricMovement_bounds: "0 \<le> metricMovement i \<and> metricMovement i \<le> 20"
proof -
  obtain r where r: "fst (progress i) = Fin r" "0 \<le> r" "r \<le> 1" using progress_unit by blast
  then have "fin (20 * r) = Fin (fround (20 * r))" by (intro fin_small) (simp add: abs_le_iff)
  moreover have "0 \<le> fround (20 * r)" "fround (20 * r) \<le> 20"
    using r(2,3) fround_nonneg [of "20 * r"] fround_mono [of "20 * r" 20] whole_double [of 20] by (simp_all add: isDouble_def)
  ultimately show ?thesis using r(1) round_unit [of "fround (20 * r)"]
    by (auto simp: metricMovement_def intRound_def split: prod.splits)
qed

section \<open>The score\<close>

lemma component_bounds:
  "0 \<le> strategicAlignment i \<and> strategicAlignment i \<le> 10" "0 \<le> baselineQuality i \<and> baselineQuality i \<le> 15"
  "0 \<le> evidenceQuality i \<and> evidenceQuality i \<le> 20" "0 \<le> attributionConfidence i \<and> attributionConfidence i \<le> 10"
  "0 \<le> netValue i \<and> netValue i \<le> 10" "0 \<le> sustainment i \<and> sustainment i \<le> 10"
  "0 \<le> governanceReadiness i \<and> governanceReadiness i \<le> 5"
  by (simp_all add: strategicAlignment_def baselineQuality_def evidenceQuality_def attributionConfidence_def
      netValue_def sustainment_def governanceReadiness_def
      split: Authority.split Freshness.split AttributionMethod.split NetValueCheck.split SustainmentStatus.split)

lemma preCap_bounds: "0 \<le> bdTotal (breakdown i) \<and> bdTotal (breakdown i) \<le> 100"
  using component_bounds [of i] metricMovement_bounds [of i] by (simp add: bdTotal_def breakdown_def)

lemma foldl_applyCap: "foldl applyCap c cs = Min (set (c # map snd cs))"
proof (induction cs arbitrary: c)
  case (Cons x cs)
  have "applyCap c x = min c (snd x)" by (auto simp: applyCap_def)
  then have "foldl applyCap c (x # cs) = Min (insert (min c (snd x)) (set (map snd cs)))"
    using Cons.IH [of "min c (snd x)"] by simp
  also have "\<dots> = Min (set (c # map snd (x # cs)))"
    by (cases "cs = []") (simp_all add: Min_insert min.assoc)
  finally show ?case .
qed simp

lemma caps_bounds: "cap \<in> set (caps i) \<Longrightarrow> 0 \<le> snd cap \<and> snd cap \<le> 79"
  unfolding caps_def by (elim Un_iff [THEN iffD1, elim_format] disjE | auto split: if_splits)+

lemma gateA_bounds: "0 \<le> gateAScore g" "gateAScore g \<le> 100"
proof -
  show "0 \<le> gateAScore g" unfolding gateAScore_def by (intro add_nonneg_nonneg) simp_all
  have "gateAScore g \<le> 10 + 5 + 5 + 10 + 10 + 15 + 15 + 10 + 10 + 5 + 5"
    unfolding gateAScore_def by (intro add_mono) simp_all
  then show "gateAScore g \<le> 100" by simp
qed

lemma score_sel:
  "rs_PreCapScore (score i) = bdTotal (breakdown i)" "rs_AppliedCaps (score i) = map fst (caps i)"
  "rs_ValueState (score i) = valueState i" "rs_MissingEvidence (score i) = missingEvidence i"
  "rs_Score (score i) = Min (set (rs_PreCapScore (score i) # map snd (caps i)))"
  "rs_Recommendation (score i) = recommend i (valueState i) (rs_Score (score i)) (missingEvidence i)"
  "rs_PublicationScore (score i) =
     (if \<not> released (in_ArtifactState i) \<and> 89 < rs_Score (score i) then 89 else rs_Score (score i))"
  by (simp_all add: score_def Let_def foldl_applyCap)

text \<open>
  C29: the numbers of a score.  For every input, NaN and infinities included, the component total lies
  between 0 and 100, the score is the least of the total and the caps that apply, so it lies between 0
  and the total, and only the publication score is held at 89 until the artifact is released; the
  intake score lies between 0 and 100.
\<close>

theorem score_is_least_cap:
  "0 \<le> rs_PreCapScore (score i) \<and> rs_PreCapScore (score i) \<le> 100
   \<and> rs_Score (score i) = Min (set (rs_PreCapScore (score i) # map snd (caps i)))
   \<and> 0 \<le> rs_Score (score i) \<and> rs_Score (score i) \<le> rs_PreCapScore (score i)
   \<and> rs_PublicationScore (score i) = (if released (in_ArtifactState i) then rs_Score (score i) else min 89 (rs_Score (score i)))
   \<and> 0 \<le> gateAScore g \<and> gateAScore g \<le> 100"
proof -
  have pre: "0 \<le> rs_PreCapScore (score i)" "rs_PreCapScore (score i) \<le> 100"
    using preCap_bounds [of i] by (simp_all add: score_sel(1))
  then have "0 \<le> rs_Score (score i)" "rs_Score (score i) \<le> rs_PreCapScore (score i)"
    unfolding score_sel(5) using caps_bounds [of _ i] by auto
  moreover have "rs_PublicationScore (score i)
      = (if released (in_ArtifactState i) then rs_Score (score i) else min 89 (rs_Score (score i)))"
    by (simp add: score_sel(7) min_def)
  ultimately show ?thesis using pre gateA_bounds score_sel(5) by blast
qed

section \<open>Realized and Scale\<close>

text \<open>The target is reached from the baseline, upwards or downwards.\<close>

definition reached :: "rat \<Rightarrow> rat \<Rightarrow> rat \<Rightarrow> bool" where
  "reached b c t \<longleftrightarrow> b < t \<and> t \<le> c \<or> t < b \<and> c \<le> t"


lemma quotient_side:
  assumes "d \<noteq> 0"
  shows "\<not> flt (if flt (Fin 1) (if flt (fin (n / d)) (Fin 0) then Fin 0 else fin (n / d)) then Fin 1
      else if flt (fin (n / d)) (Fin 0) then Fin 0 else fin (n / d)) (Fin 1) \<longleftrightarrow> 1 \<le> fround (n / d)"
proof -
  define big :: rat where "big = 2 ^ 1024"
  have "1 < big" unfolding big_def by (rule one_less_power) simp_all
  then show ?thesis unfolding fin_def big_def [symmetric] by (auto simp: Let_def)
qed

lemma progress_quotient:
  assumes "in_BaselineValue i = Some (Fin b)" and "in_CurrentValue i = Some (Fin c)" and "in_TargetValue i = Some (Fin t)"
    and "\<bar>b\<bar> \<le> 2 ^ 1000" and "\<bar>c\<bar> \<le> 2 ^ 1000" and "\<bar>t\<bar> \<le> 2 ^ 1000"
  shows "\<not> flt (fst (progress i)) (Fin 1) \<longleftrightarrow> fround (t - b) \<noteq> 0 \<and> 1 \<le> fround (fround (c - b) / fround (t - b))"
proof -
  have "\<bar>t - b\<bar> \<le> 2 ^ 1000 + 2 ^ 1000" "\<bar>c - b\<bar> \<le> 2 ^ 1000 + 2 ^ 1000"
    using assms(4-6) abs_triangle_ineq4 [of t b] abs_triangle_ineq4 [of c b] by linarith+
  then have sub: "fsub (Fin t) (Fin b) = Fin (fround (t - b))" "fsub (Fin c) (Fin b) = Fin (fround (c - b))"
    using fin_small [of "t - b"] fin_small [of "c - b"] by (simp_all add: fsub_def)
  show ?thesis
  proof (cases "fround (t - b) = 0")
    case True
    then show ?thesis using sub by (simp add: progress_def assms(1-3) finite64_def)
  next
    case False
    have "fin q \<noteq> FNaN" for q by (simp add: fin_def Let_def)
    with False quotient_side [OF False, of "fround (c - b)"] show ?thesis
      by (simp add: progress_def assms(1-3) finite64_def Let_def sub)
  qed
qed

lemma progress_reached:
  assumes "in_BaselineValue i = Some (Fin b)" and "in_CurrentValue i = Some (Fin c)" and "in_TargetValue i = Some (Fin t)"
    and "\<bar>b\<bar> \<le> 2 ^ 1000" and "\<bar>c\<bar> \<le> 2 ^ 1000" and "\<bar>t\<bar> \<le> 2 ^ 1000" and "isDouble b" and "isDouble t"
  shows "reached b c t \<Longrightarrow> \<not> flt (fst (progress i)) (Fin 1)"
    and "isDouble (t - b) \<Longrightarrow> isDouble (c - b) \<Longrightarrow> \<not> flt (fst (progress i)) (Fin 1) \<longleftrightarrow> reached b c t"
proof -
  note q = progress_quotient [OF assms(1-6)]
  show "\<not> flt (fst (progress i)) (Fin 1)" if r: "reached b c t"
  proof -
    consider "b < t" "t \<le> c" | "t < b" "c \<le> t" using r unfolding reached_def by blast
    then have "fround (t - b) \<noteq> 0 \<and> 1 \<le> fround (c - b) / fround (t - b)"
    proof cases
      case 1
      with difference_pos [OF assms(7,8)] fround_mono [of "t - b" "c - b"] show ?thesis by simp
    next
      case 2
      then have "fround (c - b) \<le> fround (t - b)" by (intro fround_mono) simp
      moreover have "fround (t - b) < 0"
        using difference_pos [OF assms(8,7) 2(1)] fround_minus [of "b - t"] by simp
      ultimately show ?thesis by (simp add: le_divide_eq)
    qed
    with fround_mono [of 1] q show ?thesis by fastforce
  qed
  show "\<not> flt (fst (progress i)) (Fin 1) \<longleftrightarrow> reached b c t" if e: "isDouble (t - b)" "isDouble (c - b)"
  proof -
    have eq: "fround (t - b) = t - b" "fround (c - b) = c - b" using e by (simp_all add: isDouble_def)
    have neg: "isDouble (b - t)" "isDouble (b - c)" using eq fround_minus [of "t - b"] fround_minus [of "c - b"] by (simp_all add: isDouble_def)
    consider "b < t" | "t < b" | "t = b" by linarith
    then show ?thesis
    proof cases
      case 1
      with quotient_reaches [OF e(2,1)] show ?thesis by (auto simp: q eq reached_def)
    next
      case 2
      have "(c - b) / (t - b) = (b - c) / (b - t)" by (metis minus_diff_eq minus_divide_divide)
      with 2 quotient_reaches [OF neg(2,1)] show ?thesis by (auto simp: q eq reached_def)
    qed (simp add: q reached_def)
  qed
qed

lemma progress_one: "\<not> flt (fst (progress i)) (Fin 1) \<Longrightarrow> progress i = (Fin 1, True)"
proof -
  assume hit: "\<not> flt (fst (progress i)) (Fin 1)"
  obtain r where "fst (progress i) = Fin r" "r \<le> 1" using progress_unit by blast
  with hit have "fst (progress i) = Fin 1" by simp
  moreover from this have "snd (progress i)" by (auto simp: progress_def Let_def split: option.splits if_splits)
  ultimately show ?thesis by (simp add: prod_eq_iff)
qed

text \<open>Differences of whole numbers up to \<open>2 ^ 52\<close> are exact.\<close>

lemma whole_difference: "\<bar>k\<bar> \<le> 2 ^ 52 \<Longrightarrow> \<bar>j\<bar> \<le> 2 ^ 52 \<Longrightarrow> isDouble (of_int k - of_int j)"
  using whole_double [of "k - j"] by (simp add: abs_le_iff)


text \<open>
  What inexact differences do: from \<open>10 ^ 17\<close> down to a target of \<open>1\<close>, a current value of \<open>5\<close> has not reached
  the target, but both differences round to \<open>- 10 ^ 17\<close> and the progress is one.
\<close>

lemma fround_near: "0 \<le> x \<Longrightarrow> x < 8 \<Longrightarrow> fround (x - 10 ^ 17) = - (10 ^ 17)"
proof -
  assume x: "0 \<le> x" "x < 8"
  define y where "y = 10 ^ 17 - x"
  have "exponent2 y = 56" using x by (intro exponent2_unique) (simp_all add: y_def)
  then have u: "ulpOf y = 16" using x by (simp add: ulpOf_def y_def)
  have "nearestEven (y / 16) = 6250000000000000"
  proof (cases "x = 0")
    case True
    then have "y / 16 = of_int 6250000000000000" by (simp add: y_def)
    then show ?thesis by (simp only: nearestEven_int)
  next
    case False
    then have "\<lfloor>y / 16\<rfloor> = 6249999999999999" using x by (intro floor_unique) (simp_all add: y_def)
    then show ?thesis using x by (simp add: nearestEven_def Let_def y_def)
  qed
  moreover have "y \<noteq> 0" using x by (simp add: y_def)
  ultimately have "fround y = 10 ^ 17" by (simp add: fround_def u)
  then show ?thesis using fround_minus [of y] by (simp add: y_def)
qed

lemma rounding_hides_a_gap:
  assumes "in_BaselineValue i = Some (Fin (10 ^ 17))" and "in_CurrentValue i = Some (Fin 5)" and "in_TargetValue i = Some (Fin 1)"
  shows "\<not> reached (10 ^ 17) 5 1 \<and> \<not> flt (fst (progress i)) (Fin 1)"
proof -
  have "(2::rat) ^ 57 \<le> 2 ^ 1000" by (rule power_increasing) simp_all
  then have "\<bar>10 ^ 17 :: rat\<bar> \<le> 2 ^ 1000" "\<bar>5 :: rat\<bar> \<le> 2 ^ 1000" "\<bar>1 :: rat\<bar> \<le> 2 ^ 1000" by simp_all
  from progress_quotient [OF assms this] fround_near [of 1] fround_near [of 5] show ?thesis by (simp add: reached_def)
qed

text \<open>The strong case of the service's worked examples.\<close>

definition strongInput :: Input where
  "strongInput =
     \<lparr>in_ValueOwner = ''owner'', in_Sponsor = ''sponsor'', in_BusinessObjective = ''reduce MTTR'',
      in_BenefitType = ''Cost'', in_Tier = TierTool, in_PrimaryMetricID = ''M-1'',
      in_BaselineValue = Some (Fin 100), in_BaselinePeriodDefined = True, in_BaselinePlanApproved = False,
      in_CurrentValue = Some (Fin 50), in_TargetValue = Some (Fin 50), in_LowerIsBetter = False,
      in_EvidenceAuthority = Authoritative, in_EvidenceFreshness = Fresh, in_AllCitationsPresent = True,
      in_HasEvidenceSource = True, in_OwnerAcceptedStale = False, in_Attribution = DirectMeasurement,
      in_ConfoundersDocumented = 0, in_MaterialConfoundersUndocumented = False, in_NetValue = NetPositive,
      in_NetValueRationale = [], in_Sustainment = SustainOk, in_ApprovalBoundaryRecorded = True,
      in_PolicyIssueUnresolved = False, in_ArtifactState = ArtApproved, in_HasValueClaim = False,
      in_DeliveryComplete = False\<rparr>"

lemma strong_values: "isDouble 100" "isDouble 60" "isDouble 50" "isDouble (- 50)" "isDouble (- 40)"
  using whole_double [of 100] whole_double [of 60] whole_double [of 50] whole_double [of "- 50"] whole_double [of "- 40"] by simp_all


lemma strong_range: "\<bar>50::rat\<bar> \<le> 2 ^ 1000" "\<bar>60::rat\<bar> \<le> 2 ^ 1000" "\<bar>100::rat\<bar> \<le> 2 ^ 1000"
proof -
  have "(2::rat) ^ 7 \<le> 2 ^ 1000" by (rule power_increasing) simp_all
  then show "\<bar>50::rat\<bar> \<le> 2 ^ 1000" "\<bar>60::rat\<bar> \<le> 2 ^ 1000" "\<bar>100::rat\<bar> \<le> 2 ^ 1000" by simp_all
qed

lemma strong_fields: "in_BaselineValue strongInput = Some (Fin 100)" "in_CurrentValue strongInput = Some (Fin 50)"
    "in_TargetValue strongInput = Some (Fin 50)"
  by (simp_all add: strongInput_def)


lemma strong_progress: "\<not> flt (fst (progress strongInput)) (Fin 1)"
  by (rule progress_reached(1) [OF strong_fields strong_range(3,1,1) strong_values(1,3)]) (simp add: reached_def)

lemma strong_realized: "valueState strongInput = Realized"
  using strong_progress
  by (simp add: valueState_def realizedEligible_def released_def strongInput_def Let_def del: One_nat_def)

lemma realizedD:
  assumes "valueState i = Realized"
  shows "in_PrimaryMetricID i \<noteq> []" "in_BaselineValue i \<noteq> None" "in_NetValue i \<noteq> NetNegative"
    "realizedEligible i"
  using assms by (auto simp: valueState_def realizedEligible_def Let_def split: if_splits)

lemma score_85: "85 \<le> rs_Score (score i) \<longleftrightarrow> rs_AppliedCaps (score i) = [] \<and> 85 \<le> rs_PreCapScore (score i)"
proof (cases "caps i")
  case Nil
  then show ?thesis by (simp add: score_sel(2,5))
next
  case (Cons cap cs)
  then have "rs_Score (score i) \<le> snd cap" unfolding score_sel(5) by (intro Min_le) simp_all
  moreover have "snd cap \<le> 79" "rs_AppliedCaps (score i) \<noteq> []"
    using Cons caps_bounds [of cap i] by (simp_all add: score_sel(2))
  ultimately show ?thesis by auto
qed

lemma scale_cond:
  "rs_Recommendation (score i) = Scale \<longleftrightarrow>
     rs_ValueState (score i) = Realized \<and> rs_AppliedCaps (score i) = [] \<and> 85 \<le> rs_PreCapScore (score i)
     \<and> (in_Sponsor i \<noteq> [] \<or> in_Tier i \<noteq> TierLayer)"
proof -
  have "rs_AppliedCaps (score i) = [] \<Longrightarrow> \<not> in_PolicyIssueUnresolved i"
    by (auto simp: score_sel(2) caps_def)
  then show ?thesis
    using realizedD [of i] score_85 [of i]
    by (auto simp: score_sel(3,6) recommend_def split: if_splits)
qed

text \<open>
  C30: what \<open>Scale\<close> takes.  The engine recommends to scale exactly when the value is realized, no cap
  applies at all, the components reach 85 points and a layer has a sponsor.
\<close>

theorem scale_iff:
  "rs_Recommendation (score i) = Scale \<longleftrightarrow>
     rs_ValueState (score i) = Realized \<and> rs_AppliedCaps (score i) = [] \<and> 85 \<le> rs_PreCapScore (score i)
     \<and> \<not> (in_Tier i = TierLayer \<and> in_Sponsor i = [])"
  using scale_cond [of i] by blast

lemma other_progress: "progress (i\<lparr>in_Attribution := a\<rparr>) = progress i"
  by (simp add: progress_def)

lemma other_components:
  "strategicAlignment (i\<lparr>in_Attribution := a\<rparr>) = strategicAlignment i"
  "baselineQuality (i\<lparr>in_Attribution := a\<rparr>) = baselineQuality i"
  "evidenceQuality (i\<lparr>in_Attribution := a\<rparr>) = evidenceQuality i"
  "metricMovement (i\<lparr>in_Attribution := a\<rparr>) = metricMovement i"
  "netValue (i\<lparr>in_Attribution := a\<rparr>) = netValue i"
  "sustainment (i\<lparr>in_Attribution := a\<rparr>) = sustainment i"
  "governanceReadiness (i\<lparr>in_Attribution := a\<rparr>) = governanceReadiness i"
  by (simp_all add: strategicAlignment_def baselineQuality_def evidenceQuality_def metricMovement_def other_progress
      netValue_def sustainment_def governanceReadiness_def)

lemma breakdown_attribution:
  "bdTotal (breakdown (i\<lparr>in_Attribution := a\<rparr>)) + attributionConfidence i
   = bdTotal (breakdown i) + attributionConfidence (i\<lparr>in_Attribution := a\<rparr>)"
  by (simp add: bdTotal_def breakdown_def other_components)

lemma valueState_Realized:
  "valueState i = Realized \<longleftrightarrow>
     in_Sustainment i \<noteq> SustainRegressed \<and> in_ValueOwner i \<noteq> [] \<and> \<not> (in_HasValueClaim i \<and> \<not> in_HasEvidenceSource i)
     \<and> in_PrimaryMetricID i \<noteq> [] \<and> in_BaselineValue i \<noteq> None \<and> in_CurrentValue i \<noteq> None \<and> in_TargetValue i \<noteq> None
     \<and> \<not> flt (fst (progress i)) (Fin 1) \<and> realizedEligible i"
  by (simp add: valueState_def Let_def)

lemma realizedEligible_conj:
  "realizedEligible i \<longleftrightarrow>
     in_BaselineValue i \<noteq> None \<and> in_CurrentValue i \<noteq> None \<and> in_EvidenceAuthority i = Authoritative
     \<and> (in_EvidenceFreshness i = Fresh \<or> in_EvidenceFreshness i = Aging \<and> in_OwnerAcceptedStale i)
     \<and> in_Attribution i \<noteq> AttributionUnknown \<and> in_Attribution i \<noteq> ExpertJudgement \<and> \<not> in_MaterialConfoundersUndocumented i
     \<and> (in_NetValue i = NetPositive \<or> in_NetValue i = NetNotApplicable)
     \<and> \<not> (financialBenefit (in_BenefitType i) \<and> in_NetValue i = NetNotApplicable)
     \<and> released (in_ArtifactState i) \<and> in_Sustainment i \<noteq> SustainRegressed"
proof -
  have "(if a then False else b) \<longleftrightarrow> \<not> a \<and> b" for a b by simp
  then show ?thesis unfolding realizedEligible_def by (simp only: de_Morgan_disj de_Morgan_conj not_not conj_assoc simp_thms)
qed

lemma eligible_attribution: "realizedEligible i \<Longrightarrow> realizedEligible (i\<lparr>in_Attribution := AttributionOther s\<rparr>)"
  unfolding realizedEligible_conj Input.simps by (elim conjE) (intro conjI; simp)

text \<open>
  An attribution method the engine does not know counts as attributed.  Where a well-evidenced use
  case would be scaled, it still is when its attribution method is any other string: neither the cap
  for an unknown attribution nor the condition on \<open>Realized\<close> notices, although the method earns no point.
\<close>

theorem unrecognised_attribution_scales:
  assumes "rs_Recommendation (score i) = Scale" and "95 \<le> rs_PreCapScore (score i)"
  shows "let r = score (i\<lparr>in_Attribution := AttributionOther s\<rparr>) in
      rs_Recommendation r = Scale \<and> rs_ValueState r = Realized \<and> rs_AppliedCaps r = []
      \<and> bd_AttributionConfidence (rs_Breakdown r) = 0"
proof -
  let ?j = "i\<lparr>in_Attribution := AttributionOther s\<rparr>"
  have scale: "valueState i = Realized" "map fst (caps i) = []" "in_Sponsor i \<noteq> [] \<or> in_Tier i \<noteq> TierLayer"
    using assms(1) unfolding scale_cond score_sel(2,3) by blast+
  have "valueState ?j = Realized"
    using scale(1) eligible_attribution [of i s] unfolding valueState_Realized other_progress by simp
  moreover have "caps ?j = []" using scale(2) by (auto simp: caps_def split: if_splits)
  moreover have "85 \<le> bdTotal (breakdown ?j)"
    using breakdown_attribution [where i = i and a = "AttributionOther s"] component_bounds(4) [of i] assms(2)
    by (simp add: score_sel(1) attributionConfidence_def [of ?j])
  moreover have "bd_AttributionConfidence (rs_Breakdown (score ?j)) = 0"
    by (simp add: score_def Let_def breakdown_def attributionConfidence_def)
  ultimately show ?thesis
    using scale(3) by (simp add: Let_def scale_cond score_sel(1-3))
qed

lemma strong_movement: "metricMovement strongInput = 20"
proof -
  have "progress strongInput = (Fin 1, True)" by (rule progress_one [OF strong_progress])
  moreover have "fin (20 * 1) = Fin 20"
  proof -
    have "(2::rat) ^ 5 \<le> 2 ^ 1001" by (rule power_increasing) simp_all
    then show ?thesis using fin_double [of 20] whole_double [of 20] by simp
  qed
  ultimately show ?thesis by (simp add: metricMovement_def intRound_def roundHalfAway_def floor_eq_iff)
qed

lemma strong_total: "rs_PreCapScore (score strongInput) = 100"
proof -
  have "strategicAlignment strongInput = 10" "baselineQuality strongInput = 15" "evidenceQuality strongInput = 20"
    "netValue strongInput = 10" "sustainment strongInput = 10" "governanceReadiness strongInput = 5" "attributionConfidence strongInput = 10"
    by (simp_all add: strategicAlignment_def baselineQuality_def evidenceQuality_def netValue_def sustainment_def
        governanceReadiness_def attributionConfidence_def strongInput_def)
  then show ?thesis by (simp add: score_sel(1) bdTotal_def breakdown_def strong_movement)
qed

theorem unrecognised_attribution_scales_witness:
  "rs_Recommendation (score (strongInput\<lparr>in_Attribution := AttributionOther ''guess''\<rparr>)) = Scale"
proof -
  have "map fst (caps strongInput) = []" by (simp add: caps_def strongInput_def)
  moreover note strong_realized
  moreover have "in_Sponsor strongInput \<noteq> []" by (simp add: strongInput_def)
  ultimately have "rs_Recommendation (score strongInput) = Scale"
    unfolding scale_cond score_sel(2,3) by (simp add: strong_total)
  then show ?thesis
    using unrecognised_attribution_scales [of strongInput "''guess''"] by (simp add: Let_def strong_total)
qed

section \<open>Sustainment\<close>

lemma foldChecks_snoc:
  "foldChecks n g (cs @ [c]) = (case foldChecks n g cs of (m, h) \<Rightarrow>
     if checkFailed c then (m + 1, h \<or> 2 \<le> m + 1) else (0, False))"
  by (induction cs arbitrary: n g) (simp_all add: Let_def)

lemma foldChecks_nonneg: "0 \<le> n \<Longrightarrow> 0 \<le> fst (foldChecks n g cs)"
  by (induction cs arbitrary: n g) (simp_all add: Let_def)

text \<open>
  The sustainment status is decided by the last two checks: regressed when both failed, at risk when
  only the last one failed, and in order when the last one passed, whatever came before.
\<close>

theorem sustainment_trailing:
  "evaluateSustainment history = (case rev history of
      [] \<Rightarrow> SustainNotStarted
    | c # cs \<Rightarrow>
        if \<not> checkFailed c then SustainOk
        else if cs \<noteq> [] \<and> checkFailed (hd cs) then SustainRegressed
        else SustainAtRisk)"
proof (cases history rule: rev_cases)
  case (snoc before c)
  show ?thesis
  proof (cases before rule: rev_cases)
    case Nil
    with snoc show ?thesis by (simp add: evaluateSustainment_def)
  next
    case before: (snoc earlier b)
    obtain n g where "foldChecks 0 False earlier = (n, g)" "0 \<le> n"
      using foldChecks_nonneg [of 0 False earlier] by (cases "foldChecks 0 False earlier") auto
    then show ?thesis
      by (simp add: snoc before evaluateSustainment_def foldChecks_snoc del: append_assoc)
  qed
qed (simp add: evaluateSustainment_def)

text \<open>
  C45: a measurement that is not a number passes.  A check whose snapshot is there, not stale, and NaN
  never fails, so a value claim fed with such measurements stays in order for ever.
\<close>

theorem nan_measurement_passes:
  assumes "sc_MeasuredBenefit c = Some FNaN" and "\<not> sc_SnapshotStale c"
  shows "evaluateSustainment (history @ [c]) = SustainOk"
proof -
  have "flt (fadd (fdiv FNaN x) y) z = False" for x y z by (cases x; cases y) simp_all
  then have "\<not> checkFailed c" using assms by (simp add: checkFailed_def Let_def)
  then show ?thesis by (simp add: evaluateSustainment_def foldChecks_snoc split: prod.split)
qed

theorem nan_measurement_passes_witness:
  "evaluateSustainment ([] @ [\<lparr>sc_MeasuredBenefit = Some FNaN, sc_TargetValue = Fin 100, sc_Threshold = Fin 0, sc_SnapshotStale = False\<rparr>])
     = SustainOk"
  by (rule nan_measurement_passes) simp_all

end
