(* ===== verification/Vria_Sustain.thy ===== *)
theory Vria_Sustain
  imports Vria_Assessment Vria_Score_Facts
begin

text \<open>
  What the assessment service and its scheduler promise: assessments are numbered per use case and kept
  as they are, a sweep ends and keeps the cadence, and the recovery that a passing check would bring never
  comes, since a use case once assessed as regressed is not checked again.
\<close>

section \<open>Steps\<close>

text \<open>The clients' calls, and the smaller steps they are made of.\<close>

inductive asmtCall :: "Scheduler \<times> AsmtService \<Rightarrow> Scheduler \<times> AsmtService \<Rightarrow> bool" where
  acGenerate: "generateAssessment t h ctx uc by' s = Inr (a, s') \<Longrightarrow> asmtCall (sd, s) (sd, s')"
| acSweep: "runDue t hyp lookup st = Some (ocs, st') \<Longrightarrow> asmtCall st st'"
| acProvider: "asmtCall (sd, s) (sd, s\<lparr>am_provider := p\<rparr>)"
| acSink: "asmtCall (sd, s) (sd, s\<lparr>am_sink := calls\<rparr>)"

inductive asmtStep :: "Scheduler \<times> AsmtService \<Rightarrow> Scheduler \<times> AsmtService \<Rightarrow> bool" where
  asGenerate: "generateAssessment t h ctx uc by' s = Inr (a, s') \<Longrightarrow> asmtStep (sd, s) (sd, s')"
| asCheck: "isDue t uc st \<Longrightarrow> runCheck t hyp lookup uc st = Some (oc, st') \<Longrightarrow> asmtStep st st'"
| asProvider: "asmtStep (sd, s) (sd, s\<lparr>am_provider := p\<rparr>)"
| asSink: "asmtStep (sd, s) (sd, s\<lparr>am_sink := calls\<rparr>)"

lemma runLoop_steps: "runLoop t hyp lookup ucs st = Some (ocs, st') \<Longrightarrow> asmtStep\<^sup>*\<^sup>* st st'"
proof (induction ucs arbitrary: st ocs)
  case (Cons uc ucs)
  then show ?case
    by (auto split: if_splits option.splits intro: asCheck converse_rtranclp_into_rtranclp)
qed simp

lemma asmtCall_steps: "asmtCall st st' \<Longrightarrow> asmtStep\<^sup>*\<^sup>* st st'"
  by (induction rule: asmtCall.induct) (auto simp: runDue_def intro: asmtStep.intros runLoop_steps)

lemma asmtCalls_steps: "asmtCall\<^sup>*\<^sup>* st st' \<Longrightarrow> asmtStep\<^sup>*\<^sup>* st st'"
  by (induction rule: rtranclp_induct) (auto dest: asmtCall_steps)

lemma amAudit_sel [simp]:
  "am_provider (amAudit a b c d s) = am_provider s" "am_byID (amAudit a b c d s) = am_byID s"
  "am_byUC (amAudit a b c d s) = am_byUC s" "am_checks (amAudit a b c d s) = am_checks s"
  "am_ucOrder (amAudit a b c d s) = am_ucOrder s" "am_seq (amAudit a b c d s) = am_seq s"
  by (simp_all add: amAudit_def)

text \<open>A service seen without its provider and its audit calls.\<close>

definition sameRecords :: "AsmtService \<Rightarrow> AsmtService \<Rightarrow> bool" where
  "sameRecords s s' \<longleftrightarrow> am_byID s' = am_byID s \<and> am_byUC s' = am_byUC s \<and> am_ucOrder s' = am_ucOrder s \<and> am_seq s' = am_seq s"

text \<open>What a new assessment adds.\<close>

definition filed :: "AsmtService \<Rightarrow> string \<Rightarrow> Assessment \<Rightarrow> AsmtService \<Rightarrow> bool" where
  "filed s uc a s' \<longleftrightarrow>
     as_AssessmentID a = numberedID ''asm'' (am_seq s + 1) \<and> as_UseCaseID a = uc
   \<and> as_Version a = int (length (am_byUC s uc)) + 1
   \<and> (as_ValueState a = Regressed \<longleftrightarrow> evaluateSustainment (am_checks s uc) = SustainRegressed)
   \<and> am_seq s' = am_seq s + 1 \<and> am_byID s' = (am_byID s)(as_AssessmentID a \<mapsto> a)
   \<and> am_byUC s' = (am_byUC s)(uc := am_byUC s uc @ [as_AssessmentID a])
   \<and> am_ucOrder s' = (if am_byUC s uc = [] then am_ucOrder s @ [uc] else am_ucOrder s)
   \<and> am_checks s' = am_checks s"

lemma valueState_regressed: "valueState i = Regressed \<longleftrightarrow> in_Sustainment i = SustainRegressed"
  by (simp add: valueState_def Let_def)

lemma generate_filed:
  assumes "generateAssessment t h ctx uc by' s = Inr (a, s')"
  shows "filed s uc a s'"
proof -
  have state: "as_ValueState (assess t i u v h1 c1 sn checks) = Regressed \<longleftrightarrow> evaluateSustainment checks = SustainRegressed"
    for i u v h1 c1 sn checks
    by (simp add: assess_def Let_def score_def valueState_regressed buildInput_def split_beta)
  show ?thesis
    using assms by (auto simp: generateAssessment_def Let_def filed_def state split: if_splits) (simp_all add: assess_def Let_def)
qed

lemma runCheck_state:
  assumes "runCheck t hyp lookup uc (sd, s) = Some (oc, sd', s')"
  obtains c due s1 where "advance uc t sd = Some due" "sd' = sd\<lparr>sd_nextDue := (sd_nextDue sd)(uc \<mapsto> due)\<rparr>"
    "co_UseCaseID oc = uc" "co_NextCheckAt oc = due" "sameRecords s s1" "am_checks s1 = (am_checks s)(uc := am_checks s uc @ [c])"
    "co_Status oc = evaluateSustainment (am_checks s uc @ [c])" "co_CheckFailed oc = checkFailed c"
    "(s' = s1 \<and> co_NewAssessmentID oc = [])
     \<or> (co_Status oc = SustainRegressed \<and> (\<exists>a. filed s1 uc a s' \<and> co_NewAssessmentID oc = as_AssessmentID a))"
    "co_Status oc = SustainRegressed \<Longrightarrow> hyp uc \<noteq> None \<Longrightarrow> \<exists>a. filed s1 uc a s'"
    "mp_queues (am_provider s) uc = [] \<Longrightarrow> c = missingCheck \<and> am_provider s1 = am_provider s"
proof -
  define metric where "metric = (case hyp uc of Some h \<Rightarrow> vh_PrimaryMetricID h | None \<Rightarrow> [])"
  obtain pulled prov where pull: "pullCheck uc metric (am_provider s) = (pulled, prov)" by fastforce
  define c where "c = (case pulled of Some c \<Rightarrow> c | None \<Rightarrow> missingCheck)"
  define status where "status = evaluateSustainment (am_checks s uc @ [c])"
  define s0 where "s0 = s\<lparr>am_provider := prov, am_checks := (am_checks s)(uc := am_checks s uc @ [c])\<rparr>"
  define s1 where "s1 = (if status = SustainAtRisk \<or> status = SustainRegressed
    then amAudit ''sustainment.owner_notified'' ''UseCase'' uc ''vria-sustainment-scheduler'' s0 else s0)"
  have appended: "appendCheck uc c (s\<lparr>am_provider := prov\<rparr>) = (status, s0)"
    by (simp add: appendCheck_def Let_def status_def s0_def)
  have run: "runCheck t hyp lookup uc (sd, s) = (case advance uc t sd of
       None \<Rightarrow> None
     | Some due \<Rightarrow>
         let sd1 = sd\<lparr>sd_nextDue := (sd_nextDue sd)(uc \<mapsto> due)\<rparr>;
             oc = \<lparr>co_UseCaseID = uc, co_Status = status, co_CheckFailed = checkFailed c,
                   co_NewAssessmentID = [], co_NextCheckAt = due\<rparr> in
         if status \<noteq> SustainRegressed then Some (oc, sd1, s1)
         else (case generateAssessment t (hyp uc) (lookup uc) uc ''vria-sustainment-scheduler'' s1 of
             Inl _ \<Rightarrow> Some (oc, sd1, s1)
           | Inr (a, s3) \<Rightarrow> Some (oc\<lparr>co_NewAssessmentID := as_AssessmentID a\<rparr>, sd1, s3)))"
    by (simp only: runCheck_def Let_def prod.case metric_def [symmetric] pull c_def [symmetric] appended s1_def [symmetric])
  then obtain due where due: "advance uc t sd = Some due" using assms by (auto split: option.splits)
  have s1: "sameRecords s s1" "am_checks s1 = (am_checks s)(uc := am_checks s uc @ [c])"
    by (simp_all add: s1_def s0_def sameRecords_def)
  show thesis
  proof (rule that [OF due _ _ _ s1])
    show "co_Status oc = evaluateSustainment (am_checks s uc @ [c])" "co_UseCaseID oc = uc" "co_NextCheckAt oc = due"
      "co_CheckFailed oc = checkFailed c" "sd' = sd\<lparr>sd_nextDue := (sd_nextDue sd)(uc \<mapsto> due)\<rparr>"
      using assms unfolding run due status_def [symmetric]
      by (auto simp: Let_def split: if_splits sum.splits)
    show "(s' = s1 \<and> co_NewAssessmentID oc = [])
     \<or> (co_Status oc = SustainRegressed \<and> (\<exists>a. filed s1 uc a s' \<and> co_NewAssessmentID oc = as_AssessmentID a))"
      using assms unfolding run due by (auto simp: Let_def dest: generate_filed split: if_splits sum.splits)
    show "\<exists>a. filed s1 uc a s'" if regressed: "co_Status oc = SustainRegressed" and known: "hyp uc \<noteq> None"
    proof -
      obtain a s3 where g: "generateAssessment t (hyp uc) (lookup uc) uc ''vria-sustainment-scheduler'' s1 = Inr (a, s3)"
        using known by (auto simp: generateAssessment_def Let_def)
      moreover from this have "s' = s3"
        using assms regressed unfolding run due by (auto simp: Let_def split: if_splits)
      ultimately show ?thesis by (blast dest: generate_filed)
    qed
    show "c = missingCheck \<and> am_provider s1 = am_provider s" if "mp_queues (am_provider s) uc = []"
      using that pull by (auto simp: pullCheck_def c_def s1_def s0_def)
  qed
qed

inductive micro :: "AsmtService \<Rightarrow> AsmtService \<Rightarrow> bool" where
  mQuiet: "sameRecords s s' \<Longrightarrow> am_checks s' = am_checks s \<Longrightarrow> micro s s'"
| mCheck: "latest uc s = Some b \<Longrightarrow> as_ValueState b = Realized \<Longrightarrow> sameRecords s s'
     \<Longrightarrow> am_checks s' = (am_checks s)(uc := am_checks s uc @ [c]) \<Longrightarrow> micro s s'"
| mFile: "filed s uc a s' \<Longrightarrow> micro s s'"

lemma asmtStep_micro: "asmtStep st st' \<Longrightarrow> micro\<^sup>*\<^sup>* (snd st) (snd st')"
proof (induction rule: asmtStep.induct)
  case (asGenerate t h ctx uc by' s a s' sd)
  then show ?case by (auto dest: generate_filed intro: mFile)
next
  case (asCheck t uc st hyp lookup oc st')
  obtain sd s sd' s' where st: "st = (sd, s)" "st' = (sd', s')" by (cases st, cases st') auto
  from asCheck(1) st obtain b where b: "latest uc s = Some b" "as_ValueState b = Realized"
    by (auto simp: isDue_def split: option.splits)
  obtain c s1 where "sameRecords s s1" "am_checks s1 = (am_checks s)(uc := am_checks s uc @ [c])"
    "s' = s1 \<or> (\<exists>a. filed s1 uc a s')"
    using asCheck(2) unfolding st by (rule runCheck_state) blast
  then show ?case
    using mCheck [OF b, of s1 c] mFile [of s1 uc _ s'] unfolding st snd_conv
    by (meson converse_rtranclp_into_rtranclp r_into_rtranclp)
qed (auto simp: sameRecords_def intro!: r_into_rtranclp mQuiet)

lemma asmtCalls_micro:
  assumes "asmtCall\<^sup>*\<^sup>* st st'"
  shows "micro\<^sup>*\<^sup>* (snd st) (snd st')"
proof -
  have "asmtStep\<^sup>*\<^sup>* st st'" using asmtCalls_steps [OF assms] .
  then show ?thesis by (induction rule: rtranclp_induct) (auto dest: asmtStep_micro)
qed

section \<open>Invariant\<close>

lemma rowsOf_append: "rowsOf m (xs @ ys) = (case rowsOf m xs of None \<Rightarrow> None | Some as \<Rightarrow> map_option ((@) as) (rowsOf m ys))"
  by (induction xs; cases "rowsOf m ys") (auto split: option.splits)

lemma rowsOf_fresh: "i \<notin> set xs \<Longrightarrow> rowsOf (m(i \<mapsto> a)) xs = rowsOf m xs"
  by (induction xs) (auto split: option.splits)

lemma rowsOf_last: "rowsOf m xs = Some as \<Longrightarrow> xs \<noteq> [] \<Longrightarrow> m (last xs) = Some (last as) \<and> as \<noteq> []"
proof (induction xs arbitrary: as)
  case (Cons x xs)
  then show ?case by (cases xs) (auto split: option.splits)
qed simp

text \<open>A use case's assessments: its own, with the versions 1, 2, and so on.\<close>

definition numbered :: "string \<Rightarrow> Assessment list \<Rightarrow> bool" where
  "numbered uc as \<longleftrightarrow> map as_Version as = map (\<lambda>k. int k + 1) [0..<length as] \<and> (\<forall>a \<in> set as. as_UseCaseID a = uc)"

definition asmtInv :: "AsmtService \<Rightarrow> bool" where
  "asmtInv s \<longleftrightarrow>
     (\<forall>i. i \<in> dom (am_byID s) \<longrightarrow> (\<exists>k. i = numberedID ''asm'' k \<and> k \<le> am_seq s))
   \<and> (\<forall>uc. set (am_byUC s uc) \<subseteq> dom (am_byID s))
   \<and> (\<forall>uc. \<exists>as. rowsOf (am_byID s) (am_byUC s uc) = Some as \<and> numbered uc as)
   \<and> distinct (am_ucOrder s) \<and> set (am_ucOrder s) = {uc. am_byUC s uc \<noteq> []}
   \<and> (\<forall>uc a. latest uc s = Some a \<longrightarrow> as_ValueState a = Regressed \<longrightarrow> evaluateSustainment (am_checks s uc) = SustainRegressed)"

lemma rowsOf_length: "rowsOf m xs = Some as \<Longrightarrow> length as = length xs"
  by (induction xs arbitrary: as) (auto split: option.splits)

lemma latest_same: "sameRecords s s' \<Longrightarrow> latest uc s' = latest uc s"
  by (simp add: sameRecords_def latest_def)

lemma fresh_assessment: "asmtInv s \<Longrightarrow> numberedID ''asm'' (am_seq s + 1) \<notin> dom (am_byID s)"
  unfolding asmtInv_def by (fastforce simp: numberedID_inject)

lemma latest_filed:
  assumes "asmtInv s" and "filed s uc a s'"
  shows "latest v s' = (if v = uc then Some a else latest v s)"
proof -
  have "as_AssessmentID a \<notin> set (am_byUC s v)"
    using assms fresh_assessment [OF assms(1)] by (auto simp: asmtInv_def filed_def)
  then have "am_byUC s v \<noteq> [] \<Longrightarrow> last (am_byUC s v) \<noteq> as_AssessmentID a" by (metis last_in_set)
  then show ?thesis using assms(2) by (auto simp: latest_def filed_def)
qed

lemma rows_filed:
  assumes "asmtInv s" and "filed s uc a s'"
  shows "rowsOf (am_byID s') (am_byUC s' v) =
    (if v = uc then map_option (\<lambda>as. as @ [a]) (rowsOf (am_byID s) (am_byUC s uc)) else rowsOf (am_byID s) (am_byUC s v))"
proof -
  have fresh: "as_AssessmentID a \<notin> set (am_byUC s v)" for v
    using assms fresh_assessment [OF assms(1)] by (auto simp: asmtInv_def filed_def)
  have f: "am_byID s' = (am_byID s)(as_AssessmentID a \<mapsto> a)" "am_byUC s' = (am_byUC s)(uc := am_byUC s uc @ [as_AssessmentID a])"
    using assms(2) by (simp_all add: filed_def)
  show ?thesis
    by (cases "rowsOf (am_byID s) (am_byUC s uc)") (simp_all add: f rowsOf_append rowsOf_fresh [OF fresh])
qed

lemma asmtInv_filed:
  assumes "asmtInv s" and "filed s uc a s'"
  shows "asmtInv s'"
proof -
  note inv = assms(1) [unfolded asmtInv_def] and f = assms(2) [unfolded filed_def]
  have "\<exists>as. rowsOf (am_byID s') (am_byUC s' v) = Some as \<and> numbered v as" for v
  proof -
    obtain as where as: "rowsOf (am_byID s) (am_byUC s v) = Some as" "numbered v as" using inv by blast
    show ?thesis
    proof (cases "v = uc")
      case True
      with as f have "numbered v (as @ [a])" by (auto simp: numbered_def rowsOf_length)
      with True as show ?thesis by (simp add: rows_filed [OF assms])
    qed (use as in \<open>simp add: rows_filed [OF assms]\<close>)
  qed
  moreover have "evaluateSustainment (am_checks s' v) = SustainRegressed"
    if "latest v s' = Some b" "as_ValueState b = Regressed" for v b
    using that inv f by (auto simp: latest_filed [OF assms] split: if_splits)
  moreover have "\<exists>k. i = numberedID ''asm'' k \<and> k \<le> am_seq s'" if "i \<in> dom (am_byID s')" for i
  proof (cases "i = as_AssessmentID a")
    case False
    with that f inv obtain k where "i = numberedID ''asm'' k" "k \<le> am_seq s" by auto
    with f show ?thesis by (metis le_SucI Suc_eq_plus1)
  qed (use f in auto)
  moreover have "set (am_byUC s' v) \<subseteq> dom (am_byID s')" for v
  proof -
    have "set (am_byUC s v) \<subseteq> dom (am_byID s)" using inv by blast
    with f show ?thesis by auto
  qed
  moreover have "distinct (am_ucOrder s') \<and> set (am_ucOrder s') = {v. am_byUC s' v \<noteq> []}"
  proof -
    have "distinct (am_ucOrder s)" "set (am_ucOrder s) = {v. am_byUC s v \<noteq> []}" using inv by blast+
    with f show ?thesis by (cases "am_byUC s uc = []") auto
  qed
  ultimately show ?thesis unfolding asmtInv_def by blast
qed

lemma asmtInv_micro:
  assumes "micro s s'" and "asmtInv s"
  shows "asmtInv s'"
  using assms(1)
proof cases
  case mQuiet
  with assms(2) show ?thesis by (simp add: asmtInv_def sameRecords_def latest_def)
next
  case (mCheck uc b c)
  with assms(2) show ?thesis by (auto simp: asmtInv_def sameRecords_def latest_def)
qed (rule asmtInv_filed [OF assms(2)])

lemma asmtInv_micros: "micro\<^sup>*\<^sup>* s s' \<Longrightarrow> asmtInv s \<Longrightarrow> asmtInv s'"
  by (induction rule: rtranclp_induct) (auto intro: asmtInv_micro)

lemma asmtInv_new: "asmtInv newAsmtService"
  by (simp add: asmtInv_def newAsmtService_def numbered_def latest_def)

lemma asmtInv_reachable: "asmtCall\<^sup>*\<^sup>* (newScheduler w, newAsmtService) (sd, s) \<Longrightarrow> asmtInv s"
  using asmtInv_micros [OF _ asmtInv_new] asmtCalls_micro by fastforce

section \<open>History\<close>

lemma history_micro:
  assumes "micro s s'" and "asmtInv s"
  shows "am_byID s \<subseteq>\<^sub>m am_byID s' \<and> (\<exists>new. am_byUC s' uc = am_byUC s uc @ new)"
  using assms(1)
proof cases
  case (mFile v a)
  with fresh_assessment [OF assms(2)] show ?thesis
    by (auto simp: filed_def map_le_def)
qed (auto simp: sameRecords_def)

lemma history_micros:
  assumes "micro\<^sup>*\<^sup>* s s'" and "asmtInv s"
  shows "am_byID s \<subseteq>\<^sub>m am_byID s' \<and> (\<exists>new. am_byUC s' uc = am_byUC s uc @ new)"
  using assms
proof (induction rule: rtranclp_induct)
  case (step y z)
  have y: "asmtInv y" using asmtInv_micros [OF step.hyps(1) step.prems] .
  from step history_micro [OF step.hyps(2) y, of uc] show ?case by (auto intro: map_le_trans)
qed simp

lemma rowsOf_mono: "rowsOf m xs = Some as \<Longrightarrow> m \<subseteq>\<^sub>m m' \<Longrightarrow> rowsOf m' xs = Some as"
  by (induction xs arbitrary: as) (auto simp: map_le_def dom_def split: option.splits)

text \<open>
  C14: the assessments of a use case are append-only.  In every reachable service the listing of a use
  case never panics and shows the versions 1, 2, and so on of its own assessments, the last of them is
  its latest, and whatever calls follow only add to the end of it; no assessment is ever changed.
\<close>

theorem assessments_append_only:
  assumes "asmtCall\<^sup>*\<^sup>* (newScheduler w, newAsmtService) (sd, s)" and "asmtCall\<^sup>*\<^sup>* (sd, s) (sd', s')"
  shows "\<exists>as new. listByUseCase uc s = Some as \<and> map as_Version as = map (\<lambda>k. int k + 1) [0..<length as]
      \<and> (\<forall>a \<in> set as. as_UseCaseID a = uc) \<and> latest uc s = (if as = [] then None else Some (last as))
      \<and> listByUseCase uc s' = Some (as @ new) \<and> (\<forall>i a. amGet i s = Inr a \<longrightarrow> amGet i s' = Inr a)"
proof -
  have inv: "asmtInv s" using asmtInv_reachable [OF assms(1)] .
  have steps: "micro\<^sup>*\<^sup>* s s'" using asmtCalls_micro [OF assms(2)] by simp
  obtain as where as: "rowsOf (am_byID s) (am_byUC s uc) = Some as" "numbered uc as"
    using inv unfolding asmtInv_def by blast
  obtain ids where ids: "am_byID s \<subseteq>\<^sub>m am_byID s'" "am_byUC s' uc = am_byUC s uc @ ids"
    using history_micros [OF steps inv] by blast
  obtain as' where as': "rowsOf (am_byID s') (am_byUC s' uc) = Some as'"
    using asmtInv_micros [OF steps inv] unfolding asmtInv_def by blast
  have old: "rowsOf (am_byID s') (am_byUC s uc) = Some as" by (rule rowsOf_mono [OF as(1) ids(1)])
  obtain new where "as' = as @ new" using as' unfolding ids(2) rowsOf_append old by auto
  moreover have "latest uc s = (if as = [] then None else Some (last as))"
    using rowsOf_last [OF as(1)] rowsOf_length [OF as(1)] by (auto simp: latest_def)
  moreover have "amGet i s' = Inr a" if "amGet i s = Inr a" for i a
    using that ids(1) by (auto simp: amGet_def map_le_def dom_def split: option.splits)
  ultimately show ?thesis using as as' by (auto simp: listByUseCase_def numbered_def)
qed

section \<open>Regression\<close>

lemma regressed_micro:
  assumes "micro s s'" and "asmtInv s" and "latest uc s = Some a" "as_ValueState a = Regressed"
  shows "am_checks s' uc = am_checks s uc \<and> (\<exists>b. latest uc s' = Some b \<and> as_ValueState b = Regressed)"
  using assms(1)
proof cases
  case mQuiet
  with assms(3,4) show ?thesis by (simp add: latest_same)
next
  case (mCheck v b c)
  with assms(3,4) have "v \<noteq> uc" by auto
  with mCheck assms(3,4) show ?thesis by (simp add: latest_same)
next
  case (mFile v b)
  have "evaluateSustainment (am_checks s uc) = SustainRegressed" using assms(2-4) unfolding asmtInv_def by blast
  moreover have "latest uc s' = (if uc = v then Some b else latest uc s)" by (rule latest_filed [OF assms(2) mFile])
  moreover have "am_checks s' = am_checks s" "as_ValueState b = Regressed \<longleftrightarrow> evaluateSustainment (am_checks s v) = SustainRegressed"
    using mFile by (simp_all add: filed_def)
  ultimately show ?thesis using assms(3,4) by (cases "uc = v") simp_all
qed

lemma regressed_micros:
  assumes "micro\<^sup>*\<^sup>* s s'" and "asmtInv s" and "latest uc s = Some a" "as_ValueState a = Regressed"
  shows "am_checks s' uc = am_checks s uc \<and> (\<exists>b. latest uc s' = Some b \<and> as_ValueState b = Regressed)"
  using assms
proof (induction rule: rtranclp_induct)
  case (step y z)
  then obtain b where b: "am_checks y uc = am_checks s uc" "latest uc y = Some b" "as_ValueState b = Regressed" by blast
  from regressed_micro [OF step.hyps(2) asmtInv_micros [OF step.hyps(1) step.prems(1)] b(2,3)] b(1) show ?case by simp
qed simp

text \<open>
  C11: the recovery that the scoring promises is out of the service's reach.  A check that passes turns every
  history into one in order, whatever came before, so a regression is not final by the rules of
  \<open>EvaluateSustainment\<close>.  But once a use case's latest assessment is \<open>Regressed\<close>, no call of the service
  and no sweep ever adds another check to its history, so its latest assessment stays \<open>Regressed\<close> whatever
  the hypothesis, the metrics and the registry say later: a defect, since the sweep looks at \<open>Realized\<close> use
  cases only.
\<close>

theorem recovery_out_of_reach:
  assumes "asmtCall\<^sup>*\<^sup>* (newScheduler w, newAsmtService) (sd, s)" and "latest uc s = Some a" "as_ValueState a = Regressed"
    and "asmtCall\<^sup>*\<^sup>* (sd, s) (sd', s')"
  shows "(\<forall>c. \<not> checkFailed c \<longrightarrow> evaluateSustainment (am_checks s uc @ [c]) = SustainOk)
    \<and> am_checks s' uc = am_checks s uc \<and> (\<exists>b. latest uc s' = Some b \<and> as_ValueState b = Regressed)"
proof
  show "\<forall>c. \<not> checkFailed c \<longrightarrow> evaluateSustainment (am_checks s uc @ [c]) = SustainOk"
    by (simp add: evaluateSustainment_def foldChecks_snoc split: prod.split)
  show "am_checks s' uc = am_checks s uc \<and> (\<exists>b. latest uc s' = Some b \<and> as_ValueState b = Regressed)"
  proof (rule regressed_micros [OF _ _ assms(2,3)])
    show "micro\<^sup>*\<^sup>* s s'" using asmtCalls_micro [OF assms(4)] by simp
  qed (rule asmtInv_reachable [OF assms(1)])
qed

end
