(* ===== verification/Vria_Sweep.thy ===== *)
theory Vria_Sweep
  imports Vria_Sustain Vria_Score_Facts
begin

text \<open>
  The sustainment sweep: the loop of \<open>advance\<close> ends, a sweep checks exactly the use cases that are
  due, and the next check of each stays on the use case's own cadence.
\<close>

section \<open>The cadence\<close>

lemma advanceLoop_ends:
  assumes "0 < w"
  shows "\<exists>k. advanceLoop w t n = Some (n + int k * w) \<and> t < n + int k * w \<and> (k = 0 \<or> n + (int k - 1) * w \<le> t)"
proof (induction "nat (t + 1 - n)" arbitrary: n rule: less_induct)
  case less
  show ?case
  proof (cases "t < n")
    case True
    then show ?thesis by (intro exI [of _ 0]) (simp add: advanceLoop.simps)
  next
    case False
    with assms less [of "n + w"] obtain k where k: "advanceLoop w t (n + w) = Some (n + w + int k * w)"
      "t < n + w + int k * w" "k = 0 \<or> n + w + (int k - 1) * w \<le> t" by auto
    with False have "advanceLoop w t n = Some (n + int (Suc k) * w)" by (simp add: advanceLoop.simps [of w t n] algebra_simps)
    with k False show ?thesis by (intro exI [of _ "Suc k"]) (auto simp: algebra_simps)
  qed
qed

definition onCadence :: "Scheduler \<Rightarrow> int \<Rightarrow> string \<Rightarrow> int \<Rightarrow> bool" where
  "onCadence sd t uc due \<longleftrightarrow> t < due \<and> due \<le> t + sd_window sd
     \<and> (\<forall>prev. sd_nextDue sd uc = Some prev \<longrightarrow> prev \<noteq> 0 \<longrightarrow> sd_window sd dvd due - prev)"

lemma advance_ends:
  assumes "0 < sd_window sd" and "\<forall>prev. sd_nextDue sd uc = Some prev \<longrightarrow> prev \<le> t"
  shows "\<exists>due. advance uc t sd = Some due \<and> onCadence sd t uc due"
proof (cases "\<exists>prev. sd_nextDue sd uc = Some prev \<and> prev \<noteq> 0")
  case True
  then obtain prev where prev: "sd_nextDue sd uc = Some prev" "prev \<noteq> 0" by blast
  obtain k where k: "advanceLoop (sd_window sd) t (prev + sd_window sd) = Some (prev + sd_window sd + int k * sd_window sd)"
    "t < prev + sd_window sd + int k * sd_window sd" "k = 0 \<or> prev + sd_window sd + (int k - 1) * sd_window sd \<le> t"
    using advanceLoop_ends [OF assms(1)] by blast
  have "prev \<le> t" using prev(1) assms(2) by blast
  then have "prev + sd_window sd + int k * sd_window sd \<le> t + sd_window sd"
    using k(3) by (cases k) (auto simp: algebra_simps)
  moreover have "sd_window sd dvd prev + sd_window sd + int k * sd_window sd - prev" by simp
  ultimately show ?thesis using prev k(1,2) by (simp add: advance_def onCadence_def)
next
  case False
  then have "advance uc t sd = Some (t + sd_window sd)" by (auto simp: advance_def split: option.splits)
  with False assms(1) show ?thesis by (auto simp: onCadence_def)
qed

lemma isDue_prev: "isDue t uc (sd, s) \<Longrightarrow> sd_nextDue sd uc = Some prev \<Longrightarrow> prev \<le> t"
  by (simp add: isDue_def)

lemma runCheck_total:
  assumes "0 < sd_window sd" and "isDue t uc (sd, s)"
  obtains oc sd' s' where "runCheck t hyp lookup uc (sd, s) = Some (oc, sd', s')"
proof -
  obtain due where "advance uc t sd = Some due" using advance_ends [OF assms(1)] isDue_prev [OF assms(2)] by blast
  then have "runCheck t hyp lookup uc (sd, s) \<noteq> None"
    by (auto simp: runCheck_def Let_def split: prod.splits sum.splits)
  with that show thesis by fastforce
qed

section \<open>One check\<close>

lemma check_step:
  assumes inv: "asmtInv s" and w: "0 < sd_window sd" and due: "isDue t uc (sd, s)"
    and run: "runCheck t hyp lookup uc (sd, s) = Some (oc, sd', s')"
  shows "asmtInv s'" and "sd_window sd' = sd_window sd" and "am_ucOrder s' = am_ucOrder s"
    and "co_UseCaseID oc = uc" and "onCadence sd t uc (co_NextCheckAt oc)"
    and "isDue t v (sd', s') \<longleftrightarrow> v \<noteq> uc \<and> isDue t v (sd, s)"
    and "v \<noteq> uc \<Longrightarrow> sd_nextDue sd' v = sd_nextDue sd v"
proof -
  show "asmtInv s'"
    using asmtInv_micros [OF asmtStep_micro [OF asCheck [OF due run], simplified] inv] .
  obtain d c s1 where d: "advance uc t sd = Some d" "sd' = sd\<lparr>sd_nextDue := (sd_nextDue sd)(uc \<mapsto> d)\<rparr>"
      "co_UseCaseID oc = uc" "co_NextCheckAt oc = d" "sameRecords s s1"
      "s' = s1 \<or> (\<exists>a. filed s1 uc a s')" "am_checks s1 = (am_checks s)(uc := am_checks s uc @ [c])"
    by (rule runCheck_state [OF run]) blast
  have cad: "onCadence sd t uc d" using advance_ends [OF w] isDue_prev [OF due] d(1) by fastforce
  obtain b where b: "latest uc s = Some b" "as_ValueState b = Realized"
    using due by (auto simp: isDue_def split: option.splits)
  have inv1: "asmtInv s1" using asmtInv_micro [OF mCheck [OF b d(5,7)] inv] .
  have latest: "latest v s' = latest v s" if "v \<noteq> uc" for v
    using d(6) latest_filed [OF inv1, of uc _ s' v] latest_same [OF d(5), of v] that by auto
  have "am_byUC s1 uc \<noteq> []" using b(1) d(5) by (auto simp: latest_def sameRecords_def split: if_splits)
  then show "am_ucOrder s' = am_ucOrder s" using d(5,6) by (auto simp: filed_def sameRecords_def)
  show "isDue t v (sd', s') \<longleftrightarrow> v \<noteq> uc \<and> isDue t v (sd, s)"
    using cad by (cases "v = uc") (auto simp: isDue_def latest d(2) onCadence_def split: option.splits)
  show "sd_window sd' = sd_window sd" "co_UseCaseID oc = uc" "onCadence sd t uc (co_NextCheckAt oc)"
    "v \<noteq> uc \<Longrightarrow> sd_nextDue sd' v = sd_nextDue sd v"
    using d cad by simp_all
qed

section \<open>A sweep\<close>

lemma onCadence_cong: "sd_window sd' = sd_window sd \<Longrightarrow> sd_nextDue sd' uc = sd_nextDue sd uc \<Longrightarrow> onCadence sd' t uc d = onCadence sd t uc d"
  by (simp add: onCadence_def)

lemma sweep_loop:
  assumes "distinct ucs" and "asmtInv s" and "0 < sd_window sd"
  shows "\<exists>ocs sd' s'. runLoop t hyp lookup ucs (sd, s) = Some (ocs, sd', s')
    \<and> map co_UseCaseID ocs = filter (\<lambda>uc. isDue t uc (sd, s)) ucs
    \<and> (\<forall>oc \<in> set ocs. onCadence sd t (co_UseCaseID oc) (co_NextCheckAt oc))
    \<and> am_ucOrder s' = am_ucOrder s \<and> (\<forall>v. isDue t v (sd', s') \<longleftrightarrow> v \<notin> set ucs \<and> isDue t v (sd, s))"
  using assms
proof (induction ucs arbitrary: sd s)
  case (Cons uc ucs)
  show ?case
  proof (cases "isDue t uc (sd, s)")
    case False
    with Cons.IH [of s sd] Cons.prems obtain ocs sd' s' where
      "runLoop t hyp lookup ucs (sd, s) = Some (ocs, sd', s')"
      "map co_UseCaseID ocs = filter (\<lambda>uc. isDue t uc (sd, s)) ucs"
      "\<forall>oc \<in> set ocs. onCadence sd t (co_UseCaseID oc) (co_NextCheckAt oc)"
      "am_ucOrder s' = am_ucOrder s" "\<forall>v. isDue t v (sd', s') \<longleftrightarrow> v \<notin> set ucs \<and> isDue t v (sd, s)" by auto
    with False show ?thesis by (intro exI [of _ ocs] exI [of _ sd'] exI [of _ s']) auto
  next
    case True
    obtain oc sd1 s1 where run: "runCheck t hyp lookup uc (sd, s) = Some (oc, sd1, s1)"
      by (rule runCheck_total [OF Cons.prems(3) True])
    note one = check_step [OF Cons.prems(2,3) True run]
    from Cons.IH [of s1 sd1] Cons.prems one obtain ocs sd' s' where r:
      "runLoop t hyp lookup ucs (sd1, s1) = Some (ocs, sd', s')"
      "map co_UseCaseID ocs = filter (\<lambda>uc. isDue t uc (sd1, s1)) ucs"
      "\<forall>oc \<in> set ocs. onCadence sd1 t (co_UseCaseID oc) (co_NextCheckAt oc)"
      "am_ucOrder s' = am_ucOrder s1" "\<forall>v. isDue t v (sd', s') \<longleftrightarrow> v \<notin> set ucs \<and> isDue t v (sd1, s1)" by auto
    have "filter (\<lambda>v. isDue t v (sd1, s1)) ucs = filter (\<lambda>v. isDue t v (sd, s)) ucs"
      using Cons.prems(1) by (intro filter_cong) (auto simp: one(6))
    moreover have "onCadence sd t (co_UseCaseID c) (co_NextCheckAt c)" if "c \<in> set ocs" for c
    proof -
      have "co_UseCaseID c \<in> set ucs" using r(2) that by (metis image_eqI list.set_map filter_is_subset subsetD)
      then have "co_UseCaseID c \<noteq> uc" using Cons.prems(1) by auto
      from r(3) that onCadence_cong [OF one(2) one(7) [OF this]] show ?thesis by blast
    qed
    ultimately show ?thesis
      using True run r one(3-6) by (intro exI [of _ "oc # ocs"] exI [of _ sd'] exI [of _ s']) auto
  qed
qed simp

lemma window_step: "asmtStep st st' \<Longrightarrow> 0 < sd_window (fst st) \<Longrightarrow> 0 < sd_window (fst st')"
proof (induction rule: asmtStep.induct)
  case (asCheck t uc st hyp lookup oc st')
  obtain sd s sd' s' where st: "st = (sd, s)" "st' = (sd', s')" by (cases st, cases st') auto
  show ?case using asCheck(3) asCheck(2) unfolding st by (auto elim: runCheck_state)
qed auto

lemma window_positive:
  assumes "asmtCall\<^sup>*\<^sup>* (newScheduler w, newAsmtService) (sd, s)"
  shows "0 < sd_window sd"
proof -
  have "0 < sd_window (fst st)" if "asmtStep\<^sup>*\<^sup>* (newScheduler w, newAsmtService) st" for st
    using that
    by (induction rule: rtranclp_induct) (auto simp: newScheduler_def defaultReportingWindow_def dest: window_step)
  from this [OF asmtCalls_steps [OF assms]] show ?thesis by simp
qed

text \<open>
  C10: sweeps end.  In every reachable service a sweep returns: it checks exactly the use cases that are
  due, in order, schedules each of them later than now and at most one window ahead, a whole number of
  windows after its previous date, and a second sweep at the same instant checks nothing.
\<close>

theorem sweep_returns:
  assumes "asmtCall\<^sup>*\<^sup>* (newScheduler w, newAsmtService) (sd, s)"
  shows "\<exists>ocs st. runDue t hyp lookup (sd, s) = Some (ocs, st)
    \<and> map co_UseCaseID ocs = filter (\<lambda>uc. isDue t uc (sd, s)) (am_ucOrder s)
    \<and> (\<forall>oc \<in> set ocs. t < co_NextCheckAt oc \<and> co_NextCheckAt oc \<le> t + sd_window sd
         \<and> (\<forall>prev. sd_nextDue sd (co_UseCaseID oc) = Some prev \<longrightarrow> prev \<noteq> 0 \<longrightarrow> sd_window sd dvd co_NextCheckAt oc - prev))
    \<and> runDue t hyp' lookup' st = Some ([], st)"
proof -
  have inv: "asmtInv s" using asmtInv_reachable [OF assms] .
  then have "distinct (am_ucOrder s)" unfolding asmtInv_def by blast
  from sweep_loop [OF this inv window_positive [OF assms], of t hyp lookup]
  obtain ocs sd' s' where r: "runDue t hyp lookup (sd, s) = Some (ocs, sd', s')"
    "map co_UseCaseID ocs = filter (\<lambda>uc. isDue t uc (sd, s)) (am_ucOrder s)"
    "\<forall>oc \<in> set ocs. onCadence sd t (co_UseCaseID oc) (co_NextCheckAt oc)"
    "am_ucOrder s' = am_ucOrder s" "\<forall>v. isDue t v (sd', s') \<longleftrightarrow> v \<notin> set (am_ucOrder s) \<and> isDue t v (sd, s)"
    by (auto simp: runDue_def)
  have "runLoop t hyp' lookup' ucs (sd', s') = Some ([], sd', s')" if "set ucs \<subseteq> set (am_ucOrder s)" for ucs
    using that r(5) by (induction ucs) auto
  then have "runDue t hyp' lookup' (sd', s') = Some ([], sd', s')" by (simp add: runDue_def r(4))
  with r(1-3) show ?thesis unfolding onCadence_def by blast
qed

section \<open>A run\<close>

text \<open>A use case that is realized and then misses two checks.\<close>

definition runHypothesis :: Hypothesis where
  "runHypothesis = (newHypothesis 0 ''vh-000001'' ''uc-1'')
     \<lparr>vh_ValueOwner := ''ann'', vh_PrimaryMetricID := ''M-1'', vh_BaselineValue := Some (Fin 100),
      vh_TargetValue := Some (Fin 50), vh_AttributionMethod := DirectMeasurement,
      vh_NetValueCheck := NetPositive, vh_ApprovalState := ArtApproved\<rparr>"

definition runSnapshot :: MetricSnapshot where
  "runSnapshot = noSnapshot\<lparr>sn_CurrentValue := Some (Fin 50), sn_EvidenceAuthority := Authoritative,
     sn_EvidenceFreshness := Fresh, sn_HasEvidenceSource := True\<rparr>"

lemma run_realized:
  "as_ValueState (assess t i ''uc-1'' v runHypothesis zeroContext runSnapshot []) = Realized"
proof -
  let ?i = "buildInput runHypothesis zeroContext runSnapshot SustainNotStarted"
  have data: "in_BaselineValue ?i = Some (Fin 100)" "in_CurrentValue ?i = Some (Fin 50)" "in_TargetValue ?i = Some (Fin 50)"
    by (simp_all add: buildInput_def runHypothesis_def runSnapshot_def orElse_def newHypothesis_def)
  have "\<not> flt (fst (progress ?i)) (Fin 1)" 
    using progress_reached(1) [OF data strong_range(3,1,1) strong_values(1,3)] by (simp add: reached_def)
  then have "valueState ?i = Realized"
    unfolding valueState_def realizedEligible_def data Let_def
    by (simp add: buildInput_def runHypothesis_def runSnapshot_def noSnapshot_def released_def newHypothesis_def financialBenefit_def)
  then show ?thesis by (simp add: assess_def Let_def score_def evaluateSustainment_def)
qed

lemma missing_fails: "checkFailed missingCheck"
  by (simp add: checkFailed_def missingCheck_def)

lemma first_generation:
  obtains s a where "asmtCall\<^sup>*\<^sup>* (newScheduler w, newAsmtService) (newScheduler w, s)" "latest ''uc-1'' s = Some a"
    "as_ValueState a = Realized" "am_checks s ''uc-1'' = []" "am_ucOrder s = [''uc-1'']" "mp_queues (am_provider s) ''uc-1'' = []"
proof -
  define s0 where "s0 = newAsmtService\<lparr>am_provider := setSnapshot ''uc-1'' runSnapshot newMemProvider\<rparr>"
  obtain a s where g: "generateAssessment 0 (Some runHypothesis) None ''uc-1'' ''ann'' s0 = Inr (a, s)"
    by (simp add: generateAssessment_def Let_def)
  have inv: "asmtInv s0" by (simp add: s0_def newAsmtService_def asmtInv_def numbered_def latest_def)
  note f = generate_filed [OF g]
  have c0: "asmtCall (newScheduler w, newAsmtService) (newScheduler w, s0)" unfolding s0_def by (rule acProvider)
  have "asmtCall\<^sup>*\<^sup>* (newScheduler w, newAsmtService) (newScheduler w, s)"
    using c0 acGenerate [OF g] by (meson rtranclp.rtrancl_into_rtrancl rtranclp.rtrancl_refl)
  moreover have "as_ValueState a = Realized" and same: "am_provider s = am_provider s0"
    using g run_realized by (auto simp: generateAssessment_def Let_def s0_def setSnapshot_def snapshot_def newAsmtService_def)
  moreover have "latest ''uc-1'' s = Some a" by (simp add: latest_filed [OF inv f])
  moreover have "am_checks s ''uc-1'' = []" "am_ucOrder s = [''uc-1'']" using f by (simp_all add: filed_def s0_def newAsmtService_def)
  moreover have "mp_queues (am_provider s) ''uc-1'' = []" unfolding same by (simp add: s0_def setSnapshot_def newMemProvider_def)
  ultimately show thesis using that by blast
qed

text \<open>One sweep over a single realized use case whose provider has nothing queued.\<close>

lemma missed_sweep:
  assumes order: "am_ucOrder s = [uc]" and latest: "latest uc s = Some a" "as_ValueState a = Realized"
    and inv: "asmtInv s" and w: "0 < sd_window sd" and free: "mp_queues (am_provider s) uc = []"
    and due: "sd_nextDue sd uc = None \<or> (\<exists>d. sd_nextDue sd uc = Some d \<and> d \<le> t)"
  obtains oc sd' s' s1 where "runDue t (\<lambda>_. Some h) lookup (sd, s) = Some ([oc], sd', s')"
    "am_checks s1 uc = am_checks s uc @ [missingCheck]" "sameRecords s s1" "am_provider s1 = am_provider s"
    "evaluateSustainment (am_checks s1 uc) \<noteq> SustainRegressed \<Longrightarrow> s' = s1"
    "evaluateSustainment (am_checks s1 uc) = SustainRegressed \<Longrightarrow> \<exists>a. filed s1 uc a s'"
    "sd_window sd' = sd_window sd" "\<exists>d. sd_nextDue sd' uc = Some d"
proof -
  have isdue: "isDue t uc (sd, s)" using latest due by (auto simp: isDue_def)
  obtain oc sd' s' where run: "runCheck t (\<lambda>_. Some h) lookup uc (sd, s) = Some (oc, sd', s')"
    by (rule runCheck_total [OF w isdue])
  obtain d c s1 where c: "sd' = sd\<lparr>sd_nextDue := (sd_nextDue sd)(uc \<mapsto> d)\<rparr>" "sameRecords s s1"
      "am_checks s1 = (am_checks s)(uc := am_checks s uc @ [c])" "co_Status oc = evaluateSustainment (am_checks s uc @ [c])"
      "(s' = s1 \<and> co_NewAssessmentID oc = [])
       \<or> (co_Status oc = SustainRegressed \<and> (\<exists>a. filed s1 uc a s' \<and> co_NewAssessmentID oc = as_AssessmentID a))"
      "co_Status oc = SustainRegressed \<Longrightarrow> Some h \<noteq> None \<Longrightarrow> \<exists>a. filed s1 uc a s'"
      "mp_queues (am_provider s) uc = [] \<Longrightarrow> c = missingCheck \<and> am_provider s1 = am_provider s"
    by (rule runCheck_state [OF run]) blast
  have sweep: "runDue t (\<lambda>_. Some h) lookup (sd, s) = Some ([oc], sd', s')"
    using run isdue by (simp add: runDue_def order)
  have missing: "c = missingCheck" "am_provider s1 = am_provider s" using c(7) free by auto
  have checks: "am_checks s1 uc = am_checks s uc @ [missingCheck]" by (simp add: c(3) missing)
  have status: "co_Status oc = evaluateSustainment (am_checks s1 uc)" by (simp add: c(4) checks missing)
  have "s' = s1" if "evaluateSustainment (am_checks s1 uc) \<noteq> SustainRegressed" using that c(5) status by auto
  moreover have "\<exists>a. filed s1 uc a s'" if "evaluateSustainment (am_checks s1 uc) = SustainRegressed" using that c(6) status by simp
  moreover have "sd_window sd' = sd_window sd" "\<exists>d. sd_nextDue sd' uc = Some d" by (simp_all add: c(1))
  ultimately show thesis using that [OF sweep checks c(2) missing(2)] by blast
qed

lemma sustainment_misses:
  "evaluateSustainment [missingCheck] = SustainAtRisk" "evaluateSustainment [missingCheck, missingCheck] = SustainRegressed"
  using missing_fails by (simp_all add: evaluateSustainment_def)

lemma second_miss:
  obtains sd s a where "asmtCall\<^sup>*\<^sup>* (newScheduler w, newAsmtService) (sd, s)" "latest ''uc-1'' s = Some a"
    "as_ValueState a = Regressed"
proof -
  let ?sd = "newScheduler w" and ?uc = "''uc-1''" and ?lookup = "\<lambda>_. None"
  obtain s a where s: "asmtCall\<^sup>*\<^sup>* (?sd, newAsmtService) (?sd, s)" "latest ?uc s = Some a"
      "as_ValueState a = Realized" "am_checks s ?uc = []" "am_ucOrder s = [?uc]" "mp_queues (am_provider s) ?uc = []"
    by (rule first_generation)
  have w: "0 < sd_window ?sd" using window_positive [OF s(1)] .
  have inv: "asmtInv s" using asmtInv_reachable [OF s(1)] .
  obtain oc sd1 s1' s1 where one: "runDue 0 (\<lambda>_. Some runHypothesis) ?lookup (?sd, s) = Some ([oc], sd1, s1')"
      "am_checks s1 ?uc = [missingCheck]" "sameRecords s s1" "am_provider s1 = am_provider s"
      "evaluateSustainment (am_checks s1 ?uc) \<noteq> SustainRegressed \<Longrightarrow> s1' = s1" "sd_window sd1 = sd_window ?sd"
      "\<exists>d. sd_nextDue sd1 ?uc = Some d"
    by (rule missed_sweep [OF s(5,2,3) inv w s(6), of 0 runHypothesis ?lookup])
      (simp add: newScheduler_def, simp add: s(4))
  then have same: "s1' = s1" by (simp add: sustainment_misses)
  obtain d where d: "sd_nextDue sd1 ?uc = Some d" using one(7) by blast
  have reach1: "asmtCall\<^sup>*\<^sup>* (?sd, newAsmtService) (sd1, s1)"
    using s(1) acSweep [OF one(1) [unfolded same]] by (rule rtranclp.rtrancl_into_rtrancl)
  have inv1: "asmtInv s1" using asmtInv_reachable [OF reach1] .
  have order1: "am_ucOrder s1 = [?uc]" using one(3) s(5) by (simp add: sameRecords_def)
  have latest1: "latest ?uc s1 = Some a" using s(2) latest_same [OF one(3)] by simp
  have w1: "0 < sd_window sd1" using w one(6) by simp
  have q1: "mp_queues (am_provider s1) ?uc = []" using s(6) one(4) by simp
  obtain oc2 sd2 s2 s3 where two: "runDue d (\<lambda>_. Some runHypothesis) ?lookup (sd1, s1) = Some ([oc2], sd2, s2)"
      "am_checks s3 ?uc = am_checks s1 ?uc @ [missingCheck]" "sameRecords s1 s3"
      "evaluateSustainment (am_checks s3 ?uc) = SustainRegressed \<Longrightarrow> \<exists>a. filed s3 ?uc a s2"
    by (rule missed_sweep [OF order1 latest1 s(3) inv1 w1 q1, of d runHypothesis ?lookup]) (use d in auto)
  have reg: "evaluateSustainment (am_checks s3 ?uc) = SustainRegressed" by (simp add: two(2) one(2) sustainment_misses)
  then obtain b where b: "filed s3 ?uc b s2" using two(4) by blast
  have "asmtCall\<^sup>*\<^sup>* (?sd, newAsmtService) (sd2, s2)"
    using reach1 acSweep [OF two(1)] by (rule rtranclp.rtrancl_into_rtrancl)
  moreover have "as_ValueState b = Regressed" using b reg by (simp add: filed_def)
  moreover have "last (am_byUC s2 ?uc) = as_AssessmentID b" "am_byID s2 (as_AssessmentID b) = Some b" "am_byUC s2 ?uc \<noteq> []"
    using b by (simp_all add: filed_def)
  then have "latest ?uc s2 = Some b" by (simp add: latest_def)
  ultimately show thesis using that by blast
qed

section \<open>Witnesses\<close>

theorem assessments_append_only_witness:
  "\<exists>sd s as. asmtCall\<^sup>*\<^sup>* (newScheduler 0, newAsmtService) (sd, s) \<and> listByUseCase ''uc-1'' s = Some as \<and> as \<noteq> []
     \<and> map as_Version as = map (\<lambda>k. int k + 1) [0..<length as]"
proof -
  obtain s a where s: "asmtCall\<^sup>*\<^sup>* (newScheduler 0, newAsmtService) (newScheduler 0, s)" "latest ''uc-1'' s = Some a"
    by (rule first_generation)
  from assessments_append_only [OF s(1) rtranclp.rtrancl_refl, of "''uc-1''"] s show ?thesis by (metis option.distinct(1))
qed

theorem recovery_out_of_reach_witness:
  "\<exists>sd s s' b. asmtCall\<^sup>*\<^sup>* (newScheduler 0, newAsmtService) (sd, s) \<and> asmtCall\<^sup>*\<^sup>* (sd, s) (sd, s')
     \<and> am_provider s' = setSnapshot ''uc-1'' runSnapshot newMemProvider
     \<and> latest ''uc-1'' s' = Some b \<and> as_ValueState b = Regressed"
proof -
  obtain sd s a where s: "asmtCall\<^sup>*\<^sup>* (newScheduler 0, newAsmtService) (sd, s)" "latest ''uc-1'' s = Some a"
    "as_ValueState a = Regressed" by (rule second_miss)
  let ?s = "s\<lparr>am_provider := setSnapshot ''uc-1'' runSnapshot newMemProvider\<rparr>"
  have step: "asmtCall\<^sup>*\<^sup>* (sd, s) (sd, ?s)" by (rule r_into_rtranclp) (rule acProvider)
  from recovery_out_of_reach [OF s step] obtain b where "latest ''uc-1'' ?s = Some b" "as_ValueState b = Regressed" by blast
  moreover have "am_provider ?s = setSnapshot ''uc-1'' runSnapshot newMemProvider" by simp
  ultimately show ?thesis using s(1) step by blast
qed

theorem sweep_returns_witness:
  "\<exists>s ocs st. asmtCall\<^sup>*\<^sup>* (newScheduler 0, newAsmtService) (newScheduler 0, s)
     \<and> runDue 0 (\<lambda>_. None) (\<lambda>_. None) (newScheduler 0, s) = Some (ocs, st) \<and> map co_UseCaseID ocs = [''uc-1'']"
proof -
  obtain s a where s: "asmtCall\<^sup>*\<^sup>* (newScheduler 0, newAsmtService) (newScheduler 0, s)" "latest ''uc-1'' s = Some a"
    "as_ValueState a = Realized" "am_ucOrder s = [''uc-1'']" by (rule first_generation)
  have "isDue 0 ''uc-1'' (newScheduler 0, s)" using s(2,3) by (simp add: isDue_def newScheduler_def)
  then have "filter (\<lambda>uc. isDue 0 uc (newScheduler 0, s)) (am_ucOrder s) = [''uc-1'']" by (simp add: s(4))
  with sweep_returns [OF s(1), of 0 "\<lambda>_. None" "\<lambda>_. None" "\<lambda>_. None" "\<lambda>_. None"] s(1) show ?thesis by metis
qed

end
