(* ===== verification/Vria_Publish.thy ===== *)
theory Vria_Publish
  imports Vria_Scorecard
begin

text \<open>
  What the scorecard service promises: it is an approval desk, nothing leaves the draft state without an
  approval by someone other than its requester, a published card has its entry in the append-only
  decision log, and its content never changes.  And what supersession does not look at.
\<close>

section \<open>The calls\<close>

inductive cardCall :: "CardService \<Rightarrow> CardService \<Rightarrow> bool" where
  ccCreate: "csCreateDraft t assessments title period ids by' s = Inr (c, s') \<Longrightarrow> cardCall s s'"
| ccSubmit: "csSubmit i action by' s = Inr (r, s') \<Longrightarrow> cardCall s s'"
| ccDecide: "csDecide i a by' s = Inr (r, s') \<Longrightarrow> cardCall s s'"
| ccPublish: "csPublish t i a by' s = Inr (c, s') \<Longrightarrow> cardCall s s'"
| ccSupersede: "csSupersede t i j a by' s = Inr (c, s') \<Longrightarrow> cardCall s s'"
| ccInvalidate: "csInvalidate t i a why by' s = Inr (c, s') \<Longrightarrow> cardCall s s'"
| ccSink: "cardCall s (s\<lparr>cs_sink := calls\<rparr>)"

lemma csAudit_sel [simp]:
  "cs_cards (csAudit a b c d s) = cs_cards s" "cs_requests (csAudit a b c d s) = cs_requests s"
  "cs_log (csAudit a b c d s) = cs_log s" "cs_seq (csAudit a b c d s) = cs_seq s"
  by (simp_all add: csAudit_def)

lemma csCreate_state:
  assumes "csCreateDraft t assessments title period ids by' s = Inr (c, s')"
  shows "cs_cards s' = (cs_cards s)(numberedID ''scd'' (cs_seq s + 1) \<mapsto> c)" "cs_requests s' = cs_requests s"
    "cs_log s' = cs_log s" "cs_seq s' = cs_seq s + 1" "cd_ScorecardID c = numberedID ''scd'' (cs_seq s + 1)"
    "cd_ArtifactState c = ArtDraft" "cd_PublishedAt c = None"
  using assms by (auto simp: csCreateDraft_def Let_def split: sum.splits prod.splits)

lemma csSubmit_state:
  assumes "csSubmit i action by' s = Inr (r, s')"
  shows "cs_cards s' = cs_cards s" "cs_requests s' = (cs_requests s)(numberedID ''scapr'' (cs_seq s + 1) \<mapsto> r)"
    "cs_log s' = cs_log s" "cs_seq s' = cs_seq s + 1" "rq_State r = ReqSubmitted"
  using assms by (auto simp: csSubmit_def Let_def split: if_splits)

lemma csDecide_state:
  assumes "csDecide i a by' s = Inr (r, s')"
  obtains q where "cs_requests s i = Some q" "decideRequest q a by' = Inr r" "cs_requests s' = (cs_requests s)(i \<mapsto> r)"
    "cs_cards s' = approveCard r (cs_cards s)" "cs_log s' = cs_log s" "cs_seq s' = cs_seq s"
  using assms by (auto simp: csDecide_def split: option.splits sum.splits)

text \<open>The three gated actions: an approved request of the action's type, and its record in the log.\<close>

definition gated :: "string \<Rightarrow> string \<Rightarrow> string \<Rightarrow> CardService \<Rightarrow> CardService \<Rightarrow> bool" where
  "gated action i a s s' \<longleftrightarrow> (\<exists>r rec. cs_requests s a = Some r \<and> rq_State r = ReqApproved \<and> rq_ActionType r = action
     \<and> rq_TargetID r = i \<and> cs_log s' = cs_log s @ [rec] \<and> dr_DecisionRecordID rec = numberedID ''dec'' (cs_seq s + 1)
     \<and> dr_DecisionType rec = action \<and> dr_TargetID rec = i \<and> dr_ApprovalID rec = a \<and> dr_DecidedBy rec = rq_DecidedBy r)
   \<and> cs_requests s' = cs_requests s \<and> cs_seq s' = cs_seq s + 1"

lemma csPublish_state:
  assumes "csPublish t i a by' s = Inr (c', s')"
  obtains c where "gated ''ScorecardPublication'' i a s s'" "cs_cards s i = Some c" "cd_ArtifactState c = ArtApproved"
    "c' = c\<lparr>cd_ArtifactState := ArtPublished, cd_PublishedAt := Some t, cd_DecisionLogPointer := numberedID ''dec'' (cs_seq s + 1)\<rparr>"
    "cs_cards s' = (cs_cards s)(i \<mapsto> c')"
  using assms
  by (auto simp: csPublish_def gated_def publishScorecard_def artifactTransition_Inr decisionRecord_def logAppend_def Let_def
      split: option.splits sum.splits if_splits)

lemma csInvalidate_state:
  assumes "csInvalidate t i a why by' s = Inr (c', s')"
  obtains c where "gated ''ScorecardInvalidation'' i a s s'" "cs_cards s i = Some c" "cd_ArtifactState c = ArtPublished"
    "c' = c\<lparr>cd_ArtifactState := ArtInvalidated\<rparr>" "cs_cards s' = (cs_cards s)(i \<mapsto> c')" "why \<noteq> []"
  using assms
  by (auto simp: csInvalidate_def gated_def approvedFor_def artifactTransition_Inr decisionRecord_def logAppend_def Let_def
      split: option.splits sum.splits if_splits)

lemma csSupersede_state:
  assumes "csSupersede t i j a by' s = Inr (c', s')"
  obtains c d where "gated ''ScorecardSupersession'' i a s s'" "cs_cards s i = Some c" "cs_cards s j = Some d"
    "cd_ArtifactState c = ArtApproved \<or> cd_ArtifactState c = ArtPublished"
    "c' = (if i = j then c\<lparr>cd_ArtifactState := ArtSuperseded\<rparr> else d)\<lparr>cd_SupersedesScorecardID := i\<rparr>"
    "cs_cards s' = (cs_cards s)(i \<mapsto> c\<lparr>cd_ArtifactState := ArtSuperseded\<rparr>, j \<mapsto> c')"
  using assms
  by (auto simp: csSupersede_def gated_def approvedFor_def artifactTransition_Inr decisionRecord_def logAppend_def Let_def
      split: option.splits sum.splits if_splits)

section \<open>The desk\<close>

definition cardIDs :: "CardService \<Rightarrow> bool" where
  "cardIDs s \<longleftrightarrow> (\<forall>i \<in> dom (cs_requests s). \<exists>n. i = numberedID ''scapr'' n \<and> n \<le> cs_seq s)
     \<and> (\<forall>i \<in> dom (cs_cards s). \<exists>n. i = numberedID ''scd'' n \<and> n \<le> cs_seq s)"

lemma fresh_card_ids:
  assumes "cardIDs s"
  shows "cs_requests s (numberedID ''scapr'' (cs_seq s + 1)) = None" "cs_cards s (numberedID ''scd'' (cs_seq s + 1)) = None"
proof -
  have "numberedID ''scapr'' (cs_seq s + 1) \<notin> dom (cs_requests s)" "numberedID ''scd'' (cs_seq s + 1) \<notin> dom (cs_cards s)"
    using assms unfolding cardIDs_def by (auto simp: numberedID_inject dest!: bspec)
  then show "cs_requests s (numberedID ''scapr'' (cs_seq s + 1)) = None" "cs_cards s (numberedID ''scd'' (cs_seq s + 1)) = None"
    by blast+
qed

lemma approveCard_dom: "dom (approveCard r m) = dom m"
  by (auto simp: approveCard_def split: option.splits sum.splits)

lemma cardIDs_mono:
  "cardIDs s \<Longrightarrow> dom (cs_requests s') \<subseteq> dom (cs_requests s) \<Longrightarrow> dom (cs_cards s') \<subseteq> dom (cs_cards s)
     \<Longrightarrow> cs_seq s \<le> cs_seq s' \<Longrightarrow> cardIDs s'"
  unfolding cardIDs_def by (meson le_trans subsetD)

lemma cardIDs_call:
  assumes "cardIDs s" and "cardCall s s'"
  shows "cardIDs s'"
  using assms(2)
proof cases
  case (ccCreate t assessments title period ids by' c)
  note st = csCreate_state [OF ccCreate]
  from assms(1) show ?thesis unfolding cardIDs_def st by (auto simp: le_Suc_eq)
next
  case (ccSubmit i action by' r)
  note st = csSubmit_state [OF ccSubmit]
  from assms(1) show ?thesis unfolding cardIDs_def st by (auto simp: le_Suc_eq)
next
  case (ccDecide i a by' r)
  then show ?thesis by (rule csDecide_state) (rule cardIDs_mono [OF assms(1)], auto simp: approveCard_dom)
next
  case (ccPublish t i a by' c)
  then show ?thesis by (rule csPublish_state) (rule cardIDs_mono [OF assms(1)], auto simp: gated_def)
next
  case (ccSupersede t i j a by' c)
  then show ?thesis by (rule csSupersede_state) (rule cardIDs_mono [OF assms(1)], auto simp: gated_def)
next
  case (ccInvalidate t i a why by' c)
  then show ?thesis by (rule csInvalidate_state) (rule cardIDs_mono [OF assms(1)], auto simp: gated_def)
qed (rule cardIDs_mono [OF assms(1)], simp_all)

interpretation cardDesk: approval_desk cs_requests cardCall cardIDs
proof
  fix s s' assume ids: "cardIDs s" and "cardCall s s'"
  from this(2) show "cs_requests s' = cs_requests s
    \<or> (\<exists>i q. cs_requests s i = None \<and> rq_State q = ReqSubmitted \<and> cs_requests s' = (cs_requests s)(i \<mapsto> q))
    \<or> (\<exists>i q a by' r. cs_requests s i = Some q \<and> decideRequest q a by' = Inr r
         \<and> cs_requests s' = (cs_requests s)(i \<mapsto> r))"
  proof cases
    case (ccSubmit i action by' r)
    with fresh_card_ids(1) [OF ids] csSubmit_state(2,5) [OF ccSubmit] show ?thesis by blast
  next
    case (ccDecide i a by' r)
    then show ?thesis by (rule csDecide_state) blast
  next
    case (ccPublish t i a by' c)
    then show ?thesis by (rule csPublish_state) (simp add: gated_def)
  next
    case (ccSupersede t i j a by' c)
    then show ?thesis by (rule csSupersede_state) (simp add: gated_def)
  next
    case (ccInvalidate t i a why by' c)
    then show ?thesis by (rule csInvalidate_state) (simp add: gated_def)
  qed (auto dest: csCreate_state(2))
qed (rule cardIDs_call)

section \<open>What a call does to a card\<close>

definition content :: "Scorecard \<Rightarrow> string \<times> string \<times> (string \<times> string) \<times> Coverage \<times> string list \<times> string \<times> int" where
  "content c = (cd_ScorecardID c, cd_Title c, cd_Period c, cd_Coverage c, cd_AssessmentIDs c, cd_CreatedBy c, cd_CreatedAt c)"

definition published :: "Scorecard \<Rightarrow> int option \<times> string" where
  "published c = (cd_PublishedAt c, cd_DecisionLogPointer c)"

text \<open>An approved publication request for the card.\<close>

definition warrant :: "CardService \<Rightarrow> string \<Rightarrow> string \<Rightarrow> Request \<Rightarrow> bool" where
  "warrant s i a r \<longleftrightarrow> cs_requests s a = Some r \<and> rq_State r = ReqApproved
     \<and> rq_ActionType r = ''ScorecardPublication'' \<and> rq_TargetID r = i"

definition cardEffect :: "CardService \<Rightarrow> CardService \<Rightarrow> string \<Rightarrow> Scorecard \<Rightarrow> Scorecard \<Rightarrow> bool" where
  "cardEffect s s' i c c' \<longleftrightarrow> content c' = content c \<and>
    (let st = cd_ArtifactState c; st' = cd_ArtifactState c' in
      (st' = st \<and> published c' = published c)
    \<or> (st = ArtDraft \<and> st' = ArtApproved \<and> published c' = published c \<and> (\<exists>a r. warrant s' i a r))
    \<or> (st = ArtApproved \<and> st' = ArtPublished \<and> (\<exists>a. gated ''ScorecardPublication'' i a s s')
        \<and> (\<exists>t. published c' = (Some t, numberedID ''dec'' (cs_seq s + 1))))
    \<or> (st \<in> {ArtApproved, ArtPublished} \<and> st' = ArtSuperseded \<and> published c' = published c)
    \<or> (st = ArtPublished \<and> st' = ArtInvalidated \<and> published c' = published c))"

lemma cardEffect_same: "cardEffect s s' i c c"
  by (simp add: cardEffect_def)

lemma card_call:
  assumes "cardCall s s'" and "cardIDs s" and c: "cs_cards s i = Some c"
  shows "\<exists>c'. cs_cards s' i = Some c' \<and> cardEffect s s' i c c'"
  using assms(1)
proof cases
  case (ccCreate t assessments title period ids by' d)
  with c fresh_card_ids(2) [OF assms(2)] csCreate_state(1) [OF ccCreate] cardEffect_same show ?thesis by fastforce
next
  case (ccSubmit j action by' r)
  with c csSubmit_state(1) [OF ccSubmit] cardEffect_same show ?thesis by fastforce
next
  case (ccDecide j a by' r)
  then obtain q where q: "cs_requests s' = (cs_requests s)(j \<mapsto> r)" "cs_cards s' = approveCard r (cs_cards s)"
    by (rule csDecide_state)
  show ?thesis
  proof (cases "rq_State r = ReqApproved \<and> rq_ActionType r = ''ScorecardPublication'' \<and> rq_TargetID r = i \<and> cd_ArtifactState c = ArtDraft")
    case True
    then have "warrant s' i j r" using q(1) by (simp add: warrant_def)
    with True c have "cs_cards s' i = Some (c\<lparr>cd_ArtifactState := ArtApproved\<rparr>)" "cardEffect s s' i c (c\<lparr>cd_ArtifactState := ArtApproved\<rparr>)"
      by (auto simp: q(2) approveCard_def artifactTransition_def cardEffect_def content_def published_def)
    then show ?thesis by blast
  next
    case False
    with c have "cs_cards s' i = Some c" by (auto simp: q(2) approveCard_def split: option.splits sum.splits)
    with cardEffect_same show ?thesis by blast
  qed
next
  case (ccPublish t j a by' d)
  then obtain d' where "gated ''ScorecardPublication'' j a s s'" "cs_cards s j = Some d'" "cd_ArtifactState d' = ArtApproved"
    "d = d'\<lparr>cd_ArtifactState := ArtPublished, cd_PublishedAt := Some t, cd_DecisionLogPointer := numberedID ''dec'' (cs_seq s + 1)\<rparr>"
    "cs_cards s' = (cs_cards s)(j \<mapsto> d)" by (rule csPublish_state)
  with c cardEffect_same show ?thesis by (cases "i = j") (auto simp: cardEffect_def content_def published_def)
next
  case (ccSupersede t j k a by' d)
  then obtain e f where "cs_cards s j = Some e" "cs_cards s k = Some f"
    "cd_ArtifactState e = ArtApproved \<or> cd_ArtifactState e = ArtPublished"
    "d = (if j = k then e\<lparr>cd_ArtifactState := ArtSuperseded\<rparr> else f)\<lparr>cd_SupersedesScorecardID := j\<rparr>"
    "cs_cards s' = (cs_cards s)(j \<mapsto> e\<lparr>cd_ArtifactState := ArtSuperseded\<rparr>, k \<mapsto> d)" by (rule csSupersede_state)
  with c show ?thesis by (cases "i = j"; cases "i = k") (auto simp: cardEffect_def content_def published_def)
next
  case (ccInvalidate t j a why by' d)
  then obtain d' where "cs_cards s j = Some d'" "cd_ArtifactState d' = ArtPublished"
    "d = d'\<lparr>cd_ArtifactState := ArtInvalidated\<rparr>" "cs_cards s' = (cs_cards s)(j \<mapsto> d)" by (rule csInvalidate_state)
  with c cardEffect_same show ?thesis by (cases "i = j") (auto simp: cardEffect_def content_def published_def)
qed (use c cardEffect_same in auto)

lemma log_call:
  assumes "cardCall s s'"
  shows "cs_log s' = cs_log s \<or> (\<exists>rec. cs_log s' = cs_log s @ [rec] \<and> dr_DecisionRecordID rec = numberedID ''dec'' (cs_seq s + 1)
    \<and> cs_seq s' = cs_seq s + 1)" and "cs_seq s \<le> cs_seq s'"
proof -
  have "(cs_log s' = cs_log s \<or> (\<exists>rec. cs_log s' = cs_log s @ [rec] \<and> dr_DecisionRecordID rec = numberedID ''dec'' (cs_seq s + 1)
    \<and> cs_seq s' = cs_seq s + 1)) \<and> cs_seq s \<le> cs_seq s'"
    using assms
  proof cases
    case (ccCreate t assessments title period ids by' d)
    with csCreate_state [OF ccCreate] show ?thesis by simp
  next
    case (ccSubmit j action by' r)
    with csSubmit_state [OF ccSubmit] show ?thesis by simp
  next
    case (ccDecide j a by' r)
    then show ?thesis by (rule csDecide_state) simp
  next
    case (ccPublish t j a by' d)
    then show ?thesis by (rule csPublish_state) (auto simp: gated_def)
  next
    case (ccSupersede t j k a by' d)
    then show ?thesis by (rule csSupersede_state) (auto simp: gated_def)
  next
    case (ccInvalidate t j a why by' d)
    then show ?thesis by (rule csInvalidate_state) (auto simp: gated_def)
  qed simp
  then show "cs_log s' = cs_log s \<or> (\<exists>rec. cs_log s' = cs_log s @ [rec] \<and> dr_DecisionRecordID rec = numberedID ''dec'' (cs_seq s + 1)
    \<and> cs_seq s' = cs_seq s + 1)" "cs_seq s \<le> cs_seq s'" by blast+
qed

lemma new_card:
  assumes "cardCall s s'" and "cs_cards s i = None" and "cs_cards s' i = Some c"
  shows "cd_ArtifactState c = ArtDraft \<and> cd_PublishedAt c = None"
  using assms(1)
proof cases
  case (ccCreate t assessments title period ids by' d)
  with csCreate_state [OF ccCreate] assms(2,3) show ?thesis by (auto split: if_splits)
next
  case (ccSubmit j action by' r)
  with csSubmit_state [OF ccSubmit] assms(2,3) show ?thesis by simp
next
  case (ccDecide j a by' r)
  then obtain "cs_cards s' = approveCard r (cs_cards s)" by (rule csDecide_state)
  with assms(2,3) approveCard_dom [of r "cs_cards s"] show ?thesis by (metis domIff option.distinct(1))
next
  case (ccPublish t j a by' d)
  then show ?thesis by (rule csPublish_state) (use assms(2,3) in \<open>auto split: if_splits\<close>)
next
  case (ccSupersede t j k a by' d)
  then show ?thesis by (rule csSupersede_state) (use assms(2,3) in \<open>auto split: if_splits\<close>)
next
  case (ccInvalidate t j a why by' d)
  then show ?thesis by (rule csInvalidate_state) (use assms(2,3) in \<open>auto split: if_splits\<close>)
qed (use assms(2,3) in simp)

section \<open>The publication gate\<close>

definition recorded :: "CardService \<Rightarrow> string \<Rightarrow> string \<Rightarrow> bool" where
  "recorded s i p \<longleftrightarrow> (\<exists>rec r. rec \<in> set (cs_log s) \<and> dr_DecisionRecordID rec = p \<and> dr_TargetID rec = i
     \<and> dr_DecisionType rec = ''ScorecardPublication'' \<and> warrant s i (dr_ApprovalID rec) r \<and> dr_DecidedBy rec = rq_DecidedBy r)"

definition cardOk :: "CardService \<Rightarrow> string \<Rightarrow> Scorecard \<Rightarrow> bool" where
  "cardOk s i c \<longleftrightarrow>
     (cd_ArtifactState c \<in> {ArtDraft, ArtApproved} \<longrightarrow> cd_PublishedAt c = None)
   \<and> (cd_ArtifactState c \<in> {ArtPublished, ArtInvalidated} \<longrightarrow> cd_PublishedAt c \<noteq> None)
   \<and> (cd_ArtifactState c \<noteq> ArtDraft \<longrightarrow> (\<exists>a r. warrant s i a r))
   \<and> (cd_PublishedAt c \<noteq> None \<longrightarrow> recorded s i (cd_DecisionLogPointer c))"

definition cardInv :: "CardService \<Rightarrow> bool" where
  "cardInv s \<longleftrightarrow> cardIDs s \<and> cardDesk.deskInv s \<and> (\<forall>i c. cs_cards s i = Some c \<longrightarrow> cardOk s i c)
     \<and> distinct (map dr_DecisionRecordID (cs_log s))
     \<and> (\<forall>rec \<in> set (cs_log s). \<exists>n. dr_DecisionRecordID rec = numberedID ''dec'' n \<and> n \<le> cs_seq s)"

lemma warrant_call: "cardIDs s \<Longrightarrow> cardCall s s' \<Longrightarrow> warrant s i a r \<Longrightarrow> warrant s' i a r"
  unfolding warrant_def using cardDesk.approved_calls [of s s' a r] by blast

lemma recorded_call:
  assumes "cardIDs s" and "cardCall s s'" and "recorded s i p"
  shows "recorded s' i p"
proof -
  have "set (cs_log s) \<subseteq> set (cs_log s')" using log_call(1) [OF assms(2)] by auto
  with assms(3) warrant_call [OF assms(1,2)] show ?thesis unfolding recorded_def by blast
qed

lemma cardOk_effect:
  assumes ids: "cardIDs s" and call: "cardCall s s'" and ok: "cardOk s i c" and eff: "cardEffect s s' i c c'"
  shows "cardOk s' i c'"
proof -
  have keep: "\<exists>a r. warrant s i a r \<Longrightarrow> \<exists>a r. warrant s' i a r" using warrant_call [OF ids call] by blast
  have rec: "recorded s i p \<Longrightarrow> recorded s' i p" for p using recorded_call [OF ids call] .
  have gate: "recorded s' i (numberedID ''dec'' (cs_seq s + 1)) \<and> (\<exists>a r. warrant s' i a r)"
    if pub: "gated ''ScorecardPublication'' i a s s'" for a
  proof -
    obtain r rec where g: "warrant s i a r" "cs_log s' = cs_log s @ [rec]" "dr_DecisionRecordID rec = numberedID ''dec'' (cs_seq s + 1)"
      "dr_DecisionType rec = ''ScorecardPublication''" "dr_TargetID rec = i" "dr_ApprovalID rec = a" "dr_DecidedBy rec = rq_DecidedBy r"
      using pub unfolding gated_def warrant_def by blast
    have w: "warrant s' i a r" using warrant_call [OF ids call g(1)] .
    moreover have "rec \<in> set (cs_log s')" using g(2) by simp
    ultimately show ?thesis unfolding recorded_def using g by blast
  qed
  define W where "W \<longleftrightarrow> (\<exists>a r. warrant s' i a r)"
  have old: "cd_ArtifactState c \<in> {ArtDraft, ArtApproved} \<longrightarrow> cd_PublishedAt c = None"
    "cd_ArtifactState c \<in> {ArtPublished, ArtInvalidated} \<longrightarrow> cd_PublishedAt c \<noteq> None"
    "cd_ArtifactState c \<noteq> ArtDraft \<longrightarrow> W" "cd_PublishedAt c \<noteq> None \<longrightarrow> recorded s' i (cd_DecisionLogPointer c)"
    using ok keep rec unfolding cardOk_def W_def by blast+
  have move: "(cd_ArtifactState c' = cd_ArtifactState c \<and> published c' = published c)
    \<or> (cd_ArtifactState c = ArtDraft \<and> cd_ArtifactState c' = ArtApproved \<and> published c' = published c \<and> W)
    \<or> (cd_ArtifactState c' = ArtPublished \<and> W \<and> (\<exists>t p. published c' = (Some t, p) \<and> recorded s' i p))
    \<or> (cd_ArtifactState c \<in> {ArtApproved, ArtPublished} \<and> cd_ArtifactState c' = ArtSuperseded \<and> published c' = published c)
    \<or> (cd_ArtifactState c = ArtPublished \<and> cd_ArtifactState c' = ArtInvalidated \<and> published c' = published c)"
    using eff gate unfolding cardEffect_def Let_def W_def [symmetric] by blast
  then show ?thesis
    unfolding cardOk_def W_def [symmetric] published_def
    by (elim conjE disjE exE) (use old in auto)
qed

lemma cardInv_call:
  assumes "cardInv s" and "cardCall s s'"
  shows "cardInv s'"
proof -
  have ids: "cardIDs s" using assms(1) by (simp add: cardInv_def)
  have "cardOk s' i c" if c: "cs_cards s' i = Some c" for i c
  proof (cases "cs_cards s i")
    case None
    with new_card [OF assms(2) None c] show ?thesis by (simp add: cardOk_def)
  next
    case (Some d)
    then have "cardOk s i d" using assms(1) by (simp add: cardInv_def)
    moreover obtain c' where "cs_cards s' i = Some c'" "cardEffect s s' i d c'" using card_call [OF assms(2) ids Some] by blast
    ultimately show ?thesis using cardOk_effect [OF ids assms(2)] c by auto
  qed
  moreover have "cardIDs s'" "cardDesk.deskInv s'"
    using assms cardIDs_call cardDesk.deskInv_call by (auto simp: cardInv_def)
  moreover have "distinct (map dr_DecisionRecordID (cs_log s'))
      \<and> (\<forall>rec \<in> set (cs_log s'). \<exists>n. dr_DecisionRecordID rec = numberedID ''dec'' n \<and> n \<le> cs_seq s')"
  proof -
    have old: "distinct (map dr_DecisionRecordID (cs_log s))"
      "\<And>rec. rec \<in> set (cs_log s) \<Longrightarrow> \<exists>n. dr_DecisionRecordID rec = numberedID ''dec'' n \<and> n \<le> cs_seq s"
      using assms(1) by (simp_all add: cardInv_def)
    have "numberedID ''dec'' (cs_seq s + 1) \<notin> dr_DecisionRecordID ` set (cs_log s)"
      using old(2) by (fastforce simp: numberedID_inject)
    then have d: "distinct (map dr_DecisionRecordID (cs_log s'))" using log_call(1) [OF assms(2)] old(1) by auto
    have "\<exists>n. dr_DecisionRecordID rec = numberedID ''dec'' n \<and> n \<le> cs_seq s'" if "rec \<in> set (cs_log s')" for rec
    proof (cases "rec \<in> set (cs_log s)")
      case True
      with old(2) log_call(2) [OF assms(2)] show ?thesis by (meson le_trans)
    next
      case False
      with that log_call(1) [OF assms(2)] show ?thesis by auto
    qed
    with d show ?thesis by blast
  qed
  ultimately show ?thesis unfolding cardInv_def by blast
qed

lemma cardInv_calls: "cardCall\<^sup>*\<^sup>* s s' \<Longrightarrow> cardInv s \<Longrightarrow> cardInv s'"
  by (induction rule: rtranclp_induct) (auto intro: cardInv_call)

lemma cardInv_new: "cardInv newCardService"
  by (simp add: cardInv_def newCardService_def cardIDs_def cardDesk.deskInv_def)

lemma warrant_separated: "cardInv s \<Longrightarrow> warrant s i a r \<Longrightarrow> rq_DecidedBy r \<noteq> [] \<and> rq_DecidedBy r \<noteq> rq_RequestedBy r"
  unfolding cardInv_def cardDesk.deskInv_def warrant_def dutiesSeparated_def by blast

text \<open>
  C3: the publication gate.  In every reachable service a card is beyond the draft state only with an
  approved publication request for it that someone other than its requester decided; a card that was
  ever published, and every published or invalidated one is, points to an entry of the decision log with
  that request and its decider; and no two entries of the log share an id.
\<close>

theorem publication_gate:
  assumes "cardCall\<^sup>*\<^sup>* newCardService s" and "cs_cards s i = Some c"
  shows "(cd_ArtifactState c \<noteq> ArtDraft \<longrightarrow>
       (\<exists>a r. warrant s i a r \<and> rq_DecidedBy r \<noteq> [] \<and> rq_DecidedBy r \<noteq> rq_RequestedBy r))
    \<and> (cd_ArtifactState c \<in> {ArtPublished, ArtInvalidated} \<longrightarrow> cd_PublishedAt c \<noteq> None)
    \<and> (cd_PublishedAt c \<noteq> None \<longrightarrow> (\<exists>rec r. rec \<in> set (cs_log s) \<and> dr_DecisionRecordID rec = cd_DecisionLogPointer c
         \<and> dr_TargetID rec = i \<and> warrant s i (dr_ApprovalID rec) r \<and> dr_DecidedBy rec = rq_DecidedBy r
         \<and> rq_DecidedBy r \<noteq> rq_RequestedBy r))
    \<and> distinct (map dr_DecisionRecordID (cs_log s))"
proof -
  have inv: "cardInv s" using cardInv_calls [OF assms(1) cardInv_new] .
  then have ok: "cardOk s i c" using assms(2) by (simp add: cardInv_def)
  have "distinct (map dr_DecisionRecordID (cs_log s))" using inv by (simp add: cardInv_def)
  with ok warrant_separated [OF inv] show ?thesis unfolding cardOk_def recorded_def by blast
qed

section \<open>The history of a card\<close>

definition artifactMove :: "ArtifactState \<Rightarrow> ArtifactState \<Rightarrow> bool" where
  "artifactMove st st' \<longleftrightarrow> (\<exists>a. artifactTransition st a = Inr st')"

definition cardNext :: "CardService \<Rightarrow> Scorecard \<Rightarrow> Scorecard \<Rightarrow> bool" where
  "cardNext s c c' \<longleftrightarrow> content c' = content c \<and> artifactMove\<^sup>*\<^sup>* (cd_ArtifactState c) (cd_ArtifactState c')
     \<and> (cd_PublishedAt c \<noteq> None \<longrightarrow> published c' = published c)"

lemma cardEffect_next:
  assumes "cardEffect s s' i c c'" and "cardOk s i c"
  shows "cardNext s c c'"
proof -
  have moves: "artifactMove ArtDraft ArtApproved" "artifactMove ArtApproved ArtPublished" "artifactMove ArtApproved ArtSuperseded"
    "artifactMove ArtPublished ArtSuperseded" "artifactMove ArtPublished ArtInvalidated"
    by (simp_all add: artifactMove_def artifactTransition_Inr)
  have "cd_ArtifactState c' = cd_ArtifactState c \<or> artifactMove (cd_ArtifactState c) (cd_ArtifactState c')"
    using assms(1) unfolding cardEffect_def Let_def by (elim conjE disjE exE) (auto simp: moves)
  then have "artifactMove\<^sup>*\<^sup>* (cd_ArtifactState c) (cd_ArtifactState c')" by auto
  moreover have "cd_PublishedAt c \<noteq> None \<Longrightarrow> published c' = published c"
    using assms unfolding cardEffect_def Let_def cardOk_def by (elim conjE disjE exE) simp_all
  ultimately show ?thesis using assms(1) by (simp add: cardNext_def cardEffect_def)
qed

lemma card_calls:
  assumes "cardCall\<^sup>*\<^sup>* s s'" and "cardInv s" and "cs_cards s i = Some c"
  shows "\<exists>c' new. cs_cards s' i = Some c' \<and> cardNext s c c' \<and> cs_log s' = cs_log s @ new"
  using assms
proof (induction rule: rtranclp_induct)
  case (step y z)
  then obtain c' new where c': "cs_cards y i = Some c'" "cardNext s c c'" "cs_log y = cs_log s @ new" by blast
  have inv: "cardInv y" using cardInv_calls [OF step.hyps(1) step.prems(1)] .
  then have ids: "cardIDs y" and ok: "cardOk y i c'" using c'(1) by (simp_all add: cardInv_def)
  obtain d where d: "cs_cards z i = Some d" "cardEffect y z i c' d" using card_call [OF step.hyps(2) ids c'(1)] by blast
  have "cardNext s c d"
    using c'(2) cardEffect_next [OF d(2) ok] unfolding cardNext_def published_def by (auto intro: rtranclp_trans)
  moreover have "\<exists>new. cs_log z = cs_log s @ new" using c'(3) log_call(1) [OF step.hyps(2)] by auto
  ultimately show ?case using d(1) by blast
qed (simp add: cardNext_def)

text \<open>
  C28: cards are never edited in place.  Whatever calls follow, a card is still there, its title, period,
  coverage and members are what they were, its state has moved along the artifact machine only, once
  published its publication date and its log entry are fixed, and the decision log is only extended.
\<close>

theorem card_history:
  assumes "cardCall\<^sup>*\<^sup>* newCardService s" and "cardCall\<^sup>*\<^sup>* s s'" and "cs_cards s i = Some c"
  shows "\<exists>c' new. cs_cards s' i = Some c' \<and> content c' = content c
      \<and> artifactMove\<^sup>*\<^sup>* (cd_ArtifactState c) (cd_ArtifactState c')
      \<and> (cd_PublishedAt c \<noteq> None \<longrightarrow> published c' = published c) \<and> cs_log s' = cs_log s @ new"
  using card_calls [OF assms(2) cardInv_calls [OF assms(1) cardInv_new] assms(3)] unfolding cardNext_def by blast

section \<open>A published card\<close>

lemma first_card:
  obtains s i c where "cardCall\<^sup>*\<^sup>* newCardService s" "cs_cards s i = Some c" "cd_ArtifactState c = ArtPublished"
proof -
  obtain c1 s1 where d1: "csCreateDraft 0 (\<lambda>_. None) ''Q1'' (''a'', ''b'') [] ''ann'' newCardService = Inr (c1, s1)"
    by (simp add: csCreateDraft_def Let_def)
  note st1 = csCreate_state [OF d1]
  define i where "i = numberedID ''scd'' (cs_seq newCardService + 1)"
  define k where "k = numberedID ''scapr'' (cs_seq s1 + 1)"
  obtain r s2 where d2: "csSubmit i ''ScorecardPublication'' ''ann'' s1 = Inr (r, s2)"
    by (simp add: csSubmit_def Let_def st1(1) i_def)
  note st2 = csSubmit_state [OF d2]
  have r: "rq_ActionType r = ''ScorecardPublication''" "rq_TargetID r = i" "rq_RequestedBy r = ''ann''" "rq_ApproverIDs r = []"
    using d2 by (auto simp: csSubmit_def Let_def split: if_splits)
  define r' where "r' = r\<lparr>rq_State := ReqApproved, rq_DecidedBy := ''bob''\<rparr>"
  have dec: "decideRequest r ''approve'' ''bob'' = Inr r'"
    using r st2(5) by (simp add: decideRequest_def checkApprover_def requestTransition_def r'_def)
  obtain s3 where d3: "csDecide k ''approve'' ''bob'' s2 = Inr (r', s3)"
    and st3: "cs_requests s3 k = Some r'" "cs_cards s3 = approveCard r' (cs_cards s2)"
    using dec by (simp add: csDecide_def st2(2) k_def)
  have card3: "cs_cards s3 i = Some (c1\<lparr>cd_ArtifactState := ArtApproved\<rparr>)"
    using st1(1,6) r by (simp add: st3(2) st2(1) approveCard_def r'_def artifactTransition_def i_def)
  obtain c4 s4 where d4: "csPublish 0 i k ''ann'' s3 = Inr (c4, s4)"
    using st3(1) r
    by (simp add: csPublish_def card3 publishScorecard_def r'_def artifactTransition_def logAppend_def decisionRecord_def Let_def k_def numberedID_def)
  obtain c where "cs_cards s3 i = Some c" "cs_cards s4 = (cs_cards s3)(i \<mapsto> c4)"
    "c4 = c\<lparr>cd_ArtifactState := ArtPublished, cd_PublishedAt := Some 0, cd_DecisionLogPointer := numberedID ''dec'' (cs_seq s3 + 1)\<rparr>"
    by (rule csPublish_state [OF d4])
  then have c4: "cs_cards s4 i = Some c4" "cd_ArtifactState c4 = ArtPublished" by simp_all
  have reach: "cardCall\<^sup>*\<^sup>* newCardService s4"
    using d1 d2 d3 d4 by (meson cardCall.intros rtranclp.rtrancl_into_rtrancl rtranclp.rtrancl_refl)
  from that [OF reach c4] show thesis .
qed

theorem publication_gate_witness:
  "\<exists>s i c rec. cardCall\<^sup>*\<^sup>* newCardService s \<and> cs_cards s i = Some c \<and> cd_ArtifactState c = ArtPublished
     \<and> rec \<in> set (cs_log s) \<and> dr_DecisionRecordID rec = cd_DecisionLogPointer c"
proof -
  obtain s i c where s: "cardCall\<^sup>*\<^sup>* newCardService s" "cs_cards s i = Some c" "cd_ArtifactState c = ArtPublished"
    by (rule first_card)
  with publication_gate [OF s(1,2)] show ?thesis by blast
qed

theorem card_history_witness:
  "\<exists>s i c c'. cardCall\<^sup>*\<^sup>* newCardService s \<and> cs_cards s i = Some c \<and> cd_ArtifactState c = ArtPublished
     \<and> cs_cards (s\<lparr>cs_sink := []\<rparr>) i = Some c' \<and> content c' = content c"
proof -
  obtain s i c where s: "cardCall\<^sup>*\<^sup>* newCardService s" "cs_cards s i = Some c" "cd_ArtifactState c = ArtPublished"
    by (rule first_card)
  have "cardCall\<^sup>*\<^sup>* s (s\<lparr>cs_sink := []\<rparr>)" by (rule r_into_rtranclp) (rule ccSink)
  from card_history [OF s(1) this s(2)] s show ?thesis by blast
qed

section \<open>Supersession\<close>

text \<open>
  Supersession does not look at the replacement.  With an approved supersession request a released
  card is retired in favour of any existing card: of one in whatever state, which it keeps, or of itself,
  which is then superseded by nothing but itself.
\<close>

theorem supersession_ignores_replacement:
  assumes "cardCall\<^sup>*\<^sup>* newCardService s" and "cs_cards s i = Some c" and "cd_ArtifactState c \<in> {ArtApproved, ArtPublished}"
    and "cs_cards s j = Some d" and "approvedFor ''ScorecardSupersession'' i (cs_requests s a)"
  shows "\<exists>c' s' e. csSupersede t i j a by' s = Inr (c', s') \<and> cs_cards s' i = Some e \<and> cd_ArtifactState e = ArtSuperseded
     \<and> cs_cards s' j = Some c' \<and> cd_SupersedesScorecardID c' = i
     \<and> cd_ArtifactState c' = (if j = i then ArtSuperseded else cd_ArtifactState d)"
proof -
  have inv: "cardInv s" using cardInv_calls [OF assms(1) cardInv_new] .
  obtain r where r: "cs_requests s a = Some r" "rq_State r = ReqApproved"
    using assms(5) by (auto simp: approvedFor_def split: option.splits)
  have "dutiesSeparated r" using inv r(1) by (auto simp: cardInv_def cardDesk.deskInv_def)
  then have "rq_DecidedBy r \<noteq> []" using r(2) by (simp add: dutiesSeparated_def)
  moreover have "a \<in> dom (cs_requests s)" using r(1) by blast
  then have "a \<noteq> []" using inv by (auto simp: cardInv_def cardIDs_def numberedID_def dest!: bspec)
  moreover have "artifactTransition (cd_ArtifactState c) ''supersede'' = Inr ArtSuperseded"
    using assms(3) by (auto simp: artifactTransition_Inr)
  ultimately show ?thesis
    using assms(2,4,5) r(1) by (auto simp: csSupersede_def logAppend_def decisionRecord_def Let_def)
qed

theorem supersession_ignores_replacement_witness:
  "\<exists>s i a c' s'. cardCall\<^sup>*\<^sup>* newCardService s \<and> csSupersede 0 i i a ''ann'' s = Inr (c', s')
     \<and> cd_ArtifactState c' = ArtSuperseded \<and> cd_SupersedesScorecardID c' = i"
proof -
  obtain s i c where s: "cardCall\<^sup>*\<^sup>* newCardService s" "cs_cards s i = Some c" "cd_ArtifactState c = ArtPublished"
    by (rule first_card)
  obtain r s1 where d1: "csSubmit i ''ScorecardSupersession'' ''ann'' s = Inr (r, s1)"
    using s(2) by (simp add: csSubmit_def Let_def)
  note st1 = csSubmit_state [OF d1]
  define k where "k = numberedID ''scapr'' (cs_seq s + 1)"
  have r: "rq_ActionType r = ''ScorecardSupersession''" "rq_TargetID r = i" "rq_RequestedBy r = ''ann''" "rq_ApproverIDs r = []"
    using d1 by (auto simp: csSubmit_def Let_def split: if_splits)
  define r' where "r' = r\<lparr>rq_State := ReqApproved, rq_DecidedBy := ''bob''\<rparr>"
  have dec: "decideRequest r ''approve'' ''bob'' = Inr r'"
    using r st1(5) by (simp add: decideRequest_def checkApprover_def requestTransition_def r'_def)
  obtain s2 where d2: "csDecide k ''approve'' ''bob'' s1 = Inr (r', s2)"
    and st2: "cs_requests s2 k = Some r'" "cs_cards s2 = approveCard r' (cs_cards s1)"
    using dec by (simp add: csDecide_def st1(2) k_def)
  have card: "cs_cards s2 i = Some c" using s(2) r by (simp add: st2(2) st1(1) approveCard_def r'_def)
  have ok: "approvedFor ''ScorecardSupersession'' i (cs_requests s2 k)" using r st2(1) by (simp add: approvedFor_def r'_def)
  have reach: "cardCall\<^sup>*\<^sup>* newCardService s2"
    using s(1) d1 d2 by (meson cardCall.intros rtranclp.rtrancl_into_rtrancl)
  from s(3) have released: "cd_ArtifactState c \<in> {ArtApproved, ArtPublished}" by simp
  from supersession_ignores_replacement [OF reach card released card ok, of 0 "''ann''"] reach show ?thesis by auto
qed

end
