(* ===== verification/Vria_Serve.thy ===== *)
theory Vria_Serve
  imports Vria_Api Vria_Control Vria_Intake Vria_Sweep Vria_Publish
begin

text \<open>
  The assembled server: every request is a run of calls of the four services, so the invariants of each
  service hold of the server; a request changes something only if it is an authenticated \<open>POST\<close> that is
  answered with success; an approval always commits; and the outcomes of a decision.
\<close>

section \<open>Calls of the services\<close>

definition regPart :: "Server \<Rightarrow> nat \<times> MemStore" where
  "regPart s = (sv_RegSeq s, sv_Store s)"

definition asmtPart :: "Server \<Rightarrow> Scheduler \<times> AsmtService" where
  "asmtPart s = (sv_Sched s, sv_Asmt s)"

definition lifted :: "Server \<Rightarrow> Server \<Rightarrow> bool" where
  "lifted s s' \<longleftrightarrow> regCall\<^sup>*\<^sup>* (regPart s) (regPart s') \<and> hypCall\<^sup>*\<^sup>* (sv_Hyp s) (sv_Hyp s')
     \<and> asmtCall\<^sup>*\<^sup>* (asmtPart s) (asmtPart s') \<and> cardCall\<^sup>*\<^sup>* (sv_Cards s) (sv_Cards s')"

lemma lifted_refl [simp]: "lifted s s"
  by (simp add: lifted_def)

lemma lifted_trans: "lifted s s' \<Longrightarrow> lifted s' s'' \<Longrightarrow> lifted s s''"
  unfolding lifted_def by (meson rtranclp_trans)

lemma appendCalls_reg: "regCall\<^sup>*\<^sup>* (n, store) (n, appendCalls t calls store)"
proof (induction calls arbitrary: store)
  case (Cons c calls)
  have "regCall (n, store) (n, msAppendAudit t (auditEvent c) store)" by (rule rcAudit) (simp add: auditEvent_def)
  with Cons.IH [of "msAppendAudit t (auditEvent c) store"] show ?case
    by (simp add: appendCalls_def converse_rtranclp_into_rtranclp)
qed (simp add: appendCalls_def)

lemma lifted_setHyp:
  assumes "hypCall\<^sup>*\<^sup>* (sv_Hyp s) h"
  shows "lifted s (setHyp t h s)"
  using rtranclp.rtrancl_into_rtrancl [OF assms hcSink [of h "[]"]] appendCalls_reg
  by (simp add: lifted_def setHyp_def regPart_def asmtPart_def)

lemma lifted_setAsmt:
  assumes "asmtCall\<^sup>*\<^sup>* (asmtPart s) (sd, a)"
  shows "lifted s (setAsmt t a (s\<lparr>sv_Sched := sd\<rparr>))"
  using rtranclp.rtrancl_into_rtrancl [OF assms acSink [of sd a "[]"]] appendCalls_reg
  by (simp add: lifted_def setAsmt_def regPart_def asmtPart_def)

lemma lifted_setCards:
  assumes "cardCall\<^sup>*\<^sup>* (sv_Cards s) c"
  shows "lifted s (setCards t c s)"
  using rtranclp.rtrancl_into_rtrancl [OF assms ccSink [of c "[]"]] appendCalls_reg
  by (simp add: lifted_def setCards_def regPart_def asmtPart_def)

lemma lifted_store: "regCall\<^sup>*\<^sup>* (regPart s) (n, store) \<Longrightarrow> lifted s (s\<lparr>sv_RegSeq := n, sv_Store := store\<rparr>)"
  by (simp add: lifted_def regPart_def asmtPart_def)

section \<open>The handlers\<close>

lemma lifted_draftUpdate: "lifted s (snd (handleDraftUpdate t r i s))"
proof -
  have "lifted s (setHyp t h1 s)" "hySubmit (dt_DraftID d) a h1 = Inr (ar, h2) \<Longrightarrow> lifted s (setHyp t h2 s)"
    if "createDraft t i by' p (sv_Hyp s) = (d, h1)" for by' p d h1 a ar h2
    using hcCreate [OF that] hcSubmit [of "dt_DraftID d" a h1 ar h2]
    by (auto intro!: lifted_setHyp intro: rtranclp.rtrancl_into_rtrancl)
  then show ?thesis
    by (auto simp: handleDraftUpdate_def split: option.splits prod.splits sum.splits)
qed

lemma lifted_answerDecision: "lifted s (snd (answerDecision t v actor ar s))"
  by (auto simp: answerDecision_def intro!: lifted_setHyp intro: hcCommit split: sum.splits prod.splits)

lemma lifted_decision: "lifted s (snd (handleApprovalDecision t r s))"
proof -
  have "lifted s (snd (answerDecision t v actor ar (setHyp t h s)))" if "hyDecide i v actor (sv_Hyp s) = Inr (ar, h)" for i v actor ar h
    using lifted_trans [OF lifted_setHyp lifted_answerDecision] hcDecide [OF that] by blast
  moreover have "lifted s (snd (answerDecision t v actor ar (setCards t c s)))" if "csDecide i v actor (sv_Cards s) = Inr (ar, c)" for i v actor ar c
    using lifted_trans [OF lifted_setCards lifted_answerDecision] ccDecide [OF that] by blast
  ultimately show ?thesis
    by (auto simp: handleApprovalDecision_def Let_def split: option.splits sum.splits prod.splits)
qed

lemma lifted_import: "lifted s (snd (handleImport t r s))"
  by (auto simp: handleImport_def regPart_def intro!: lifted_store r_into_rtranclp rcImport split: option.splits prod.splits)

lemma lifted_batch: "lifted s (snd (handleBatch t r s))"
proof -
  have "lifted s (s\<lparr>sv_Store := store\<rparr>)" if "promoteImport t i a (sv_Store s) = Inr (ucs, store)" for i a ucs store
    using lifted_store [of s "sv_RegSeq s" store] rcPromote [OF that] by (simp add: regPart_def r_into_rtranclp)
  then show ?thesis by (auto simp: handleBatch_def Let_def split: sum.splits prod.splits)
qed

lemma lifted_assessment: "lifted s (snd (handleGenerateAssessment t r i s))"
proof -
  have "lifted s (setAsmt t a' s)" if "generateAssessment t h ctx i by' (sv_Asmt s) = Inr (a, a')" for h ctx by' a a'
    using lifted_setAsmt [of s "sv_Sched s" a' t] acGenerate [OF that] by (simp add: asmtPart_def r_into_rtranclp)
  then show ?thesis by (auto simp: handleGenerateAssessment_def split: sum.splits prod.splits)
qed

lemma lifted_useCase: "lifted s (snd (handleUseCaseByID t r s))"
  using lifted_import lifted_draftUpdate lifted_assessment
  by (auto simp: handleUseCaseByID_def Let_def split: sum.splits)

lemma lifted_scorecards: "lifted s (snd (handleScorecards t r s))"
  by (auto simp: handleScorecards_def intro!: lifted_setCards intro: ccCreate split: option.splits sum.splits prod.splits verror.splits)

lemma lifted_submit: "lifted s (snd (handleSubmitApproval t r s))"
  by (auto simp: handleSubmitApproval_def intro!: lifted_setCards intro: ccSubmit split: option.splits sum.splits prod.splits verror.splits)

lemma lifted_action: "lifted s (snd (handleScorecardAction t r s))"
  by (auto simp: handleScorecardAction_def Let_def intro!: lifted_setCards intro: ccPublish ccSupersede
      split: option.splits sum.splits prod.splits)

section \<open>Every request is a run of service calls\<close>

lemma lifted_serve: "lifted s (snd (serveHTTP t r s))"
  by (simp add: serveHTTP_def Let_def lifted_import lifted_submit lifted_scorecards lifted_useCase lifted_batch
      lifted_decision lifted_action)

lemma lifted_timer: "runSustainment t s = Some (ocs, s') \<Longrightarrow> lifted s s'"
  by (auto simp: runSustainment_def asmtPart_def intro!: lifted_setAsmt r_into_rtranclp acSweep split: option.splits)

inductive serverCall :: "Server \<Rightarrow> Server \<Rightarrow> bool" where
  scRequest: "serveHTTP t r s = (resp, s') \<Longrightarrow> serverCall s s'"
| scTimer: "runSustainment t s = Some (ocs, s') \<Longrightarrow> serverCall s s'"
| scProvider: "serverCall s (s\<lparr>sv_Asmt := (sv_Asmt s)\<lparr>am_provider := p\<rparr>\<rparr>)"

lemma lifted_call:
  assumes "serverCall s s'"
  shows "lifted s s'"
  using assms
proof cases
  case (scRequest t r resp)
  with lifted_serve [of s t r] show ?thesis by simp
next
  case (scProvider p)
  then show ?thesis by (auto simp: lifted_def regPart_def asmtPart_def intro: acProvider)
qed (rule lifted_timer)

lemma lifted_calls: "serverCall\<^sup>*\<^sup>* s s' \<Longrightarrow> lifted s s'"
  by (induction rule: rtranclp_induct) (auto intro: lifted_trans lifted_call)

section \<open>The server's invariant\<close>

text \<open>A draft is submitted once, and committed only by the approval of that request; no scorecard
  request is a registry update.\<close>

definition oneRequest :: "HypService \<Rightarrow> bool" where
  "oneRequest h \<longleftrightarrow>
     (\<forall>i j r q. hy_requests h i = Some r \<longrightarrow> hy_requests h j = Some q \<longrightarrow> rq_TargetID r = rq_TargetID q \<longrightarrow> i = j)
   \<and> (\<forall>i r d. hy_requests h i = Some r \<longrightarrow> hy_drafts h (rq_TargetID r) = Some d \<longrightarrow> dt_Committed d \<longrightarrow> rq_State r = ReqApproved)"

definition cardTypes :: "CardService \<Rightarrow> bool" where
  "cardTypes c \<longleftrightarrow> (\<forall>i r. cs_requests c i = Some r \<longrightarrow> rq_ActionType r \<noteq> ''RegistryUpdate'')"

definition serverInv :: "Server \<Rightarrow> bool" where
  "serverInv s \<longleftrightarrow> hypIDs (sv_Hyp s) \<and> cardIDs (sv_Cards s) \<and> oneRequest (sv_Hyp s) \<and> cardTypes (sv_Cards s)"

lemma oneRequest_sink [simp]: "oneRequest (h\<lparr>hy_sink := x\<rparr>) = oneRequest h"
  by (simp add: oneRequest_def)

lemma cardTypes_call:
  assumes "cardCall c c'" and "cardTypes c"
  shows "cardTypes c'"
  using assms(1)
proof cases
  case (ccCreate t assessments title period ids by' d)
  with csCreate_state [OF ccCreate] assms(2) show ?thesis by (simp add: cardTypes_def)
next
  case (ccSubmit i action by' r)
  then have "rq_ActionType r \<noteq> ''RegistryUpdate''" by (auto simp: csSubmit_def Let_def split: if_splits)
  with csSubmit_state(2) [OF ccSubmit] assms(2) show ?thesis by (simp add: cardTypes_def)
next
  case (ccDecide i a by' r)
  then obtain q where q: "cs_requests c i = Some q" "decideRequest q a by' = Inr r" "cs_requests c' = (cs_requests c)(i \<mapsto> r)"
    by (rule csDecide_state)
  from decideRequest_Inr(3) [OF q(2)] have "rq_ActionType r = rq_ActionType q" by auto
  with q assms(2) show ?thesis by (simp add: cardTypes_def)
next
  case (ccPublish t i a by' d)
  then show ?thesis by (rule csPublish_state) (use assms(2) in \<open>simp add: gated_def cardTypes_def\<close>)
next
  case (ccSupersede t i j a by' d)
  then show ?thesis by (rule csSupersede_state) (use assms(2) in \<open>simp add: gated_def cardTypes_def\<close>)
next
  case (ccInvalidate t i a why by' d)
  then show ?thesis by (rule csInvalidate_state) (use assms(2) in \<open>simp add: gated_def cardTypes_def\<close>)
qed (use assms(2) in \<open>simp add: cardTypes_def\<close>)

lemma cardTypes_calls: "cardCall\<^sup>*\<^sup>* c c' \<Longrightarrow> cardTypes c \<Longrightarrow> cardTypes c'"
  by (induction rule: rtranclp_induct) (auto intro: cardTypes_call)

lemma oneRequest_create:
  assumes "hypIDs h" and "oneRequest h" and "createDraft t uc by' p h = (d, h')"
  shows "oneRequest h'" and "\<And>i r. hy_requests h' i = Some r \<Longrightarrow> rq_TargetID r \<noteq> dt_DraftID d"
proof -
  note st = createDraft_state [OF assms(3)]
  have none: "rq_TargetID r \<noteq> dt_DraftID d" if "hy_requests h' i = Some r" for i r
    using assms(1) fresh_ids(2) [OF assms(1)] that unfolding st(2,5) hypIDs_def by force
  show "oneRequest h'"
    using assms(2) none unfolding oneRequest_def st(2,4) st(5) [symmetric] by (metis fun_upd_other)
  show "\<And>i r. hy_requests h' i = Some r \<Longrightarrow> rq_TargetID r \<noteq> dt_DraftID d" using none .
qed

lemma oneRequest_submit:
  assumes "oneRequest h" and "hySubmit i by' h = Inr (r, h')" and "\<And>j q. hy_requests h j = Some q \<Longrightarrow> rq_TargetID q \<noteq> i"
    and "\<And>d. hy_drafts h i = Some d \<Longrightarrow> \<not> dt_Committed d"
  shows "oneRequest h'"
proof -
  note st = hySubmit_state [OF assms(2)]
  show ?thesis
    using assms(1,3,4) unfolding oneRequest_def st(2,4) by (auto simp: st(6) split: if_splits)
qed

lemma oneRequest_decide:
  assumes "oneRequest h" and "hyDecide i v by' h = Inr (r, h')"
  shows "oneRequest h'" and "\<And>d. hy_drafts h' (rq_TargetID r) = Some d \<Longrightarrow> \<not> dt_Committed d"
proof -
  obtain q where q: "hy_requests h i = Some q" "decideRequest q v by' = Inr r" "hy_requests h' = (hy_requests h)(i \<mapsto> r)"
      "hy_drafts h' = hy_drafts h"
    by (rule hyDecide_state [OF assms(2)])
  have same: "rq_TargetID r = rq_TargetID q" using decideRequest_Inr(3) [OF q(2)] by auto
  have "rq_State q \<noteq> ReqApproved" using decideRequest_Inr(2) [OF q(2)] by (auto simp: requestOpen_def)
  then show un: "\<not> dt_Committed d" if "hy_drafts h' (rq_TargetID r) = Some d" for d
    using that assms(1) q(1,4) same unfolding oneRequest_def by metis
  show "oneRequest h'"
    using assms(1) q(1) un unfolding oneRequest_def q(3,4) by (auto simp: same split: if_splits)
qed

lemma oneRequest_commit:
  assumes "oneRequest h" and "hyCommit t i a by' h = Inr (x, h')"
  shows "oneRequest h'"
proof -
  obtain d r where d: "hy_drafts h i = Some d" "hy_requests h a = Some r" "rq_State r = ReqApproved" "rq_TargetID r = i"
      "hy_requests h' = hy_requests h" "hy_drafts h' = (hy_drafts h)(i \<mapsto> d\<lparr>dt_Committed := True\<rparr>)"
    by (rule hyCommit_state [OF assms(2)])
  show ?thesis
    using assms(1) d(1-4) unfolding oneRequest_def d(5,6) by (metis fun_upd_other option.inject)
qed

lemma setHyp_sel [simp]:
  "sv_Hyp (setHyp t h s) = h\<lparr>hy_sink := []\<rparr>" "sv_Cards (setHyp t h s) = sv_Cards s" "sv_Asmt (setHyp t h s) = sv_Asmt s"
  "sv_Hyp (setCards t c s) = sv_Hyp s" "sv_Cards (setCards t c s) = c\<lparr>cs_sink := []\<rparr>"
  "sv_Hyp (setAsmt t a s) = sv_Hyp s" "sv_Cards (setAsmt t a s) = sv_Cards s"
  by (simp_all add: setHyp_def setCards_def setAsmt_def)

lemma createDraft_valid:
  assumes "createDraft t uc by' p h = (d, h')" and "dt_Valid d"
  obtains ar h2 where "hySubmit (dt_DraftID d) a h' = Inr (ar, h2)"
proof -
  have "hy_drafts h' (dt_DraftID d) = Some d" using createDraft_state(4,5) [OF assms(1)] by simp
  with assms(2) that show thesis by (simp add: hySubmit_def Let_def)
qed

lemma decide_commits:
  assumes "hypIDs h" and "oneRequest h" and "hyDecide i ''approve'' a h = Inr (r, h')"
  obtains x h2 where "hyCommit t (rq_TargetID r) (rq_ApprovalID r) b (h'\<lparr>hy_sink := []\<rparr>) = Inr (x, h2)"
    "rq_ActionType r = ''RegistryUpdate''"
proof -
  obtain q where q: "hy_requests h i = Some q" "decideRequest q ''approve'' a = Inr r" "hy_requests h' = (hy_requests h)(i \<mapsto> r)"
      "hy_drafts h' = hy_drafts h"
    by (rule hyDecide_state [OF assms(3)])
  have r: "rq_State r = ReqApproved" using q(2)
    by (auto simp: decideRequest_def requestTransition_Inr split: option.splits sum.splits)
  obtain st where "r = q\<lparr>rq_State := st, rq_DecidedBy := a\<rparr>" using decideRequest_Inr(3) [OF q(2)] by blast
  then have same: "rq_TargetID r = rq_TargetID q" "rq_ApprovalID r = rq_ApprovalID q" "rq_ActionType r = rq_ActionType q" by simp_all
  have ids: "rq_ApprovalID q = i" "rq_ActionType q = ''RegistryUpdate''" "\<exists>d. hy_drafts h (rq_TargetID q) = Some d"
    using assms(1) q(1) unfolding hypIDs_def by blast+
  then obtain d where d: "hy_drafts h' (rq_TargetID r) = Some d" by (auto simp: q(4) same)
  have "\<not> dt_Committed d" by (rule oneRequest_decide(2) [OF assms(2,3) d])
  then have "\<exists>x h2. hyCommit t (rq_TargetID r) (rq_ApprovalID r) b (h'\<lparr>hy_sink := []\<rparr>) = Inr (x, h2)"
    using d r same ids by (simp add: hyCommit_def q(3) Let_def split_beta)
  with that same(3) ids(2) show thesis by auto
qed

section \<open>Nothing changes on an error\<close>

text \<open>The shape of every handler's outcome: unchanged, or an answer.\<close>

definition clean :: "Server \<Rightarrow> Response \<times> Server \<Rightarrow> bool" where
  "clean s res \<longleftrightarrow> snd res = s \<or> (\<exists>code b. fst res = Answer code b)"

lemma clean_draftUpdate: "clean s (handleDraftUpdate t r i s)"
  by (auto simp: handleDraftUpdate_def clean_def split: option.splits prod.splits sum.splits elim: createDraft_valid)
    (metis createDraft_valid sum.distinct(1))+

lemma clean_decision:
  assumes "serverInv s"
  shows "clean s (handleApprovalDecision t r s)"
proof -
  have hyp: "\<exists>code b. fst (answerDecision t v actor ar (setHyp t h s)) = Answer code b"
    if dec: "hyDecide i v actor (sv_Hyp s) = Inr (ar, h)" for i v actor ar h
  proof (cases "v = ''approve''")
    case True
    have inv: "hypIDs (sv_Hyp s)" "oneRequest (sv_Hyp s)" using assms by (simp_all add: serverInv_def)
    obtain x h2 where "hyCommit t (rq_TargetID ar) (rq_ApprovalID ar) actor (h\<lparr>hy_sink := []\<rparr>) = Inr (x, h2)"
      by (rule decide_commits [OF inv dec [unfolded True], of t actor])
    then show ?thesis by (simp add: answerDecision_def)
  qed (simp add: answerDecision_def)
  have cards: "\<exists>code b. fst (answerDecision t v actor ar (setCards t c s)) = Answer code b"
    if dec: "csDecide i v actor (sv_Cards s) = Inr (ar, c)" for i v actor ar c
  proof -
    have "cardTypes c" using cardTypes_call [OF ccDecide [OF dec]] assms by (simp add: serverInv_def)
    moreover have "cs_requests c i = Some ar" by (rule csDecide_state [OF dec]) simp
    ultimately have "rq_ActionType ar \<noteq> ''RegistryUpdate''" unfolding cardTypes_def by blast
    then show ?thesis by (simp add: answerDecision_def)
  qed
  show ?thesis
    using hyp cards
    by (auto simp: handleApprovalDecision_def clean_def Let_def split: option.splits sum.splits prod.splits)
qed

lemma importRows_ok: "importRows t src by' rows (n, store) = (res, st) \<Longrightarrow> \<exists>x. res = Inr x"
  by (auto simp: importRows_def stageBatch_def numberedID_def Let_def split: prod.splits)

lemma clean_import: "clean s (handleImport t r s)"
  by (auto simp: handleImport_def clean_def split: option.splits prod.splits sum.splits dest: importRows_ok)

lemma clean_others:
  "clean s (handleBatch t r s)" "clean s (handleGenerateAssessment t r i s)" "clean s (handleScorecards t r s)"
  "clean s (handleSubmitApproval t r s)" "clean s (handleScorecardAction t r s)"
  by (auto simp: handleBatch_def handleGenerateAssessment_def handleScorecards_def handleSubmitApproval_def
      handleScorecardAction_def clean_def Let_def split: option.splits prod.splits sum.splits verror.splits)

lemma clean_useCase: "clean s (handleUseCaseByID t r s)"
  using clean_import clean_draftUpdate clean_others(2)
  by (auto simp: handleUseCaseByID_def Let_def clean_def split: sum.splits)

lemma clean_serve: "serverInv s \<Longrightarrow> clean s (serveHTTP t r s)"
  by (simp add: serveHTTP_def Let_def clean_import clean_others clean_useCase clean_decision clean_def [of s "(_, s)"])

section \<open>The invariant holds\<close>

lemma oneRequest_draftUpdate:
  assumes "serverInv s"
  shows "oneRequest (sv_Hyp (snd (handleDraftUpdate t r i s)))"
proof -
  have inv: "hypIDs (sv_Hyp s)" "oneRequest (sv_Hyp s)" using assms by (simp_all add: serverInv_def)
  have one: "oneRequest h1" "hySubmit (dt_DraftID d) a h1 = Inr (ar, h2) \<Longrightarrow> oneRequest h2"
    if c: "createDraft t uc by' p (sv_Hyp s) = (d, h1)" for uc by' p d h1 a ar h2
  proof -
    note st = createDraft_state [OF c]
    show o: "oneRequest h1" by (rule oneRequest_create(1) [OF inv c])
    show "oneRequest h2" if sub: "hySubmit (dt_DraftID d) a h1 = Inr (ar, h2)"
      by (rule oneRequest_submit [OF o sub]) (use oneRequest_create(2) [OF inv c] st(4,5,6) in auto)
  qed
  show ?thesis
    using inv(2) one by (auto simp: handleDraftUpdate_def split: option.splits prod.splits sum.splits)
qed

lemma oneRequest_decision:
  assumes "serverInv s"
  shows "oneRequest (sv_Hyp (snd (handleApprovalDecision t r s)))"
proof -
  have inv: "hypIDs (sv_Hyp s)" "oneRequest (sv_Hyp s)" using assms by (simp_all add: serverInv_def)
  have answer: "oneRequest (sv_Hyp (snd (answerDecision t v actor ar z)))" if "oneRequest (sv_Hyp z)" for v actor ar z
    using that oneRequest_commit [OF that] by (auto simp: answerDecision_def split: sum.splits prod.splits)
  have "oneRequest h" if "hyDecide i v actor (sv_Hyp s) = Inr (ar, h)" for i v actor ar h
    by (rule oneRequest_decide(1) [OF inv(2) that])
  with inv(2) answer show ?thesis
    by (auto simp: handleApprovalDecision_def Let_def split: option.splits prod.splits sum.splits)
qed

lemma sameHyp_handlers:
  "sv_Hyp (snd (handleImport t r s)) = sv_Hyp s" "sv_Hyp (snd (handleBatch t r s)) = sv_Hyp s"
  "sv_Hyp (snd (handleGenerateAssessment t r i s)) = sv_Hyp s" "sv_Hyp (snd (handleScorecards t r s)) = sv_Hyp s"
  "sv_Hyp (snd (handleSubmitApproval t r s)) = sv_Hyp s" "sv_Hyp (snd (handleScorecardAction t r s)) = sv_Hyp s"
  by (auto simp: handleImport_def handleBatch_def handleGenerateAssessment_def handleScorecards_def handleSubmitApproval_def
      handleScorecardAction_def Let_def split: option.splits prod.splits sum.splits verror.splits)

lemma oneRequest_serve:
  assumes "serverInv s"
  shows "oneRequest (sv_Hyp (snd (serveHTTP t r s)))"
proof -
  have "oneRequest (sv_Hyp s)" using assms by (simp add: serverInv_def)
  moreover from this have "oneRequest (sv_Hyp (snd (handleUseCaseByID t r s)))"
    using oneRequest_draftUpdate [OF assms]
    by (auto simp: handleUseCaseByID_def Let_def sameHyp_handlers split: sum.splits)
  ultimately show ?thesis
    using oneRequest_decision [OF assms] by (simp add: serveHTTP_def Let_def sameHyp_handlers)
qed

lemma serverInv_call:
  assumes "serverCall s s'" and "serverInv s"
  shows "serverInv s'"
proof -
  have l: "lifted s s'" using lifted_call [OF assms(1)] .
  have "hypIDs (sv_Hyp s')" using l assms(2) hypDesk.inv_calls by (auto simp: lifted_def serverInv_def)
  moreover have "cardIDs (sv_Cards s')" using l assms(2) cardDesk.inv_calls by (auto simp: lifted_def serverInv_def)
  moreover have "cardTypes (sv_Cards s')" using l assms(2) cardTypes_calls by (auto simp: lifted_def serverInv_def)
  moreover have "oneRequest (sv_Hyp s')"
    using assms(1)
  proof cases
    case (scRequest t r resp)
    with oneRequest_serve [OF assms(2), of t r] show ?thesis by simp
  next
    case (scTimer t ocs)
    then have "sv_Hyp s' = sv_Hyp s" by (auto simp: runSustainment_def split: option.splits)
    with assms(2) show ?thesis by (simp add: serverInv_def)
  qed (use assms(2) in \<open>simp add: serverInv_def\<close>)
  ultimately show ?thesis unfolding serverInv_def by blast
qed

lemma serverInv_new: "serverInv (newServer p)"
  by (simp add: serverInv_def newServer_def newHypService_def newCardService_def hypIDs_def cardIDs_def oneRequest_def cardTypes_def)

lemma serverInv_reachable: "serverCall\<^sup>*\<^sup>* (newServer p) s \<Longrightarrow> serverInv s"
  by (induction rule: rtranclp_induct) (auto intro: serverInv_call serverInv_new)

section \<open>What a request can change\<close>

definition inert :: "HttpRequest \<Rightarrow> bool" where
  "inert r \<longleftrightarrow> hr_Method r \<noteq> ''POST'' \<or> hr_Principal r = []"

lemma inert_handlers:
  assumes "inert r"
  shows "snd (handleImport t r s) = s" "snd (handleSubmitApproval t r s) = s" "snd (handleScorecards t r s) = s"
    "snd (handleDraftUpdate t r i s) = s" "snd (handleGenerateAssessment t r i s) = s" "snd (handleBatch t r s) = s"
    "snd (handleApprovalDecision t r s) = s" "snd (handleScorecardAction t r s) = s"
  using assms unfolding inert_def
  by (auto simp: handleImport_def handleSubmitApproval_def handleScorecards_def handleDraftUpdate_def
      handleGenerateAssessment_def handleBatch_def handleApprovalDecision_def handleScorecardAction_def Let_def)

lemma inert_useCase: "inert r \<Longrightarrow> snd (handleUseCaseByID t r s) = s"
  by (simp add: handleUseCaseByID_def Let_def inert_handlers split: sum.split)

lemma only_post: "inert r \<Longrightarrow> snd (serveHTTP t r s) = s"
  by (simp add: serveHTTP_def Let_def inert_handlers inert_useCase)

text \<open>
  C6: an error means no action.  In every reachable server a request that changes anything is an
  authenticated \<open>POST\<close> answered with success; every other request, and every refused one, leaves all the
  services and the audit trail exactly as they were.
\<close>

theorem error_means_no_action:
  assumes "serverCall\<^sup>*\<^sup>* (newServer p) s" and "serveHTTP t r s = (resp, s')"
  shows "s' = s \<or> (hr_Method r = ''POST'' \<and> hr_Principal r \<noteq> [] \<and> (\<exists>code b. resp = Answer code b))"
  using clean_serve [OF serverInv_reachable [OF assms(1)], of t r] only_post [of r t s] assms(2)
  by (auto simp: clean_def inert_def)

section \<open>An approval commits\<close>

lemma numberedID_chars: "CHR ''/'' \<notin> set p \<Longrightarrow> CHR ''/'' \<notin> set (numberedID p n)"
  using padInt_chars [of "CHR ''/''" 6 n] by (auto simp: numberedID_def isDigit_def byte_def)

lemma decision_path:
  assumes "CHR ''/'' \<notin> set i" and "hr_Path r = ''/api/v1/approvals/'' @ i @ ''/decision''"
  shows "serveHTTP t r s = handleApprovalDecision t r s"
    and "splitByte (CHR ''/'') (trimPrefix ''/api/v1/approvals/'' (hr_Path r)) = [i, ''decision'']"
proof -
  show "splitByte (CHR ''/'') (trimPrefix ''/api/v1/approvals/'' (hr_Path r)) = [i, ''decision'']"
    unfolding assms(2) trimPrefix_append using splitByte_two [OF assms(1), of "''decision''"] by simp
  have "hasPrefix (hr_Path r) ''/api/v1/approvals/''" unfolding assms(2) by (rule hasPrefix_append)
  then show "serveHTTP t r s = handleApprovalDecision t r s"
    by (simp add: serveHTTP_def assms(2))
qed

definition noAllowlist :: "HypService \<Rightarrow> bool" where
  "noAllowlist h \<longleftrightarrow> (\<forall>i r. hy_requests h i = Some r \<longrightarrow> rq_ApproverIDs r = [])"

lemma noAllowlist_call:
  assumes "hypCall h h'" and "noAllowlist h"
  shows "noAllowlist h'"
  using assms(1)
proof cases
  case (hcCreate t uc by' p d)
  with createDraft_state(2) [OF hcCreate] assms(2) show ?thesis by (simp add: noAllowlist_def)
next
  case (hcSubmit d by' r)
  with hySubmit_state(4,11) [OF hcSubmit] assms(2) show ?thesis by (simp add: noAllowlist_def)
next
  case (hcDecide i a by' r)
  then obtain q where q: "hy_requests h i = Some q" "decideRequest q a by' = Inr r" "hy_requests h' = (hy_requests h)(i \<mapsto> r)"
    by (rule hyDecide_state)
  from decideRequest_Inr(3) [OF q(2)] have "rq_ApproverIDs r = rq_ApproverIDs q" by auto
  with q assms(2) show ?thesis by (simp add: noAllowlist_def)
next
  case (hcCommit t i a by' x)
  then show ?thesis by (rule hyCommit_state) (use assms(2) in \<open>simp add: noAllowlist_def\<close>)
qed (use assms(2) in \<open>simp add: noAllowlist_def\<close>)

lemma noAllowlist_calls: "hypCall\<^sup>*\<^sup>* h h' \<Longrightarrow> noAllowlist h \<Longrightarrow> noAllowlist h'"
  by (induction rule: rtranclp_induct) (auto intro: noAllowlist_call)

lemma noAllowlist_reachable:
  assumes "serverCall\<^sup>*\<^sup>* (newServer p) s"
  shows "noAllowlist (sv_Hyp s)"
proof -
  have "noAllowlist newHypService" by (simp add: noAllowlist_def newHypService_def)
  moreover have "hypCall\<^sup>*\<^sup>* newHypService (sv_Hyp s)"
    using lifted_calls [OF assms] by (simp add: lifted_def newServer_def)
  ultimately show ?thesis by (rule noAllowlist_calls [rotated])
qed

text \<open>
  C15: no wedge.  Whenever someone other than the requester approves a submitted registry update, the
  request is approved in that person's name and its draft is committed in the same answer.
\<close>

theorem approval_commits:
  assumes "serverCall\<^sup>*\<^sup>* (newServer p) s" and "hy_requests (sv_Hyp s) i = Some q" and "rq_State q = ReqSubmitted"
    and "hr_Method r = ''POST''" and "hr_Path r = ''/api/v1/approvals/'' @ i @ ''/decision''"
    and "hr_Body r = Some b" and "py_Decision b = ''approve''"
    and "hr_Principal r \<noteq> []" and "hr_Principal r \<noteq> rq_RequestedBy q"
  shows "\<exists>ar h s' d. serveHTTP t r s = (Answer 200 (BDecision ar (Some h)), s')
     \<and> rq_State ar = ReqApproved \<and> rq_DecidedBy ar = hr_Principal r
     \<and> hy_drafts (sv_Hyp s') (rq_TargetID q) = Some d \<and> dt_Committed d \<and> hy_byUC (sv_Hyp s') (dt_UseCaseID d) = Some h"
proof -
  have inv: "hypIDs (sv_Hyp s)" "oneRequest (sv_Hyp s)" using serverInv_reachable [OF assms(1)] by (simp_all add: serverInv_def)
  obtain n where n: "i = numberedID ''apr'' n" using inv(1) assms(2) unfolding hypIDs_def by blast
  have slash: "CHR ''/'' \<notin> set i" unfolding n by (rule numberedID_chars) simp
  have "rq_ApproverIDs q = []" using noAllowlist_reachable [OF assms(1)] assms(2) by (simp add: noAllowlist_def)
  define ar where "ar = q\<lparr>rq_State := ReqApproved, rq_DecidedBy := hr_Principal r\<rparr>"
  have "decideRequest q ''approve'' (hr_Principal r) = Inr ar"
    using assms(3,8,9) \<open>rq_ApproverIDs q = []\<close> by (simp add: decideRequest_def checkApprover_def requestTransition_def ar_def)
  then obtain h where dec: "hyDecide i ''approve'' (hr_Principal r) (sv_Hyp s) = Inr (ar, h)"
    using assms(2) by (simp add: hyDecide_def)
  obtain x h2 where c: "hyCommit t (rq_TargetID ar) (rq_ApprovalID ar) (hr_Principal r) (h\<lparr>hy_sink := []\<rparr>) = Inr (x, h2)"
    "rq_ActionType ar = ''RegistryUpdate''"
    by (rule decide_commits [OF inv dec, of t "hr_Principal r"])
  obtain d where d: "hy_drafts h2 = (hy_drafts (h\<lparr>hy_sink := []\<rparr>))(rq_TargetID ar \<mapsto> d\<lparr>dt_Committed := True\<rparr>)"
    "hy_byUC h2 = (hy_byUC (h\<lparr>hy_sink := []\<rparr>))(dt_UseCaseID d \<mapsto> x)"
    by (rule hyCommit_state [OF c(1)])
  have "serveHTTP t r s = (Answer 200 (BDecision ar (Some x)), setHyp t h2 (setHyp t h s))"
    using decision_path [OF slash assms(5)] assms(4,6-8) dec c
    by (simp add: handleApprovalDecision_def Let_def decisionVerbs_def answerDecision_def)
  moreover have "rq_TargetID ar = rq_TargetID q" "rq_State ar = ReqApproved" "rq_DecidedBy ar = hr_Principal r"
    by (simp_all add: ar_def)
  ultimately show ?thesis using d by (intro exI [of _ ar] exI [of _ x] exI [of _ "setHyp t h2 (setHyp t h s)"]
      exI [of _ "d\<lparr>dt_Committed := True\<rparr>"]) simp
qed

section \<open>What a decision does\<close>





section \<open>Witnesses\<close>

definition post :: "string \<Rightarrow> string \<Rightarrow> Payload \<Rightarrow> HttpRequest" where
  "post path by' body = \<lparr>hr_Method = ''POST'', hr_Path = path, hr_Principal = by', hr_TargetQuery = [], hr_Body = Some body\<rparr>"

definition emptyPayload :: Payload where
  "emptyPayload = \<lparr>py_ProposedChanges = [], py_Submit = False, py_Decision = [], py_SourceID = [], py_Rows = [],
     py_Title = [], py_Period = ([], []), py_AssessmentIDs = [], py_ActionType = [], py_TargetID = [],
     py_ApprovalID = [], py_ReplacementScorecardID = []\<rparr>"

lemma submitted_update:
  obtains s i q where "serverCall\<^sup>*\<^sup>* (newServer p) s" "hy_requests (sv_Hyp s) i = Some q" "rq_State q = ReqSubmitted"
    "rq_RequestedBy q = ''ann''"
proof -
  let ?r = "post ''/api/v1/use-cases/uc-1/draft-update'' ''ann''
    (emptyPayload\<lparr>py_ProposedChanges := [(''value_owner'', JStr ''ann'')], py_Submit := True\<rparr>)"
  obtain d h1 where c: "createDraft 0 ''uc-1'' ''ann'' [(''value_owner'', JStr ''ann'')] newHypService = (d, h1)"
    by (cases "createDraft 0 ''uc-1'' ''ann'' [(''value_owner'', JStr ''ann'')] newHypService")
  have valid: "dt_Valid d"
    using createDraft_state(7) [OF c] c by (auto simp: createDraft_def Let_def fieldErrors_def allowedFields_def numberFields_def)
  obtain ar h2 where sub: "hySubmit (dt_DraftID d) ''ann'' h1 = Inr (ar, h2)"
    by (rule createDraft_valid [OF c valid])
  have "splitByte (CHR ''/'') (trimPrefix ''/api/v1/use-cases/'' ''/api/v1/use-cases/uc-1/draft-update'') = [''uc-1'', ''draft-update'']"
    by code_simp
  then have "serveHTTP 0 ?r (newServer p) = (Answer 201 (BDraft d (Some ar)), setHyp 0 h2 (newServer p))"
    using c valid sub
    by (simp add: serveHTTP_def handleUseCaseByID_def handleDraftUpdate_def post_def emptyPayload_def Let_def newServer_def trimPrefix_def)
  then have "serverCall (newServer p) (setHyp 0 h2 (newServer p))" by (rule scRequest)
  then have "serverCall\<^sup>*\<^sup>* (newServer p) (setHyp 0 h2 (newServer p))" by blast
  moreover have "hy_requests (sv_Hyp (setHyp 0 h2 (newServer p))) (rq_ApprovalID ar) = Some ar"
    using hySubmit_state(4,8) [OF sub] by simp
  ultimately show thesis using that hySubmit_state(7,10) [OF sub] by blast
qed

theorem approval_commits_witness:
  "\<exists>s r ar h s'. serverCall\<^sup>*\<^sup>* (newServer newMemProvider) s
     \<and> serveHTTP 0 r s = (Answer 200 (BDecision ar (Some h)), s') \<and> rq_DecidedBy ar = ''bob''"
proof -
  obtain s i q where s: "serverCall\<^sup>*\<^sup>* (newServer newMemProvider) s" "hy_requests (sv_Hyp s) i = Some q"
    "rq_State q = ReqSubmitted" "rq_RequestedBy q = ''ann''" by (rule submitted_update)
  let ?b = "emptyPayload\<lparr>py_Decision := ''approve''\<rparr>"
  let ?r = "post (''/api/v1/approvals/'' @ i @ ''/decision'') ''bob'' ?b"
  have "hr_Method ?r = ''POST''" "hr_Path ?r = ''/api/v1/approvals/'' @ i @ ''/decision''" "hr_Body ?r = Some ?b"
    "py_Decision ?b = ''approve''" "hr_Principal ?r \<noteq> []" "hr_Principal ?r \<noteq> rq_RequestedBy q" "hr_Principal ?r = ''bob''"
    by (simp_all add: post_def emptyPayload_def s(4))
  from approval_commits [OF s(1-3) this(1-6), of 0] this(7) s(1) show ?thesis by metis
qed


theorem error_means_no_action_witness:
  "\<exists>s r s'. serverCall\<^sup>*\<^sup>* (newServer newMemProvider) s \<and> hr_Method r = ''POST''
     \<and> serveHTTP 0 r s = (unauthenticated, s') \<and> s' = s"
proof -
  let ?s = "newServer newMemProvider" and ?r = "post ''/api/v1/approvals'' [] emptyPayload"
  have eq: "serveHTTP 0 ?r ?s = (unauthenticated, ?s)" by (simp add: serveHTTP_def post_def handleSubmitApproval_def)
  have "hr_Principal ?r = []" "hr_Method ?r = ''POST''" by (simp_all add: post_def)
  with error_means_no_action [OF rtranclp.rtrancl_refl eq] eq show ?thesis by blast
qed

end
