(* ===== verification/Vria_Wiring.thy ===== *)
theory Vria_Wiring
  imports Vria_Serve Vria_Score_Facts
begin

text \<open>
  What the wiring of the server leaves out: no call ever gives a use case a sponsor or an approved
  registry entry, so every assessment of the assembled server is scored without them.
\<close>

section \<open>The registry names no sponsor\<close>

definition unsponsored :: "MemStore \<Rightarrow> bool" where
  "unsponsored s \<longleftrightarrow> (\<forall>i uc. ms_useCases s i = Some uc \<longrightarrow> uc_Sponsor uc = [] \<and> uc_ApprovalState uc = ArtDraft)"

lemma unsponsored_call:
  assumes "regCall st st'" and "unsponsored (snd st)"
  shows "unsponsored (snd st')"
  using assms(1)
proof cases
  case (rcImport t src by' rows r)
  obtain n s where st: "st = (n, s)" by fastforce
  obtain b e where "st' = (n + 2, s\<lparr>ms_batches := (ms_batches s)(numberedID ''imp'' (n + 1) \<mapsto> b), ms_audit := ms_audit s @ [e]\<rparr>)"
    using rcImport unfolding st by (rule importRows_state)
  with assms(2) st show ?thesis by (simp add: unsponsored_def)
next
  case (rcPromote t i a s ucs s' n)
  from rcPromote(3) obtain b where b: "ms_batches s i = Some b" "ucs = map (promotedCase t) (cleanRows (ib_Staged b))"
    "ms_useCases s' = ms_useCases s ++ map_of (rev (map (\<lambda>uc. (uc_UseCaseID uc, uc)) ucs))"
    by (rule promoteImport_state)
  have "uc_Sponsor uc = [] \<and> uc_ApprovalState uc = ArtDraft" if "uc \<in> set ucs" for uc
    using that by (auto simp: b(2) promotedCase_def)
  with assms(2) rcPromote show ?thesis
    by (auto simp: unsponsored_def b(3) map_add_def dest: map_of_own_ids split: option.splits)
next
  case (rcAudit e n s t)
  with assms(2) show ?thesis by (simp add: unsponsored_def msAppendAudit_def Let_def)
qed

lemma unsponsored_calls: "regCall\<^sup>*\<^sup>* st st' \<Longrightarrow> unsponsored (snd st) \<Longrightarrow> unsponsored (snd st')"
  by (induction rule: rtranclp_induct) (auto intro: unsponsored_call)

text \<open>What such a registry tells the assessment service of a use case.\<close>

definition bare :: "UseCaseContext \<Rightarrow> bool" where
  "bare c \<longleftrightarrow> ux_Sponsor c = [] \<and> \<not> ux_ApprovalBoundaryRecorded c \<and> \<not> ux_DeliveryOwnerNamed c
     \<and> \<not> ux_DependenciesIdentified c"

lemma bare_lookup: "unsponsored s \<Longrightarrow> lookupUseCase s i = Some c \<Longrightarrow> bare c"
  by (auto simp: unsponsored_def lookupUseCase_def getUseCase_def useCaseContext_def bare_def split: option.splits sum.splits)

lemma bare_zero: "bare zeroContext"
  by (simp add: bare_def zeroContext_def)

section \<open>Scores without a sponsor\<close>

definition limited :: "Assessment \<Rightarrow> bool" where
  "limited a \<longleftrightarrow> as_IntakeScore a \<le> 80 \<and> as_PreCapScore a \<le> 93 \<and> as_RealizationScore a \<le> 93"

lemma gateA_bare:
  assumes "\<not> ga_DeliveryOwnerNamed g" "\<not> ga_SponsorResolved g" "\<not> ga_ApprovalBoundaryLogged g" "\<not> ga_DependenciesIdentified g"
  shows "gateAScore g \<le> 80"
proof -
  have "gateAScore g \<le> 10 + 0 + 0 + 10 + 10 + 15 + 15 + 10 + 10 + 0 + 0"
    unfolding gateAScore_def using assms by (intro add_mono) simp_all
  then show ?thesis by simp
qed

lemma preCap_bare:
  assumes "in_Sponsor i = []" and "\<not> in_ApprovalBoundaryRecorded i"
  shows "bdTotal (breakdown i) \<le> 93"
proof -
  have "strategicAlignment i \<le> 6" "governanceReadiness i \<le> 2"
    using assms by (simp_all add: strategicAlignment_def governanceReadiness_def)
  then show ?thesis
    using component_bounds [of i] metricMovement_bounds [of i] by (simp add: bdTotal_def breakdown_def)
qed

lemma limited_assess:
  assumes "bare c"
  shows "limited (assess t i uc v h c sn checks)"
proof -
  let ?in = "buildInput h c sn (evaluateSustainment checks)"
  have pre: "bdTotal (breakdown ?in) \<le> 93"
    by (rule preCap_bare) (use assms in \<open>simp_all add: buildInput_def bare_def\<close>)
  have "rs_Score (score ?in) \<le> rs_PreCapScore (score ?in)" unfolding score_sel(5) by (rule Min_le) simp_all
  moreover have "gateAScore (gateAFrom h c sn) \<le> 80"
    by (rule gateA_bare) (use assms in \<open>simp_all add: gateAFrom_def bare_def\<close>)
  ultimately show ?thesis using pre by (simp add: limited_def assess_def Let_def score_sel(1))
qed

lemma unsponsored_layer:
  assumes "bare c" and "ux_Tier c = TierLayer"
  shows "as_Recommendation (assess t i uc v h c sn checks) \<in> {NeedsSponsor, Fix, Defer}"
  using assms by (simp add: assess_def Let_def score_sel(6) recommend_def buildInput_def bare_def)

section \<open>Every assessment\<close>

definition allLimited :: "AsmtService \<Rightarrow> bool" where
  "allLimited s \<longleftrightarrow> (\<forall>i a. am_byID s i = Some a \<longrightarrow> limited a)"

lemma generate_assess:
  assumes "generateAssessment t h ctx uc by' s = Inr (a, s')"
  obtains i v h1 sn where "a = assess t i uc v h1 (case ctx of Some c \<Rightarrow> c | None \<Rightarrow> zeroContext) sn (am_checks s uc)"
    "am_byID s' = (am_byID s)(i \<mapsto> a)"
  using assms by (auto simp: generateAssessment_def Let_def split: if_splits)

lemma allLimited_generate:
  assumes "generateAssessment t h ctx uc by' s = Inr (a, s')" and "allLimited s" and "\<And>c. ctx = Some c \<Longrightarrow> bare c"
  shows "allLimited s'"
proof -
  obtain i v h1 sn where a: "a = assess t i uc v h1 (case ctx of Some c \<Rightarrow> c | None \<Rightarrow> zeroContext) sn (am_checks s uc)"
    "am_byID s' = (am_byID s)(i \<mapsto> a)"
    by (rule generate_assess [OF assms(1)])
  have "bare (case ctx of Some c \<Rightarrow> c | None \<Rightarrow> zeroContext)" using assms(3) bare_zero by (cases ctx) simp_all
  then have "limited a" unfolding a(1) by (rule limited_assess)
  with assms(2) show ?thesis by (simp add: allLimited_def a(2))
qed

lemma runCheck_generates:
  assumes "runCheck t hyp lookup uc (sd, s) = Some (oc, sd', s')"
  shows "\<exists>s1. am_byID s1 = am_byID s
    \<and> (s' = s1 \<or> (\<exists>by' a. generateAssessment t (hyp uc) (lookup uc) uc by' s1 = Inr (a, s')))"
proof -
  obtain pulled prov where pull: "pullCheck uc (case hyp uc of Some h \<Rightarrow> vh_PrimaryMetricID h | None \<Rightarrow> []) (am_provider s) = (pulled, prov)"
    by fastforce
  define c where "c = (case pulled of Some c \<Rightarrow> c | None \<Rightarrow> missingCheck)"
  obtain status s0 where app: "appendCheck uc c (s\<lparr>am_provider := prov\<rparr>) = (status, s0)" by fastforce
  define s1 where "s1 = (if status = SustainAtRisk \<or> status = SustainRegressed
    then amAudit ''sustainment.owner_notified'' ''UseCase'' uc ''vria-sustainment-scheduler'' s0 else s0)"
  have "am_byID s1 = am_byID s" using app by (auto simp: s1_def appendCheck_def Let_def)
  moreover have "s' = s1 \<or> (\<exists>by' a. generateAssessment t (hyp uc) (lookup uc) uc by' s1 = Inr (a, s'))"
    using assms unfolding runCheck_def Let_def prod.case pull c_def [symmetric] app s1_def [symmetric]
    by (auto split: option.splits if_splits sum.splits)
  ultimately show ?thesis by blast
qed

lemma allLimited_runLoop:
  assumes "runLoop t hyp lookup ucs (sd, s) = Some (ocs, sd', s')" and "allLimited s" and "\<And>uc c. lookup uc = Some c \<Longrightarrow> bare c"
  shows "allLimited s'"
  using assms(1,2)
proof (induction ucs arbitrary: sd s ocs)
  case (Cons uc ucs)
  show ?case
  proof (cases "isDue t uc (sd, s)")
    case False
    with Cons show ?thesis by simp
  next
    case True
    with Cons.prems(1) obtain oc sd1 s1 ocs1 where one: "runCheck t hyp lookup uc (sd, s) = Some (oc, sd1, s1)"
      and rest: "runLoop t hyp lookup ucs (sd1, s1) = Some (ocs1, sd', s')"
      by (auto split: option.splits)
    obtain s2 where "am_byID s2 = am_byID s" "s1 = s2 \<or> (\<exists>by' a. generateAssessment t (hyp uc) (lookup uc) uc by' s2 = Inr (a, s1))"
      using runCheck_generates [OF one] by blast
    with Cons.prems(2) assms(3) allLimited_generate have "allLimited s1" unfolding allLimited_def by metis
    with Cons.IH [OF rest] show ?thesis .
  qed
qed simp

definition wired :: "Server \<Rightarrow> bool" where
  "wired s \<longleftrightarrow> unsponsored (sv_Store s) \<and> allLimited (sv_Asmt s)"

lemma allLimited_sink [simp]: "allLimited (a\<lparr>am_sink := x\<rparr>) = allLimited a" "allLimited (a\<lparr>am_provider := p\<rparr>) = allLimited a"
  by (simp_all add: allLimited_def)

lemma sameAsmt_handlers:
  "sv_Asmt (snd (handleImport t r s)) = sv_Asmt s" "sv_Asmt (snd (handleBatch t r s)) = sv_Asmt s"
  "sv_Asmt (snd (handleDraftUpdate t r i s)) = sv_Asmt s" "sv_Asmt (snd (handleScorecards t r s)) = sv_Asmt s"
  "sv_Asmt (snd (handleSubmitApproval t r s)) = sv_Asmt s" "sv_Asmt (snd (handleScorecardAction t r s)) = sv_Asmt s"
  "sv_Asmt (snd (handleApprovalDecision t r s)) = sv_Asmt s"
  by (auto simp: handleImport_def handleBatch_def handleDraftUpdate_def handleScorecards_def handleSubmitApproval_def
      handleScorecardAction_def handleApprovalDecision_def answerDecision_def setHyp_def setCards_def Let_def
      split: option.splits prod.splits sum.splits verror.splits)

lemma limited_serve:
  assumes "wired s"
  shows "allLimited (sv_Asmt (snd (serveHTTP t r s)))"
proof -
  have all: "allLimited (sv_Asmt s)" using assms by (simp add: wired_def)
  have bare: "lookupUseCase (sv_Store s) i = Some c \<Longrightarrow> bare c" for i c using assms bare_lookup by (auto simp: wired_def)
  have "allLimited (sv_Asmt (snd (handleGenerateAssessment t r i s)))" for i
  proof -
    have "allLimited a'" if "generateAssessment t h (lookupUseCase (sv_Store s) i) i by' (sv_Asmt s) = Inr (a, a')" for h by' a a'
      by (rule allLimited_generate [OF that all]) (rule bare)
    then show ?thesis using all
      by (auto simp: handleGenerateAssessment_def setAsmt_def split: sum.splits prod.splits)
  qed
  then have "allLimited (sv_Asmt (snd (handleUseCaseByID t r s)))"
    using all by (auto simp: handleUseCaseByID_def Let_def sameAsmt_handlers split: sum.splits)
  then show ?thesis using all by (simp add: serveHTTP_def Let_def sameAsmt_handlers)
qed

lemma wired_call:
  assumes "serverCall s s'" and "wired s"
  shows "wired s'"
proof -
  have "regCall\<^sup>*\<^sup>* (regPart s) (regPart s')" using lifted_call [OF assms(1)] by (simp add: lifted_def)
  from unsponsored_calls [OF this] assms(2) have "unsponsored (sv_Store s')" by (simp add: regPart_def wired_def)
  moreover have "allLimited (sv_Asmt s')"
    using assms(1)
  proof cases
    case (scRequest t r resp)
    with limited_serve [OF assms(2), of t r] show ?thesis by simp
  next
    case (scTimer t ocs)
    then obtain sched asmt where run: "runLoop t (hy_byUC (sv_Hyp s)) (lookupUseCase (sv_Store s)) (am_ucOrder (sv_Asmt s))
        (sv_Sched s, sv_Asmt s) = Some (ocs, sched, asmt)" and s': "s' = setAsmt t asmt (s\<lparr>sv_Sched := sched\<rparr>)"
      by (auto simp: runSustainment_def runDue_def split: option.splits)
    have "allLimited (sv_Asmt s)" using assms(2) by (simp add: wired_def)
    from allLimited_runLoop [OF run this] have "allLimited asmt" using assms(2) bare_lookup by (auto simp: wired_def)
    then show ?thesis by (simp add: s' setAsmt_def)
  qed (use assms(2) in \<open>simp add: wired_def\<close>)
  ultimately show ?thesis by (simp add: wired_def)
qed

lemma wired_reachable: "serverCall\<^sup>*\<^sup>* (newServer p) s \<Longrightarrow> wired s"
proof (induction rule: rtranclp_induct)
  case base
  show ?case by (simp add: wired_def newServer_def newMemStore_def newAsmtService_def unsponsored_def allLimited_def)
qed (rule wired_call)

text \<open>
  C31: the assembled server scores without sponsors.  No sequence of requests and timers gives a use case
  a sponsor or an approved registry entry, so no assessment it holds scores more than 93 (80 at intake), and every
  assessment it generates for a use case of the layer tier recommends \<open>NeedsSponsor\<close>, \<open>Fix\<close> or \<open>Defer\<close>.
\<close>

theorem server_names_no_sponsor:
  assumes "serverCall\<^sup>*\<^sup>* (newServer p) s"
  shows "(\<forall>uc. getUseCase i (sv_Store s) = Inr uc \<longrightarrow> uc_Sponsor uc = [] \<and> uc_ApprovalState uc = ArtDraft)
    \<and> (\<forall>a. amGet i (sv_Asmt s) = Inr a \<longrightarrow> as_IntakeScore a \<le> 80 \<and> as_RealizationScore a \<le> 93)
    \<and> (\<forall>c h a s'. lookupUseCase (sv_Store s) i = Some c \<longrightarrow> ux_Tier c = TierLayer
         \<longrightarrow> generateAssessment t h (Some c) i by' (sv_Asmt s) = Inr (a, s')
         \<longrightarrow> as_Recommendation a \<in> {NeedsSponsor, Fix, Defer})"
proof -
  have w: "unsponsored (sv_Store s)" "allLimited (sv_Asmt s)" using wired_reachable [OF assms] by (simp_all add: wired_def)
  have "as_Recommendation a \<in> {NeedsSponsor, Fix, Defer}"
    if c: "lookupUseCase (sv_Store s) i = Some c" "ux_Tier c = TierLayer"
      and g: "generateAssessment t h (Some c) i by' (sv_Asmt s) = Inr (a, s')" for c h a s'
  proof -
    obtain j v h1 sn where a: "a = assess t j i v h1 (case Some c of Some c \<Rightarrow> c | None \<Rightarrow> zeroContext) sn (am_checks (sv_Asmt s) i)"
      by (rule generate_assess [OF g])
    show ?thesis unfolding a option.case by (rule unsponsored_layer [OF bare_lookup [OF w(1) c(1)] c(2)])
  qed
  then show ?thesis
    using w by (auto simp: unsponsored_def allLimited_def limited_def getUseCase_def amGet_def split: option.splits)
qed

section \<open>A layer\<close>

definition layerRow :: row where
  "layerRow = [''use_case_id'' \<mapsto> ''uc-1'', ''name'' \<mapsto> ''Search'', ''tier'' \<mapsto> ''Layer'', ''delivery_status'' \<mapsto> ''Pilot'']"

lemma stage_layerRow:
  "stageRow layerRow = \<lparr>sr_UseCaseID = ''uc-1'', sr_Name = ''Search'', sr_Tier = TierLayer,
     sr_DeliveryStatus = DSPilot, sr_Errors = []\<rparr>"
proof -
  have "normalizeDeliveryStatus ''Pilot'' = (DSPilot, None)" by code_simp
  then show ?thesis by (simp add: stageRow_def layerRow_def column_def tierColumn_def)
qed

lemma batch_path:
  assumes "CHR ''/'' \<notin> set i" and "hr_Path r = ''/api/v1/import-batches/'' @ i @ ''/promote''"
  shows "serveHTTP t r s = handleBatch t r s"
    and "splitByte (CHR ''/'') (trimPrefix ''/api/v1/import-batches/'' (hr_Path r)) = [i, ''promote'']"
proof -
  show "splitByte (CHR ''/'') (trimPrefix ''/api/v1/import-batches/'' (hr_Path r)) = [i, ''promote'']"
    unfolding assms(2) trimPrefix_append using splitByte_two [OF assms(1), of "''promote''"] by simp
  have "hasPrefix (hr_Path r) ''/api/v1/import-batches/''" unfolding assms(2) by (rule hasPrefix_append)
  then show "serveHTTP t r s = handleBatch t r s" by (simp add: serveHTTP_def assms(2))
qed

lemma promoted_layer:
  obtains s uc where "serverCall\<^sup>*\<^sup>* (newServer p) s" "getUseCase ''uc-1'' (sv_Store s) = Inr uc" "uc_Tier uc = TierLayer"
proof -
  let ?r1 = "post ''/api/v1/use-cases/import'' ''ann'' (emptyPayload\<lparr>py_Rows := [layerRow]\<rparr>)"
  obtain res n store where imp: "importRows 0 [] ''ann'' [layerRow] (0, newMemStore) = (res, (n, store))"
    by (cases "importRows 0 [] ''ann'' [layerRow] (0, newMemStore)") auto
  define s1 where "s1 = (newServer p)\<lparr>sv_RegSeq := n, sv_Store := store\<rparr>"
  have "snd (serveHTTP 0 ?r1 (newServer p)) = s1"
    using imp by (simp add: serveHTTP_def post_def handleImport_def newServer_def emptyPayload_def s1_def)
  then have c1: "serverCall (newServer p) s1" using scRequest [of 0 ?r1 "newServer p" _ s1] by (metis prod.collapse)
  define i where "i = numberedID ''imp'' (0 + 1)"
  obtain b e where st: "(n, store) = (0 + 2, newMemStore\<lparr>ms_batches := (ms_batches newMemStore)(i \<mapsto> b),
      ms_audit := ms_audit newMemStore @ [e]\<rparr>)" and b: "ib_Staged b = map stageRow [layerRow]" "\<not> ib_Promoted b"
    using imp unfolding i_def by (rule importRows_state)
  have "ms_batches store i = Some b" "ms_useCases store = Map.empty" using st by (simp_all add: newMemStore_def)
  then obtain ucs store' where p: "promoteImport 0 i ''ann'' store = Inr (ucs, store')"
    and ucs: "ucs = [promotedCase 0 (stageRow layerRow)]"
    using b by (simp add: promoteImport_def promoteBatch_def stage_layerRow Let_def)
  let ?r2 = "post (''/api/v1/import-batches/'' @ i @ ''/promote'') ''ann'' emptyPayload"
  have slash: "CHR ''/'' \<notin> set i" unfolding i_def by (rule numberedID_chars) simp
  have path: "hr_Path ?r2 = ''/api/v1/import-batches/'' @ i @ ''/promote''" "hr_Method ?r2 = ''POST''" "hr_Principal ?r2 = ''ann''"
    by (simp_all add: post_def)
  have "serveHTTP 0 ?r2 s1 = (Answer 200 (BPromoted ucs), s1\<lparr>sv_Store := store'\<rparr>)"
    using p batch_path [OF slash path(1)] path(2,3) by (simp add: handleBatch_def Let_def s1_def)
  then have "serverCall s1 (s1\<lparr>sv_Store := store'\<rparr>)" by (rule scRequest)
  with c1 have reach: "serverCall\<^sup>*\<^sup>* (newServer p) (s1\<lparr>sv_Store := store'\<rparr>)"
    by (meson rtranclp.rtrancl_into_rtrancl rtranclp.rtrancl_refl)
  have "ms_useCases store' = ms_useCases store ++ map_of (rev (map (\<lambda>uc. (uc_UseCaseID uc, uc)) ucs))"
    by (rule promoteImport_state [OF p])
  then have "getUseCase ''uc-1'' store' = Inr (promotedCase 0 (stageRow layerRow))"
    by (simp add: getUseCase_def ucs stage_layerRow promotedCase_def)
  with reach that show thesis by (simp add: stage_layerRow promotedCase_def)
qed

theorem server_names_no_sponsor_witness:
  "\<exists>s c a s'. serverCall\<^sup>*\<^sup>* (newServer newMemProvider) s \<and> lookupUseCase (sv_Store s) ''uc-1'' = Some c \<and> ux_Tier c = TierLayer
     \<and> generateAssessment 0 None (Some c) ''uc-1'' ''ann'' (sv_Asmt s) = Inr (a, s')
     \<and> as_IntakeScore a \<le> 80 \<and> as_Recommendation a \<in> {NeedsSponsor, Fix, Defer}"
proof -
  obtain s uc where s: "serverCall\<^sup>*\<^sup>* (newServer newMemProvider) s" "getUseCase ''uc-1'' (sv_Store s) = Inr uc" "uc_Tier uc = TierLayer"
    by (rule promoted_layer)
  let ?c = "useCaseContext uc"
  have c: "lookupUseCase (sv_Store s) ''uc-1'' = Some ?c" "ux_Tier ?c = TierLayer"
    using s by (simp_all add: lookupUseCase_def useCaseContext_def)
  obtain a s' where g: "generateAssessment 0 None (Some ?c) ''uc-1'' ''ann'' (sv_Asmt s) = Inr (a, s')"
    by (simp add: generateAssessment_def Let_def)
  have "uc_Sponsor uc = [] \<and> uc_ApprovalState uc = ArtDraft" "as_Recommendation a \<in> {NeedsSponsor, Fix, Defer}"
    using server_names_no_sponsor [OF s(1), of "''uc-1''" 0 "''ann''"] s(2) c g by blast+
  then have "bare ?c" by (simp add: bare_def useCaseContext_def)
  obtain j v h1 sn where "a = assess 0 j ''uc-1'' v h1 (case Some ?c of Some c \<Rightarrow> c | None \<Rightarrow> zeroContext) sn (am_checks (sv_Asmt s) ''uc-1'')"
    by (rule generate_assess [OF g])
  with limited_assess [OF \<open>bare ?c\<close>] have "as_IntakeScore a \<le> 80" by (simp add: limited_def)
  with s(1) c g \<open>as_Recommendation a \<in> {NeedsSponsor, Fix, Defer}\<close> show ?thesis by blast
qed

end
