(* ===== verification/Vria_Evidence.thy ===== *)
theory Vria_Evidence
  imports Vria_Scoring
begin

text \<open>
  \<open>vria/impl/internal/evidence/evidence.go\<close>: the freshness of a snapshot and the resolution of
  conflicting sources.  A time is the nanoseconds since Go's zero time, so \<open>IsZero\<close> is a comparison
  with 0; reporting windows are below 146 years, where \<open>2*reportingWindow\<close> does not overflow.
\<close>

definition freshnessFor :: "int \<Rightarrow> int \<Rightarrow> int \<Rightarrow> Freshness" where
  "freshnessFor snapshotAt t reportingWindow =
     (if reportingWindow \<le> 0 \<or> snapshotAt = 0 then FreshnessUnknown
      else let age = t - snapshotAt in
        if age \<le> reportingWindow then Fresh
        else if age \<le> 2 * reportingWindow then Aging
        else Stale)"

definition nextSustainmentCheck :: "int \<Rightarrow> int \<Rightarrow> int" where
  "nextSustainmentCheck lastCheck reportingWindow = lastCheck + reportingWindow"

record Source =
  so_SourceID :: string
  so_Value :: f64
  so_Authority :: Authority
  so_RetrievedAt :: int

record Conflict =
  cf_Preferred :: Source
  cf_Others :: "Source list"
  cf_Resolved :: bool

definition zeroSource :: Source where
  "zeroSource = \<lparr>so_SourceID = [], so_Value = Fin 0, so_Authority = AuthorityOther [], so_RetrievedAt = 0\<rparr>"

text \<open>The scan for the first newest source that satisfies \<open>P\<close>, with its index.\<close>

fun newestLoop :: "(Source \<Rightarrow> bool) \<Rightarrow> nat \<Rightarrow> (nat \<times> Source) option \<Rightarrow> Source list \<Rightarrow> (nat \<times> Source) option" where
  "newestLoop P i best [] = best"
| "newestLoop P i best (s # ss) =
     newestLoop P (Suc i)
       (if P s \<and> (case best of None \<Rightarrow> True | Some (j, b) \<Rightarrow> so_RetrievedAt b < so_RetrievedAt s)
        then Some (i, s) else best) ss"

definition othersOf :: "nat \<Rightarrow> Source list \<Rightarrow> Source list" where
  "othersOf j sources = map snd (filter (\<lambda>(i, s). i \<noteq> j) (enumerate 0 sources))"

definition resolveConflict :: "Source list \<Rightarrow> Conflict" where
  "resolveConflict sources =
     (if sources = [] then \<lparr>cf_Preferred = zeroSource, cf_Others = [], cf_Resolved = False\<rparr>
      else case newestLoop (\<lambda>s. so_Authority s = Authoritative) 0 None sources of
          Some (j, b) \<Rightarrow> \<lparr>cf_Preferred = b, cf_Others = othersOf j sources, cf_Resolved = True\<rparr>
        | None \<Rightarrow> (case newestLoop (\<lambda>_. True) 0 None sources of
              Some (j, b) \<Rightarrow> \<lparr>cf_Preferred = b, cf_Others = othersOf j sources, cf_Resolved = False\<rparr>
            | None \<Rightarrow> \<lparr>cf_Preferred = zeroSource, cf_Others = [], cf_Resolved = False\<rparr>))"

section \<open>What is preferred\<close>

text \<open>The loop's invariant: the best so far is one of the sources seen that satisfy \<open>P\<close>, and none of
  them is newer.\<close>

definition bestSoFar :: "(Source \<Rightarrow> bool) \<Rightarrow> Source list \<Rightarrow> (nat \<times> Source) option \<Rightarrow> bool" where
  "bestSoFar P seen best \<longleftrightarrow> (case best of
       None \<Rightarrow> (\<forall>s \<in> set seen. \<not> P s)
     | Some (j, b) \<Rightarrow> j < length seen \<and> seen ! j = b \<and> P b
         \<and> (\<forall>s \<in> set seen. P s \<longrightarrow> so_RetrievedAt s \<le> so_RetrievedAt b))"

lemma newestLoop_best: "bestSoFar P seen best \<Longrightarrow> bestSoFar P (seen @ ss) (newestLoop P (length seen) best ss)"
proof (induction ss arbitrary: seen best)
  case (Cons s ss)
  let ?best = "if P s \<and> (case best of None \<Rightarrow> True | Some (j, b) \<Rightarrow> so_RetrievedAt b < so_RetrievedAt s)
    then Some (length seen, s) else best"
  have "bestSoFar P (seen @ [s]) ?best"
    using Cons.prems
    by (cases best) (auto simp: bestSoFar_def nth_append not_less dest: bspec split: prod.splits)
  from Cons.IH [OF this] show ?case by simp
qed simp

lemma newest: "bestSoFar P ss (newestLoop P 0 None ss)"
  using newestLoop_best [of P "[]" None ss] by (simp add: bestSoFar_def)

lemma enumerate_except:
  "j < length ss \<Longrightarrow> mset (map snd (filter (\<lambda>(i, s). i \<noteq> n + j) (enumerate n ss))) = mset ss - {#ss ! j#}"
proof (induction ss arbitrary: n j)
  case (Cons s ss)
  have all: "filter (\<lambda>(i, s). i \<noteq> n) (enumerate (Suc n) ss) = enumerate (Suc n) ss"
    by (rule filter_True) (auto simp: in_set_enumerate_eq)
  show ?case
  proof (cases j)
    case 0
    then show ?thesis using all by simp
  next
    case (Suc k)
    with Cons.prems have k: "k < length ss" by simp
    then have "ss ! k \<in># mset ss" by simp
    with Cons.IH [OF k, of "Suc n"] Suc show ?thesis by simp
  qed
qed simp

lemma othersOf_mset: "j < length ss \<Longrightarrow> mset (othersOf j ss) = mset ss - {#ss ! j#}"
  using enumerate_except [of j ss 0] by (simp add: othersOf_def)

text \<open>
  Conflicting sources are never merged.  Of one or more sources the preferred one is an
  authoritative source if there is any, and no eligible source is newer; every other source is kept
  beside it, once each.  The conflict counts as resolved as soon as one source is authoritative, also
  when several authoritative sources disagree.
\<close>

theorem conflict_resolution:
  assumes "sources \<noteq> []"
  shows "mset (cf_Preferred (resolveConflict sources) # cf_Others (resolveConflict sources)) = mset sources
    \<and> cf_Resolved (resolveConflict sources) = (\<exists>s \<in> set sources. so_Authority s = Authoritative)
    \<and> (cf_Resolved (resolveConflict sources) = (so_Authority (cf_Preferred (resolveConflict sources)) = Authoritative))
    \<and> (\<forall>s \<in> set sources. so_RetrievedAt (cf_Preferred (resolveConflict sources)) < so_RetrievedAt s
         \<longrightarrow> cf_Resolved (resolveConflict sources) \<and> so_Authority s \<noteq> Authoritative)"
proof -
  let ?auth = "newestLoop (\<lambda>s. so_Authority s = Authoritative) 0 None sources"
    and ?any = "newestLoop (\<lambda>_. True) 0 None sources"
  have auth: "bestSoFar (\<lambda>s. so_Authority s = Authoritative) sources ?auth" and any: "bestSoFar (\<lambda>_. True) sources ?any"
    by (rule newest)+
  have kept: "j < length sources \<Longrightarrow> add_mset (sources ! j) (mset (othersOf j sources)) = mset sources" for j
    by (simp add: othersOf_mset)
  show ?thesis
  proof (cases ?auth)
    case None
    obtain j b where "?any = Some (j, b)" using any assms by (cases ?any) (auto simp: bestSoFar_def)
    with None auth any kept assms show ?thesis
      by (force simp: resolveConflict_def bestSoFar_def)
  next
    case (Some jb)
    with auth kept assms show ?thesis
      by (cases jb) (force simp: resolveConflict_def bestSoFar_def)
  qed
qed

theorem conflict_resolution_witness:
  "let s = \<lparr>so_SourceID = ''a'', so_Value = Fin 1, so_Authority = Authoritative, so_RetrievedAt = 1\<rparr>;
       t = \<lparr>so_SourceID = ''b'', so_Value = Fin 2, so_Authority = Authoritative, so_RetrievedAt = 2\<rparr> in
   cf_Resolved (resolveConflict [s, t]) \<and> so_RetrievedAt (cf_Preferred (resolveConflict [s, t])) = 2"
  using conflict_resolution [of "[\<lparr>so_SourceID = ''a'', so_Value = Fin 1, so_Authority = Authoritative, so_RetrievedAt = 1\<rparr>,
      \<lparr>so_SourceID = ''b'', so_Value = Fin 2, so_Authority = Authoritative, so_RetrievedAt = 2\<rparr>]"]
  by (simp add: Let_def resolveConflict_def)

end
