(* ===== verification/Rif_Store.thy ===== *)
theory Rif_Store
  imports Go_Base
begin

text \<open>
  The file-backed graph store of the repository-intelligence program, \<open>cc-rif/libs/graphstore\<close>
  (\<open>graphstore.go\<close>, \<open>json_store.go\<close>).  A map of the code is the list of its entries with different keys;
  the order of a \<open>range\<close> over it is a parameter, \<open>Orders\<close>, a fresh one for every loop.  The properties of
  a node are of any type \<open>'p\<close>: the store never looks at them.  The disk shows the file and the temporary
  file beside it, and \<open>SaveFault\<close> is the call of \<open>save\<close> that fails.
\<close>

section \<open>Nodes, edges and errors\<close>

record 'p GNode =
  gn_NodeID :: string
  gn_RepoID :: string
  gn_QualifiedName :: string
  gn_Kind :: string
  gn_SourceRef :: string
  gn_Confidence :: string
  gn_PhasePopulated :: int
  gn_Origin :: string
  gn_ProvenanceKind :: string
  gn_Properties :: "(string \<times> 'p) list"

record GEdge =
  ge_EdgeID :: string
  ge_Label :: string
  ge_FromNodeID :: string
  ge_ToNodeID :: string
  ge_Confidence :: string
  ge_SourceRef :: string
  ge_Tier :: int
  ge_PhasePopulated :: int
  ge_CompletenessCaveat :: string

record 'p BlastRadiusResult =
  br_RootNodeID :: string
  br_Depth :: int
  br_Nodes :: "'p GNode list"
  br_Edges :: "GEdge list"
  br_RepoID :: string

datatype SaveFault = NoFault | TempFault | EncodeFault | CloseFault | RenameFault

datatype GraphError =
    ErrInvalidNodeID | ErrInvalidEdgeID | ErrDepthOutOfRange | ErrNodeNotFound
  | ErrInField string GraphError | ErrNodeAt nat GraphError | ErrEdgeAt nat GraphError
  | ErrSave SaveFault | ErrLoad

definition isLowerHex :: "char \<Rightarrow> bool" where
  "isLowerHex c \<longleftrightarrow> isDigit c \<or> (97 \<le> byte c \<and> byte c \<le> 102)"

definition digestID :: "string \<Rightarrow> bool" where
  "digestID i \<longleftrightarrow> length i = 64 \<and> list_all isLowerHex i"

definition validateNodeID :: "string \<Rightarrow> GraphError option" where
  "validateNodeID i = (if digestID i then None else Some ErrInvalidNodeID)"

definition validateEdgeID :: "string \<Rightarrow> GraphError option" where
  "validateEdgeID i = (if digestID i then None else Some ErrInvalidEdgeID)"

definition validateDepth :: "int \<Rightarrow> GraphError option" where
  "validateDepth depth = (if depth < 1 \<or> depth > 5 then Some ErrDepthOutOfRange else None)"

section \<open>The store and its file\<close>

record 'p GraphData =
  gd_nodes :: "(string \<times> 'p GNode) list"
  gd_edges :: "(string \<times> GEdge) list"

datatype 'p FileContent = Partial | Whole "'p GraphData"

record 'p Disk =
  dk_path :: "'p FileContent option"
  dk_tmp :: "'p FileContent option"

record 'p JSONStore =
  js_data :: "'p GraphData"
  js_disk :: "'p Disk"

definition emptyGraph :: "'p GraphData" where
  "emptyGraph = \<lparr>gd_nodes = [], gd_edges = []\<rparr>"

text \<open>Opening: a file that \<open>Stat\<close> does not find, for whatever reason, is an empty graph.\<close>

definition newJSONStore :: "bool \<Rightarrow> 'p Disk \<Rightarrow> GraphError + 'p JSONStore" where
  "newJSONStore statFails disk =
     (if statFails then Inr \<lparr>js_data = emptyGraph, js_disk = disk\<rparr>
      else case dk_path disk of
          None \<Rightarrow> Inr \<lparr>js_data = emptyGraph, js_disk = disk\<rparr>
        | Some Partial \<Rightarrow> Inl ErrLoad
        | Some (Whole d) \<Rightarrow> Inr \<lparr>js_data = d, js_disk = disk\<rparr>)"

text \<open>The successive states of the disk during \<open>save\<close>, up to its return: create the temporary file,
  encode into it, close it, rename it; a failed call removes it.\<close>

definition saveSteps :: "SaveFault \<Rightarrow> 'p GraphData \<Rightarrow> 'p Disk \<Rightarrow> 'p Disk list" where
  "saveSteps f d disk =
     (let created = disk\<lparr>dk_tmp := Some Partial\<rparr>; written = disk\<lparr>dk_tmp := Some (Whole d)\<rparr>; removed = disk\<lparr>dk_tmp := None\<rparr> in
      case f of
        TempFault \<Rightarrow> [disk]
      | EncodeFault \<Rightarrow> [disk, created, removed]
      | CloseFault \<Rightarrow> [disk, created, written, removed]
      | RenameFault \<Rightarrow> [disk, created, written, removed]
      | NoFault \<Rightarrow> [disk, created, written, \<lparr>dk_path = Some (Whole d), dk_tmp = None\<rparr>])"

definition saveStore :: "SaveFault \<Rightarrow> 'p JSONStore \<Rightarrow> GraphError option \<times> 'p JSONStore" where
  "saveStore f s =
     (if f = NoFault then None else Some (ErrSave f),
      s\<lparr>js_disk := last (saveSteps f (js_data s) (js_disk s))\<rparr>)"

section \<open>Writing\<close>

definition putNode :: "'p GNode \<Rightarrow> 'p JSONStore \<Rightarrow> 'p JSONStore" where
  "putNode n s = s\<lparr>js_data := (js_data s)\<lparr>gd_nodes := mapPut (gn_NodeID n) n (gd_nodes (js_data s))\<rparr>\<rparr>"

definition putEdge :: "GEdge \<Rightarrow> 'p JSONStore \<Rightarrow> 'p JSONStore" where
  "putEdge e s = s\<lparr>js_data := (js_data s)\<lparr>gd_edges := mapPut (ge_EdgeID e) e (gd_edges (js_data s))\<rparr>\<rparr>"

definition upsertNode :: "SaveFault \<Rightarrow> 'p GNode \<Rightarrow> 'p JSONStore \<Rightarrow> GraphError option \<times> 'p JSONStore" where
  "upsertNode f n s = (case validateNodeID (gn_NodeID n) of
       Some e \<Rightarrow> (Some e, s)
     | None \<Rightarrow> saveStore f (putNode n s))"

definition edgeError :: "GEdge \<Rightarrow> GraphError option" where
  "edgeError e = (case validateEdgeID (ge_EdgeID e) of
       Some err \<Rightarrow> Some err
     | None \<Rightarrow> (case validateNodeID (ge_FromNodeID e) of
         Some err \<Rightarrow> Some (ErrInField ''from_node_id'' err)
       | None \<Rightarrow> (case validateNodeID (ge_ToNodeID e) of
           Some err \<Rightarrow> Some (ErrInField ''to_node_id'' err)
         | None \<Rightarrow> None)))"

definition upsertEdge :: "SaveFault \<Rightarrow> GEdge \<Rightarrow> 'p JSONStore \<Rightarrow> GraphError option \<times> 'p JSONStore" where
  "upsertEdge f e s = (case edgeError e of
       Some err \<Rightarrow> (Some err, s)
     | None \<Rightarrow> saveStore f (putEdge e s))"

fun firstNodeError :: "nat \<Rightarrow> 'p GNode list \<Rightarrow> GraphError option" where
  "firstNodeError i [] = None"
| "firstNodeError i (n # ns) = (case validateNodeID (gn_NodeID n) of
       Some err \<Rightarrow> Some (ErrNodeAt i err)
     | None \<Rightarrow> firstNodeError (i + 1) ns)"

fun firstEdgeError :: "nat \<Rightarrow> GEdge list \<Rightarrow> GraphError option" where
  "firstEdgeError i [] = None"
| "firstEdgeError i (e # es) = (case edgeError e of
       Some err \<Rightarrow> Some (ErrEdgeAt i err)
     | None \<Rightarrow> firstEdgeError (i + 1) es)"

definition bulkLoad :: "SaveFault \<Rightarrow> 'p GNode list \<Rightarrow> GEdge list \<Rightarrow> 'p JSONStore \<Rightarrow> GraphError option \<times> 'p JSONStore" where
  "bulkLoad f ns es s = (case firstNodeError 0 ns of
       Some err \<Rightarrow> (Some err, s)
     | None \<Rightarrow> (case firstEdgeError 0 es of
         Some err \<Rightarrow> (Some err, s)
       | None \<Rightarrow> saveStore f (fold putEdge es (fold putNode ns s))))"

section \<open>Reading\<close>

definition getNode :: "string \<Rightarrow> 'p JSONStore \<Rightarrow> GraphError + 'p GNode" where
  "getNode i s = (case validateNodeID i of
       Some err \<Rightarrow> Inl err
     | None \<Rightarrow> (case map_of (gd_nodes (js_data s)) i of None \<Rightarrow> Inl ErrNodeNotFound | Some n \<Rightarrow> Inr n))"

text \<open>The orders of the \<open>range\<close> loops: the \<open>k\<close>-th over the edges, and those over a set of ids.\<close>

record Orders =
  od_edges :: "nat \<Rightarrow> GEdge list \<Rightarrow> GEdge list"
  od_ids :: "string list \<Rightarrow> string list"

definition lawful :: "Orders \<Rightarrow> bool" where
  "lawful r \<longleftrightarrow> (\<forall>k xs. mset (od_edges r k xs) = mset xs) \<and> (\<forall>xs. mset (od_ids r xs) = mset xs)"

definition storedEdges :: "'p JSONStore \<Rightarrow> GEdge list" where
  "storedEdges s = map snd (gd_edges (js_data s))"

definition callLabels :: "string list" where
  "callLabels = [''SAME_FILE_CALLS'', ''IMPORTS'']"

definition callerStep :: "'p JSONStore \<Rightarrow> string \<Rightarrow> GEdge \<Rightarrow> string list \<times> 'p GNode list \<Rightarrow> string list \<times> 'p GNode list" where
  "callerStep s i e st = (case st of (seen, callers) \<Rightarrow>
     if ge_ToNodeID e \<noteq> i \<or> ge_Label e \<notin> set callLabels \<or> ge_FromNodeID e \<in> set seen then (seen, callers)
     else (seen @ [ge_FromNodeID e],
           (case map_of (gd_nodes (js_data s)) (ge_FromNodeID e) of None \<Rightarrow> callers | Some n \<Rightarrow> callers @ [n])))"

definition directCallers :: "Orders \<Rightarrow> string \<Rightarrow> 'p JSONStore \<Rightarrow> GraphError + 'p GNode list" where
  "directCallers r i s = (case validateNodeID i of
       Some err \<Rightarrow> Inl err
     | None \<Rightarrow> Inr (snd (fold (callerStep s i) (od_edges r 0 (storedEdges s)) ([], []))))"

text \<open>The two outer loops that \<open>Dependents\<close> and \<open>BlastRadius\<close> share: the ids of a frontier, each with a
  pass over the edges, and the hops.  A state is what has been visited and the next frontier.\<close>

fun scanFrontier :: "(string \<Rightarrow> GEdge \<Rightarrow> 'v \<times> string list \<Rightarrow> 'v \<times> string list) \<Rightarrow> (nat \<Rightarrow> GEdge list) \<Rightarrow> nat
    \<Rightarrow> string list \<Rightarrow> 'v \<times> string list \<Rightarrow> 'v \<times> string list" where
  "scanFrontier visit es k [] st = st"
| "scanFrontier visit es k (i # frontier) st = scanFrontier visit es (k + 1) frontier (fold (visit i) (es k) st)"

fun hopLoop :: "(string \<Rightarrow> GEdge \<Rightarrow> 'v \<times> string list \<Rightarrow> 'v \<times> string list) \<Rightarrow> (nat \<Rightarrow> GEdge list) \<Rightarrow> nat
    \<Rightarrow> nat \<Rightarrow> string list \<Rightarrow> 'v \<Rightarrow> 'v" where
  "hopLoop visit es k 0 frontier v = v"
| "hopLoop visit es k (Suc hops) frontier v =
     (if frontier = [] then v
      else case scanFrontier visit es k frontier (v, []) of
        (v', next') \<Rightarrow> hopLoop visit es (k + length frontier) hops next' v')"

definition visitOut :: "string \<Rightarrow> GEdge \<Rightarrow> string list \<times> string list \<Rightarrow> string list \<times> string list" where
  "visitOut i e st = (case st of (visited, next') \<Rightarrow>
     if ge_FromNodeID e \<noteq> i \<or> ge_ToNodeID e \<in> set visited then (visited, next')
     else (visited @ [ge_ToNodeID e], next' @ [ge_ToNodeID e]))"

text \<open>The stored nodes of the visited ids without the root, sorted by id.\<close>

definition nodesOf :: "Orders \<Rightarrow> string \<Rightarrow> string list \<Rightarrow> 'p JSONStore \<Rightarrow> 'p GNode list" where
  "nodesOf r root visited s =
     sort_key gn_NodeID (List.map_filter (map_of (gd_nodes (js_data s))) (od_ids r (filter (\<lambda>i. i \<noteq> root) visited)))"

definition dependents :: "Orders \<Rightarrow> string \<Rightarrow> int \<Rightarrow> 'p JSONStore \<Rightarrow> GraphError + 'p GNode list" where
  "dependents r i depth s = (case validateNodeID i of
       Some err \<Rightarrow> Inl err
     | None \<Rightarrow> (case validateDepth depth of
         Some err \<Rightarrow> Inl err
       | None \<Rightarrow> Inr (nodesOf r i (hopLoop visitOut (\<lambda>k. od_edges r k (storedEdges s)) 0 (nat depth) [i] [i]) s)))"

text \<open>The visited nodes and the visited edges.\<close>

definition visitBoth :: "string \<Rightarrow> GEdge \<Rightarrow> (string list \<times> string list) \<times> string list
    \<Rightarrow> (string list \<times> string list) \<times> string list" where
  "visitBoth i e st = (case st of ((visited, edges), next') \<Rightarrow>
     if ge_FromNodeID e \<noteq> i \<and> ge_ToNodeID e \<noteq> i then ((visited, edges), next')
     else let neighbor = (if ge_FromNodeID e = i then ge_ToNodeID e else ge_FromNodeID e);
              edges' = (if ge_EdgeID e \<in> set edges then edges else edges @ [ge_EdgeID e]) in
       if neighbor \<in> set visited then ((visited, edges'), next')
       else ((visited @ [neighbor], edges'), next' @ [neighbor]))"

definition blastRadius :: "Orders \<Rightarrow> string \<Rightarrow> int \<Rightarrow> 'p JSONStore \<Rightarrow> GraphError + 'p BlastRadiusResult" where
  "blastRadius r i depth s = (case validateNodeID i of
       Some err \<Rightarrow> Inl err
     | None \<Rightarrow> (case validateDepth depth of
         Some err \<Rightarrow> Inl err
       | None \<Rightarrow> (case hopLoop visitBoth (\<lambda>k. od_edges r k (storedEdges s)) 0 (nat depth) [i] ([i], []) of
           (visited, edges) \<Rightarrow>
             Inr \<lparr>br_RootNodeID = i, br_Depth = depth, br_Nodes = nodesOf r i visited s,
                  br_Edges = List.map_filter (map_of (gd_edges (js_data s))) (od_ids r edges),
                  br_RepoID = (case map_of (gd_nodes (js_data s)) i of None \<Rightarrow> [] | Some n \<Rightarrow> gn_RepoID n)\<rparr>)))"

end
