(* ===== verification/Rif_Reach.thy ===== *)
theory Rif_Reach
  imports Rif_Store
begin

text \<open>
  What the traversals of the graph store return.  The locale \<open>frontier_search\<close> states what a search asks of
  its loop body (through which edges it steps, that it marks a node once and queues it then) and proves
  that the loops then visit exactly the nodes within the given number of hops, whatever the orders of the
  \<open>range\<close> loops; the two bodies of the code are interpretations of it.
\<close>

section \<open>Nodes within a number of steps\<close>

definition within :: "('a \<times> 'a) set \<Rightarrow> nat \<Rightarrow> 'a \<Rightarrow> 'a set" where
  "within R d a = {b. \<exists>k\<le>d. (a, b) \<in> R ^^ k}"

lemma within_0 [simp]: "within R 0 a = {a}"
  by (auto simp: within_def)

lemma within_Suc: "within R (Suc d) a = within R d a \<union> R `` within R d a"
proof
  show "within R (Suc d) a \<subseteq> within R d a \<union> R `` within R d a"
  proof
    fix b assume "b \<in> within R (Suc d) a"
    then obtain k where k: "k \<le> Suc d" "(a, b) \<in> R ^^ k" by (auto simp: within_def)
    show "b \<in> within R d a \<union> R `` within R d a"
    proof (cases "k = Suc d")
      case True
      with k show ?thesis by (auto simp: within_def)
    next
      case False
      with k have "k \<le> d" by simp
      with k(2) show ?thesis by (auto simp: within_def)
    qed
  qed
  show "within R d a \<union> R `` within R d a \<subseteq> within R (Suc d) a"
  proof
    fix b assume "b \<in> within R d a \<union> R `` within R d a"
    then show "b \<in> within R (Suc d) a"
    proof
      assume "b \<in> within R d a"
      then show ?thesis by (auto simp: within_def intro: le_SucI)
    next
      assume "b \<in> R `` within R d a"
      then obtain k c where "k \<le> d" "(a, c) \<in> R ^^ k" "(c, b) \<in> R" by (auto simp: within_def)
      then have "Suc k \<le> Suc d" "(a, b) \<in> R ^^ Suc k" by auto
      then show ?thesis unfolding within_def by blast
    qed
  qed
qed

lemma within_mono: "d \<le> d' \<Longrightarrow> within R d a \<subseteq> within R d' a"
  unfolding within_def using le_trans by blast

lemma within_root [simp]: "a \<in> within R d a"
  by (auto simp: within_def intro!: exI [of _ 0])

text \<open>Once a hop adds nothing, no later hop does.\<close>

lemma within_stable: "R `` within R d a \<subseteq> within R d a \<Longrightarrow> within R (d + h) a = within R d a"
  by (induction h) (auto simp: within_Suc)

lemma within_sym:
  assumes "sym R"
  shows "b \<in> within R d a \<longleftrightarrow> a \<in> within R d b"
proof -
  have "sym (R ^^ k)" for k
  proof (induction k)
    case (Suc k)
    show ?case
    proof (rule symI)
      fix x y assume "(x, y) \<in> R ^^ Suc k"
      then obtain z where "(x, z) \<in> R ^^ k" "(z, y) \<in> R" by auto
      with Suc.IH assms have "(y, z) \<in> R" "(z, x) \<in> R ^^ k" by (auto dest: symD)
      then show "(y, x) \<in> R ^^ Suc k" by (rule relpow_Suc_I2)
    qed
  qed (simp add: sym_def)
  then show ?thesis by (auto simp: within_def dest: symD)
qed

section \<open>The search\<close>

locale frontier_search =
  fixes nbr :: "string \<Rightarrow> GEdge \<Rightarrow> string option"
    and marked :: "'v \<Rightarrow> string list"
    and visit :: "string \<Rightarrow> GEdge \<Rightarrow> 'v \<times> string list \<Rightarrow> 'v \<times> string list"
  assumes visit_skip: "nbr i e = None \<or> (\<exists>j. nbr i e = Some j \<and> j \<in> set (marked v))
      \<Longrightarrow> marked (fst (visit i e (v, nx))) = marked v \<and> snd (visit i e (v, nx)) = nx"
    and visit_mark: "nbr i e = Some j \<Longrightarrow> j \<notin> set (marked v)
      \<Longrightarrow> marked (fst (visit i e (v, nx))) = marked v @ [j] \<and> snd (visit i e (v, nx)) = nx @ [j]"
begin

text \<open>The nodes one step away through a list of edges.\<close>

definition steps :: "GEdge list \<Rightarrow> string \<Rightarrow> string set" where
  "steps es i = {j. \<exists>e\<in>set es. nbr i e = Some j}"

lemma visit_marks:
  "set (marked (fst (visit i e (v, nx)))) = set (marked v) \<union> set_option (nbr i e)"
  "set (snd (visit i e (v, nx))) = set nx \<union> (set_option (nbr i e) - set (marked v))"
  "distinct (marked v) \<Longrightarrow> distinct (marked (fst (visit i e (v, nx))))"
proof -
  consider (skip) "nbr i e = None \<or> (\<exists>j. nbr i e = Some j \<and> j \<in> set (marked v))"
    | (mark) j where "nbr i e = Some j" "j \<notin> set (marked v)"
    by (cases "nbr i e") auto
  then have "set (marked (fst (visit i e (v, nx)))) = set (marked v) \<union> set_option (nbr i e)
      \<and> set (snd (visit i e (v, nx))) = set nx \<union> (set_option (nbr i e) - set (marked v))
      \<and> (distinct (marked v) \<longrightarrow> distinct (marked (fst (visit i e (v, nx)))))"
  proof cases
    case skip
    with visit_skip [OF skip] show ?thesis by auto
  next
    case mark
    with visit_mark [OF mark] show ?thesis by auto
  qed
  then show "set (marked (fst (visit i e (v, nx)))) = set (marked v) \<union> set_option (nbr i e)"
    "set (snd (visit i e (v, nx))) = set nx \<union> (set_option (nbr i e) - set (marked v))"
    "distinct (marked v) \<Longrightarrow> distinct (marked (fst (visit i e (v, nx))))" by blast+
qed

lemma pass_marks:
  "set (marked (fst (fold (visit i) es (v, nx)))) = set (marked v) \<union> steps es i
   \<and> set (snd (fold (visit i) es (v, nx))) = set nx \<union> (steps es i - set (marked v))
   \<and> (distinct (marked v) \<longrightarrow> distinct (marked (fst (fold (visit i) es (v, nx)))))"
proof (induction es arbitrary: v nx)
  case (Cons e es)
  obtain v1 nx1 where one: "visit i e (v, nx) = (v1, nx1)" by fastforce
  note m = visit_marks [where i = i and e = e and v = v and nx = nx, unfolded one fst_conv snd_conv]
  have "steps (e # es) i = set_option (nbr i e) \<union> steps es i" by (auto simp: steps_def)
  with Cons.IH [of v1 nx1] m show ?case by (simp add: one) blast
qed (simp add: steps_def)

lemma scan_marks:
  assumes "\<And>k. steps (es k) = next1"
  shows "set (marked (fst (scanFrontier visit es k frontier (v, nx)))) = set (marked v) \<union> (\<Union>i\<in>set frontier. next1 i)
    \<and> set (snd (scanFrontier visit es k frontier (v, nx))) = set nx \<union> ((\<Union>i\<in>set frontier. next1 i) - set (marked v))
    \<and> (distinct (marked v) \<longrightarrow> distinct (marked (fst (scanFrontier visit es k frontier (v, nx)))))"
proof (induction frontier arbitrary: k v nx)
  case (Cons i frontier)
  obtain v1 nx1 where one: "fold (visit i) (es k) (v, nx) = (v1, nx1)" by fastforce
  note m = pass_marks [where i = i and es = "es k" and v = v and nx = nx, unfolded one fst_conv snd_conv assms]
  from Cons.IH [of "k + 1" v1 nx1] m show ?case by (simp add: one) blast
qed simp

text \<open>Before hop \<open>d\<close> the marked nodes are those within \<open>d\<close> steps and the frontier are the new ones.\<close>

definition before_hop :: "(string \<times> string) set \<Rightarrow> nat \<Rightarrow> string \<Rightarrow> string list \<Rightarrow> 'v \<Rightarrow> bool" where
  "before_hop R d a frontier v \<longleftrightarrow> set (marked v) = within R d a \<and> distinct (marked v)
     \<and> set frontier \<subseteq> within R d a \<and> R `` (within R d a - set frontier) \<subseteq> within R d a"

lemma hop_step:
  assumes R: "\<And>k i. steps (es k) i = R `` {i}"
    and "before_hop R d a frontier v" and "scanFrontier visit es k frontier (v, []) = (v1, nx1)"
  shows "before_hop R (Suc d) a nx1 v1" and "within R (Suc d) a - set nx1 = within R d a"
proof -
  have "\<And>k. steps (es k) = (\<lambda>i. R `` {i})" using R by blast
  note m = scan_marks [of es, OF this, of k frontier v "[]", unfolded assms(3) fst_conv snd_conv]
  have U: "(\<Union>i\<in>set frontier. R `` {i}) = R `` set frontier" by blast
  have v: "set (marked v) = within R d a" "distinct (marked v)" using assms(2) by (simp_all add: before_hop_def)
  have "within R (Suc d) a = within R d a \<union> R `` set frontier"
    using assms(2) unfolding within_Suc before_hop_def by blast
  moreover from m v(1) have "set (marked v1) = within R d a \<union> R `` set frontier"
    "set nx1 = R `` set frontier - within R d a" unfolding U by simp_all
  ultimately have v1: "set (marked v1) = within R (Suc d) a" and nx1: "set nx1 \<subseteq> within R (Suc d) a"
    "within R (Suc d) a - set nx1 = within R d a" by auto
  have "R `` (within R (Suc d) a - set nx1) \<subseteq> within R (Suc d) a"
    unfolding nx1(2) using within_Suc [of R d a] by blast
  with v1 nx1(1) m v(2) show "before_hop R (Suc d) a nx1 v1" unfolding before_hop_def by blast
  show "within R (Suc d) a - set nx1 = within R d a" by (rule nx1(2))
qed

lemma frontier_empty: "before_hop R d a [] v \<Longrightarrow> within R (d + h) a = within R d a"
  by (rule within_stable) (simp add: before_hop_def)

lemma hops_marks:
  assumes R: "\<And>k i. steps (es k) i = R `` {i}"
    and "before_hop R d a frontier v"
  shows "set (marked (hopLoop visit es k h frontier v)) = within R (d + h) a
    \<and> distinct (marked (hopLoop visit es k h frontier v))"
  using assms(2)
proof (induction h arbitrary: k frontier v d)
  case 0
  then show ?case by (simp add: before_hop_def)
next
  case (Suc h)
  show ?case
  proof (cases "frontier = []")
    case True
    with Suc.prems frontier_empty [of R d a v "Suc h"] show ?thesis by (simp add: before_hop_def)
  next
    case False
    obtain v1 nx1 where one: "scanFrontier visit es k frontier (v, []) = (v1, nx1)" by fastforce
    from Suc.IH [OF hop_step(1) [OF R Suc.prems one], of "k + length frontier"] False show ?thesis
      by (simp add: one)
  qed
qed

lemma before_start: "marked v = [a] \<Longrightarrow> before_hop R 0 a [a] v"
  by (simp add: before_hop_def)

end

text \<open>A search that also keeps the ids of the edges it looked through.\<close>

locale edge_search = frontier_search nbr marked visit
  for nbr and marked :: "'v \<Rightarrow> string list" and visit +
  fixes taken :: "'v \<Rightarrow> string list"
  assumes visit_take: "set (taken (fst (visit i e (v, nx)))) = set (taken v) \<union> (if nbr i e = None then {} else {ge_EdgeID e})"
    and visit_once: "distinct (taken v) \<Longrightarrow> distinct (taken (fst (visit i e (v, nx))))"
begin

definition incident :: "GEdge list \<Rightarrow> string \<Rightarrow> string set" where
  "incident es i = {ge_EdgeID e | e. e \<in> set es \<and> nbr i e \<noteq> None}"

lemma pass_takes:
  "set (taken (fst (fold (visit i) es (v, nx)))) = set (taken v) \<union> incident es i
   \<and> (distinct (taken v) \<longrightarrow> distinct (taken (fst (fold (visit i) es (v, nx)))))"
proof (induction es arbitrary: v nx)
  case (Cons e es)
  obtain v1 nx1 where one: "visit i e (v, nx) = (v1, nx1)" by fastforce
  have "incident (e # es) i = (if nbr i e = None then {} else {ge_EdgeID e}) \<union> incident es i"
    by (auto simp: incident_def)
  with Cons.IH [of v1 nx1] visit_take [of i e v nx] visit_once [of v i e nx] show ?case
    by (simp add: one Un_assoc)
qed (simp add: incident_def)

lemma scan_takes:
  assumes "\<And>k. incident (es k) = inc"
  shows "set (taken (fst (scanFrontier visit es k frontier (v, nx)))) = set (taken v) \<union> \<Union> (inc ` set frontier)
    \<and> (distinct (taken v) \<longrightarrow> distinct (taken (fst (scanFrontier visit es k frontier (v, nx)))))"
proof (induction frontier arbitrary: k v nx)
  case (Cons i frontier)
  obtain v1 nx1 where one: "fold (visit i) (es k) (v, nx) = (v1, nx1)" by fastforce
  from Cons.IH [of "k + 1" v1 nx1] pass_takes [of i "es k" v nx] show ?case
    by (simp add: one assms Un_assoc)
qed simp

text \<open>The edges are those of the nodes that were expanded, which are one hop closer.\<close>

lemma hops_takes:
  assumes R: "\<And>k i. steps (es k) i = R `` {i}" and inc: "\<And>k. incident (es k) = inc"
    and "before_hop R d a frontier v"
    and "set (taken v) = \<Union> (inc ` (within R d a - set frontier))" and "distinct (taken v)"
  shows "set (taken (hopLoop visit es k (Suc h) frontier v)) = \<Union> (inc ` within R (d + h) a)
    \<and> distinct (taken (hopLoop visit es k (Suc h) frontier v))"
  using assms(3-5)
proof (induction h arbitrary: k frontier v d)
  case 0
  obtain v1 nx1 where one: "scanFrontier visit es k frontier (v, []) = (v1, nx1)" by fastforce
  have "within R d a - set frontier \<union> set frontier = within R d a" using 0(1) by (auto simp: before_hop_def)
  then have "\<Union> (inc ` (within R d a - set frontier)) \<union> \<Union> (inc ` set frontier) = \<Union> (inc ` within R d a)"
    by (metis Union_Un_distrib image_Un)
  with 0 scan_takes [of es, OF inc, of k frontier v "[]"] show ?case by (simp add: one)
next
  case (Suc h)
  show ?case
  proof (cases "frontier = []")
    case True
    with Suc.prems frontier_empty [of R d a v "Suc h"] show ?thesis by simp
  next
    case False
    obtain v1 nx1 where one: "scanFrontier visit es k frontier (v, []) = (v1, nx1)" by fastforce
    note st = hop_step [OF R Suc.prems(1) one]
    have "within R d a - set frontier \<union> set frontier = within R d a" using Suc.prems(1) by (auto simp: before_hop_def)
    then have "\<Union> (inc ` (within R d a - set frontier)) \<union> \<Union> (inc ` set frontier) = \<Union> (inc ` within R d a)"
      by (metis Union_Un_distrib image_Un)
    with Suc.prems(2,3) scan_takes [of es, OF inc, of k frontier v "[]"]
    have "set (taken v1) = \<Union> (inc ` (within R (Suc d) a - set nx1))" "distinct (taken v1)"
      unfolding st(2) by (simp_all add: one)
    from Suc.IH [OF st(1) this, of "k + length frontier"] False show ?thesis by (simp add: one)
  qed
qed

end

section \<open>The two searches of the store\<close>

definition outNbr :: "string \<Rightarrow> GEdge \<Rightarrow> string option" where
  "outNbr i e = (if ge_FromNodeID e = i then Some (ge_ToNodeID e) else None)"

definition bothNbr :: "string \<Rightarrow> GEdge \<Rightarrow> string option" where
  "bothNbr i e = (if ge_FromNodeID e = i then Some (ge_ToNodeID e)
     else if ge_ToNodeID e = i then Some (ge_FromNodeID e) else None)"

interpretation outSearch: frontier_search outNbr "\<lambda>v. v" visitOut
  by unfold_locales (auto simp: outNbr_def visitOut_def split: if_splits)

interpretation bothSearch: edge_search bothNbr fst visitBoth snd
  by unfold_locales (auto simp: bothNbr_def visitBoth_def Let_def split: if_splits prod.splits)

text \<open>The relation of the stored edges.\<close>

definition edgeRel :: "'p JSONStore \<Rightarrow> (string \<times> string) set" where
  "edgeRel s = {(ge_FromNodeID e, ge_ToNodeID e) | e. e \<in> set (storedEdges s)}"

lemma outSteps: "mset es = mset (storedEdges s) \<Longrightarrow> outSearch.steps es i = edgeRel s `` {i}"
  by (drule mset_eq_setD) (auto simp: outSearch.steps_def outNbr_def edgeRel_def split: if_splits)

lemma bothNbr_Some:
  "bothNbr i e = Some j \<longleftrightarrow> ge_FromNodeID e = i \<and> ge_ToNodeID e = j \<or> ge_ToNodeID e = i \<and> ge_FromNodeID e = j"
  by (auto simp: bothNbr_def)

lemma bothSteps: "mset es = mset (storedEdges s) \<Longrightarrow> bothSearch.steps es i = (edgeRel s \<union> (edgeRel s)\<inverse>) `` {i}"
  by (drule mset_eq_setD) (auto simp: bothSearch.steps_def bothNbr_Some edgeRel_def)

lemma bothIncident: "mset es = mset (storedEdges s) \<Longrightarrow> bothSearch.incident es i
    = {ge_EdgeID e | e. e \<in> set (storedEdges s) \<and> (ge_FromNodeID e = i \<or> ge_ToNodeID e = i)}"
  by (drule mset_eq_setD) (auto simp: bothSearch.incident_def bothNbr_def)

lemma out_visits:
  assumes "lawful r"
  shows "set (hopLoop visitOut (\<lambda>k. od_edges r k (storedEdges s)) 0 h [i] [i]) = within (edgeRel s) h i"
    and "distinct (hopLoop visitOut (\<lambda>k. od_edges r k (storedEdges s)) 0 h [i] [i])"
proof -
  let ?es = "\<lambda>k. od_edges r k (storedEdges s)"
  have R: "\<And>k j. outSearch.steps (?es k) j = edgeRel s `` {j}" using assms by (intro outSteps) (simp add: lawful_def)
  have start: "outSearch.before_hop (edgeRel s) 0 i [i] [i]" by (rule outSearch.before_start) simp
  show "set (hopLoop visitOut ?es 0 h [i] [i]) = within (edgeRel s) h i" "distinct (hopLoop visitOut ?es 0 h [i] [i])"
    using outSearch.hops_marks [where es = ?es and k = 0 and h = h, OF R start] by simp_all
qed

lemma both_visits:
  assumes "lawful r" and "hopLoop visitBoth (\<lambda>k. od_edges r k (storedEdges s)) 0 (Suc h) [i] ([i], []) = (visited, edges)"
  shows "set visited = within (edgeRel s \<union> (edgeRel s)\<inverse>) (Suc h) i" and "distinct visited"
    and "set edges = {ge_EdgeID e | e. e \<in> set (storedEdges s)
      \<and> {ge_FromNodeID e, ge_ToNodeID e} \<inter> within (edgeRel s \<union> (edgeRel s)\<inverse>) h i \<noteq> {}}" and "distinct edges"
proof -
  let ?es = "\<lambda>k. od_edges r k (storedEdges s)" and ?R = "edgeRel s \<union> (edgeRel s)\<inverse>"
  let ?inc = "\<lambda>i. {ge_EdgeID e | e. e \<in> set (storedEdges s) \<and> (ge_FromNodeID e = i \<or> ge_ToNodeID e = i)}"
  have perm: "mset (?es k) = mset (storedEdges s)" for k using assms(1) by (simp add: lawful_def)
  have R: "\<And>k j. bothSearch.steps (?es k) j = ?R `` {j}" by (rule bothSteps [OF perm])
  have inc: "\<And>k. bothSearch.incident (?es k) = ?inc" by (rule ext) (rule bothIncident [OF perm])
  have start: "bothSearch.before_hop ?R 0 i [i] ([i], [])" by (rule bothSearch.before_start) simp
  show "set visited = within ?R (Suc h) i" "distinct visited"
    using bothSearch.hops_marks [where es = ?es and k = 0 and h = "Suc h", OF R start] unfolding assms(2) by simp_all
  have "set edges = \<Union> (?inc ` within ?R h i) \<and> distinct edges"
    using bothSearch.hops_takes [where es = ?es and k = 0 and h = h, OF R inc start] unfolding assms(2) by simp
  then show "set edges = {ge_EdgeID e | e. e \<in> set (storedEdges s) \<and> {ge_FromNodeID e, ge_ToNodeID e} \<inter> within ?R h i \<noteq> {}}"
    "distinct edges" by (auto simp del: within_root)
qed

end
