(* ===== verification/Rif_Facts.thy ===== *)
theory Rif_Facts
  imports Rif_Reach
begin

text \<open>
  The graph store in use: its clients write, crash in the middle of a write and open it again
  (\<open>graphCall\<close>).  Every reachable store is well keyed, memory and file alike; on it the two traversals are
  exactly the stored nodes within the hops asked for; and a write replaces the file as a whole or not at
  all, although a failed one stays in memory.
\<close>

section \<open>Writes, crashes and restarts\<close>

text \<open>The store in memory at the moment a write of the API reaches \<open>save\<close>.\<close>

inductive pending :: "'p JSONStore \<Rightarrow> 'p JSONStore \<Rightarrow> bool" for s where
  pdNode: "validateNodeID (gn_NodeID n) = None \<Longrightarrow> pending s (putNode n s)"
| pdEdge: "edgeError e = None \<Longrightarrow> pending s (putEdge e s)"
| pdBulk: "firstNodeError 0 ns = None \<Longrightarrow> firstEdgeError 0 es = None \<Longrightarrow> pending s (fold putEdge es (fold putNode ns s))"

inductive graphCall :: "'p JSONStore \<Rightarrow> 'p JSONStore \<Rightarrow> bool" where
  gcNode: "upsertNode f n s = (err, s') \<Longrightarrow> graphCall s s'"
| gcEdge: "upsertEdge f e s = (err, s') \<Longrightarrow> graphCall s s'"
| gcBulk: "bulkLoad f ns es s = (err, s') \<Longrightarrow> graphCall s s'"
| gcRestart: "newJSONStore statFails (js_disk s) = Inr s' \<Longrightarrow> graphCall s s'"
| gcCrash: "pending s q \<Longrightarrow> disk \<in> set (saveSteps f (js_data q) (js_disk q)) \<Longrightarrow> newJSONStore statFails disk = Inr s' \<Longrightarrow> graphCall s s'"

definition newDisk :: "'p Disk" where
  "newDisk = \<lparr>dk_path = None, dk_tmp = None\<rparr>"

definition graphStore :: "'p JSONStore \<Rightarrow> bool" where
  "graphStore s \<longleftrightarrow> graphCall\<^sup>*\<^sup>* \<lparr>js_data = emptyGraph, js_disk = newDisk\<rparr> s"

lemma pending_cases:
  assumes "graphCall s s'"
  obtains "s' = s" | q f where "pending s q" "s' = snd (saveStore f q)"
  | statFails where "newJSONStore statFails (js_disk s) = Inr s'"
  | q disk f statFails where "pending s q" "disk \<in> set (saveSteps f (js_data q) (js_disk q))" "newJSONStore statFails disk = Inr s'"
  using assms
proof cases
  case (gcNode f n err)
  then show thesis using that(1) that(2) [OF pdNode, of n f]
    by (cases "validateNodeID (gn_NodeID n)") (auto simp: upsertNode_def)
next
  case (gcEdge f e err)
  then show thesis using that(1) that(2) [OF pdEdge, of e f]
    by (cases "edgeError e") (auto simp: upsertEdge_def)
next
  case (gcBulk f ns es err)
  then show thesis using that(1) that(2) [OF pdBulk, of ns es f]
    by (cases "firstNodeError 0 ns"; cases "firstEdgeError 0 es") (auto simp: bulkLoad_def)
qed (use that in blast)+

section \<open>Well keyed\<close>

definition keyed :: "('a \<Rightarrow> string) \<Rightarrow> (string \<times> 'a) list \<Rightarrow> bool" where
  "keyed key m \<longleftrightarrow> distinct (map fst m) \<and> (\<forall>(k, v) \<in> set m. key v = k)"

lemma keyed_mapPut: "keyed key m \<Longrightarrow> keyed key (mapPut (key v) v m)"
  using mapPut_set [of "key v" v m] mapPut_distinct [of m "key v" v] unfolding keyed_def by fastforce

definition graphOK :: "'p GraphData \<Rightarrow> bool" where
  "graphOK d \<longleftrightarrow> keyed gn_NodeID (gd_nodes d) \<and> keyed ge_EdgeID (gd_edges d)
     \<and> (\<forall>i n. (i, n) \<in> set (gd_nodes d) \<longrightarrow> digestID i)
     \<and> (\<forall>i e. (i, e) \<in> set (gd_edges d) \<longrightarrow> digestID i \<and> digestID (ge_FromNodeID e) \<and> digestID (ge_ToNodeID e))"

definition diskOK :: "'p Disk \<Rightarrow> bool" where
  "diskOK disk \<longleftrightarrow> (case dk_path disk of None \<Rightarrow> True | Some Partial \<Rightarrow> False | Some (Whole d) \<Rightarrow> graphOK d)"

definition storeOK :: "'p JSONStore \<Rightarrow> bool" where
  "storeOK s \<longleftrightarrow> graphOK (js_data s) \<and> diskOK (js_disk s)"

lemma graphOK_putNode: "digestID (gn_NodeID n) \<Longrightarrow> graphOK (js_data s) \<Longrightarrow> graphOK (js_data (putNode n s))"
  using mapPut_set [of "gn_NodeID n" n "gd_nodes (js_data s)"]
  by (auto simp: graphOK_def putNode_def keyed_mapPut)

lemma graphOK_putEdge:
  "edgeError e = None \<Longrightarrow> graphOK (js_data s) \<Longrightarrow> graphOK (js_data (putEdge e s))"
  using mapPut_set [of "ge_EdgeID e" e "gd_edges (js_data s)"]
  by (auto simp: graphOK_def putEdge_def keyed_mapPut edgeError_def validateNodeID_def validateEdgeID_def split: if_splits)

lemma put_disk [simp]: "js_disk (putNode n s) = js_disk s" "js_disk (putEdge e s) = js_disk s"
  by (simp_all add: putNode_def putEdge_def)

lemma putNodes_ok:
  "firstNodeError k ns = None \<Longrightarrow> graphOK (js_data s) \<Longrightarrow> graphOK (js_data (fold putNode ns s)) \<and> js_disk (fold putNode ns s) = js_disk s"
  by (induction ns arbitrary: k s) (auto simp: validateNodeID_def graphOK_putNode split: option.splits if_splits)

lemma putEdges_ok:
  "firstEdgeError k es = None \<Longrightarrow> graphOK (js_data s) \<Longrightarrow> graphOK (js_data (fold putEdge es s)) \<and> js_disk (fold putEdge es s) = js_disk s"
  by (induction es arbitrary: k s) (auto simp: graphOK_putEdge split: option.splits)

lemma pending_ok: "pending s q \<Longrightarrow> graphOK (js_data s) \<Longrightarrow> graphOK (js_data q) \<and> js_disk q = js_disk s"
proof (induction rule: pending.induct)
  case (pdNode n)
  then show ?case by (auto simp: validateNodeID_def graphOK_putNode split: if_splits)
next
  case (pdEdge e)
  then show ?case by (simp add: graphOK_putEdge)
next
  case (pdBulk ns es)
  with putNodes_ok [of 0 ns s] putEdges_ok [of 0 es "fold putNode ns s"] show ?case by simp
qed

lemma saveSteps_path: "disk' \<in> set (saveSteps f d disk) \<Longrightarrow> dk_path disk' = dk_path disk \<or> f = NoFault \<and> dk_path disk' = Some (Whole d)"
  by (cases f) (auto simp: saveSteps_def Let_def)

lemma saveSteps_ok: "disk' \<in> set (saveSteps f d disk) \<Longrightarrow> graphOK d \<Longrightarrow> diskOK disk \<Longrightarrow> diskOK disk'"
  using saveSteps_path [of disk' f d disk] by (auto simp: diskOK_def)

lemma saveSteps_last: "last (saveSteps f d disk) \<in> set (saveSteps f d disk)"
  by (rule last_in_set) (cases f; simp add: saveSteps_def Let_def)

lemma graphOK_empty: "graphOK emptyGraph"
  by (simp add: graphOK_def emptyGraph_def keyed_def)

lemma open_ok: "newJSONStore statFails disk = Inr s \<Longrightarrow> diskOK disk \<Longrightarrow> storeOK s"
  by (auto simp: newJSONStore_def storeOK_def diskOK_def graphOK_empty split: if_splits option.splits FileContent.splits)

lemma storeOK_call:
  assumes "graphCall s s'" and "storeOK s"
  shows "storeOK s'"
  using assms(1)
proof (cases rule: pending_cases)
  case (2 q f)
  with assms(2) pending_ok [of s q] have q: "graphOK (js_data q)" "diskOK (js_disk q)" by (auto simp: storeOK_def)
  from saveSteps_ok [OF saveSteps_last q, of f] q(1) 2(2) show ?thesis by (simp add: storeOK_def saveStore_def)
next
  case (3 statFails)
  with assms(2) open_ok show ?thesis by (auto simp: storeOK_def)
next
  case (4 q disk f statFails)
  with assms(2) pending_ok [of s q] have q: "graphOK (js_data q)" "diskOK (js_disk q)" by (auto simp: storeOK_def)
  from open_ok [OF 4(3) saveSteps_ok [OF 4(2) q]] show ?thesis .
qed (use assms(2) in simp)

lemma graphStore_ok: "graphStore s \<Longrightarrow> storeOK s"
  unfolding graphStore_def
proof (induction rule: rtranclp_induct)
  case base
  show ?case by (simp add: storeOK_def diskOK_def newDisk_def graphOK_empty)
qed (rule storeOK_call)

section \<open>The answers\<close>

lemma sort_key_sorted: "map key (sort_key key xs) = sort (map key xs)"
proof -
  have "sort (map key xs) = map key (sort_key key xs)"
    by (rule properties_for_sort) (simp_all only: mset_map mset_sort sorted_sort_key)
  then show ?thesis by simp
qed

text \<open>Looking ids up in a keyed map gives entries with just these keys.\<close>

lemma map_filter_keys:
  assumes "\<And>i v. m i = Some v \<Longrightarrow> key v = i"
  shows "map key (List.map_filter m ids) = filter (\<lambda>i. m i \<noteq> None) ids"
proof -
  have "key (the (m i)) = i" if "m i \<noteq> None" for i using that assms by auto
  then show ?thesis unfolding List.map_filter_def map_map by (intro map_idI) simp
qed

lemma set_map_filter_some: "set (List.map_filter m ids) = {v. \<exists>i\<in>set ids. m i = Some v}"
proof (intro set_eqI iffI)
  fix v assume "v \<in> set (List.map_filter m ids)"
  then obtain i where "i \<in> set ids" "m i \<noteq> None" "v = the (m i)" by (auto simp: List.map_filter_def)
  then show "v \<in> {v. \<exists>i\<in>set ids. m i = Some v}" by auto
next
  fix v assume "v \<in> {v. \<exists>i\<in>set ids. m i = Some v}"
  then obtain i where "i \<in> set ids" "m i = Some v" by blast
  then show "v \<in> set (List.map_filter m ids)" by (auto simp: List.map_filter_def intro!: image_eqI [of _ _ i])
qed

lemma keyed_value: "keyed key m \<Longrightarrow> map_of m i = Some v \<Longrightarrow> key v = i"
  unfolding keyed_def by (metis case_prodD map_of_SomeD)

text \<open>The stored nodes with these ids, in the order of their ids.\<close>

definition storedNodes :: "'p JSONStore \<Rightarrow> string set \<Rightarrow> 'p GNode list" where
  "storedNodes s ids = map (\<lambda>i. the (map_of (gd_nodes (js_data s)) i))
     (sorted_list_of_set {i \<in> ids. map_of (gd_nodes (js_data s)) i \<noteq> None})"

lemma nodesOf_stored:
  assumes "storeOK s" and "lawful r" and "distinct visited"
  shows "nodesOf r root visited s = storedNodes s (set visited - {root})"
proof -
  let ?m = "map_of (gd_nodes (js_data s))"
  define xs where "xs = od_ids r (filter (\<lambda>i. i \<noteq> root) visited)"
  define ns where "ns = List.map_filter ?m xs"
  define ids where "ids = filter (\<lambda>i. ?m i \<noteq> None) xs"
  have perm: "mset xs = mset (filter (\<lambda>i. i \<noteq> root) visited)" using assms(2) by (simp add: xs_def lawful_def)
  then have "set xs = set visited - {root}" by (drule_tac mset_eq_setD) auto
  then have set_ids: "set ids = {i \<in> set visited - {root}. ?m i \<noteq> None}" by (simp add: ids_def)
  have "distinct xs" using perm assms(3) mset_eq_imp_distinct_iff [OF perm] by simp
  then have "remdups ids = ids" by (simp add: ids_def)
  then have ids: "sort ids = sorted_list_of_set {i \<in> set visited - {root}. ?m i \<noteq> None}"
    using sorted_list_of_set_sort_remdups [of ids] by (simp only: set_ids)
  have key: "?m i = Some n \<Longrightarrow> gn_NodeID n = i" for i n
    using assms(1) keyed_value by (auto simp: storeOK_def graphOK_def)
  have stored: "the (?m (gn_NodeID n)) = n" if mem: "n \<in> set ns" for n
  proof -
    obtain i where "?m i = Some n" using mem unfolding ns_def set_map_filter_some by blast
    with key [OF this] show ?thesis by simp
  qed
  have "map gn_NodeID (sort_key gn_NodeID ns) = sort ids"
    unfolding sort_key_sorted ns_def ids_def using map_filter_keys [of ?m gn_NodeID xs] key by simp
  then have "map (\<lambda>i. the (?m i)) (sort ids) = map (\<lambda>n. the (?m (gn_NodeID n))) (sort_key gn_NodeID ns)"
    by (metis (no_types, lifting) comp_apply list.map_comp map_cong)
  also have "\<dots> = sort_key gn_NodeID ns" using stored by (intro map_idI) simp
  finally show ?thesis by (simp add: nodesOf_def storedNodes_def ns_def xs_def ids)
qed

text \<open>
  C19: \<open>Dependents\<close>.  On every store the clients can reach, for a well-formed id and a depth of 1 to 5, the
  answer is the list, sorted by id, of the stored nodes other than the root that at most that many edges
  lead to from the root, in whatever order the maps are iterated; any other id or depth is refused.
\<close>

theorem dependents_within_hops:
  assumes "graphStore s" and "lawful r"
  shows "dependents r i depth s =
    (if \<not> digestID i then Inl ErrInvalidNodeID
     else if depth < 1 \<or> depth > 5 then Inl ErrDepthOutOfRange
     else Inr (storedNodes s ({j. \<exists>k\<le>nat depth. (i, j) \<in> edgeRel s ^^ k} - {i})))"
proof -
  note v = out_visits [OF assms(2), of s "nat depth" i]
  show ?thesis
    using nodesOf_stored [OF graphStore_ok [OF assms(1)] assms(2) v(2), of i] v(1)
    by (simp add: dependents_def validateNodeID_def validateDepth_def within_def)
qed

text \<open>The nodes at most \<open>d\<close> edges away, along either direction.\<close>

definition near :: "'p JSONStore \<Rightarrow> nat \<Rightarrow> string \<Rightarrow> string set" where
  "near s d i = {b. \<exists>k\<le>d. (i, b) \<in> (edgeRel s \<union> (edgeRel s)\<inverse>) ^^ k}"

text \<open>
  C35: \<open>BlastRadius\<close>.  The nodes are the stored ones within that many steps along edges in either direction;
  the edges are exactly, each once, those with an end within one step less; so a node is in the blast
  radius of another exactly when the other is in its own.
\<close>

theorem blast_radius_within_hops:
  assumes "graphStore s" and "lawful r" and "digestID i" and "1 \<le> depth" and "depth \<le> 5"
  shows "\<exists>res. blastRadius r i depth s = Inr res
     \<and> br_Nodes res = storedNodes s (near s (nat depth) i - {i})
     \<and> set (br_Edges res) = {e \<in> set (storedEdges s). {ge_FromNodeID e, ge_ToNodeID e} \<inter> near s (nat depth - 1) i \<noteq> {}}
     \<and> distinct (br_Edges res)
     \<and> (\<forall>j. j \<in> near s (nat depth) i \<longleftrightarrow> i \<in> near s (nat depth) j)"
proof -
  let ?R = "edgeRel s \<union> (edgeRel s)\<inverse>" and ?m = "map_of (gd_edges (js_data s))"
  have near: "near s d j = within ?R d j" for d j by (simp add: near_def within_def)
  obtain h where h: "nat depth = Suc h" using assms(4) by (cases "nat depth") auto
  obtain visited edges where loop: "hopLoop visitBoth (\<lambda>k. od_edges r k (storedEdges s)) 0 (Suc h) [i] ([i], []) = (visited, edges)"
    by fastforce
  note v = both_visits [OF assms(2) loop]
  have ok: "storeOK s" by (rule graphStore_ok [OF assms(1)])
  have es: "keyed ge_EdgeID (gd_edges (js_data s))" using ok by (simp add: storeOK_def graphOK_def)
  then have stored: "e \<in> set (storedEdges s) \<longleftrightarrow> ?m (ge_EdgeID e) = Some e" for e
    by (auto simp: storedEdges_def keyed_def dest: map_of_SomeD intro!: image_eqI)
  have key: "?m i = Some e \<Longrightarrow> ge_EdgeID e = i" for i e using keyed_value [OF es] .
  have perm: "mset (od_ids r edges) = mset edges" using assms(2) by (simp add: lawful_def)
  define E where "E = List.map_filter ?m (od_ids r edges)"
  have "distinct (od_ids r edges)" using v(4) mset_eq_imp_distinct_iff [OF perm] by simp
  then have "distinct (map ge_EdgeID E)"
    unfolding E_def using map_filter_keys [of ?m ge_EdgeID "od_ids r edges"] key by simp
  then have dE: "distinct E" by (simp add: distinct_map)
  have "set E = {e. \<exists>i\<in>set edges. ?m i = Some e}" unfolding E_def set_map_filter_some mset_eq_setD [OF perm] ..
  also have "\<dots> = {e \<in> set (storedEdges s). {ge_FromNodeID e, ge_ToNodeID e} \<inter> within ?R h i \<noteq> {}}"
    unfolding v(3)
  proof (intro set_eqI iffI)
    let ?near = "\<lambda>e. {ge_FromNodeID e, ge_ToNodeID e} \<inter> within ?R h i \<noteq> {}"
    fix e assume "e \<in> {e. \<exists>i\<in>{ge_EdgeID e | e. e \<in> set (storedEdges s) \<and> ?near e}. ?m i = Some e}"
    then obtain e' where "e' \<in> set (storedEdges s)" "?near e'" "?m (ge_EdgeID e') = Some e" by blast
    with stored [of e'] show "e \<in> {e \<in> set (storedEdges s). ?near e}" by simp
  qed (use stored in blast)
  finally have sE: "set E = {e \<in> set (storedEdges s). {ge_FromNodeID e, ge_ToNodeID e} \<inter> within ?R h i \<noteq> {}}" .
  have "sym ?R" by (auto simp: sym_def)
  then have "j \<in> near s (nat depth) i \<longleftrightarrow> i \<in> near s (nat depth) j" for j unfolding near by (rule within_sym)
  with sE dE show ?thesis
    using nodesOf_stored [OF ok assms(2) v(2), of i] loop h assms(3-5) v(1) near [of "Suc h" i] near [of h i]
    by (simp add: blastRadius_def validateNodeID_def validateDepth_def E_def)
qed

text \<open>\<open>DirectCallers\<close>: each stored source of a call or import edge to the node, once.\<close>

definition callSources :: "string \<Rightarrow> GEdge list \<Rightarrow> string set" where
  "callSources i es = {ge_FromNodeID e | e. e \<in> set es \<and> ge_ToNodeID e = i \<and> ge_Label e \<in> set callLabels}"

lemma caller_pass:
  assumes "fold (callerStep s i) es (seen, List.map_filter (map_of (gd_nodes (js_data s))) seen) = (seen', callers)"
    and "distinct seen"
  shows "callers = List.map_filter (map_of (gd_nodes (js_data s))) seen' \<and> set seen' = set seen \<union> callSources i es \<and> distinct seen'"
  using assms
proof (induction es arbitrary: seen)
  case (Cons e es)
  let ?m = "map_of (gd_nodes (js_data s))"
  show ?case
  proof (cases "ge_ToNodeID e \<noteq> i \<or> ge_Label e \<notin> set callLabels \<or> ge_FromNodeID e \<in> set seen")
    case True
    with Cons.prems Cons.IH [of seen] show ?thesis by (auto simp: callerStep_def callSources_def)
  next
    case False
    then have "callerStep s i e (seen, List.map_filter ?m seen)
        = (seen @ [ge_FromNodeID e], List.map_filter ?m (seen @ [ge_FromNodeID e]))"
      by (auto simp: callerStep_def List.map_filter_def split: option.split)
    with Cons.prems Cons.IH [of "seen @ [ge_FromNodeID e]"] False show ?thesis
      by (auto simp: callSources_def)
  qed
qed (simp add: callSources_def)

lemma direct_callers_are_sources:
  assumes "graphStore s" and "lawful r" and "digestID i"
  shows "\<exists>ns. directCallers r i s = Inr ns \<and> distinct (map gn_NodeID ns)
    \<and> set ns = {n. \<exists>j\<in>callSources i (storedEdges s). map_of (gd_nodes (js_data s)) j = Some n}"
proof -
  let ?m = "map_of (gd_nodes (js_data s))"
  obtain seen callers where loop: "fold (callerStep s i) (od_edges r 0 (storedEdges s)) ([], []) = (seen, callers)" by fastforce
  have "set (od_edges r 0 (storedEdges s)) = set (storedEdges s)" using assms(2) by (metis lawful_def mset_eq_setD)
  then have "callSources i (od_edges r 0 (storedEdges s)) = callSources i (storedEdges s)" by (simp add: callSources_def)
  then have c: "callers = List.map_filter ?m seen" "set seen = callSources i (storedEdges s)" "distinct seen"
    using caller_pass [of s i "od_edges r 0 (storedEdges s)" "[]" seen callers] loop by (simp_all add: List.map_filter_def)
  have key: "?m i = Some n \<Longrightarrow> gn_NodeID n = i" for i n
    using graphStore_ok [OF assms(1)] keyed_value by (auto simp: storeOK_def graphOK_def)
  have "distinct (map gn_NodeID callers)" unfolding c(1) using map_filter_keys [of ?m gn_NodeID seen] key c(3) by simp
  with c assms(3) show ?thesis
    by (simp add: directCallers_def validateNodeID_def loop set_map_filter_some)
qed

section \<open>The file\<close>

definition savedGraph :: "'p Disk \<Rightarrow> 'p GraphData" where
  "savedGraph disk = (case dk_path disk of Some (Whole d) \<Rightarrow> d | _ \<Rightarrow> emptyGraph)"

lemma open_saved: "diskOK disk \<Longrightarrow> newJSONStore False disk = Inr \<lparr>js_data = savedGraph disk, js_disk = disk\<rparr>"
  by (auto simp: newJSONStore_def savedGraph_def diskOK_def split: option.splits FileContent.splits)

lemma savedGraph_step:
  "disk' \<in> set (saveSteps f d disk) \<Longrightarrow> savedGraph disk' = savedGraph disk \<or> f = NoFault \<and> savedGraph disk' = d"
  using saveSteps_path [of disk' f d disk] by (auto simp: savedGraph_def)

lemma savedGraph_last: "savedGraph (last (saveSteps f d disk)) = (if f = NoFault then d else savedGraph disk)"
  by (cases f) (simp_all add: saveSteps_def Let_def savedGraph_def)

text \<open>
  C34: a write is atomic on disk and only there.  Whenever the process dies during a write, opening the
  store again succeeds and shows the graph before the write or after it; a write that returns has replaced
  the file exactly if it reports no error, but the graph in memory has changed in either case.  (The file
  holds the graph itself: what JSON does to the types of property values is not modelled, and reopening is
  taken to examine the file without an error.)
\<close>

theorem write_is_atomic:
  assumes "graphStore s" and "pending s q"
  shows "(\<forall>disk\<in>set (saveSteps f (js_data q) (js_disk q)).
        \<exists>s'. newJSONStore False disk = Inr s' \<and> js_data s' \<in> {js_data q, savedGraph (js_disk s)})
    \<and> (\<exists>err q'. saveStore f q = (err, q') \<and> js_data q' = js_data q
        \<and> savedGraph (js_disk q') = (if err = None then js_data q else savedGraph (js_disk s)))"
proof -
  have "graphOK (js_data q)" "diskOK (js_disk q)" and disk: "js_disk q = js_disk s"
    using graphStore_ok [OF assms(1)] pending_ok [OF assms(2)] by (auto simp: storeOK_def)
  then have "\<exists>s'. newJSONStore False disk' = Inr s' \<and> js_data s' \<in> {js_data q, savedGraph (js_disk s)}"
    if step: "disk' \<in> set (saveSteps f (js_data q) (js_disk q))" for disk'
    using open_saved [OF saveSteps_ok [OF step]] savedGraph_step [OF step] by auto
  then show ?thesis by (simp add: saveStore_def savedGraph_last disk)
qed

section \<open>Two nodes and an edge\<close>

definition sampleID :: "char \<Rightarrow> string" where
  "sampleID c = replicate 64 c"

definition sampleNode :: "char \<Rightarrow> unit GNode" where
  "sampleNode c = \<lparr>gn_NodeID = sampleID c, gn_RepoID = ''repo'', gn_QualifiedName = [c], gn_Kind = ''CLASS'',
     gn_SourceRef = [], gn_Confidence = ''exact'', gn_PhasePopulated = 1, gn_Origin = ''first_party'',
     gn_ProvenanceKind = ''file'', gn_Properties = []\<rparr>"

definition sampleEdge :: GEdge where
  "sampleEdge = \<lparr>ge_EdgeID = sampleID (CHR ''e''), ge_Label = ''IMPORTS'', ge_FromNodeID = sampleID (CHR ''a''),
     ge_ToNodeID = sampleID (CHR ''b''), ge_Confidence = ''exact'', ge_SourceRef = [], ge_Tier = 1, ge_PhasePopulated = 1,
     ge_CompletenessCaveat = ''static''\<rparr>"

definition sampleStore :: "unit JSONStore" where
  "sampleStore = snd (bulkLoad NoFault [sampleNode (CHR ''a''), sampleNode (CHR ''b'')] [sampleEdge]
     \<lparr>js_data = emptyGraph, js_disk = newDisk\<rparr>)"

definition plainOrders :: Orders where
  "plainOrders = \<lparr>od_edges = (\<lambda>k xs. xs), od_ids = (\<lambda>xs. xs)\<rparr>"

lemma sampleStore_reachable: "graphStore sampleStore"
proof -
  have "graphCall \<lparr>js_data = emptyGraph, js_disk = newDisk\<rparr> sampleStore"
    unfolding sampleStore_def by (rule gcBulk) (rule prod.collapse [symmetric])
  then show ?thesis unfolding graphStore_def by blast
qed

lemma plainOrders_lawful: "lawful plainOrders"
  by (simp add: lawful_def plainOrders_def)

theorem dependents_within_hops_witness:
  "dependents plainOrders (sampleID (CHR ''a'')) 2 sampleStore = Inr (storedNodes sampleStore
     ({j. \<exists>k\<le>2. (sampleID (CHR ''a''), j) \<in> edgeRel sampleStore ^^ k} - {sampleID (CHR ''a'')}))
   \<and> dependents plainOrders (sampleID (CHR ''a'')) 2 sampleStore = Inr [sampleNode (CHR ''b'')]"
proof -
  have "digestID (sampleID (CHR ''a''))" by code_simp
  moreover have "dependents plainOrders (sampleID (CHR ''a'')) 2 sampleStore = Inr [sampleNode (CHR ''b'')]" by code_simp
  ultimately show ?thesis
    using dependents_within_hops [OF sampleStore_reachable plainOrders_lawful, of "sampleID (CHR ''a'')" 2] by simp
qed

theorem blast_radius_within_hops_witness:
  "\<exists>res. blastRadius plainOrders (sampleID (CHR ''b'')) 1 sampleStore = Inr res
     \<and> set (br_Edges res) = {sampleEdge} \<and> distinct (br_Edges res)"
proof -
  have d: "digestID (sampleID (CHR ''b''))" by code_simp
  have "(1::int) \<le> 1" "(1::int) \<le> 5" by simp_all
  from blast_radius_within_hops [OF sampleStore_reachable plainOrders_lawful d this]
  obtain res where res: "blastRadius plainOrders (sampleID (CHR ''b'')) 1 sampleStore = Inr res"
      "set (br_Edges res) = {e \<in> set (storedEdges sampleStore). {ge_FromNodeID e, ge_ToNodeID e}
        \<inter> near sampleStore (nat 1 - 1) (sampleID (CHR ''b'')) \<noteq> {}}"
      "distinct (br_Edges res)"
    by blast
  have "storedEdges sampleStore = [sampleEdge]" by code_simp
  moreover have "ge_ToNodeID sampleEdge = sampleID (CHR ''b'')" by (simp add: sampleEdge_def)
  ultimately have "set (br_Edges res) = {sampleEdge}" unfolding res(2) by (auto simp: near_def)
  with res(1,3) show ?thesis by blast
qed

theorem write_is_atomic_witness:
  "\<exists>q'. saveStore RenameFault (putNode (sampleNode (CHR ''c'')) sampleStore) = (Some (ErrSave RenameFault), q')
     \<and> savedGraph (js_disk q') = savedGraph (js_disk sampleStore)
     \<and> getNode (sampleID (CHR ''c'')) q' = Inr (sampleNode (CHR ''c''))"
proof -
  have "validateNodeID (gn_NodeID (sampleNode (CHR ''c''))) = None" by code_simp
  then have "pending sampleStore (putNode (sampleNode (CHR ''c'')) sampleStore)" by (rule pdNode)
  from write_is_atomic [OF sampleStore_reachable this, of RenameFault]
  obtain err q' where q: "saveStore RenameFault (putNode (sampleNode (CHR ''c'')) sampleStore) = (err, q')"
    "savedGraph (js_disk q') = (if err = None then js_data (putNode (sampleNode (CHR ''c'')) sampleStore) else savedGraph (js_disk sampleStore))"
    by blast
  have "err = Some (ErrSave RenameFault)" using q(1) by (simp add: saveStore_def)
  moreover have "getNode (sampleID (CHR ''c'')) (snd (saveStore RenameFault (putNode (sampleNode (CHR ''c'')) sampleStore)))
    = Inr (sampleNode (CHR ''c''))" by code_simp
  ultimately show ?thesis using q by auto
qed

end
