(* ===== verification/Go_Sha256.thy ===== *)
theory Go_Sha256
  imports Go_Base "HOL-Library.Word"
begin

text \<open>
  \<open>crypto/sha256\<close> and \<open>encoding/hex\<close>: the hash of a byte string as FIPS 180-4 defines it, on 32-bit words,
  in lower-case hexadecimal.  The theorems of the development use it as a function and nothing else.
\<close>

unbundle bit_operations_syntax

type_synonym word32 = "32 word"

text \<open>The constants of the standard: the first 32 bits of the fractional parts of the cube roots of the
  first 64 primes, and of the square roots of the first eight.\<close>

definition firstPrimes :: "nat \<Rightarrow> nat list" where
  "firstPrimes n = take n (filter (\<lambda>p. list_all (\<lambda>d. p mod d \<noteq> 0) [2..<p]) [2..<312])"

text \<open>The largest \<open>r\<close> below \<open>2 ^ 40\<close> whose \<open>k\<close>-th power is at most \<open>n\<close>, from its highest bit down.\<close>

definition floorRoot :: "nat \<Rightarrow> nat \<Rightarrow> nat" where
  "floorRoot k n = foldl (\<lambda>r i. if (r + 2 ^ i) ^ k \<le> n then r + 2 ^ i else r) 0 (rev [0..<40])"

definition rootBits :: "nat \<Rightarrow> nat \<Rightarrow> word32" where
  "rootBits k p = word_of_nat (floorRoot k (p * 2 ^ (32 * k)))"

definition roundConstants :: "word32 list" where
  "roundConstants = map (rootBits 3) (firstPrimes 64)"

definition initialHash :: "word32 list" where
  "initialHash = map (rootBits 2) (firstPrimes 8)"

definition rotr :: "nat \<Rightarrow> word32 \<Rightarrow> word32" where
  "rotr n w = (drop_bit n w) OR (push_bit (32 - n) w)"

text \<open>The padded message, as big-endian words.\<close>

definition padded :: "string \<Rightarrow> nat list" where
  "padded s = map byte s @ [128] @ replicate ((119 - length s mod 64) mod 64) 0
     @ map (\<lambda>i. (8 * length s) div 256 ^ (7 - i) mod 256) [0..<8]"

fun wordsOf :: "nat list \<Rightarrow> word32 list" where
  "wordsOf (a # b # c # d # bs) = word_of_nat (((a * 256 + b) * 256 + c) * 256 + d) # wordsOf bs"
| "wordsOf _ = []"

text \<open>The message schedule, the latest word first.\<close>

fun schedule :: "nat \<Rightarrow> word32 list \<Rightarrow> word32 list" where
  "schedule 0 ws = ws"
| "schedule (Suc n) ws =
     (let w15 = ws ! 14; w2 = ws ! 1;
          s0 = rotr 7 w15 XOR rotr 18 w15 XOR drop_bit 3 w15;
          s1 = rotr 17 w2 XOR rotr 19 w2 XOR drop_bit 10 w2 in
      schedule n ((ws ! 15 + s0 + ws ! 6 + s1) # ws))"

definition roundStep :: "word32 \<times> word32 \<Rightarrow> word32 list \<Rightarrow> word32 list" where
  "roundStep kw v = (case v of [a, b, c, d, e, f, g, h] \<Rightarrow>
       let t1 = h + (rotr 6 e XOR rotr 11 e XOR rotr 25 e) + ((e AND f) XOR (NOT e AND g)) + fst kw + snd kw;
           t2 = (rotr 2 a XOR rotr 13 a XOR rotr 22 a) + ((a AND b) XOR (a AND c) XOR (b AND c)) in
       [t1 + t2, a, b, c, d + t1, e, f, g]
     | _ \<Rightarrow> v)"

definition compressBlock :: "word32 list \<Rightarrow> word32 list \<Rightarrow> word32 list" where
  "compressBlock block v = map2 (+) v (fold roundStep (zip roundConstants (rev (schedule 48 (rev block)))) v)"

fun chunks :: "nat \<Rightarrow> 'a list \<Rightarrow> 'a list list" where
  "chunks 0 xs = []"
| "chunks (Suc n) xs = take 16 xs # chunks n (drop 16 xs)"

definition hexByte :: "nat \<Rightarrow> string" where
  "hexByte n = [hexDigit (n div 16), hexDigit (n mod 16)]"

definition hexWord :: "word32 \<Rightarrow> string" where
  "hexWord w = concat (map (\<lambda>i. hexByte (unat w div 256 ^ (3 - i) mod 256)) [0..<4])"

definition sha256 :: "string \<Rightarrow> string" where
  "sha256 s = (let ws = wordsOf (padded s) in
     concat (map hexWord (fold compressBlock (chunks (length ws div 16) ws) initialHash)))"

lemma length_hexWord [simp]: "length (hexWord w) = 8"
  by (simp add: hexWord_def hexByte_def length_concat comp_def sum_list_triv)

lemma length_roundStep [simp]: "length (roundStep kw v) = length v"
  by (auto simp: roundStep_def Let_def split: list.split)

lemma length_rounds: "length (fold roundStep xs v) = length v"
  by (induction xs arbitrary: v) simp_all

lemma length_compressed: "length (fold compressBlock bs v) = length v"
  by (induction bs arbitrary: v) (simp_all add: compressBlock_def length_rounds)

lemma length_initialHash: "length initialHash = 8"
proof -
  define P where "P = (\<lambda>p::nat. list_all (\<lambda>d. p mod d \<noteq> 0) [2..<p])"
  have eight: "length (filter P [2..<20]) = 8" unfolding P_def by code_simp
  have "[i..<k] = [i..<j] @ [j..<k]" if "i \<le> j" "j \<le> k" for i j k :: nat
    using upt_add_eq_append [OF that(1), of "k - j"] that(2) by simp
  from this [of 2 20 312] have "[2..<312] = [2..<20] @ [20..<(312::nat)]" by (simp del: upt_rec_numeral)
  then have "firstPrimes 8 = take 8 (filter P [2..<20] @ filter P [20..<312])"
    by (simp only: firstPrimes_def P_def filter_append)
  with eight show ?thesis by (simp del: upt_rec_numeral add: initialHash_def)
qed

lemma sha256_length: "length (sha256 s) = 64"
  by (simp add: sha256_def Let_def length_concat comp_def sum_list_triv length_compressed length_initialHash)

lemma sha256_not_empty [simp]: "sha256 s \<noteq> []"
  using sha256_length [of s] by auto

lemma hexDigit_visible: "n < 16 \<Longrightarrow> \<not> isSpaceByte (hexDigit n)"
  by (auto simp: hexDigit_def isSpaceByte_def byte_def)

lemma sha256_visible: "trimSpace (sha256 s) \<noteq> []"
proof -
  have word: "\<not> isSpaceByte c" if "c \<in> set (hexWord w)" for c w
    using that by (auto simp: hexWord_def hexByte_def hexDigit_visible less_mult_imp_div_less)
  have "\<not> isSpaceByte (hd (sha256 s))"
    using hd_in_set [OF sha256_not_empty, of s] by (auto simp: sha256_def Let_def dest: word)
  with hd_in_set [OF sha256_not_empty, of s] show ?thesis by (rule trimSpace_nonempty)
qed

end
