(* ===== verification/Dif_Anchors.thy ===== *)
theory Dif_Anchors
  imports Go_Sha256
begin

text \<open>
  Canonical source references and the resolver of source anchors of the document-intelligence program,
  \<open>dif/code/libs/sourceanchors/sourceanchors.go\<close>.  The files are a parameter \<open>fs\<close>, from paths to what the
  disk holds there; \<open>encoding/json\<close> is the parameter \<open>Codec\<close>, what decoding and printing give.  A panic is
  a value (\<open>FetchPanic\<close>, or \<open>None\<close> for a resolution).
\<close>

section \<open>Source references\<close>

definition TypeMarkdown :: string where "TypeMarkdown = ''md''"
definition TypeText :: string where "TypeText = ''txt''"
definition TypeDOCX :: string where "TypeDOCX = ''docx''"
definition TypeJSON :: string where "TypeJSON = ''json''"

lemmas anchor_types = TypeMarkdown_def TypeText_def TypeDOCX_def TypeJSON_def

record SourceRef =
  sr_CorpusID :: string
  sr_DocumentVersionID :: string
  sr_AnchorType :: string
  sr_Payload :: string

definition parseSourceRef :: "string \<Rightarrow> SourceRef option" where
  "parseSourceRef value0 =
     (case cutByte (CHR ''@'') (trimSpace value0) of
        None \<Rightarrow> None
      | Some (corpus, rest) \<Rightarrow>
          if corpus = [] \<or> rest = [] then None
          else (case cutByte (CHR '':'') rest of
              None \<Rightarrow> None
            | Some (version, rest1) \<Rightarrow> (case cutByte (CHR '':'') rest1 of
                None \<Rightarrow> None
              | Some (kind, payload) \<Rightarrow>
                  if version = [] \<or> kind = [] \<or> payload = [] then None
                  else Some \<lparr>sr_CorpusID = corpus, sr_DocumentVersionID = version, sr_AnchorType = kind, sr_Payload = payload\<rparr>)))"

definition sourceRefString :: "SourceRef \<Rightarrow> string" where
  "sourceRefString r = trimSpace (sr_CorpusID r) @ CHR ''@'' # trimSpace (sr_DocumentVersionID r)
     @ CHR '':'' # trimSpace (sr_AnchorType r) @ CHR '':'' # trimSpace (sr_Payload r)"

definition isSupported :: "string \<Rightarrow> bool" where
  "isSupported kind \<longleftrightarrow> kind \<in> {TypeMarkdown, TypeText, TypeDOCX, TypeJSON}"

section \<open>Payloads\<close>

record PayloadShape =
  ps_path :: string
  ps_lineStart :: int
  ps_lineEnd :: int
  ps_paragraphIndex :: int
  ps_jsonPath :: string

text \<open>The text before and after the last occurrence of a byte, and of two bytes.\<close>

fun cutLast :: "char \<Rightarrow> string \<Rightarrow> (string \<times> string) option" where
  "cutLast c [] = None"
| "cutLast c (x # xs) = (case cutLast c xs of
       Some (l, r) \<Rightarrow> Some (x # l, r)
     | None \<Rightarrow> if x = c then Some ([], xs) else None)"

fun cutLastPair :: "char \<Rightarrow> char \<Rightarrow> string \<Rightarrow> (string \<times> string) option" where
  "cutLastPair c d [] = None"
| "cutLastPair c d (x # xs) = (case cutLastPair c d xs of
       Some (l, r) \<Rightarrow> Some (x # l, r)
     | None \<Rightarrow> if x = c \<and> xs \<noteq> [] \<and> hd xs = d then Some ([], xs) else None)"

text \<open>\<open>Atoi\<close> on digits with its error ignored: beyond 64 bits it gives the largest \<open>int\<close>.\<close>

definition atoiDigits :: "string \<Rightarrow> int" where
  "atoiDigits ds = int (min (digitsVal ds) (2 ^ 63 - 1))"

text \<open>\<open>[1-9][0-9]*\<close> and the three patterns; a dot matches no line break.\<close>

definition positiveDigits :: "string \<Rightarrow> bool" where
  "positiveDigits ds \<longleftrightarrow> ds \<noteq> [] \<and> list_all isDigit ds \<and> hd ds \<noteq> CHR ''0''"

definition noBreak :: "string \<Rightarrow> bool" where
  "noBreak s \<longleftrightarrow> CHR 0x0A \<notin> set s"

definition linePayload :: "string \<Rightarrow> (string \<times> string \<times> string) option" where
  "linePayload payload = (case cutLast (CHR ''#'') payload of
       Some (path, frag) \<Rightarrow>
         if path \<noteq> [] \<and> noBreak path \<and> hasPrefix frag ''L''
         then (case cutByte (CHR ''-'') (drop 1 frag) of
             Some (a, b) \<Rightarrow>
               if positiveDigits a \<and> hasPrefix b ''L'' \<and> positiveDigits (drop 1 b) then Some (path, a, drop 1 b) else None
           | None \<Rightarrow> None)
         else None
     | None \<Rightarrow> None)"

definition docxPayload :: "string \<Rightarrow> (string \<times> string) option" where
  "docxPayload payload = (case cutLast (CHR ''#'') payload of
       Some (path, frag) \<Rightarrow>
         if path \<noteq> [] \<and> noBreak path \<and> hasPrefix frag ''p'' \<and> drop 1 frag \<noteq> [] \<and> list_all isDigit (drop 1 frag)
         then Some (path, drop 1 frag) else None
     | None \<Rightarrow> None)"

definition jsonPayload :: "string \<Rightarrow> (string \<times> string) option" where
  "jsonPayload payload = (if \<not> noBreak payload then None
     else case cutLastPair (CHR ''#'') (CHR ''$'') payload of
         Some (path, rest) \<Rightarrow> if path = [] then None else Some (path, rest)
       | None \<Rightarrow> None)"

definition normalizePath :: "string \<Rightarrow> string" where
  "normalizePath path = trimSpace path"

definition noShape :: PayloadShape where
  "noShape = \<lparr>ps_path = [], ps_lineStart = 0, ps_lineEnd = 0, ps_paragraphIndex = 0, ps_jsonPath = []\<rparr>"

definition parsePayload :: "string \<Rightarrow> string \<Rightarrow> PayloadShape option" where
  "parsePayload kind payload =
     (if kind = TypeMarkdown \<or> kind = TypeText
      then (case linePayload payload of
          None \<Rightarrow> None
        | Some (path, a, b) \<Rightarrow> Some (noShape\<lparr>ps_path := normalizePath path, ps_lineStart := atoiDigits a, ps_lineEnd := atoiDigits b\<rparr>))
      else if kind = TypeDOCX
      then (case docxPayload payload of
          None \<Rightarrow> None
        | Some (path, p) \<Rightarrow> Some (noShape\<lparr>ps_path := normalizePath path, ps_paragraphIndex := atoiDigits p\<rparr>))
      else if kind = TypeJSON
      then (case jsonPayload payload of
          None \<Rightarrow> None
        | Some (path, j) \<Rightarrow> Some (noShape\<lparr>ps_path := normalizePath path, ps_jsonPath := j\<rparr>))
      else None)"

text \<open>The loop over the four types: the first one whose pattern fits.\<close>

definition normalizePayload :: "string \<Rightarrow> string" where
  "normalizePayload payload =
     (let s = trimSpace payload in
      case parsePayload TypeMarkdown s of
        Some q \<Rightarrow> ps_path q @ ''#L'' @ showInt (ps_lineStart q) @ ''-L'' @ showInt (ps_lineEnd q)
      | None \<Rightarrow> (case parsePayload TypeDOCX s of
          Some q \<Rightarrow> ps_path q @ ''#p'' @ showInt (ps_paragraphIndex q)
        | None \<Rightarrow> (case parsePayload TypeJSON s of
            Some q \<Rightarrow> ps_path q @ ''#'' @ trimSpace (ps_jsonPath q)
          | None \<Rightarrow> normalizePath s)))"

definition computeAnchorID :: "string \<Rightarrow> string \<Rightarrow> string \<Rightarrow> string \<Rightarrow> string" where
  "computeAnchorID corpus version kind payload =
     sha256 (strJoin [CHR 0x00] [trimSpace corpus, trimSpace version, trimSpace kind, normalizePayload payload])"

definition contentHash :: "string \<Rightarrow> string" where
  "contentHash excerpt = ''sha256:'' @ sha256 excerpt"

section \<open>The catalog\<close>

record Anchor =
  an_AnchorID :: string
  an_CorpusID :: string
  an_DocumentID :: string
  an_DocumentVersionID :: string
  an_AnchorType :: string
  an_SourceRef :: string
  an_Path :: string
  an_HeadingPath :: string
  an_LineStart :: int
  an_LineEnd :: int
  an_ParagraphIndex :: int
  an_JSONPath :: string
  an_ContentHash :: string
  an_Caveats :: "string list"

record DocumentVersion =
  dv_DocumentVersionID :: string
  dv_Sources :: "(string \<times> string) list"

record AnchorCatalog =
  ac_AnchorsByID :: "string \<rightharpoonup> Anchor"
  ac_AnchorsBySourceRef :: "string \<rightharpoonup> Anchor"
  ac_DocumentVersions :: "string \<rightharpoonup> DocumentVersion"

datatype AnchorError = BadSourceRef string | BadAnchorType string | NoVersionID | NoSources string | BlankSource string

definition emptyCatalog :: AnchorCatalog where
  "emptyCatalog = \<lparr>ac_AnchorsByID = Map.empty, ac_AnchorsBySourceRef = Map.empty, ac_DocumentVersions = Map.empty\<rparr>"

definition registerAnchor :: "Anchor \<Rightarrow> AnchorCatalog \<Rightarrow> AnchorError + AnchorCatalog" where
  "registerAnchor a c = (case parseSourceRef (an_SourceRef a) of
       None \<Rightarrow> Inl (BadSourceRef (an_SourceRef a))
     | Some r \<Rightarrow>
         if \<not> isSupported (sr_AnchorType r) then Inl (BadAnchorType (sr_AnchorType r))
         else let a1 = (if an_AnchorID a = []
                  then a\<lparr>an_AnchorID := computeAnchorID (sr_CorpusID r) (sr_DocumentVersionID r) (sr_AnchorType r) (sr_Payload r)\<rparr> else a);
                a2 = a1\<lparr>an_CorpusID := sr_CorpusID r, an_DocumentVersionID := sr_DocumentVersionID r, an_AnchorType := sr_AnchorType r\<rparr> in
           Inr (c\<lparr>ac_AnchorsByID := (ac_AnchorsByID c)(an_AnchorID a2 \<mapsto> a2),
                  ac_AnchorsBySourceRef := (ac_AnchorsBySourceRef c)(an_SourceRef a2 \<mapsto> a2)\<rparr>))"

text \<open>The range over the given sources; of two keys with one normal form the later one counts.\<close>

fun registerSources :: "string \<Rightarrow> (string \<times> string) list \<Rightarrow> (string \<times> string) list \<Rightarrow> AnchorError + (string \<times> string) list" where
  "registerSources version [] done0 = Inr done0"
| "registerSources version ((p, f) # srcs) done0 =
     (let p1 = trimSpace p; f1 = trimSpace f in
      if p1 = [] \<or> f1 = [] then Inl (BlankSource version)
      else registerSources version srcs ((normalizePath p1, f1) # done0))"

definition registerDocumentVersion :: "DocumentVersion \<Rightarrow> AnchorCatalog \<Rightarrow> AnchorError + AnchorCatalog" where
  "registerDocumentVersion v c =
     (if trimSpace (dv_DocumentVersionID v) = [] then Inl NoVersionID
      else if dv_Sources v = [] then Inl (NoSources (dv_DocumentVersionID v))
      else case registerSources (dv_DocumentVersionID v) (dv_Sources v) [] of
          Inl e \<Rightarrow> Inl e
        | Inr sources \<Rightarrow> Inr (c\<lparr>ac_DocumentVersions :=
            (ac_DocumentVersions c)(dv_DocumentVersionID v \<mapsto> v\<lparr>dv_Sources := sources\<rparr>)\<rparr>))"

section \<open>Resolving\<close>

datatype AnchorStatus = StatusResolved | StatusAnchorNotFound | StatusDocumentVersionNotFound
  | StatusSourceContentUnavailable | StatusAnchorOutOfRange | StatusAnchorTypeUnsupported | StatusContentHashMismatch

datatype 'a fetch = Found 'a | NoSuch AnchorStatus | FetchPanic

record Resolution =
  rs_Status :: AnchorStatus
  rs_AnchorID :: string
  rs_SourceRef :: string
  rs_DocumentVersionID :: string
  rs_Excerpt :: string
  rs_ContentHash :: string
  rs_Caveats :: "string list"

text \<open>A decoded JSON value; of a number, a boolean or null what \<open>fmt.Sprint\<close> prints.\<close>

datatype JsonAny = AnyScalar string | AnyString string | AnyArray "JsonAny list" | AnyObject "(string \<times> JsonAny) list"

record Codec =
  cd_decode :: "string \<Rightarrow> JsonAny option"
  cd_marshal :: "JsonAny \<Rightarrow> string option"
  cd_paragraphs :: "string \<Rightarrow> (int \<times> string) list option"

datatype File = Unreadable | Readable string

type_synonym FileSystem = "string \<rightharpoonup> File"

text \<open>\<open>strings.ReplaceAll\<close> of the two line ends.\<close>

fun unixLines :: "string \<Rightarrow> string" where
  "unixLines [] = []"
| "unixLines (c # s) = (if c = CHR 0x0D then
       (case s of d # s' \<Rightarrow> if d = CHR 0x0A then CHR 0x0A # unixLines s' else CHR 0x0A # unixLines s
        | [] \<Rightarrow> [CHR 0x0A])
     else c # unixLines s)"

definition trimBreak :: "string \<Rightarrow> string" where
  "trimBreak s = (if s \<noteq> [] \<and> last s = CHR 0x0A then butlast s else s)"

definition splitLines :: "string \<Rightarrow> string list" where
  "splitLines content = (let s = trimBreak (unixLines content) in if s = [] then [] else splitByte (CHR 0x0A) s)"

definition sliceLines :: "int \<Rightarrow> int \<Rightarrow> string list \<Rightarrow> string" where
  "sliceLines a b lines = strJoin [CHR 0x0A] (take (nat b - nat (a - 1)) (drop (nat (a - 1)) lines))"

definition readFile :: "FileSystem \<Rightarrow> string \<Rightarrow> string option" where
  "readFile fs path = (case fs path of Some (Readable s) \<Rightarrow> Some s | _ \<Rightarrow> None)"

definition resolveLineExcerpt :: "FileSystem \<Rightarrow> string \<Rightarrow> int \<Rightarrow> int \<Rightarrow> string fetch" where
  "resolveLineExcerpt fs path lineStart lineEnd = (case readFile fs path of
       None \<Rightarrow> NoSuch StatusSourceContentUnavailable
     | Some content \<Rightarrow>
         let lines = splitLines content in
         if lineStart < 1 \<or> lineEnd < lineStart \<or> lineEnd > int (length lines) then NoSuch StatusAnchorOutOfRange
         else Found (sliceLines lineStart lineEnd lines))"

definition resolveDOCXExcerpt :: "Codec \<Rightarrow> FileSystem \<Rightarrow> string \<Rightarrow> int \<Rightarrow> string fetch" where
  "resolveDOCXExcerpt cd fs path i = (case readFile fs path of
       None \<Rightarrow> NoSuch StatusSourceContentUnavailable
     | Some content \<Rightarrow> (case cd_paragraphs cd content of
         None \<Rightarrow> NoSuch StatusSourceContentUnavailable
       | Some ps \<Rightarrow> (case find (\<lambda>p. fst p = i) ps of
           None \<Rightarrow> NoSuch StatusAnchorOutOfRange
         | Some p \<Rightarrow> Found (snd p))))"

definition isKeyByte :: "char \<Rightarrow> bool" where
  "isKeyByte c \<longleftrightarrow> c = CHR ''_'' \<or> isDigit c \<or> (65 \<le> byte c \<and> byte c \<le> 90) \<or> (97 \<le> byte c \<and> byte c \<le> 122)"

text \<open>A quoted key: the text between equal quotes, a backslash taking the next character as it is.\<close>

fun unescape :: "bool \<Rightarrow> string \<Rightarrow> string option" where
  "unescape escaped [] = (if escaped then None else Some [])"
| "unescape escaped (c # s) =
     (if \<not> escaped \<and> c = CHR 0x5C then unescape True s else map_option (Cons c) (unescape False s))"

definition parseBracketKey :: "string \<Rightarrow> string option" where
  "parseBracketKey token =
     (if length token < 2 then None
      else if (hd token \<noteq> CHR 0x27 \<and> hd token \<noteq> CHR 0x22) \<or> last token \<noteq> hd token then None
      else unescape False (butlast (tl token)))"

definition objectKey :: "string \<Rightarrow> JsonAny \<Rightarrow> JsonAny fetch" where
  "objectKey key v = (case v of
       AnyObject kvs \<Rightarrow> (case map_of kvs key of None \<Rightarrow> NoSuch StatusAnchorNotFound | Some x \<Rightarrow> Found x)
     | _ \<Rightarrow> NoSuch StatusAnchorNotFound)"

text \<open>An element of an array; a negative index passes the bound check.\<close>

definition arrayElement :: "string \<Rightarrow> JsonAny \<Rightarrow> JsonAny fetch" where
  "arrayElement token v = (case atoi token of
       None \<Rightarrow> NoSuch StatusAnchorNotFound
     | Some i \<Rightarrow> (case v of
         AnyArray xs \<Rightarrow>
           if i \<ge> int (length xs) then NoSuch StatusAnchorNotFound
           else if i < 0 then FetchPanic
           else Found (xs ! nat i)
       | _ \<Rightarrow> NoSuch StatusAnchorNotFound))"

text \<open>One step of the loop: the value it moves to and the rest of the path.\<close>

definition jsonStep :: "JsonAny \<Rightarrow> string \<Rightarrow> (JsonAny \<times> string) fetch" where
  "jsonStep v path =
     (let follow = (\<lambda>res rest. case res of Found x \<Rightarrow> Found (x, rest) | NoSuch st \<Rightarrow> NoSuch st | FetchPanic \<Rightarrow> FetchPanic) in
      if hd path = CHR ''.''
      then (let key = takeWhile isKeyByte (tl path) in
        if key = [] then NoSuch StatusAnchorNotFound else follow (objectKey key v) (drop (length key) (tl path)))
      else if hd path = CHR ''[''
      then (case cutByte (CHR '']'') (tl path) of
          None \<Rightarrow> NoSuch StatusAnchorNotFound
        | Some (token, rest) \<Rightarrow>
            if hasPrefix token [CHR 0x22] \<or> hasPrefix token [CHR 0x27]
            then (case parseBracketKey token of
                None \<Rightarrow> NoSuch StatusAnchorNotFound
              | Some key \<Rightarrow> follow (objectKey key v) rest)
            else follow (arrayElement token v) rest)
      else NoSuch StatusAnchorNotFound)"

text \<open>Every step takes at least one character off the path, so its length bounds their number.\<close>

fun jsonWalk :: "nat \<Rightarrow> JsonAny \<Rightarrow> string \<Rightarrow> JsonAny fetch" where
  "jsonWalk n v [] = Found v"
| "jsonWalk 0 v (c # s) = NoSuch StatusAnchorNotFound"
| "jsonWalk (Suc n) v (c # s) = (case jsonStep v (c # s) of
       Found (x, rest) \<Rightarrow> jsonWalk n x rest
     | NoSuch st \<Rightarrow> NoSuch st
     | FetchPanic \<Rightarrow> FetchPanic)"

definition jsonPathGet :: "JsonAny \<Rightarrow> string \<Rightarrow> JsonAny fetch" where
  "jsonPathGet v path =
     (if \<not> hasPrefix path ''$'' then NoSuch StatusAnchorNotFound else jsonWalk (length path) v (tl path))"

definition printValue :: "Codec \<Rightarrow> JsonAny \<Rightarrow> string fetch" where
  "printValue cd v = (case v of
       AnyString s \<Rightarrow> Found s
     | AnyScalar s \<Rightarrow> Found s
     | _ \<Rightarrow> (case cd_marshal cd v of None \<Rightarrow> NoSuch StatusSourceContentUnavailable | Some s \<Rightarrow> Found s))"

definition resolveJSONExcerpt :: "Codec \<Rightarrow> FileSystem \<Rightarrow> string \<Rightarrow> string \<Rightarrow> string fetch" where
  "resolveJSONExcerpt cd fs path jsonPath = (case readFile fs path of
       None \<Rightarrow> NoSuch StatusSourceContentUnavailable
     | Some content \<Rightarrow> (case cd_decode cd content of
         None \<Rightarrow> NoSuch StatusSourceContentUnavailable
       | Some v \<Rightarrow> (case jsonPathGet v jsonPath of
           Found x \<Rightarrow> printValue cd x
         | NoSuch st \<Rightarrow> NoSuch st
         | FetchPanic \<Rightarrow> FetchPanic)))"

definition filesystemPath :: "FileSystem \<Rightarrow> AnchorCatalog \<Rightarrow> string \<Rightarrow> string \<Rightarrow> string fetch" where
  "filesystemPath fs c version sourcePath = (case ac_DocumentVersions c version of
       None \<Rightarrow> NoSuch StatusDocumentVersionNotFound
     | Some v \<Rightarrow> (case map_of (dv_Sources v) (normalizePath sourcePath) of
         None \<Rightarrow> NoSuch StatusSourceContentUnavailable
       | Some path \<Rightarrow> if fs path = None then NoSuch StatusSourceContentUnavailable else Found path))"

definition resolveExcerpt :: "Codec \<Rightarrow> FileSystem \<Rightarrow> AnchorCatalog \<Rightarrow> Anchor \<Rightarrow> string fetch" where
  "resolveExcerpt cd fs c a = (case filesystemPath fs c (an_DocumentVersionID a) (an_Path a) of
       NoSuch st \<Rightarrow> NoSuch st
     | FetchPanic \<Rightarrow> FetchPanic
     | Found path \<Rightarrow>
         if an_AnchorType a = TypeMarkdown \<or> an_AnchorType a = TypeText
         then resolveLineExcerpt fs path (an_LineStart a) (an_LineEnd a)
         else if an_AnchorType a = TypeDOCX then resolveDOCXExcerpt cd fs path (an_ParagraphIndex a)
         else if an_AnchorType a = TypeJSON then resolveJSONExcerpt cd fs path (an_JSONPath a)
         else NoSuch StatusAnchorTypeUnsupported)"

definition unresolved :: "AnchorStatus \<Rightarrow> Resolution" where
  "unresolved st = \<lparr>rs_Status = st, rs_AnchorID = [], rs_SourceRef = [], rs_DocumentVersionID = [],
     rs_Excerpt = [], rs_ContentHash = [], rs_Caveats = []\<rparr>"

definition resolveAnchor :: "Codec \<Rightarrow> FileSystem \<Rightarrow> AnchorCatalog \<Rightarrow> Anchor \<Rightarrow> Resolution option" where
  "resolveAnchor cd fs c a =
     (let about = (\<lambda>st. (unresolved st)\<lparr>rs_AnchorID := an_AnchorID a, rs_SourceRef := an_SourceRef a,
            rs_DocumentVersionID := an_DocumentVersionID a, rs_Caveats := an_Caveats a\<rparr>) in
      case resolveExcerpt cd fs c a of
        FetchPanic \<Rightarrow> None
      | NoSuch st \<Rightarrow> Some (about st)
      | Found excerpt \<Rightarrow>
          if an_ContentHash a \<noteq> [] \<and> an_ContentHash a \<noteq> contentHash excerpt then Some (about StatusContentHashMismatch)
          else Some ((about StatusResolved)\<lparr>rs_Excerpt := excerpt, rs_ContentHash := contentHash excerpt\<rparr>))"

definition resolveAnchorID :: "Codec \<Rightarrow> FileSystem \<Rightarrow> AnchorCatalog \<Rightarrow> string \<Rightarrow> Resolution option" where
  "resolveAnchorID cd fs c i = (case ac_AnchorsByID c (trimSpace i) of
       None \<Rightarrow> Some (unresolved StatusAnchorNotFound)
     | Some a \<Rightarrow> resolveAnchor cd fs c a)"

text \<open>An anchor that is not registered: why it could not be, and not found if it could.\<close>

definition unregisteredAnchorStatus :: "Codec \<Rightarrow> FileSystem \<Rightarrow> AnchorCatalog \<Rightarrow> SourceRef \<Rightarrow> AnchorStatus option" where
  "unregisteredAnchorStatus cd fs c r = (case parsePayload (sr_AnchorType r) (sr_Payload r) of
       None \<Rightarrow> Some StatusAnchorNotFound
     | Some q \<Rightarrow> (case resolveExcerpt cd fs c
          \<lparr>an_AnchorID = [], an_CorpusID = [], an_DocumentID = [], an_DocumentVersionID = sr_DocumentVersionID r,
           an_AnchorType = sr_AnchorType r, an_SourceRef = [], an_Path = ps_path q, an_HeadingPath = [],
           an_LineStart = ps_lineStart q, an_LineEnd = ps_lineEnd q, an_ParagraphIndex = ps_paragraphIndex q,
           an_JSONPath = ps_jsonPath q, an_ContentHash = [], an_Caveats = []\<rparr> of
         FetchPanic \<Rightarrow> None
       | NoSuch st \<Rightarrow> Some st
       | Found _ \<Rightarrow> Some StatusAnchorNotFound))"

definition resolveSourceRef :: "Codec \<Rightarrow> FileSystem \<Rightarrow> AnchorCatalog \<Rightarrow> string \<Rightarrow> Resolution option" where
  "resolveSourceRef cd fs c ref = (case parseSourceRef ref of
       None \<Rightarrow> Some ((unresolved StatusAnchorNotFound)\<lparr>rs_SourceRef := trimSpace ref\<rparr>)
     | Some r \<Rightarrow>
         let about = (\<lambda>st. (unresolved st)\<lparr>rs_SourceRef := sourceRefString r, rs_DocumentVersionID := sr_DocumentVersionID r\<rparr>) in
         if \<not> isSupported (sr_AnchorType r) then Some (about StatusAnchorTypeUnsupported)
         else if ac_DocumentVersions c (sr_DocumentVersionID r) = None then Some (about StatusDocumentVersionNotFound)
         else (case ac_AnchorsBySourceRef c (sourceRefString r) of
             Some a \<Rightarrow> resolveAnchor cd fs c a
           | None \<Rightarrow> map_option about (unregisteredAnchorStatus cd fs c r)))"

end
