(* ===== verification/Dif_Extract.thy ===== *)
theory Dif_Extract
  imports Dif_Anchors
begin

text \<open>
  The deterministic extractors of text and Markdown files, \<open>dif/code/libs/extraction\<close> (\<open>extraction.go\<close>,
  \<open>text.go\<close>, \<open>markdown.go\<close>), and the promotion guard of an ingestion run, \<open>libs/ingestionruns\<close>.
\<close>

section \<open>Records\<close>

record Options =
  op_CorpusID :: string
  op_DocumentID :: string
  op_DocumentVersionID :: string
  op_SourceID :: string
  op_Path :: string

record Document =
  do_DocumentID :: string
  do_CorpusID :: string
  do_SourceID :: string
  do_Path :: string
  do_Format :: string
  do_DocumentVersionID :: string
  do_ContentHash :: string

datatype NodeKind = NodeDocument | NodeSection | NodeBlock

record DocNode =
  dn_NodeID :: string
  dn_CorpusID :: string
  dn_DocumentID :: string
  dn_DocumentVersionID :: string
  dn_Kind :: NodeKind
  dn_ParentNodeID :: string
  dn_Ordinal :: nat
  dn_HeadingPath :: string
  dn_AnchorID :: string
  dn_TextHash :: string
  dn_Text :: string

record DocEdge =
  de_EdgeID :: string
  de_CorpusID :: string
  de_DocumentVersionID :: string
  de_FromNodeID :: string
  de_ToNodeID :: string
  de_Confidence :: string
  de_AnchorID :: string

record Passage =
  pg_PassageID :: string
  pg_CorpusID :: string
  pg_DocumentID :: string
  pg_DocumentVersionID :: string
  pg_NodeID :: string
  pg_AnchorID :: string
  pg_SourceRef :: string
  pg_Text :: string
  pg_ContentHash :: string

record Extraction =
  ex_Document :: Document
  ex_Nodes :: "DocNode list"
  ex_Edges :: "DocEdge list"
  ex_Anchors :: "Anchor list"
  ex_Passages :: "Passage list"

datatype ExtractError = MissingOptions "string list" | EmptyContent

section \<open>Shared steps\<close>

definition kindName :: "NodeKind \<Rightarrow> string" where
  "kindName k = (case k of NodeDocument \<Rightarrow> ''document'' | NodeSection \<Rightarrow> ''section'' | NodeBlock \<Rightarrow> ''block'')"

definition missingOptions :: "Options \<Rightarrow> string list" where
  "missingOptions o1 = map fst (filter (\<lambda>f. trimSpace (snd f) = [])
     [(''corpus_id'', op_CorpusID o1), (''document_id'', op_DocumentID o1),
      (''document_version_id'', op_DocumentVersionID o1), (''source_id'', op_SourceID o1), (''path'', op_Path o1)])"

definition stableID :: "string list \<Rightarrow> string" where
  "stableID parts = sha256 (strJoin [CHR 0x00] (map trimSpace parts))"

definition slashPath :: "string \<Rightarrow> string" where
  "slashPath path = map (\<lambda>c. if c = CHR 0x5C then CHR ''/'' else c) (trimSpace path)"

definition newBaseResult :: "Options \<Rightarrow> string \<Rightarrow> string list \<Rightarrow> Extraction" where
  "newBaseResult o1 format lines =
     \<lparr>ex_Document = \<lparr>do_DocumentID = trimSpace (op_DocumentID o1), do_CorpusID = trimSpace (op_CorpusID o1),
        do_SourceID = trimSpace (op_SourceID o1), do_Path = slashPath (op_Path o1), do_Format = format,
        do_DocumentVersionID = trimSpace (op_DocumentVersionID o1),
        do_ContentHash = contentHash (strJoin [CHR 0x0A] lines)\<rparr>,
      ex_Nodes = [], ex_Edges = [], ex_Anchors = [], ex_Passages = []\<rparr>"

definition addEdge :: "Options \<Rightarrow> string \<Rightarrow> string \<Rightarrow> string \<Rightarrow> nat \<Rightarrow> Extraction \<Rightarrow> Extraction" where
  "addEdge o1 fromID toID anchorID ordinal r = r\<lparr>ex_Edges := ex_Edges r @
     [\<lparr>de_EdgeID = stableID [''edge'', op_CorpusID o1, op_DocumentVersionID o1, fromID, ''CONTAINS'', toID, showNat ordinal],
       de_CorpusID = trimSpace (op_CorpusID o1), de_DocumentVersionID = trimSpace (op_DocumentVersionID o1),
       de_FromNodeID = fromID, de_ToNodeID = toID, de_Confidence = ''exact'', de_AnchorID = anchorID\<rparr>]\<rparr>"

definition linePayloadText :: "Options \<Rightarrow> nat \<Rightarrow> nat \<Rightarrow> string" where
  "linePayloadText o1 a b = slashPath (op_Path o1) @ ''#L'' @ showNat a @ ''-L'' @ showNat b"

definition lineAnchor :: "Options \<Rightarrow> string \<Rightarrow> nat \<Rightarrow> nat \<Rightarrow> string \<Rightarrow> string \<Rightarrow> Anchor" where
  "lineAnchor o1 headingPath a b text1 kind =
     \<lparr>an_AnchorID = computeAnchorID (op_CorpusID o1) (op_DocumentVersionID o1) kind (linePayloadText o1 a b),
      an_CorpusID = trimSpace (op_CorpusID o1), an_DocumentID = trimSpace (op_DocumentID o1),
      an_DocumentVersionID = trimSpace (op_DocumentVersionID o1), an_AnchorType = kind,
      an_SourceRef = sourceRefString \<lparr>sr_CorpusID = trimSpace (op_CorpusID o1),
        sr_DocumentVersionID = trimSpace (op_DocumentVersionID o1), sr_AnchorType = kind, sr_Payload = linePayloadText o1 a b\<rparr>,
      an_Path = slashPath (op_Path o1), an_HeadingPath = trimSpace headingPath, an_LineStart = int a, an_LineEnd = int b,
      an_ParagraphIndex = 0, an_JSONPath = [], an_ContentHash = contentHash text1, an_Caveats = []\<rparr>"

text \<open>\<open>addNode\<close>: the node's id and the result; the anchor is added when there is text to anchor.\<close>

definition addNode :: "Options \<Rightarrow> NodeKind \<Rightarrow> string \<Rightarrow> nat \<Rightarrow> string \<Rightarrow> nat \<Rightarrow> nat \<Rightarrow> string \<Rightarrow> string \<Rightarrow> Extraction
    \<Rightarrow> string \<times> Extraction" where
  "addNode o1 kind parent ordinal headingPath a b text1 anchorType r =
     (let anchored = trimSpace text1 \<noteq> [] \<and> 0 < a \<and> a \<le> b;
          anchor = lineAnchor o1 headingPath a b text1 anchorType;
          anchorID = (if anchored then an_AnchorID anchor else []);
          sourceRef = (if anchored then an_SourceRef anchor else []);
          r1 = (if anchored then r\<lparr>ex_Anchors := ex_Anchors r @ [anchor]\<rparr> else r);
          nodeID = stableID [''node'', op_CorpusID o1, op_DocumentVersionID o1, kindName kind, slashPath (op_Path o1),
            showNat ordinal, headingPath, showNat a @ ''-'' @ showNat b];
          node = \<lparr>dn_NodeID = nodeID, dn_CorpusID = trimSpace (op_CorpusID o1), dn_DocumentID = trimSpace (op_DocumentID o1),
            dn_DocumentVersionID = trimSpace (op_DocumentVersionID o1), dn_Kind = kind, dn_ParentNodeID = parent,
            dn_Ordinal = ordinal, dn_HeadingPath = trimSpace headingPath, dn_AnchorID = anchorID,
            dn_TextHash = contentHash text1, dn_Text = text1\<rparr>;
          r2 = r1\<lparr>ex_Nodes := ex_Nodes r1 @ [node]\<rparr>;
          r3 = (if parent = [] then r2 else addEdge o1 parent nodeID anchorID (length (ex_Edges r2)) r2) in
      (nodeID,
       if kind = NodeBlock \<and> anchorID \<noteq> []
       then r3\<lparr>ex_Passages := ex_Passages r3 @
         [\<lparr>pg_PassageID = stableID [''passage'', op_CorpusID o1, op_DocumentVersionID o1, nodeID, anchorID],
           pg_CorpusID = trimSpace (op_CorpusID o1), pg_DocumentID = trimSpace (op_DocumentID o1),
           pg_DocumentVersionID = trimSpace (op_DocumentVersionID o1), pg_NodeID = nodeID, pg_AnchorID = anchorID,
           pg_SourceRef = sourceRef, pg_Text = text1, pg_ContentHash = contentHash text1\<rparr>]\<rparr>
       else r3))"

definition lineRangeText :: "string list \<Rightarrow> nat \<Rightarrow> nat \<Rightarrow> string" where
  "lineRangeText lines a b =
     (if a < 1 \<or> b < a \<or> b > length lines then []
      else strJoin [CHR 0x0A] (take (b - (a - 1)) (drop (a - 1) lines)))"

definition blankLine :: "string \<Rightarrow> bool" where
  "blankLine s \<longleftrightarrow> trimSpace s = []"

text \<open>The index at which a scan over the lines from \<open>i\<close> stops.\<close>

definition scanWhile :: "(string \<Rightarrow> bool) \<Rightarrow> string list \<Rightarrow> nat \<Rightarrow> nat" where
  "scanWhile ok lines i = i + length (takeWhile ok (drop i lines))"

lemma scanWhile_le: "i \<le> length lines \<Longrightarrow> scanWhile ok lines i \<le> length lines"
  using length_takeWhile_le [of ok "drop i lines"] by (simp add: scanWhile_def)

lemma scanWhile_gt: "i < length lines \<Longrightarrow> ok (lines ! i) \<Longrightarrow> i < scanWhile ok lines i"
  by (simp add: scanWhile_def Cons_nth_drop_Suc [symmetric])

section \<open>Text\<close>

definition isSetextUnderline :: "string \<Rightarrow> bool" where
  "isSetextUnderline line = (let s = trimSpace line in s \<noteq> [] \<and> list_all (\<lambda>c. c = CHR ''='' \<or> c = CHR ''-'') s)"

definition firstTextBlockIndex :: "string list \<Rightarrow> nat" where
  "firstTextBlockIndex lines =
     (if 3 \<le> length lines \<and> isSetextUnderline (lines ! 1)
         \<and> hasPrefix (toLower (trimSpace (lines ! 2))) ''this fixture is synthetic'' then 3 else 0)"

function textLoop :: "Options \<Rightarrow> string \<Rightarrow> string list \<Rightarrow> nat \<Rightarrow> nat \<Rightarrow> Extraction \<Rightarrow> Extraction" where
  "textLoop o1 docNode lines i ordinal r =
     (if \<not> i < length lines then r
      else if blankLine (lines ! i) then textLoop o1 docNode lines (i + 1) ordinal r
      else let b = scanWhile (\<lambda>l. \<not> blankLine l) lines i in
        textLoop o1 docNode lines b (ordinal + 1)
          (snd (addNode o1 NodeBlock docNode ordinal [] (i + 1) b (lineRangeText lines (i + 1) b) TypeText r)))"
  by pat_completeness auto

termination
  by (relation "measure (\<lambda>(o1, docNode, lines, i, ordinal, r). length lines - i)")
    (auto intro!: diff_less_mono2 scanWhile_gt)

declare textLoop.simps [simp del]

definition extractText :: "string \<Rightarrow> Options \<Rightarrow> ExtractError + Extraction" where
  "extractText content o1 =
     (if missingOptions o1 \<noteq> [] then Inl (MissingOptions (missingOptions o1))
      else if trimSpace content = [] then Inl EmptyContent
      else let lines = splitLines content;
               (docNode, r) = addNode o1 NodeDocument [] 0 [] 1 (length lines) (strJoin [CHR 0x0A] lines) TypeText
                 (newBaseResult o1 ''txt'' lines) in
        Inr (textLoop o1 docNode lines (firstTextBlockIndex lines) 1 r))"

section \<open>Markdown\<close>

text \<open>\<open>\s\<close> of a Go pattern.\<close>

definition isReSpace :: "char \<Rightarrow> bool" where
  "isReSpace c \<longleftrightarrow> byte c \<in> {9, 10, 12, 13, 32}"

definition dropRight :: "(char \<Rightarrow> bool) \<Rightarrow> string \<Rightarrow> string" where
  "dropRight ok s = rev (dropWhile ok (rev s))"

definition parseHeading :: "string \<Rightarrow> (nat \<times> string) option" where
  "parseHeading line =
     (let level = length (takeWhile (\<lambda>c. c = CHR ''#'') line); rest = dropWhile (\<lambda>c. c = CHR ''#'') line;
          title = trimSpace (dropRight (\<lambda>c. c = CHR ''#'') (dropRight isReSpace (dropWhile isReSpace rest))) in
      if 1 \<le> level \<and> level \<le> 6 \<and> rest \<noteq> [] \<and> isReSpace (hd rest) \<and> title \<noteq> [] then Some (level, title) else None)"

definition joinHeadingPath :: "(nat \<times> string) list \<Rightarrow> string" where
  "joinHeadingPath stack = strJoin '' > '' (filter (\<lambda>t. t \<noteq> [])
     (map (\<lambda>level. case map_of stack level of None \<Rightarrow> [] | Some t \<Rightarrow> trimSpace t) [1..<7]))"

definition pushHeading :: "nat \<Rightarrow> string \<Rightarrow> (nat \<times> string) list \<Rightarrow> (nat \<times> string) list" where
  "pushHeading level title stack = (level, title) # filter (\<lambda>e. fst e < level) stack"

definition blockLine :: "string \<Rightarrow> bool" where
  "blockLine l \<longleftrightarrow> \<not> blankLine l \<and> parseHeading l = None"

record MarkdownState =
  md_stack :: "(nat \<times> string) list"
  md_parent :: string
  md_path :: string
  md_headingLine :: nat
  md_ordinal :: nat

text \<open>The lines a block from \<open>start\<close> to \<open>b\<close> is anchored at: under a heading from its line on, and then
  without the block's last line if it has more than one.\<close>

definition blockRange :: "nat \<Rightarrow> nat \<Rightarrow> nat \<Rightarrow> nat \<times> nat" where
  "blockRange headingLine start b =
     (if 0 < headingLine then (headingLine, if b > start then b - 1 else b) else (start, b))"

function markdownLoop :: "Options \<Rightarrow> string \<Rightarrow> string list \<Rightarrow> nat \<Rightarrow> MarkdownState \<Rightarrow> Extraction \<Rightarrow> Extraction" where
  "markdownLoop o1 docNode lines i st r =
     (if \<not> i < length lines then r
      else case parseHeading (lines ! i) of
        Some (level, title) \<Rightarrow>
          (let stack = pushHeading level title (md_stack st); path = joinHeadingPath stack;
               (section, r1) = addNode o1 NodeSection docNode (md_ordinal st) path (i + 1) (i + 1) (lines ! i) TypeMarkdown r in
           markdownLoop o1 docNode lines (i + 1)
             \<lparr>md_stack = stack, md_parent = section, md_path = path, md_headingLine = i + 1, md_ordinal = md_ordinal st + 1\<rparr> r1)
      | None \<Rightarrow>
          if blankLine (lines ! i) then markdownLoop o1 docNode lines (i + 1) st r
          else let b = scanWhile blockLine lines i; (a, z) = blockRange (md_headingLine st) (i + 1) b in
            markdownLoop o1 docNode lines b (st\<lparr>md_ordinal := md_ordinal st + 1\<rparr>)
              (snd (addNode o1 NodeBlock (md_parent st) (md_ordinal st) (md_path st) a z (lineRangeText lines a z) TypeMarkdown r)))"
  by pat_completeness auto

termination
  by (relation "measure (\<lambda>(o1, docNode, lines, i, st, r). length lines - i)")
    (auto simp: blockLine_def intro!: diff_less_mono2 scanWhile_gt)

declare markdownLoop.simps [simp del]

definition extractMarkdown :: "string \<Rightarrow> Options \<Rightarrow> ExtractError + Extraction" where
  "extractMarkdown content o1 =
     (if missingOptions o1 \<noteq> [] then Inl (MissingOptions (missingOptions o1))
      else if trimSpace content = [] then Inl EmptyContent
      else let lines = splitLines content;
               (docNode, r) = addNode o1 NodeDocument [] 0 [] 1 (length lines) (strJoin [CHR 0x0A] lines) TypeMarkdown
                 (newBaseResult o1 ''md'' lines) in
        Inr (markdownLoop o1 docNode lines 0
          \<lparr>md_stack = [], md_parent = docNode, md_path = [], md_headingLine = 0, md_ordinal = 1\<rparr> r))"

section \<open>The promotion guard\<close>

datatype RunReason = ReasonPromotable | ReasonRunNotCompleted | ReasonDegenerateNoDocuments | ReasonDegenerateNoNodes
  | ReasonDegenerateNoAnchors | ReasonDegenerateNoPassages | ReasonInvalidRun "string list"

record Run =
  rn_RunID :: string
  rn_CorpusID :: string
  rn_SourceID :: string
  rn_Status :: string
  rn_DocumentCount :: int
  rn_NodeCount :: int
  rn_EdgeCount :: int
  rn_AnchorCount :: int
  rn_PassageCount :: int
  rn_CaveatCount :: int

definition validRunStatus :: "string \<Rightarrow> bool" where
  "validRunStatus s \<longleftrightarrow> s \<in> {''running'', ''completed'', ''failed'', ''cancelled''}"

definition invalidRunFields :: "Run \<Rightarrow> string list" where
  "invalidRunFields r =
     (if trimSpace (rn_RunID r) = [] then [''run_id''] else [])
     @ (if trimSpace (rn_CorpusID r) = [] then [''corpus_id''] else [])
     @ (if validRunStatus (rn_Status r) then [] else [''status''])
     @ map fst (filter (\<lambda>c. snd c < 0)
        [(''document_count'', rn_DocumentCount r), (''node_count'', rn_NodeCount r), (''edge_count'', rn_EdgeCount r),
         (''anchor_count'', rn_AnchorCount r), (''passage_count'', rn_PassageCount r), (''caveat_count'', rn_CaveatCount r)])"

definition promotionDecision :: "Run \<Rightarrow> RunReason" where
  "promotionDecision r =
     (if invalidRunFields r \<noteq> [] then ReasonInvalidRun (invalidRunFields r)
      else if rn_Status r \<noteq> ''completed'' then ReasonRunNotCompleted
      else if rn_DocumentCount r \<le> 0 then ReasonDegenerateNoDocuments
      else if rn_NodeCount r \<le> 0 then ReasonDegenerateNoNodes
      else if rn_AnchorCount r \<le> 0 then ReasonDegenerateNoAnchors
      else if rn_PassageCount r \<le> 0 then ReasonDegenerateNoPassages
      else ReasonPromotable)"

definition ingestionRun :: "string \<Rightarrow> string \<Rightarrow> Extraction \<Rightarrow> Run" where
  "ingestionRun runID status r =
     \<lparr>rn_RunID = runID, rn_CorpusID = do_CorpusID (ex_Document r), rn_SourceID = do_SourceID (ex_Document r), rn_Status = status,
      rn_DocumentCount = (if trimSpace (do_DocumentID (ex_Document r)) \<noteq> [] then 1 else 0),
      rn_NodeCount = int (length (ex_Nodes r)), rn_EdgeCount = int (length (ex_Edges r)),
      rn_AnchorCount = int (length (ex_Anchors r)), rn_PassageCount = int (length (ex_Passages r)), rn_CaveatCount = 0\<rparr>"

end
