(* ===== verification/Dif_Admission.thy ===== *)
theory Dif_Admission
  imports Go_Sha256
begin

text \<open>
  The scope of a request and the admission of corpora and sources of the document-intelligence program,
  \<open>dif/code/libs/requestctx\<close> and \<open>libs/admission\<close>.  A Go context is the execution context it carries, if
  any; the texts of errors are values.
\<close>

section \<open>Execution context\<close>

record ExecutionContext =
  xc_RequestID :: string
  xc_PrincipalID :: string
  xc_TenantID :: string
  xc_ProjectID :: string
  xc_CorpusID :: string
  xc_ToolName :: string
  xc_RunID :: string

datatype ContextError = UnsupportedOperation string | MissingFields string "string list"

definition requiredFields :: "string \<Rightarrow> string list option" where
  "requiredFields operation =
     (if operation = ''ingestion''
      then Some [''request_id'', ''principal_id'', ''tenant_id'', ''project_id'', ''corpus_id'', ''run_id'']
      else if operation = ''retrieval'' \<or> operation = ''audit_write''
      then Some [''request_id'', ''principal_id'', ''tenant_id'', ''project_id'', ''corpus_id'']
      else if operation = ''mcp_tool''
      then Some [''request_id'', ''principal_id'', ''tenant_id'', ''project_id'', ''corpus_id'', ''tool_name'']
      else if operation = ''usage_write''
      then Some [''request_id'', ''tenant_id'', ''project_id'', ''corpus_id'']
      else None)"

definition contextFields :: "ExecutionContext \<Rightarrow> (string \<times> string) list" where
  "contextFields x = [(''request_id'', xc_RequestID x), (''principal_id'', xc_PrincipalID x), (''tenant_id'', xc_TenantID x),
     (''project_id'', xc_ProjectID x), (''corpus_id'', xc_CorpusID x), (''tool_name'', xc_ToolName x), (''run_id'', xc_RunID x)]"

definition fieldValue :: "ExecutionContext \<Rightarrow> string \<Rightarrow> string" where
  "fieldValue x f = (case map_of (contextFields x) f of None \<Rightarrow> [] | Some v \<Rightarrow> v)"

definition validateContext :: "string \<Rightarrow> ExecutionContext \<Rightarrow> ContextError option" where
  "validateContext operation x = (case requiredFields operation of
       None \<Rightarrow> Some (UnsupportedOperation operation)
     | Some required \<Rightarrow>
         let missing = filter (\<lambda>f. trimSpace (fieldValue x f) = []) required in
         if missing \<noteq> [] then Some (MissingFields operation missing) else None)"

definition trimmedContext :: "ExecutionContext \<Rightarrow> ExecutionContext" where
  "trimmedContext x =
     \<lparr>xc_RequestID = trimSpace (xc_RequestID x), xc_PrincipalID = trimSpace (xc_PrincipalID x),
      xc_TenantID = trimSpace (xc_TenantID x), xc_ProjectID = trimSpace (xc_ProjectID x),
      xc_CorpusID = trimSpace (xc_CorpusID x), xc_ToolName = trimSpace (xc_ToolName x), xc_RunID = trimSpace (xc_RunID x)\<rparr>"

definition withExecutionContext :: "ExecutionContext \<Rightarrow> string \<Rightarrow> ContextError + ExecutionContext" where
  "withExecutionContext x operation =
     (case validateContext operation x of Some e \<Rightarrow> Inl e | None \<Rightarrow> Inr (trimmedContext x))"

definition requireFromContext :: "ExecutionContext option \<Rightarrow> string \<Rightarrow> ContextError + ExecutionContext" where
  "requireFromContext ctx operation = (case requiredFields operation of
       None \<Rightarrow> Inl (UnsupportedOperation operation)
     | Some required \<Rightarrow> (case ctx of
         None \<Rightarrow> Inl (MissingFields operation required)
       | Some x \<Rightarrow> (case validateContext operation x of Some e \<Rightarrow> Inl e | None \<Rightarrow> Inr x)))"

section \<open>Corpora and sources\<close>

record Corpus =
  co_CorpusID :: string
  co_ProjectID :: string
  co_DisplayName :: string
  co_AdmissionStatus :: string
  co_ReadabilityModel :: string

record CorpusSource =
  so_SourceID :: string
  so_CorpusID :: string
  so_SourceType :: string
  so_SourceURI :: string
  so_ScopePath :: string
  so_AdmissionStatus :: string

record AdmissionCatalog =
  ca_Corpora :: "string \<rightharpoonup> Corpus"
  ca_Sources :: "string \<rightharpoonup> CorpusSource"

datatype RecordFault = Required string | InvalidValue string string

datatype DenialReason = NoContext ContextError | CorpusNotFound | CorpusInvalid "RecordFault list" | CorpusStatusIs string
  | OtherProject | SourceNotFound | SourceOfOtherCorpus | SourceStatusIs string

definition validAdmissionStatus :: "string \<Rightarrow> bool" where
  "validAdmissionStatus s \<longleftrightarrow> s \<in> {''pending'', ''admitted'', ''rejected'', ''archived''}"

definition validSourceType :: "string \<Rightarrow> bool" where
  "validSourceType s \<longleftrightarrow> s \<in> {''local_tree'', ''git'', ''sharepoint'', ''onedrive''}"

definition missing :: "string \<Rightarrow> string \<Rightarrow> RecordFault list" where
  "missing field v = (if trimSpace v = [] then [Required field] else [])"

definition validateCorpus :: "Corpus \<Rightarrow> RecordFault list" where
  "validateCorpus c = missing ''corpus_id'' (co_CorpusID c) @ missing ''project_id'' (co_ProjectID c)
     @ missing ''display_name'' (co_DisplayName c)
     @ (if validAdmissionStatus (co_AdmissionStatus c) then [] else [InvalidValue ''admission_status'' (co_AdmissionStatus c)])
     @ (if co_ReadabilityModel c = ''uniform_readable'' then [] else [InvalidValue ''readability_model'' (co_ReadabilityModel c)])"

definition validateSource :: "CorpusSource \<Rightarrow> RecordFault list" where
  "validateSource s = missing ''source_id'' (so_SourceID s) @ missing ''corpus_id'' (so_CorpusID s)
     @ (if trimSpace (so_SourceType s) = [] then [Required ''source_type'']
        else if validSourceType (so_SourceType s) then [] else [InvalidValue ''source_type'' (so_SourceType s)])
     @ missing ''source_uri'' (so_SourceURI s)
     @ (if validAdmissionStatus (so_AdmissionStatus s) then [] else [InvalidValue ''admission_status'' (so_AdmissionStatus s)])"

definition admitCorpus :: "Corpus \<Rightarrow> DenialReason option" where
  "admitCorpus c =
     (if validateCorpus c \<noteq> [] then Some (CorpusInvalid (validateCorpus c))
      else if co_AdmissionStatus c \<noteq> ''admitted'' then Some (CorpusStatusIs (co_AdmissionStatus c))
      else None)"

section \<open>Loading a manifest\<close>

text \<open>The records of a decoded manifest, trimmed and validated one after the other.\<close>

definition trimmedCorpus :: "string \<Rightarrow> Corpus \<Rightarrow> Corpus" where
  "trimmedCorpus project c =
     \<lparr>co_CorpusID = trimSpace (co_CorpusID c), co_ProjectID = trimSpace project, co_DisplayName = trimSpace (co_DisplayName c),
      co_AdmissionStatus = trimSpace (co_AdmissionStatus c), co_ReadabilityModel = trimSpace (co_ReadabilityModel c)\<rparr>"

definition trimmedSource :: "CorpusSource \<Rightarrow> CorpusSource" where
  "trimmedSource s =
     \<lparr>so_SourceID = trimSpace (so_SourceID s), so_CorpusID = trimSpace (so_CorpusID s), so_SourceType = trimSpace (so_SourceType s),
      so_SourceURI = trimSpace (so_SourceURI s), so_ScopePath = trimSpace (so_ScopePath s),
      so_AdmissionStatus = trimSpace (so_AdmissionStatus s)\<rparr>"

fun loadCorpora :: "string \<Rightarrow> Corpus list \<Rightarrow> (string \<rightharpoonup> Corpus) \<Rightarrow> RecordFault list + (string \<rightharpoonup> Corpus)" where
  "loadCorpora project [] m = Inr m"
| "loadCorpora project (c # cs) m =
     (let rec = trimmedCorpus project c in
      if validateCorpus rec \<noteq> [] then Inl (validateCorpus rec) else loadCorpora project cs (m(co_CorpusID rec \<mapsto> rec)))"

fun loadSources :: "CorpusSource list \<Rightarrow> (string \<rightharpoonup> CorpusSource) \<Rightarrow> RecordFault list + (string \<rightharpoonup> CorpusSource)" where
  "loadSources [] m = Inr m"
| "loadSources (s # ss) m =
     (let rec = trimmedSource s in
      if validateSource rec \<noteq> [] then Inl (validateSource rec) else loadSources ss (m(so_SourceID rec \<mapsto> rec)))"

definition loadManifest :: "string \<Rightarrow> Corpus list \<Rightarrow> CorpusSource list \<Rightarrow> RecordFault list + AdmissionCatalog" where
  "loadManifest project cs ss = (case loadCorpora project cs Map.empty of
       Inl e \<Rightarrow> Inl e
     | Inr corpora \<Rightarrow> (case loadSources ss Map.empty of
         Inl e \<Rightarrow> Inl e
       | Inr sources \<Rightarrow> Inr \<lparr>ca_Corpora = corpora, ca_Sources = sources\<rparr>))"

section \<open>Decisions\<close>

datatype AdmissionOutcome = AdmissionOK | CorpusNotAdmitted | SourceNotAdmitted

record AuditIntent =
  ai_PrincipalID :: string
  ai_TenantID :: string
  ai_ProjectID :: string
  ai_CorpusID :: string
  ai_ToolName :: string
  ai_ParametersHash :: string
  ai_Outcome :: string
  ai_ErrorClass :: string

record AdmissionDecision =
  ad_Status :: AdmissionOutcome
  ad_Allowed :: bool
  ad_CorpusID :: string
  ad_ProjectID :: string
  ad_SourceID :: string
  ad_AuditIntent :: "AuditIntent option"
  ad_FailureReason :: "DenialReason option"

fun firstNonEmpty :: "string list \<Rightarrow> string" where
  "firstNonEmpty [] = []"
| "firstNonEmpty (v # vs) = (if trimSpace v \<noteq> [] then trimSpace v else firstNonEmpty vs)"

definition noScope :: ExecutionContext where
  "noScope = \<lparr>xc_RequestID = [], xc_PrincipalID = [], xc_TenantID = [], xc_ProjectID = [], xc_CorpusID = [], xc_ToolName = [], xc_RunID = []\<rparr>"

definition deniedDecision :: "ExecutionContext \<Rightarrow> string \<Rightarrow> string \<Rightarrow> string \<Rightarrow> DenialReason \<Rightarrow> AdmissionDecision" where
  "deniedDecision x tool hash errorClass reason =
     \<lparr>ad_Status = CorpusNotAdmitted, ad_Allowed = False, ad_CorpusID = trimSpace (xc_CorpusID x),
      ad_ProjectID = trimSpace (xc_ProjectID x), ad_SourceID = [],
      ad_AuditIntent = Some \<lparr>ai_PrincipalID = trimSpace (xc_PrincipalID x), ai_TenantID = trimSpace (xc_TenantID x),
        ai_ProjectID = trimSpace (xc_ProjectID x), ai_CorpusID = trimSpace (xc_CorpusID x),
        ai_ToolName = firstNonEmpty [tool, xc_ToolName x], ai_ParametersHash = trimSpace hash, ai_Outcome = ''denied'',
        ai_ErrorClass = errorClass\<rparr>,
      ad_FailureReason = Some reason\<rparr>"

definition sourceDenied :: "AdmissionDecision \<Rightarrow> ExecutionContext \<Rightarrow> string \<Rightarrow> string \<Rightarrow> string \<Rightarrow> DenialReason \<Rightarrow> AdmissionDecision" where
  "sourceDenied base x tool hash sourceID reason =
     base\<lparr>ad_Status := SourceNotAdmitted, ad_Allowed := False, ad_SourceID := sourceID, ad_FailureReason := Some reason,
       ad_AuditIntent := Some \<lparr>ai_PrincipalID = trimSpace (xc_PrincipalID x), ai_TenantID = trimSpace (xc_TenantID x),
         ai_ProjectID = ad_ProjectID base, ai_CorpusID = ad_CorpusID base,
         ai_ToolName = firstNonEmpty [tool, xc_ToolName x], ai_ParametersHash = trimSpace hash, ai_Outcome = ''denied'',
         ai_ErrorClass = ''source_not_admitted''\<rparr>\<rparr>"

definition checkCorpus :: "AdmissionCatalog \<Rightarrow> ExecutionContext option \<Rightarrow> string \<Rightarrow> string \<Rightarrow> AdmissionDecision" where
  "checkCorpus cat ctx tool hash = (case requireFromContext ctx ''retrieval'' of
       Inl e \<Rightarrow> deniedDecision noScope tool hash ''missing_execution_context'' (NoContext e)
     | Inr x \<Rightarrow> (case ca_Corpora cat (trimSpace (xc_CorpusID x)) of
         None \<Rightarrow> deniedDecision x tool hash ''corpus_not_admitted'' CorpusNotFound
       | Some c \<Rightarrow> (case admitCorpus c of
           Some e \<Rightarrow> deniedDecision x tool hash ''corpus_not_admitted'' e
         | None \<Rightarrow>
             if co_ProjectID c \<noteq> [] \<and> co_ProjectID c \<noteq> xc_ProjectID x
             then deniedDecision x tool hash ''corpus_not_admitted'' OtherProject
             else \<lparr>ad_Status = AdmissionOK, ad_Allowed = True, ad_CorpusID = co_CorpusID c, ad_ProjectID = co_ProjectID c,
               ad_SourceID = [], ad_AuditIntent = None, ad_FailureReason = None\<rparr>)))"

definition checkSource :: "AdmissionCatalog \<Rightarrow> ExecutionContext option \<Rightarrow> string \<Rightarrow> string \<Rightarrow> string \<Rightarrow> AdmissionDecision" where
  "checkSource cat ctx sourceID tool hash = (case requireFromContext ctx ''retrieval'' of
       Inl e \<Rightarrow> deniedDecision noScope tool hash ''missing_execution_context'' (NoContext e)
     | Inr x \<Rightarrow>
         let d = checkCorpus cat ctx tool hash in
         if \<not> ad_Allowed d then d
         else (case ca_Sources cat (trimSpace sourceID) of
             None \<Rightarrow> sourceDenied d x tool hash [] SourceNotFound
           | Some s \<Rightarrow>
               if so_CorpusID s \<noteq> ad_CorpusID d then sourceDenied d x tool hash (so_SourceID s) SourceOfOtherCorpus
               else if so_AdmissionStatus s \<noteq> ''admitted''
               then sourceDenied d x tool hash (so_SourceID s) (SourceStatusIs (so_AdmissionStatus s))
               else d\<lparr>ad_SourceID := so_SourceID s\<rparr>))"

section \<open>Admission fails closed\<close>

text \<open>The context of a request carries its whole scope.\<close>

definition scoped :: "ExecutionContext option \<Rightarrow> ExecutionContext \<Rightarrow> bool" where
  "scoped ctx x \<longleftrightarrow> ctx = Some x
     \<and> list_all (\<lambda>f. trimSpace (fieldValue x f) \<noteq> []) [''request_id'', ''principal_id'', ''tenant_id'', ''project_id'', ''corpus_id'']"

lemma require_retrieval: "requireFromContext ctx ''retrieval'' = Inr x \<longleftrightarrow> scoped ctx x"
  by (auto simp: requireFromContext_def requiredFields_def validateContext_def scoped_def Let_def filter_empty_conv
      split: option.splits)

definition admitted :: "AdmissionCatalog \<Rightarrow> ExecutionContext \<Rightarrow> Corpus \<Rightarrow> bool" where
  "admitted cat x c \<longleftrightarrow> ca_Corpora cat (trimSpace (xc_CorpusID x)) = Some c \<and> validateCorpus c = []
     \<and> co_AdmissionStatus c = ''admitted'' \<and> co_ReadabilityModel c = ''uniform_readable'' \<and> co_ProjectID c = xc_ProjectID x"

lemma validCorpus_fields: "validateCorpus c = [] \<Longrightarrow> co_ReadabilityModel c = ''uniform_readable'' \<and> co_ProjectID c \<noteq> []"
  by (auto simp: validateCorpus_def missing_def trimSpace_def split: if_splits)

lemma checkCorpus_allowed:
  "ad_Allowed (checkCorpus cat ctx tool hash) \<longleftrightarrow> (\<exists>x c. scoped ctx x \<and> admitted cat x c)"
proof (cases "requireFromContext ctx ''retrieval''")
  case (Inl e)
  then have "\<not> scoped ctx x" for x using require_retrieval [of ctx x] by simp
  with Inl show ?thesis by (simp add: checkCorpus_def deniedDecision_def)
next
  case (Inr x)
  then have x: "scoped ctx x" using require_retrieval by simp
  then have "scoped ctx y \<longleftrightarrow> y = x" for y by (auto simp: scoped_def)
  with Inr show ?thesis
    using validCorpus_fields
    by (auto simp: checkCorpus_def deniedDecision_def admitCorpus_def admitted_def split: option.splits)
qed

lemma checkCorpus_denied:
  "\<not> ad_Allowed (checkCorpus cat ctx tool hash) \<Longrightarrow> \<exists>i. ad_AuditIntent (checkCorpus cat ctx tool hash) = Some i \<and> ai_Outcome i = ''denied''"
  by (auto simp: checkCorpus_def deniedDecision_def split: sum.splits option.splits)

lemma checkCorpus_ids:
  assumes "scoped ctx x" and "admitted cat x c"
  shows "ad_CorpusID (checkCorpus cat ctx tool hash) = co_CorpusID c" "ad_AuditIntent (checkCorpus cat ctx tool hash) = None"
proof -
  have "requireFromContext ctx ''retrieval'' = Inr x" using assms(1) require_retrieval by simp
  with assms(2) show "ad_CorpusID (checkCorpus cat ctx tool hash) = co_CorpusID c" "ad_AuditIntent (checkCorpus cat ctx tool hash) = None"
    by (auto simp: checkCorpus_def admitted_def admitCorpus_def)
qed

text \<open>
  C23: admission fails closed.  A source is allowed exactly when the context carries the whole scope of the
  request, its corpus is known, valid, admitted, uniformly readable and of the request's project, and the
  source is known, admitted and of that corpus; every refusal carries an audit intent with outcome denied.
\<close>

theorem admission_fails_closed:
  "(ad_Allowed (checkSource cat ctx sourceID tool hash) \<longleftrightarrow>
     (\<exists>x c s. scoped ctx x \<and> admitted cat x c \<and> ca_Sources cat (trimSpace sourceID) = Some s
        \<and> so_CorpusID s = co_CorpusID c \<and> so_AdmissionStatus s = ''admitted''))
   \<and> (ad_Allowed (checkSource cat ctx sourceID tool hash)
      \<noteq> (\<exists>i. ad_AuditIntent (checkSource cat ctx sourceID tool hash) = Some i \<and> ai_Outcome i = ''denied''))"
proof (cases "requireFromContext ctx ''retrieval''")
  case (Inl e)
  then have "\<not> scoped ctx x" for x using require_retrieval [of ctx x] by simp
  with Inl show ?thesis by (simp add: checkSource_def deniedDecision_def)
next
  case (Inr x)
  then have x: "scoped ctx x" using require_retrieval by simp
  then have only: "scoped ctx y \<longleftrightarrow> y = x" for y by (auto simp: scoped_def)
  show ?thesis
  proof (cases "ad_Allowed (checkCorpus cat ctx tool hash)")
    case False
    with checkCorpus_denied [OF False] Inr show ?thesis
      using checkCorpus_allowed [of cat ctx tool hash] by (auto simp: checkSource_def Let_def)
  next
    case True
    then obtain c where c: "admitted cat x c" using checkCorpus_allowed [of cat ctx tool hash] only by auto
    then have one: "admitted cat x d \<longleftrightarrow> d = c" for d by (auto simp: admitted_def)
    show ?thesis
      using Inr True checkCorpus_ids [OF x c, of tool hash]
      by (auto simp: checkSource_def Let_def sourceDenied_def only one split: option.splits)
  qed
qed

end
