(* ===== verification/Dif_Retrieval.thy ===== *)
theory Dif_Retrieval
  imports Complex_Main Dif_Extract Dif_Admission
begin

text \<open>
  Lexical retrieval over anchored passages, \<open>dif/code/libs/retrieval/retrieval.go\<close>: the tokens, the index,
  the score and the search.  Scores are exact rationals; \<open>math.Log1p\<close> on a count is the argument \<open>lg\<close>.
\<close>

section \<open>Tokens\<close>

text \<open>All matches of \<open>[A-Za-z0-9]+\<close>; the first argument is the match so far.\<close>

fun rawTokens :: "string \<Rightarrow> string \<Rightarrow> string list" where
  "rawTokens cur [] = (if cur = [] then [] else [cur])"
| "rawTokens cur (c # s) =
     (if isAlnum c then rawTokens (cur @ [c]) s
      else (if cur = [] then [] else [cur]) @ rawTokens [] s)"

fun camelPieces :: "string \<Rightarrow> string \<Rightarrow> string list" where
  "camelPieces cur [] = [cur]"
| "camelPieces cur (c # s) =
     (if cur \<noteq> [] \<and> 65 \<le> byte c \<and> byte c \<le> 90 \<and> 97 \<le> byte (last cur) \<and> byte (last cur) \<le> 122
      then cur # camelPieces [c] s else camelPieces (cur @ [c]) s)"

definition splitCamelToken :: "string \<Rightarrow> string list" where
  "splitCamelToken v = (let ps = camelPieces [] v in if length ps \<le> 1 then [] else ps)"

definition dropEnd :: "nat \<Rightarrow> string \<Rightarrow> string" where
  "dropEnd n s = take (length s - n) s"

definition normalizeToken :: "string \<Rightarrow> string" where
  "normalizeToken v =
     (let token = toLower (trimSpace v) in
      if token = [] then []
      else if token \<in> {''own'', ''owns'', ''owned'', ''owner'', ''owners''} then ''own''
      else if token \<in> {''configured'', ''configuration''} then ''config''
      else let t1 = (if 4 < length token \<and> hasSuffix token ''ies'' then dropEnd 3 token @ ''y'' else token);
               t2 = (if 4 < length t1 \<and> hasSuffix t1 ''ed'' then dropEnd 2 t1 else t1) in
        if 3 < length t2 \<and> hasSuffix t2 ''s'' then dropEnd 1 t2 else t2)"

definition tokensOf :: "string \<Rightarrow> string list" where
  "tokensOf v =
     (let token = normalizeToken v in
      if token = [] then []
      else token # filter (\<lambda>p. p \<noteq> [] \<and> p \<noteq> token) (map normalizeToken (splitCamelToken v)))"

definition normalizeTokens :: "string \<Rightarrow> string list" where
  "normalizeTokens s = concat (map tokensOf (rawTokens [] s))"

definition termCounts :: "string \<Rightarrow> string \<Rightarrow> nat" where
  "termCounts s t = length (filter (\<lambda>x. x = t) (normalizeTokens s))"

definition stopwords :: "string list" where
  "stopwords = [''a'', ''an'', ''and'', ''any'', ''does'', ''for'', ''is'', ''mentions'', ''mention'', ''of'', ''the'',
     ''what'', ''which'', ''who'']"

fun collectTerms :: "string list \<Rightarrow> string list \<Rightarrow> string list" where
  "collectTerms seen [] = []"
| "collectTerms seen (t # ts) =
     (if t \<in> set stopwords \<or> t \<in> set seen then collectTerms seen ts else t # collectTerms (t # seen) ts)"

definition queryTerms :: "string \<Rightarrow> string list" where
  "queryTerms q = sort (collectTerms [] (normalizeTokens q))"

section \<open>The index\<close>

record IndexedPassage =
  ip_Passage :: Passage
  ip_Anchor :: Anchor
  ip_SearchText :: string
  ip_TermCounts :: "string \<Rightarrow> nat"
  ip_Specificity :: int
  ip_Caveats :: "string list"

definition countByte :: "char \<Rightarrow> string \<Rightarrow> int" where
  "countByte c s = int (length (filter (\<lambda>x. x = c) s))"

definition anchorSpecificity :: "Anchor \<Rightarrow> int" where
  "anchorSpecificity a =
     (if an_AnchorType a = TypeJSON then countByte (CHR ''.'') (an_JSONPath a) + countByte (CHR ''['') (an_JSONPath a) + 10
      else if an_AnchorType a = TypeDOCX then 8
      else if an_AnchorType a = TypeMarkdown \<or> an_AnchorType a = TypeText then 5
      else 0)"

definition indexedPassage :: "Passage \<Rightarrow> Anchor \<Rightarrow> IndexedPassage" where
  "indexedPassage p a =
     (let searchText = strJoin [CHR 0x0A] [pg_Text p, an_HeadingPath a] in
      \<lparr>ip_Passage = p, ip_Anchor = a, ip_SearchText = searchText, ip_TermCounts = termCounts searchText,
       ip_Specificity = anchorSpecificity a, ip_Caveats = an_Caveats a\<rparr>)"

text \<open>The anchors of an extraction by their id, a later one replacing an earlier one.\<close>

definition anchorsByID :: "Anchor list \<Rightarrow> string \<rightharpoonup> Anchor" where
  "anchorsByID as = map_of (rev (map (\<lambda>a. (an_AnchorID a, a)) (filter (\<lambda>a. trimSpace (an_AnchorID a) \<noteq> []) as)))"

text \<open>The passages of one extraction; the error names the passage whose reference is not its anchor's.\<close>

fun indexPassages :: "(string \<rightharpoonup> Anchor) \<Rightarrow> Passage list \<Rightarrow> string + IndexedPassage list" where
  "indexPassages anchors [] = Inr []"
| "indexPassages anchors (p # ps) =
     (if trimSpace (pg_AnchorID p) = [] \<or> trimSpace (pg_SourceRef p) = [] then indexPassages anchors ps
      else case anchors (pg_AnchorID p) of
          None \<Rightarrow> indexPassages anchors ps
        | Some a \<Rightarrow>
            if pg_SourceRef p \<noteq> an_SourceRef a then Inl (pg_PassageID p)
            else map_sum id (Cons (indexedPassage p a)) (indexPassages anchors ps))"

fun indexResults :: "Extraction list \<Rightarrow> string + IndexedPassage list" where
  "indexResults [] = Inr []"
| "indexResults (r # rs) = (case indexPassages (anchorsByID (ex_Anchors r)) (ex_Passages r) of
       Inl e \<Rightarrow> Inl e
     | Inr ps \<Rightarrow> map_sum id ((@) ps) (indexResults rs))"

definition newIndex :: "Extraction list \<Rightarrow> string + IndexedPassage list" where
  "newIndex rs = map_sum id (sort_key (\<lambda>p. pg_PassageID (ip_Passage p))) (indexResults rs)"

section \<open>The score\<close>

definition isCompositeJSONPassage :: "IndexedPassage \<Rightarrow> bool" where
  "isCompositeJSONPassage p \<longleftrightarrow> an_AnchorType (ip_Anchor p) = TypeJSON \<and> strContains (pg_Text (ip_Passage p)) [CHR 0x0A, CHR ''{'']"

definition scorePassage :: "(nat \<Rightarrow> rat) \<Rightarrow> string list \<Rightarrow> IndexedPassage \<Rightarrow> rat" where
  "scorePassage lg terms p =
     (let counts = filter (\<lambda>n. n \<noteq> 0) (map (ip_TermCounts p) terms);
          weighted = sum_list (map (\<lambda>n. 1 + lg n) counts);
          coverage = of_nat (length counts) / of_nat (length terms);
          score = weighted + coverage + of_int (ip_Specificity p) / 100 in
      if counts = [] then 0 else if isCompositeJSONPassage p then score - 3 else score)"

text \<open>To six decimals, half away from zero.\<close>

definition roundScore :: "rat \<Rightarrow> rat" where
  "roundScore x = sgn x * of_int \<lfloor>\<bar>x\<bar> * 1000000 + 1 / 2\<rfloor> / 1000000"

section \<open>The search\<close>

record Query =
  qu_Text :: string
  qu_Limit :: int

record Hit =
  ht_CorpusID :: string
  ht_DocumentID :: string
  ht_DocumentVersionID :: string
  ht_PassageID :: string
  ht_Snippet :: string
  ht_AnchorID :: string
  ht_SourceRef :: string
  ht_Score :: rat
  ht_Caveats :: "string list"

record RetrievalResponse =
  rr_Status :: string
  rr_Results :: "Hit list"

datatype SearchFault = EmptyQuery | BadContext ContextError | UnsupportedStatus string | NoRetriever

record Searcher =
  sh_Admission :: AdmissionCatalog
  sh_Index :: "IndexedPassage list"

definition newSearcher :: "AdmissionCatalog \<Rightarrow> Extraction list \<Rightarrow> string + Searcher" where
  "newSearcher cat rs = map_sum id (\<lambda>ix. \<lparr>sh_Admission = cat, sh_Index = ix\<rparr>) (newIndex rs)"

definition queryHash :: "string \<Rightarrow> string" where
  "queryHash q = ''sha256:'' @ sha256 (trimSpace q)"

definition hitOf :: "rat \<times> IndexedPassage \<Rightarrow> Hit" where
  "hitOf sp = (case sp of (score, p) \<Rightarrow>
     \<lparr>ht_CorpusID = pg_CorpusID (ip_Passage p), ht_DocumentID = pg_DocumentID (ip_Passage p),
      ht_DocumentVersionID = pg_DocumentVersionID (ip_Passage p), ht_PassageID = pg_PassageID (ip_Passage p),
      ht_Snippet = pg_Text (ip_Passage p), ht_AnchorID = pg_AnchorID (ip_Passage p), ht_SourceRef = pg_SourceRef (ip_Passage p),
      ht_Score = roundScore score, ht_Caveats = ip_Caveats p\<rparr>)"

definition scoredPassages :: "(nat \<Rightarrow> rat) \<Rightarrow> string list \<Rightarrow> string \<Rightarrow> IndexedPassage list \<Rightarrow> (rat \<times> IndexedPassage) list" where
  "scoredPassages lg terms corpus ps =
     filter (\<lambda>sp. 0 < fst sp) (map (\<lambda>p. (scorePassage lg terms p, p)) (filter (\<lambda>p. pg_CorpusID (ip_Passage p) = corpus) ps))"

definition rankKey :: "rat \<times> IndexedPassage \<Rightarrow> rat \<times> int \<times> string" where
  "rankKey sp = (- fst sp, - ip_Specificity (snd sp), pg_SourceRef (ip_Passage (snd sp)))"

definition effectiveLimit :: "int \<Rightarrow> int" where
  "effectiveLimit l = (if l \<le> 0 \<or> l > 10 then 10 else l)"

definition searchDocs :: "(nat \<Rightarrow> rat) \<Rightarrow> Searcher \<Rightarrow> ExecutionContext option \<Rightarrow> Query \<Rightarrow> SearchFault + RetrievalResponse" where
  "searchDocs lg s ctx q =
     (let txt0 = trimSpace (qu_Text q); none = (\<lambda>st. Inr \<lparr>rr_Status = st, rr_Results = []\<rparr>) in
      if txt0 = [] then Inl EmptyQuery
      else case requireFromContext ctx ''retrieval'' of
          Inl e \<Rightarrow> Inl (BadContext e)
        | Inr x \<Rightarrow>
            if \<not> ad_Allowed (checkCorpus (sh_Admission s) ctx ''search_docs'' (queryHash txt0)) then none ''corpus_not_admitted''
            else let terms = queryTerms txt0 in
              if terms = [] then none ''no_evidence''
              else let scored = scoredPassages lg terms (xc_CorpusID x) (sh_Index s) in
                if scored = [] then none ''no_evidence''
                else let results = map hitOf (filter (\<lambda>sp. trimSpace (pg_AnchorID (ip_Passage (snd sp))) \<noteq> []
                           \<and> trimSpace (pg_SourceRef (ip_Passage (snd sp))) \<noteq> [])
                         (take (nat (effectiveLimit (qu_Limit q))) (sort_key rankKey scored))) in
                  if results = [] then none ''no_evidence'' else Inr \<lparr>rr_Status = ''ok'', rr_Results = results\<rparr>)"

end
