(* ===== verification/Dif_Api.thy ===== *)
theory Dif_Api
  imports Dif_Retrieval
begin

text \<open>
  The service behind \<open>search_docs\<close>: \<open>dif/code/libs/searchdocs/searchdocs.go\<close>, the governance records of
  \<open>libs/auditusage/auditusage.go\<close> and the authenticated boundary of \<open>libs/mcpapi/mcpapi.go\<close>.  Message texts
  are left out, the class and the fields of an error are not.  The store of the records is the in-memory
  one; that a write to it may fail, as the one to a database does, is a parameter.
\<close>

section \<open>The service\<close>

record DocsRequest =
  dq_RequestID :: string
  dq_PrincipalID :: string
  dq_TenantID :: string
  dq_ProjectID :: string
  dq_CorpusID :: string
  dq_Query :: string
  dq_Limit :: int

record ErrorDetail =
  ed_Class :: string
  ed_Fields :: "string list"

record UsageInfo =
  us_ProjectID :: string
  us_CorpusID :: string
  us_EventType :: string
  us_QueryHash :: string
  us_ResultCount :: nat
  us_Limit :: int
  us_Status :: string

record DocsResponse =
  dr_Status :: string
  dr_Results :: "Hit list"
  dr_Error :: "ErrorDetail option"
  dr_AuditIntent :: "AuditIntent option"
  dr_Usage :: UsageInfo

type_synonym retriever = "ExecutionContext option \<Rightarrow> Query \<Rightarrow> SearchFault + RetrievalResponse"

record DocsService =
  ds_Admission :: AdmissionCatalog
  ds_Retriever :: "retriever option"

definition withStatus :: "string \<Rightarrow> DocsResponse \<Rightarrow> DocsResponse" where
  "withStatus st r = r\<lparr>dr_Status := st, dr_Usage := (dr_Usage r)\<lparr>us_Status := st, us_ResultCount := length (dr_Results r)\<rparr>\<rparr>"

definition plainResponse :: "UsageInfo \<Rightarrow> DocsResponse" where
  "plainResponse u = \<lparr>dr_Status = [], dr_Results = [], dr_Error = None, dr_AuditIntent = None, dr_Usage = u\<rparr>"

definition errorResponse :: "string \<Rightarrow> string list \<Rightarrow> UsageInfo \<Rightarrow> DocsResponse" where
  "errorResponse class0 fs u = (plainResponse u)\<lparr>dr_Error := Some \<lparr>ed_Class = class0, ed_Fields = fs\<rparr>\<rparr>"

definition normalizeDocsRequest :: "DocsRequest \<Rightarrow> DocsRequest" where
  "normalizeDocsRequest q =
     \<lparr>dq_RequestID = trimSpace (dq_RequestID q), dq_PrincipalID = trimSpace (dq_PrincipalID q),
      dq_TenantID = trimSpace (dq_TenantID q), dq_ProjectID = trimSpace (dq_ProjectID q),
      dq_CorpusID = trimSpace (dq_CorpusID q), dq_Query = trimSpace (dq_Query q), dq_Limit = dq_Limit q\<rparr>"

definition missingDocsFields :: "DocsRequest \<Rightarrow> string list" where
  "missingDocsFields q = map fst (filter (\<lambda>f. snd f = [])
     [(''request_id'', dq_RequestID q), (''principal_id'', dq_PrincipalID q), (''tenant_id'', dq_TenantID q),
      (''project_id'', dq_ProjectID q), (''corpus_id'', dq_CorpusID q), (''query'', dq_Query q)])"

datatype HitFault = MissingAnchoredFields | ScoreNotPositive | BadReference | ReferenceOfOtherCorpus | ReferenceOfOtherVersion
  | NoAnchoredResults

definition validateAnchoredResult :: "Hit \<Rightarrow> HitFault option" where
  "validateAnchoredResult h =
     (if list_ex (\<lambda>v. trimSpace v = []) [ht_CorpusID h, ht_DocumentID h, ht_DocumentVersionID h, ht_PassageID h,
          ht_Snippet h, ht_AnchorID h, ht_SourceRef h] then Some MissingAnchoredFields
      else if ht_Score h \<le> 0 then Some ScoreNotPositive
      else case parseSourceRef (ht_SourceRef h) of
          None \<Rightarrow> Some BadReference
        | Some r \<Rightarrow>
            if sr_CorpusID r \<noteq> trimSpace (ht_CorpusID h) then Some ReferenceOfOtherCorpus
            else if sr_DocumentVersionID r \<noteq> trimSpace (ht_DocumentVersionID h) then Some ReferenceOfOtherVersion
            else None)"

definition convertHit :: "Hit \<Rightarrow> Hit" where
  "convertHit h =
     \<lparr>ht_CorpusID = trimSpace (ht_CorpusID h), ht_DocumentID = trimSpace (ht_DocumentID h),
      ht_DocumentVersionID = trimSpace (ht_DocumentVersionID h), ht_PassageID = trimSpace (ht_PassageID h),
      ht_Snippet = trimSpace (ht_Snippet h), ht_AnchorID = trimSpace (ht_AnchorID h), ht_SourceRef = trimSpace (ht_SourceRef h),
      ht_Score = ht_Score h, ht_Caveats = ht_Caveats h\<rparr>"

fun convertEach :: "Hit list \<Rightarrow> HitFault + Hit list" where
  "convertEach [] = Inr []"
| "convertEach (h # hs) = (case validateAnchoredResult h of
       Some e \<Rightarrow> Inl e
     | None \<Rightarrow> map_sum id (Cons (convertHit h)) (convertEach hs))"

definition convertResults :: "Hit list \<Rightarrow> HitFault + Hit list" where
  "convertResults hs = (case convertEach hs of
       Inl e \<Rightarrow> Inl e
     | Inr cs \<Rightarrow> if cs = [] then Inl NoAnchoredResults else Inr cs)"

definition fromRetrievalResponse :: "RetrievalResponse \<Rightarrow> UsageInfo \<Rightarrow> SearchFault + DocsResponse" where
  "fromRetrievalResponse rr u =
     (if rr_Status rr = ''ok''
      then (case convertResults (rr_Results rr) of
          Inl _ \<Rightarrow> Inr (withStatus ''invalid_result'' (errorResponse ''invalid_result'' [] u))
        | Inr hs \<Rightarrow> Inr (withStatus ''ok'' ((plainResponse u)\<lparr>dr_Results := hs\<rparr>)))
      else if rr_Status rr = ''no_evidence'' \<or> rr_Status rr = ''corpus_not_admitted''
      then Inr (withStatus (rr_Status rr) (plainResponse u))
      else Inl (UnsupportedStatus (rr_Status rr)))"

definition serviceSearch :: "DocsService \<Rightarrow> DocsRequest \<Rightarrow> SearchFault + DocsResponse" where
  "serviceSearch s request = (case ds_Retriever s of
       None \<Rightarrow> Inl NoRetriever
     | Some retrieve \<Rightarrow>
         let q = normalizeDocsRequest request; hash = queryHash (dq_Query q);
             u = \<lparr>us_ProjectID = dq_ProjectID q, us_CorpusID = dq_CorpusID q, us_EventType = ''search_docs'', us_QueryHash = hash,
                  us_ResultCount = 0, us_Limit = dq_Limit q, us_Status = []\<rparr> in
         if missingDocsFields q \<noteq> []
         then Inr (withStatus ''invalid_request'' (errorResponse ''invalid_request'' (missingDocsFields q) u))
         else (case withExecutionContext
               \<lparr>xc_RequestID = dq_RequestID q, xc_PrincipalID = dq_PrincipalID q, xc_TenantID = dq_TenantID q,
                xc_ProjectID = dq_ProjectID q, xc_CorpusID = dq_CorpusID q, xc_ToolName = ''search_docs'', xc_RunID = []\<rparr>
               ''retrieval'' of
             Inl _ \<Rightarrow> Inr (withStatus ''invalid_request'' (errorResponse ''invalid_request'' [] u))
           | Inr x \<Rightarrow>
               let d = checkCorpus (ds_Admission s) (Some x) ''search_docs'' hash in
               if \<not> ad_Allowed d
               then Inr (withStatus ''corpus_not_admitted''
                 ((errorResponse ''corpus_not_admitted'' [] u)\<lparr>dr_AuditIntent := ad_AuditIntent d\<rparr>))
               else (case retrieve (Some x) \<lparr>qu_Text = dq_Query q, qu_Limit = dq_Limit q\<rparr> of
                   Inl e \<Rightarrow> Inl e
                 | Inr rr \<Rightarrow> fromRetrievalResponse rr u)))"

section \<open>Governance records\<close>

record GovAudit =
  ga_PrincipalID :: string
  ga_TenantID :: string
  ga_ProjectID :: string
  ga_CorpusID :: string
  ga_ToolName :: string
  ga_ToolVersion :: string
  ga_ParametersHash :: string
  ga_Outcome :: string
  ga_LatencyMS :: int
  ga_SourceRefs :: "string list"
  ga_ErrorClass :: string

record GovUsage =
  gu_EventType :: string
  gu_TenantID :: string
  gu_ProjectID :: string
  gu_CorpusID :: string
  gu_ConnectorID :: string
  gu_Counts :: "(string \<times> int) list option"
  gu_LatencyMS :: int
  gu_TokenUnits :: "int option"
  gu_EmbeddingUnits :: "int option"
  gu_ErrorClass :: string

record ToolCall =
  tc_PrincipalID :: string
  tc_TenantID :: string
  tc_ProjectID :: string
  tc_CorpusID :: string
  tc_ToolName :: string
  tc_ToolVersion :: string
  tc_ParametersHash :: string
  tc_Outcome :: string
  tc_Latency :: int
  tc_SourceRefs :: "string list"
  tc_ErrorClass :: string
  tc_Counts :: "(string \<times> int) list option"

record GovStore =
  gs_AuditEvents :: "GovAudit list"
  gs_UsageEvents :: "GovUsage list"

record WriteFaults =
  wf_Audit :: bool
  wf_Usage :: bool

datatype GovFault = NoGovernanceStore | HashRequired | InvalidAudit | InvalidUsage | AuditWriteFailed | UsageWriteFailed
  | HashFailed

definition validOutcome :: "string \<Rightarrow> bool" where
  "validOutcome s \<longleftrightarrow> s \<in> {''success'', ''error'', ''denied''}"

definition validAudit :: "GovAudit \<Rightarrow> bool" where
  "validAudit e \<longleftrightarrow> list_all (\<lambda>v. trimSpace v \<noteq> [])
       [ga_PrincipalID e, ga_ProjectID e, ga_CorpusID e, ga_ToolName e, ga_ParametersHash e]
     \<and> validOutcome (ga_Outcome e) \<and> 0 \<le> ga_LatencyMS e \<and> (ga_Outcome e = ''denied'' \<longrightarrow> ga_SourceRefs e = [])"

definition usageEventTypes :: "string list" where
  "usageEventTypes = [''ingestion_run'', ''document_indexed'', ''embedding_batch'', ''mcp_tool_call'', ''agent_request'',
     ''connector_sync'']"

definition validUsage :: "GovUsage \<Rightarrow> bool" where
  "validUsage e \<longleftrightarrow> gu_EventType e \<in> set usageEventTypes \<and> trimSpace (gu_ProjectID e) \<noteq> [] \<and> trimSpace (gu_CorpusID e) \<noteq> []
     \<and> (case gu_Counts e of None \<Rightarrow> False | Some m \<Rightarrow> list_all (\<lambda>kv. trimSpace (fst kv) \<noteq> [] \<and> 0 \<le> snd kv) m)
     \<and> 0 \<le> gu_LatencyMS e
     \<and> (case gu_TokenUnits e of None \<Rightarrow> True | Some n \<Rightarrow> 0 \<le> n) \<and> (case gu_EmbeddingUnits e of None \<Rightarrow> True | Some n \<Rightarrow> 0 \<le> n)"

definition sortedNonEmpty :: "string list \<Rightarrow> string list" where
  "sortedNonEmpty vs = sort (remdups (filter (\<lambda>v. v \<noteq> []) (map trimSpace vs)))"

definition normalizedCounts :: "(string \<times> int) list option \<Rightarrow> (string \<times> int) list option" where
  "normalizedCounts counts =
     map_option (\<lambda>m. fold (\<lambda>kv acc. mapPut (trimSpace (fst kv)) (snd kv) acc) (sort_key fst m) []) counts"

definition eventsFromMCPToolCall :: "ToolCall \<Rightarrow> GovFault + GovAudit \<times> GovUsage" where
  "eventsFromMCPToolCall c =
     (let latency = max 0 (tc_Latency c div 1000000);
          a = \<lparr>ga_PrincipalID = trimSpace (tc_PrincipalID c), ga_TenantID = trimSpace (tc_TenantID c),
            ga_ProjectID = trimSpace (tc_ProjectID c), ga_CorpusID = trimSpace (tc_CorpusID c), ga_ToolName = trimSpace (tc_ToolName c),
            ga_ToolVersion = (if trimSpace (tc_ToolVersion c) = [] then ''p0'' else trimSpace (tc_ToolVersion c)),
            ga_ParametersHash = trimSpace (tc_ParametersHash c), ga_Outcome = tc_Outcome c, ga_LatencyMS = latency,
            ga_SourceRefs = sortedNonEmpty (tc_SourceRefs c), ga_ErrorClass = trimSpace (tc_ErrorClass c)\<rparr>;
          u = \<lparr>gu_EventType = ''mcp_tool_call'', gu_TenantID = trimSpace (tc_TenantID c), gu_ProjectID = trimSpace (tc_ProjectID c),
            gu_CorpusID = trimSpace (tc_CorpusID c), gu_ConnectorID = [], gu_Counts = normalizedCounts (tc_Counts c),
            gu_LatencyMS = latency, gu_TokenUnits = None, gu_EmbeddingUnits = None, gu_ErrorClass = trimSpace (tc_ErrorClass c)\<rparr> in
      if ga_ParametersHash a = [] then Inl HashRequired
      else if \<not> validAudit a then Inl InvalidAudit
      else if \<not> validUsage u then Inl InvalidUsage
      else Inr (a, u))"

text \<open>A write that fails, for an invalid record or in the store, leaves the store as it was.\<close>

definition writeAuditEvent :: "bool \<Rightarrow> GovAudit \<Rightarrow> GovStore \<Rightarrow> GovStore option" where
  "writeAuditEvent fails e st = (if validAudit e \<and> \<not> fails then Some (st\<lparr>gs_AuditEvents := gs_AuditEvents st @ [e]\<rparr>) else None)"

definition writeUsageEvent :: "bool \<Rightarrow> GovUsage \<Rightarrow> GovStore \<Rightarrow> GovStore option" where
  "writeUsageEvent fails e st = (if validUsage e \<and> \<not> fails then Some (st\<lparr>gs_UsageEvents := gs_UsageEvents st @ [e]\<rparr>) else None)"

definition recordMCPToolCall :: "WriteFaults \<Rightarrow> ToolCall \<Rightarrow> GovStore \<Rightarrow> (GovFault + GovAudit \<times> GovUsage) \<times> GovStore" where
  "recordMCPToolCall wfs c st = (case eventsFromMCPToolCall c of
       Inl e \<Rightarrow> (Inl e, st)
     | Inr (a, u) \<Rightarrow> (case writeAuditEvent (wf_Audit wfs) a st of
         None \<Rightarrow> (Inl AuditWriteFailed, st)
       | Some st1 \<Rightarrow> (case writeUsageEvent (wf_Usage wfs) u st1 of
           None \<Rightarrow> (Inl UsageWriteFailed, st1)
         | Some st2 \<Rightarrow> (Inr (a, u), st2))))"

definition hashParameters :: "Codec \<Rightarrow> (string \<times> JsonAny) list \<Rightarrow> string option" where
  "hashParameters cd m = map_option sha256 (cd_marshal cd (AnyObject m))"

section \<open>The boundary\<close>

record BearerAuthenticator =
  au_Token :: string
  au_PrincipalID :: string

record ToolRequest =
  tq_Authorization :: string
  tq_RequestID :: string
  tq_TenantID :: string
  tq_ProjectID :: string
  tq_CorpusID :: string
  tq_Query :: string
  tq_Limit :: int

record McpServer =
  mc_Authenticator :: BearerAuthenticator
  mc_SearchDocs :: "(DocsRequest \<Rightarrow> SearchFault + DocsResponse) option"
  mc_Governed :: bool

datatype ApiFault = NoSearchService | ServiceFault SearchFault | GovernanceFault GovFault

definition authenticate :: "BearerAuthenticator \<Rightarrow> string \<Rightarrow> string option" where
  "authenticate a header =
     (if trimSpace (au_Token a) = [] \<or> trimSpace (au_PrincipalID a) = [] then None
      else if \<not> hasPrefix header ''Bearer '' then None
      else let presented = trimSpace (drop 7 header) in
        if presented = [] then None
        else if sha256 (trimSpace (au_Token a)) \<noteq> sha256 presented then None
        else Some (trimSpace (au_PrincipalID a)))"

definition zeroUsage :: UsageInfo where
  "zeroUsage = \<lparr>us_ProjectID = [], us_CorpusID = [], us_EventType = [], us_QueryHash = [], us_ResultCount = 0, us_Limit = 0, us_Status = []\<rparr>"

definition boundaryError :: "string \<Rightarrow> string list \<Rightarrow> DocsResponse" where
  "boundaryError st fs = (errorResponse st fs zeroUsage)\<lparr>dr_Status := st\<rparr>"

definition normalizeToolRequest :: "ToolRequest \<Rightarrow> ToolRequest" where
  "normalizeToolRequest q =
     \<lparr>tq_Authorization = trimSpace (tq_Authorization q), tq_RequestID = trimSpace (tq_RequestID q),
      tq_TenantID = trimSpace (tq_TenantID q), tq_ProjectID = trimSpace (tq_ProjectID q), tq_CorpusID = trimSpace (tq_CorpusID q),
      tq_Query = trimSpace (tq_Query q), tq_Limit = tq_Limit q\<rparr>"

definition missingToolFields :: "ToolRequest \<Rightarrow> string list" where
  "missingToolFields q = map fst (filter (\<lambda>f. snd f = [])
     [(''request_id'', tq_RequestID q), (''tenant_id'', tq_TenantID q), (''project_id'', tq_ProjectID q),
      (''corpus_id'', tq_CorpusID q), (''query'', tq_Query q)])"

definition governanceOutcome :: "string \<Rightarrow> string" where
  "governanceOutcome st =
     (if st = ''corpus_not_admitted'' \<or> st = ''unauthorized'' then ''denied''
      else if st = ''ok'' \<or> st = ''no_evidence'' then ''success'' else ''error'')"

definition governanceErrorClass :: "DocsResponse \<Rightarrow> string" where
  "governanceErrorClass r = (case dr_Error r of
       Some e \<Rightarrow> ed_Class e
     | None \<Rightarrow> if dr_Status r = ''corpus_not_admitted'' then ''corpus_not_admitted'' else [])"

definition resultRefs :: "Hit list \<Rightarrow> string list" where
  "resultRefs hs = filter (\<lambda>v. v \<noteq> []) (map (\<lambda>h. trimSpace (ht_SourceRef h)) hs)"

definition governanceCounts :: "DocsResponse \<Rightarrow> (string \<times> int) list" where
  "governanceCounts r = [(''request_count'', 1), (''result_count'', int (length (dr_Results r))),
     (''source_ref_count'', int (length (resultRefs (dr_Results r)))),
     (''denied_count'', if governanceOutcome (dr_Status r) = ''denied'' then 1 else 0)]"

definition governanceHash :: "Codec \<Rightarrow> ToolRequest \<Rightarrow> DocsResponse \<Rightarrow> string" where
  "governanceHash cd q r = (case hashParameters cd [(''corpus_id'', AnyString (tq_CorpusID q)),
       (''query_hash'', AnyString (us_QueryHash (dr_Usage r))), (''limit'', AnyScalar (showInt (tq_Limit q)))] of
       None \<Rightarrow> [] | Some h \<Rightarrow> h)"

definition recordUnauthorized :: "Codec \<Rightarrow> WriteFaults \<Rightarrow> int \<Rightarrow> McpServer \<Rightarrow> ToolRequest \<Rightarrow> GovStore \<Rightarrow> GovFault option \<times> GovStore" where
  "recordUnauthorized cd wfs latency s request st =
     (if \<not> mc_Governed s then (None, st)
      else let q = normalizeToolRequest request in
        case hashParameters cd [(''auth_status'', AnyString ''unauthorized''), (''project_id'', AnyString ''dif-auth-unknown-project''),
            (''corpus_id'', AnyString ''dif-auth-unknown-corpus''), (''limit'', AnyScalar (showInt (tq_Limit q)))] of
          None \<Rightarrow> (Some HashFailed, st)
        | Some h \<Rightarrow> (case recordMCPToolCall wfs
            \<lparr>tc_PrincipalID = ''unauthenticated'', tc_TenantID = tq_TenantID q, tc_ProjectID = ''dif-auth-unknown-project'',
             tc_CorpusID = ''dif-auth-unknown-corpus'', tc_ToolName = ''search_docs'', tc_ToolVersion = ''p0'', tc_ParametersHash = h,
             tc_Outcome = ''denied'', tc_Latency = latency, tc_SourceRefs = [], tc_ErrorClass = ''unauthorized'',
             tc_Counts = Some [(''request_count'', 1), (''result_count'', 0), (''source_ref_count'', 0), (''denied_count'', 1)]\<rparr> st of
            (Inl e, st1) \<Rightarrow> (Some e, st1)
          | (Inr _, st1) \<Rightarrow> (None, st1)))"

definition invokeSearchDocs :: "Codec \<Rightarrow> WriteFaults \<Rightarrow> int \<Rightarrow> McpServer \<Rightarrow> ToolRequest \<Rightarrow> GovStore
    \<Rightarrow> (ApiFault + DocsResponse) \<times> GovStore" where
  "invokeSearchDocs cd wfs latency s request st = (case mc_SearchDocs s of
       None \<Rightarrow> (Inl NoSearchService, st)
     | Some search \<Rightarrow> (case authenticate (mc_Authenticator s) (trimSpace (tq_Authorization request)) of
         None \<Rightarrow> (case recordUnauthorized cd wfs latency s request st of
             (Some e, st1) \<Rightarrow> (Inl (GovernanceFault e), st1)
           | (None, st1) \<Rightarrow> (Inr (boundaryError ''unauthorized'' []), st1))
       | Some caller \<Rightarrow>
           let q = normalizeToolRequest request in
           if missingToolFields q \<noteq> [] then (Inr (boundaryError ''invalid_request'' (missingToolFields q)), st)
           else (case search \<lparr>dq_RequestID = tq_RequestID q, dq_PrincipalID = caller, dq_TenantID = tq_TenantID q,
                 dq_ProjectID = tq_ProjectID q, dq_CorpusID = tq_CorpusID q, dq_Query = tq_Query q, dq_Limit = tq_Limit q\<rparr> of
               Inl e \<Rightarrow> (Inl (ServiceFault e), st)
             | Inr out \<Rightarrow>
                 if \<not> mc_Governed s then (Inr out, st)
                 else (case recordMCPToolCall wfs
                     \<lparr>tc_PrincipalID = caller, tc_TenantID = tq_TenantID q, tc_ProjectID = tq_ProjectID q,
                      tc_CorpusID = tq_CorpusID q, tc_ToolName = ''search_docs'', tc_ToolVersion = ''p0'',
                      tc_ParametersHash = governanceHash cd q out, tc_Outcome = governanceOutcome (dr_Status out),
                      tc_Latency = latency, tc_SourceRefs = resultRefs (dr_Results out), tc_ErrorClass = governanceErrorClass out,
                      tc_Counts = Some (governanceCounts out)\<rparr> st of
                     (Inl e, st1) \<Rightarrow> (Inl (GovernanceFault e), st1)
                   | (Inr _, st1) \<Rightarrow> (Inr out, st1)))))"

record SearchHttp =
  hs_Method :: string
  hs_Authorization :: string
  hs_Body :: "ToolRequest option"

definition searchStatusCode :: "string \<Rightarrow> nat" where
  "searchStatusCode st =
     (if st = ''unauthorized'' then 401 else if st = ''invalid_request'' then 400 else if st = ''internal_error'' then 500
      else if st = ''corpus_not_admitted'' then 403 else 200)"

definition noToolRequest :: ToolRequest where
  "noToolRequest = \<lparr>tq_Authorization = [], tq_RequestID = [], tq_TenantID = [], tq_ProjectID = [], tq_CorpusID = [],
     tq_Query = [], tq_Limit = 0\<rparr>"

definition serveSearchDocsHTTP :: "Codec \<Rightarrow> WriteFaults \<Rightarrow> int \<Rightarrow> McpServer \<Rightarrow> SearchHttp \<Rightarrow> GovStore
    \<Rightarrow> (nat \<times> DocsResponse) \<times> GovStore" where
  "serveSearchDocsHTTP cd wfs latency s r st =
     (case authenticate (mc_Authenticator s) (hs_Authorization r) of
        None \<Rightarrow> (case recordUnauthorized cd wfs 0 s noToolRequest st of
            (Some e, st1) \<Rightarrow> ((500, boundaryError ''internal_error'' []), st1)
          | (None, st1) \<Rightarrow> ((401, boundaryError ''unauthorized'' []), st1))
      | Some _ \<Rightarrow>
          if hs_Method r \<noteq> ''POST'' then ((400, boundaryError ''invalid_request'' []), st)
          else case hs_Body r of
              None \<Rightarrow> ((400, boundaryError ''invalid_request'' []), st)
            | Some q \<Rightarrow> (case invokeSearchDocs cd wfs latency s (q\<lparr>tq_Authorization := hs_Authorization r\<rparr>) st of
                (Inl e, st1) \<Rightarrow> ((500, boundaryError ''internal_error'' []), st1)
              | (Inr out, st1) \<Rightarrow> ((searchStatusCode (dr_Status out), out), st1)))"

end
