(* ===== verification/Dif_Grounded.thy ===== *)
theory Dif_Grounded
  imports Dif_Extract Go_Decimal
begin

text \<open>
  Extraction against resolution: the anchor of every passage leads back to exactly its text in the file it
  was extracted from; what the text extractor covers, and what the Markdown extractor leaves out.
\<close>

section \<open>Trimmed strings\<close>

lemma trimSpace_hd: "trimSpace s \<noteq> [] \<Longrightarrow> \<not> isSpaceByte (hd (trimSpace s))"
proof -
  let ?u = "dropWhile isSpaceByte s"
  assume ne: "trimSpace s \<noteq> []"
  have "rev (takeWhile isSpaceByte (rev ?u) @ dropWhile isSpaceByte (rev ?u)) = rev (rev ?u)"
    by (simp only: takeWhile_dropWhile_id)
  then have u: "trimSpace s @ rev (takeWhile isSpaceByte (rev ?u)) = ?u"
    by (simp only: rev_append rev_rev_ident trimSpace_def)
  with ne have "hd (trimSpace s) = hd ?u" "?u \<noteq> []" by (metis hd_append, force)
  then show ?thesis using hd_dropWhile [of isSpaceByte s] by simp
qed

lemma trimSpace_end: "trimSpace s \<noteq> [] \<Longrightarrow> \<not> isSpaceByte (last (trimSpace s))"
  unfolding trimSpace_def by (simp add: last_rev hd_dropWhile)

lemma slash_byte: "\<not> isSpaceByte (if c = CHR 0x5C then CHR ''/'' else c) \<longleftrightarrow> \<not> isSpaceByte c"
  by (auto simp: isSpaceByte_def byte_def)

lemma slashPath_trim: "trimSpace (slashPath p) = slashPath p"
proof (cases "slashPath p = []")
  case False
  then have t: "trimSpace p \<noteq> []" by (simp add: slashPath_def)
  have "\<not> isSpaceByte (hd (slashPath p))" "\<not> isSpaceByte (last (slashPath p))"
    using trimSpace_hd [OF t] trimSpace_end [OF t] by (simp_all add: slashPath_def hd_map t last_map slash_byte)
  with False show ?thesis by (intro trimSpace_ends)
qed (simp add: trimSpace_def)

section \<open>References to lines\<close>

text \<open>Options whose ids can be written into a reference and read back.\<close>

definition cleanOptions :: "Options \<Rightarrow> bool" where
  "cleanOptions o1 \<longleftrightarrow> missingOptions o1 = [] \<and> CHR ''@'' \<notin> set (trimSpace (op_CorpusID o1))
     \<and> CHR '':'' \<notin> set (trimSpace (op_DocumentVersionID o1))"

definition lineRef :: "Options \<Rightarrow> string \<Rightarrow> nat \<Rightarrow> nat \<Rightarrow> string" where
  "lineRef o1 kind a b = trimSpace (op_CorpusID o1) @ CHR ''@'' # trimSpace (op_DocumentVersionID o1)
     @ CHR '':'' # kind @ CHR '':'' # linePayloadText o1 a b"

definition lineKind :: "string \<Rightarrow> bool" where
  "lineKind kind \<longleftrightarrow> kind = TypeMarkdown \<or> kind = TypeText"

lemma cleanOptions_ids:
  assumes "cleanOptions o1"
  shows "trimSpace (op_CorpusID o1) \<noteq> []" "trimSpace (op_DocumentVersionID o1) \<noteq> []" "trimSpace (op_Path o1) \<noteq> []"
    "CHR ''@'' \<notin> set (trimSpace (op_CorpusID o1))" "CHR '':'' \<notin> set (trimSpace (op_DocumentVersionID o1))"
  using assms by (auto simp: cleanOptions_def missingOptions_def split: if_splits)

lemma lineKind_chars:
  assumes "lineKind kind"
  shows "kind \<noteq> []" "CHR '':'' \<notin> set kind" "trimSpace kind = kind" "isSupported kind"
proof -
  have "kind = ''md'' \<or> kind = ''txt''" using assms by (simp add: lineKind_def anchor_types)
  then have "kind \<noteq> [] \<and> CHR '':'' \<notin> set kind \<and> trimSpace kind = kind \<and> isSupported kind"
    by (elim disjE) (simp_all add: isSupported_def anchor_types trimSpace_def isSpaceByte_def byte_def)
  then show "kind \<noteq> []" "CHR '':'' \<notin> set kind" "trimSpace kind = kind" "isSupported kind" by blast+
qed

lemma showNat_ends: "\<not> isSpaceByte (hd (showNat n))" "\<not> isSpaceByte (last (showNat n))" "CHR ''-'' \<notin> set (showNat n)"
proof -
  have d: "isDigit c" if "c \<in> set (showNat n)" for c using showNat_digits [of n] that by (auto simp: list_all_iff)
  have ne: "showNat n \<noteq> []" using showNat_digits [of n] by simp
  show "\<not> isSpaceByte (hd (showNat n))" using d [OF hd_in_set [OF ne]] by (rule isDigit_not)
  show "\<not> isSpaceByte (last (showNat n))" using d [OF last_in_set [OF ne]] by (rule isDigit_not)
  show "CHR ''-'' \<notin> set (showNat n)" using d isDigit_not(1) by blast
qed

lemma linePayload_trim:
  assumes "cleanOptions o1"
  shows "trimSpace (linePayloadText o1 a b) = linePayloadText o1 a b"
proof (rule trimSpace_ends)
  have ne: "slashPath (op_Path o1) \<noteq> []" using cleanOptions_ids(3) [OF assms] by (simp add: slashPath_def)
  show "linePayloadText o1 a b \<noteq> []" by (simp add: linePayloadText_def)
  show "\<not> isSpaceByte (hd (linePayloadText o1 a b))"
    using ne trimSpace_hd [of "slashPath (op_Path o1)"] by (simp add: linePayloadText_def slashPath_trim)
  show "\<not> isSpaceByte (last (linePayloadText o1 a b))"
    using showNat_ends(2) [of b] showNat_digits [of b] by (simp add: linePayloadText_def)
qed

lemma lineAnchor_ref:
  assumes "cleanOptions o1" and "lineKind kind"
  shows "an_SourceRef (lineAnchor o1 h a b t kind) = lineRef o1 kind a b"
  using linePayload_trim [OF assms(1)] lineKind_chars(3) [OF assms(2)]
  by (simp add: lineAnchor_def sourceRefString_def lineRef_def trimSpace_idem)

lemma lineRef_trim:
  assumes "cleanOptions o1"
  shows "trimSpace (lineRef o1 kind a b) = lineRef o1 kind a b"
proof (rule trimSpace_ends)
  note c = cleanOptions_ids [OF assms]
  show "lineRef o1 kind a b \<noteq> []" by (simp add: lineRef_def)
  show "\<not> isSpaceByte (hd (lineRef o1 kind a b))" using c(1) trimSpace_hd [OF c(1)] by (simp add: lineRef_def)
  show "\<not> isSpaceByte (last (lineRef o1 kind a b))"
    using showNat_ends(2) [of b] showNat_digits [of b] by (simp add: lineRef_def linePayloadText_def)
qed

lemma cutByte_append: "c \<notin> set l \<Longrightarrow> cutByte c (l @ c # r) = Some (l, r)"
  by (simp add: cutByte_Some)

lemma lineRef_parse:
  assumes "cleanOptions o1" and "lineKind kind"
  shows "parseSourceRef (lineRef o1 kind a b) = Some \<lparr>sr_CorpusID = trimSpace (op_CorpusID o1),
    sr_DocumentVersionID = trimSpace (op_DocumentVersionID o1), sr_AnchorType = kind, sr_Payload = linePayloadText o1 a b\<rparr>"
proof -
  note c = cleanOptions_ids [OF assms(1)] and k = lineKind_chars [OF assms(2)]
  have "linePayloadText o1 a b \<noteq> []" by (simp add: linePayloadText_def)
  with c k show ?thesis
    unfolding parseSourceRef_def lineRef_trim [OF assms(1)]
    by (simp add: lineRef_def cutByte_append)
qed

lemma lineRef_print:
  assumes "cleanOptions o1" and "lineKind kind"
  shows "sourceRefString \<lparr>sr_CorpusID = trimSpace (op_CorpusID o1), sr_DocumentVersionID = trimSpace (op_DocumentVersionID o1),
    sr_AnchorType = kind, sr_Payload = linePayloadText o1 a b\<rparr> = lineRef o1 kind a b"
  using linePayload_trim [OF assms(1)] lineKind_chars(3) [OF assms(2)]
  by (simp add: sourceRefString_def lineRef_def trimSpace_idem)

lemma lineRef_inject: "lineRef o1 kind a b = lineRef o1 kind a' b' \<longleftrightarrow> a = a' \<and> b = b'"
proof
  assume "lineRef o1 kind a b = lineRef o1 kind a' b'"
  then have "showNat a @ CHR ''-'' # CHR ''L'' # showNat b = showNat a' @ CHR ''-'' # CHR ''L'' # showNat b'"
    by (simp add: lineRef_def linePayloadText_def)
  then have "showNat a = showNat a'" "showNat b = showNat b'"
    by (simp_all add: split_at_first showNat_ends(3))
  then show "a = a' \<and> b = b'" by (metis digitsVal_showNat)
qed simp

section \<open>Every anchor shows its lines\<close>

lemma addEdge_keeps [simp]:
  "ex_Anchors (addEdge o1 f t i n r) = ex_Anchors r" "ex_Passages (addEdge o1 f t i n r) = ex_Passages r"
  by (simp_all add: addEdge_def)

lemma addNode_anchors:
  "ex_Anchors (snd (addNode o1 kind parent n h a b t at r))
     = ex_Anchors r @ (if trimSpace t \<noteq> [] \<and> 0 < a \<and> a \<le> b then [lineAnchor o1 h a b t at] else [])"
  by (simp add: addNode_def Let_def)

lemma computeAnchorID_ne [simp]: "an_AnchorID (lineAnchor o1 h a b t at) \<noteq> []"
  by (simp add: lineAnchor_def computeAnchorID_def)

lemma addNode_passages:
  obtains p where "ex_Passages (snd (addNode o1 kind parent n h a b t at r))
      = ex_Passages r @ (if kind = NodeBlock \<and> trimSpace t \<noteq> [] \<and> 0 < a \<and> a \<le> b then [p] else [])"
    "pg_AnchorID p = an_AnchorID (lineAnchor o1 h a b t at)" "pg_SourceRef p = an_SourceRef (lineAnchor o1 h a b t at)"
    "pg_Text p = t" "pg_CorpusID p = trimSpace (op_CorpusID o1)"
    "pg_DocumentVersionID p = trimSpace (op_DocumentVersionID o1)" "pg_DocumentID p = trimSpace (op_DocumentID o1)"
proof -
  define i where "i = an_AnchorID (lineAnchor o1 h a b t at)"
  define nodeID where "nodeID = stableID [''node'', op_CorpusID o1, op_DocumentVersionID o1, kindName kind, slashPath (op_Path o1),
    showNat n, h, showNat a @ ''-'' @ showNat b]"
  let ?p = "\<lparr>pg_PassageID = stableID [''passage'', op_CorpusID o1, op_DocumentVersionID o1, nodeID, i],
    pg_CorpusID = trimSpace (op_CorpusID o1), pg_DocumentID = trimSpace (op_DocumentID o1),
    pg_DocumentVersionID = trimSpace (op_DocumentVersionID o1), pg_NodeID = nodeID, pg_AnchorID = i,
    pg_SourceRef = an_SourceRef (lineAnchor o1 h a b t at), pg_Text = t, pg_ContentHash = contentHash t\<rparr>"
  show thesis by (rule that [of ?p]) (simp_all add: addNode_def Let_def i_def nodeID_def)
qed

text \<open>The anchor of a range of the lines.\<close>

abbreviation rangeAnchor :: "Options \<Rightarrow> string \<Rightarrow> string list \<Rightarrow> string \<Rightarrow> nat \<Rightarrow> nat \<Rightarrow> Anchor" where
  "rangeAnchor o1 kind lines h a b \<equiv> lineAnchor o1 h a b (lineRangeText lines a b) kind"

definition rangeOf :: "Options \<Rightarrow> string \<Rightarrow> string list \<Rightarrow> Anchor \<Rightarrow> bool" where
  "rangeOf o1 kind lines x \<longleftrightarrow> (\<exists>h a b. x = rangeAnchor o1 kind lines h a b \<and> 1 \<le> a \<and> a \<le> b \<and> b \<le> length lines)"

definition passageOf :: "Options \<Rightarrow> string \<Rightarrow> string list \<Rightarrow> Anchor set \<Rightarrow> Passage \<Rightarrow> bool" where
  "passageOf o1 kind lines anchors p \<longleftrightarrow> (\<exists>h a b. rangeAnchor o1 kind lines h a b \<in> anchors
     \<and> pg_AnchorID p = an_AnchorID (rangeAnchor o1 kind lines h a b)
     \<and> pg_SourceRef p = an_SourceRef (rangeAnchor o1 kind lines h a b) \<and> pg_Text p = lineRangeText lines a b)"

definition anchored :: "Options \<Rightarrow> string \<Rightarrow> string list \<Rightarrow> Extraction \<Rightarrow> bool" where
  "anchored o1 kind lines r \<longleftrightarrow> (\<forall>x\<in>set (ex_Anchors r). rangeOf o1 kind lines x)
     \<and> (\<forall>p\<in>set (ex_Passages r). passageOf o1 kind lines (set (ex_Anchors r)) p)"

lemma passageOf_mono: "passageOf o1 kind lines A p \<Longrightarrow> A \<subseteq> B \<Longrightarrow> passageOf o1 kind lines B p"
  unfolding passageOf_def by blast

lemma addNode_other: "kind \<noteq> NodeBlock \<Longrightarrow> ex_Passages (snd (addNode o1 kind parent n h a b t at r)) = ex_Passages r"
  by (simp add: addNode_def Let_def)

lemma addNode_block:
  assumes "trimSpace t \<noteq> []" and "0 < a" and "a \<le> b"
  obtains p where "ex_Passages (snd (addNode o1 NodeBlock parent n h a b t at r)) = ex_Passages r @ [p]" "pg_Text p = t"
  by (rule addNode_passages [of o1 NodeBlock parent n h a b t at r]) (use assms that in simp)

lemma addNode_anchored:
  assumes "anchored o1 at lines r" and "t = lineRangeText lines a b" and "b \<le> length lines"
  shows "anchored o1 at lines (snd (addNode o1 kind parent n h a b t at r))"
proof -
  let ?r = "snd (addNode o1 kind parent n h a b t at r)"
  obtain p where p: "ex_Passages ?r
      = ex_Passages r @ (if kind = NodeBlock \<and> trimSpace t \<noteq> [] \<and> 0 < a \<and> a \<le> b then [p] else [])"
    "pg_AnchorID p = an_AnchorID (lineAnchor o1 h a b t at)" "pg_SourceRef p = an_SourceRef (lineAnchor o1 h a b t at)" "pg_Text p = t"
    by (rule addNode_passages)
  have sub: "set (ex_Anchors r) \<subseteq> set (ex_Anchors ?r)" by (simp add: addNode_anchors)
  have "rangeOf o1 at lines x" if "x \<in> set (ex_Anchors ?r)" for x
  proof (cases "x \<in> set (ex_Anchors r)")
    case False
    with that have "x = rangeAnchor o1 at lines h a b" "1 \<le> a" "a \<le> b"
      by (simp_all add: addNode_anchors assms(2) Suc_le_eq split: if_splits)
    with assms(3) show ?thesis unfolding rangeOf_def by blast
  qed (use assms(1) in \<open>simp add: anchored_def\<close>)
  moreover have "passageOf o1 at lines (set (ex_Anchors ?r)) q" if "q \<in> set (ex_Passages ?r)" for q
  proof (cases "q \<in> set (ex_Passages r)")
    case True
    with assms(1) show ?thesis unfolding anchored_def using passageOf_mono [OF _ sub] by blast
  next
    case False
    with that have q: "q = p" "trimSpace t \<noteq> []" "0 < a" "a \<le> b" by (auto simp: p(1) split: if_splits)
    then have "rangeAnchor o1 at lines h a b \<in> set (ex_Anchors ?r)" by (simp add: addNode_anchors assms(2))
    with q(1) p(2-4) show ?thesis unfolding passageOf_def assms(2) by blast
  qed
  ultimately show ?thesis by (simp add: anchored_def)
qed

lemma textLoop_anchored:
  assumes "anchored o1 TypeText lines r"
  shows "anchored o1 TypeText lines (textLoop o1 doc lines i n r)"
  using assms
proof (induction o1 doc lines i n r rule: textLoop.induct)
  case (1 o1 doc lines i n r)
  show ?case
  proof (cases "i < length lines \<and> \<not> blankLine (lines ! i)")
    case True
    define b where "b = scanWhile (\<lambda>l. \<not> blankLine l) lines i"
    have "b \<le> length lines" unfolding b_def using True by (intro scanWhile_le) simp
    from addNode_anchored [OF "1.prems" refl this] "1.IH"(2) [OF _ _ b_def] True show ?thesis
      by (subst textLoop.simps) (simp add: b_def [symmetric] Let_def)
  next
    case False
    with "1.prems" "1.IH"(1) show ?thesis by (subst textLoop.simps) auto
  qed
qed

lemma blockRange_le: "b \<le> n \<Longrightarrow> snd (blockRange h start b) \<le> n"
  by (auto simp: blockRange_def)

lemma markdownLoop_anchored:
  assumes "anchored o1 TypeMarkdown lines r"
  shows "anchored o1 TypeMarkdown lines (markdownLoop o1 doc lines i st r)"
  using assms
proof (induction o1 doc lines i st r rule: markdownLoop.induct)
  case (1 o1 doc lines i st r)
  note loop = markdownLoop.simps [of o1 doc lines i st r]
  consider (stop) "\<not> i < length lines" | (heading) level title where "i < length lines" "parseHeading (lines ! i) = Some (level, title)"
    | (blank) "i < length lines" "parseHeading (lines ! i) = None" "blankLine (lines ! i)"
    | (block) "i < length lines" "parseHeading (lines ! i) = None" "\<not> blankLine (lines ! i)"
    by (cases "parseHeading (lines ! i)") auto
  then show ?case
  proof cases
    case stop
    with "1.prems" loop show ?thesis by simp
  next
    case heading
    define stack where "stack = pushHeading level title (md_stack st)"
    define path where "path = joinHeadingPath stack"
    obtain sec r1 where node: "addNode o1 NodeSection doc (md_ordinal st) path (i + 1) (i + 1) (lines ! i) TypeMarkdown r = (sec, r1)"
      by fastforce
    have "lines ! i = lineRangeText lines (i + 1) (i + 1)"
      using heading(1) by (simp add: lineRangeText_def take_Suc_conv_app_nth Cons_nth_drop_Suc [symmetric])
    from addNode_anchored [OF "1.prems" this, of NodeSection doc "md_ordinal st" path] heading(1)
    have "anchored o1 TypeMarkdown lines r1" using node by simp
    from "1.IH"(3) [OF _ heading(2) refl stack_def path_def node [symmetric] refl this] heading(1) show ?thesis
      using node unfolding loop by (simp add: heading(2) stack_def path_def Let_def)
  next
    case blank
    with "1.prems" "1.IH"(1) loop show ?thesis by simp
  next
    case block
    define b where "b = scanWhile blockLine lines i"
    obtain a z where az: "blockRange (md_headingLine st) (i + 1) b = (a, z)" by fastforce
    have "b \<le> length lines" unfolding b_def using block(1) by (intro scanWhile_le) simp
    then have "z \<le> length lines" using blockRange_le [of b "length lines" "md_headingLine st" "i + 1"] az by simp
    from addNode_anchored [OF "1.prems" refl this] "1.IH"(2) [OF _ block(2,3) b_def az [symmetric] refl] block show ?thesis
      using az unfolding loop by (simp add: b_def [symmetric] Let_def)
  qed
qed

section \<open>Extraction and resolution\<close>

lemma trimSpace_subset: "set (trimSpace s) \<subseteq> set s"
  unfolding trimSpace_def by (metis set_dropWhileD set_rev subsetI)

lemma unixLines_keeps: "c \<in> set s \<Longrightarrow> c \<noteq> CHR 0x0D \<Longrightarrow> c \<noteq> CHR 0x0A \<Longrightarrow> c \<in> set (unixLines s)"
proof (induction s rule: length_induct)
  case (1 s)
  then obtain d t where s: "s = d # t" by (cases s) auto
  show ?case
  proof (cases "d = CHR 0x0D")
    case True
    with 1(2-4) s have t: "c \<in> set t" by auto
    then obtain e u where t2: "t = e # u" by (cases t) auto
    show ?thesis
    proof (cases "e = CHR 0x0A")
      case True
      with t t2 1(4) have "c \<in> set u" by auto
      with 1(1,3,4) s t2 True \<open>d = CHR 0x0D\<close> show ?thesis by simp
    next
      case False
      have "unixLines s = CHR 0x0A # unixLines t"
        unfolding s \<open>d = CHR 0x0D\<close> by (subst unixLines.simps) (simp add: t2 False del: unixLines.simps)
      moreover have "c \<in> set (unixLines t)" using 1(1,3,4) t s by simp
      ultimately show ?thesis by simp
    qed
  next
    case False
    with 1 s show ?thesis by auto
  qed
qed

lemma splitByte_ne [simp]: "splitByte c s \<noteq> []"
  by (induction s) (auto split: list.split)

lemma splitLines_ne:
  assumes "trimSpace content \<noteq> []"
  shows "splitLines content \<noteq> []"
proof -
  obtain c where c: "c \<in> set content" "\<not> isSpaceByte c"
    using trimSpace_hd [OF assms] trimSpace_subset [of content] hd_in_set [OF assms] by blast
  then have "c \<noteq> CHR 0x0D" "c \<noteq> CHR 0x0A" by (auto simp: isSpaceByte_def byte_def)
  with c(1) unixLines_keeps have mem: "c \<in> set (unixLines content)" "c \<noteq> CHR 0x0A" by blast+
  then have "trimBreak (unixLines content) \<noteq> []"
    unfolding trimBreak_def by (cases "unixLines content" rule: rev_cases) auto
  then show ?thesis by (simp add: splitLines_def Let_def)
qed

definition extracted :: "string \<Rightarrow> string \<Rightarrow> Options \<Rightarrow> Extraction \<Rightarrow> bool" where
  "extracted kind content o1 r \<longleftrightarrow>
     (kind = TypeText \<and> extractText content o1 = Inr r) \<or> (kind = TypeMarkdown \<and> extractMarkdown content o1 = Inr r)"

lemma base_anchored: "anchored o1 kind lines (newBaseResult o1 format lines)"
  by (simp add: anchored_def newBaseResult_def)

lemma extracted_anchored:
  assumes "extracted kind content o1 r"
  shows "anchored o1 kind (splitLines content) r" and "lineKind kind"
proof -
  let ?ls = "splitLines content"
  have whole: "strJoin [CHR 0x0A] ?ls = lineRangeText ?ls 1 (length ?ls)" if "trimSpace content \<noteq> []"
    using splitLines_ne [OF that] by (cases ?ls) (simp_all add: lineRangeText_def)
  have doc: "anchored o1 kind ?ls (snd (addNode o1 NodeDocument [] 0 [] 1 (length ?ls) (strJoin [CHR 0x0A] ?ls) kind
      (newBaseResult o1 format ?ls)))" if "trimSpace content \<noteq> []" for format
    by (rule addNode_anchored [OF base_anchored whole [OF that]]) simp
  from assms consider "kind = TypeText" "extractText content o1 = Inr r" | "kind = TypeMarkdown" "extractMarkdown content o1 = Inr r"
    by (auto simp: extracted_def)
  then show "anchored o1 kind ?ls r"
  proof cases
    case 1
    then have ne: "trimSpace content \<noteq> []" by (auto simp: extractText_def split: if_splits)
    from 1 doc [OF ne, of "''txt''"] show ?thesis
      by (auto simp: extractText_def Let_def split_beta intro!: textLoop_anchored split: if_splits)
  next
    case 2
    then have ne: "trimSpace content \<noteq> []" by (auto simp: extractMarkdown_def split: if_splits)
    from 2 doc [OF ne, of "''md''"] show ?thesis
      by (auto simp: extractMarkdown_def Let_def split_beta intro!: markdownLoop_anchored split: if_splits)
  qed
  show "lineKind kind" using assms by (auto simp: extracted_def lineKind_def)
qed

text \<open>Registering the anchors of an extraction one after the other.\<close>

definition registerAll :: "Anchor list \<Rightarrow> AnchorCatalog \<Rightarrow> AnchorCatalog" where
  "registerAll as c = fold (\<lambda>a c. case registerAnchor a c of Inl _ \<Rightarrow> c | Inr c' \<Rightarrow> c') as c"

lemma registerAnchor_range:
  assumes "cleanOptions o1" and "lineKind kind"
  shows "registerAnchor (lineAnchor o1 h a b t kind) c = Inr (c\<lparr>
      ac_AnchorsByID := (ac_AnchorsByID c)(an_AnchorID (lineAnchor o1 h a b t kind) \<mapsto> lineAnchor o1 h a b t kind),
      ac_AnchorsBySourceRef := (ac_AnchorsBySourceRef c)(lineRef o1 kind a b \<mapsto> lineAnchor o1 h a b t kind)\<rparr>)"
proof -
  have same: "(lineAnchor o1 h a b t kind)\<lparr>an_CorpusID := trimSpace (op_CorpusID o1),
      an_DocumentVersionID := trimSpace (op_DocumentVersionID o1), an_AnchorType := kind\<rparr> = lineAnchor o1 h a b t kind"
    by (simp add: lineAnchor_def)
  show ?thesis
    using lineKind_chars(4) [OF assms(2)]
    by (simp add: registerAnchor_def lineAnchor_ref [OF assms] lineRef_parse [OF assms] same Let_def)
qed

lemma registerAll_versions:
  "cleanOptions o1 \<Longrightarrow> lineKind kind \<Longrightarrow> \<forall>x\<in>set as. rangeOf o1 kind lines x
    \<Longrightarrow> ac_DocumentVersions (registerAll as c) = ac_DocumentVersions c"
  unfolding registerAll_def
proof (induction as arbitrary: c)
  case (Cons x as)
  then obtain h a b where "x = rangeAnchor o1 kind lines h a b" by (auto simp: rangeOf_def)
  with Cons show ?case by (simp add: registerAnchor_range)
qed simp

text \<open>Under a reference stands an anchor of its range, if one of the range was registered.\<close>

lemma registerAll_ref:
  assumes "cleanOptions o1" and "lineKind kind" and "\<forall>x\<in>set as. rangeOf o1 kind lines x"
    and "rangeAnchor o1 kind lines h a b \<in> set as"
  shows "\<exists>h'. ac_AnchorsBySourceRef (registerAll as c) (lineRef o1 kind a b) = Some (rangeAnchor o1 kind lines h' a b)"
proof -
  define shown where "shown = (\<lambda>c::AnchorCatalog. \<exists>h'. ac_AnchorsBySourceRef c (lineRef o1 kind a b) = Some (rangeAnchor o1 kind lines h' a b))"
  have keep: "shown c \<Longrightarrow> \<forall>x\<in>set as. rangeOf o1 kind lines x \<Longrightarrow> shown (registerAll as c)" for as c
    unfolding registerAll_def
  proof (induction as arbitrary: c)
    case (Cons x as)
    then obtain h a' b' where x: "x = rangeAnchor o1 kind lines h a' b'" by (auto simp: rangeOf_def)
    have "shown (case registerAnchor x c of Inl _ \<Rightarrow> c | Inr c' \<Rightarrow> c')"
      using Cons.prems(1) unfolding shown_def x registerAnchor_range [OF assms(1,2)] sum.case
      by (cases "a = a' \<and> b = b'") (auto simp: lineRef_inject)
    with Cons show ?case by simp
  qed simp
  from assms(3,4) have "shown (registerAll as c)"
  proof (induction as arbitrary: c)
    case (Cons x as)
    show ?case
    proof (cases "x = rangeAnchor o1 kind lines h a b")
      case True
      have "shown (case registerAnchor x c of Inl _ \<Rightarrow> c | Inr c' \<Rightarrow> c')"
        unfolding True shown_def registerAnchor_range [OF assms(1,2)] by auto
      from keep [OF this, of as] Cons.prems show ?thesis by (simp add: registerAll_def)
    next
      case False
      with Cons show ?thesis by (simp add: registerAll_def)
    qed
  qed simp
  then show ?thesis by (simp add: shown_def)
qed

lemma lineRange_slice:
  "1 \<le> a \<Longrightarrow> a \<le> b \<Longrightarrow> b \<le> length lines \<Longrightarrow> sliceLines (int a) (int b) lines = lineRangeText lines a b"
  by (simp add: sliceLines_def lineRangeText_def nat_diff_distrib)

text \<open>A catalog that holds an extraction: the file it was made from under its version and path, and its
  anchors under their references, up to the heading path of those that share one.\<close>

definition holdsFile :: "FileSystem \<Rightarrow> AnchorCatalog \<Rightarrow> Options \<Rightarrow> string \<Rightarrow> bool" where
  "holdsFile fs c o1 content \<longleftrightarrow> (\<exists>v file. ac_DocumentVersions c (trimSpace (op_DocumentVersionID o1)) = Some v
     \<and> map_of (dv_Sources v) (slashPath (op_Path o1)) = Some file \<and> readFile fs file = Some content)"

definition holdsAnchors :: "AnchorCatalog \<Rightarrow> Extraction \<Rightarrow> bool" where
  "holdsAnchors c r \<longleftrightarrow> (\<forall>x\<in>set (ex_Anchors r). \<exists>h. ac_AnchorsBySourceRef c (an_SourceRef x) = Some (x\<lparr>an_HeadingPath := h\<rparr>))"

definition catalogued :: "FileSystem \<Rightarrow> AnchorCatalog \<Rightarrow> Extraction \<Rightarrow> bool" where
  "catalogued fs c r \<longleftrightarrow> (\<exists>kind content o1. extracted kind content o1 r \<and> cleanOptions o1 \<and> holdsFile fs c o1 content \<and> holdsAnchors c r)"

lemma passage_anchor:
  assumes "extracted kind content o1 r" and "cleanOptions o1" and "p \<in> set (ex_Passages r)"
  obtains h a b where "rangeAnchor o1 kind (splitLines content) h a b \<in> set (ex_Anchors r)"
    "pg_AnchorID p = an_AnchorID (rangeAnchor o1 kind (splitLines content) h a b)" "pg_SourceRef p = lineRef o1 kind a b"
    "pg_Text p = lineRangeText (splitLines content) a b" "1 \<le> a" "a \<le> b" "b \<le> length (splitLines content)"
proof -
  let ?ls = "splitLines content"
  note an = extracted_anchored [OF assms(1)]
  obtain h a b where mem: "rangeAnchor o1 kind ?ls h a b \<in> set (ex_Anchors r)"
    and p: "pg_AnchorID p = an_AnchorID (rangeAnchor o1 kind ?ls h a b)"
      "pg_SourceRef p = lineRef o1 kind a b" "pg_Text p = lineRangeText ?ls a b"
    using an(1) assms(3) lineAnchor_ref [OF assms(2) an(2)] unfolding anchored_def passageOf_def by auto
  obtain h1 a1 b1 where "rangeAnchor o1 kind ?ls h a b = rangeAnchor o1 kind ?ls h1 a1 b1" "1 \<le> a1" "a1 \<le> b1" "b1 \<le> length ?ls"
    using an(1) mem unfolding anchored_def rangeOf_def by blast
  then have "1 \<le> a" "a \<le> b" "b \<le> length ?ls" by (simp_all add: lineAnchor_def)
  with mem p show thesis by (rule that)
qed

lemma lineAnchor_heading: "(lineAnchor o1 h a b t kind)\<lparr>an_HeadingPath := trimSpace h'\<rparr> = lineAnchor o1 h' a b t kind"
  by (simp add: lineAnchor_def)

lemma passage_resolves:
  assumes "extracted kind content o1 r" and "cleanOptions o1" and "holdsFile fs c o1 content" and "holdsAnchors c r"
    and "p \<in> set (ex_Passages r)"
  shows "\<exists>res. resolveSourceRef cd fs c (pg_SourceRef p) = Some res
     \<and> rs_Status res = StatusResolved \<and> rs_Excerpt res = pg_Text p \<and> rs_SourceRef res = pg_SourceRef p
     \<and> rs_AnchorID res = pg_AnchorID p \<and> rs_ContentHash res = contentHash (pg_Text p)"
proof -
  let ?ls = "splitLines content" and ?D = "trimSpace (op_DocumentVersionID o1)"
  note kind = extracted_anchored(2) [OF assms(1)]
  obtain h a b where mem: "rangeAnchor o1 kind ?ls h a b \<in> set (ex_Anchors r)"
    and p: "pg_AnchorID p = an_AnchorID (rangeAnchor o1 kind ?ls h a b)" "pg_SourceRef p = lineRef o1 kind a b"
      "pg_Text p = lineRangeText ?ls a b" and ab: "1 \<le> a" "a \<le> b" "b \<le> length ?ls"
    by (rule passage_anchor [OF assms(1,2,5)])
  define x where "x = rangeAnchor o1 kind ?ls h a b"
  obtain h' where ref: "ac_AnchorsBySourceRef c (lineRef o1 kind a b) = Some (x\<lparr>an_HeadingPath := h'\<rparr>)"
    using assms(4) mem lineAnchor_ref [OF assms(2) kind, of h a b "lineRangeText ?ls a b"] unfolding holdsAnchors_def x_def by metis
  have x: "an_SourceRef x = lineRef o1 kind a b" "an_DocumentVersionID x = ?D" "an_Path x = slashPath (op_Path o1)"
    "an_AnchorType x = kind" "an_LineStart x = int a" "an_LineEnd x = int b" "an_ContentHash x = contentHash (lineRangeText ?ls a b)"
    using lineAnchor_ref [OF assms(2) kind, of h a b "lineRangeText ?ls a b"] by (simp_all add: x_def) (simp_all add: lineAnchor_def)
  obtain v path where v: "ac_DocumentVersions c ?D = Some v" "map_of (dv_Sources v) (slashPath (op_Path o1)) = Some path"
    and src: "readFile fs path = Some content" using assms(3) by (auto simp: holdsFile_def)
  have "resolveExcerpt cd fs c (x\<lparr>an_HeadingPath := h'\<rparr>) = Found (lineRangeText ?ls a b)"
    using v src ab kind lineRange_slice [OF ab]
    by (auto simp: resolveExcerpt_def filesystemPath_def x normalizePath_def slashPath_trim readFile_def
        resolveLineExcerpt_def lineKind_def Let_def split: option.splits File.splits)
  then have "resolveAnchor cd fs c (x\<lparr>an_HeadingPath := h'\<rparr>) = Some \<lparr>rs_Status = StatusResolved,
      rs_AnchorID = an_AnchorID x, rs_SourceRef = lineRef o1 kind a b, rs_DocumentVersionID = ?D,
      rs_Excerpt = lineRangeText ?ls a b, rs_ContentHash = contentHash (lineRangeText ?ls a b), rs_Caveats = an_Caveats x\<rparr>"
    by (simp add: resolveAnchor_def unresolved_def x)
  then show ?thesis
    using v(1) ref lineRef_parse [OF assms(2) kind] lineRef_print [OF assms(2) kind] lineKind_chars(4) [OF kind]
    by (simp add: resolveSourceRef_def p x_def [symmetric] Let_def)
qed

lemma registered_holds:
  assumes "extracted kind content o1 r" and "cleanOptions o1"
    and "registerDocumentVersion \<lparr>dv_DocumentVersionID = trimSpace (op_DocumentVersionID o1),
      dv_Sources = [(op_Path o1, file)]\<rparr> c0 = Inr c"
    and "CHR 0x5C \<notin> set (op_Path o1)" and "readFile fs (trimSpace file) = Some content"
  shows "holdsFile fs (registerAll (ex_Anchors r) c) o1 content" and "holdsAnchors (registerAll (ex_Anchors r) c) r"
proof -
  note an = extracted_anchored [OF assms(1)]
  have anchors: "\<forall>x\<in>set (ex_Anchors r). rangeOf o1 kind (splitLines content) x" using an(1) by (simp add: anchored_def)
  have path: "slashPath (op_Path o1) = trimSpace (op_Path o1)"
  proof -
    have "CHR 0x5C \<notin> set (trimSpace (op_Path o1))" using assms(4) by (auto simp: trimSpace_def dest!: set_dropWhileD)
    then show ?thesis unfolding slashPath_def by (intro map_idI) auto
  qed
  show "holdsFile fs (registerAll (ex_Anchors r) c) o1 content"
    using assms(3,5) registerAll_versions [OF assms(2) an(2) anchors, of c]
    by (auto simp: registerDocumentVersion_def Let_def normalizePath_def trimSpace_idem path holdsFile_def split: if_splits)
  have "\<exists>h. ac_AnchorsBySourceRef (registerAll (ex_Anchors r) c) (an_SourceRef x) = Some (x\<lparr>an_HeadingPath := h\<rparr>)"
    if mem: "x \<in> set (ex_Anchors r)" for x
  proof -
    obtain h a b where x: "x = rangeAnchor o1 kind (splitLines content) h a b" using anchors mem unfolding rangeOf_def by blast
    from registerAll_ref [OF assms(2) an(2) anchors mem [unfolded x], of c] show ?thesis
      unfolding x lineAnchor_ref [OF assms(2) an(2)] using lineAnchor_heading by metis
  qed
  then show "holdsAnchors (registerAll (ex_Anchors r) c) r" by (simp add: holdsAnchors_def)
qed

text \<open>
  C24: evidence is verbatim.  Let the corpus id of the options have no \<open>@\<close>, the version id no \<open>:\<close> and the path
  no backslash, which \<open>Options.validate\<close> does not ask for.  Then every passage that the text or the Markdown
  extractor emits for a file resolves, through the catalog with the extraction's anchors and the file of its
  document version, to exactly the passage's text, with the content hash the anchor was given.
\<close>

theorem passages_resolve_verbatim:
  assumes "extracted kind content o1 r" and "cleanOptions o1" and "p \<in> set (ex_Passages r)"
    and "registerDocumentVersion \<lparr>dv_DocumentVersionID = trimSpace (op_DocumentVersionID o1),
      dv_Sources = [(op_Path o1, file)]\<rparr> c0 = Inr c"
    and "CHR 0x5C \<notin> set (op_Path o1)" and "readFile fs (trimSpace file) = Some content"
  shows "\<exists>res. resolveSourceRef cd fs (registerAll (ex_Anchors r) c) (pg_SourceRef p) = Some res
     \<and> rs_Status res = StatusResolved \<and> rs_Excerpt res = pg_Text p \<and> rs_SourceRef res = pg_SourceRef p
     \<and> rs_AnchorID res = pg_AnchorID p \<and> rs_ContentHash res = contentHash (pg_Text p)"
  using passage_resolves [OF assms(1,2) registered_holds [OF assms(1,2,4-6)] assms(3)] .

section \<open>What is covered\<close>

text \<open>A passage that shows line \<open>j\<close>, counted from 0.\<close>

definition coveredLine :: "string list \<Rightarrow> nat \<Rightarrow> Extraction \<Rightarrow> bool" where
  "coveredLine lines j r \<longleftrightarrow> (\<exists>p\<in>set (ex_Passages r). \<exists>a b. pg_Text p = lineRangeText lines a b
     \<and> 1 \<le> a \<and> a \<le> j + 1 \<and> j + 1 \<le> b \<and> b \<le> length lines)"

lemma textLoop_keeps: "set (ex_Passages r) \<subseteq> set (ex_Passages (textLoop o1 doc lines i n r))"
proof (induction o1 doc lines i n r rule: textLoop.induct)
  case (1 o1 doc lines i n r)
  define b where "b = scanWhile (\<lambda>l. \<not> blankLine l) lines i"
  obtain p where "ex_Passages (snd (addNode o1 NodeBlock doc n [] (i + 1) b (lineRangeText lines (i + 1) b) TypeText r))
      = ex_Passages r @ (if NodeBlock = NodeBlock \<and> trimSpace (lineRangeText lines (i + 1) b) \<noteq> [] \<and> 0 < i + 1 \<and> i + 1 \<le> b then [p] else [])"
    by (rule addNode_passages)
  then have add: "set (ex_Passages r) \<subseteq> set (ex_Passages (snd (addNode o1 NodeBlock doc n [] (i + 1) b (lineRangeText lines (i + 1) b) TypeText r)))"
    by auto
  show ?case
    using "1.IH"(1) order_trans [OF add "1.IH"(2) [OF _ _ b_def]]
    by (subst textLoop.simps) (auto simp: b_def [symmetric] Let_def)
qed

lemma strJoin_first: "xs \<noteq> [] \<Longrightarrow> set (hd xs) \<subseteq> set (strJoin sep xs)"
  by (induction sep xs rule: strJoin.induct) auto

lemma lineRange_nonblank:
  assumes "i < length lines" and "\<not> blankLine (lines ! i)" and "i < b" and "b \<le> length lines"
  shows "trimSpace (lineRangeText lines (i + 1) b) \<noteq> []"
proof -
  let ?ls = "take (b - i) (drop i lines)"
  have ls: "?ls \<noteq> []" "hd ?ls = lines ! i" using assms by (simp_all add: hd_drop_conv_nth)
  have "trimSpace (lines ! i) \<noteq> []" using assms(2) by (simp add: blankLine_def)
  with trimSpace_hd trimSpace_subset hd_in_set obtain c where "c \<in> set (lines ! i)" "\<not> isSpaceByte c" by blast
  with strJoin_first [OF ls(1), of "[CHR 0x0A]"] ls(2) have "trimSpace (strJoin [CHR 0x0A] ?ls) \<noteq> []"
    by (intro trimSpace_nonempty [of c]) auto
  with assms show ?thesis by (simp add: lineRangeText_def)
qed

lemma textLoop_covers:
  "i \<le> j \<Longrightarrow> j < length lines \<Longrightarrow> \<not> blankLine (lines ! j) \<Longrightarrow> coveredLine lines j (textLoop o1 doc lines i n r)"
proof (induction o1 doc lines i n r rule: textLoop.induct)
  case (1 o1 doc lines i n r)
  show ?case
  proof (cases "blankLine (lines ! i)")
    case True
    with "1.prems" have "i + 1 \<le> j" by (cases "i = j") auto
    with "1.IH"(1) "1.prems" True show ?thesis by (subst textLoop.simps) simp
  next
    case False
    define b where "b = scanWhile (\<lambda>l. \<not> blankLine l) lines i"
    have i: "i < length lines" using "1.prems" by simp
    have b: "i < b" "b \<le> length lines" unfolding b_def using i False by (auto intro: scanWhile_gt scanWhile_le)
    define t where "t = lineRangeText lines (i + 1) b"
    have nb: "trimSpace t \<noteq> []" unfolding t_def by (rule lineRange_nonblank [OF i False b])
    have "0 < i + 1" "i + 1 \<le> b" using b by simp_all
    with nb obtain p where p: "ex_Passages (snd (addNode o1 NodeBlock doc n [] (i + 1) b t TypeText r)) = ex_Passages r @ [p]"
      "pg_Text p = t"
      by (rule addNode_block)
    have loop: "textLoop o1 doc lines i n r = textLoop o1 doc lines b (n + 1) (snd (addNode o1 NodeBlock doc n [] (i + 1) b t TypeText r))"
      using i False by (subst textLoop.simps) (simp add: b_def [symmetric] t_def Let_def)
    show ?thesis
    proof (cases "j < b")
      case True
      have "p \<in> set (ex_Passages (snd (addNode o1 NodeBlock doc n [] (i + 1) b t TypeText r)))" unfolding p(1) by simp
      then have "p \<in> set (ex_Passages (textLoop o1 doc lines i n r))" unfolding loop using textLoop_keeps by blast
      moreover have "1 \<le> i + 1 \<and> i + 1 \<le> j + 1 \<and> j + 1 \<le> b \<and> b \<le> length lines" using True "1.prems"(1) b by simp
      ultimately show ?thesis unfolding coveredLine_def using p(2) t_def by blast
    next
      case False
      with "1.IH"(2) [OF _ _ b_def] "1.prems" i \<open>\<not> blankLine (lines ! i)\<close> show ?thesis unfolding loop by (simp add: t_def)
    qed
  qed
qed

text \<open>
  C36: the text extractor loses no line.  Every line of a text file with something on it, from the first
  block on, is shown by a passage.
\<close>

theorem text_lines_covered:
  assumes "extractText content o1 = Inr r"
    and "firstTextBlockIndex (splitLines content) \<le> j" and "j < length (splitLines content)"
    and "\<not> blankLine (splitLines content ! j)"
  shows "coveredLine (splitLines content) j r"
  using assms textLoop_covers [OF assms(2-4)]
  by (auto simp: extractText_def Let_def split_beta split: if_splits)

lemma heading_nonblank:
  assumes "parseHeading h = Some (level, title)"
  shows "\<not> blankLine h"
proof -
  have "takeWhile (\<lambda>c. c = CHR ''#'') h \<noteq> []" using assms by (auto simp: parseHeading_def Let_def split: if_splits)
  then have "CHR ''#'' \<in> set h" by (cases h) (auto split: if_splits)
  then show ?thesis
    unfolding blankLine_def by (rule trimSpace_nonempty) (simp add: isSpaceByte_def byte_def)
qed

lemma scanWhile_all: "\<forall>l\<in>set (drop i lines). ok l \<Longrightarrow> i \<le> length lines \<Longrightarrow> scanWhile ok lines i = length lines"
  by (simp add: scanWhile_def takeWhile_eq_all_conv [THEN iffD2])

text \<open>
  The Markdown extractor does.  A file that is a heading and one paragraph of two lines or more right
  below it has a single passage, the heading and the paragraph without its last line.
\<close>

theorem markdown_last_line_lost:
  assumes "extractMarkdown content o1 = Inr r" and "splitLines content = h # ls"
    and "parseHeading h \<noteq> None" and "\<forall>l\<in>set ls. blockLine l" and "2 \<le> length ls"
  shows "map pg_Text (ex_Passages r) = [strJoin [CHR 0x0A] (h # butlast ls)]"
proof -
  let ?lines = "h # ls"
  obtain level title where head: "parseHeading h = Some (level, title)" using assms(3) by auto
  obtain doc r0 where doc: "addNode o1 NodeDocument [] 0 [] 1 (length ?lines) (strJoin [CHR 0x0A] ?lines) TypeMarkdown (newBaseResult o1 ''md'' ?lines) = (doc, r0)"
    by fastforce
  have r0: "ex_Passages r0 = []"
    using addNode_other [of NodeDocument o1 "[]" 0 "[]" 1 "length ?lines" "strJoin [CHR 0x0A] ?lines" TypeMarkdown
        "newBaseResult o1 ''md'' ?lines"] doc
    by (simp add: newBaseResult_def)
  define st where "st = \<lparr>md_stack = [], md_parent = doc, md_path = [], md_headingLine = 0, md_ordinal = 1\<rparr>"
  obtain sec r1 where sec: "addNode o1 NodeSection doc 1 (joinHeadingPath (pushHeading level title [])) 1 1 h TypeMarkdown r0 = (sec, r1)"
    by fastforce
  have r1: "ex_Passages r1 = []"
    using addNode_other [of NodeSection o1 doc 1 "joinHeadingPath (pushHeading level title [])" 1 1 h TypeMarkdown r0] sec r0 by simp
  define st1 where "st1 = \<lparr>md_stack = pushHeading level title [], md_parent = sec,
    md_path = joinHeadingPath (pushHeading level title []), md_headingLine = 1, md_ordinal = 2\<rparr>"
  have ne: "ls \<noteq> []" "1 \<le> length ls" using assms(5) by auto
  have one: "markdownLoop o1 doc ?lines 0 st r0 = markdownLoop o1 doc ?lines 1 st1 r1"
    using sec by (subst markdownLoop.simps) (simp add: head st_def st1_def Let_def numeral_2_eq_2)
  have first: "parseHeading (?lines ! 1) = None" "\<not> blankLine (?lines ! 1)"
    using assms(4,5) by (cases ls; auto simp: blockLine_def)+
  have b: "scanWhile blockLine ?lines 1 = length ?lines" by (rule scanWhile_all) (use assms(4) in simp_all)
  have range1: "blockRange 1 2 (length ?lines) = (1, length ls)" using assms(5) by (auto simp: blockRange_def)
  define t where "t = lineRangeText ?lines 1 (length ls)"
  have stop: "markdownLoop o1 doc ?lines (length ?lines) s r = r" for s r by (subst markdownLoop.simps) simp
  have "markdownLoop o1 doc ?lines 1 st1 r1
      = snd (addNode o1 NodeBlock sec 2 (joinHeadingPath (pushHeading level title [])) 1 (length ls) t TypeMarkdown r1)"
    using ne first b range1 stop
    by (subst markdownLoop.simps) (simp add: st1_def t_def Let_def numeral_2_eq_2)
  moreover have t: "t = strJoin [CHR 0x0A] (h # butlast ls)"
    using ne(1) by (simp add: t_def lineRangeText_def butlast_conv_take take_Cons')
  moreover have "trimSpace t \<noteq> []"
  proof -
    have "\<not> blankLine (?lines ! 0)" using heading_nonblank [OF head] by simp
    from lineRange_nonblank [OF _ this, of "length ls"] ne(1) show ?thesis by (simp add: t_def)
  qed
  ultimately obtain p where p: "ex_Passages (markdownLoop o1 doc ?lines 1 st1 r1) = ex_Passages r1 @ [p]" "pg_Text p = t"
    using addNode_block [OF _ zero_less_one ne(2), of t o1 sec 2 "joinHeadingPath (pushHeading level title [])" TypeMarkdown r1] by auto
  have "r = markdownLoop o1 doc ?lines 0 st r0"
    using assms(1,2) doc by (auto simp: extractMarkdown_def Let_def st_def split: if_splits)
  with p r1 t show ?thesis by (simp add: one)
qed

section \<open>A text file and a Markdown file\<close>

definition sampleOptions :: Options where
  "sampleOptions = \<lparr>op_CorpusID = ''kb'', op_DocumentID = ''doc'', op_DocumentVersionID = ''v1'', op_SourceID = ''src'', op_Path = ''notes.txt''\<rparr>"

definition sampleText :: string where
  "sampleText = ''one'' @ [CHR 0x0A, CHR 0x0A] @ ''two''"

definition sampleMarkdown :: string where
  "sampleMarkdown = ''# Title'' @ CHR 0x0A # ''kept'' @ CHR 0x0A # ''lost''"

lemma sample_files:
  "splitLines sampleText = [''one'', [], ''two'']" "splitLines sampleMarkdown = [''# Title'', ''kept'', ''lost'']"
  "cleanOptions sampleOptions" "trimSpace sampleText \<noteq> []" "trimSpace sampleMarkdown \<noteq> []"
  "parseHeading ''# Title'' = Some (1, ''Title'')" "parseHeading ''kept'' = None" "parseHeading ''lost'' = None"
  by code_simp+

lemma sample_text: "\<exists>r. extractText sampleText sampleOptions = Inr r"
  using sample_files(3,4) by (simp add: extractText_def cleanOptions_def split_beta Let_def)

lemma sample_markdown: "\<exists>r. extractMarkdown sampleMarkdown sampleOptions = Inr r"
  using sample_files(3,5) by (simp add: extractMarkdown_def cleanOptions_def split_beta Let_def)

theorem text_lines_covered_witness:
  "\<exists>r. extractText sampleText sampleOptions = Inr r \<and> coveredLine [''one'', [], ''two''] 2 r"
proof -
  obtain r where r: "extractText sampleText sampleOptions = Inr r" using sample_text by blast
  have "firstTextBlockIndex (splitLines sampleText) \<le> 2" "2 < length (splitLines sampleText)"
    "\<not> blankLine (splitLines sampleText ! 2)" by code_simp+
  from text_lines_covered [OF r this] r show ?thesis unfolding sample_files(1) by blast
qed

definition plainCodec :: Codec where
  "plainCodec = \<lparr>cd_decode = (\<lambda>_. None), cd_marshal = (\<lambda>_. None), cd_paragraphs = (\<lambda>_. None)\<rparr>"

theorem passages_resolve_verbatim_witness:
  "\<exists>r p c fs res. extracted TypeText sampleText sampleOptions r \<and> p \<in> set (ex_Passages r)
     \<and> resolveSourceRef plainCodec fs (registerAll (ex_Anchors r) c) (pg_SourceRef p) = Some res
     \<and> rs_Status res = StatusResolved \<and> rs_Excerpt res = pg_Text p"
proof -
  obtain r p where r: "extractText sampleText sampleOptions = Inr r" and p: "p \<in> set (ex_Passages r)"
    using text_lines_covered_witness unfolding coveredLine_def by blast
  let ?v = "\<lparr>dv_DocumentVersionID = trimSpace (op_DocumentVersionID sampleOptions), dv_Sources = [(op_Path sampleOptions, ''f'')]\<rparr>"
  have "\<not> isSpaceByte (CHR ''f'')" "trimSpace ''f'' = ''f''" "trimSpace (trimSpace (op_DocumentVersionID sampleOptions)) \<noteq> []"
    "trimSpace (op_Path sampleOptions) \<noteq> []" by code_simp+
  then obtain c where c: "registerDocumentVersion ?v emptyCatalog = Inr c" and f: "trimSpace ''f'' = ''f''"
    by (auto simp: registerDocumentVersion_def Let_def)
  have x: "extracted TypeText sampleText sampleOptions r" using r by (simp add: extracted_def)
  have "CHR 0x5C \<notin> set (op_Path sampleOptions)" by code_simp
  moreover have "readFile [''f'' \<mapsto> Readable sampleText] (trimSpace ''f'') = Some sampleText" by (simp add: readFile_def f)
  ultimately show ?thesis
    using passages_resolve_verbatim [OF x sample_files(3) p c, of "[''f'' \<mapsto> Readable sampleText]" plainCodec] x p by blast
qed

theorem markdown_last_line_lost_witness:
  "\<exists>r. extractMarkdown sampleMarkdown sampleOptions = Inr r
     \<and> map pg_Text (ex_Passages r) = [''# Title'' @ CHR 0x0A # ''kept'']"
proof -
  obtain r where r: "extractMarkdown sampleMarkdown sampleOptions = Inr r" using sample_markdown by blast
  have "\<not> blankLine ''kept''" "\<not> blankLine ''lost''" by code_simp+
  then have "\<forall>l\<in>set [''kept'', ''lost'']. blockLine l" by (simp add: blockLine_def sample_files(7,8))
  from markdown_last_line_lost [OF r sample_files(2) _ this] show ?thesis by (simp add: sample_files(6) r)
qed

section \<open>The reference that panics\<close>

lemma cutByte_join: "cutByte c s = Some (l, r) \<Longrightarrow> s = l @ c # r"
  by (simp add: cutByte_Some)

lemma arrayElement_panic: "arrayElement token v = FetchPanic \<Longrightarrow> hasPrefix token ''-''"
proof -
  assume p: "arrayElement token v = FetchPanic"
  then obtain i where i: "atoi token = Some i" "i < 0"
    by (auto simp: arrayElement_def split: option.splits JsonAny.splits if_splits)
  show "hasPrefix token ''-''"
  proof (cases token)
    case (Cons c cs)
    with i show ?thesis by (auto simp: atoi_def Let_def split: if_splits option.splits)
  qed (use i in \<open>auto simp: atoi_def parseDigits_def\<close>)
qed

lemma jsonStep_panic:
  assumes "jsonStep v path = FetchPanic" and "path \<noteq> []"
  shows "hasPrefix path ''[-''"
proof -
  have key: "objectKey k v \<noteq> FetchPanic" for k
    by (auto simp: objectKey_def split: JsonAny.splits option.splits)
  then obtain token rest where c: "hd path = CHR ''[''" "cutByte (CHR '']'') (tl path) = Some (token, rest)" "arrayElement token v = FetchPanic"
    using assms(1) by (auto simp: jsonStep_def Let_def split: if_splits option.splits prod.splits fetch.splits)
  from arrayElement_panic [OF c(3)] cutByte_join [OF c(2)] c(1) assms(2) show ?thesis
    by (cases path; cases token) auto
qed

lemma jsonStep_suffix: "jsonStep v path = Found (x, rest) \<Longrightarrow> path \<noteq> [] \<Longrightarrow> \<exists>p. path = p @ rest"
proof -
  assume s: "jsonStep v path = Found (x, rest)" "path \<noteq> []"
  then consider "rest = drop (length (takeWhile isKeyByte (tl path))) (tl path)"
    | t where "cutByte (CHR '']'') (tl path) = Some (t, rest)"
    by (auto simp: jsonStep_def Let_def split: if_splits option.splits prod.splits fetch.splits)
  then have "\<exists>q. tl path = q @ rest"
  proof cases
    case 1
    then show ?thesis by (metis append_take_drop_id)
  next
    case (2 t)
    from cutByte_join [OF this] have "tl path = (t @ [CHR '']'']) @ rest" by simp
    then show ?thesis by blast
  qed
  then obtain q where "tl path = q @ rest" ..
  with s(2) have "path = (hd path # q) @ rest" by (cases path) simp_all
  then show ?thesis by blast
qed

lemma strContains_suffix: "strContains r sub \<Longrightarrow> strContains (p @ r) sub"
  unfolding strContains_iff by (metis append.assoc)

lemma jsonWalk_panic: "jsonWalk n v path = FetchPanic \<Longrightarrow> strContains path ''[-''"
proof (induction n v path rule: jsonWalk.induct)
  case (3 n v c s)
  show ?case
  proof (cases "jsonStep v (c # s)")
    case (Found xr)
    obtain x rest where xr: "xr = (x, rest)" by fastforce
    from 3(2) Found xr have "jsonWalk n x rest = FetchPanic" by simp
    from "3.IH" [OF Found xr [symmetric] this] jsonStep_suffix [OF Found [unfolded xr]] show ?thesis
      using strContains_suffix by (metis list.distinct(1))
  next
    case FetchPanic
    with jsonStep_panic [of v "c # s"] show ?thesis by simp
  qed (use 3(2) in simp)
qed simp_all

lemma jsonPathGet_panic: "jsonPathGet v path = FetchPanic \<Longrightarrow> strContains path ''[-''"
proof -
  assume p: "jsonPathGet v path = FetchPanic"
  then have "path = ''$'' @ tl path" "jsonWalk (length path) v (tl path) = FetchPanic"
    by (cases path; auto simp: jsonPathGet_def split: if_splits)+
  with jsonWalk_panic strContains_suffix show ?thesis by metis
qed

definition negativeRef :: string where
  "negativeRef = ''kb@v1:json:data.json#$[-1]''"

lemma negativeRef_parts:
  "parseSourceRef negativeRef = Some \<lparr>sr_CorpusID = ''kb'', sr_DocumentVersionID = ''v1'', sr_AnchorType = ''json'', sr_Payload = ''data.json#$[-1]''\<rparr>"
  "isSupported ''json''" "sourceRefString \<lparr>sr_CorpusID = ''kb'', sr_DocumentVersionID = ''v1'', sr_AnchorType = ''json'', sr_Payload = ''data.json#$[-1]''\<rparr> = negativeRef"
  "parsePayload ''json'' ''data.json#$[-1]'' = Some (noShape\<lparr>ps_path := ''data.json'', ps_jsonPath := ''$[-1]''\<rparr>)"
  "normalizePath ''data.json'' = ''data.json''"
  by (code_simp, simp add: isSupported_def anchor_types, code_simp,
    simp add: parsePayload_def anchor_types jsonPayload_def noBreak_def normalizePath_def trimSpace_def isSpaceByte_def byte_def, code_simp)

lemma negative_index: "jsonPathGet (AnyArray xs) ''$[-1]'' = FetchPanic"
proof -
  have a: "atoi ''-1'' = Some (-1)" by (simp add: go_string_eval)
  have "jsonStep (AnyArray xs) ''[-1]'' = FetchPanic" by (simp add: jsonStep_def arrayElement_def a)
  then show ?thesis by (simp add: jsonPathGet_def)
qed

text \<open>
  A negative index panics.  Resolving a reference into an array of a registered JSON file with the
  index -1 crashes instead of answering that the anchor is not found; only a path with a negative index
  can do that.
\<close>

theorem negative_index_panics:
  assumes "ac_DocumentVersions c ''v1'' = Some v" and "map_of (dv_Sources v) ''data.json'' = Some file"
    and "fs file = Some (Readable content)" and "cd_decode cd content = Some (AnyArray xs)"
    and "ac_AnchorsBySourceRef c negativeRef = None"
  shows "resolveSourceRef cd fs c negativeRef = None
    \<and> (\<forall>w path. jsonPathGet w path = FetchPanic \<longrightarrow> strContains path ''[-'')"
proof -
  have "resolveExcerpt cd fs c \<lparr>an_AnchorID = [], an_CorpusID = [], an_DocumentID = [], an_DocumentVersionID = ''v1'',
      an_AnchorType = ''json'', an_SourceRef = [], an_Path = ''data.json'', an_HeadingPath = [],
      an_LineStart = 0, an_LineEnd = 0, an_ParagraphIndex = 0,
      an_JSONPath = ''$[-1]'', an_ContentHash = [], an_Caveats = []\<rparr> = FetchPanic"
    using assms(1-4) by (simp add: resolveExcerpt_def filesystemPath_def negativeRef_parts(5) anchor_types
        resolveJSONExcerpt_def readFile_def negative_index)
  then have "unregisteredAnchorStatus cd fs c \<lparr>sr_CorpusID = ''kb'', sr_DocumentVersionID = ''v1'',
      sr_AnchorType = ''json'', sr_Payload = ''data.json#$[-1]''\<rparr> = None"
    by (simp add: unregisteredAnchorStatus_def negativeRef_parts(4) noShape_def)
  with assms(1,5) show ?thesis
    using jsonPathGet_panic by (simp add: resolveSourceRef_def negativeRef_parts(1-3) Let_def)
qed

theorem negative_index_panics_witness:
  "resolveSourceRef \<lparr>cd_decode = (\<lambda>_. Some (AnyArray [])), cd_marshal = (\<lambda>_. None), cd_paragraphs = (\<lambda>_. None)\<rparr>
     [''f'' \<mapsto> Readable ''[]'']
     (emptyCatalog\<lparr>ac_DocumentVersions := [''v1'' \<mapsto> \<lparr>dv_DocumentVersionID = ''v1'', dv_Sources = [(''data.json'', ''f'')]\<rparr>]\<rparr>)
     negativeRef = None"
  using negative_index_panics [of "emptyCatalog\<lparr>ac_DocumentVersions := [''v1'' \<mapsto> \<lparr>dv_DocumentVersionID = ''v1'',
      dv_Sources = [(''data.json'', ''f'')]\<rparr>]\<rparr>" "\<lparr>dv_DocumentVersionID = ''v1'', dv_Sources = [(''data.json'', ''f'')]\<rparr>" "''f''"
      "[''f'' \<mapsto> Readable ''[]'']" "''[]''" "\<lparr>cd_decode = (\<lambda>_. Some (AnyArray [])), cd_marshal = (\<lambda>_. None), cd_paragraphs = (\<lambda>_. None)\<rparr>" "[]"]
  by (simp add: emptyCatalog_def)

end
