(* ===== verification/Dif_Governed.thy ===== *)
theory Dif_Governed
  imports Dif_Api Dif_Grounded
begin

text \<open>
  The assembled \<open>search_docs\<close> server: whatever it serves is admitted, authenticated and resolves to the source
  it names, and every call it does not refuse at the door is recorded once in both governance tables.
\<close>

section \<open>What a search can return\<close>

lemma indexPassages_member:
  "indexPassages m ps = Inr ix \<Longrightarrow> p \<in> set ix \<Longrightarrow> ip_Passage p \<in> set ps"
  by (induction ps arbitrary: ix)
    (auto simp: indexedPassage_def Let_def map_sum_Inr split: if_splits option.splits)

lemma indexResults_member:
  "indexResults rs = Inr ix \<Longrightarrow> p \<in> set ix \<Longrightarrow> \<exists>r\<in>set rs. ip_Passage p \<in> set (ex_Passages r)"
  by (induction rs arbitrary: ix) (auto simp: map_sum_Inr dest: indexPassages_member split: sum.splits)

lemma searcher_passages:
  assumes "newSearcher cat rs = Inr s"
  shows "sh_Admission s = cat" and "p \<in> set (sh_Index s) \<Longrightarrow> \<exists>r\<in>set rs. ip_Passage p \<in> set (ex_Passages r)"
  using assms indexResults_member by (auto simp: newSearcher_def newIndex_def map_sum_Inr)

lemma ranked_subset: "h \<in> set (map hitOf (filter F (take n (sort_key k xs)))) \<Longrightarrow> h \<in> hitOf ` set xs"
  by (auto dest!: in_set_takeD)

lemma searchDocs_hits:
  assumes "searchDocs lg s (Some x) qu = Inr rr" and "h \<in> set (rr_Results rr)"
  obtains p score where "p \<in> set (sh_Index s)" "h = hitOf (score, p)" "pg_CorpusID (ip_Passage p) = xc_CorpusID x"
proof -
  let ?terms = "queryTerms (trimSpace (qu_Text qu))"
  obtain y where y: "requireFromContext (Some x) ''retrieval'' = Inr y"
    using assms(1) by (cases "requireFromContext (Some x) ''retrieval''") (simp_all add: searchDocs_def Let_def split: if_splits)
  then have "y = x" by (simp add: requireFromContext_def split: option.splits)
  with y assms have "h \<in> hitOf ` set (scoredPassages lg ?terms (xc_CorpusID x) (sh_Index s))"
    by (simp add: searchDocs_def Let_def del: set_map set_filter split: if_splits) (auto intro: ranked_subset simp del: set_map set_filter)
  then obtain score p where sp: "(score, p) \<in> set (scoredPassages lg ?terms (xc_CorpusID x) (sh_Index s))" and h: "h = hitOf (score, p)"
    by auto
  from sp have "p \<in> set (sh_Index s)" "pg_CorpusID (ip_Passage p) = xc_CorpusID x" unfolding scoredPassages_def by auto
  with h show thesis by (intro that)
qed

lemma limited: "length (filter P (take (nat (effectiveLimit l)) xs)) \<le> 10"
  by (rule order.trans [OF length_filter_le]) (auto simp: effectiveLimit_def)

lemma searchDocs_length: "searchDocs lg s ctx qu = Inr rr \<Longrightarrow> length (rr_Results rr) \<le> 10"
  using limited by (auto simp: searchDocs_def Let_def split: if_splits sum.splits)

lemma searchDocs_answers:
  assumes "scoped (Some x) x" and "trimSpace (qu_Text qu) \<noteq> []"
  shows "\<exists>rr. searchDocs lg s (Some x) qu = Inr rr \<and> rr_Status rr \<in> {''ok'', ''no_evidence'', ''corpus_not_admitted''}"
proof -
  have "requireFromContext (Some x) ''retrieval'' = Inr x" using assms(1) require_retrieval by simp
  with assms(2) show ?thesis by (simp add: searchDocs_def Let_def)
qed

section \<open>What the service makes of it\<close>

lemma convertEach_valid:
  "convertEach hs = Inr cs \<Longrightarrow> cs = map convertHit hs \<and> (\<forall>h\<in>set hs. validateAnchoredResult h = None)"
  by (induction hs arbitrary: cs) (auto simp: map_sum_Inr split: option.splits)

lemma fromRetrieval_results:
  assumes "fromRetrievalResponse rr u = Inr out" and "dr_Results out \<noteq> []"
  shows "dr_Status out = ''ok''" "dr_Results out = map convertHit (rr_Results rr)"
    "\<And>h. h \<in> set (rr_Results rr) \<Longrightarrow> validateAnchoredResult h = None"
  using assms
  by (auto simp: fromRetrievalResponse_def convertResults_def withStatus_def errorResponse_def plainResponse_def
      dest: convertEach_valid split: if_splits sum.splits)

lemma fromRetrieval_answers:
  "rr_Status rr \<in> {''ok'', ''no_evidence'', ''corpus_not_admitted''} \<Longrightarrow> \<exists>out. fromRetrievalResponse rr u = Inr out"
  by (auto simp: fromRetrievalResponse_def split: sum.splits)

text \<open>The scope of a request and its caller.\<close>

definition callerScope :: "string \<Rightarrow> ToolRequest \<Rightarrow> ExecutionContext" where
  "callerScope caller q =
     \<lparr>xc_RequestID = trimSpace (tq_RequestID q), xc_PrincipalID = trimSpace caller, xc_TenantID = trimSpace (tq_TenantID q),
      xc_ProjectID = trimSpace (tq_ProjectID q), xc_CorpusID = trimSpace (tq_CorpusID q), xc_ToolName = ''search_docs'', xc_RunID = []\<rparr>"

definition docsRequest :: "string \<Rightarrow> ToolRequest \<Rightarrow> DocsRequest" where
  "docsRequest caller q =
     \<lparr>dq_RequestID = trimSpace (tq_RequestID q), dq_PrincipalID = caller, dq_TenantID = trimSpace (tq_TenantID q),
      dq_ProjectID = trimSpace (tq_ProjectID q), dq_CorpusID = trimSpace (tq_CorpusID q), dq_Query = trimSpace (tq_Query q),
      dq_Limit = tq_Limit q\<rparr>"

lemma complete_scope:
  assumes "missingToolFields (normalizeToolRequest q) = []" and "trimSpace caller \<noteq> []"
  shows "scoped (Some (callerScope caller q)) (callerScope caller q)" "trimSpace (tq_Query q) \<noteq> []"
    "withExecutionContext (callerScope caller q) ''retrieval'' = Inr (callerScope caller q)"
    "missingDocsFields (normalizeDocsRequest (docsRequest caller q)) = []"
proof -
  have search: "trimSpace ''search_docs'' = ''search_docs''" "trimSpace [] = []" by code_simp+
  show s: "scoped (Some (callerScope caller q)) (callerScope caller q)" "trimSpace (tq_Query q) \<noteq> []"
    "missingDocsFields (normalizeDocsRequest (docsRequest caller q)) = []"
    using assms
    by (simp_all add: missingToolFields_def normalizeToolRequest_def scoped_def callerScope_def fieldValue_def contextFields_def
        trimSpace_idem missingDocsFields_def normalizeDocsRequest_def docsRequest_def split: if_splits)
  have "requireFromContext (Some (callerScope caller q)) ''retrieval'' = Inr (callerScope caller q)"
    using s(1) require_retrieval by simp
  then show "withExecutionContext (callerScope caller q) ''retrieval'' = Inr (callerScope caller q)"
    by (auto simp: requireFromContext_def withExecutionContext_def trimmedContext_def callerScope_def trimSpace_idem search
        split: option.splits)
qed

lemma serviceSearch_complete:
  assumes "missingToolFields (normalizeToolRequest q) = []" and "trimSpace caller \<noteq> []" and "ds_Retriever svc = Some retrieve"
    and "x = callerScope caller q" and "serviceSearch svc (docsRequest caller q) = res"
  obtains hash u where "res = (let d = checkCorpus (ds_Admission svc) (Some x) ''search_docs'' hash in
       if \<not> ad_Allowed d
       then Inr (withStatus ''corpus_not_admitted'' ((errorResponse ''corpus_not_admitted'' [] u)\<lparr>dr_AuditIntent := ad_AuditIntent d\<rparr>))
       else case retrieve (Some x) \<lparr>qu_Text = trimSpace (tq_Query q), qu_Limit = tq_Limit q\<rparr> of
           Inl e \<Rightarrow> Inl e | Inr rr \<Rightarrow> fromRetrievalResponse rr u)"
proof -
  define n where "n = normalizeDocsRequest (docsRequest caller q)"
  have n: "dq_Query n = trimSpace (tq_Query q)" "dq_Limit n = tq_Limit q" "missingDocsFields n = []"
    "\<lparr>xc_RequestID = dq_RequestID n, xc_PrincipalID = dq_PrincipalID n, xc_TenantID = dq_TenantID n,
      xc_ProjectID = dq_ProjectID n, xc_CorpusID = dq_CorpusID n, xc_ToolName = ''search_docs'', xc_RunID = []\<rparr> = x"
    using complete_scope(4) [OF assms(1,2)]
    by (simp_all add: n_def normalizeDocsRequest_def docsRequest_def callerScope_def trimSpace_idem assms(4))
  have x: "withExecutionContext x ''retrieval'' = Inr x" using complete_scope(3) [OF assms(1,2)] assms(4) by simp
  show thesis
    by (rule that [of "queryHash (dq_Query n)" "\<lparr>us_ProjectID = dq_ProjectID n, us_CorpusID = dq_CorpusID n, us_EventType = ''search_docs'',
        us_QueryHash = queryHash (dq_Query n), us_ResultCount = 0, us_Limit = dq_Limit n, us_Status = []\<rparr>"])
      (simp_all add: assms(5) [symmetric] serviceSearch_def assms(3) Let_def n_def [symmetric] n x)
qed

section \<open>The search behind the service\<close>

abbreviation searchService :: "(nat \<Rightarrow> rat) \<Rightarrow> AdmissionCatalog \<Rightarrow> Searcher \<Rightarrow> DocsService" where
  "searchService lg cat s \<equiv> \<lparr>ds_Admission = cat, ds_Retriever = Some (searchDocs lg s)\<rparr>"

lemma search_answers:
  assumes "missingToolFields (normalizeToolRequest q) = []" and "trimSpace caller \<noteq> []"
  shows "\<exists>out. serviceSearch (searchService lg cat s) (docsRequest caller q) = Inr out
    \<and> (governanceOutcome (dr_Status out) = ''denied'' \<longrightarrow> dr_Results out = [])"
proof -
  let ?x = "callerScope caller q" and ?qu = "\<lparr>qu_Text = trimSpace (tq_Query q), qu_Limit = tq_Limit q\<rparr>"
  obtain hash u where run: "serviceSearch (searchService lg cat s) (docsRequest caller q)
      = (let d = checkCorpus cat (Some ?x) ''search_docs'' hash in
       if \<not> ad_Allowed d
       then Inr (withStatus ''corpus_not_admitted'' ((errorResponse ''corpus_not_admitted'' [] u)\<lparr>dr_AuditIntent := ad_AuditIntent d\<rparr>))
       else case searchDocs lg s (Some ?x) ?qu of Inl e \<Rightarrow> Inl e | Inr rr \<Rightarrow> fromRetrievalResponse rr u)"
    by (rule serviceSearch_complete [OF assms, of "searchService lg cat s" "searchDocs lg s" ?x]) auto
  have "trimSpace (qu_Text ?qu) \<noteq> []" using complete_scope(2) [OF assms] by (simp add: trimSpace_idem)
  then obtain rr where rr: "searchDocs lg s (Some ?x) ?qu = Inr rr" "rr_Status rr \<in> {''ok'', ''no_evidence'', ''corpus_not_admitted''}"
    using searchDocs_answers [OF complete_scope(1) [OF assms]] by blast
  obtain out where out: "fromRetrievalResponse rr u = Inr out" using fromRetrieval_answers [OF rr(2)] by blast
  have "dr_Results out = []" if denied: "governanceOutcome (dr_Status out) = ''denied''"
  proof (rule ccontr)
    assume "dr_Results out \<noteq> []"
    from fromRetrieval_results(1) [OF out this] denied show False by (simp add: governanceOutcome_def)
  qed
  then show ?thesis
    using run rr out
    by (cases "ad_Allowed (checkCorpus cat (Some ?x) ''search_docs'' hash)") (simp_all add: Let_def withStatus_def errorResponse_def plainResponse_def)
qed

lemma search_results:
  assumes "missingToolFields (normalizeToolRequest q) = []" and "trimSpace caller \<noteq> []"
    and "serviceSearch (searchService lg cat s) (docsRequest caller q) = Inr out" and "dr_Results out \<noteq> []"
  shows "\<exists>corpus. admitted cat (callerScope caller q) corpus" and "length (dr_Results out) \<le> 10"
    and "h \<in> set (dr_Results out) \<Longrightarrow> \<exists>p\<in>set (sh_Index s). \<exists>score. h = convertHit (hitOf (score, p))
      \<and> validateAnchoredResult (hitOf (score, p)) = None \<and> pg_CorpusID (ip_Passage p) = trimSpace (tq_CorpusID q)"
proof -
  let ?x = "callerScope caller q" and ?qu = "\<lparr>qu_Text = trimSpace (tq_Query q), qu_Limit = tq_Limit q\<rparr>"
  obtain hash u where run: "Inr out = (let d = checkCorpus cat (Some ?x) ''search_docs'' hash in
       if \<not> ad_Allowed d
       then Inr (withStatus ''corpus_not_admitted'' ((errorResponse ''corpus_not_admitted'' [] u)\<lparr>dr_AuditIntent := ad_AuditIntent d\<rparr>))
       else case searchDocs lg s (Some ?x) ?qu of Inl e \<Rightarrow> Inl e | Inr rr \<Rightarrow> fromRetrievalResponse rr u)"
    by (rule serviceSearch_complete [OF assms(1,2), of "searchService lg cat s" "searchDocs lg s" ?x]) (use assms(3) in auto)
  have allowed: "ad_Allowed (checkCorpus cat (Some ?x) ''search_docs'' hash)"
    using run assms(4) by (auto simp: Let_def withStatus_def errorResponse_def plainResponse_def split: if_splits)
  then show "\<exists>corpus. admitted cat ?x corpus"
    using checkCorpus_allowed [of cat "Some ?x"] by (auto simp: scoped_def)
  obtain rr where rr: "searchDocs lg s (Some ?x) ?qu = Inr rr" "fromRetrievalResponse rr u = Inr out"
    using run allowed by (auto simp: Let_def split: sum.splits)
  note res = fromRetrieval_results [OF rr(2) assms(4)]
  show "length (dr_Results out) \<le> 10" using searchDocs_length [OF rr(1)] res(2) by simp
  show "\<exists>p\<in>set (sh_Index s). \<exists>score. h = convertHit (hitOf (score, p))
      \<and> validateAnchoredResult (hitOf (score, p)) = None \<and> pg_CorpusID (ip_Passage p) = trimSpace (tq_CorpusID q)"
    if h: "h \<in> set (dr_Results out)"
  proof -
    obtain h' where h': "h' \<in> set (rr_Results rr)" "h = convertHit h'" using h res(2) by auto
    obtain p score where p: "p \<in> set (sh_Index s)" "h' = hitOf (score, p)" "pg_CorpusID (ip_Passage p) = xc_CorpusID ?x"
      by (rule searchDocs_hits [OF rr(1) h'(1)])
    have "pg_CorpusID (ip_Passage p) = trimSpace (tq_CorpusID q)" using p(3) by (simp add: callerScope_def)
    with p(1,2) h'(2) res(3) [OF h'(1)] show ?thesis by blast
  qed
qed

section \<open>What is served\<close>

lemma authenticate_name: "authenticate a header = Some caller \<Longrightarrow> trimSpace caller = caller \<and> caller \<noteq> []"
  by (auto simp: authenticate_def Let_def trimSpace_idem split: if_splits)

lemma invoke_authenticated:
  assumes "authenticate (mc_Authenticator srv) (trimSpace (tq_Authorization q)) = Some caller" and "mc_SearchDocs srv = Some search"
  shows "invokeSearchDocs cd faults latency srv q st =
    (let n = normalizeToolRequest q in
     if missingToolFields n \<noteq> [] then (Inr (boundaryError ''invalid_request'' (missingToolFields n)), st)
     else case search (docsRequest caller q) of
         Inl e \<Rightarrow> (Inl (ServiceFault e), st)
       | Inr out \<Rightarrow>
           if \<not> mc_Governed srv then (Inr out, st)
           else case recordMCPToolCall faults
               \<lparr>tc_PrincipalID = caller, tc_TenantID = tq_TenantID n, tc_ProjectID = tq_ProjectID n, tc_CorpusID = tq_CorpusID n,
                tc_ToolName = ''search_docs'', tc_ToolVersion = ''p0'', tc_ParametersHash = governanceHash cd n out,
                tc_Outcome = governanceOutcome (dr_Status out), tc_Latency = latency, tc_SourceRefs = resultRefs (dr_Results out),
                tc_ErrorClass = governanceErrorClass out, tc_Counts = Some (governanceCounts out)\<rparr> st of
               (Inl e, st1) \<Rightarrow> (Inl (GovernanceFault e), st1)
             | (Inr _, st1) \<Rightarrow> (Inr out, st1))"
proof -
  define n where "n = normalizeToolRequest q"
  have "docsRequest caller q = \<lparr>dq_RequestID = tq_RequestID n, dq_PrincipalID = caller, dq_TenantID = tq_TenantID n,
      dq_ProjectID = tq_ProjectID n, dq_CorpusID = tq_CorpusID n, dq_Query = tq_Query n, dq_Limit = tq_Limit n\<rparr>"
    by (simp add: n_def docsRequest_def normalizeToolRequest_def)
  then show ?thesis by (simp only: invokeSearchDocs_def assms option.case Let_def n_def)
qed

text \<open>A reference resolves to a text, trimmed.\<close>

definition resolvesTo :: "Codec \<Rightarrow> FileSystem \<Rightarrow> AnchorCatalog \<Rightarrow> string \<Rightarrow> string \<Rightarrow> bool" where
  "resolvesTo cd fs c ref t \<longleftrightarrow>
     (\<exists>res. resolveSourceRef cd fs c ref = Some res \<and> rs_Status res = StatusResolved \<and> trimSpace (rs_Excerpt res) = t)"

lemma catalogued_hit:
  assumes "catalogued fs c r" and "p \<in> set (ex_Passages r)"
  shows "resolvesTo cd fs c (trimSpace (pg_SourceRef p)) (trimSpace (pg_Text p))"
proof -
  obtain kind content o1 where x: "extracted kind content o1 r" "cleanOptions o1" "holdsFile fs c o1 content" "holdsAnchors c r"
    using assms(1) unfolding catalogued_def by blast
  obtain a b where ref: "pg_SourceRef p = lineRef o1 kind a b" by (rule passage_anchor [OF x(1,2) assms(2)])
  show ?thesis using passage_resolves [OF x assms(2), of cd] unfolding ref lineRef_trim [OF x(2)] resolvesTo_def by auto
qed

text \<open>
  C20: what is served is evidence.  Whatever extractions the searcher was built from, the server gives results
  to an authenticated caller only, from a corpus admitted for the caller's scope, at most ten, each of that
  corpus, with a positive score and with the reference and the text (trimmed) of a passage of one of those
  extractions.  Where that extraction is the text or the Markdown extractor's, under ids that can be read back
  out of a reference, and a catalog holds its anchors and its file, the reference resolves there to that text;
  passages of other extractors (JSON, Word) carry no such promise.
\<close>

theorem served_results_are_evidence:
  assumes "newSearcher cat rs = Inr s" and "mc_SearchDocs srv = Some (serviceSearch (searchService lg cat s))"
    and "invokeSearchDocs cd faults latency srv q st = (Inr out, st')" and "dr_Results out \<noteq> []"
  shows "\<exists>caller corpus. authenticate (mc_Authenticator srv) (trimSpace (tq_Authorization q)) = Some caller
    \<and> admitted cat (callerScope caller q) corpus \<and> length (dr_Results out) \<le> 10
    \<and> (\<forall>h\<in>set (dr_Results out). ht_CorpusID h = trimSpace (tq_CorpusID q) \<and> 0 < ht_Score h
        \<and> (\<exists>r\<in>set rs. \<exists>p\<in>set (ex_Passages r).
             ht_SourceRef h = trimSpace (pg_SourceRef p) \<and> ht_Snippet h = trimSpace (pg_Text p)
             \<and> (catalogued fs c r \<longrightarrow> (\<exists>res. resolveSourceRef cd fs c (ht_SourceRef h) = Some res
                  \<and> rs_Status res = StatusResolved \<and> trimSpace (rs_Excerpt res) = ht_Snippet h))))"
proof -
  have "authenticate (mc_Authenticator srv) (trimSpace (tq_Authorization q)) \<noteq> None"
    using assms(2-4) by (auto simp: invokeSearchDocs_def boundaryError_def errorResponse_def plainResponse_def split: prod.splits option.splits)
  then obtain caller where caller: "authenticate (mc_Authenticator srv) (trimSpace (tq_Authorization q)) = Some caller" by auto
  have ne: "trimSpace caller \<noteq> []" using authenticate_name [OF caller] by simp
  have run: "missingToolFields (normalizeToolRequest q) = []" "serviceSearch (searchService lg cat s) (docsRequest caller q) = Inr out"
    using assms(3,4) unfolding invoke_authenticated [OF caller assms(2)] Let_def
    by (auto simp: boundaryError_def errorResponse_def plainResponse_def split: if_splits sum.splits prod.splits)
  note res = search_results [OF run(1) ne run(2) assms(4)]
  have "ht_CorpusID h = trimSpace (tq_CorpusID q) \<and> 0 < ht_Score h
      \<and> (\<exists>r\<in>set rs. \<exists>p\<in>set (ex_Passages r). ht_SourceRef h = trimSpace (pg_SourceRef p) \<and> ht_Snippet h = trimSpace (pg_Text p)
           \<and> (catalogued fs c r \<longrightarrow> resolvesTo cd fs c (ht_SourceRef h) (ht_Snippet h)))"
    if h: "h \<in> set (dr_Results out)" for h
  proof -
    obtain p score where p: "p \<in> set (sh_Index s)" "h = convertHit (hitOf (score, p))"
      "validateAnchoredResult (hitOf (score, p)) = None" "pg_CorpusID (ip_Passage p) = trimSpace (tq_CorpusID q)"
      using res(3) [OF h] by blast
    obtain r where r: "r \<in> set rs" "ip_Passage p \<in> set (ex_Passages r)" using searcher_passages(2) [OF assms(1) p(1)] by blast
    have shown: "ht_SourceRef h = trimSpace (pg_SourceRef (ip_Passage p))" "ht_Snippet h = trimSpace (pg_Text (ip_Passage p))"
      "ht_CorpusID h = trimSpace (tq_CorpusID q)" "ht_Score h = ht_Score (hitOf (score, p))"
      using p(4) by (simp_all add: p(2) convertHit_def hitOf_def trimSpace_idem)
    have "0 < ht_Score (hitOf (score, p))" using p(3) by (simp add: validateAnchoredResult_def split: if_splits)
    with shown r catalogued_hit [OF _ r(2)] show ?thesis by (intro conjI bexI [of _ r] bexI [of _ "ip_Passage p"]) simp_all
  qed
  with caller res(1,2) show ?thesis unfolding resolvesTo_def by blast
qed

section \<open>What is recorded\<close>


lemma counts_kept:
  assumes "\<forall>kv\<in>set m. trimSpace (fst kv) \<noteq> [] \<and> 0 \<le> snd kv"
  shows "\<exists>m'. normalizedCounts (Some m) = Some m' \<and> list_all (\<lambda>kv. trimSpace (fst kv) \<noteq> [] \<and> 0 \<le> snd kv) m'"
proof -
  let ?ok = "\<lambda>kv::string \<times> int. trimSpace (fst kv) \<noteq> [] \<and> 0 \<le> snd kv"
  have "list_all ?ok (fold (\<lambda>kv acc. mapPut (trimSpace (fst kv)) (snd kv) acc) xs acc)"
    if "list_all ?ok xs" "list_all ?ok acc" for xs acc
    using that
  proof (induction xs arbitrary: acc)
    case (Cons kv xs)
    have "list_all ?ok (mapPut (trimSpace (fst kv)) (snd kv) acc)"
      using Cons.prems mapPut_set [of "trimSpace (fst kv)" "snd kv" acc] by (auto simp: list_all_iff trimSpace_idem)
    with Cons show ?case by simp
  qed simp
  from this [of "sort_key fst m" "[]"] assms show ?thesis by (simp add: normalizedCounts_def Ball_set [symmetric])
qed

lemma tool_call_events:
  assumes "trimSpace (tc_PrincipalID c) \<noteq> []" "trimSpace (tc_ProjectID c) \<noteq> []" "trimSpace (tc_CorpusID c) \<noteq> []"
    and "tc_ToolName c = ''search_docs''" and "trimSpace (tc_ParametersHash c) \<noteq> []"
    and "validOutcome (tc_Outcome c)" and "tc_Outcome c = ''denied'' \<Longrightarrow> tc_SourceRefs c = []"
    and "tc_Counts c = Some m" and "\<forall>kv\<in>set m. trimSpace (fst kv) \<noteq> [] \<and> 0 \<le> snd kv"
  obtains a u where "eventsFromMCPToolCall c = Inr (a, u)" "validAudit a" "validUsage u" "ga_PrincipalID a = trimSpace (tc_PrincipalID c)"
    "ga_Outcome a = tc_Outcome c" "set (ga_SourceRefs a) = set (filter (\<lambda>v. v \<noteq> []) (map trimSpace (tc_SourceRefs c)))"
proof -
  have tool: "trimSpace ''search_docs'' = ''search_docs''" by code_simp
  obtain m' where m: "normalizedCounts (Some m) = Some m'" "list_all (\<lambda>kv. trimSpace (fst kv) \<noteq> [] \<and> 0 \<le> snd kv) m'"
    using counts_kept [OF assms(9)] by blast
  define a where "a = \<lparr>ga_PrincipalID = trimSpace (tc_PrincipalID c), ga_TenantID = trimSpace (tc_TenantID c),
    ga_ProjectID = trimSpace (tc_ProjectID c), ga_CorpusID = trimSpace (tc_CorpusID c), ga_ToolName = trimSpace (tc_ToolName c),
    ga_ToolVersion = (if trimSpace (tc_ToolVersion c) = [] then ''p0'' else trimSpace (tc_ToolVersion c)),
    ga_ParametersHash = trimSpace (tc_ParametersHash c), ga_Outcome = tc_Outcome c, ga_LatencyMS = max 0 (tc_Latency c div 1000000),
    ga_SourceRefs = sortedNonEmpty (tc_SourceRefs c), ga_ErrorClass = trimSpace (tc_ErrorClass c)\<rparr>"
  define u where "u = \<lparr>gu_EventType = ''mcp_tool_call'', gu_TenantID = trimSpace (tc_TenantID c), gu_ProjectID = trimSpace (tc_ProjectID c),
    gu_CorpusID = trimSpace (tc_CorpusID c), gu_ConnectorID = [], gu_Counts = normalizedCounts (tc_Counts c),
    gu_LatencyMS = max 0 (tc_Latency c div 1000000), gu_TokenUnits = None, gu_EmbeddingUnits = None,
    gu_ErrorClass = trimSpace (tc_ErrorClass c)\<rparr>"
  have a: "validAudit a"
    using assms(1-7) tool by (simp add: validAudit_def a_def trimSpace_idem) (simp add: sortedNonEmpty_def)
  have u: "validUsage u"
    using assms(2,3,8) m by (simp add: validUsage_def u_def usageEventTypes_def trimSpace_idem)
  have "ga_ParametersHash a \<noteq> []" using assms(5) by (simp add: a_def)
  with a u have ev: "eventsFromMCPToolCall c = Inr (a, u)"
    unfolding eventsFromMCPToolCall_def Let_def a_def [symmetric] u_def [symmetric] by simp
  show thesis by (rule that [OF ev a u]) (simp_all add: a_def sortedNonEmpty_def)
qed

lemma tool_call_recorded:
  assumes "eventsFromMCPToolCall c = Inr (a, u)" and "validAudit a" and "validUsage u"
  shows "recordMCPToolCall f c st =
    (if wf_Audit f then (Inl AuditWriteFailed, st)
     else if wf_Usage f then (Inl UsageWriteFailed, st\<lparr>gs_AuditEvents := gs_AuditEvents st @ [a]\<rparr>)
     else (Inr (a, u), \<lparr>gs_AuditEvents = gs_AuditEvents st @ [a], gs_UsageEvents = gs_UsageEvents st @ [u]\<rparr>))"
  using assms by (simp add: recordMCPToolCall_def writeAuditEvent_def writeUsageEvent_def)

lemma hash_total:
  assumes "\<forall>v. cd_marshal cd v \<noteq> None"
  shows "\<exists>h. hashParameters cd m = Some h \<and> trimSpace h \<noteq> []"
proof -
  obtain z where "cd_marshal cd (AnyObject m) = Some z" using assms by blast
  then show ?thesis using sha256_visible by (simp add: hashParameters_def)
qed


lemma answered_events:
  assumes "missingToolFields (normalizeToolRequest q) = []" and "trimSpace caller = caller" and "caller \<noteq> []"
    and "\<forall>v. cd_marshal cd v \<noteq> None" and "governanceOutcome (dr_Status out) = ''denied'' \<longrightarrow> dr_Results out = []"
    and "n = normalizeToolRequest q"
    and "c = \<lparr>tc_PrincipalID = caller, tc_TenantID = tq_TenantID n, tc_ProjectID = tq_ProjectID n, tc_CorpusID = tq_CorpusID n,
      tc_ToolName = ''search_docs'', tc_ToolVersion = ''p0'', tc_ParametersHash = governanceHash cd n out,
      tc_Outcome = governanceOutcome (dr_Status out), tc_Latency = latency, tc_SourceRefs = resultRefs (dr_Results out),
      tc_ErrorClass = governanceErrorClass out, tc_Counts = Some (governanceCounts out)\<rparr>"
  obtains a u where "eventsFromMCPToolCall c = Inr (a, u)" "validAudit a" "validUsage u" "ga_PrincipalID a = caller"
    "ga_Outcome a = governanceOutcome (dr_Status out)" "set (ga_SourceRefs a) = set (resultRefs (dr_Results out))"
proof -
  have t: "trimSpace ''request_count'' \<noteq> []" "trimSpace ''result_count'' \<noteq> []" "trimSpace ''source_ref_count'' \<noteq> []"
    "trimSpace ''denied_count'' \<noteq> []" by code_simp+
  have scope: "trimSpace (tq_ProjectID n) \<noteq> []" "trimSpace (tq_CorpusID n) \<noteq> []"
    using assms(1) by (auto simp: missingToolFields_def normalizeToolRequest_def trimSpace_idem assms(6) split: if_splits)
  have hash: "trimSpace (governanceHash cd n out) \<noteq> []"
    using hash_total [OF assms(4), of "[(''corpus_id'', AnyString (tq_CorpusID n)),
       (''query_hash'', AnyString (us_QueryHash (dr_Usage out))), (''limit'', AnyScalar (showInt (tq_Limit n)))]"]
    by (auto simp: governanceHash_def)
  have outcome: "validOutcome (governanceOutcome (dr_Status out))" by (simp add: governanceOutcome_def validOutcome_def)
  have refs: "map trimSpace (resultRefs hs) = resultRefs hs" "filter (\<lambda>v. v \<noteq> []) (resultRefs hs) = resultRefs hs" for hs
    by (rule map_idI) (auto simp: resultRefs_def trimSpace_idem)
  obtain a u where au: "eventsFromMCPToolCall c = Inr (a, u)" "validAudit a" "validUsage u" "ga_PrincipalID a = trimSpace (tc_PrincipalID c)"
    "ga_Outcome a = tc_Outcome c" "set (ga_SourceRefs a) = set (filter (\<lambda>v. v \<noteq> []) (map trimSpace (tc_SourceRefs c)))"
    by (rule tool_call_events [of c "governanceCounts out"])
      (use t scope hash outcome assms(2,3,5) in \<open>simp_all add: assms(7) governanceCounts_def resultRefs_def\<close>)
  show thesis
    by (rule that [OF au(1-3)]) (use au(4-6) in \<open>simp_all only: assms(2,7) ToolCall.simps refs\<close>)
qed

lemma answered_call:
  assumes "authenticate (mc_Authenticator srv) (trimSpace (tq_Authorization q)) = Some caller" and "mc_SearchDocs srv = Some search"
    and "mc_Governed srv" and "missingToolFields (normalizeToolRequest q) = []" and "search (docsRequest caller q) = Inr out"
    and "governanceOutcome (dr_Status out) = ''denied'' \<longrightarrow> dr_Results out = []" and "\<forall>v. cd_marshal cd v \<noteq> None"
  shows "\<exists>a u. invokeSearchDocs cd f latency srv q st =
      (if wf_Audit f then (Inl (GovernanceFault AuditWriteFailed), st)
       else if wf_Usage f then (Inl (GovernanceFault UsageWriteFailed), st\<lparr>gs_AuditEvents := gs_AuditEvents st @ [a]\<rparr>)
       else (Inr out, \<lparr>gs_AuditEvents = gs_AuditEvents st @ [a], gs_UsageEvents = gs_UsageEvents st @ [u]\<rparr>))
    \<and> ga_PrincipalID a = caller \<and> ga_Outcome a = governanceOutcome (dr_Status out)
    \<and> set (ga_SourceRefs a) = set (resultRefs (dr_Results out))"
proof -
  define n where "n = normalizeToolRequest q"
  define c where "c = \<lparr>tc_PrincipalID = caller, tc_TenantID = tq_TenantID n, tc_ProjectID = tq_ProjectID n, tc_CorpusID = tq_CorpusID n,
      tc_ToolName = ''search_docs'', tc_ToolVersion = ''p0'', tc_ParametersHash = governanceHash cd n out,
      tc_Outcome = governanceOutcome (dr_Status out), tc_Latency = latency, tc_SourceRefs = resultRefs (dr_Results out),
      tc_ErrorClass = governanceErrorClass out, tc_Counts = Some (governanceCounts out)\<rparr>"
  obtain a u where au: "eventsFromMCPToolCall c = Inr (a, u)" "validAudit a" "validUsage u" "ga_PrincipalID a = caller"
    "ga_Outcome a = governanceOutcome (dr_Status out)" "set (ga_SourceRefs a) = set (resultRefs (dr_Results out))"
    by (rule answered_events [OF assms(4) _ _ assms(7,6) n_def c_def]) (use authenticate_name [OF assms(1)] in auto)
  have "invokeSearchDocs cd f latency srv q st = (case recordMCPToolCall f c st of
      (Inl e, st1) \<Rightarrow> (Inl (GovernanceFault e), st1) | (Inr _, st1) \<Rightarrow> (Inr out, st1))"
    unfolding invoke_authenticated [OF assms(1,2)] Let_def by (simp add: assms(3-5) c_def n_def)
  then show ?thesis
    unfolding tool_call_recorded [OF au(1-3)] using au(4-6) by (intro exI [of _ a] exI [of _ u]) simp
qed


section \<open>A server with one file of one line\<close>

definition sampleCatalog :: AdmissionCatalog where
  "sampleCatalog = \<lparr>ca_Corpora = [''kb'' \<mapsto> \<lparr>co_CorpusID = ''kb'', co_ProjectID = ''p'', co_DisplayName = ''Notes'',
     co_AdmissionStatus = ''admitted'', co_ReadabilityModel = ''uniform_readable''\<rparr>], ca_Sources = Map.empty\<rparr>"

definition sampleCall :: ToolRequest where
  "sampleCall = \<lparr>tq_Authorization = ''Bearer t'', tq_RequestID = ''r'', tq_TenantID = ''t'', tq_ProjectID = ''p'', tq_CorpusID = ''kb'',
     tq_Query = ''hello'', tq_Limit = 3\<rparr>"

definition sampleServer :: "Searcher \<Rightarrow> McpServer" where
  "sampleServer s = \<lparr>mc_Authenticator = \<lparr>au_Token = ''t'', au_PrincipalID = ''me''\<rparr>,
     mc_SearchDocs = Some (serviceSearch (searchService (\<lambda>_. 0) sampleCatalog s)), mc_Governed = True\<rparr>"

definition sampleStrict :: Codec where
  "sampleStrict = \<lparr>cd_decode = (\<lambda>_. None), cd_marshal = (\<lambda>_. Some []), cd_paragraphs = (\<lambda>_. None)\<rparr>"

lemma sample_call:
  "authenticate (mc_Authenticator (sampleServer s)) (trimSpace (tq_Authorization sampleCall)) = Some ''me''"
  "missingToolFields (normalizeToolRequest sampleCall) = []"
proof -
  have "trimSpace ''Bearer t'' = ''Bearer t''" "trimSpace ''t'' = ''t''" "trimSpace ''me'' = ''me''" "hasPrefix ''Bearer t'' ''Bearer ''"
    by code_simp+
  then show "authenticate (mc_Authenticator (sampleServer s)) (trimSpace (tq_Authorization sampleCall)) = Some ''me''"
    by (simp add: authenticate_def sampleServer_def sampleCall_def Let_def)
  show "missingToolFields (normalizeToolRequest sampleCall) = []" by code_simp
qed

lemma sample_hello:
  obtains r x p where "extractText ''hello'' sampleOptions = Inr r" "ex_Passages r = [p]" "ex_Anchors r = [x, x]"
    "x = rangeAnchor sampleOptions TypeText [''hello''] [] 1 1" "pg_Text p = ''hello''" "pg_CorpusID p = ''kb''" "pg_DocumentID p = ''doc''"
    "pg_DocumentVersionID p = ''v1''" "pg_AnchorID p = an_AnchorID x" "pg_SourceRef p = an_SourceRef x" "trimSpace (pg_PassageID p) \<noteq> []"
proof -
  have lines: "splitLines ''hello'' = [''hello'']" "trimSpace ''hello'' \<noteq> []" "\<not> blankLine ''hello''" "lineRangeText [''hello''] 1 1 = ''hello''"
    "firstTextBlockIndex [''hello''] = 0" "missingOptions sampleOptions = []" "scanWhile (\<lambda>l. \<not> blankLine l) [''hello''] 0 = 1"
    "trimSpace (op_CorpusID sampleOptions) = ''kb''" "trimSpace (op_DocumentID sampleOptions) = ''doc''"
    "trimSpace (op_DocumentVersionID sampleOptions) = ''v1''" by code_simp+
  define x where "x = rangeAnchor sampleOptions TypeText [''hello''] [] 1 1"
  have x: "lineAnchor sampleOptions [] 1 1 ''hello'' TypeText = x" unfolding x_def lines(4) ..
  have stop: "textLoop o1 d [''hello''] 1 n r = r" for o1 d n r by (subst textLoop.simps) simp
  define B where "B = newBaseResult sampleOptions ''txt'' [''hello'']"
  have B: "ex_Anchors B = []" "ex_Passages B = []" by (simp_all add: B_def newBaseResult_def)
  obtain d r0 where r0: "addNode sampleOptions NodeDocument [] 0 [] 1 1 ''hello'' TypeText B = (d, r0)" by fastforce
  have e0: "ex_Anchors r0 = [x]"
    using addNode_anchors [of sampleOptions NodeDocument "[]" 0 "[]" 1 1 "''hello''" TypeText B, unfolded r0 B] lines(2) x by simp
  have p0: "ex_Passages r0 = []"
    using addNode_other [of NodeDocument sampleOptions "[]" 0 "[]" 1 1 "''hello''" TypeText B, unfolded r0 B] by simp
  define r where "r = snd (addNode sampleOptions NodeBlock d 1 [] 1 1 ''hello'' TypeText r0)"
  have "extractText ''hello'' sampleOptions = Inr (textLoop sampleOptions d [''hello''] 0 1 r0)"
    using r0 unfolding B_def by (simp add: extractText_def lines Let_def)
  moreover have "textLoop sampleOptions d [''hello''] 0 1 r0 = r"
    by (subst textLoop.simps) (simp add: lines [unfolded One_nat_def] stop [unfolded One_nat_def] Let_def r_def)
  moreover obtain p where "ex_Passages r = [p]" "pg_AnchorID p = an_AnchorID x" "pg_SourceRef p = an_SourceRef x"
    "pg_Text p = ''hello''" "pg_CorpusID p = ''kb''" "pg_DocumentVersionID p = ''v1''" "pg_DocumentID p = ''doc''"
    by (rule addNode_passages [of sampleOptions NodeBlock d 1 "[]" 1 1 "''hello''" TypeText r0]) (simp add: p0 lines r_def x [unfolded One_nat_def])
  moreover have "ex_Anchors r = [x, x]" using lines(2) x by (simp add: r_def addNode_anchors e0)
  moreover have "trimSpace (pg_PassageID p) \<noteq> []" if "ex_Passages r = [p]" for p
    using that p0 sha256_visible by (auto simp: r_def addNode_def Let_def stableID_def split: if_splits)
  ultimately show thesis using that x_def by blast
qed

definition calm :: WriteFaults where
  "calm = \<lparr>wf_Audit = False, wf_Usage = False\<rparr>"

definition noRecords :: GovStore where
  "noRecords = \<lparr>gs_AuditEvents = [], gs_UsageEvents = []\<rparr>"

text \<open>The one passage is found for the word it contains and passes the service's checks.\<close>

lemma sample_searcher:
  obtains r s c fs h where "newSearcher sampleCatalog [r] = Inr s" "catalogued fs c r"
    "searchDocs (\<lambda>_. 0) s (Some (callerScope ''me'' sampleCall)) \<lparr>qu_Text = ''hello'', qu_Limit = 3\<rparr> = Inr \<lparr>rr_Status = ''ok'', rr_Results = [h]\<rparr>"
    "validateAnchoredResult h = None"
proof -
  obtain r x p where r: "extractText ''hello'' sampleOptions = Inr r" "ex_Passages r = [p]" "ex_Anchors r = [x, x]"
    and x: "x = rangeAnchor sampleOptions TypeText [''hello''] [] 1 1"
    and p: "pg_Text p = ''hello''" "pg_CorpusID p = ''kb''" "pg_DocumentID p = ''doc''" "pg_DocumentVersionID p = ''v1''"
      "pg_AnchorID p = an_AnchorID x" "pg_SourceRef p = an_SourceRef x" "trimSpace (pg_PassageID p) \<noteq> []"
    by (rule sample_hello)
  have kind: "lineKind TypeText" by (simp add: lineKind_def)
  have ref: "an_SourceRef x = lineRef sampleOptions TypeText 1 1"
    unfolding x by (rule lineAnchor_ref [OF sample_files(3) kind])
  have visible: "trimSpace (an_AnchorID x) \<noteq> []" "trimSpace (an_SourceRef x) \<noteq> []"
    using sha256_visible lineRef_trim [OF sample_files(3)] by (simp_all add: ref) (simp_all add: x lineAnchor_def computeAnchorID_def lineRef_def)
  have heading: "an_HeadingPath x = []" "an_AnchorType x = TypeText" by (simp_all add: x lineAnchor_def trimSpace_def)
  define ip where "ip = indexedPassage p x"
  define s where "s = \<lparr>sh_Admission = sampleCatalog, sh_Index = [ip]\<rparr>"
  have s: "newSearcher sampleCatalog [r] = Inr s"
    using visible by (simp add: newSearcher_def newIndex_def r p anchorsByID_def ip_def s_def)
  have word: "termCounts (strJoin [CHR 0x0A] [''hello'', []]) ''hello'' = 1" "queryTerms ''hello'' = [''hello'']" "trimSpace ''hello'' = ''hello''"
    "anchorSpecificity x = 5" by (code_simp, code_simp, code_simp, simp add: anchorSpecificity_def heading anchor_types)
  have ip: "ip_Passage ip = p" "ip_Anchor ip = x" "ip_TermCounts ip = termCounts (strJoin [CHR 0x0A] [''hello'', []])" "ip_Specificity ip = 5"
    by (simp_all add: ip_def indexedPassage_def Let_def p(1) heading word(4))
  have score: "scorePassage (\<lambda>_. 0) [''hello''] ip = 41 / 20"
    using word(1) by (simp add: scorePassage_def ip heading isCompositeJSONPassage_def anchor_types)
  have full: "scoped (Some (callerScope ''me'' sampleCall)) (callerScope ''me'' sampleCall)"
    by (rule complete_scope(1) [OF sample_call(2)]) code_simp
  then have require: "requireFromContext (Some (callerScope ''me'' sampleCall)) ''retrieval'' = Inr (callerScope ''me'' sampleCall)"
    using require_retrieval by simp
  have "admitted sampleCatalog (callerScope ''me'' sampleCall) \<lparr>co_CorpusID = ''kb'', co_ProjectID = ''p'', co_DisplayName = ''Notes'',
     co_AdmissionStatus = ''admitted'', co_ReadabilityModel = ''uniform_readable''\<rparr>" unfolding admitted_def by code_simp
  then have allowed: "ad_Allowed (checkCorpus (sh_Admission s) (Some (callerScope ''me'' sampleCall)) ''search_docs'' hash)" for hash
    using full unfolding checkCorpus_allowed s_def by auto
  have corpus: "xc_CorpusID (callerScope ''me'' sampleCall) = ''kb''" by code_simp
  have "scoredPassages (\<lambda>_. 0) [''hello''] ''kb'' [ip] = [(41 / 20, ip)]"
    using score p(2) by (simp add: scoredPassages_def ip)
  then have found: "searchDocs (\<lambda>_. 0) s (Some (callerScope ''me'' sampleCall)) \<lparr>qu_Text = ''hello'', qu_Limit = 3\<rparr>
      = Inr \<lparr>rr_Status = ''ok'', rr_Results = [hitOf (41 / 20, ip)]\<rparr>"
    using visible p(5,6) unfolding searchDocs_def Let_def
    by (simp add: word require allowed corpus effectiveLimit_def) (simp add: s_def ip)
  have ids: "trimSpace ''kb'' = ''kb''" "trimSpace ''v1'' = ''v1''" "trimSpace ''doc'' = ''doc''"
    "trimSpace (op_CorpusID sampleOptions) = ''kb''" "trimSpace (op_DocumentVersionID sampleOptions) = ''v1''" by code_simp+
  have "0 < roundScore (41 / 20)" by (simp add: roundScore_def)
  then have valid: "validateAnchoredResult (hitOf (41 / 20, ip)) = None"
    using visible p word(3) lineRef_parse [OF sample_files(3) kind, of 1 1]
    by (simp add: validateAnchoredResult_def hitOf_def ip ref ids)
  let ?v = "\<lparr>dv_DocumentVersionID = trimSpace (op_DocumentVersionID sampleOptions), dv_Sources = [(op_Path sampleOptions, ''f'')]\<rparr>"
  have "trimSpace ''f'' = ''f''" "trimSpace (trimSpace (op_DocumentVersionID sampleOptions)) \<noteq> []"
    "trimSpace (op_Path sampleOptions) \<noteq> []" by code_simp+
  then obtain c where c: "registerDocumentVersion ?v emptyCatalog = Inr c" and f: "trimSpace ''f'' = ''f''"
    by (auto simp: registerDocumentVersion_def Let_def)
  have ex: "extracted TypeText ''hello'' sampleOptions r" using r(1) by (simp add: extracted_def)
  have "CHR 0x5C \<notin> set (op_Path sampleOptions)" by code_simp
  moreover have "readFile [''f'' \<mapsto> Readable ''hello''] (trimSpace ''f'') = Some ''hello''" by (simp add: readFile_def f)
  ultimately have cat: "catalogued [''f'' \<mapsto> Readable ''hello''] (registerAll (ex_Anchors r) c) r"
    using registered_holds [OF ex sample_files(3) c] ex sample_files(3) unfolding catalogued_def by blast
  show thesis by (rule that [OF s cat found valid])
qed

lemma sample_run:
  obtains r s c fs out st' where "newSearcher sampleCatalog [r] = Inr s" "catalogued fs c r"
    "invokeSearchDocs sampleStrict calm 0 (sampleServer s) sampleCall noRecords = (Inr out, st')" "dr_Results out \<noteq> []"
proof -
  obtain r s c fs h where s: "newSearcher sampleCatalog [r] = Inr s" "catalogued fs c r"
    "searchDocs (\<lambda>_. 0) s (Some (callerScope ''me'' sampleCall)) \<lparr>qu_Text = ''hello'', qu_Limit = 3\<rparr> = Inr \<lparr>rr_Status = ''ok'', rr_Results = [h]\<rparr>"
    "validateAnchoredResult h = None"
    by (rule sample_searcher)
  let ?svc = "searchService (\<lambda>_. 0) sampleCatalog s" and ?x = "callerScope ''me'' sampleCall"
  have me: "trimSpace ''me'' = ''me''" "trimSpace (tq_Query sampleCall) = ''hello''" "tq_Limit sampleCall = 3" by code_simp+
  have ne: "trimSpace ''me'' \<noteq> []" by (simp add: me)
  have "admitted sampleCatalog ?x \<lparr>co_CorpusID = ''kb'', co_ProjectID = ''p'', co_DisplayName = ''Notes'',
     co_AdmissionStatus = ''admitted'', co_ReadabilityModel = ''uniform_readable''\<rparr>" unfolding admitted_def by code_simp
  then have allowed: "ad_Allowed (checkCorpus sampleCatalog (Some ?x) ''search_docs'' hash)" for hash
    using complete_scope(1) [OF sample_call(2) ne] unfolding checkCorpus_allowed by auto
  obtain hash u where "serviceSearch ?svc (docsRequest ''me'' sampleCall) = fromRetrievalResponse \<lparr>rr_Status = ''ok'', rr_Results = [h]\<rparr> u"
    by (rule serviceSearch_complete [OF sample_call(2) ne, of ?svc "searchDocs (\<lambda>_. 0) s" ?x])
      (auto simp: allowed Let_def me s(3))
  then obtain out where out: "serviceSearch ?svc (docsRequest ''me'' sampleCall) = Inr out" "dr_Results out = [convertHit h]"
    using s(4) by (simp add: fromRetrievalResponse_def convertResults_def withStatus_def)
  obtain res st' where run: "invokeSearchDocs sampleStrict calm 0 (sampleServer s) sampleCall noRecords = (res, st')" by fastforce
  have total: "\<forall>v. cd_marshal sampleStrict v \<noteq> None" by (simp add: sampleStrict_def)
  have server: "mc_Governed (sampleServer s)" "mc_SearchDocs (sampleServer s) = Some (serviceSearch ?svc)" by (simp_all add: sampleServer_def)
  have "governanceOutcome (dr_Status out) = ''denied'' \<longrightarrow> dr_Results out = []"
    using search_answers [OF sample_call(2) ne, where lg = "\<lambda>_. 0" and cat = sampleCatalog and s = s] out(1) by simp
  then have "res = Inr out"
    using answered_call [OF sample_call(1) server(2,1) sample_call(2) out(1) _ total, of calm 0 noRecords] run by (auto simp: calm_def)
  with s(1,2) run out(2) show thesis by (intro that) auto
qed

theorem served_results_are_evidence_witness:
  "\<exists>r s c fs out st' h res. newSearcher sampleCatalog [r] = Inr s
     \<and> invokeSearchDocs sampleStrict calm 0 (sampleServer s) sampleCall noRecords = (Inr out, st')
     \<and> h \<in> set (dr_Results out) \<and> resolveSourceRef sampleStrict fs c (ht_SourceRef h) = Some res
     \<and> rs_Status res = StatusResolved \<and> trimSpace (rs_Excerpt res) = ht_Snippet h"
proof -
  obtain r s c fs out st' where run: "newSearcher sampleCatalog [r] = Inr s" "catalogued fs c r"
    "invokeSearchDocs sampleStrict calm 0 (sampleServer s) sampleCall noRecords = (Inr out, st')" "dr_Results out \<noteq> []"
    by (rule sample_run)
  have server: "mc_SearchDocs (sampleServer s) = Some (serviceSearch (searchService (\<lambda>_. 0) sampleCatalog s))"
    by (simp add: sampleServer_def)
  let ?h = "hd (dr_Results out)"
  have h: "?h \<in> set (dr_Results out)" by (rule hd_in_set [OF run(4)])
  obtain res where "resolveSourceRef sampleStrict fs c (ht_SourceRef ?h) = Some res" "rs_Status res = StatusResolved"
    "trimSpace (rs_Excerpt res) = ht_Snippet ?h"
    using served_results_are_evidence [OF run(1) server run(3,4), of fs c] h run(2) by auto
  with run(1,3) h show ?thesis by blast
qed


end
