(* ===== verification/Dif_Code.thy ===== *)
theory Dif_Code
  imports Dif_Api
begin

text \<open>
  Code entities named by documents: the compatibility report over the code graph's entities and the lookups in
  it, \<open>dif/code/libs/rifcompat/rifcompat.go\<close>, and the candidates and their resolution into edges,
  \<open>libs/codeentities/candidates.go\<close> (the candidate and its validation) and \<open>resolver.go\<close>.  What the SQL
  inspector reads is the argument \<open>Surface\<close>.
\<close>

section \<open>The compatibility report\<close>

record CodeEntity =
  et_EntityAlias :: string
  et_NodeID :: string
  et_RepoID :: string
  et_Kind :: string
  et_QualifiedName :: string
  et_SimpleName :: string
  et_SourceRef :: string
  et_Origin :: string
  et_Confidence :: string

record Surface =
  su_Schemas :: "string list"
  su_ShadowAvailable :: bool
  su_ShadowEntities :: "CodeEntity list"
  su_AGEAvailable :: bool
  su_AGEEntities :: "CodeEntity list"
  su_MissingFields :: "string list"

record RifReport =
  rf_Status :: string
  rf_ShadowStatus :: string
  rf_Matches :: "CodeEntity list"
  rf_MissingCapabilities :: "string list"
  rf_Caveats :: "string list"

definition requiredEntityFields :: "(string \<times> (CodeEntity \<Rightarrow> string)) list" where
  "requiredEntityFields = [(''node_id'', et_NodeID), (''repo_id'', et_RepoID), (''kind'', et_Kind),
     (''qualified_name'', et_QualifiedName), (''source_ref'', et_SourceRef), (''origin'', et_Origin), (''confidence'', et_Confidence)]"

definition normalizeEntity :: "CodeEntity \<Rightarrow> CodeEntity" where
  "normalizeEntity e =
     \<lparr>et_EntityAlias = trimSpace (et_EntityAlias e), et_NodeID = trimSpace (et_NodeID e), et_RepoID = trimSpace (et_RepoID e),
      et_Kind = trimSpace (et_Kind e), et_QualifiedName = trimSpace (et_QualifiedName e), et_SimpleName = trimSpace (et_SimpleName e),
      et_SourceRef = trimSpace (et_SourceRef e), et_Origin = trimSpace (et_Origin e), et_Confidence = trimSpace (et_Confidence e)\<rparr>"

definition missingCapabilities :: "CodeEntity list \<Rightarrow> string list \<Rightarrow> string list" where
  "missingCapabilities es explicit = sort (remdups (filter (\<lambda>f. f \<noteq> []) (map trimSpace explicit)
     @ concat (map (\<lambda>e. map fst (filter (\<lambda>f. trimSpace (snd f e) = []) requiredEntityFields)) es)))"

definition sortedEntities :: "CodeEntity list \<Rightarrow> CodeEntity list" where
  "sortedEntities es = sort_key et_NodeID es"

definition plainReport :: "string \<Rightarrow> string \<Rightarrow> string list \<Rightarrow> RifReport" where
  "plainReport status shadow caveats =
     \<lparr>rf_Status = status, rf_ShadowStatus = shadow, rf_Matches = [], rf_MissingCapabilities = [], rf_Caveats = caveats\<rparr>"

definition assessSurface :: "Surface \<Rightarrow> RifReport" where
  "assessSurface su =
     (let schemas = map trimSpace (su_Schemas su);
          shadow = map normalizeEntity (su_ShadowEntities su); age = map normalizeEntity (su_AGEEntities su);
          lacking = missingCapabilities (shadow @ age) (su_MissingFields su) in
      if ''rif'' \<notin> set schemas \<and> ''rif_meta'' \<notin> set schemas
      then plainReport ''rif_not_deployed'' [] [''No RIF compatibility surface is available.'']
      else if shadow \<noteq> [] \<and> missingCapabilities shadow [] = []
      then (plainReport ''rif_compatible'' ''rif_shadow_populated'' [])\<lparr>rf_Matches := sortedEntities shadow\<rparr>
      else if age \<noteq> [] \<and> missingCapabilities age [] = []
      then (plainReport ''rif_compatible'' ''rif_shadow_empty'' [''RIF relational shadows are empty; AGE fallback is active.''])
        \<lparr>rf_Matches := sortedEntities age\<rparr>
      else if su_ShadowAvailable su
      then plainReport ''rif_incompatible'' ''rif_shadow_empty'' [''RIF shadows are empty and no AGE/API fallback is available.'']
      else if lacking \<noteq> []
      then (plainReport ''rif_incompatible'' [] [''Required RIF compatibility fields are unavailable.''])\<lparr>rf_MissingCapabilities := lacking\<rparr>
      else plainReport ''rif_incompatible'' [] [''RIF compatibility surface has no usable code entities.''])"

section \<open>Lookups\<close>

datatype LookupMode = LookupQualifiedName | LookupSourcePath | LookupSimpleName

record LookupResult =
  lu_Status :: string
  lu_Confidence :: string
  lu_Matches :: "CodeEntity list"
  lu_Caveats :: "string list"

definition kindRank :: "string \<Rightarrow> nat" where
  "kindRank k = (case map_of [(''METHOD'', 0), (''CLASS'', 1), (''INTERFACE'', 2), (''RECORD'', 3), (''ENUM'', 4), (''FILE'', 5)] k of
     None \<Rightarrow> 0 | Some n \<Rightarrow> n)"

text \<open>
  The comparison of \<open>sortedLookupMatches\<close>, which orders two different confidences only when one is
  \<open>exact\<close> and so is no strict order on all entities, and \<open>sort.SliceStable\<close> as the insertion sort it is on
  runs of up to twenty elements: each element moves back past those it is less than.
\<close>

definition lookupLess :: "CodeEntity \<Rightarrow> CodeEntity \<Rightarrow> bool" where
  "lookupLess l r =
     (if et_Confidence l \<noteq> et_Confidence r then et_Confidence l = ''exact''
      else if kindRank (et_Kind l) \<noteq> kindRank (et_Kind r) then kindRank (et_Kind l) < kindRank (et_Kind r)
      else if length (et_QualifiedName l) \<noteq> length (et_QualifiedName r) then length (et_QualifiedName l) < length (et_QualifiedName r)
      else if et_QualifiedName l \<noteq> et_QualifiedName r then et_QualifiedName l < et_QualifiedName r
      else et_NodeID l < et_NodeID r)"

fun moveBack :: "('a \<Rightarrow> 'a \<Rightarrow> bool) \<Rightarrow> 'a \<Rightarrow> 'a list \<Rightarrow> 'a list" where
  "moveBack lt x [] = [x]"
| "moveBack lt x (y # ys) = (if lt x y then y # moveBack lt x ys else x # y # ys)"

definition sliceStable :: "('a \<Rightarrow> 'a \<Rightarrow> bool) \<Rightarrow> 'a list \<Rightarrow> 'a list" where
  "sliceStable lt xs = rev (foldl (\<lambda>sorted0 x. moveBack lt x sorted0) [] xs)"

definition sortedLookupMatches :: "CodeEntity list \<Rightarrow> CodeEntity list" where
  "sortedLookupMatches es = sliceStable lookupLess es"

definition lookupHit :: "LookupMode \<Rightarrow> string \<Rightarrow> CodeEntity \<Rightarrow> bool" where
  "lookupHit mode q e = (case mode of
       LookupQualifiedName \<Rightarrow> et_QualifiedName e = q
     | LookupSourcePath \<Rightarrow> et_Kind e = ''FILE'' \<and> et_QualifiedName e = q
     | LookupSimpleName \<Rightarrow> et_SimpleName e = q)"

definition resolveLookup :: "RifReport \<Rightarrow> LookupMode \<Rightarrow> string \<Rightarrow> LookupResult" where
  "resolveLookup r mode q0 =
     (if rf_Status r \<noteq> ''rif_compatible''
      then \<lparr>lu_Status = rf_Status r, lu_Confidence = [], lu_Matches = [], lu_Caveats = rf_Caveats r\<rparr>
      else let matches = sortedLookupMatches (filter (lookupHit mode (trimSpace q0)) (rf_Matches r));
               confidence = (if mode = LookupSimpleName then ''inferred'' else ''exact'') in
        \<lparr>lu_Status = (if matches = [] then ''unresolved'' else ''resolved''), lu_Confidence = confidence, lu_Matches = matches,
         lu_Caveats = (if mode = LookupSimpleName \<and> length matches > 1 then [''ambiguous_simple_name''] else [])\<rparr>)"

definition sharedEdgeID :: "string \<Rightarrow> string \<Rightarrow> string \<Rightarrow> string" where
  "sharedEdgeID a label b = sha256 (strJoin [CHR 0x00] [a, label, b])"

section \<open>Candidates\<close>

record Candidate =
  cn_CandidateID :: string
  cn_CorpusID :: string
  cn_DocumentID :: string
  cn_DocumentVersionID :: string
  cn_NodeID :: string
  cn_AnchorID :: string
  cn_SourceRef :: string
  cn_CandidateText :: string
  cn_CandidateKind :: string
  cn_MatchStatus :: string
  cn_ResolvedRIFNodeID :: string
  cn_MatchMode :: string
  cn_Confidence :: string
  cn_Caveats :: "string list"

datatype CandidateFault = CandidateLacks string | TextTooLong | BadKind string | BadStatus string | BadMode string
  | BadConfidence string | ResolvedWithoutNode | NodeWithoutResolution

definition firstBlank :: "(string \<times> string) list \<Rightarrow> string option" where
  "firstBlank fields0 = map_option fst (find (\<lambda>f. trimSpace (snd f) = []) fields0)"

definition allowedKinds :: "string list" where
  "allowedKinds = [''class'', ''method'', ''file_path'', ''service'', ''unknown'']"

definition allowedStatuses :: "string list" where
  "allowedStatuses = [''unresolved'', ''resolved'', ''ambiguous'', ''rif_unavailable'']"

definition allowedModes :: "string list" where
  "allowedModes = [''qualified-name'', ''source-path'', ''simple-name'', ''fuzzy'']"

definition allowedConfidences :: "string list" where
  "allowedConfidences = [''exact'', ''inferred'']"

definition validateCandidate :: "Candidate \<Rightarrow> CandidateFault option" where
  "validateCandidate c = (case firstBlank [(''candidate_id'', cn_CandidateID c), (''corpus_id'', cn_CorpusID c),
       (''document_id'', cn_DocumentID c), (''document_version_id'', cn_DocumentVersionID c), (''node_id'', cn_NodeID c),
       (''anchor_id'', cn_AnchorID c), (''source_ref'', cn_SourceRef c), (''candidate_text'', cn_CandidateText c)] of
       Some f \<Rightarrow> Some (CandidateLacks f)
     | None \<Rightarrow>
         if length (cn_CandidateText c) > 256 then Some TextTooLong
         else if cn_CandidateKind c \<notin> set allowedKinds then Some (BadKind (cn_CandidateKind c))
         else if cn_MatchStatus c \<notin> set allowedStatuses then Some (BadStatus (cn_MatchStatus c))
         else if cn_MatchMode c \<notin> set allowedModes then Some (BadMode (cn_MatchMode c))
         else if cn_Confidence c \<notin> set allowedConfidences then Some (BadConfidence (cn_Confidence c))
         else if cn_MatchStatus c = ''resolved'' \<and> trimSpace (cn_ResolvedRIFNodeID c) = [] then Some ResolvedWithoutNode
         else if cn_MatchStatus c \<noteq> ''resolved'' \<and> trimSpace (cn_ResolvedRIFNodeID c) \<noteq> [] then Some NodeWithoutResolution
         else None)"

section \<open>Edges\<close>

record DescribesEdge =
  dg_EdgeID :: string
  dg_CorpusID :: string
  dg_DocumentID :: string
  dg_DocumentVersionID :: string
  dg_FromNodeID :: string
  dg_ToRIFNodeID :: string
  dg_RepoID :: string
  dg_CandidateID :: string
  dg_AnchorID :: string
  dg_SourceRef :: string
  dg_CodeSourceRef :: string
  dg_MatchMode :: string
  dg_Confidence :: string
  dg_Caveats :: "string list"

datatype EdgeFault = NotResolved string | EvidenceMismatch | EdgeLacks string | ForeignEdgeID | BadEdgeMode string | BadEdgeConfidence string

definition validateDescribes :: "DescribesEdge \<Rightarrow> EdgeFault option" where
  "validateDescribes g = (case firstBlank [(''edge_id'', dg_EdgeID g), (''corpus_id'', dg_CorpusID g), (''document_id'', dg_DocumentID g),
       (''document_version_id'', dg_DocumentVersionID g), (''from_node_id'', dg_FromNodeID g), (''to_rif_node_id'', dg_ToRIFNodeID g),
       (''repo_id'', dg_RepoID g), (''candidate_id'', dg_CandidateID g), (''anchor_id'', dg_AnchorID g), (''source_ref'', dg_SourceRef g),
       (''code_source_ref'', dg_CodeSourceRef g)] of
       Some f \<Rightarrow> Some (EdgeLacks f)
     | None \<Rightarrow>
         if dg_EdgeID g \<noteq> sharedEdgeID (dg_FromNodeID g) ''DESCRIBES'' (dg_ToRIFNodeID g) then Some ForeignEdgeID
         else if dg_MatchMode g \<notin> set allowedModes then Some (BadEdgeMode (dg_MatchMode g))
         else if dg_Confidence g \<notin> set allowedConfidences then Some (BadEdgeConfidence (dg_Confidence g))
         else None)"

definition describes :: "Candidate \<Rightarrow> CodeEntity \<Rightarrow> DescribesEdge" where
  "describes c e =
     \<lparr>dg_EdgeID = sharedEdgeID (cn_NodeID c) ''DESCRIBES'' (et_NodeID e), dg_CorpusID = cn_CorpusID c, dg_DocumentID = cn_DocumentID c,
      dg_DocumentVersionID = cn_DocumentVersionID c, dg_FromNodeID = cn_NodeID c, dg_ToRIFNodeID = et_NodeID e,
      dg_RepoID = et_RepoID e, dg_CandidateID = cn_CandidateID c, dg_AnchorID = cn_AnchorID c, dg_SourceRef = cn_SourceRef c,
      dg_CodeSourceRef = et_SourceRef e, dg_MatchMode = cn_MatchMode c, dg_Confidence = cn_Confidence c,
      dg_Caveats = sortedNonEmpty (cn_Caveats c)\<rparr>"

definition newDescribesEdge :: "Candidate \<Rightarrow> CodeEntity \<Rightarrow> EdgeFault + DescribesEdge" where
  "newDescribesEdge c e =
     (if cn_MatchStatus c \<noteq> ''resolved'' then Inl (NotResolved (cn_MatchStatus c))
      else if trimSpace (cn_ResolvedRIFNodeID c) = [] \<or> cn_ResolvedRIFNodeID c \<noteq> et_NodeID e then Inl EvidenceMismatch
      else case validateDescribes (describes c e) of Some f \<Rightarrow> Inl f | None \<Rightarrow> Inr (describes c e))"

text \<open>\<open>MemoryEdgeStore.WriteDescribesEdges\<close>: all edges or none.\<close>

definition writeDescribesEdges :: "DescribesEdge list \<Rightarrow> DescribesEdge list \<Rightarrow> EdgeFault option \<times> DescribesEdge list" where
  "writeDescribesEdges gs stored = (case List.map_filter validateDescribes gs of
       f # _ \<Rightarrow> (Some f, stored)
     | [] \<Rightarrow> (None, stored @ gs))"

section \<open>Resolution\<close>

definition upperByte :: "char \<Rightarrow> char" where
  "upperByte c = (if 97 \<le> byte c \<and> byte c \<le> 122 then char_of (byte c - 32) else c)"

text \<open>Splitting, lower-casing and the capital of each part are bytewise, as for an ASCII text.\<close>

definition snakeToPascal :: "string \<Rightarrow> string" where
  "snakeToPascal s = concat (map (\<lambda>p. case p of [] \<Rightarrow> [] | c # cs \<Rightarrow> upperByte c # cs) (splitByte (CHR ''_'') (toLower s)))"

definition lookupForCandidate :: "RifReport \<Rightarrow> Candidate \<Rightarrow> LookupResult \<times> string list" where
  "lookupForCandidate r c =
     (let txt0 = trimSpace (cn_CandidateText c) in
      if cn_MatchMode c = ''qualified-name''
      then (resolveLookup r LookupQualifiedName (if hasSuffix txt0 ''()'' then dropEnd 2 txt0 else txt0), [])
      else if cn_MatchMode c = ''source-path'' then (resolveLookup r LookupSourcePath txt0, [])
      else if cn_MatchMode c = ''simple-name'' then (resolveLookup r LookupSimpleName txt0, [])
      else if cn_MatchMode c = ''fuzzy''
      then (let result = resolveLookup r LookupSimpleName txt0; pascal = snakeToPascal txt0 in
        if lu_Status result \<noteq> ''resolved'' \<and> pascal \<noteq> txt0
        then (resolveLookup r LookupSimpleName pascal, [''fuzzy_match'']) else (result, [''fuzzy_match'']))
      else (\<lparr>lu_Status = ''unresolved'', lu_Confidence = [], lu_Matches = [], lu_Caveats = []\<rparr>, []))"

definition confidenceFrom :: "string \<Rightarrow> string \<Rightarrow> string" where
  "confidenceFrom confidence mode =
     (if mode = ''fuzzy'' \<or> mode = ''simple-name'' then ''inferred''
      else if confidence = ''inferred'' then ''inferred'' else ''exact'')"

definition resolveOne :: "RifReport \<Rightarrow> Candidate \<Rightarrow> Candidate \<times> CodeEntity list" where
  "resolveOne r c = (case lookupForCandidate r c of (lookup0, caveats0) \<Rightarrow>
     let caveats = caveats0 @ lu_Caveats lookup0; ms = lu_Matches lookup0 in
     if lu_Status lookup0 \<noteq> ''resolved'' \<or> ms = []
     then (c\<lparr>cn_MatchStatus := ''unresolved'', cn_Caveats := sortedNonEmpty (cn_Caveats c @ caveats)\<rparr>, [])
     else if length ms > 1
     then (c\<lparr>cn_MatchStatus := ''ambiguous'', cn_Caveats := sortedNonEmpty (cn_Caveats c @ caveats @ [''ambiguous_match''])\<rparr>, ms)
     else (c\<lparr>cn_MatchStatus := ''resolved'', cn_ResolvedRIFNodeID := et_NodeID (hd ms),
             cn_Confidence := confidenceFrom (lu_Confidence lookup0) (cn_MatchMode c),
             cn_Caveats := sortedNonEmpty (cn_Caveats c @ caveats)\<rparr>, [hd ms]))"

record ResolutionMetrics =
  rm_CorpusID :: string
  rm_Total :: nat
  rm_Resolved :: nat
  rm_Ambiguous :: nat
  rm_Unresolved :: nat
  rm_RIFUnavailable :: nat

record ResolutionOutcome =
  ro_RIFStatus :: string
  ro_Candidates :: "(Candidate \<times> CodeEntity list) list"
  ro_Edges :: "DescribesEdge list"
  ro_Metrics :: "ResolutionMetrics list"

datatype ResolveFault = BadCandidate string CandidateFault | AlreadyDecided string string | BadDescribesEdge EdgeFault

definition metricsFor :: "(string \<times> ResolutionMetrics) list \<Rightarrow> string \<Rightarrow> ResolutionMetrics" where
  "metricsFor ms corpus = (case map_of ms corpus of
       Some m \<Rightarrow> m
     | None \<Rightarrow> \<lparr>rm_CorpusID = corpus, rm_Total = 0, rm_Resolved = 0, rm_Ambiguous = 0, rm_Unresolved = 0, rm_RIFUnavailable = 0\<rparr>)"

definition countStatus :: "string \<Rightarrow> ResolutionMetrics \<Rightarrow> ResolutionMetrics" where
  "countStatus status m0 = (let m = m0\<lparr>rm_Total := rm_Total m0 + 1\<rparr> in
     if status = ''rif_unavailable'' then m\<lparr>rm_RIFUnavailable := rm_RIFUnavailable m + 1\<rparr>
     else if status = ''resolved'' then m\<lparr>rm_Resolved := rm_Resolved m + 1\<rparr>
     else if status = ''ambiguous'' then m\<lparr>rm_Ambiguous := rm_Ambiguous m + 1\<rparr>
     else m\<lparr>rm_Unresolved := rm_Unresolved m + 1\<rparr>)"

text \<open>One turn of the loop without its checks: what becomes of the candidate, and with which matches.\<close>

definition decideCandidate :: "RifReport \<Rightarrow> Candidate \<Rightarrow> Candidate \<times> CodeEntity list" where
  "decideCandidate r c =
     (if rf_Status r \<noteq> ''rif_compatible''
      then (c\<lparr>cn_MatchStatus := ''rif_unavailable'',
              cn_Caveats := sortedNonEmpty (cn_Caveats c @ [''rif_status:'' @ rf_Status r])\<rparr>, [])
      else resolveOne r c)"

fun resolveLoop :: "RifReport \<Rightarrow> Candidate list \<Rightarrow> (string \<times> ResolutionMetrics) list \<Rightarrow> (Candidate \<times> CodeEntity list) list
    \<Rightarrow> DescribesEdge list \<Rightarrow> ResolveFault + ((string \<times> ResolutionMetrics) list \<times> (Candidate \<times> CodeEntity list) list \<times> DescribesEdge list)" where
  "resolveLoop r [] ms out edges = Inr (ms, out, edges)"
| "resolveLoop r (c # cs) ms out edges =
     (case validateCandidate c of
        Some f \<Rightarrow> Inl (BadCandidate (cn_CandidateID c) f)
      | None \<Rightarrow>
          if cn_MatchStatus c \<noteq> ''unresolved'' then Inl (AlreadyDecided (cn_CandidateID c) (cn_MatchStatus c))
          else let (c1, es) = decideCandidate r c;
                   ms1 = mapPut (cn_CorpusID c) (countStatus (cn_MatchStatus c1) (metricsFor ms (cn_CorpusID c))) ms in
            if cn_MatchStatus c1 = ''resolved''
            then (case newDescribesEdge c1 (hd es) of
                Inl f \<Rightarrow> Inl (BadDescribesEdge f)
              | Inr g \<Rightarrow> resolveLoop r cs ms1 (out @ [(c1, es)]) (edges @ [g]))
            else resolveLoop r cs ms1 (out @ [(c1, es)]) edges)"

definition resolveCandidates :: "RifReport \<Rightarrow> Candidate list \<Rightarrow> ResolveFault + ResolutionOutcome" where
  "resolveCandidates r cs = (case resolveLoop r cs [] [] [] of
       Inl f \<Rightarrow> Inl f
     | Inr (ms, out, edges) \<Rightarrow> Inr \<lparr>ro_RIFStatus = rf_Status r, ro_Candidates = out, ro_Edges = sort_key dg_EdgeID edges,
         ro_Metrics = sort_key rm_CorpusID (map snd ms)\<rparr>)"

end
