(* ===== verification/Dif_Resolve.thy ===== *)
theory Dif_Resolve
  imports Dif_Code
begin

text \<open>
  What the resolver answers: on any assessed report and any valid candidates it succeeds, and its edges, statuses
  and counts are those of a direct reading of the entities each candidate names.
\<close>

section \<open>The entities a candidate names\<close>

definition lookedUp :: "RifReport \<Rightarrow> Candidate \<Rightarrow> LookupMode \<times> string" where
  "lookedUp r c =
     (let txt0 = trimSpace (cn_CandidateText c) in
      if cn_MatchMode c = ''qualified-name'' then (LookupQualifiedName, if hasSuffix txt0 ''()'' then dropEnd 2 txt0 else txt0)
      else if cn_MatchMode c = ''source-path'' then (LookupSourcePath, txt0)
      else if cn_MatchMode c = ''simple-name'' then (LookupSimpleName, txt0)
      else (LookupSimpleName, if \<exists>e\<in>set (rf_Matches r). et_SimpleName e = txt0 then txt0 else snakeToPascal txt0))"

definition evidence :: "RifReport \<Rightarrow> Candidate \<Rightarrow> CodeEntity list" where
  "evidence r c = (if rf_Status r \<noteq> ''rif_compatible'' then []
     else filter (lookupHit (fst (lookedUp r c)) (trimSpace (snd (lookedUp r c)))) (rf_Matches r))"

definition verdict :: "RifReport \<Rightarrow> Candidate \<Rightarrow> string" where
  "verdict r c = (if rf_Status r \<noteq> ''rif_compatible'' then ''rif_unavailable''
     else case evidence r c of [] \<Rightarrow> ''unresolved'' | [e] \<Rightarrow> ''resolved'' | _ \<Rightarrow> ''ambiguous'')"

lemma mset_moveBack: "mset (moveBack lt x ys) = add_mset x (mset ys)"
  by (induction ys) auto

lemma mset_sliceStable: "mset (sliceStable lt xs) = mset xs"
proof -
  have "mset (foldl (\<lambda>sorted0 x. moveBack lt x sorted0) ys xs) = mset ys + mset xs" for ys
    by (induction xs arbitrary: ys) (simp_all add: mset_moveBack)
  from this [of "[]"] show ?thesis by (simp add: sliceStable_def)
qed

lemma sortedLookupMatches_mset: "mset (sortedLookupMatches es) = mset es"
  by (simp add: sortedLookupMatches_def mset_sliceStable)

lemma sortedLookupMatches_length: "length (sortedLookupMatches es) = length es"
  using sortedLookupMatches_mset mset_eq_length by blast

lemma sortedLookupMatches_Nil: "sortedLookupMatches es = [] \<longleftrightarrow> es = []"
  by (metis length_0_conv sortedLookupMatches_length)

lemma sortedLookupMatches_one: "sortedLookupMatches [e] = [e]"
  by (simp add: sortedLookupMatches_def sliceStable_def)

lemma lookup_some:
  "rf_Status r = ''rif_compatible'' \<Longrightarrow> lu_Matches (resolveLookup r m q) = sortedLookupMatches (filter (lookupHit m (trimSpace q)) (rf_Matches r))
    \<and> (lu_Status (resolveLookup r m q) = ''resolved'' \<longleftrightarrow> filter (lookupHit m (trimSpace q)) (rf_Matches r) \<noteq> [])"
  by (simp add: resolveLookup_def Let_def sortedLookupMatches_Nil)

lemma lookup_evidence:
  assumes "rf_Status r = ''rif_compatible''" and "cn_MatchMode c \<in> set allowedModes"
  shows "lu_Matches (fst (lookupForCandidate r c)) = sortedLookupMatches (evidence r c)"
    and "lu_Status (fst (lookupForCandidate r c)) = ''resolved'' \<longleftrightarrow> evidence r c \<noteq> []"
proof -
  let ?t = "trimSpace (cn_CandidateText c)"
  have simple: "filter (lookupHit LookupSimpleName (trimSpace ?t)) (rf_Matches r) \<noteq> [] \<longleftrightarrow> (\<exists>e\<in>set (rf_Matches r). et_SimpleName e = ?t)"
    by (auto simp: filter_empty_conv lookupHit_def trimSpace_idem)
  have "lu_Matches (fst (lookupForCandidate r c)) = sortedLookupMatches (evidence r c)
      \<and> (lu_Status (fst (lookupForCandidate r c)) = ''resolved'' \<longleftrightarrow> evidence r c \<noteq> [])"
    using assms(2) lookup_some [OF assms(1)] simple
    by (auto simp: lookupForCandidate_def Let_def evidence_def lookedUp_def assms(1) allowedModes_def)
  then show "lu_Matches (fst (lookupForCandidate r c)) = sortedLookupMatches (evidence r c)"
    "lu_Status (fst (lookupForCandidate r c)) = ''resolved'' \<longleftrightarrow> evidence r c \<noteq> []" by auto
qed

section \<open>One candidate\<close>

definition completeReport :: "RifReport \<Rightarrow> bool" where
  "completeReport r \<longleftrightarrow> (\<forall>e\<in>set (rf_Matches r). \<forall>f\<in>set requiredEntityFields. trimSpace (snd f e) \<noteq> [])"

lemma missing_none: "missingCapabilities es [] = [] \<Longrightarrow> \<forall>e\<in>set es. \<forall>f\<in>set requiredEntityFields. trimSpace (snd f e) \<noteq> []"
proof -
  assume "missingCapabilities es [] = []"
  then have "set (missingCapabilities es []) = {}" by simp
  then show ?thesis by (auto simp: missingCapabilities_def filter_empty_conv)
qed

lemma assessSurface_complete: "completeReport (assessSurface su)"
  using missing_none [of "map normalizeEntity (su_ShadowEntities su)"] missing_none [of "map normalizeEntity (su_AGEEntities su)"]
  by (auto simp: assessSurface_def completeReport_def plainReport_def sortedEntities_def Let_def)

lemma firstBlank_None: "firstBlank fs = None \<longleftrightarrow> (\<forall>f\<in>set fs. trimSpace (snd f) \<noteq> [])"
  by (auto simp: firstBlank_def find_None_iff_all)

lemma decide_verdict:
  assumes "cn_MatchMode c \<in> set allowedModes"
  shows "cn_MatchStatus (fst (decideCandidate r c)) = verdict r c"
    and "evidence r c = [e] \<Longrightarrow> snd (decideCandidate r c) = [e] \<and> cn_ResolvedRIFNodeID (fst (decideCandidate r c)) = et_NodeID e"
proof -
  note ev = lookup_evidence [OF _ assms, of r]
  have len: "length (lu_Matches (fst (lookupForCandidate r c))) = length (evidence r c)" if "rf_Status r = ''rif_compatible''"
    by (simp add: ev(1) [OF that] sortedLookupMatches_length)
  show "cn_MatchStatus (fst (decideCandidate r c)) = verdict r c"
    using ev len by (cases "evidence r c" rule: remdups_adj.cases)
      (auto simp: decideCandidate_def resolveOne_def verdict_def Let_def split_beta split: list.split)
  show "snd (decideCandidate r c) = [e] \<and> cn_ResolvedRIFNodeID (fst (decideCandidate r c)) = et_NodeID e" if one: "evidence r c = [e]"
  proof -
    have c: "rf_Status r = ''rif_compatible''" using one by (simp add: evidence_def split: if_splits)
    show ?thesis using ev [OF c] one
      by (simp add: sortedLookupMatches_one decideCandidate_def resolveOne_def c Let_def split_beta)
  qed
qed

lemma decide_keeps:
  "cn_CandidateID (fst (decideCandidate r c)) = cn_CandidateID c" "cn_CorpusID (fst (decideCandidate r c)) = cn_CorpusID c"
  "cn_DocumentID (fst (decideCandidate r c)) = cn_DocumentID c" "cn_DocumentVersionID (fst (decideCandidate r c)) = cn_DocumentVersionID c"
  "cn_NodeID (fst (decideCandidate r c)) = cn_NodeID c" "cn_AnchorID (fst (decideCandidate r c)) = cn_AnchorID c"
  "cn_SourceRef (fst (decideCandidate r c)) = cn_SourceRef c" "cn_MatchMode (fst (decideCandidate r c)) = cn_MatchMode c"
  by (simp_all add: decideCandidate_def resolveOne_def Let_def split_beta)

lemma decide_confidence:
  "cn_Confidence c \<in> set allowedConfidences \<Longrightarrow> cn_Confidence (fst (decideCandidate r c)) \<in> set allowedConfidences"
  by (auto simp: decideCandidate_def resolveOne_def Let_def split_beta confidenceFrom_def allowedConfidences_def)

lemma valid_ranges: "validateCandidate c = None \<Longrightarrow> cn_MatchMode c \<in> set allowedModes \<and> cn_Confidence c \<in> set allowedConfidences"
  by (auto simp: validateCandidate_def split: option.splits if_splits)

lemma decided_edge:
  assumes "completeReport r" and "validateCandidate c = None" and "evidence r c = [e]"
  shows "newDescribesEdge (fst (decideCandidate r c)) e = Inr (describes (fst (decideCandidate r c)) e)"
proof -
  have mode: "cn_MatchMode c \<in> set allowedModes" "cn_Confidence c \<in> set allowedConfidences"
    using valid_ranges [OF assms(2)] by simp_all
  have fields: "trimSpace (cn_CandidateID c) \<noteq> []" "trimSpace (cn_CorpusID c) \<noteq> []" "trimSpace (cn_DocumentID c) \<noteq> []"
    "trimSpace (cn_DocumentVersionID c) \<noteq> []" "trimSpace (cn_NodeID c) \<noteq> []" "trimSpace (cn_AnchorID c) \<noteq> []"
    "trimSpace (cn_SourceRef c) \<noteq> []"
    using assms(2) by (auto simp: validateCandidate_def firstBlank_None split: option.splits)
  have "set (evidence r c) \<subseteq> set (rf_Matches r)" by (auto simp: evidence_def)
  then have "e \<in> set (rf_Matches r)" using assms(3) by simp
  then have entity: "trimSpace (et_NodeID e) \<noteq> []" "trimSpace (et_RepoID e) \<noteq> []" "trimSpace (et_SourceRef e) \<noteq> []"
    using assms(1) by (auto simp: completeReport_def requiredEntityFields_def)
  have "verdict r c = ''resolved''" using assms(3) by (auto simp: verdict_def evidence_def split: if_splits)
  moreover have "validateDescribes (describes (fst (decideCandidate r c)) e) = None"
    using fields entity mode(1) decide_confidence [OF mode(2)] sha256_visible
    by (simp add: validateDescribes_def describes_def firstBlank_def decide_keeps sharedEdgeID_def)
  ultimately show ?thesis
    using decide_verdict [OF mode(1), of r] assms(3) entity(1) by (simp add: newDescribesEdge_def)
qed

section \<open>All candidates\<close>

definition edgesOf :: "RifReport \<Rightarrow> Candidate \<Rightarrow> DescribesEdge list" where
  "edgesOf r c = (case evidence r c of [e] \<Rightarrow> [describes (fst (decideCandidate r c)) e] | _ \<Rightarrow> [])"

definition tally :: "RifReport \<Rightarrow> Candidate list \<Rightarrow> string \<Rightarrow> ResolutionMetrics" where
  "tally r cs k = (let n = (\<lambda>v. length (filter (\<lambda>c. cn_CorpusID c = k \<and> verdict r c = v) cs)) in
     \<lparr>rm_CorpusID = k, rm_Total = length (filter (\<lambda>c. cn_CorpusID c = k) cs), rm_Resolved = n ''resolved'',
      rm_Ambiguous = n ''ambiguous'', rm_Unresolved = n ''unresolved'', rm_RIFUnavailable = n ''rif_unavailable''\<rparr>)"

lemma verdict_cases: "verdict r c \<in> {''rif_unavailable'', ''unresolved'', ''resolved'', ''ambiguous''}"
  by (simp add: verdict_def split: list.split)

lemma tally_snoc: "tally r (cs @ [c]) (cn_CorpusID c) = countStatus (verdict r c) (tally r cs (cn_CorpusID c))"
proof -
  consider "verdict r c = ''rif_unavailable''" | "verdict r c = ''unresolved''" | "verdict r c = ''resolved''" | "verdict r c = ''ambiguous''"
    using verdict_cases [of r c] by blast
  then show ?thesis by cases (simp_all add: tally_def countStatus_def Let_def)
qed

lemma tally_other: "k \<noteq> cn_CorpusID c \<Longrightarrow> tally r (cs @ [c]) k = tally r cs k"
  by (simp add: tally_def Let_def)

text \<open>The metrics after some candidates: one entry per corpus seen, each a tally.\<close>

definition tallied :: "RifReport \<Rightarrow> Candidate list \<Rightarrow> (string \<times> ResolutionMetrics) list \<Rightarrow> bool" where
  "tallied r cs ms \<longleftrightarrow> distinct (map fst ms) \<and> set (map fst ms) = set (map cn_CorpusID cs) \<and> (\<forall>e\<in>set ms. snd e = tally r cs (fst e))"

lemma tallied_step:
  assumes "tallied r cs ms"
  shows "tallied r (cs @ [c]) (mapPut (cn_CorpusID c) (countStatus (verdict r c) (metricsFor ms (cn_CorpusID c))) ms)"
proof -
  let ?k = "cn_CorpusID c"
  have old: "metricsFor ms ?k = tally r cs ?k"
  proof (cases "map_of ms ?k")
    case None
    then have "?k \<notin> set (map cn_CorpusID cs)" using assms by (auto simp: tallied_def map_of_eq_None_iff)
    then have "\<not> (cn_CorpusID d = ?k)" if "d \<in> set cs" for d using that by (metis image_eqI set_map)
    then have "filter (\<lambda>d. cn_CorpusID d = ?k \<and> P d) cs = []" "filter (\<lambda>d. cn_CorpusID d = ?k) cs = []" for P
      by (auto simp: filter_empty_conv)
    with None show ?thesis by (simp add: metricsFor_def tally_def Let_def)
  next
    case (Some m)
    then have "(?k, m) \<in> set ms" by (rule map_of_SomeD)
    with assms Some show ?thesis by (auto simp: metricsFor_def tallied_def)
  qed
  have "snd e = tally r (cs @ [c]) (fst e)" if e: "e \<in> set (mapPut ?k (countStatus (verdict r c) (metricsFor ms ?k)) ms)" for e
  proof (cases "fst e = ?k")
    case True
    have "distinct (map fst (mapPut ?k (countStatus (verdict r c) (metricsFor ms ?k)) ms))"
      using assms by (auto simp: tallied_def intro: mapPut_distinct)
    moreover have "(?k, snd e) \<in> set (mapPut ?k (countStatus (verdict r c) (metricsFor ms ?k)) ms)"
      using e True by (metis prod.collapse)
    ultimately have "map_of (mapPut ?k (countStatus (verdict r c) (metricsFor ms ?k)) ms) ?k = Some (snd e)" by (rule map_of_is_SomeI)
    then show ?thesis using True by (simp add: map_of_mapPut old tally_snoc)
  next
    case False
    then have "e \<in> set ms" using e mapPut_set [of ?k "countStatus (verdict r c) (metricsFor ms ?k)" ms] by auto
    with assms False show ?thesis by (simp add: tallied_def tally_other)
  qed
  moreover have "set (map fst (mapPut ?k v ms)) = set (map cn_CorpusID (cs @ [c]))" for v
    using assms by (simp only: mapPut_keys tallied_def) auto
  ultimately show ?thesis using assms unfolding tallied_def by (blast intro: mapPut_distinct)
qed

lemma sort_tallies: "sort_key rm_CorpusID (map (tally r cs) ks) = map (tally r cs) (sort ks)"
proof -
  have key: "rm_CorpusID (tally r cs k) = k" for k by (simp add: tally_def Let_def)
  have "insort_key rm_CorpusID (tally r cs k) (map (tally r cs) ks) = map (tally r cs) (insort k ks)" for k ks
    by (induction ks) (simp_all add: key)
  then show ?thesis by (induction ks) simp_all
qed

lemma resolveLoop_reads:
  assumes "completeReport r" and "\<forall>c\<in>set cs. validateCandidate c = None \<and> cn_MatchStatus c = ''unresolved''" and "tallied r pre ms"
  shows "\<exists>ms'. resolveLoop r cs ms out edges = Inr (ms', out @ map (decideCandidate r) cs, edges @ concat (map (edgesOf r) cs))
    \<and> tallied r (pre @ cs) ms'"
  using assms(2,3)
proof (induction cs arbitrary: pre ms out edges)
  case (Cons c cs)
  have here: "validateCandidate c = None" "cn_MatchStatus c = ''unresolved''" using bspec [OF Cons.prems(1), of c] by simp_all
  have mode: "cn_MatchMode c \<in> set allowedModes" using valid_ranges [OF here(1)] by blast
  let ?ms = "mapPut (cn_CorpusID c) (countStatus (verdict r c) (metricsFor ms (cn_CorpusID c))) ms"
  have valid: "\<forall>c\<in>set cs. validateCandidate c = None \<and> cn_MatchStatus c = ''unresolved''"
    using Cons.prems(1) by (meson list.set_intros(2))
  from Cons.IH [OF valid tallied_step [OF Cons.prems(2), of c], of "out @ [decideCandidate r c]" "edges @ edgesOf r c"]
  obtain ms' where next': "resolveLoop r cs ?ms (out @ [decideCandidate r c]) (edges @ edgesOf r c)
      = Inr (ms', (out @ [decideCandidate r c]) @ map (decideCandidate r) cs, (edges @ edgesOf r c) @ concat (map (edgesOf r) cs))"
    "tallied r ((pre @ [c]) @ cs) ms'"
    by (elim exE conjE) (rule that)
  have "resolveLoop r (c # cs) ms out edges = resolveLoop r cs ?ms (out @ [decideCandidate r c]) (edges @ edgesOf r c)"
  proof (cases "verdict r c = ''resolved''")
    case True
    then obtain e where e: "evidence r c = [e]" by (auto simp: verdict_def split: if_splits list.splits)
    have "newDescribesEdge (fst (decideCandidate r c)) e = Inr (describes (fst (decideCandidate r c)) e)"
      by (rule decided_edge [OF assms(1) here(1) e])
    with True e decide_verdict [OF mode, of r] here show ?thesis
      by (cases "decideCandidate r c") (simp add: Let_def edgesOf_def)
  next
    case False
    then have "edgesOf r c = []" by (auto simp: edgesOf_def verdict_def evidence_def split: list.splits if_splits)
    with False decide_verdict(1) [OF mode, of r] here show ?thesis by (simp add: split_beta Let_def)
  qed
  with next' show ?case by simp
qed simp

text \<open>
  C22: the resolver reads the evidence.  On an assessed report and valid unresolved candidates it succeeds; a
  candidate is resolved exactly when it names one entity, ambiguous when it names several, and unavailable
  without a compatible report; the edges, sorted by id, are those from each resolved candidate's node to its
  entity; and the metrics count, per corpus and sorted, exactly these verdicts.
\<close>

theorem resolver_reads_evidence:
  assumes "\<forall>c\<in>set cs. validateCandidate c = None \<and> cn_MatchStatus c = ''unresolved''" and "r = assessSurface su"
  shows "\<exists>out. resolveCandidates r cs = Inr out
    \<and> map (\<lambda>d. (cn_CandidateID (fst d), cn_MatchStatus (fst d))) (ro_Candidates out) = map (\<lambda>c. (cn_CandidateID c, verdict r c)) cs
    \<and> sorted (map dg_EdgeID (ro_Edges out))
    \<and> mset (map (\<lambda>g. (dg_CandidateID g, dg_FromNodeID g, dg_ToRIFNodeID g)) (ro_Edges out))
      = mset (concat (map (\<lambda>c. case evidence r c of [e] \<Rightarrow> [(cn_CandidateID c, cn_NodeID c, et_NodeID e)] | _ \<Rightarrow> []) cs))
    \<and> ro_Metrics out = map (tally r cs) (sorted_list_of_set (set (map cn_CorpusID cs)))"
proof -
  have start: "tallied r [] []" by (simp add: tallied_def)
  have complete: "completeReport r" by (simp only: assms(2) assessSurface_complete)
  from resolveLoop_reads [OF complete assms(1) start, of "[]" "[]", unfolded append_Nil]
  obtain ms where loop: "resolveLoop r cs [] [] [] = Inr (ms, map (decideCandidate r) cs, concat (map (edgesOf r) cs))" and ms: "tallied r cs ms"
    by (elim exE conjE) (rule that)
  have mode: "cn_MatchMode c \<in> set allowedModes" if "c \<in> set cs" for c
    using valid_ranges bspec [OF assms(1) that] by blast
  have snd: "map snd ms = map (tally r cs) (map fst ms)" using ms by (auto simp: tallied_def)
  have metrics: "sort_key rm_CorpusID (map snd ms) = map (tally r cs) (sorted_list_of_set (set (map cn_CorpusID cs)))"
  proof -
    have "sort (map fst ms) = sorted_list_of_set (set (map fst ms))"
      using ms sorted_list_of_set_sort_remdups [of "map fst ms"] distinct_remdups_id [of "map fst ms"] unfolding tallied_def by metis
    moreover have "set (map fst ms) = set (map cn_CorpusID cs)" using ms by (simp add: tallied_def)
    ultimately show ?thesis by (simp only: snd sort_tallies)
  qed
  have edges: "map (\<lambda>g. (dg_CandidateID g, dg_FromNodeID g, dg_ToRIFNodeID g)) (concat (map (edgesOf r) cs))
      = concat (map (\<lambda>c. case evidence r c of [e] \<Rightarrow> [(cn_CandidateID c, cn_NodeID c, et_NodeID e)] | _ \<Rightarrow> []) cs)"
    by (induction cs) (auto simp: edgesOf_def describes_def decide_keeps split: list.splits)
  let ?out = "\<lparr>ro_RIFStatus = rf_Status r, ro_Candidates = map (decideCandidate r) cs,
    ro_Edges = sort_key dg_EdgeID (concat (map (edgesOf r) cs)), ro_Metrics = sort_key rm_CorpusID (map snd ms)\<rparr>"
  have "resolveCandidates r cs = Inr ?out" by (simp add: resolveCandidates_def loop)
  moreover have "map (\<lambda>d. (cn_CandidateID (fst d), cn_MatchStatus (fst d))) (ro_Candidates ?out) = map (\<lambda>c. (cn_CandidateID c, verdict r c)) cs"
    using decide_verdict(1) [OF mode] by (simp add: decide_keeps)
  moreover have "mset (map (\<lambda>g. (dg_CandidateID g, dg_FromNodeID g, dg_ToRIFNodeID g)) (ro_Edges ?out))
      = mset (concat (map (\<lambda>c. case evidence r c of [e] \<Rightarrow> [(cn_CandidateID c, cn_NodeID c, et_NodeID e)] | _ \<Rightarrow> []) cs))"
    by (simp add: mset_map flip: edges)
  moreover have "sorted (map dg_EdgeID (ro_Edges ?out))" by simp
  moreover have "ro_Metrics ?out = map (tally r cs) (sorted_list_of_set (set (map cn_CorpusID cs)))" by (simp only: metrics ResolutionOutcome.simps)
  ultimately show ?thesis by blast
qed

text \<open>
  Two candidates of one corpus on a surface whose relational tables are empty: the method's qualified name is one
  entity of the fallback, while two entities share the simple name that \<open>order_service\<close> falls back to.
\<close>

definition rs_entity :: "string \<Rightarrow> string \<Rightarrow> string \<Rightarrow> string \<Rightarrow> CodeEntity" where
  "rs_entity i kind q simple = \<lparr>et_EntityAlias = [], et_NodeID = i, et_RepoID = ''repo'', et_Kind = kind, et_QualifiedName = q,
     et_SimpleName = simple, et_SourceRef = ''a.go:1'', et_Origin = ''static'', et_Confidence = ''exact''\<rparr>"

definition rs_candidate :: "string \<Rightarrow> string \<Rightarrow> string \<Rightarrow> Candidate" where
  "rs_candidate i txt0 mode = \<lparr>cn_CandidateID = i, cn_CorpusID = ''corpus'', cn_DocumentID = ''doc'', cn_DocumentVersionID = ''v1'',
     cn_NodeID = ''n1'', cn_AnchorID = ''a1'', cn_SourceRef = ''doc.md#L1'', cn_CandidateText = txt0, cn_CandidateKind = ''unknown'',
     cn_MatchStatus = ''unresolved'', cn_ResolvedRIFNodeID = [], cn_MatchMode = mode, cn_Confidence = ''inferred'', cn_Caveats = []\<rparr>"

definition rs_surface :: Surface where
  "rs_surface = \<lparr>su_Schemas = [''rif_meta''], su_ShadowAvailable = True, su_ShadowEntities = [], su_AGEAvailable = True,
     su_AGEEntities = [rs_entity ''e1'' ''METHOD'' ''shop.OrderService.place'' ''place'', rs_entity ''e2'' ''CLASS'' ''shop.OrderService'' ''OrderService'',
       rs_entity ''e3'' ''INTERFACE'' ''api.OrderService'' ''OrderService''],
     su_MissingFields = []\<rparr>"

definition rs_candidates :: "Candidate list" where
  "rs_candidates = [rs_candidate ''c1'' ''shop.OrderService.place()'' ''qualified-name'', rs_candidate ''c2'' ''order_service'' ''fuzzy'']"

lemma rs_verdicts:
  "map (verdict (assessSurface rs_surface)) rs_candidates = [''resolved'', ''ambiguous'']"
  "map (\<lambda>c. map et_NodeID (evidence (assessSurface rs_surface) c)) rs_candidates = [[''e1''], [''e2'', ''e3'']]"
  by code_simp+

theorem resolver_reads_evidence_witness:
  "\<exists>out. resolveCandidates (assessSurface rs_surface) rs_candidates = Inr out
    \<and> map (\<lambda>d. (cn_CandidateID (fst d), cn_MatchStatus (fst d))) (ro_Candidates out) = [(''c1'', ''resolved''), (''c2'', ''ambiguous'')]
    \<and> ro_Metrics out = map (tally (assessSurface rs_surface) rs_candidates) [''corpus'']"
proof -
  have valid: "\<forall>c\<in>set rs_candidates. validateCandidate c = None \<and> cn_MatchStatus c = ''unresolved''" by code_simp
  have statuses: "map (\<lambda>c. (cn_CandidateID c, verdict (assessSurface rs_surface) c)) rs_candidates = [(''c1'', ''resolved''), (''c2'', ''ambiguous'')]"
    by code_simp
  have corpora: "sorted_list_of_set (set (map cn_CorpusID rs_candidates)) = [''corpus'']"
    by (simp add: rs_candidates_def rs_candidate_def)
  from resolver_reads_evidence [OF valid refl [of "assessSurface rs_surface"], unfolded statuses corpora] show ?thesis
    by (elim exE conjE) (intro exI conjI)
qed

end
