(* ===== verification/Spec2Isabelle.thy ===== *)
theory Spec2Isabelle
  imports Topo_Diff Job_Guards Job_Captioned Job_History Job_Validate
    Vria_Wiring Vria_Evidence Rif_Facts Dif_Governed Dif_Resolve
begin

text \<open>
  A verification library of five Go programs of this repository, read from their sources under
  \<open>src/\<close>: the topology engine of the network reviewer (\<open>antr/engine/go\<close>), the backend of the
  transcript agent (\<open>transcript-agent/backend\<close>), the value-realization service (\<open>vria/impl\<close>), the
  graph store of the code-repository service (\<open>cc-rif\<close>) and the document-intelligence service
  (\<open>dif/code\<close>).  Every other theory is imported here.

  \<^bold>\<open>The topology engine.\<close>  A snapshot of a network (VNets, subnets, NICs, security groups, effective
  rules and routes, AVNM rules, firewalls, private endpoints) is analysed into a sorted list of
  findings; a simulator applies a what-if change to a copy of the snapshot, projects it onto the
  effective tables and compares the findings before and after.
    \<^item> \<open>Go_Base\<close>: Go's string functions, "find the first with this name and change it", filtering
      lemmas and the stable sort.  \<open>Net_Prefix\<close>: addresses and prefixes of \<open>net/netip\<close>.
    \<^item> \<open>Topo_Graph\<close>: the structs of \<open>internal/graph/model.go\<close>, one record each.
    \<^item> \<open>Topo_Analyze\<close>, \<open>Topo_Checks\<close>: \<open>internal/analyze/analyze.go\<close>, the four gates of the exposure
      check and the per-resource checks.  A map of the code is its list of entries in an iteration
      order; the theorems quantify over all orders.
    \<^item> \<open>Topo_Delta\<close>, \<open>Topo_Apply\<close>, \<open>Topo_Diff\<close>: \<open>simulator/delta.go\<close>, \<open>apply.go\<close>, \<open>diff.go\<close>.
    \<^item> \<open>Topo_Facts\<close>, \<open>Topo_Exposure\<close>: what the findings mean (which NICs are reported, which rule
      governs, ports as intervals, prefixes as sets of addresses) and that the order of the maps
      does not matter.  \<open>Topo_Simulate\<close>, \<open>Topo_Project\<close>, \<open>Topo_Diff\<close>: changes that undo each other,
      what a projected rule or route guarantees, where the projection is wrong, and the accounting
      of the comparison.

  \<^bold>\<open>The transcript agent: data and store.\<close>  Jobs move from submission through a pipeline of media,
  speech and language providers to a draft, a review and an approved, exported transcript.
    \<^item> \<open>Job_Domain\<close>, \<open>Job_State\<close>: \<open>internal/domain\<close> and \<open>internal/state/state.go\<close>, the records, the
      error values and the table of status transitions.  A result is \<open>Ok\<close>, \<open>Err\<close> or \<open>Panic\<close>.
    \<^item> \<open>Job_Store\<close>, \<open>Job_Library\<close>: \<open>internal/store/memory\<close>, the maps, order slices and indexes
      of the in-memory store as one record, each method a function on it.
    \<^item> \<open>Job_Invariant\<close>: its representation invariant (\<open>table\<close>: a map with its order
      slice).  \<open>Job_Lifecycle\<close>: the calls of the clients as the inductive relation \<open>storeStep\<close>;
      \<open>reachable\<close> stores.  \<open>Job_Review\<close>, \<open>Job_History\<close>: what holds of all of them: nothing dangles, an
      approved job has its immutable version, which never changes again, and the audit trail only
      grows.
    \<^item> \<open>Job_Export\<close>, \<open>Job_Captions\<close>: the renderers, parsers and validators of
      \<open>internal/exporter/exporter.go\<close> and the caption reader of \<open>internal/providers/captions\<close>;
      \<open>Job_Subtitles\<close>, \<open>Job_Roundtrip\<close>, \<open>Job_Validate\<close>, \<open>Job_Captioned\<close>: the round trips, the panics and the
      totality of these.

  \<^bold>\<open>The transcript agent: tools and orchestrator.\<close>
    \<^item> \<open>Job_World\<close>: the state the service runs in (\<open>World\<close>: the store, the audit log's failures, the
      queue, the jobs being driven, the pause and poll clocks) and its collaborators (\<open>Env\<close>: clocks,
      ids, object store, media, speech and language providers, feeds, and the writes of other
      processes between two calls), each a function of the number of calls made so far.  An
      \<open>action\<close> takes a world to a result and a world.
    \<^item> \<open>Job_Tools\<close>, \<open>Job_Pipeline\<close>, \<open>Job_Actions\<close>, \<open>Job_Publish\<close>, \<open>Job_Feeds\<close>: \<open>internal/tools\<close>
      (\<open>tools.go\<close>, \<open>pipeline.go\<close>, \<open>actions.go\<close>, \<open>library.go\<close>) and \<open>internal/audit\<close>.
    \<^item> \<open>Job_Steps\<close>, \<open>Job_Orchestrator\<close>: \<open>internal/orchestrator\<close>, the pipeline steps, the drive loop,
      the queue, the scans, the feed poll and the caption decision.
    \<^item> \<open>Job_Contract\<close> states the locale \<open>guarantee\<close> (a transitive relation every execution stays in) with
      its rules for sequencing and errors, interpreted for the life cycle of the store and for the
      store that stays as it is.  \<open>Job_Rules\<close>, \<open>Job_Ops\<close>, \<open>Job_Service\<close>, \<open>Job_Refine\<close>, \<open>Job_Offices\<close>,
      \<open>Job_Scans\<close>: the contract of every store call, tool and turn, up to the refinement theorem: the
      service makes steps of the life cycle only, so that what is proved of reachable stores holds
      of it.  \<open>Job_Strict\<close>: the high-risk tools fail closed.
    \<^item> \<open>Job_Calm\<close>, \<open>Job_Walk\<close>, \<open>Job_Drive\<close>: which errors a tool can end in, the measure \<open>turnsLeft\<close> on
      statuses and the turns of the loop; \<open>Job_Promises\<close>: no action of the pipeline panics while there are
      ids to draw, and the loop ends before its bound of 32 turns (a status is at most 10
      turns from its end) and leaves no work behind.
      \<open>Job_Bounds\<close>, \<open>Job_Guards\<close>: the numbers of the quality report, retention, and the guards of
      summaries, approvals and cancellations.

  \<^bold>\<open>The value-realization service.\<close>  Use cases are imported and promoted into a registry; a value
  hypothesis per use case changes by approved drafts only; an engine scores hypothesis and metrics
  into versioned assessments; a scheduler re-checks realized value; scorecards over the assessments
  are published, superseded and invalidated under approval.
    \<^item> \<open>Go_Decimal\<close>: decimal numbers and the numbered ids.  \<open>Vria_Approval\<close>: \<open>internal/approval\<close>, the
      errors, the two state machines, separation of duties and the decision log; the locale
      \<open>approval_desk\<close> (a table of requests whose calls file a request or decide one) with its lemmas
      on any such desk, interpreted for the hypothesis and the scorecard service.
    \<^item> \<open>Go_Float\<close>: \<open>float64\<close> as a rational, an infinity or NaN, each operation rounded to the nearest of 53
      bits, halves to even; \<open>Vria_Scoring\<close>: \<open>internal/scoring\<close> on it; \<open>Vria_Score_Facts\<close>: the range of the
      score, what \<open>Realized\<close> and \<open>Scale\<close> take and where rounding decides, the sustainment fold as a reading of
      the last two checks.  \<open>Vria_Evidence\<close>:
      \<open>internal/evidence\<close> and the resolution of conflicting sources.
    \<^item> \<open>Vria_Registry\<close>: \<open>internal/registry\<close>; \<open>Vria_Intake\<close>: what a promotion adds, once, and when the
      audit trail repeats an id.
    \<^item> \<open>Vria_Hypothesis\<close>: \<open>internal/hypothesis\<close>; \<open>Vria_Control\<close>: change control (\<open>hypInv\<close>) and what a
      commit drops.
    \<^item> \<open>Vria_Assessment\<close>: \<open>internal/assessment\<close>; \<open>Vria_Sustain\<close>: the clients' calls \<open>asmtCall\<close>, their
      decomposition into the steps \<open>micro\<close>, the invariant, the append-only history, and that the
      recovery from a regression is out of reach; \<open>Vria_Sweep\<close>: the loop of \<open>advance\<close>, which is a partial function, ends because the
      window is positive, and the sweep keeps each use case's cadence.
    \<^item> \<open>Vria_Scorecard\<close>: \<open>internal/scorecard\<close>; \<open>Vria_Publish\<close>: the publication gate, the history of a
      card, and what supersession does not look at.
    \<^item> \<open>Vria_Api\<close>: \<open>internal/api\<close>, every handler over one \<open>Server\<close> (the services wired as \<open>NewServer\<close>
      wires them); \<open>Vria_Serve\<close>: \<open>serverCall\<close>, that each request is a run of service calls
      (which carries the services' invariants over), what a decision does, that a refused request changes
      nothing and that an approval always commits; \<open>Vria_Wiring\<close>: what the
      wiring cannot do, because nothing writes the sponsor and the approval state it reads.

  \<^bold>\<open>The graph store.\<close>  Nodes and edges of a code graph under 64-digit ids, held in memory and
  saved as a whole after every write.
    \<^item> \<open>Rif_Store\<close>: \<open>cc-rif/libs/graphstore\<close> (\<open>graphstore.go\<close>, \<open>json_store.go\<close>).  Each file operation
      of \<open>save\<close> may fail, and its successive disk states are listed, so that a crash is one of them.
      The orders in which Go iterates its maps are an argument (\<open>Orders\<close>).
    \<^item> \<open>Rif_Reach\<close>: the locale \<open>frontier_search\<close> of a search that proceeds by frontiers and its
      extension \<open>edge_search\<close>, interpreted for the two searches of the code: what is visited after \<open>n\<close> hops is
      what the relation of the edges reaches in at most \<open>n\<close> steps.  \<open>Rif_Facts\<close>: the reachable stores, the
      answers of the queries and the atomicity of a write.

  \<^bold>\<open>The document-intelligence service.\<close>  Files are extracted into nodes, anchors and passages; an anchor
  resolves to the lines it stands for; requests are admitted per corpus and source.
    \<^item> \<open>Go_Sha256\<close>: SHA-256, since ids and content hashes are compared.  \<open>Dif_Anchors\<close>:
      \<open>libs/sourceanchors\<close>.  \<open>Dif_Extract\<close>: the text and Markdown extractors of \<open>libs/extraction\<close> and
      \<open>libs/ingestionruns\<close>.  \<open>Dif_Grounded\<close>: what is extracted resolves verbatim, no line of a text is
      lost, the last line of a Markdown block is.
    \<^item> \<open>Dif_Admission\<close>: \<open>libs/requestctx\<close> and \<open>libs/admission\<close>, and that admission fails closed.
    \<^item> \<open>Dif_Retrieval\<close>: \<open>libs/retrieval\<close>; \<open>Dif_Api\<close>: the service of \<open>libs/searchdocs\<close>, the records of
      \<open>libs/auditusage\<close> and the boundary of \<open>libs/mcpapi\<close>.  \<open>Dif_Governed\<close> puts them together with the
      anchors: what the assembled server serves is admitted, authenticated and verbatim evidence, and
      every call is accounted for.  (Verbatim are text and Markdown passages under ids that can be read back out of a
      reference.)
    \<^item> \<open>Dif_Code\<close>: the compatibility report of \<open>libs/rifcompat\<close> and the candidates and resolver of
      \<open>libs/codeentities\<close>; \<open>Dif_Resolve\<close>: the statuses, edges and counts of a resolution are a direct
      reading of the entities each candidate names.

  \<^bold>\<open>Conventions.\<close>  \<open>int\<close> of the code is \<open>int\<close>, with \<open>wrapInt\<close> (64 bits) written out wherever user or
  provider values are multiplied or added; counters of list lengths are not wrapped.  \<open>float64\<close> is
  rounded as above in the scoring engine, and an exact rational elsewhere (the confidences and the quality score of
  a transcript, the score of a retrieved passage, whose logarithm is a parameter), where a comparison or a tie that
  rounding decides may differ.  The graph store's file holds the graph itself: JSON, which turns an \<open>int\<close> property into a
  \<open>float64\<close>, counts as the identity.  \<open>sort.SliceStable\<close> under \<open>lookupLess\<close>, which is no strict order, is the insertion sort
  that Go uses for up to 20 elements; a longer list may come out in another order.  Strings are byte strings; \<open>ToLower\<close>, \<open>EqualFold\<close>, \<open>Fields\<close>, \<open>TrimSpace\<close> and
  \<open>unicode.IsLetter\<close> are modelled on ASCII.  \<open>uuid.New\<close> draws from the list \<open>en_uuids\<close> of distinct
  ids; running out is the panic of a failing random source, and the theorems allow for it.  Times are
  nanoseconds.  Fresh mutable objects are values: where the code changes its copy of a job, the model
  returns the changed job.

  \<^bold>\<open>Not modelled.\<close>  Metrics and log lines; the Postgres store (SQL); of the transcript agent the HTTP API, its middleware and
  the process start-up; the XML decoding of feeds and the bodies of the media, speech, language and
  caption providers, which are parameters with the results the code tells apart; the goroutines of
  \<open>Start\<close>, of which a turn is modelled, their interleaving being the interference of \<open>en_others\<close>; a
  step interrupted by its own deadline, which counts as a shutdown.  On the topology side: the Azure
  adapter and the JSON of fixtures (network and encoding), the MCP server and the renderers, the
  generator's templates.  Of the value-realization service: the decoding of JSON, the cleaning of paths by
  \<open>ServeMux\<close>, the MCP server and the metric connectors.  Of the graph service: the
  store on the AGE database (Cypher and SQL) and the ingestion and MCP services.  Of the document service: the DOCX and
  JSON extractors, the detection of code entities by regular expressions, the emission of graph records, the embeddings, the
  SQL stores and the start-up.  The older copy of the engine in \<open>azure-network-topology-reviewer\<close> and the
  other programs of the repository are not modelled.
\<close>

end
